(* ===== verification/Iccp_Prelude.thy ===== *)
theory Iccp_Prelude
  imports Main "HOL-Library.Word"
begin

unbundle bit_operations_syntax

text \<open>
  Shared material of the development: the C integer types as words, the memory layout of
  integers on the little-endian hosts the daemon is built for, the byte-order macros of the C
  library, C strings, the write buffer the messages are prepared in, the interface \<open>codec\<close> that
  every packed structure of the wire protocol implements, and the collections of rewrite rules
  the component theories extend.
\<close>

named_theorems wire_simps \<open>sizes and round trips of the packed structures\<close>
named_theorems const_defs \<open>the numeric constants of the headers\<close>
named_theorems frame_simps \<open>the fields an operation leaves alone\<close>

type_synonym byte = "8 word"
type_synonym u8 = "8 word"
type_synonym u16 = "16 word"
type_synonym u32 = "32 word"
type_synonym u64 = "64 word"
type_synonym bytes = "8 word list"

section \<open>Integers in memory and byte order\<close>

text \<open>The bytes of a 16-bit and of a 32-bit integer as a little-endian host stores them.\<close>

definition le16 :: "u16 \<Rightarrow> bytes" where
  "le16 w = [ucast w, ucast (drop_bit 8 w)]"

definition le32 :: "u32 \<Rightarrow> bytes" where
  "le32 w = [ucast w, ucast (drop_bit 8 w), ucast (drop_bit 16 w), ucast (drop_bit 24 w)]"

definition of_le16 :: "byte \<Rightarrow> byte \<Rightarrow> u16" where
  "of_le16 a b = ucast a OR push_bit 8 (ucast b)"

definition of_le32 :: "byte \<Rightarrow> byte \<Rightarrow> byte \<Rightarrow> byte \<Rightarrow> u32" where
  "of_le32 a b c d =
     ucast a OR push_bit 8 (ucast b) OR push_bit 16 (ucast c) OR push_bit 24 (ucast d)"

text \<open>\<open>htons\<close>/\<open>ntohs\<close> and \<open>htonl\<close>/\<open>ntohl\<close> swap the bytes on such a host.\<close>

definition htons :: "u16 \<Rightarrow> u16" where
  "htons w = of_le16 (ucast (drop_bit 8 w)) (ucast w)"

definition htonl :: "u32 \<Rightarrow> u32" where
  "htonl w = of_le32 (ucast (drop_bit 24 w)) (ucast (drop_bit 16 w))
     (ucast (drop_bit 8 w)) (ucast w)"

abbreviation ntohs :: "u16 \<Rightarrow> u16" where "ntohs \<equiv> htons"
abbreviation ntohl :: "u32 \<Rightarrow> u32" where "ntohl \<equiv> htonl"

lemma of_le16_le16 [simp]: "of_le16 (ucast w) (ucast (drop_bit 8 w)) = w"
  by (rule bit_word_eqI) (auto simp: of_le16_def bit_simps)

lemma ucast_of_le16 [simp]: "ucast (of_le16 a b) = a"
  by (rule bit_word_eqI) (auto simp: of_le16_def bit_simps)

lemma ucast_drop_of_le16 [simp]: "ucast (drop_bit 8 (of_le16 a b)) = b"
  by (rule bit_word_eqI) (auto simp: of_le16_def bit_simps dest: bit_imp_le_length)

lemma of_le32_le32 [simp]:
  "of_le32 (ucast w) (ucast (drop_bit 8 w)) (ucast (drop_bit 16 w)) (ucast (drop_bit 24 w)) = w"
proof (rule bit_word_eqI)
  fix n :: nat
  assume "n < LENGTH(32)"
  then consider "n < 8" | "8 \<le> n \<and> n < 16" | "16 \<le> n \<and> n < 24" | "24 \<le> n \<and> n < 32"
    by fastforce
  then show "bit (of_le32 (ucast w) (ucast (drop_bit 8 w)) (ucast (drop_bit 16 w))
      (ucast (drop_bit 24 w))) n = bit w n"
    by cases (auto simp: of_le32_def bit_simps)
qed

lemma ucast_of_le32 [simp]:
  "ucast (of_le32 a b c d) = a"
  "ucast (drop_bit 8 (of_le32 a b c d)) = b"
  "ucast (drop_bit 16 (of_le32 a b c d)) = c"
  "ucast (drop_bit 24 (of_le32 a b c d)) = d"
  by (rule bit_word_eqI; auto simp: of_le32_def bit_simps dest: bit_imp_le_length)+

lemma htons_htons [simp]: "htons (htons w) = w"
  by (simp add: htons_def)

lemma htonl_htonl [simp]: "htonl (htonl w) = w"
  by (simp add: htonl_def)

lemma htons_inject [simp]: "htons a = htons b \<longleftrightarrow> a = b"
  by (metis htons_htons)

lemma htonl_inject [simp]: "htonl a = htonl b \<longleftrightarrow> a = b"
  by (metis htonl_htonl)

lemma length_le [simp]: "length (le16 w) = 2" "length (le32 v) = 4"
  by (simp_all add: le16_def le32_def)

section \<open>C strings\<close>

text \<open>
  A C string is the character array up to its first zero byte. A character array without a zero
  byte is not a string: reading it runs past the array, which \<open>c_string\<close> reports as \<open>None\<close>.
\<close>

definition byte_of_char :: "char \<Rightarrow> byte" where
  "byte_of_char c = word_of_nat (of_char c)"

definition char_of_byte :: "byte \<Rightarrow> char" where
  "char_of_byte b = char_of (unat b)"

definition c_string :: "bytes \<Rightarrow> string option" where
  "c_string bs =
     (if 0 \<in> set bs then Some (map char_of_byte (takeWhile (\<lambda>b. b \<noteq> 0) bs)) else None)"

text \<open>A string in a zeroed array of \<open>n\<close> characters.\<close>

definition c_array :: "nat \<Rightarrow> string \<Rightarrow> bytes" where
  "c_array n s = take n (map byte_of_char s @ replicate n 0)"

definition c_name :: "nat \<Rightarrow> string \<Rightarrow> bool" where
  "c_name n s \<longleftrightarrow> length s < n \<and> CHR 0x00 \<notin> set s"

lemma length_c_array [simp]: "length (c_array n s) = n"
  by (simp add: c_array_def)

lemma char_of_byte_of_char [simp]: "char_of_byte (byte_of_char c) = c"
proof -
  have "of_char c < (256::nat)"
    by (rule nat_of_char_less_256)
  then show ?thesis
    by (simp add: byte_of_char_def char_of_byte_def unat_of_nat take_bit_eq_mod)
qed

lemma byte_of_char_eq_0 [simp]: "byte_of_char c = 0 \<longleftrightarrow> c = CHR 0x00"
proof
  assume "byte_of_char c = 0"
  then have "char_of_byte (byte_of_char c) = char_of_byte 0" by simp
  then show "c = CHR 0x00"
    by (simp only: char_of_byte_of_char) (simp add: char_of_byte_def char_of_def)
qed (simp add: byte_of_char_def)

lemma c_array_name:
  "c_name n s \<Longrightarrow> c_array n s = map byte_of_char s @ replicate (n - length s) 0"
  by (simp add: c_array_def c_name_def)

lemma c_string_c_array [simp]:
  assumes "c_name n s"
  shows "c_string (c_array n s) = Some s"
proof -
  have nz: "\<forall>b \<in> set (map byte_of_char s). b \<noteq> 0"
    using assms by (auto simp: c_name_def)
  obtain k where k: "n - length s = Suc k"
    using assms by (metis c_name_def Suc_diff_Suc)
  have "takeWhile (\<lambda>b. b \<noteq> 0) (c_array n s) = map byte_of_char s"
    using nz by (simp add: c_array_name [OF assms] k takeWhile_append)
  then show ?thesis
    by (simp add: c_string_def c_array_name [OF assms] k comp_def)
qed

section \<open>Message buffers\<close>

text \<open>
  A buffer that \<open>memset\<close> has cleared is the list of the bytes written so far: every byte beyond
  it is zero, and clearing the buffer is the empty list. \<open>write_at\<close> stores bytes at an offset,
  \<open>buf_take\<close> is what \<open>write(fd, buf, n)\<close> sends, and \<open>swap16_at\<close> is the in-place conversion
  \<open>*(uint16_t *)p = ntohs(*(uint16_t *)p)\<close>, which fails outside the buffer.
\<close>

definition write_at :: "nat \<Rightarrow> bytes \<Rightarrow> bytes \<Rightarrow> bytes" where
  "write_at off bs buf = take off (buf @ replicate off 0) @ bs @ drop (off + length bs) buf"

definition buf_take :: "nat \<Rightarrow> bytes \<Rightarrow> bytes" where
  "buf_take n buf = take n (buf @ replicate n 0)"

definition swap16_at :: "nat \<Rightarrow> bytes \<Rightarrow> bytes option" where
  "swap16_at off buf =
     (if off + 2 \<le> length buf
      then Some (buf[off := buf ! (off + 1), off + 1 := buf ! off]) else None)"

lemma write_at_append:
  "length buf \<le> off \<Longrightarrow> write_at off bs buf = buf @ replicate (off - length buf) 0 @ bs"
  by (simp add: write_at_def)

lemma write_at_0: "length bs = length h \<Longrightarrow> write_at 0 bs (h @ t) = bs @ t"
  by (simp add: write_at_def)

lemma buf_take_exact [simp]: "n = length buf \<Longrightarrow> buf_take n buf = buf"
  by (simp add: buf_take_def)

lemma length_buf_take [simp]: "length (buf_take n buf) = n"
  by (simp add: buf_take_def)

section \<open>Codecs\<close>

text \<open>
  A decoder takes the bytes from some address on and returns the value and the bytes behind it;
  \<open>None\<close> is a read past the end of the message.
\<close>

type_synonym 'a decoder = "bytes \<Rightarrow> ('a \<times> bytes) option"

fun de_u8 :: "u8 decoder" where
  "de_u8 (a # r) = Some (a, r)"
| "de_u8 [] = None"

fun de_le16 :: "u16 decoder" where
  "de_le16 (a # b # r) = Some (of_le16 a b, r)"
| "de_le16 _ = None"

fun de_le32 :: "u32 decoder" where
  "de_le32 (a # b # c # d # r) = Some (of_le32 a b c d, r)"
| "de_le32 _ = None"

definition de_bytes :: "nat \<Rightarrow> bytes decoder" where
  "de_bytes n bs = (if n \<le> length bs then Some (take n bs, drop n bs) else None)"

fun de_many :: "'a decoder \<Rightarrow> nat \<Rightarrow> 'a list decoder" where
  "de_many dec 0 bs = Some ([], bs)"
| "de_many dec (Suc n) bs =
     (case dec bs of None \<Rightarrow> None
      | Some (x, r) \<Rightarrow>
          (case de_many dec n r of None \<Rightarrow> None | Some (xs, r') \<Rightarrow> Some (x # xs, r')))"

lemma de_u8_ser [simp]: "de_u8 ([w] @ r) = Some (w, r)"
  by simp

lemma de_le16_ser [simp]: "de_le16 (le16 w @ r) = Some (w, r)"
  by (simp add: le16_def)

lemma de_le32_ser [simp]: "de_le32 (le32 w @ r) = Some (w, r)"
  by (simp add: le32_def)

lemma de_bytes_ser [simp]: "length bs = n \<Longrightarrow> de_bytes n (bs @ r) = Some (bs, r)"
  by (simp add: de_bytes_def)

lemma de_bytes_Suc_0 [simp]: "de_bytes (Suc 0) (b # r) = Some ([b], r)"
  by (simp add: de_bytes_def)

text \<open>
  The interface of a packed structure: what it writes it reads back, it has a fixed size, and it
  reads nothing from a message that is too short. \<open>valid\<close> says that the character arrays of the
  structure have the length the structure declares.
\<close>

locale codec =
  fixes ser :: "'a \<Rightarrow> bytes" and de :: "'a decoder" and size_of :: nat and valid :: "'a \<Rightarrow> bool"
  assumes de_ser: "valid x \<Longrightarrow> de (ser x @ r) = Some (x, r)"
    and length_ser: "valid x \<Longrightarrow> length (ser x) = size_of"
begin

lemma de_ser_exact: "valid x \<Longrightarrow> de (ser x) = Some (x, [])"
  using de_ser [of x "[]"] by simp

lemma ser_inject: "valid x \<Longrightarrow> valid y \<Longrightarrow> ser x = ser y \<longleftrightarrow> x = y"
  by (metis de_ser_exact option.inject prod.inject)

lemma de_at: "valid x \<Longrightarrow> length pre = off \<Longrightarrow> de (drop off (pre @ ser x @ post)) = Some (x, post)"
  by (simp add: de_ser)

lemma de_many_ser:
  "(\<And>x. x \<in> set xs \<Longrightarrow> valid x) \<Longrightarrow>
   de_many de (length xs) (concat (map ser xs) @ r) = Some (xs, r)"
  by (induction xs) (auto simp: de_ser)

lemma length_concat_ser:
  "(\<And>x. x \<in> set xs \<Longrightarrow> valid x) \<Longrightarrow> length (concat (map ser xs)) = size_of * length xs"
  by (induction xs) (auto simp: length_ser)

end

interpretation u8_codec: codec "\<lambda>w. [w]" de_u8 1 "\<lambda>_. True"
  by unfold_locales auto

interpretation le16_codec: codec le16 de_le16 2 "\<lambda>_. True"
  by unfold_locales auto

interpretation le32_codec: codec le32 de_le32 4 "\<lambda>_. True"
  by unfold_locales auto

interpretation bytes_codec: codec "\<lambda>bs. bs" "de_bytes n" n "\<lambda>bs. length bs = n" for n
  by unfold_locales auto

section \<open>Lists\<close>

lemma foldl_invariant:
  "P s \<Longrightarrow> (\<And>s x. x \<in> set xs \<Longrightarrow> P s \<Longrightarrow> P (f s x)) \<Longrightarrow> P (foldl f s xs)"
  by (induction xs arbitrary: s) auto

lemma find_SomeD: "find P xs = Some x \<Longrightarrow> x \<in> set xs \<and> P x"
  by (induction xs) (auto split: if_splits)

end
