(* ===== verification/Iccp_Wire.thy ===== *)
theory Iccp_Wire
  imports Iccp_Prelude "HOL-Library.Monad_Syntax"
begin

text \<open>
  The message formats of \<open>src/iccpd/include/msg_format.h\<close> and \<open>mlacp_tlv.h\<close>: the constants, one
  record per packed structure with the widths of its fields, and for each structure the bytes it
  occupies (\<open>ser_\<close>) and the value read back from bytes (\<open>de_\<close>). Bit fields follow the
  little-endian branch of the headers. Every structure is an instance of the interface \<open>codec\<close>,
  whose facts give the round trips.
\<close>

section \<open>Constants\<close>

definition MAX_MSG_LOG_SIZE :: nat where [const_defs]: "MAX_MSG_LOG_SIZE = 128"
definition ETHER_ADDR_LEN :: nat where [const_defs]: "ETHER_ADDR_LEN = 6"
definition MAX_L_PORT_NAME :: nat where [const_defs]: "MAX_L_PORT_NAME = 20"
definition MAX_L_ICC_SENDER_NAME :: nat where [const_defs]: "MAX_L_ICC_SENDER_NAME = 80"
definition MSG_L_INCLUD_U_BIT_MSG_T_L_FIELDS :: nat where
  [const_defs]: "MSG_L_INCLUD_U_BIT_MSG_T_L_FIELDS = 4"

definition MSG_T_CAPABILITY :: u16 where [const_defs]: "MSG_T_CAPABILITY = 0x0202"
definition MSG_T_RG_CONNECT :: u16 where [const_defs]: "MSG_T_RG_CONNECT = 0x0700"
definition MSG_T_RG_DISCONNECT :: u16 where [const_defs]: "MSG_T_RG_DISCONNECT = 0x0701"
definition MSG_T_NOTIFICATION :: u16 where [const_defs]: "MSG_T_NOTIFICATION = 0x0702"
definition MSG_T_RG_APP_DATA :: u16 where [const_defs]: "MSG_T_RG_APP_DATA = 0x0703"

definition TLV_T_ICCP_CAPABILITY :: u16 where [const_defs]: "TLV_T_ICCP_CAPABILITY = 0x0700"
definition TLV_L_ICCP_CAPABILITY :: u16 where [const_defs]: "TLV_L_ICCP_CAPABILITY = 4"
definition TLV_T_ICC_SENDER_NAME :: u16 where [const_defs]: "TLV_T_ICC_SENDER_NAME = 0x0001"
definition TLV_T_NAK :: u16 where [const_defs]: "TLV_T_NAK = 0x0002"
definition TLV_T_REQUESTED_PROTOCOL_VER :: u16 where
  [const_defs]: "TLV_T_REQUESTED_PROTOCOL_VER = 0x0003"
definition TLV_T_DISCONNECT_CODE :: u16 where [const_defs]: "TLV_T_DISCONNECT_CODE = 0x0004"
definition TLV_L_DISCONNECT_CODE :: u16 where [const_defs]: "TLV_L_DISCONNECT_CODE = 4"
definition TLV_T_ICC_RG_ID :: u16 where [const_defs]: "TLV_T_ICC_RG_ID = 0x0005"
definition TLV_L_ICC_RG_ID :: u16 where [const_defs]: "TLV_L_ICC_RG_ID = 4"

definition TLV_T_MLACP_CONNECT :: u16 where [const_defs]: "TLV_T_MLACP_CONNECT = 0x0030"
definition TLV_T_MLACP_DISCONNECT :: u16 where [const_defs]: "TLV_T_MLACP_DISCONNECT = 0x0031"
definition TLV_T_MLACP_SYSTEM_CONFIG :: u16 where
  [const_defs]: "TLV_T_MLACP_SYSTEM_CONFIG = 0x0032"
definition TLV_T_MLACP_PORT_CONFIG :: u16 where [const_defs]: "TLV_T_MLACP_PORT_CONFIG = 0x0033"
definition TLV_T_MLACP_PORT_PRIORITY :: u16 where
  [const_defs]: "TLV_T_MLACP_PORT_PRIORITY = 0x0034"
definition TLV_T_MLACP_PORT_STATE :: u16 where [const_defs]: "TLV_T_MLACP_PORT_STATE = 0x0035"
definition TLV_T_MLACP_AGGREGATOR_CONFIG :: u16 where
  [const_defs]: "TLV_T_MLACP_AGGREGATOR_CONFIG = 0x0036"
definition TLV_T_MLACP_AGGREGATOR_STATE :: u16 where
  [const_defs]: "TLV_T_MLACP_AGGREGATOR_STATE = 0x0037"
definition TLV_T_MLACP_SYNC_REQUEST :: u16 where
  [const_defs]: "TLV_T_MLACP_SYNC_REQUEST = 0x0038"
definition TLV_T_MLACP_SYNC_DATA :: u16 where [const_defs]: "TLV_T_MLACP_SYNC_DATA = 0x0039"
definition TLV_T_MLACP_HEARTBEAT :: u16 where [const_defs]: "TLV_T_MLACP_HEARTBEAT = 0x003A"
definition TLV_T_MLACP_DISCONNECT_CAUSE :: u16 where
  [const_defs]: "TLV_T_MLACP_DISCONNECT_CAUSE = 0x003B"

definition TLV_T_MLACP_ORPHAN_PORT :: u16 where [const_defs]: "TLV_T_MLACP_ORPHAN_PORT = 0x1033"
definition TLV_T_MLACP_PORT_CHANNEL_INFO :: u16 where
  [const_defs]: "TLV_T_MLACP_PORT_CHANNEL_INFO = 0x1034"
definition TLV_T_MLACP_PEERLINK_INFO :: u16 where
  [const_defs]: "TLV_T_MLACP_PEERLINK_INFO = 0x1035"
definition TLV_T_MLACP_ARP_INFO :: u16 where [const_defs]: "TLV_T_MLACP_ARP_INFO = 0x1036"
definition TLV_T_MLACP_STP_INFO :: u16 where [const_defs]: "TLV_T_MLACP_STP_INFO = 0x1037"
definition TLV_T_MLACP_MAC_INFO :: u16 where [const_defs]: "TLV_T_MLACP_MAC_INFO = 0x1038"
definition TLV_T_MLACP_WARMBOOT_FLAG :: u16 where
  [const_defs]: "TLV_T_MLACP_WARMBOOT_FLAG = 0x1039"
definition TLV_T_MLACP_NDISC_INFO :: u16 where [const_defs]: "TLV_T_MLACP_NDISC_INFO = 0x103A"
definition TLV_T_MLACP_IF_UP_ACK :: u16 where [const_defs]: "TLV_T_MLACP_IF_UP_ACK = 0x103B"
definition TLV_T_MLACP_LIST_END :: u16 where [const_defs]: "TLV_T_MLACP_LIST_END = 0x104a"

definition STATUS_CODE_U_ICCP_RG :: u32 where [const_defs]: "STATUS_CODE_U_ICCP_RG = 0x00010001"
definition STATUS_CODE_ICCP_REJECTED_MSG :: u32 where
  [const_defs]: "STATUS_CODE_ICCP_REJECTED_MSG = 0x00010006"
definition STATUS_CODE_ICCP_RG_REMOVED :: u32 where
  [const_defs]: "STATUS_CODE_ICCP_RG_REMOVED = 0x00010010"

definition NEIGH_LOCAL :: u8 where [const_defs]: "NEIGH_LOCAL = 1"
definition NEIGH_REMOTE :: u8 where [const_defs]: "NEIGH_REMOTE = 2"
definition NEIGH_SYNC_LIF :: u8 where [const_defs]: "NEIGH_SYNC_LIF = 0"
definition NEIGH_SYNC_ADD :: u8 where [const_defs]: "NEIGH_SYNC_ADD = 1"
definition NEIGH_SYNC_DEL :: u8 where [const_defs]: "NEIGH_SYNC_DEL = 2"
definition MAC_AGE_LOCAL :: u8 where [const_defs]: "MAC_AGE_LOCAL = 1"
definition MAC_AGE_PEER :: u8 where [const_defs]: "MAC_AGE_PEER = 2"
definition MAC_SYNC_ADD :: u8 where [const_defs]: "MAC_SYNC_ADD = 1"
definition MAC_SYNC_DEL :: u8 where [const_defs]: "MAC_SYNC_DEL = 2"
definition MAC_TYPE_STATIC :: u8 where [const_defs]: "MAC_TYPE_STATIC = 1"
definition MAC_TYPE_DYNAMIC :: u8 where [const_defs]: "MAC_TYPE_DYNAMIC = 2"
definition MAC_TYPE_DYNAMIC_LOCAL :: u8 where [const_defs]: "MAC_TYPE_DYNAMIC_LOCAL = 3"
definition IF_UP_ACK_TYPE_PORT_CHANNEL :: u8 where
  [const_defs]: "IF_UP_ACK_TYPE_PORT_CHANNEL = 1"
definition PORT_ISOLATION_STATE_ENABLE :: u8 where
  [const_defs]: "PORT_ISOLATION_STATE_ENABLE = 1"

section \<open>Headers\<close>

record LDPHdr =
  ldp_u_bit :: "1 word"
  ldp_msg_type :: "15 word"
  ldp_msg_len :: u16
  ldp_msg_id :: u32

definition ser_LDPHdr :: "LDPHdr \<Rightarrow> bytes" where
  "ser_LDPHdr h = le16 (ucast (ldp_msg_type h) OR push_bit 15 (ucast (ldp_u_bit h)))
     @ le16 (ldp_msg_len h) @ le32 (ldp_msg_id h)"

definition de_LDPHdr :: "LDPHdr decoder" where
  "de_LDPHdr bs = do {
     (w, r) \<leftarrow> de_le16 bs;
     (l, r) \<leftarrow> de_le16 r;
     (i, r) \<leftarrow> de_le32 r;
     Some (\<lparr>ldp_u_bit = ucast (drop_bit 15 w), ldp_msg_type = ucast w,
       ldp_msg_len = l, ldp_msg_id = i\<rparr>, r) }"

record ICCRGIDTLV =
  rg_type :: u16
  rg_len :: u16
  rg_icc_rg_id :: u32

definition ser_ICCRGIDTLV :: "ICCRGIDTLV \<Rightarrow> bytes" where
  "ser_ICCRGIDTLV t = le16 (rg_type t) @ le16 (rg_len t) @ le32 (rg_icc_rg_id t)"

definition de_ICCRGIDTLV :: "ICCRGIDTLV decoder" where
  "de_ICCRGIDTLV bs = do {
     (t, r) \<leftarrow> de_le16 bs;
     (l, r) \<leftarrow> de_le16 r;
     (i, r) \<leftarrow> de_le32 r;
     Some (\<lparr>rg_type = t, rg_len = l, rg_icc_rg_id = i\<rparr>, r) }"

record ICCHdr =
  icc_ldp_hdr :: LDPHdr
  icc_rg_id_tlv :: ICCRGIDTLV

definition ser_ICCHdr :: "ICCHdr \<Rightarrow> bytes" where
  "ser_ICCHdr h = ser_LDPHdr (icc_ldp_hdr h) @ ser_ICCRGIDTLV (icc_rg_id_tlv h)"

definition de_ICCHdr :: "ICCHdr decoder" where
  "de_ICCHdr bs = do {
     (l, r) \<leftarrow> de_LDPHdr bs;
     (t, r) \<leftarrow> de_ICCRGIDTLV r;
     Some (\<lparr>icc_ldp_hdr = l, icc_rg_id_tlv = t\<rparr>, r) }"

record ICCParameter =
  par_u_bit :: "1 word"
  par_f_bit :: "1 word"
  par_type :: "14 word"
  par_len :: u16

definition ser_ICCParameter :: "ICCParameter \<Rightarrow> bytes" where
  "ser_ICCParameter p = le16 (ucast (par_type p) OR push_bit 14 (ucast (par_f_bit p))
     OR push_bit 15 (ucast (par_u_bit p))) @ le16 (par_len p)"

definition de_ICCParameter :: "ICCParameter decoder" where
  "de_ICCParameter bs = do {
     (w, r) \<leftarrow> de_le16 bs;
     (l, r) \<leftarrow> de_le16 r;
     Some (\<lparr>par_u_bit = ucast (drop_bit 15 w), par_f_bit = ucast (drop_bit 14 w),
       par_type = ucast w, par_len = l\<rparr>, r) }"

interpretation LDPHdr_codec: codec ser_LDPHdr de_LDPHdr 8 "\<lambda>_. True"
proof (unfold_locales, goal_cases)
  case (1 h r)
  have "ucast ((ucast (ldp_msg_type h) :: u16) OR push_bit 15 (ucast (ldp_u_bit h)))
      = ldp_msg_type h"
    by (rule bit_word_eqI) (auto simp: bit_simps)
  moreover have "ucast (drop_bit 15 ((ucast (ldp_msg_type h) :: u16) OR
      push_bit 15 (ucast (ldp_u_bit h)))) = ldp_u_bit h"
    by (rule bit_word_eqI) (auto simp: bit_simps dest: bit_imp_le_length)
  ultimately show ?case
    by (simp add: ser_LDPHdr_def de_LDPHdr_def)
qed (simp add: ser_LDPHdr_def)

interpretation ICCRGIDTLV_codec: codec ser_ICCRGIDTLV de_ICCRGIDTLV 8 "\<lambda>_. True"
  by unfold_locales (simp_all add: ser_ICCRGIDTLV_def de_ICCRGIDTLV_def)

interpretation ICCHdr_codec: codec ser_ICCHdr de_ICCHdr 16 "\<lambda>_. True"
  by unfold_locales
    (simp_all add: ser_ICCHdr_def de_ICCHdr_def LDPHdr_codec.de_ser LDPHdr_codec.length_ser
      ICCRGIDTLV_codec.de_ser ICCRGIDTLV_codec.length_ser)

interpretation ICCParameter_codec: codec ser_ICCParameter de_ICCParameter 4 "\<lambda>_. True"
proof (unfold_locales, goal_cases)
  case (1 p r)
  let ?w = "(ucast (par_type p) :: u16) OR push_bit 14 (ucast (par_f_bit p))
      OR push_bit 15 (ucast (par_u_bit p))"
  have "ucast ?w = par_type p"
    by (rule bit_word_eqI) (auto simp: bit_simps)
  moreover have "ucast (drop_bit 14 ?w) = par_f_bit p"
    by (rule bit_word_eqI) (auto simp: bit_simps dest: bit_imp_le_length)
  moreover have "ucast (drop_bit 15 ?w) = par_u_bit p"
    by (rule bit_word_eqI) (auto simp: bit_simps dest: bit_imp_le_length)
  ultimately show ?case
    by (simp add: ser_ICCParameter_def de_ICCParameter_def)
qed (simp add: ser_ICCParameter_def)

lemmas header_codec [wire_simps] =
  LDPHdr_codec.de_ser LDPHdr_codec.length_ser
  ICCRGIDTLV_codec.de_ser ICCRGIDTLV_codec.length_ser
  ICCHdr_codec.de_ser ICCHdr_codec.length_ser
  ICCParameter_codec.de_ser ICCParameter_codec.length_ser

section \<open>The TLVs of the connection protocol\<close>

record DisconnectCodeTLV =
  dis_icc_parameter :: ICCParameter
  dis_iccp_status_code :: u32

definition ser_DisconnectCodeTLV :: "DisconnectCodeTLV \<Rightarrow> bytes" where
  "ser_DisconnectCodeTLV t = ser_ICCParameter (dis_icc_parameter t) @ le32 (dis_iccp_status_code t)"

definition de_DisconnectCodeTLV :: "DisconnectCodeTLV decoder" where
  "de_DisconnectCodeTLV bs = do {
     (x0, r) \<leftarrow> de_ICCParameter bs;
     (x1, r) \<leftarrow> de_le32 r;
     Some (\<lparr>dis_icc_parameter = x0, dis_iccp_status_code = x1\<rparr>, r) }"

interpretation DisconnectCodeTLV_codec: codec ser_DisconnectCodeTLV de_DisconnectCodeTLV 8 "\<lambda>_. True"
  by unfold_locales
    (simp_all add: ser_DisconnectCodeTLV_def de_DisconnectCodeTLV_def wire_simps const_defs)

lemmas DisconnectCodeTLV_wire [wire_simps] = DisconnectCodeTLV_codec.de_ser DisconnectCodeTLV_codec.length_ser

record NAKTLV =
  nak_icc_parameter :: ICCParameter
  nak_iccp_status_code :: u32
  nak_rejected_msg_id :: u32

definition ser_NAKTLV :: "NAKTLV \<Rightarrow> bytes" where
  "ser_NAKTLV t = ser_ICCParameter (nak_icc_parameter t) @ le32 (nak_iccp_status_code t) @
     le32 (nak_rejected_msg_id t)"

definition de_NAKTLV :: "NAKTLV decoder" where
  "de_NAKTLV bs = do {
     (x0, r) \<leftarrow> de_ICCParameter bs;
     (x1, r) \<leftarrow> de_le32 r;
     (x2, r) \<leftarrow> de_le32 r;
     Some (\<lparr>nak_icc_parameter = x0, nak_iccp_status_code = x1, nak_rejected_msg_id = x2\<rparr>, r) }"

interpretation NAKTLV_codec: codec ser_NAKTLV de_NAKTLV 12 "\<lambda>_. True"
  by unfold_locales
    (simp_all add: ser_NAKTLV_def de_NAKTLV_def wire_simps const_defs)

lemmas NAKTLV_wire [wire_simps] = NAKTLV_codec.de_ser NAKTLV_codec.length_ser

record LDPICCPCapabilityTLV =
  cap_icc_parameter :: ICCParameter
  cap_s_bit :: "1 word"
  cap_reserved :: "15 word"
  cap_major_ver :: u8
  cap_minior_ver :: u8

text \<open>The 16-bit word that holds \<open>s_bit\<close> and \<open>reserved\<close>, as the host sees it.\<close>

definition cap_word :: "LDPICCPCapabilityTLV \<Rightarrow> u16" where
  "cap_word t = ucast (cap_reserved t) OR push_bit 15 (ucast (cap_s_bit t))"

definition ser_LDPICCPCapabilityTLV :: "LDPICCPCapabilityTLV \<Rightarrow> bytes" where
  "ser_LDPICCPCapabilityTLV t = ser_ICCParameter (cap_icc_parameter t) @ le16 (cap_word t)
     @ [cap_major_ver t] @ [cap_minior_ver t]"

definition de_LDPICCPCapabilityTLV :: "LDPICCPCapabilityTLV decoder" where
  "de_LDPICCPCapabilityTLV bs = do {
     (p, r) \<leftarrow> de_ICCParameter bs;
     (w, r) \<leftarrow> de_le16 r;
     (ma, r) \<leftarrow> de_u8 r;
     (mi, r) \<leftarrow> de_u8 r;
     Some (\<lparr>cap_icc_parameter = p, cap_s_bit = ucast (drop_bit 15 w), cap_reserved = ucast w,
       cap_major_ver = ma, cap_minior_ver = mi\<rparr>, r) }"

interpretation LDPICCPCapabilityTLV_codec:
  codec ser_LDPICCPCapabilityTLV de_LDPICCPCapabilityTLV 8 "\<lambda>_. True"
proof (unfold_locales, goal_cases)
  case (1 t r)
  have "ucast (cap_word t) = cap_reserved t"
    unfolding cap_word_def by (rule bit_word_eqI) (auto simp: bit_simps)
  moreover have "ucast (drop_bit 15 (cap_word t)) = cap_s_bit t"
    unfolding cap_word_def
    by (rule bit_word_eqI) (auto simp: bit_simps dest: bit_imp_le_length)
  ultimately show ?case
    by (simp add: ser_LDPICCPCapabilityTLV_def de_LDPICCPCapabilityTLV_def wire_simps)
qed (simp add: ser_LDPICCPCapabilityTLV_def wire_simps)

section \<open>The mLACP TLVs\<close>

record mLACPSysConfigTLV =
  sc_icc_parameter :: ICCParameter
  sc_sys_id :: bytes
  sc_sys_priority :: u16
  sc_node_id :: u8

definition ser_mLACPSysConfigTLV :: "mLACPSysConfigTLV \<Rightarrow> bytes" where
  "ser_mLACPSysConfigTLV t = ser_ICCParameter (sc_icc_parameter t) @ sc_sys_id t @ le16 (sc_sys_priority t) @
     [sc_node_id t]"

definition de_mLACPSysConfigTLV :: "mLACPSysConfigTLV decoder" where
  "de_mLACPSysConfigTLV bs = do {
     (x0, r) \<leftarrow> de_ICCParameter bs;
     (x1, r) \<leftarrow> de_bytes ETHER_ADDR_LEN r;
     (x2, r) \<leftarrow> de_le16 r;
     (x3, r) \<leftarrow> de_u8 r;
     Some (\<lparr>sc_icc_parameter = x0, sc_sys_id = x1, sc_sys_priority = x2, sc_node_id = x3\<rparr>, r) }"

definition valid_mLACPSysConfigTLV :: "mLACPSysConfigTLV \<Rightarrow> bool" where
  "valid_mLACPSysConfigTLV t \<longleftrightarrow> length (sc_sys_id t) = ETHER_ADDR_LEN"

interpretation mLACPSysConfigTLV_codec: codec ser_mLACPSysConfigTLV de_mLACPSysConfigTLV 13 valid_mLACPSysConfigTLV
  by unfold_locales
    (simp_all add: ser_mLACPSysConfigTLV_def de_mLACPSysConfigTLV_def valid_mLACPSysConfigTLV_def wire_simps const_defs)

lemmas mLACPSysConfigTLV_wire [wire_simps] = mLACPSysConfigTLV_codec.de_ser mLACPSysConfigTLV_codec.length_ser

record mLACPAggConfigTLV =
  ac_icc_parameter :: ICCParameter
  ac_ro_id :: bytes
  ac_agg_id :: u16
  ac_mac_addr :: bytes
  ac_actor_key :: u16
  ac_member_ports_priority :: u16
  ac_flags :: u8
  ac_agg_name_len :: u8
  ac_agg_name :: bytes

definition ser_mLACPAggConfigTLV :: "mLACPAggConfigTLV \<Rightarrow> bytes" where
  "ser_mLACPAggConfigTLV t = ser_ICCParameter (ac_icc_parameter t) @ ac_ro_id t @ le16 (ac_agg_id t) @ ac_mac_addr t @
     le16 (ac_actor_key t) @ le16 (ac_member_ports_priority t) @ [ac_flags t] @
     [ac_agg_name_len t] @ ac_agg_name t"

definition de_mLACPAggConfigTLV :: "mLACPAggConfigTLV decoder" where
  "de_mLACPAggConfigTLV bs = do {
     (x0, r) \<leftarrow> de_ICCParameter bs;
     (x1, r) \<leftarrow> de_bytes 8 r;
     (x2, r) \<leftarrow> de_le16 r;
     (x3, r) \<leftarrow> de_bytes ETHER_ADDR_LEN r;
     (x4, r) \<leftarrow> de_le16 r;
     (x5, r) \<leftarrow> de_le16 r;
     (x6, r) \<leftarrow> de_u8 r;
     (x7, r) \<leftarrow> de_u8 r;
     (x8, r) \<leftarrow> de_bytes MAX_L_PORT_NAME r;
     Some (\<lparr>ac_icc_parameter = x0, ac_ro_id = x1, ac_agg_id = x2, ac_mac_addr = x3,
       ac_actor_key = x4, ac_member_ports_priority = x5, ac_flags = x6, ac_agg_name_len = x7,
       ac_agg_name = x8\<rparr>, r) }"

definition valid_mLACPAggConfigTLV :: "mLACPAggConfigTLV \<Rightarrow> bool" where
  "valid_mLACPAggConfigTLV t \<longleftrightarrow> length (ac_ro_id t) = 8 \<and> length (ac_mac_addr t) = ETHER_ADDR_LEN \<and> length (ac_agg_name t) = MAX_L_PORT_NAME"

interpretation mLACPAggConfigTLV_codec: codec ser_mLACPAggConfigTLV de_mLACPAggConfigTLV 46 valid_mLACPAggConfigTLV
  by unfold_locales
    (simp_all add: ser_mLACPAggConfigTLV_def de_mLACPAggConfigTLV_def valid_mLACPAggConfigTLV_def wire_simps const_defs)

lemmas mLACPAggConfigTLV_wire [wire_simps] = mLACPAggConfigTLV_codec.de_ser mLACPAggConfigTLV_codec.length_ser

record mLACPAggPortStateTLV =
  as_icc_parameter :: ICCParameter
  as_partner_sys_id :: bytes
  as_partner_sys_priority :: u16
  as_partner_key :: u16
  as_agg_id :: u16
  as_actor_key :: u16
  as_agg_state :: u8

definition ser_mLACPAggPortStateTLV :: "mLACPAggPortStateTLV \<Rightarrow> bytes" where
  "ser_mLACPAggPortStateTLV t = ser_ICCParameter (as_icc_parameter t) @ as_partner_sys_id t @
     le16 (as_partner_sys_priority t) @ le16 (as_partner_key t) @ le16 (as_agg_id t) @
     le16 (as_actor_key t) @ [as_agg_state t]"

definition de_mLACPAggPortStateTLV :: "mLACPAggPortStateTLV decoder" where
  "de_mLACPAggPortStateTLV bs = do {
     (x0, r) \<leftarrow> de_ICCParameter bs;
     (x1, r) \<leftarrow> de_bytes ETHER_ADDR_LEN r;
     (x2, r) \<leftarrow> de_le16 r;
     (x3, r) \<leftarrow> de_le16 r;
     (x4, r) \<leftarrow> de_le16 r;
     (x5, r) \<leftarrow> de_le16 r;
     (x6, r) \<leftarrow> de_u8 r;
     Some (\<lparr>as_icc_parameter = x0, as_partner_sys_id = x1, as_partner_sys_priority = x2,
       as_partner_key = x3, as_agg_id = x4, as_actor_key = x5, as_agg_state = x6\<rparr>, r) }"

definition valid_mLACPAggPortStateTLV :: "mLACPAggPortStateTLV \<Rightarrow> bool" where
  "valid_mLACPAggPortStateTLV t \<longleftrightarrow> length (as_partner_sys_id t) = ETHER_ADDR_LEN"

interpretation mLACPAggPortStateTLV_codec: codec ser_mLACPAggPortStateTLV de_mLACPAggPortStateTLV 19 valid_mLACPAggPortStateTLV
  by unfold_locales
    (simp_all add: ser_mLACPAggPortStateTLV_def de_mLACPAggPortStateTLV_def valid_mLACPAggPortStateTLV_def wire_simps const_defs)

lemmas mLACPAggPortStateTLV_wire [wire_simps] = mLACPAggPortStateTLV_codec.de_ser mLACPAggPortStateTLV_codec.length_ser

text \<open>
  \<open>c_bit\<close>, \<open>s_bit\<close> and \<open>req_type\<close> of a synchronisation request share one 16-bit word, which the
  sender byte-swaps as a whole; it is kept as that word.
\<close>

record mLACPSyncReqTLV =
  sr_icc_parameter :: ICCParameter
  sr_req_num :: u16
  sr_flags_word :: u16
  sr_port_num_agg_id :: u16
  sr_actor_key :: u16

definition ser_mLACPSyncReqTLV :: "mLACPSyncReqTLV \<Rightarrow> bytes" where
  "ser_mLACPSyncReqTLV t = ser_ICCParameter (sr_icc_parameter t) @ le16 (sr_req_num t) @ le16 (sr_flags_word t) @
     le16 (sr_port_num_agg_id t) @ le16 (sr_actor_key t)"

definition de_mLACPSyncReqTLV :: "mLACPSyncReqTLV decoder" where
  "de_mLACPSyncReqTLV bs = do {
     (x0, r) \<leftarrow> de_ICCParameter bs;
     (x1, r) \<leftarrow> de_le16 r;
     (x2, r) \<leftarrow> de_le16 r;
     (x3, r) \<leftarrow> de_le16 r;
     (x4, r) \<leftarrow> de_le16 r;
     Some (\<lparr>sr_icc_parameter = x0, sr_req_num = x1, sr_flags_word = x2, sr_port_num_agg_id = x3,
       sr_actor_key = x4\<rparr>, r) }"

interpretation mLACPSyncReqTLV_codec: codec ser_mLACPSyncReqTLV de_mLACPSyncReqTLV 12 "\<lambda>_. True"
  by unfold_locales
    (simp_all add: ser_mLACPSyncReqTLV_def de_mLACPSyncReqTLV_def wire_simps const_defs)

lemmas mLACPSyncReqTLV_wire [wire_simps] = mLACPSyncReqTLV_codec.de_ser mLACPSyncReqTLV_codec.length_ser

record mLACPSyncDataTLV =
  sd_icc_parameter :: ICCParameter
  sd_req_num :: u16
  sd_flags :: u16

definition ser_mLACPSyncDataTLV :: "mLACPSyncDataTLV \<Rightarrow> bytes" where
  "ser_mLACPSyncDataTLV t = ser_ICCParameter (sd_icc_parameter t) @ le16 (sd_req_num t) @ le16 (sd_flags t)"

definition de_mLACPSyncDataTLV :: "mLACPSyncDataTLV decoder" where
  "de_mLACPSyncDataTLV bs = do {
     (x0, r) \<leftarrow> de_ICCParameter bs;
     (x1, r) \<leftarrow> de_le16 r;
     (x2, r) \<leftarrow> de_le16 r;
     Some (\<lparr>sd_icc_parameter = x0, sd_req_num = x1, sd_flags = x2\<rparr>, r) }"

interpretation mLACPSyncDataTLV_codec: codec ser_mLACPSyncDataTLV de_mLACPSyncDataTLV 8 "\<lambda>_. True"
  by unfold_locales
    (simp_all add: ser_mLACPSyncDataTLV_def de_mLACPSyncDataTLV_def wire_simps const_defs)

lemmas mLACPSyncDataTLV_wire [wire_simps] = mLACPSyncDataTLV_codec.de_ser mLACPSyncDataTLV_codec.length_ser

record mLACPPortChannelInfoTLV =
  pc_icc_parameter :: ICCParameter
  pc_agg_id :: u16
  pc_if_name :: bytes
  pc_if_name_len :: u8
  pc_l3_mode :: u8
  pc_ipv4_addr :: u32
  pc_po_id :: u16
  pc_num_of_vlan_id :: u16

definition ser_mLACPPortChannelInfoTLV :: "mLACPPortChannelInfoTLV \<Rightarrow> bytes" where
  "ser_mLACPPortChannelInfoTLV t = ser_ICCParameter (pc_icc_parameter t) @ le16 (pc_agg_id t) @ pc_if_name t @
     [pc_if_name_len t] @ [pc_l3_mode t] @ le32 (pc_ipv4_addr t) @ le16 (pc_po_id t) @
     le16 (pc_num_of_vlan_id t)"

definition de_mLACPPortChannelInfoTLV :: "mLACPPortChannelInfoTLV decoder" where
  "de_mLACPPortChannelInfoTLV bs = do {
     (x0, r) \<leftarrow> de_ICCParameter bs;
     (x1, r) \<leftarrow> de_le16 r;
     (x2, r) \<leftarrow> de_bytes MAX_L_PORT_NAME r;
     (x3, r) \<leftarrow> de_u8 r;
     (x4, r) \<leftarrow> de_u8 r;
     (x5, r) \<leftarrow> de_le32 r;
     (x6, r) \<leftarrow> de_le16 r;
     (x7, r) \<leftarrow> de_le16 r;
     Some (\<lparr>pc_icc_parameter = x0, pc_agg_id = x1, pc_if_name = x2, pc_if_name_len = x3,
       pc_l3_mode = x4, pc_ipv4_addr = x5, pc_po_id = x6, pc_num_of_vlan_id = x7\<rparr>, r) }"

definition valid_mLACPPortChannelInfoTLV :: "mLACPPortChannelInfoTLV \<Rightarrow> bool" where
  "valid_mLACPPortChannelInfoTLV t \<longleftrightarrow> length (pc_if_name t) = MAX_L_PORT_NAME"

interpretation mLACPPortChannelInfoTLV_codec: codec ser_mLACPPortChannelInfoTLV de_mLACPPortChannelInfoTLV 36 valid_mLACPPortChannelInfoTLV
  by unfold_locales
    (simp_all add: ser_mLACPPortChannelInfoTLV_def de_mLACPPortChannelInfoTLV_def valid_mLACPPortChannelInfoTLV_def wire_simps const_defs)

lemmas mLACPPortChannelInfoTLV_wire [wire_simps] = mLACPPortChannelInfoTLV_codec.de_ser mLACPPortChannelInfoTLV_codec.length_ser

record mLACPPeerLinkInfoTLV =
  pl_icc_parameter :: ICCParameter
  pl_if_name :: bytes
  pl_port_type :: u8

definition ser_mLACPPeerLinkInfoTLV :: "mLACPPeerLinkInfoTLV \<Rightarrow> bytes" where
  "ser_mLACPPeerLinkInfoTLV t = ser_ICCParameter (pl_icc_parameter t) @ pl_if_name t @ [pl_port_type t]"

definition de_mLACPPeerLinkInfoTLV :: "mLACPPeerLinkInfoTLV decoder" where
  "de_mLACPPeerLinkInfoTLV bs = do {
     (x0, r) \<leftarrow> de_ICCParameter bs;
     (x1, r) \<leftarrow> de_bytes MAX_L_PORT_NAME r;
     (x2, r) \<leftarrow> de_u8 r;
     Some (\<lparr>pl_icc_parameter = x0, pl_if_name = x1, pl_port_type = x2\<rparr>, r) }"

definition valid_mLACPPeerLinkInfoTLV :: "mLACPPeerLinkInfoTLV \<Rightarrow> bool" where
  "valid_mLACPPeerLinkInfoTLV t \<longleftrightarrow> length (pl_if_name t) = MAX_L_PORT_NAME"

interpretation mLACPPeerLinkInfoTLV_codec: codec ser_mLACPPeerLinkInfoTLV de_mLACPPeerLinkInfoTLV 25 valid_mLACPPeerLinkInfoTLV
  by unfold_locales
    (simp_all add: ser_mLACPPeerLinkInfoTLV_def de_mLACPPeerLinkInfoTLV_def valid_mLACPPeerLinkInfoTLV_def wire_simps const_defs)

lemmas mLACPPeerLinkInfoTLV_wire [wire_simps] = mLACPPeerLinkInfoTLV_codec.de_ser mLACPPeerLinkInfoTLV_codec.length_ser

record mLACPMACData =
  md_type :: u8
  md_mac_type :: u8
  md_mac_addr :: bytes
  md_vid :: u16
  md_ifname :: bytes

definition ser_mLACPMACData :: "mLACPMACData \<Rightarrow> bytes" where
  "ser_mLACPMACData t = [md_type t] @ [md_mac_type t] @ md_mac_addr t @ le16 (md_vid t) @ md_ifname t"

definition de_mLACPMACData :: "mLACPMACData decoder" where
  "de_mLACPMACData bs = do {
     (x0, r) \<leftarrow> de_u8 bs;
     (x1, r) \<leftarrow> de_u8 r;
     (x2, r) \<leftarrow> de_bytes ETHER_ADDR_LEN r;
     (x3, r) \<leftarrow> de_le16 r;
     (x4, r) \<leftarrow> de_bytes MAX_L_PORT_NAME r;
     Some (\<lparr>md_type = x0, md_mac_type = x1, md_mac_addr = x2, md_vid = x3, md_ifname = x4\<rparr>, r) }"

definition valid_mLACPMACData :: "mLACPMACData \<Rightarrow> bool" where
  "valid_mLACPMACData t \<longleftrightarrow> length (md_mac_addr t) = ETHER_ADDR_LEN \<and> length (md_ifname t) = MAX_L_PORT_NAME"

interpretation mLACPMACData_codec: codec ser_mLACPMACData de_mLACPMACData 30 valid_mLACPMACData
  by unfold_locales
    (simp_all add: ser_mLACPMACData_def de_mLACPMACData_def valid_mLACPMACData_def wire_simps const_defs)

lemmas mLACPMACData_wire [wire_simps] = mLACPMACData_codec.de_ser mLACPMACData_codec.length_ser

record mLACPMACInfoTLV =
  mi_icc_parameter :: ICCParameter
  mi_num_of_entry :: u16

definition ser_mLACPMACInfoTLV :: "mLACPMACInfoTLV \<Rightarrow> bytes" where
  "ser_mLACPMACInfoTLV t = ser_ICCParameter (mi_icc_parameter t) @ le16 (mi_num_of_entry t)"

definition de_mLACPMACInfoTLV :: "mLACPMACInfoTLV decoder" where
  "de_mLACPMACInfoTLV bs = do {
     (x0, r) \<leftarrow> de_ICCParameter bs;
     (x1, r) \<leftarrow> de_le16 r;
     Some (\<lparr>mi_icc_parameter = x0, mi_num_of_entry = x1\<rparr>, r) }"

interpretation mLACPMACInfoTLV_codec: codec ser_mLACPMACInfoTLV de_mLACPMACInfoTLV 6 "\<lambda>_. True"
  by unfold_locales
    (simp_all add: ser_mLACPMACInfoTLV_def de_mLACPMACInfoTLV_def wire_simps const_defs)

lemmas mLACPMACInfoTLV_wire [wire_simps] = mLACPMACInfoTLV_codec.de_ser mLACPMACInfoTLV_codec.length_ser

text \<open>
  \<open>ARPMsg\<close> and \<open>NDISCMsg\<close> are not packed: the compiler pads them, by one byte before the address
  and by two at the end.
\<close>

record ARPMsg =
  arp_op_type :: u8
  arp_flag :: u8
  arp_learn_flag :: u8
  arp_ifname :: bytes
  arp_ipv4_addr :: u32
  arp_mac_addr :: bytes

definition ser_ARPMsg :: "ARPMsg \<Rightarrow> bytes" where
  "ser_ARPMsg t = [arp_op_type t] @ [arp_flag t] @ [arp_learn_flag t] @ arp_ifname t @ replicate 1 0 @
     le32 (arp_ipv4_addr t) @ arp_mac_addr t @ replicate 2 0"

definition de_ARPMsg :: "ARPMsg decoder" where
  "de_ARPMsg bs = do {
     (x0, r) \<leftarrow> de_u8 bs;
     (x1, r) \<leftarrow> de_u8 r;
     (x2, r) \<leftarrow> de_u8 r;
     (x3, r) \<leftarrow> de_bytes MAX_L_PORT_NAME r;
     (_, r) \<leftarrow> de_bytes 1 r;
     (x5, r) \<leftarrow> de_le32 r;
     (x6, r) \<leftarrow> de_bytes ETHER_ADDR_LEN r;
     (_, r) \<leftarrow> de_bytes 2 r;
     Some (\<lparr>arp_op_type = x0, arp_flag = x1, arp_learn_flag = x2, arp_ifname = x3,
       arp_ipv4_addr = x5, arp_mac_addr = x6\<rparr>, r) }"

definition valid_ARPMsg :: "ARPMsg \<Rightarrow> bool" where
  "valid_ARPMsg t \<longleftrightarrow> length (arp_ifname t) = MAX_L_PORT_NAME \<and> length (arp_mac_addr t) = ETHER_ADDR_LEN"

interpretation ARPMsg_codec: codec ser_ARPMsg de_ARPMsg 36 valid_ARPMsg
  by unfold_locales
    (simp_all add: ser_ARPMsg_def de_ARPMsg_def valid_ARPMsg_def wire_simps const_defs)

lemmas ARPMsg_wire [wire_simps] = ARPMsg_codec.de_ser ARPMsg_codec.length_ser

record NDISCMsg =
  nd_op_type :: u8
  nd_flag :: u8
  nd_learn_flag :: u8
  nd_ifname :: bytes
  nd_ipv6_addr :: bytes
  nd_mac_addr :: bytes

definition ser_NDISCMsg :: "NDISCMsg \<Rightarrow> bytes" where
  "ser_NDISCMsg t = [nd_op_type t] @ [nd_flag t] @ [nd_learn_flag t] @ nd_ifname t @ replicate 1 0 @
     nd_ipv6_addr t @ nd_mac_addr t @ replicate 2 0"

definition de_NDISCMsg :: "NDISCMsg decoder" where
  "de_NDISCMsg bs = do {
     (x0, r) \<leftarrow> de_u8 bs;
     (x1, r) \<leftarrow> de_u8 r;
     (x2, r) \<leftarrow> de_u8 r;
     (x3, r) \<leftarrow> de_bytes MAX_L_PORT_NAME r;
     (_, r) \<leftarrow> de_bytes 1 r;
     (x5, r) \<leftarrow> de_bytes 16 r;
     (x6, r) \<leftarrow> de_bytes ETHER_ADDR_LEN r;
     (_, r) \<leftarrow> de_bytes 2 r;
     Some (\<lparr>nd_op_type = x0, nd_flag = x1, nd_learn_flag = x2, nd_ifname = x3, nd_ipv6_addr = x5,
       nd_mac_addr = x6\<rparr>, r) }"

definition valid_NDISCMsg :: "NDISCMsg \<Rightarrow> bool" where
  "valid_NDISCMsg t \<longleftrightarrow> length (nd_ifname t) = MAX_L_PORT_NAME \<and> length (nd_ipv6_addr t) = 16 \<and> length (nd_mac_addr t) = ETHER_ADDR_LEN"

interpretation NDISCMsg_codec: codec ser_NDISCMsg de_NDISCMsg 48 valid_NDISCMsg
  by unfold_locales
    (simp_all add: ser_NDISCMsg_def de_NDISCMsg_def valid_NDISCMsg_def wire_simps const_defs)

lemmas NDISCMsg_wire [wire_simps] = NDISCMsg_codec.de_ser NDISCMsg_codec.length_ser

record mLACPARPInfoTLV =
  ai_icc_parameter :: ICCParameter
  ai_num_of_entry :: u16

definition ser_mLACPARPInfoTLV :: "mLACPARPInfoTLV \<Rightarrow> bytes" where
  "ser_mLACPARPInfoTLV t = ser_ICCParameter (ai_icc_parameter t) @ le16 (ai_num_of_entry t)"

definition de_mLACPARPInfoTLV :: "mLACPARPInfoTLV decoder" where
  "de_mLACPARPInfoTLV bs = do {
     (x0, r) \<leftarrow> de_ICCParameter bs;
     (x1, r) \<leftarrow> de_le16 r;
     Some (\<lparr>ai_icc_parameter = x0, ai_num_of_entry = x1\<rparr>, r) }"

interpretation mLACPARPInfoTLV_codec: codec ser_mLACPARPInfoTLV de_mLACPARPInfoTLV 6 "\<lambda>_. True"
  by unfold_locales
    (simp_all add: ser_mLACPARPInfoTLV_def de_mLACPARPInfoTLV_def wire_simps const_defs)

lemmas mLACPARPInfoTLV_wire [wire_simps] = mLACPARPInfoTLV_codec.de_ser mLACPARPInfoTLV_codec.length_ser

record mLACPNDISCInfoTLV =
  ni_icc_parameter :: ICCParameter
  ni_num_of_entry :: u16

definition ser_mLACPNDISCInfoTLV :: "mLACPNDISCInfoTLV \<Rightarrow> bytes" where
  "ser_mLACPNDISCInfoTLV t = ser_ICCParameter (ni_icc_parameter t) @ le16 (ni_num_of_entry t)"

definition de_mLACPNDISCInfoTLV :: "mLACPNDISCInfoTLV decoder" where
  "de_mLACPNDISCInfoTLV bs = do {
     (x0, r) \<leftarrow> de_ICCParameter bs;
     (x1, r) \<leftarrow> de_le16 r;
     Some (\<lparr>ni_icc_parameter = x0, ni_num_of_entry = x1\<rparr>, r) }"

interpretation mLACPNDISCInfoTLV_codec: codec ser_mLACPNDISCInfoTLV de_mLACPNDISCInfoTLV 6 "\<lambda>_. True"
  by unfold_locales
    (simp_all add: ser_mLACPNDISCInfoTLV_def de_mLACPNDISCInfoTLV_def wire_simps const_defs)

lemmas mLACPNDISCInfoTLV_wire [wire_simps] = mLACPNDISCInfoTLV_codec.de_ser mLACPNDISCInfoTLV_codec.length_ser

record mLACPHeartbeatTLV =
  hb_icc_parameter :: ICCParameter
  hb_heartbeat :: u8

definition ser_mLACPHeartbeatTLV :: "mLACPHeartbeatTLV \<Rightarrow> bytes" where
  "ser_mLACPHeartbeatTLV t = ser_ICCParameter (hb_icc_parameter t) @ [hb_heartbeat t]"

definition de_mLACPHeartbeatTLV :: "mLACPHeartbeatTLV decoder" where
  "de_mLACPHeartbeatTLV bs = do {
     (x0, r) \<leftarrow> de_ICCParameter bs;
     (x1, r) \<leftarrow> de_u8 r;
     Some (\<lparr>hb_icc_parameter = x0, hb_heartbeat = x1\<rparr>, r) }"

interpretation mLACPHeartbeatTLV_codec: codec ser_mLACPHeartbeatTLV de_mLACPHeartbeatTLV 5 "\<lambda>_. True"
  by unfold_locales
    (simp_all add: ser_mLACPHeartbeatTLV_def de_mLACPHeartbeatTLV_def wire_simps const_defs)

lemmas mLACPHeartbeatTLV_wire [wire_simps] = mLACPHeartbeatTLV_codec.de_ser mLACPHeartbeatTLV_codec.length_ser

record mLACPWarmbootTLV =
  wb_icc_parameter :: ICCParameter
  wb_warmboot :: u8

definition ser_mLACPWarmbootTLV :: "mLACPWarmbootTLV \<Rightarrow> bytes" where
  "ser_mLACPWarmbootTLV t = ser_ICCParameter (wb_icc_parameter t) @ [wb_warmboot t]"

definition de_mLACPWarmbootTLV :: "mLACPWarmbootTLV decoder" where
  "de_mLACPWarmbootTLV bs = do {
     (x0, r) \<leftarrow> de_ICCParameter bs;
     (x1, r) \<leftarrow> de_u8 r;
     Some (\<lparr>wb_icc_parameter = x0, wb_warmboot = x1\<rparr>, r) }"

interpretation mLACPWarmbootTLV_codec: codec ser_mLACPWarmbootTLV de_mLACPWarmbootTLV 5 "\<lambda>_. True"
  by unfold_locales
    (simp_all add: ser_mLACPWarmbootTLV_def de_mLACPWarmbootTLV_def wire_simps const_defs)

lemmas mLACPWarmbootTLV_wire [wire_simps] = mLACPWarmbootTLV_codec.de_ser mLACPWarmbootTLV_codec.length_ser

record mLACPIfUpAckTLV =
  ua_icc_parameter :: ICCParameter
  ua_if_type :: u8
  ua_port_isolation_state :: u8
  ua_if_id :: u16

definition ser_mLACPIfUpAckTLV :: "mLACPIfUpAckTLV \<Rightarrow> bytes" where
  "ser_mLACPIfUpAckTLV t = ser_ICCParameter (ua_icc_parameter t) @ [ua_if_type t] @ [ua_port_isolation_state t] @
     le16 (ua_if_id t)"

definition de_mLACPIfUpAckTLV :: "mLACPIfUpAckTLV decoder" where
  "de_mLACPIfUpAckTLV bs = do {
     (x0, r) \<leftarrow> de_ICCParameter bs;
     (x1, r) \<leftarrow> de_u8 r;
     (x2, r) \<leftarrow> de_u8 r;
     (x3, r) \<leftarrow> de_le16 r;
     Some (\<lparr>ua_icc_parameter = x0, ua_if_type = x1, ua_port_isolation_state = x2, ua_if_id = x3\<rparr>, r) }"

interpretation mLACPIfUpAckTLV_codec: codec ser_mLACPIfUpAckTLV de_mLACPIfUpAckTLV 8 "\<lambda>_. True"
  by unfold_locales
    (simp_all add: ser_mLACPIfUpAckTLV_def de_mLACPIfUpAckTLV_def wire_simps const_defs)

lemmas mLACPIfUpAckTLV_wire [wire_simps] = mLACPIfUpAckTLV_codec.de_ser mLACPIfUpAckTLV_codec.length_ser

end
