(* ===== verification/Rb_Tree.thy ===== *)
theory Rb_Tree
  imports Iccp_Prelude
begin

text \<open>
  The ordered trees of the daemon. \<open>openbsd_tree.h\<close> provides them through the macros \<open>RB_FIND\<close>,
  \<open>RB_INSERT\<close>, \<open>RB_REMOVE\<close> and \<open>RB_FOREACH\<close>, over a three-way comparison function of the user.
  A tree is the list of its nodes in the order \<open>RB_FOREACH\<close> visits them, so the balancing of the
  tree is not visible here; \<open>Rb_Heap\<close> has the tree in memory and \<open>Rb_Refine\<close> that it implements these
  operations. The locale \<open>tree_order\<close> is what the comparison function has to
  satisfy; the component theories interpret it on \<open>vlan_node_compare\<close> and \<open>MACMsg_compare\<close>.
\<close>

text \<open>\<open>memcmp\<close> on two arrays of the same length.\<close>

fun memcmp :: "bytes \<Rightarrow> bytes \<Rightarrow> int" where
  "memcmp (a # as) (b # bs) = (if a < b then -1 else if b < a then 1 else memcmp as bs)"
| "memcmp _ _ = 0"

definition rb_find :: "('k \<Rightarrow> 'a \<Rightarrow> int) \<Rightarrow> 'k \<Rightarrow> 'a list \<Rightarrow> 'a option" where
  "rb_find cmp k xs = find (\<lambda>x. cmp k x = 0) xs"

text \<open>\<open>RB_INSERT\<close> leaves the tree alone when a node with the same key is in it.\<close>

fun rb_insert :: "('a \<Rightarrow> 'a \<Rightarrow> int) \<Rightarrow> 'a \<Rightarrow> 'a list \<Rightarrow> 'a list" where
  "rb_insert cmp x [] = [x]"
| "rb_insert cmp x (y # ys) =
     (if cmp x y < 0 then x # y # ys
      else if cmp x y = 0 then y # ys
      else y # rb_insert cmp x ys)"

text \<open>\<open>RB_REMOVE\<close> unlinks the node it is given.\<close>

definition rb_remove :: "'a \<Rightarrow> 'a list \<Rightarrow> 'a list" where
  "rb_remove x xs = remove1 x xs"

definition rb_sorted :: "('a \<Rightarrow> 'a \<Rightarrow> int) \<Rightarrow> 'a list \<Rightarrow> bool" where
  "rb_sorted cmp xs \<longleftrightarrow> sorted_wrt (\<lambda>x y. cmp x y < 0) xs"

lemma memcmp_refl [simp]: "memcmp a a = 0"
  by (induction a) auto

lemma memcmp_antisym: "memcmp a b = - memcmp b a"
  by (induction a b rule: memcmp.induct) auto

lemma memcmp_eq_0: "length a = length b \<Longrightarrow> memcmp a b = 0 \<longleftrightarrow> a = b"
  by (induction a b rule: memcmp.induct) auto

lemma memcmp_less_trans:
  "length a = length b \<Longrightarrow> length b = length c \<Longrightarrow> memcmp a b < 0 \<Longrightarrow> memcmp b c < 0 \<Longrightarrow>
   memcmp a c < 0"
proof (induction a arbitrary: b c)
  case Nil
  then show ?case by simp
next
  case (Cons x a)
  obtain y b' where b: "b = y # b'"
    using Cons.prems(1) by (cases b) auto
  obtain z c' where c: "c = z # c'"
    using Cons.prems(2) b by (cases c) auto
  show ?case
    using Cons.prems Cons.IH [of b' c'] by (auto simp: b c split: if_splits)
qed

lemma set_rb_insert: "set (rb_insert cmp x xs) \<subseteq> insert x (set xs)"
  by (induction xs) auto

lemma rb_find_Some: "rb_find cmp k xs = Some x \<Longrightarrow> x \<in> set xs \<and> cmp k x = 0"
  by (auto simp: rb_find_def dest: find_SomeD)

lemma rb_find_None: "rb_find cmp k xs = None \<longleftrightarrow> (\<forall>x \<in> set xs. cmp k x \<noteq> 0)"
  by (auto simp: rb_find_def find_None_iff)

lemma rb_insert_new:
  "rb_find cmp x xs = None \<Longrightarrow> set (rb_insert cmp x xs) = insert x (set xs)"
  by (induction xs) (auto simp: rb_find_None)

lemma set_rb_remove: "distinct xs \<Longrightarrow> set (rb_remove x xs) = set xs - {x}"
  by (simp add: rb_remove_def)

lemma rb_sorted_remove: "rb_sorted cmp xs \<Longrightarrow> rb_sorted cmp (rb_remove x xs)"
proof (induction xs)
  case Nil
  then show ?case by (simp add: rb_sorted_def rb_remove_def)
next
  case (Cons y ys)
  then show ?case
    using set_remove1_subset [of x ys] by (auto simp: rb_sorted_def rb_remove_def)
qed

text \<open>
  The comparison is a total preorder on the nodes that satisfy \<open>ok\<close>: comparing a node with
  itself gives 0, swapping the arguments flips the sign, "less" is transitive and nodes with
  equal keys compare alike.
\<close>

locale tree_order =
  fixes cmp :: "'a \<Rightarrow> 'a \<Rightarrow> int" and ok :: "'a \<Rightarrow> bool"
  assumes cmp_refl: "cmp x x = 0"
    and cmp_flip: "cmp x y < 0 \<longleftrightarrow> 0 < cmp y x"
    and cmp_trans: "ok x \<Longrightarrow> ok y \<Longrightarrow> ok z \<Longrightarrow> cmp x y < 0 \<Longrightarrow> cmp y z < 0 \<Longrightarrow> cmp x z < 0"
    and cmp_eq: "ok x \<Longrightarrow> ok y \<Longrightarrow> ok z \<Longrightarrow> cmp x y = 0 \<Longrightarrow> cmp y z < 0 \<Longrightarrow> cmp x z < 0"
begin

lemma sorted_distinct: "rb_sorted cmp xs \<Longrightarrow> distinct xs"
  unfolding rb_sorted_def by (induction xs) (auto simp: cmp_refl)

lemma sorted_insert:
  assumes "rb_sorted cmp xs" "ok x" "\<forall>y \<in> set xs. ok y"
  shows "rb_sorted cmp (rb_insert cmp x xs)"
  using assms
proof (induction xs)
  case Nil
  then show ?case by (simp add: rb_sorted_def)
next
  case (Cons y ys)
  have ys: "rb_sorted cmp (rb_insert cmp x ys)"
    using Cons by (simp add: rb_sorted_def)
  consider "cmp x y < 0" | "cmp x y = 0" | "0 < cmp x y" by linarith
  then show ?case
  proof cases
    case 1
    then have "\<forall>z \<in> set ys. cmp x z < 0"
      using Cons.prems by (auto simp: rb_sorted_def intro: cmp_trans [of x y])
    with 1 Cons.prems show ?thesis by (simp add: rb_sorted_def)
  next
    case 2
    with Cons.prems show ?thesis by simp
  next
    case 3
    then have "cmp y x < 0" by (simp add: cmp_flip)
    with 3 ys Cons.prems set_rb_insert [of cmp x ys] show ?thesis
      by (auto simp: rb_sorted_def)
  qed
qed

text \<open>A node that was inserted under a fresh key is found under it.\<close>

lemma find_insert_same:
  assumes "rb_find cmp x xs = None"
  shows "rb_find cmp x (rb_insert cmp x xs) = Some x"
  using assms
  by (induction xs) (auto simp: rb_find_def cmp_refl split: if_splits)

lemma find_insert_other:
  assumes "cmp k x \<noteq> 0" "rb_find cmp x xs = None"
  shows "rb_find cmp k (rb_insert cmp x xs) = rb_find cmp k xs"
  using assms
  by (induction xs) (auto simp: rb_find_def split: if_splits)

lemma find_remove_same:
  assumes "rb_sorted cmp xs" "x \<in> set xs" "\<forall>y \<in> set xs. ok y"
  shows "rb_find cmp x (rb_remove x xs) = None"
proof -
  have "\<forall>y \<in> set xs. y \<noteq> x \<longrightarrow> cmp x y \<noteq> 0"
    using assms(1,2) unfolding rb_sorted_def
  proof (induction xs)
    case (Cons z zs)
    have "\<forall>y \<in> set zs. cmp z y < 0 \<and> 0 < cmp y z"
      using Cons.prems(1) by (simp add: cmp_flip)
    then have "cmp z y \<noteq> 0 \<and> cmp y z \<noteq> 0" if "y \<in> set zs" for y
      using that by fastforce
    with Cons show ?case by auto
  qed simp
  moreover have "set (rb_remove x xs) = set xs - {x}"
    using sorted_distinct [OF assms(1)] by (rule set_rb_remove)
  ultimately show ?thesis by (auto simp: rb_find_None)
qed

end

end
