(* ===== verification/Iccp_State.thy ===== *)
theory Iccp_State
  imports Iccp_Wire Rb_Tree
begin

text \<open>
  The data the daemon keeps: the structures of \<open>port.h\<close>, \<open>mlacp_tlv.h\<close> (the MAC entry),
  \<open>app_csm.h\<close>, \<open>mlacp_fsm.h\<close>, \<open>iccp_csm.h\<close> and \<open>system.h\<close>, and the accessors the components
  share.

  Objects that are reached through more than one pointer live in a store: connection state
  machines and local interfaces in the system record, MAC entries in the record of their state
  machine. A pointer is a store address, \<open>None\<close> is \<open>NULL\<close>, and the linked lists are lists of
  addresses. The addresses of the MAC entries that were freed are recorded, so that a pointer that
  is used after its entry was freed can be told from a valid one. Objects with a single owner
  (peer interfaces, VLAN nodes, queued messages) are kept by value in the list that owns them.
  Interface names are strings, so what an array holds behind the terminator of a name is not
  represented. Descriptors, file names and statistics no operation of this development reads are
  left out of the system record.

  What the operating system does is part of the record as well: the current time, the results
  of the successive \<open>write\<close>, \<open>recv\<close> and \<open>connect\<close> calls for the peer, of the \<open>send\<close> calls on the
  socket of mclagsyncd and of the requests to the kernel, and whether the successive allocations
  succeed. The bytes handed to the two sockets and the requests to the kernel are logged.
\<close>

section \<open>Enumerations\<close>

datatype ICCP_CONNECTION_STATE =
  ICCP_NONEXISTENT | ICCP_INITIALIZED | ICCP_CAPSENT | ICCP_CAPREC | ICCP_CONNECTING
| ICCP_OPERATIONAL

datatype stp_role_type = STP_ROLE_NONE | STP_ROLE_ACTIVE | STP_ROLE_STANDBY

datatype APP_CONNECTION_STATE =
  APP_NONEXISTENT | APP_RESET | APP_CONNSENT | APP_CONNREC | APP_CONNECTING | APP_OPERATIONAL

datatype MLACP_APP_STATE =
  MLACP_STATE_INIT | MLACP_STATE_STAGE1 | MLACP_STATE_STAGE2 | MLACP_STATE_EXCHANGE
| MLACP_STATE_ERROR

datatype MLACP_SYNC_STATE =
  MLACP_SYNC_SYSCONF | MLACP_SYNC_AGGCONF | MLACP_SYNC_AGGSTATE | MLACP_SYNC_AGGINFO
| MLACP_SYNC_PEERLINKINFO | MLACP_SYNC_ARP_INFO | MLACP_SYNC_NDISC_INFO | MLACP_SYNC_DONE

text \<open>Interface types and port states (\<open>port.h\<close>).\<close>

definition IF_T_UNKNOW :: int where [const_defs]: "IF_T_UNKNOW = -1"
definition IF_T_PORT :: int where [const_defs]: "IF_T_PORT = 0"
definition IF_T_PORT_CHANNEL :: int where [const_defs]: "IF_T_PORT_CHANNEL = 1"
definition IF_T_VLAN :: int where [const_defs]: "IF_T_VLAN = 2"
definition IF_T_VXLAN :: int where [const_defs]: "IF_T_VXLAN = 3"
definition IF_T_BRIDGE :: int where [const_defs]: "IF_T_BRIDGE = 4"
definition PORT_STATE_UP :: u8 where [const_defs]: "PORT_STATE_UP = 0"
definition PORT_STATE_DOWN :: u8 where [const_defs]: "PORT_STATE_DOWN = 1"
definition MCLAG_ERROR :: int where [const_defs]: "MCLAG_ERROR = -1"
definition CSM_BUFFER_SIZE :: nat where [const_defs]: "CSM_BUFFER_SIZE = 65536"
definition WARM_REBOOT :: int where [const_defs]: "WARM_REBOOT = 1"

section \<open>Interfaces\<close>

type_synonym csm_ptr = nat
type_synonym lif_ptr = nat
type_synonym mac_ptr = nat

record VLAN_ID =
  vl_vid :: u16
  vl_removed :: u16
  vl_itf :: "lif_ptr option"

record PeerInterface =
  pif_ifindex :: int
  pif_type :: int
  pif_name :: string
  pif_mac_addr :: bytes
  pif_state :: u8
  pif_ipv4_addr :: u32
  pif_l3_mode :: u8
  pif_is_peer_link :: u8
  pif_po_id :: int
  pif_po_active :: u8
  pif_csm :: "csm_ptr option"
  pif_vlan_tree :: "VLAN_ID list"

record LocalInterface =
  lif_ifindex :: int
  lif_type :: int
  lif_name :: string
  lif_mac_addr :: bytes
  lif_mac_addr_ori :: bytes
  lif_state :: u8
  lif_ipv4_addr :: u32
  lif_prefixlen :: u8
  lif_ipv6_addr :: bytes
  lif_prefixlen_v6 :: u8
  lif_ipv6_ll_addr :: bytes
  lif_ll_prefixlen_v6 :: u8
  lif_l3_mode :: u8
  lif_l3_mac_addr :: bytes
  lif_is_peer_link :: u8
  lif_portchannel_member_buf :: string
  lif_is_arp_accept :: u8
  lif_po_id :: int
  lif_po_active :: u8
  lif_mlacp_state :: MLACP_APP_STATE
  lif_isolate_to_peer_link :: u8
  lif_po_down_time :: int
  lif_csm :: "csm_ptr option"
  lif_changed :: u8
  lif_port_config_sync :: u8
  lif_is_traffic_disable :: bool
  lif_is_l3_proto_enabled :: bool
  lif_vlan_count :: u32
  lif_master_ifindex :: u32
  lif_vlan_tree :: "VLAN_ID list"

record PendingVlanMbrIf =
  pend_name :: string
  pend_vlan_tree :: "VLAN_ID list"

section \<open>MAC entries\<close>

record MACMsg =
  mac_vid :: u16
  mac_addr :: bytes
  mac_op_type :: u8
  mac_fdb_type :: u8
  mac_ifname :: string
  mac_origin_ifname :: string
  mac_age_flag :: u8
  mac_pending_local_del :: u8
  mac_add_to_syncd :: u8

section \<open>The state machines\<close>

record Remote_System =
  rs_system_id :: bytes
  rs_system_priority :: u16
  rs_node_id :: u32

type_synonym iccp_counters = "nat \<Rightarrow> nat \<Rightarrow> nat \<Rightarrow> u64"

record mLACP =
  ml_id :: int
  ml_sync_req_num :: int
  ml_current_state :: MLACP_APP_STATE
  ml_sync_state :: MLACP_SYNC_STATE
  ml_wait_for_sync_data :: u8
  ml_need_to_sync :: u8
  ml_node_id :: u8
  ml_system_id :: bytes
  ml_system_priority :: u16
  ml_system_config_changed :: u8
  ml_remote_system :: Remote_System
  ml_msg_list :: "bytes list"
  ml_arp_msg_list :: "ARPMsg list"
  ml_arp_list :: "ARPMsg list"
  ml_ndisc_msg_list :: "NDISCMsg list"
  ml_ndisc_list :: "NDISCMsg list"
  ml_mac_msg_list :: "mac_ptr list"
  ml_mac_rb :: "mac_ptr list"
  ml_mac_heap :: "mac_ptr \<Rightarrow> MACMsg"
  ml_mac_next :: mac_ptr
  ml_mac_freed :: "mac_ptr list"
  ml_lif_list :: "lif_ptr list"
  ml_lif_purge_list :: "lif_ptr list"
  ml_pif_list :: "PeerInterface list"
  ml_dbg_counters :: iccp_counters

record AppCSM =
  app_mlacp :: mLACP
  app_current_state :: APP_CONNECTION_STATE
  app_rx_connect_msg_id :: u32
  app_tx_connect_msg_id :: u32
  app_invalid_msg_id :: u32
  app_msg_list :: "bytes list"
  app_invalid_msg :: "1 word"
  app_nak_msg :: "1 word"

record IccpInfo =
  inf_icc_rg_id :: u32
  inf_sender_name :: string
  inf_status_code :: u32
  inf_peer_capability_flag :: "1 word"
  inf_peer_rg_connect_flag :: "1 word"
  inf_sender_capability_flag :: "1 word"
  inf_sender_rg_connect_flag :: "1 word"
  inf_rejected_msg_id :: u32

record MsgTypeSet =
  mts_msg_id :: u32
  mts_type :: u16
  mts_tlv :: u16

record MsgLog =
  log_msg :: "MsgTypeSet list"
  log_end_index :: u32

record CSM =
  csm_mlag_id :: int
  csm_sock_fd :: int
  csm_connTimePrev :: int
  csm_heartbeat_send_time :: int
  csm_heartbeat_update_time :: int
  csm_peer_warm_reboot_time :: int
  csm_warm_reboot_disconn_time :: int
  csm_peer_itf_name :: string
  csm_peer_link_learning_retry_time :: int
  csm_peer_ip :: string
  csm_sender_ip :: string
  csm_keepalive_time :: int
  csm_session_timeout :: int
  csm_peer_link_learning_enable :: int
  csm_msg_list :: "bytes list"
  csm_role_type :: stp_role_type
  csm_peer_link_if :: "lif_ptr option"
  csm_iccp_info :: IccpInfo
  csm_app_csm :: AppCSM
  csm_current_state :: ICCP_CONNECTION_STATE
  csm_icc_msg_in_count :: u64
  csm_icc_msg_out_count :: u64
  csm_u_msg_in_count :: u64
  csm_i_msg_in_count :: u64
  csm_msg_log :: MsgLog
  csm_if_bind_list :: "string list"

text \<open>The macro \<open>MLACP(csm)\<close>.\<close>

abbreviation MLACP :: "CSM \<Rightarrow> mLACP" where
  "MLACP csm \<equiv> app_mlacp (csm_app_csm csm)"

definition upd_info :: "(IccpInfo \<Rightarrow> IccpInfo) \<Rightarrow> CSM \<Rightarrow> CSM" where
  "upd_info f csm = csm\<lparr>csm_iccp_info := f (csm_iccp_info csm)\<rparr>"

definition upd_app :: "(AppCSM \<Rightarrow> AppCSM) \<Rightarrow> CSM \<Rightarrow> CSM" where
  "upd_app f csm = csm\<lparr>csm_app_csm := f (csm_app_csm csm)\<rparr>"

definition upd_mlacp :: "(mLACP \<Rightarrow> mLACP) \<Rightarrow> CSM \<Rightarrow> CSM" where
  "upd_mlacp f = upd_app (\<lambda>a. a\<lparr>app_mlacp := f (app_mlacp a)\<rparr>)"

section \<open>The system\<close>

text \<open>
  The result of a non-blocking \<open>send\<close>: the bytes taken, \<open>EAGAIN\<close>/\<open>EWOULDBLOCK\<close>, another error,
  or 0 for a closed socket (\<open>Sent 0\<close>).
\<close>

datatype send_result = Sent nat | SendAgain | SendErr

text \<open>
  The result of a \<open>recv\<close> on the peer socket: data, \<open>EAGAIN\<close>/\<open>EWOULDBLOCK\<close>, another error, or 0
  for a closed connection; and the result of an attempt to connect to the peer: no socket, a
  failure after the socket was created, or the connected descriptor.
\<close>

datatype recv_result = Received bytes | RecvAgain | RecvErr | RecvClosed

datatype connect_result = SocketFailed | ConnectFailed | Connected int

text \<open>
  What the daemon asks of the kernel, through netlink or through \<open>system\<close>: set the hardware
  address of an interface, take it down, bring it up, add or delete a neighbour (family, address,
  MAC, interface index, permanent), or run a shell command.
\<close>

datatype kernel_req =
  HwAddrSet int bytes | IfShutdown int | IfStartup int
| NeighAdd bool bytes bytes int bool | NeighDel bool bytes bytes int bool
| ShellCmd string

record System =
  sys_sync_fd :: int
  sys_warmboot_exit :: int
  sys_csm_list :: "csm_ptr list"
  sys_csm_heap :: "csm_ptr \<Rightarrow> CSM"
  sys_lif_list :: "lif_ptr list"
  sys_lif_purge_list :: "lif_ptr list"
  sys_lif_heap :: "lif_ptr \<Rightarrow> LocalInterface"
  sys_lif_next :: lif_ptr
  sys_unq_ip_if_list :: "string list"
  sys_pending_vlan_mbr_if_list :: "PendingVlanMbrIf list"
  sys_syncd_tx_counters :: "nat \<Rightarrow> nat \<Rightarrow> u64"
  sys_ICCP_MSG_ID :: u32
  sys_once_connected :: bool
  env_time :: int
  env_write :: "nat \<Rightarrow> nat \<Rightarrow> int"
  env_send :: "nat \<Rightarrow> send_result"
  env_recv :: "nat \<Rightarrow> recv_result"
  env_connect :: "nat \<Rightarrow> connect_result"
  env_kernel :: "nat \<Rightarrow> int"
  env_malloc :: "nat \<Rightarrow> bool"
  env_n_send :: nat
  env_n_recv :: nat
  env_n_connect :: nat
  env_n_malloc :: nat
  peer_tx :: "(int \<times> bytes \<times> int) list"
  syncd_tx :: "bytes list"
  kernel_log :: "kernel_req list"

abbreviation csm_of :: "System \<Rightarrow> csm_ptr \<Rightarrow> CSM" where
  "csm_of s c \<equiv> sys_csm_heap s c"

abbreviation lif_of :: "System \<Rightarrow> lif_ptr \<Rightarrow> LocalInterface" where
  "lif_of s p \<equiv> sys_lif_heap s p"

definition upd_csm :: "csm_ptr \<Rightarrow> (CSM \<Rightarrow> CSM) \<Rightarrow> System \<Rightarrow> System" where
  "upd_csm c f s = s\<lparr>sys_csm_heap := (sys_csm_heap s)(c := f (sys_csm_heap s c))\<rparr>"

definition upd_lif :: "lif_ptr \<Rightarrow> (LocalInterface \<Rightarrow> LocalInterface) \<Rightarrow> System \<Rightarrow> System" where
  "upd_lif p f s = s\<lparr>sys_lif_heap := (sys_lif_heap s)(p := f (sys_lif_heap s p))\<rparr>"

text \<open>\<open>malloc\<close>: whether the next allocation succeeds.\<close>

definition malloc :: "System \<Rightarrow> bool \<times> System" where
  "malloc s = (env_malloc s (env_n_malloc s), s\<lparr>env_n_malloc := Suc (env_n_malloc s)\<rparr>)"

text \<open>A request to the kernel, with the value it returns.\<close>

definition kernel :: "kernel_req \<Rightarrow> System \<Rightarrow> int \<times> System" where
  "kernel r s = (env_kernel s (length (kernel_log s)), s\<lparr>kernel_log := kernel_log s @ [r]\<rparr>)"

lemmas upd_defs = upd_info_def upd_app_def upd_mlacp_def upd_csm_def upd_lif_def

section \<open>Initial values\<close>

text \<open>The structures after \<open>memset(p, 0, sizeof *p)\<close>.\<close>

definition zero_LocalInterface :: LocalInterface where
  "zero_LocalInterface = \<lparr>lif_ifindex = 0, lif_type = 0, lif_name = [],
     lif_mac_addr = replicate 6 0, lif_mac_addr_ori = replicate 6 0, lif_state = 0,
     lif_ipv4_addr = 0, lif_prefixlen = 0, lif_ipv6_addr = replicate 16 0, lif_prefixlen_v6 = 0,
     lif_ipv6_ll_addr = replicate 16 0, lif_ll_prefixlen_v6 = 0, lif_l3_mode = 0,
     lif_l3_mac_addr = replicate 6 0, lif_is_peer_link = 0, lif_portchannel_member_buf = [],
     lif_is_arp_accept = 0, lif_po_id = 0, lif_po_active = 0, lif_mlacp_state = MLACP_STATE_INIT,
     lif_isolate_to_peer_link = 0, lif_po_down_time = 0, lif_csm = None, lif_changed = 0,
     lif_port_config_sync = 0, lif_is_traffic_disable = False, lif_is_l3_proto_enabled = False,
     lif_vlan_count = 0, lif_master_ifindex = 0, lif_vlan_tree = []\<rparr>"

definition zero_PeerInterface :: PeerInterface where
  "zero_PeerInterface = \<lparr>pif_ifindex = 0, pif_type = 0, pif_name = [],
     pif_mac_addr = replicate 6 0, pif_state = 0, pif_ipv4_addr = 0, pif_l3_mode = 0,
     pif_is_peer_link = 0, pif_po_id = 0, pif_po_active = 0, pif_csm = None,
     pif_vlan_tree = []\<rparr>"

definition zero_MACMsg :: MACMsg where
  "zero_MACMsg = \<lparr>mac_vid = 0, mac_addr = replicate 6 0, mac_op_type = 0, mac_fdb_type = 0,
     mac_ifname = [], mac_origin_ifname = [], mac_age_flag = 0, mac_pending_local_del = 0,
     mac_add_to_syncd = 0\<rparr>"

definition zero_mLACP :: mLACP where
  "zero_mLACP = \<lparr>ml_id = 0, ml_sync_req_num = 0, ml_current_state = MLACP_STATE_INIT,
     ml_sync_state = MLACP_SYNC_SYSCONF, ml_wait_for_sync_data = 0, ml_need_to_sync = 0,
     ml_node_id = 0, ml_system_id = replicate 6 0, ml_system_priority = 0,
     ml_system_config_changed = 0,
     ml_remote_system = \<lparr>rs_system_id = replicate 6 0, rs_system_priority = 0, rs_node_id = 0\<rparr>,
     ml_msg_list = [], ml_arp_msg_list = [], ml_arp_list = [], ml_ndisc_msg_list = [],
     ml_ndisc_list = [], ml_mac_msg_list = [], ml_mac_rb = [], ml_mac_heap = (\<lambda>_. zero_MACMsg),
     ml_mac_next = 0, ml_mac_freed = [], ml_lif_list = [], ml_lif_purge_list = [], ml_pif_list = [],
     ml_dbg_counters = (\<lambda>_ _ _. 0)\<rparr>"

definition zero_CSM :: CSM where
  "zero_CSM = \<lparr>csm_mlag_id = 0, csm_sock_fd = 0, csm_connTimePrev = 0,
     csm_heartbeat_send_time = 0, csm_heartbeat_update_time = 0, csm_peer_warm_reboot_time = 0,
     csm_warm_reboot_disconn_time = 0, csm_peer_itf_name = [],
     csm_peer_link_learning_retry_time = 0, csm_peer_ip = [], csm_sender_ip = [],
     csm_keepalive_time = 0, csm_session_timeout = 0, csm_peer_link_learning_enable = 0,
     csm_msg_list = [], csm_role_type = STP_ROLE_NONE, csm_peer_link_if = None,
     csm_iccp_info = \<lparr>inf_icc_rg_id = 0, inf_sender_name = [], inf_status_code = 0,
       inf_peer_capability_flag = 0, inf_peer_rg_connect_flag = 0,
       inf_sender_capability_flag = 0, inf_sender_rg_connect_flag = 0, inf_rejected_msg_id = 0\<rparr>,
     csm_app_csm = \<lparr>app_mlacp = zero_mLACP, app_current_state = APP_NONEXISTENT,
       app_rx_connect_msg_id = 0, app_tx_connect_msg_id = 0, app_invalid_msg_id = 0,
       app_msg_list = [], app_invalid_msg = 0, app_nak_msg = 0\<rparr>,
     csm_current_state = ICCP_NONEXISTENT, csm_icc_msg_in_count = 0, csm_icc_msg_out_count = 0,
     csm_u_msg_in_count = 0, csm_i_msg_in_count = 0,
     csm_msg_log = \<lparr>log_msg = replicate MAX_MSG_LOG_SIZE \<lparr>mts_msg_id = 0, mts_type = 0, mts_tlv = 0\<rparr>,
       log_end_index = 0\<rparr>,
     csm_if_bind_list = []\<rparr>"

text \<open>
  \<open>system_init\<close> on the record an environment comes with. The memory the two stores stand for is
  not allocated yet.
\<close>

definition system_init :: "System \<Rightarrow> System" where
  "system_init s = s\<lparr>sys_sync_fd := -1, sys_warmboot_exit := 0, sys_csm_list := [],
     sys_lif_list := [], sys_lif_purge_list := [], sys_unq_ip_if_list := [],
     sys_pending_vlan_mbr_if_list := [], sys_syncd_tx_counters := (\<lambda>_ _. 0)\<rparr>"

text \<open>
  A host for concrete runs: time 0, every write to the peer takes the whole buffer, allocations
  succeed, and the results of \<open>send\<close> are given.
\<close>

definition a_host :: "(nat \<Rightarrow> send_result) \<Rightarrow> System" where
  "a_host snd_results = \<lparr>sys_sync_fd = 0, sys_warmboot_exit = 0, sys_csm_list = [],
     sys_csm_heap = (\<lambda>_. zero_CSM), sys_lif_list = [], sys_lif_purge_list = [],
     sys_lif_heap = (\<lambda>_. zero_LocalInterface), sys_lif_next = 0, sys_unq_ip_if_list = [],
     sys_pending_vlan_mbr_if_list = [], sys_syncd_tx_counters = (\<lambda>_ _. 0), sys_ICCP_MSG_ID = 1,
     sys_once_connected = False, env_time = 0, env_write = (\<lambda>_ n. int n), env_send = snd_results,
     env_recv = (\<lambda>_. RecvClosed), env_connect = (\<lambda>_. Connected 9), env_kernel = (\<lambda>_. 0),
     env_malloc = (\<lambda>_. True), env_n_send = 0, env_n_recv = 0, env_n_connect = 0,
     env_n_malloc = 0, peer_tx = [], syncd_tx = [], kernel_log = []\<rparr>"

end
