(* ===== verification/Syncd_Link.thy ===== *)
theory Syncd_Link
  imports Iccp_State
begin

text \<open>
  The messages the daemon sends to mclagsyncd (\<open>mlacp_link_handler.c\<close>, with the counters of
  \<open>system.c\<close> and the layouts of \<open>msg_format.h\<close>): the retrying non-blocking send, the header and
  sub-option encoding, and one operation per request. The parser at the end of the section on
  encoding is the specification of the format: it reads back what every request was built from.
\<close>

section \<open>Constants\<close>

definition ICCPD_TO_MCLAGSYNCD_HDR_VERSION :: u8 where
  [const_defs]: "ICCPD_TO_MCLAGSYNCD_HDR_VERSION = 1"
definition SYNCD_SEND_RETRY_MAX :: nat where [const_defs]: "SYNCD_SEND_RETRY_MAX = 5"
definition MCLAG_MSG_TYPE_PORT_ISOLATE :: u8 where
  [const_defs]: "MCLAG_MSG_TYPE_PORT_ISOLATE = 1"
definition MCLAG_MSG_TYPE_PORT_MAC_LEARN_MODE :: u8 where
  [const_defs]: "MCLAG_MSG_TYPE_PORT_MAC_LEARN_MODE = 2"
definition MCLAG_MSG_TYPE_FLUSH_FDB :: u8 where [const_defs]: "MCLAG_MSG_TYPE_FLUSH_FDB = 3"
definition MCLAG_MSG_TYPE_SET_MAC :: u8 where [const_defs]: "MCLAG_MSG_TYPE_SET_MAC = 4"
definition MCLAG_MSG_TYPE_SET_FDB :: u8 where [const_defs]: "MCLAG_MSG_TYPE_SET_FDB = 5"
definition MCLAG_MSG_TYPE_SET_TRAFFIC_DIST_ENABLE :: u8 where
  [const_defs]: "MCLAG_MSG_TYPE_SET_TRAFFIC_DIST_ENABLE = 6"
definition MCLAG_MSG_TYPE_SET_TRAFFIC_DIST_DISABLE :: u8 where
  [const_defs]: "MCLAG_MSG_TYPE_SET_TRAFFIC_DIST_DISABLE = 7"
definition MCLAG_MSG_TYPE_SET_ICCP_STATE :: u8 where
  [const_defs]: "MCLAG_MSG_TYPE_SET_ICCP_STATE = 8"
definition MCLAG_MSG_TYPE_SET_ICCP_ROLE :: u8 where
  [const_defs]: "MCLAG_MSG_TYPE_SET_ICCP_ROLE = 9"
definition MCLAG_MSG_TYPE_SET_ICCP_SYSTEM_ID :: u8 where
  [const_defs]: "MCLAG_MSG_TYPE_SET_ICCP_SYSTEM_ID = 10"
definition MCLAG_MSG_TYPE_DEL_ICCP_INFO :: u8 where
  [const_defs]: "MCLAG_MSG_TYPE_DEL_ICCP_INFO = 11"
definition MCLAG_MSG_TYPE_SET_REMOTE_IF_STATE :: u8 where
  [const_defs]: "MCLAG_MSG_TYPE_SET_REMOTE_IF_STATE = 12"
definition MCLAG_MSG_TYPE_DEL_REMOTE_IF_INFO :: u8 where
  [const_defs]: "MCLAG_MSG_TYPE_DEL_REMOTE_IF_INFO = 13"
definition MCLAG_MSG_TYPE_SET_PEER_LINK_ISOLATION :: u8 where
  [const_defs]: "MCLAG_MSG_TYPE_SET_PEER_LINK_ISOLATION = 14"
definition MCLAG_MSG_TYPE_SET_ICCP_PEER_SYSTEM_ID :: u8 where
  [const_defs]: "MCLAG_MSG_TYPE_SET_ICCP_PEER_SYSTEM_ID = 15"

definition MCLAG_SUB_OPTION_TYPE_ISOLATE_SRC :: u8 where
  [const_defs]: "MCLAG_SUB_OPTION_TYPE_ISOLATE_SRC = 1"
definition MCLAG_SUB_OPTION_TYPE_ISOLATE_DST :: u8 where
  [const_defs]: "MCLAG_SUB_OPTION_TYPE_ISOLATE_DST = 2"
definition MCLAG_SUB_OPTION_TYPE_MAC_LEARN_ENABLE :: u8 where
  [const_defs]: "MCLAG_SUB_OPTION_TYPE_MAC_LEARN_ENABLE = 3"
definition MCLAG_SUB_OPTION_TYPE_MAC_LEARN_DISABLE :: u8 where
  [const_defs]: "MCLAG_SUB_OPTION_TYPE_MAC_LEARN_DISABLE = 4"
definition MCLAG_SUB_OPTION_TYPE_MCLAG_INTF_NAME :: u8 where
  [const_defs]: "MCLAG_SUB_OPTION_TYPE_MCLAG_INTF_NAME = 7"
definition MCLAG_SUB_OPTION_TYPE_MCLAG_ID :: u8 where
  [const_defs]: "MCLAG_SUB_OPTION_TYPE_MCLAG_ID = 8"
definition MCLAG_SUB_OPTION_TYPE_ICCP_ROLE :: u8 where
  [const_defs]: "MCLAG_SUB_OPTION_TYPE_ICCP_ROLE = 9"
definition MCLAG_SUB_OPTION_TYPE_SYSTEM_ID :: u8 where
  [const_defs]: "MCLAG_SUB_OPTION_TYPE_SYSTEM_ID = 10"
definition MCLAG_SUB_OPTION_TYPE_OPER_STATUS :: u8 where
  [const_defs]: "MCLAG_SUB_OPTION_TYPE_OPER_STATUS = 11"
definition MCLAG_SUB_OPTION_TYPE_ISOLATION_STATE :: u8 where
  [const_defs]: "MCLAG_SUB_OPTION_TYPE_ISOLATION_STATE = 12"

section \<open>Counters\<close>

text \<open>\<open>system_syncdtx_to_dbg_msg_type\<close>; 15 is \<open>SYNCD_TX_DBG_CNTR_MSG_MAX\<close>.\<close>

definition system_syncdtx_to_dbg_msg_type :: "u8 \<Rightarrow> nat" where
  "system_syncdtx_to_dbg_msg_type ty =
     (if ty = MCLAG_MSG_TYPE_PORT_ISOLATE then 0
      else if ty = MCLAG_MSG_TYPE_PORT_MAC_LEARN_MODE then 1
      else if ty = MCLAG_MSG_TYPE_FLUSH_FDB then 2
      else if ty = MCLAG_MSG_TYPE_SET_MAC then 3
      else if ty = MCLAG_MSG_TYPE_SET_FDB then 4
      else if ty = MCLAG_MSG_TYPE_SET_TRAFFIC_DIST_ENABLE then 5
      else if ty = MCLAG_MSG_TYPE_SET_TRAFFIC_DIST_DISABLE then 6
      else if ty = MCLAG_MSG_TYPE_SET_ICCP_STATE then 7
      else if ty = MCLAG_MSG_TYPE_SET_ICCP_ROLE then 8
      else if ty = MCLAG_MSG_TYPE_SET_ICCP_SYSTEM_ID then 9
      else if ty = MCLAG_MSG_TYPE_SET_REMOTE_IF_STATE then 11
      else if ty = MCLAG_MSG_TYPE_DEL_ICCP_INFO then 10
      else if ty = MCLAG_MSG_TYPE_DEL_REMOTE_IF_INFO then 12
      else if ty = MCLAG_MSG_TYPE_SET_PEER_LINK_ISOLATION then 13
      else if ty = MCLAG_MSG_TYPE_SET_ICCP_PEER_SYSTEM_ID then 14
      else 15)"

abbreviation (input) STS_OK :: nat where "STS_OK \<equiv> 0"
abbreviation (input) STS_ERR :: nat where "STS_ERR \<equiv> 1"

definition SYSTEM_SET_SYNCD_TX_DBG_COUNTER :: "u8 \<Rightarrow> nat \<Rightarrow> System \<Rightarrow> System" where
  "SYSTEM_SET_SYNCD_TX_DBG_COUNTER ty sts s =
     (let d = system_syncdtx_to_dbg_msg_type ty; k = sys_syncd_tx_counters s
      in if d < 15 \<and> sts < 2
         then s\<lparr>sys_syncd_tx_counters := k(d := (k d)(sts := k d sts + 1))\<rparr> else s)"

section \<open>Sending\<close>

text \<open>The next \<open>send\<close> or \<open>write\<close> on \<open>sync_fd\<close>; it never takes more bytes than it is offered.\<close>

definition sync_fd_send :: "bytes \<Rightarrow> System \<Rightarrow> send_result \<times> System" where
  "sync_fd_send buf s =
     (let s' = s\<lparr>env_n_send := Suc (env_n_send s)\<rparr>
      in case env_send s (env_n_send s) of
           Sent n \<Rightarrow> (Sent (min n (length buf)),
                     s'\<lparr>syncd_tx := syncd_tx s @ [take (min n (length buf)) buf]\<rparr>)
         | r \<Rightarrow> (r, s'))"

text \<open>The loop of \<open>iccp_send_to_mclagsyncd\<close>: \<open>buf\<close> is what is left from \<open>pos\<close> on.\<close>

function syncd_send_loop :: "u8 \<Rightarrow> bytes \<Rightarrow> nat \<Rightarrow> nat \<Rightarrow> System \<Rightarrow> int \<times> System" where
  "syncd_send_loop ty buf num_retry pos s =
     (if buf = [] then (int pos, SYSTEM_SET_SYNCD_TX_DBG_COUNTER ty STS_OK s)
      else case sync_fd_send buf s of
        (SendAgain, s') \<Rightarrow>
          (if SYNCD_SEND_RETRY_MAX < Suc num_retry
           then (MCLAG_ERROR, SYSTEM_SET_SYNCD_TX_DBG_COUNTER ty STS_ERR s')
           else syncd_send_loop ty buf (Suc num_retry) pos s')
      | (SendErr, s') \<Rightarrow> (MCLAG_ERROR, SYSTEM_SET_SYNCD_TX_DBG_COUNTER ty STS_ERR s')
      | (Sent n, s') \<Rightarrow>
          (if n = 0 then (MCLAG_ERROR, SYSTEM_SET_SYNCD_TX_DBG_COUNTER ty STS_ERR s')
           else syncd_send_loop ty (drop n buf) num_retry (pos + n) s'))"
  by pat_completeness auto
termination
  by (relation "measures [\<lambda>(ty, buf, k, pos, s). length buf,
        \<lambda>(ty, buf, k, pos, s). Suc SYNCD_SEND_RETRY_MAX - k]")
    (auto simp: SYNCD_SEND_RETRY_MAX_def)

declare syncd_send_loop.simps [simp del]

definition iccp_send_to_mclagsyncd :: "u8 \<Rightarrow> bytes \<Rightarrow> System \<Rightarrow> int \<times> System" where
  "iccp_send_to_mclagsyncd ty buf s =
     (if sys_sync_fd s \<noteq> 0 then syncd_send_loop ty buf 0 0 s else (0, s))"

text \<open>A single \<open>write\<close> or \<open>send\<close>, with the value it returns.\<close>

definition sync_fd_write :: "bytes \<Rightarrow> System \<Rightarrow> int \<times> System" where
  "sync_fd_write buf s =
     (case sync_fd_send buf s of (Sent n, s') \<Rightarrow> (int n, s') | (_, s') \<Rightarrow> (-1, s'))"

section \<open>Encoding\<close>

text \<open>
  \<open>IccpSyncdHDr\<close>, \<open>mclag_sub_option_hdr_t\<close> (one byte of padding before the length) and
  \<open>mclag_fdb_info\<close> (two bytes of padding before the VLAN). Lengths are in host byte order.
\<close>

definition sub_option :: "u8 \<Rightarrow> bytes \<Rightarrow> bytes" where
  "sub_option ty data = [ty, 0] @ le16 (word_of_nat (length data)) @ data"

definition syncd_hdr :: "u8 \<Rightarrow> bytes \<Rightarrow> bytes" where
  "syncd_hdr ty body =
     [ICCPD_TO_MCLAGSYNCD_HDR_VERSION, ty] @ le16 (word_of_nat (4 + length body)) @ body"

definition syncd_msg :: "u8 \<Rightarrow> (u8 \<times> bytes) list \<Rightarrow> bytes" where
  "syncd_msg ty opts = syncd_hdr ty (concat (map (\<lambda>(t, d). sub_option t d) opts))"

definition c_bool :: "bool \<Rightarrow> bytes" where "c_bool b = [if b then 1 else 0]"
definition c_int :: "int \<Rightarrow> bytes" where "c_int i = le32 (word_of_int i)"
definition c_chars :: "string \<Rightarrow> bytes" where "c_chars n = map byte_of_char n"

record mclag_fdb_info =
  fdb_mac :: bytes
  fdb_vid :: u32
  fdb_port_name :: bytes
  fdb_type :: u16
  fdb_op_type :: u16

definition ser_mclag_fdb_info :: "mclag_fdb_info \<Rightarrow> bytes" where
  "ser_mclag_fdb_info i = fdb_mac i @ [0, 0] @ le32 (fdb_vid i) @ fdb_port_name i
     @ le16 (fdb_type i) @ le16 (fdb_op_type i)"

text \<open>
  The specification of the format: the list of sub-options of a body, and the type and the
  sub-options of a whole message whose header announces exactly its length.
\<close>

fun parse_options :: "bytes \<Rightarrow> (u8 \<times> bytes) list option" where
  "parse_options [] = Some []"
| "parse_options (t # pad # a # b # r) =
     (let n = unat (of_le16 a b)
      in if n \<le> length r then map_option (\<lambda>os. (t, take n r) # os) (parse_options (drop n r))
         else None)"
| "parse_options _ = None"

fun parse_syncd :: "bytes \<Rightarrow> (u8 \<times> (u8 \<times> bytes) list) option" where
  "parse_syncd (v # ty # a # b # r) =
     (if v = ICCPD_TO_MCLAGSYNCD_HDR_VERSION \<and> unat (of_le16 a b) = 4 + length r
      then map_option (Pair ty) (parse_options r) else None)"
| "parse_syncd _ = None"

section \<open>Requests\<close>

text \<open>
  Most requests end alike: send when there is a socket, and report success only when the whole
  message went out.
\<close>

definition syncd_request :: "u8 \<Rightarrow> bytes \<Rightarrow> System \<Rightarrow> int \<times> System" where
  "syncd_request ty msg s =
     (let (rc, s') = (if sys_sync_fd s \<noteq> 0 then iccp_send_to_mclagsyncd ty msg s else (0, s))
      in if rc \<le> 0 \<or> rc \<noteq> int (length msg) then (MCLAG_ERROR, s') else (0, s'))"

text \<open>The same for the three requests that count a success once more themselves.\<close>

definition syncd_request_counted :: "u8 \<Rightarrow> bytes \<Rightarrow> System \<Rightarrow> int \<times> System" where
  "syncd_request_counted ty msg s =
     (let (rc, s') = syncd_request ty msg s
      in if rc = 0 then (0, SYSTEM_SET_SYNCD_TX_DBG_COUNTER ty STS_OK s') else (rc, s'))"

definition set_peerlink_mlag_port_learn :: "lif_ptr option \<Rightarrow> bool \<Rightarrow> System \<Rightarrow> System" where
  "set_peerlink_mlag_port_learn lif enable s =
     (case lif of None \<Rightarrow> s
      | Some p \<Rightarrow>
          let ty = MCLAG_MSG_TYPE_PORT_MAC_LEARN_MODE;
              op = (if enable then MCLAG_SUB_OPTION_TYPE_MAC_LEARN_ENABLE
                    else MCLAG_SUB_OPTION_TYPE_MAC_LEARN_DISABLE);
              msg = syncd_msg ty [(op, c_chars (lif_name (lif_of s p)))]
          in if sys_sync_fd s \<noteq> 0 then
               let (rc, s') = sync_fd_write msg s
               in SYSTEM_SET_SYNCD_TX_DBG_COUNTER ty
                    (if rc \<le> 0 \<or> rc \<noteq> int (length msg) then STS_ERR else STS_OK) s'
             else s)"

definition mlacp_link_set_traffic_dist_mode ::
  "string \<Rightarrow> bool \<Rightarrow> System \<Rightarrow> int \<times> System" where
  "mlacp_link_set_traffic_dist_mode po_name is_enable s =
     (let ty = (if is_enable then MCLAG_MSG_TYPE_SET_TRAFFIC_DIST_ENABLE
                else MCLAG_MSG_TYPE_SET_TRAFFIC_DIST_DISABLE)
      in syncd_request ty
           (syncd_msg ty [(MCLAG_SUB_OPTION_TYPE_MCLAG_INTF_NAME, c_chars po_name)]) s)"

definition mlacp_link_set_iccp_state :: "int \<Rightarrow> bool \<Rightarrow> System \<Rightarrow> int \<times> System" where
  "mlacp_link_set_iccp_state mlag_id is_oper_up s =
     (if sys_sync_fd s \<le> 0 \<and> \<not> is_oper_up then (MCLAG_ERROR, s)
      else syncd_request MCLAG_MSG_TYPE_SET_ICCP_STATE
        (syncd_msg MCLAG_MSG_TYPE_SET_ICCP_STATE
          [(MCLAG_SUB_OPTION_TYPE_MCLAG_ID, c_int mlag_id),
           (MCLAG_SUB_OPTION_TYPE_OPER_STATUS, c_bool is_oper_up)]) s)"

definition mlacp_link_set_iccp_role ::
  "int \<Rightarrow> bool \<Rightarrow> bytes \<Rightarrow> System \<Rightarrow> int \<times> System" where
  "mlacp_link_set_iccp_role mlag_id is_active_role system_id s =
     syncd_request MCLAG_MSG_TYPE_SET_ICCP_ROLE
       (syncd_msg MCLAG_MSG_TYPE_SET_ICCP_ROLE
         ([(MCLAG_SUB_OPTION_TYPE_MCLAG_ID, c_int mlag_id),
           (MCLAG_SUB_OPTION_TYPE_ICCP_ROLE, c_bool is_active_role)]
          @ (if is_active_role then [(MCLAG_SUB_OPTION_TYPE_SYSTEM_ID, system_id)] else []))) s"

definition mlacp_link_set_iccp_system_id :: "int \<Rightarrow> bytes \<Rightarrow> System \<Rightarrow> int \<times> System" where
  "mlacp_link_set_iccp_system_id mlag_id system_id s =
     syncd_request MCLAG_MSG_TYPE_SET_ICCP_SYSTEM_ID
       (syncd_msg MCLAG_MSG_TYPE_SET_ICCP_SYSTEM_ID
         [(MCLAG_SUB_OPTION_TYPE_MCLAG_ID, c_int mlag_id),
          (MCLAG_SUB_OPTION_TYPE_SYSTEM_ID, system_id)]) s"

definition mlacp_link_del_iccp_info :: "int \<Rightarrow> System \<Rightarrow> int \<times> System" where
  "mlacp_link_del_iccp_info mlag_id s =
     (let msg = syncd_msg MCLAG_MSG_TYPE_DEL_ICCP_INFO
                  [(MCLAG_SUB_OPTION_TYPE_MCLAG_ID, c_int mlag_id)];
          (rc, s') = (if sys_sync_fd s \<noteq> 0 then sync_fd_write msg s else (0, s))
      in if rc \<le> 0 \<or> rc \<noteq> int (length msg) then (MCLAG_ERROR, s')
         else (0, SYSTEM_SET_SYNCD_TX_DBG_COUNTER MCLAG_MSG_TYPE_DEL_ICCP_INFO STS_OK s'))"

definition mlacp_link_set_remote_if_state ::
  "int \<Rightarrow> string \<Rightarrow> bool \<Rightarrow> System \<Rightarrow> int \<times> System" where
  "mlacp_link_set_remote_if_state mlag_id po_name is_oper_up s =
     syncd_request_counted MCLAG_MSG_TYPE_SET_REMOTE_IF_STATE
       (syncd_msg MCLAG_MSG_TYPE_SET_REMOTE_IF_STATE
         [(MCLAG_SUB_OPTION_TYPE_MCLAG_ID, c_int mlag_id),
          (MCLAG_SUB_OPTION_TYPE_MCLAG_INTF_NAME, c_chars po_name),
          (MCLAG_SUB_OPTION_TYPE_OPER_STATUS, c_bool is_oper_up)]) s"

definition mlacp_link_del_remote_if_info :: "int \<Rightarrow> string \<Rightarrow> System \<Rightarrow> int \<times> System" where
  "mlacp_link_del_remote_if_info mlag_id po_name s =
     syncd_request_counted MCLAG_MSG_TYPE_DEL_REMOTE_IF_INFO
       (syncd_msg MCLAG_MSG_TYPE_DEL_REMOTE_IF_INFO
         [(MCLAG_SUB_OPTION_TYPE_MCLAG_ID, c_int mlag_id),
          (MCLAG_SUB_OPTION_TYPE_MCLAG_INTF_NAME, c_chars po_name)]) s"

definition mlacp_link_set_peerlink_port_isolation ::
  "int \<Rightarrow> string \<Rightarrow> bool \<Rightarrow> System \<Rightarrow> int \<times> System" where
  "mlacp_link_set_peerlink_port_isolation mlag_id po_name is_isolation_enable s =
     syncd_request_counted MCLAG_MSG_TYPE_SET_PEER_LINK_ISOLATION
       (syncd_msg MCLAG_MSG_TYPE_SET_PEER_LINK_ISOLATION
         [(MCLAG_SUB_OPTION_TYPE_MCLAG_ID, c_int mlag_id),
          (MCLAG_SUB_OPTION_TYPE_MCLAG_INTF_NAME, c_chars po_name),
          (MCLAG_SUB_OPTION_TYPE_ISOLATION_STATE, c_bool is_isolation_enable)]) s"

definition mlacp_link_disable_traffic_distribution :: "lif_ptr \<Rightarrow> System \<Rightarrow> System" where
  "mlacp_link_disable_traffic_distribution p s =
     (let lif = lif_of s p
      in case lif_csm lif of None \<Rightarrow> s
         | Some c \<Rightarrow>
             if ml_current_state (MLACP (csm_of s c)) \<noteq> MLACP_STATE_EXCHANGE then s
             else if lif_type lif = IF_T_PORT_CHANNEL \<and> lif_po_active lif = 0
                     \<and> \<not> lif_is_traffic_disable lif then
               let (rc, s') = mlacp_link_set_traffic_dist_mode (lif_name lif) False s
               in if rc = 0 then upd_lif p (\<lambda>l. l\<lparr>lif_is_traffic_disable := True\<rparr>) s' else s'
             else s)"

definition mlacp_link_enable_traffic_distribution :: "lif_ptr \<Rightarrow> System \<Rightarrow> System" where
  "mlacp_link_enable_traffic_distribution p s =
     (let lif = lif_of s p
      in case lif_csm lif of None \<Rightarrow> s
         | Some _ \<Rightarrow>
             if lif_type lif = IF_T_PORT_CHANNEL \<and> lif_is_traffic_disable lif then
               let (rc, s') = mlacp_link_set_traffic_dist_mode (lif_name lif) True s
               in if rc = 0 then upd_lif p (\<lambda>l. l\<lparr>lif_is_traffic_disable := False\<rparr>) s' else s'
             else s)"

section \<open>What the operations change\<close>

text \<open>An operation that only talks to mclagsyncd changes the counters and the log.\<close>

definition only_syncd :: "System \<Rightarrow> System \<Rightarrow> bool" where
  "only_syncd s s' \<longleftrightarrow> s' = s\<lparr>sys_syncd_tx_counters := sys_syncd_tx_counters s',
     env_n_send := env_n_send s', syncd_tx := syncd_tx s'\<rparr>"

definition syncd_stream :: "System \<Rightarrow> bytes" where
  "syncd_stream s = concat (syncd_tx s)"

lemma only_syncd_refl [simp]: "only_syncd s s"
  by (simp add: only_syncd_def)

lemma only_syncd_trans [trans]: "only_syncd s t \<Longrightarrow> only_syncd t u \<Longrightarrow> only_syncd s u"
  by (cases s; cases t; cases u) (simp add: only_syncd_def)

lemma only_syncd_frame:
  assumes "only_syncd s s'"
  shows "sys_csm_heap s' = sys_csm_heap s" "sys_lif_heap s' = sys_lif_heap s"
    "sys_sync_fd s' = sys_sync_fd s" "sys_csm_list s' = sys_csm_list s"
    "sys_lif_list s' = sys_lif_list s" "peer_tx s' = peer_tx s" "env_time s' = env_time s"
    "env_malloc s' = env_malloc s" "env_n_malloc s' = env_n_malloc s"
    "env_write s' = env_write s" "sys_ICCP_MSG_ID s' = sys_ICCP_MSG_ID s"
    "env_send s' = env_send s"
  by (subst assms [unfolded only_syncd_def], simp)+

lemma only_syncd_counter [simp]: "only_syncd s (SYSTEM_SET_SYNCD_TX_DBG_COUNTER ty sts s)"
  by (simp add: only_syncd_def SYSTEM_SET_SYNCD_TX_DBG_COUNTER_def Let_def)

lemma counter_frame [simp]:
  "env_n_send (SYSTEM_SET_SYNCD_TX_DBG_COUNTER ty sts s) = env_n_send s"
  "env_send (SYSTEM_SET_SYNCD_TX_DBG_COUNTER ty sts s) = env_send s"
  "syncd_tx (SYSTEM_SET_SYNCD_TX_DBG_COUNTER ty sts s) = syncd_tx s"
  by (simp_all add: SYSTEM_SET_SYNCD_TX_DBG_COUNTER_def Let_def)

lemma stream_counter [simp]:
  "syncd_stream (SYSTEM_SET_SYNCD_TX_DBG_COUNTER ty sts s) = syncd_stream s"
  by (simp add: syncd_stream_def)

lemma sync_fd_send_spec:
  assumes "sync_fd_send buf s = (r, s')"
  shows "only_syncd s s' \<and> env_n_send s' = Suc (env_n_send s) \<and> env_send s' = env_send s \<and>
    sys_syncd_tx_counters s' = sys_syncd_tx_counters s \<and>
    (case r of Sent n \<Rightarrow> n \<le> length buf \<and> syncd_stream s' = syncd_stream s @ take n buf
     | _ \<Rightarrow> syncd_stream s' = syncd_stream s)"
  using assms
  by (auto simp: sync_fd_send_def only_syncd_def syncd_stream_def Let_def
      split: send_result.splits)

text \<open>
  The loop, in one statement: it touches only the counters and the log; it either sends
  everything, or fails after a proper prefix; it never calls \<open>send\<close> more often than the number of
  bytes plus the retries that are left plus one.
\<close>

definition send_outcome :: "bytes \<Rightarrow> nat \<Rightarrow> nat \<Rightarrow> System \<Rightarrow> int \<Rightarrow> System \<Rightarrow> bool" where
  "send_outcome buf k pos s rc s' \<longleftrightarrow>
     only_syncd s s' \<and>
     env_n_send s' \<le> env_n_send s + length buf + (SYNCD_SEND_RETRY_MAX - k) + 1 \<and>
     (rc = int (pos + length buf) \<and> syncd_stream s' = syncd_stream s @ buf
      \<or> rc = MCLAG_ERROR \<and>
        (\<exists>pre post. buf = pre @ post \<and> post \<noteq> [] \<and> syncd_stream s' = syncd_stream s @ pre))"

lemma send_outcome_fail:
  assumes "buf \<noteq> []" "sync_fd_send buf s = (r, t)" "r = SendAgain \<or> r = SendErr \<or> r = Sent 0"
  shows "send_outcome buf k pos s MCLAG_ERROR (SYSTEM_SET_SYNCD_TX_DBG_COUNTER ty sts t)"
proof -
  have t: "only_syncd s t" "env_n_send t = Suc (env_n_send s)" "syncd_stream t = syncd_stream s"
    using sync_fd_send_spec [OF assms(2)] assms(3) by auto
  have "only_syncd s (SYSTEM_SET_SYNCD_TX_DBG_COUNTER ty sts t)"
    using t(1) by (rule only_syncd_trans) simp
  moreover have "\<exists>pre post. buf = pre @ post \<and> post \<noteq> [] \<and>
      syncd_stream (SYSTEM_SET_SYNCD_TX_DBG_COUNTER ty sts t) = syncd_stream s @ pre"
    using assms(1) t(3) by (intro exI [of _ "[]"] exI [of _ buf]) simp
  ultimately show ?thesis
    using t(2) by (simp add: send_outcome_def)
qed

lemma send_outcome_again:
  assumes "sync_fd_send buf s = (SendAgain, t)" "k < SYNCD_SEND_RETRY_MAX"
    "send_outcome buf (Suc k) pos t rc s'"
  shows "send_outcome buf k pos s rc s'"
proof -
  have t: "only_syncd s t" "env_n_send t = Suc (env_n_send s)" "syncd_stream t = syncd_stream s"
    using sync_fd_send_spec [OF assms(1)] by auto
  have "only_syncd s s'"
    using only_syncd_trans [OF t(1)] assms(3) by (simp add: send_outcome_def)
  with t(2,3) assms(2,3) show ?thesis by (simp add: send_outcome_def) linarith
qed

lemma send_outcome_progress:
  assumes "sync_fd_send buf s = (Sent n, t)" "0 < n"
    "send_outcome (drop n buf) k (pos + n) t rc s'"
  shows "send_outcome buf k pos s rc s'"
proof -
  have t: "only_syncd s t" "env_n_send t = Suc (env_n_send s)" "n \<le> length buf"
      "syncd_stream t = syncd_stream s @ take n buf"
    using sync_fd_send_spec [OF assms(1)] by auto
  have frame: "only_syncd s s'"
    using only_syncd_trans [OF t(1)] assms(3) by (simp add: send_outcome_def)
  have bound: "env_n_send s' \<le> env_n_send s + length buf + (SYNCD_SEND_RETRY_MAX - k) + 1"
    using assms(2,3) t(2,3) unfolding send_outcome_def length_drop by linarith
  have "rc = int (pos + n + length (drop n buf)) \<and>
        syncd_stream s' = syncd_stream s @ take n buf @ drop n buf
      \<or> rc = MCLAG_ERROR \<and> (\<exists>pre post. drop n buf = pre @ post \<and> post \<noteq> [] \<and>
        syncd_stream s' = syncd_stream s @ take n buf @ pre)"
    using assms(3) t(4) by (simp add: send_outcome_def)
  moreover have "buf = (take n buf @ pre) @ post" if "drop n buf = pre @ post" for pre post
    using that by (metis append_assoc append_take_drop_id)
  ultimately show ?thesis
    using frame bound t(3) unfolding send_outcome_def by (metis add.assoc append_assoc
        append_take_drop_id le_add_diff_inverse length_drop)
qed

lemma syncd_send_loop_outcome:
  "syncd_send_loop ty buf k pos s = (rc, s') \<Longrightarrow> send_outcome buf k pos s rc s'"
proof (induction ty buf k pos s arbitrary: rc s' rule: syncd_send_loop.induct)
  case (1 ty buf k pos s)
  obtain r t where rt: "sync_fd_send buf s = (r, t)" by fastforce
  show ?case
  proof (cases "buf = []")
    case True
    with "1.prems" show ?thesis
      by (subst (asm) syncd_send_loop.simps) (auto simp: send_outcome_def)
  next
    case ne: False
    note step = "1.prems" [unfolded syncd_send_loop.simps [of ty buf k pos s]]
    show ?thesis
    proof (cases r)
      case (Sent n)
      with step rt ne "1.IH"(1) [OF ne rt [symmetric]] show ?thesis
        by (auto split: if_splits intro: send_outcome_fail send_outcome_progress)
    next
      case SendAgain
      with step rt ne "1.IH"(2) [OF ne rt [symmetric]] show ?thesis
        by (auto split: if_splits intro: send_outcome_fail send_outcome_again)
    next
      case SendErr
      with step rt ne show ?thesis by (auto intro: send_outcome_fail)
    qed
  qed
qed


text \<open>A call counts once: a success under OK, anything else under ERR.\<close>

lemma sync_fd_send_counters:
  "sync_fd_send buf s = (r, t) \<Longrightarrow> sys_syncd_tx_counters t = sys_syncd_tx_counters s"
  by (drule sync_fd_send_spec) simp

lemma counters_cong:
  "sys_syncd_tx_counters t = sys_syncd_tx_counters s \<Longrightarrow>
   sys_syncd_tx_counters (SYSTEM_SET_SYNCD_TX_DBG_COUNTER ty sts t) =
   sys_syncd_tx_counters (SYSTEM_SET_SYNCD_TX_DBG_COUNTER ty sts s)"
  by (simp add: SYSTEM_SET_SYNCD_TX_DBG_COUNTER_def Let_def)

lemma syncd_send_loop_counters:
  "syncd_send_loop ty buf k pos s = (rc, s') \<Longrightarrow>
   sys_syncd_tx_counters s' = sys_syncd_tx_counters
     (SYSTEM_SET_SYNCD_TX_DBG_COUNTER ty (if rc < 0 then STS_ERR else STS_OK) s)"
proof (induction ty buf k pos s arbitrary: rc s' rule: syncd_send_loop.induct)
  case (1 ty buf k pos s)
  obtain r t where rt: "sync_fd_send buf s = (r, t)" by fastforce
  note step = "1.prems" [unfolded syncd_send_loop.simps [of ty buf k pos s]]
  note cnt = counters_cong [OF sync_fd_send_counters [OF rt]]
  show ?case
  proof (cases "buf = []")
    case True
    with step show ?thesis by auto
  next
    case ne: False
    show ?thesis
    proof (cases r)
      case (Sent n)
      with step rt ne cnt "1.IH"(1) [OF ne rt [symmetric]] show ?thesis
        by (auto simp: MCLAG_ERROR_def split: if_splits)
    next
      case SendAgain
      with step rt ne cnt "1.IH"(2) [OF ne rt [symmetric]] show ?thesis
        by (auto simp: MCLAG_ERROR_def split: if_splits)
    next
      case SendErr
      with step rt ne cnt show ?thesis by (auto simp: MCLAG_ERROR_def)
    qed
  qed
qed

text \<open>
  The window of \<open>send\<close> calls the loop may make from its state on, with the calls that ask it to
  try again and the absence of failures in it.
\<close>

definition send_window :: "bytes \<Rightarrow> nat \<Rightarrow> System \<Rightarrow> nat list" where
  "send_window buf k s =
     [env_n_send s ..< env_n_send s + length buf + (SYNCD_SEND_RETRY_MAX - k) + 1]"

definition patient :: "bytes \<Rightarrow> nat \<Rightarrow> System \<Rightarrow> bool" where
  "patient buf k s \<longleftrightarrow>
     (\<forall>i \<in> set (send_window buf k s). env_send s i \<noteq> SendErr \<and> env_send s i \<noteq> Sent 0) \<and>
     k + length (filter (\<lambda>i. env_send s i = SendAgain) (send_window buf k s))
       \<le> SYNCD_SEND_RETRY_MAX"

lemma send_window_Cons:
  "send_window buf k s = env_n_send s #
     [Suc (env_n_send s) ..< env_n_send s + length buf + (SYNCD_SEND_RETRY_MAX - k) + 1]"
  unfolding send_window_def by (rule upt_conv_Cons) simp

lemma filter_upt_mono:
  "j \<le> (j' :: nat) \<Longrightarrow> length (filter P [i..<j]) \<le> length (filter P [i..<j'])"
proof (induction j' rule: dec_induct)
  case (step m)
  then show ?case by (cases "i \<le> m") auto
qed simp

lemma patient_step:
  assumes "patient buf k s" "buf \<noteq> []" "sync_fd_send buf s = (r, t)"
  shows "(r = SendAgain \<and> k < SYNCD_SEND_RETRY_MAX \<and> patient buf (Suc k) t)
    \<or> (\<exists>n. r = Sent n \<and> 0 < n \<and> n \<le> length buf \<and> patient (drop n buf) k t)"
proof -
  let ?c = "env_n_send s" and ?M = SYNCD_SEND_RETRY_MAX
  let ?A = "\<lambda>i. env_send s i = SendAgain"
  obtain w where w: "send_window buf k s = ?c # w"
    and w_def: "w = [Suc ?c ..< ?c + length buf + (?M - k) + 1]"
    by (simp only: send_window_Cons)
  have t: "env_n_send t = Suc ?c" "env_send t = env_send s"
    using sync_fd_send_spec [OF assms(3)] by auto
  have ok: "env_send s ?c \<noteq> SendErr" "env_send s ?c \<noteq> Sent 0"
    and later: "\<forall>i \<in> set w. env_send s i \<noteq> SendErr \<and> env_send s i \<noteq> Sent 0"
    and few: "k + (if ?A ?c then 1 else 0) + length (filter ?A w) \<le> ?M"
    using assms(1) unfolding patient_def w by (auto split: if_splits)
  show ?thesis
  proof (cases "env_send s ?c")
    case (Sent m)
    obtain n where n: "r = Sent n" "0 < n" "n \<le> length buf"
      using Sent assms(2,3) ok by (auto simp: sync_fd_send_def Let_def)
    have sub: "Suc ?c + length (drop n buf) + (?M - k) + 1 \<le> ?c + length buf + (?M - k) + 1"
      using n(2,3) unfolding length_drop by arith
    have win: "send_window (drop n buf) k t =
        [Suc ?c ..< Suc ?c + length (drop n buf) + (?M - k) + 1]"
      by (simp only: send_window_def t)
    have "length (filter ?A (send_window (drop n buf) k t)) \<le> length (filter ?A w)"
      unfolding win w_def using sub by (rule filter_upt_mono)
    moreover have "set (send_window (drop n buf) k t) \<subseteq> set w"
      unfolding win w_def set_upt using sub by (intro ivl_subset [THEN iffD2]) simp
    ultimately have "patient (drop n buf) k t"
      using later few unfolding patient_def t(2) by force
    with n show ?thesis by auto
  next
    case SendAgain
    then have k: "r = SendAgain" "k < ?M" "Suc ?c + length buf + (?M - Suc k) + 1 =
        ?c + length buf + (?M - k) + 1"
      using assms(3) few by (auto simp: sync_fd_send_def Let_def)
    have "patient buf (Suc k) t"
      using later few SendAgain unfolding patient_def send_window_def t k(3) w_def [symmetric]
      by simp
    with k show ?thesis by simp
  qed (use ok in simp)
qed

lemma syncd_send_loop_patient:
  "patient buf k s \<Longrightarrow> fst (syncd_send_loop ty buf k pos s) = int (pos + length buf)"
proof (induction ty buf k pos s rule: syncd_send_loop.induct)
  case (1 ty buf k pos s)
  show ?case
  proof (cases "buf = []")
    case True
    then show ?thesis by (simp add: syncd_send_loop.simps)
  next
    case ne: False
    obtain r t where rt: "sync_fd_send buf s = (r, t)" by fastforce
    from patient_step [OF "1.prems" ne rt] ne rt "1.IH" [OF ne rt [symmetric]] show ?thesis
      by (auto simp: syncd_send_loop.simps [of ty buf k pos s])
  qed
qed

section \<open>Requests that were sent can be read back\<close>

lemma unat_of_le16_of_nat:
  "n < 65536 \<Longrightarrow> unat (of_le16 (ucast (word_of_nat n :: u16)) (ucast (drop_bit 8 (word_of_nat n :: u16)))) = n"
  by (simp add: unat_of_nat take_bit_eq_mod)

lemma parse_options_sub_option:
  "length d < 65536 \<Longrightarrow>
   parse_options (sub_option t d @ r) = map_option (\<lambda>os. (t, d) # os) (parse_options r)"
  by (simp add: sub_option_def le16_def unat_of_le16_of_nat del: of_le16_le16)

lemma parse_options_concat:
  "\<forall>(t, d) \<in> set opts. length d < 65536 \<Longrightarrow>
   parse_options (concat (map (\<lambda>(t, d). sub_option t d) opts)) = Some opts"
  by (induction opts) (auto simp: parse_options_sub_option)

lemma length_sub_option [simp]: "length (sub_option t d) = 4 + length d"
  by (simp add: sub_option_def)

lemma length_options:
  "length (concat (map (\<lambda>(t, d). sub_option t d) opts)) = (\<Sum>(t, d) \<leftarrow> opts. 4 + length d)"
  by (induction opts) auto

lemma parse_syncd_msg:
  assumes "4 + (\<Sum>(t, d) \<leftarrow> opts. 4 + length d) < 65536"
  shows "parse_syncd (syncd_msg ty opts) = Some (ty, opts)"
proof -
  have "length d < 65536" if "(t, d) \<in> set opts" for t d
    using assms member_le_sum_list [of "4 + length d" "map (\<lambda>(t, d). 4 + length d) opts"] that
    by force
  then have "\<forall>(t, d) \<in> set opts. length d < 65536" by auto
  from parse_options_concat [OF this] assms show ?thesis
    by (simp add: syncd_msg_def syncd_hdr_def le16_def length_options unat_of_le16_of_nat
        del: of_le16_le16 of_nat_add)
qed

lemma length_c_bytes [simp]:
  "length (c_bool b) = 1" "length (c_int i) = 4" "length (c_chars n) = length n"
  by (simp_all add: c_bool_def c_int_def c_chars_def)

lemma syncd_msg_nonempty [simp]: "0 < length (syncd_msg ty opts)"
  by (simp add: syncd_msg_def syncd_hdr_def)

text \<open>A request that reports success was sent in full and counted once.\<close>

lemma syncd_request_cases:
  assumes "syncd_request ty msg s = (rc, s')"
  shows "only_syncd s s' \<and> (rc = 0 \<or> rc = MCLAG_ERROR) \<and>
    (rc = 0 \<longrightarrow> syncd_stream s' = syncd_stream s @ msg \<and> sys_syncd_tx_counters s' =
       sys_syncd_tx_counters (SYSTEM_SET_SYNCD_TX_DBG_COUNTER ty STS_OK s))"
proof (cases "sys_sync_fd s = 0")
  case True
  with assms show ?thesis by (auto simp: syncd_request_def MCLAG_ERROR_def)
next
  case False
  obtain r t where loop: "syncd_send_loop ty msg 0 0 s = (r, t)" by fastforce
  with False assms have res: "s' = t" "rc = (if r \<le> 0 \<or> r \<noteq> int (length msg) then MCLAG_ERROR else 0)"
    by (auto simp: syncd_request_def iccp_send_to_mclagsyncd_def split: if_splits)
  from syncd_send_loop_outcome [OF loop] syncd_send_loop_counters [OF loop] res show ?thesis
    by (auto simp: send_outcome_def MCLAG_ERROR_def)
qed

section \<open>Properties\<close>

text \<open>
  C18. Sending to mclagsyncd with a socket always returns. It changes nothing but the counters
  and what mclagsyncd has received; it calls \<open>send\<close> at most once per byte, plus five retries and
  one; and either every byte of the message was taken, in order, and the result is the length,
  or the result is an error and mclagsyncd has received a proper prefix only.
\<close>

theorem iccp_send_to_mclagsyncd_outcome:
  assumes "sys_sync_fd s \<noteq> 0"
  shows "case iccp_send_to_mclagsyncd ty buf s of (rc, s') \<Rightarrow>
    only_syncd s s' \<and> env_n_send s' \<le> env_n_send s + length buf + 6 \<and>
    (rc = int (length buf) \<and> syncd_stream s' = syncd_stream s @ buf
     \<or> rc = MCLAG_ERROR \<and>
       (\<exists>pre post. buf = pre @ post \<and> post \<noteq> [] \<and> syncd_stream s' = syncd_stream s @ pre))"
proof -
  obtain rc s' where loop: "syncd_send_loop ty buf 0 0 s = (rc, s')" by fastforce
  from syncd_send_loop_outcome [OF this] assms show ?thesis
    by (simp add: iccp_send_to_mclagsyncd_def loop send_outcome_def SYNCD_SEND_RETRY_MAX_def)
qed

theorem iccp_send_to_mclagsyncd_outcome_witness:
  "case iccp_send_to_mclagsyncd 8 [1, 2, 3] (system_init (a_host (\<lambda>i. if i = 1 then SendErr else Sent 2)))
   of (rc, s') \<Rightarrow> rc = MCLAG_ERROR \<and> syncd_stream s' = [1, 2] \<and> env_n_send s' \<le> 9"
  using iccp_send_to_mclagsyncd_outcome
    [of "system_init (a_host (\<lambda>i. if i = 1 then SendErr else Sent 2))" "[1, 2, 3]" 8]
  by (simp add: iccp_send_to_mclagsyncd_def syncd_send_loop.simps sync_fd_send_def system_init_def
      a_host_def syncd_stream_def Let_def SYSTEM_SET_SYNCD_TX_DBG_COUNTER_def)

text \<open>
  The retry limit is enough for a socket that is full now and then: when none of the \<open>send\<close>
  calls in the window fails and at most five of them report a full buffer, however they are
  spread over partial sends, the whole message is sent.
\<close>

lemma iccp_send_to_mclagsyncd_retries:
  assumes "sys_sync_fd s \<noteq> 0"
    and "\<forall>i \<in> {env_n_send s ..< env_n_send s + length buf + 6}.
      env_send s i \<noteq> SendErr \<and> env_send s i \<noteq> Sent 0"
    and "length (filter (\<lambda>i. env_send s i = SendAgain)
      [env_n_send s ..< env_n_send s + length buf + 6]) \<le> 5"
  shows "fst (iccp_send_to_mclagsyncd ty buf s) = int (length buf) \<and>
    syncd_stream (snd (iccp_send_to_mclagsyncd ty buf s)) = syncd_stream s @ buf"
proof -
  have win: "send_window buf 0 s = [env_n_send s ..< env_n_send s + length buf + 6]"
    by (simp add: send_window_def SYNCD_SEND_RETRY_MAX_def eval_nat_numeral del: upt_Suc)
  have "patient buf 0 s"
    unfolding patient_def win set_upt using assms(2,3) by (simp add: SYNCD_SEND_RETRY_MAX_def)
  then have "fst (syncd_send_loop ty buf 0 0 s) = int (length buf)"
    using syncd_send_loop_patient [of buf 0 s ty 0] by simp
  moreover obtain rc s' where loop: "syncd_send_loop ty buf 0 0 s = (rc, s')" by fastforce
  ultimately show ?thesis
    using syncd_send_loop_outcome [OF loop] assms(1)
    by (auto simp: iccp_send_to_mclagsyncd_def send_outcome_def MCLAG_ERROR_def)
qed

text \<open>
  The role update is all or nothing for mclagsyncd's view: the call returns 0 or the error
  code; when it returns 0, what went out is one message that parses to the role update with the
  domain id, the role, and for an active node the system id, and to nothing else.
\<close>

lemma mlacp_link_set_iccp_role_delivered:
  assumes "length system_id = ETHER_ADDR_LEN"
  shows "case mlacp_link_set_iccp_role mlag_id active system_id s of (rc, s') \<Rightarrow>
    only_syncd s s' \<and> (rc = 0 \<or> rc = MCLAG_ERROR) \<and>
    (rc = 0 \<longrightarrow> (\<exists>m. syncd_stream s' = syncd_stream s @ m \<and>
       parse_syncd m = Some (MCLAG_MSG_TYPE_SET_ICCP_ROLE,
         [(MCLAG_SUB_OPTION_TYPE_MCLAG_ID, c_int mlag_id),
          (MCLAG_SUB_OPTION_TYPE_ICCP_ROLE, c_bool active)]
         @ (if active then [(MCLAG_SUB_OPTION_TYPE_SYSTEM_ID, system_id)] else []))))"
proof -
  let ?opts = "[(MCLAG_SUB_OPTION_TYPE_MCLAG_ID, c_int mlag_id),
      (MCLAG_SUB_OPTION_TYPE_ICCP_ROLE, c_bool active)]
      @ (if active then [(MCLAG_SUB_OPTION_TYPE_SYSTEM_ID, system_id)] else [])"
  obtain rc s' where r: "mlacp_link_set_iccp_role mlag_id active system_id s = (rc, s')"
    by fastforce
  have "parse_syncd (syncd_msg MCLAG_MSG_TYPE_SET_ICCP_ROLE ?opts)
      = Some (MCLAG_MSG_TYPE_SET_ICCP_ROLE, ?opts)"
    by (rule parse_syncd_msg) (simp add: assms ETHER_ADDR_LEN_def)
  with syncd_request_cases [OF r [unfolded mlacp_link_set_iccp_role_def]] show ?thesis
    unfolding r by blast
qed

text \<open>
  A remote-interface state update that succeeds is counted twice under OK, because the send
  routine and its caller both count it, while a traffic-distribution update is counted once.
\<close>

lemma mlacp_link_set_remote_if_state_counted_twice:
  assumes "mlacp_link_set_remote_if_state mlag_id po_name up s = (0, s')"
    and "mlacp_link_set_traffic_dist_mode po_name True t = (0, t')"
  shows "sys_syncd_tx_counters s'
      (system_syncdtx_to_dbg_msg_type MCLAG_MSG_TYPE_SET_REMOTE_IF_STATE) STS_OK =
    sys_syncd_tx_counters s
      (system_syncdtx_to_dbg_msg_type MCLAG_MSG_TYPE_SET_REMOTE_IF_STATE) STS_OK + 2 \<and>
    sys_syncd_tx_counters t'
      (system_syncdtx_to_dbg_msg_type MCLAG_MSG_TYPE_SET_TRAFFIC_DIST_ENABLE) STS_OK =
    sys_syncd_tx_counters t
      (system_syncdtx_to_dbg_msg_type MCLAG_MSG_TYPE_SET_TRAFFIC_DIST_ENABLE) STS_OK + 1"
proof -
  let ?msg = "syncd_msg MCLAG_MSG_TYPE_SET_REMOTE_IF_STATE
      [(MCLAG_SUB_OPTION_TYPE_MCLAG_ID, c_int mlag_id),
       (MCLAG_SUB_OPTION_TYPE_MCLAG_INTF_NAME, c_chars po_name),
       (MCLAG_SUB_OPTION_TYPE_OPER_STATUS, c_bool up)]"
  obtain rc u where u: "syncd_request MCLAG_MSG_TYPE_SET_REMOTE_IF_STATE ?msg s = (rc, u)"
    by fastforce
  have "rc = 0 \<and> s' = SYSTEM_SET_SYNCD_TX_DBG_COUNTER MCLAG_MSG_TYPE_SET_REMOTE_IF_STATE STS_OK u"
    using assms(1) u
    by (auto simp: mlacp_link_set_remote_if_state_def syncd_request_counted_def split: if_splits)
  moreover note syncd_request_cases [OF u]
    syncd_request_cases [OF assms(2) [unfolded mlacp_link_set_traffic_dist_mode_def Let_def]]
  ultimately show ?thesis
    by (simp add: SYSTEM_SET_SYNCD_TX_DBG_COUNTER_def system_syncdtx_to_dbg_msg_type_def Let_def
        const_defs)
qed

text \<open>
  Disabling traffic distribution on an interface marks it as disabled exactly when it is a
  port channel of a session in the exchange state, is down, was not disabled before and
  mclagsyncd was sent the whole request; then nothing else of the interface table changes.
  Otherwise no interface changes, and an interface that does not qualify sends nothing at all.
\<close>

lemma mlacp_link_disable_traffic_distribution_mark:
  "let s' = mlacp_link_disable_traffic_distribution p s;
       lif = lif_of s p;
       wanted = (\<exists>c. lif_csm lif = Some c \<and>
                  ml_current_state (MLACP (csm_of s c)) = MLACP_STATE_EXCHANGE) \<and>
                lif_type lif = IF_T_PORT_CHANNEL \<and> lif_po_active lif = 0 \<and>
                \<not> lif_is_traffic_disable lif;
       sent = (fst (mlacp_link_set_traffic_dist_mode (lif_name lif) False s) = 0)
   in (if wanted \<and> sent
       then sys_lif_heap s' = (sys_lif_heap s)(p := lif\<lparr>lif_is_traffic_disable := True\<rparr>) \<and>
            syncd_stream s' = syncd_stream s @ syncd_msg MCLAG_MSG_TYPE_SET_TRAFFIC_DIST_DISABLE
              [(MCLAG_SUB_OPTION_TYPE_MCLAG_INTF_NAME, c_chars (lif_name lif))]
       else sys_lif_heap s' = sys_lif_heap s) \<and>
      (\<not> wanted \<longrightarrow> s' = s)"
proof -
  obtain rc t where r: "mlacp_link_set_traffic_dist_mode (lif_name (lif_of s p)) False s = (rc, t)"
    by fastforce
  have frame: "sys_lif_heap t = sys_lif_heap s"
    and sent: "rc = 0 \<Longrightarrow> syncd_stream t = syncd_stream s @
      syncd_msg MCLAG_MSG_TYPE_SET_TRAFFIC_DIST_DISABLE
        [(MCLAG_SUB_OPTION_TYPE_MCLAG_INTF_NAME, c_chars (lif_name (lif_of s p)))]"
    using syncd_request_cases [OF r [unfolded mlacp_link_set_traffic_dist_mode_def Let_def]]
      only_syncd_frame(2) by auto
  show ?thesis
    using frame sent
    by (auto simp: mlacp_link_disable_traffic_distribution_def Let_def r upd_lif_def
        syncd_stream_def split: option.splits)
qed

end
