(* ===== verification/Iccp_Port.thy ===== *)
theory Iccp_Port
  imports Syncd_Link
begin

text \<open>
  Local and peer interfaces (\<open>port.c\<close>), their VLAN trees, the VLAN memberships that wait for an
  interface to appear (\<open>iccp_ifm.c\<close>), the hardware addresses a standby node takes over from the
  active one (\<open>iccp_netlink.c\<close>), and the list of interfaces bound to a session (\<open>app_csm.c\<close>).
  The comparison function of the VLAN trees implements the interface \<open>tree_order\<close>.
\<close>

section \<open>Text formatting of the C library\<close>

text \<open>\<open>%d\<close> for a natural number, and \<open>%02x\<close> for a byte.\<close>

definition digit :: "nat \<Rightarrow> char" where "digit n = char_of (48 + n)"

fun dec :: "nat \<Rightarrow> string" where
  "dec n = (if n < 10 then [digit n] else dec (n div 10) @ [digit (n mod 10)])"

declare dec.simps [simp del]

definition hex_digit :: "nat \<Rightarrow> char" where
  "hex_digit n = (if n < 10 then char_of (48 + n) else char_of (87 + n))"

definition hex2 :: "byte \<Rightarrow> string" where
  "hex2 b = [hex_digit (unat b div 16), hex_digit (unat b mod 16)]"

text \<open>The macro \<open>SET_MAC_STR\<close>.\<close>

fun mac_str :: "bytes \<Rightarrow> string" where
  "mac_str [] = []"
| "mac_str [b] = hex2 b"
| "mac_str (b # bs) = hex2 b @ '':'' @ mac_str bs"

text \<open>
  \<open>sscanf(name, "Vlan%d", &vid)\<close> with \<open>vid\<close> 0 before: the literal prefix, then white space, an
  optional sign and at least one digit.
\<close>

definition is_digit :: "char \<Rightarrow> bool" where
  "is_digit c \<longleftrightarrow> 48 \<le> (of_char c :: nat) \<and> (of_char c :: nat) \<le> 57"

definition is_space :: "char \<Rightarrow> bool" where
  "is_space c \<longleftrightarrow> (of_char c :: nat) = 32 \<or> 9 \<le> (of_char c :: nat) \<and> (of_char c :: nat) \<le> 13"

definition digits_value :: "string \<Rightarrow> nat" where
  "digits_value ds = foldl (\<lambda>n c. 10 * n + (of_char c - 48)) 0 ds"

definition scan_int :: "string \<Rightarrow> int option" where
  "scan_int str =
     (let t = dropWhile is_space str;
          neg = (t \<noteq> [] \<and> hd t = CHR ''-'');
          u = (if t \<noteq> [] \<and> (hd t = CHR ''-'' \<or> hd t = CHR ''+'') then tl t else t);
          ds = takeWhile is_digit u
      in if ds = [] then None
         else Some (if neg then - int (digits_value ds) else int (digits_value ds)))"

definition sscanf_Vlan :: "string \<Rightarrow> int" where
  "sscanf_Vlan name =
     (if take 4 name = ''Vlan''
      then (case scan_int (drop 4 name) of None \<Rightarrow> 0 | Some i \<Rightarrow> i) else 0)"

section \<open>VLAN trees\<close>

definition vlan_node_compare :: "VLAN_ID \<Rightarrow> VLAN_ID \<Rightarrow> int" where
  "vlan_node_compare a b =
     (if vl_vid a < vl_vid b then -1 else if vl_vid b < vl_vid a then 1 else 0)"

definition vlan_key :: "u16 \<Rightarrow> VLAN_ID" where
  "vlan_key vid = \<lparr>vl_vid = vid, vl_removed = 0, vl_itf = None\<rparr>"

abbreviation vlan_find :: "u16 \<Rightarrow> VLAN_ID list \<Rightarrow> VLAN_ID option" where
  "vlan_find vid tree \<equiv> rb_find vlan_node_compare (vlan_key vid) tree"

definition vlan_info_init :: VLAN_ID where
  "vlan_info_init = \<lparr>vl_vid = -1, vl_removed = 0, vl_itf = None\<rparr>"

text \<open>An assignment through the pointer \<open>RB_FIND\<close> returned.\<close>

definition vlan_upd :: "u16 \<Rightarrow> (VLAN_ID \<Rightarrow> VLAN_ID) \<Rightarrow> VLAN_ID list \<Rightarrow> VLAN_ID list" where
  "vlan_upd vid f tree = map (\<lambda>v. if vl_vid v = vid then f v else v) tree"

interpretation vlan_order: tree_order vlan_node_compare "\<lambda>_. True"
  by unfold_locales (auto simp: vlan_node_compare_def split: if_splits)

section \<open>Local interfaces\<close>

definition local_if_init :: LocalInterface where
  "local_if_init = zero_LocalInterface\<lparr>lif_po_id := -1, lif_po_active := 1,
     lif_mlacp_state := MLACP_STATE_INIT, lif_type := IF_T_UNKNOW, lif_changed := 1,
     lif_port_config_sync := 0, lif_is_peer_link := 0, lif_is_arp_accept := 0, lif_l3_mode := 0,
     lif_master_ifindex := 0, lif_state := PORT_STATE_DOWN, lif_prefixlen := 32,
     lif_csm := None, lif_isolate_to_peer_link := 0, lif_is_l3_proto_enabled := False,
     lif_vlan_count := 0, lif_vlan_tree := []\<rparr>"

definition local_if_find_by_name :: "string \<Rightarrow> System \<Rightarrow> lif_ptr option" where
  "local_if_find_by_name ifname s = find (\<lambda>p. lif_name (lif_of s p) = ifname) (sys_lif_list s)"

definition local_if_find_by_ifindex :: "int \<Rightarrow> System \<Rightarrow> lif_ptr option" where
  "local_if_find_by_ifindex i s = find (\<lambda>p. lif_ifindex (lif_of s p) = i) (sys_lif_list s)"

definition local_if_find_by_po_id :: "int \<Rightarrow> System \<Rightarrow> lif_ptr option" where
  "local_if_find_by_po_id i s =
     find (\<lambda>p. lif_type (lif_of s p) = IF_T_PORT_CHANNEL \<and> lif_po_id (lif_of s p) = i)
       (sys_lif_list s)"

definition local_if_is_l3_mode :: "LocalInterface \<Rightarrow> bool" where
  "local_if_is_l3_mode lif \<longleftrightarrow> lif_ipv4_addr lif \<noteq> 0
     \<or> memcmp (lif_ipv6_addr lif) (replicate 16 0) \<noteq> 0 \<or> lif_master_ifindex lif \<noteq> 0"

definition local_if_change_flag_clear :: "System \<Rightarrow> System" where
  "local_if_change_flag_clear s =
     foldl (\<lambda>s p. if lif_changed (lif_of s p) = 1
                  then upd_lif p (\<lambda>l. l\<lparr>lif_changed := 0\<rparr>) s else s) s (sys_lif_list s)"

definition local_if_l3_proto_enabled :: "string \<Rightarrow> System \<Rightarrow> bool" where
  "local_if_l3_proto_enabled ifname s \<longleftrightarrow>
     list_ex (\<lambda>p. lif_name (lif_of s p) = ifname \<and> lif_is_l3_proto_enabled (lif_of s p))
       (sys_lif_list s)"

definition is_unique_ip_configured :: "string \<Rightarrow> System \<Rightarrow> bool" where
  "is_unique_ip_configured ifname s \<longleftrightarrow> ifname \<in> set (sys_unq_ip_if_list s)"

definition system_get_csm_by_peer_ip :: "string \<Rightarrow> System \<Rightarrow> csm_ptr option" where
  "system_get_csm_by_peer_ip ip s = find (\<lambda>c. csm_peer_ip (csm_of s c) = ip) (sys_csm_list s)"

definition system_get_csm_by_peer_ifname :: "string \<Rightarrow> System \<Rightarrow> csm_ptr option" where
  "system_get_csm_by_peer_ifname n s =
     find (\<lambda>c. csm_peer_itf_name (csm_of s c) = n) (sys_csm_list s)"

definition system_get_csm_by_mlacp_id :: "int \<Rightarrow> System \<Rightarrow> csm_ptr option" where
  "system_get_csm_by_mlacp_id i s = find (\<lambda>c. ml_id (MLACP (csm_of s c)) = i) (sys_csm_list s)"

fun head_opt :: "'a list \<Rightarrow> 'a option" where
  "head_opt [] = None"
| "head_opt (x # _) = Some x"

definition system_get_first_csm :: "System \<Rightarrow> csm_ptr option" where
  "system_get_first_csm s = head_opt (sys_csm_list s)"

section \<open>Hardware addresses on the standby node\<close>

definition MCLAG_SUB_OPTION_TYPE_SET_MAC_SRC :: u8 where
  [const_defs]: "MCLAG_SUB_OPTION_TYPE_SET_MAC_SRC = 5"
definition MCLAG_SUB_OPTION_TYPE_SET_MAC_DST :: u8 where
  [const_defs]: "MCLAG_SUB_OPTION_TYPE_SET_MAC_DST = 6"

abbreviation null_mac :: bytes where "null_mac \<equiv> replicate 6 0"

text \<open>
  The netlink requests. The allocation failures of the netlink library are among the values the
  kernel request may return; their callers only log the value.
\<close>

definition iccp_netlink_if_hwaddr_set :: "int \<Rightarrow> bytes \<Rightarrow> System \<Rightarrow> System" where
  "iccp_netlink_if_hwaddr_set ifindex addr s = snd (kernel (HwAddrSet ifindex addr) s)"

definition iccp_netlink_if_shutdown_set :: "int \<Rightarrow> System \<Rightarrow> System" where
  "iccp_netlink_if_shutdown_set ifindex s = snd (kernel (IfShutdown ifindex) s)"

definition iccp_netlink_if_startup_set :: "int \<Rightarrow> System \<Rightarrow> System" where
  "iccp_netlink_if_startup_set ifindex s = snd (kernel (IfStartup ifindex) s)"

text \<open>The three requests that always come together: a new address, then a link flap.\<close>

definition hwaddr_refresh :: "int \<Rightarrow> bytes \<Rightarrow> System \<Rightarrow> System" where
  "hwaddr_refresh ifindex addr s =
     iccp_netlink_if_startup_set ifindex (iccp_netlink_if_shutdown_set ifindex
       (iccp_netlink_if_hwaddr_set ifindex addr s))"

definition iccp_set_interface_ipadd_mac :: "LocalInterface \<Rightarrow> string \<Rightarrow> System \<Rightarrow> System" where
  "iccp_set_interface_ipadd_mac lif macaddr s =
     (let ty = MCLAG_MSG_TYPE_SET_MAC;
          msg = syncd_msg ty [(MCLAG_SUB_OPTION_TYPE_SET_MAC_SRC, c_chars (lif_name lif)),
                              (MCLAG_SUB_OPTION_TYPE_SET_MAC_DST, c_chars macaddr)]
      in if sys_sync_fd s \<noteq> 0 then
           let (rc, s') = sync_fd_write msg s
           in SYSTEM_SET_SYNCD_TX_DBG_COUNTER ty (if rc = -1 then STS_ERR else STS_OK) s'
         else s)"

definition set_peer_mac_in_kernel :: "string \<Rightarrow> int \<Rightarrow> bool \<Rightarrow> System \<Rightarrow> System" where
  "set_peer_mac_in_kernel mac vlan add s =
     (let vlan_str = (if vlan < 0 then ''-'' @ dec (nat (- vlan)) else dec (nat vlan));
          cmd = (if add then ''bridge fdb replace '' else ''bridge fdb del '') @ mac
                @ '' dev Bridge vlan '' @ vlan_str @ '' local''
      in snd (kernel (ShellCmd cmd) s))"

text \<open>The VLAN is on the peer link, or on a port channel, of the session \<open>c\<close>.\<close>

definition vlan_on_csm :: "u16 \<Rightarrow> System \<Rightarrow> csm_ptr \<Rightarrow> bool" where
  "vlan_on_csm vid s c \<longleftrightarrow>
     (case csm_peer_link_if (csm_of s c) of None \<Rightarrow> False
      | Some p \<Rightarrow> (case vlan_find vid (lif_vlan_tree (lif_of s p)) of None \<Rightarrow> False
                   | Some v \<Rightarrow> vl_itf v \<noteq> None)) \<or>
     list_ex (\<lambda>p. lif_type (lif_of s p) = IF_T_PORT_CHANNEL \<and>
                  vlan_find vid (lif_vlan_tree (lif_of s p)) \<noteq> None)
       (ml_lif_list (MLACP (csm_of s c)))"

definition update_vlan_if_mac_on_standby :: "lif_ptr \<Rightarrow> System \<Rightarrow> System" where
  "update_vlan_if_mac_on_standby p s =
     (let lif = lif_of s p; vid = sscanf_Vlan (lif_name lif)
      in if lif_type lif \<noteq> IF_T_VLAN then s
         else case find (vlan_on_csm (word_of_int vid) s) (sys_csm_list s) of
           None \<Rightarrow> s
         | Some c \<Rightarrow>
             let ml = MLACP (csm_of s c);
                 system_mac = (if lif_is_l3_proto_enabled lif then ml_system_id ml
                               else rs_system_id (ml_remote_system ml))
             in if csm_role_type (csm_of s c) \<noteq> STP_ROLE_STANDBY then s
                else if memcmp system_mac null_mac = 0 then s
                else if local_if_is_l3_mode lif \<and> memcmp (lif_l3_mac_addr lif) system_mac \<noteq> 0 then
                  let s1 = hwaddr_refresh (lif_ifindex lif) system_mac s;
                      s2 = iccp_set_interface_ipadd_mac lif (mac_str system_mac) s1;
                      s3 = upd_lif p (\<lambda>l. l\<lparr>lif_l3_mac_addr := system_mac\<rparr>) s2
                  in if lif_is_l3_proto_enabled lif then s3
                     else set_peer_mac_in_kernel (mac_str system_mac) vid True s3
                else s)"

definition recover_vlan_if_mac_on_standby ::
  "lif_ptr \<Rightarrow> int \<Rightarrow> bytes option \<Rightarrow> System \<Rightarrow> System" where
  "recover_vlan_if_mac_on_standby p dir remote_system_mac s =
     (let lif = lif_of s p; vid = sscanf_Vlan (lif_name lif)
      in if lif_type lif \<noteq> IF_T_VLAN then s
         else case find (\<lambda>c. csm_peer_link_if (csm_of s c) \<noteq> None) (sys_csm_list s) of
           None \<Rightarrow> s
         | Some c \<Rightarrow>
             let ml = MLACP (csm_of s c); remote = rs_system_id (ml_remote_system ml);
                 system_mac = (if lif_is_l3_proto_enabled lif then remote else ml_system_id ml)
             in if csm_role_type (csm_of s c) \<noteq> STP_ROLE_STANDBY then s
                else if memcmp system_mac null_mac = 0 then s
                else if local_if_is_l3_mode lif \<and> memcmp (lif_l3_mac_addr lif) system_mac \<noteq> 0 then
                  let s1 = hwaddr_refresh (lif_ifindex lif) system_mac s;
                      s2 = iccp_set_interface_ipadd_mac lif (mac_str system_mac) s1;
                      s3 = upd_lif p (\<lambda>l. l\<lparr>lif_l3_mac_addr := system_mac\<rparr>) s2
                  in if memcmp remote null_mac \<noteq> 0
                     then set_peer_mac_in_kernel (mac_str remote) vid False s3
                     else (case remote_system_mac of None \<Rightarrow> s3
                           | Some mac \<Rightarrow> if dir = 4 \<and> memcmp mac null_mac \<noteq> 0
                               then set_peer_mac_in_kernel (mac_str mac) vid False s3 else s3)
                else s)"

definition update_vlan_if_mac_on_iccp_up ::
  "lif_ptr \<Rightarrow> bool \<Rightarrow> bytes option \<Rightarrow> System \<Rightarrow> System" where
  "update_vlan_if_mac_on_iccp_up p up remote_system_mac s =
     foldl (\<lambda>s v. case vl_itf v of None \<Rightarrow> s
              | Some q \<Rightarrow> if up then update_vlan_if_mac_on_standby q s
                          else recover_vlan_if_mac_on_standby q 4 remote_system_mac s)
       s (lif_vlan_tree (lif_of s p))"

definition peer_if_find_by_name :: "CSM \<Rightarrow> string \<Rightarrow> PeerInterface option" where
  "peer_if_find_by_name csm name = find (\<lambda>pif. pif_name pif = name) (ml_pif_list (MLACP csm))"

text \<open>The address of the interface \<open>q\<close> of a VLAN the port channel is a member of.\<close>

definition vlan_itf_set_mac :: "lif_ptr \<Rightarrow> bytes \<Rightarrow> System \<Rightarrow> System" where
  "vlan_itf_set_mac q mac s =
     (let s1 = hwaddr_refresh (lif_ifindex (lif_of s q)) mac s;
          s2 = iccp_set_interface_ipadd_mac (lif_of s q) (mac_str mac) s1
      in upd_lif q (\<lambda>l. l\<lparr>lif_l3_mac_addr := mac\<rparr>) s2)"

definition update_if_ipmac_on_standby :: "lif_ptr \<Rightarrow> System \<Rightarrow> System" where
  "update_if_ipmac_on_standby p s =
     (case lif_csm (lif_of s p) of None \<Rightarrow> s
      | Some c \<Rightarrow>
          let lif = lif_of s p; csm = csm_of s c;
              remote = rs_system_id (ml_remote_system (MLACP csm))
          in if lif_type lif \<noteq> IF_T_PORT_CHANNEL then s
             else if csm_role_type csm \<noteq> STP_ROLE_STANDBY then s
             else if memcmp remote null_mac = 0 then s
             else
               let s1 = (if peer_if_find_by_name csm (lif_name lif) \<noteq> None \<and>
                            memcmp (lif_mac_addr lif) remote \<noteq> 0
                         then hwaddr_refresh (lif_ifindex lif) remote
                           (upd_lif p (\<lambda>l. l\<lparr>lif_mac_addr_ori := lif_mac_addr l\<rparr>) s)
                         else s)
               in if local_if_is_l3_mode lif then
                    if memcmp (lif_l3_mac_addr lif) remote \<noteq> 0
                    then upd_lif p (\<lambda>l. l\<lparr>lif_l3_mac_addr := remote\<rparr>)
                           (iccp_set_interface_ipadd_mac lif (mac_str remote) s1)
                    else s1
                  else
                    foldl (\<lambda>s v. case vl_itf v of None \<Rightarrow> s
                           | Some q \<Rightarrow>
                               if local_if_is_l3_mode (lif_of s q) \<and>
                                  memcmp (lif_l3_mac_addr (lif_of s q)) remote \<noteq> 0 \<and>
                                  \<not> lif_is_l3_proto_enabled (lif_of s q)
                               then vlan_itf_set_mac q remote s else s)
                      s1 (lif_vlan_tree lif))"

definition recover_if_ipmac_on_standby :: "lif_ptr \<Rightarrow> System \<Rightarrow> System" where
  "recover_if_ipmac_on_standby p s =
     (case lif_csm (lif_of s p) of None \<Rightarrow> s
      | Some c \<Rightarrow>
          let lif = lif_of s p; csm = csm_of s c; own = ml_system_id (MLACP csm)
          in if lif_type lif \<noteq> IF_T_PORT_CHANNEL then s
             else if csm_role_type csm \<noteq> STP_ROLE_STANDBY then s
             else
               let s1 = (if memcmp (lif_mac_addr lif) own \<noteq> 0
                         then upd_lif p (\<lambda>l. l\<lparr>lif_mac_addr := own\<rparr>)
                                (hwaddr_refresh (lif_ifindex lif) own s)
                         else s)
               in if local_if_is_l3_mode lif
                  then upd_lif p (\<lambda>l. l\<lparr>lif_l3_mac_addr := own\<rparr>)
                         (iccp_set_interface_ipadd_mac lif (mac_str own) s1)
                  else
                    foldl (\<lambda>s v. case vl_itf v of None \<Rightarrow> s
                           | Some q \<Rightarrow>
                               if local_if_is_l3_mode (lif_of s q) \<and>
                                  \<not> lif_is_l3_proto_enabled (lif_of s q)
                               then vlan_itf_set_mac q own s else s)
                      s1 (lif_vlan_tree lif))"

section \<open>VLAN membership of local interfaces\<close>

definition vlan_name :: "u16 \<Rightarrow> string" where
  "vlan_name vid = ''Vlan'' @ dec (unat vid)"

text \<open>The end of \<open>local_if_add_vlan\<close>, for the node \<open>v\<close> found or inserted.\<close>

definition local_if_vlan_joined :: "lif_ptr \<Rightarrow> VLAN_ID \<Rightarrow> System \<Rightarrow> System" where
  "local_if_vlan_joined p v s =
     (let s1 = upd_lif p (\<lambda>l. l\<lparr>lif_vlan_tree :=
                 vlan_upd (vl_vid v) (\<lambda>n. n\<lparr>vl_removed := 0\<rparr>) (lif_vlan_tree l)\<rparr>) s
      in case vl_itf v of None \<Rightarrow> s1
         | Some q \<Rightarrow> if lif_is_peer_link (lif_of s p) \<noteq> 0
                     then update_vlan_if_mac_on_standby q s1 else s1)"

definition local_if_add_vlan :: "lif_ptr \<Rightarrow> u16 \<Rightarrow> System \<Rightarrow> int \<times> System" where
  "local_if_add_vlan p vid s =
     (case vlan_find vid (lif_vlan_tree (lif_of s p)) of
        Some v \<Rightarrow> (0, local_if_vlan_joined p v s)
      | None \<Rightarrow>
          let (ok, s1) = malloc s
          in if \<not> ok then (MCLAG_ERROR, s1)
             else
               let v = vlan_info_init\<lparr>vl_vid := vid,
                         vl_itf := local_if_find_by_name (vlan_name vid) s1\<rparr>;
                   s2 = upd_lif p (\<lambda>l. l\<lparr>lif_vlan_count := lif_vlan_count l + 1,
                          lif_port_config_sync := 1,
                          lif_vlan_tree := rb_insert vlan_node_compare v (lif_vlan_tree l)\<rparr>) s1
               in (0, local_if_vlan_joined p v s2))"

definition local_if_del_vlan :: "u16 \<Rightarrow> LocalInterface \<Rightarrow> LocalInterface" where
  "local_if_del_vlan vid lif =
     (case vlan_find vid (lif_vlan_tree lif) of None \<Rightarrow> lif
      | Some v \<Rightarrow> lif\<lparr>lif_vlan_tree := rb_remove v (lif_vlan_tree lif),
                     lif_port_config_sync := 1, lif_vlan_count := lif_vlan_count lif - 1\<rparr>)"

definition local_if_del_all_vlan :: "LocalInterface \<Rightarrow> LocalInterface" where
  "local_if_del_all_vlan lif =
     foldl (\<lambda>l v. l\<lparr>lif_vlan_tree := rb_remove v (lif_vlan_tree l),
                    lif_vlan_count := lif_vlan_count l - 1\<rparr>)
       lif (lif_vlan_tree lif)"

definition local_if_vlan_remove :: "lif_ptr \<Rightarrow> System \<Rightarrow> System" where
  "local_if_vlan_remove p s =
     (if lif_type (lif_of s p) \<noteq> IF_T_VLAN then s
      else let vid = word_of_int (sscanf_Vlan (lif_name (lif_of s p)))
           in foldl (\<lambda>s q. if lif_type (lif_of s q) = IF_T_VLAN then s
                else upd_lif q (\<lambda>l. l\<lparr>lif_vlan_tree :=
                       vlan_upd vid (\<lambda>v. v\<lparr>vl_itf := None\<rparr>) (lif_vlan_tree l)\<rparr>) s)
                s (sys_lif_list s))"

definition local_if_mlacp_purge_del :: "lif_ptr \<Rightarrow> System \<Rightarrow> System" where
  "local_if_mlacp_purge_del p s =
     (case lif_csm (lif_of s p) of None \<Rightarrow> s
      | Some c \<Rightarrow> upd_csm c (upd_mlacp (\<lambda>m. m\<lparr>ml_lif_purge_list :=
                    remove1 p (ml_lif_purge_list m)\<rparr>)) s)"

definition local_if_purge_clear :: "System \<Rightarrow> System" where
  "local_if_purge_clear s =
     foldl (\<lambda>s p. upd_lif p local_if_del_all_vlan (local_if_mlacp_purge_del p
              (s\<lparr>sys_lif_purge_list := remove1 p (sys_lif_purge_list s)\<rparr>)))
       s (sys_lif_purge_list s)"

section \<open>Memberships of interfaces that do not exist yet\<close>

fun update_first :: "('a \<Rightarrow> bool) \<Rightarrow> ('a \<Rightarrow> 'a) \<Rightarrow> 'a list \<Rightarrow> 'a list" where
  "update_first P f [] = []"
| "update_first P f (x # xs) = (if P x then f x # xs else x # update_first P f xs)"

definition find_pending_vlan_mbr_if :: "string \<Rightarrow> System \<Rightarrow> PendingVlanMbrIf option" where
  "find_pending_vlan_mbr_if ifname s =
     find (\<lambda>e. pend_name e = ifname) (sys_pending_vlan_mbr_if_list s)"

definition add_pending_vlan_mbr ::
  "u16 \<Rightarrow> PendingVlanMbrIf \<Rightarrow> System \<Rightarrow> int \<times> PendingVlanMbrIf \<times> System" where
  "add_pending_vlan_mbr vid e s =
     (case vlan_find vid (pend_vlan_tree e) of Some _ \<Rightarrow> (0, e, s)
      | None \<Rightarrow>
          let (ok, s1) = malloc s
          in if \<not> ok then (MCLAG_ERROR, e, s1)
             else (0, e\<lparr>pend_vlan_tree :=
                     rb_insert vlan_node_compare (vlan_key vid) (pend_vlan_tree e)\<rparr>, s1))"

definition del_pending_vlan_mbr :: "u16 \<Rightarrow> PendingVlanMbrIf \<Rightarrow> PendingVlanMbrIf" where
  "del_pending_vlan_mbr vid e =
     (case vlan_find vid (pend_vlan_tree e) of None \<Rightarrow> e
      | Some v \<Rightarrow> e\<lparr>pend_vlan_tree := rb_remove v (pend_vlan_tree e)\<rparr>)"

text \<open>\<open>snprintf(name, MAX_L_PORT_NAME, "%s", str)\<close>\<close>

definition port_name :: "string \<Rightarrow> string" where
  "port_name str = take (MAX_L_PORT_NAME - 1) str"

definition update_pending_vlan_mbr :: "string \<Rightarrow> u32 \<Rightarrow> bool \<Rightarrow> System \<Rightarrow> System" where
  "update_pending_vlan_mbr name vlan_id add s =
     (case find_pending_vlan_mbr_if name s of
        None \<Rightarrow>
          if \<not> add then s
          else let (ok, s1) = malloc s
               in if \<not> ok then s1
                  else let (_, e, s2) = add_pending_vlan_mbr (ucast vlan_id)
                              \<lparr>pend_name = port_name name, pend_vlan_tree = []\<rparr> s1
                       in s2\<lparr>sys_pending_vlan_mbr_if_list :=
                               e # sys_pending_vlan_mbr_if_list s2\<rparr>
      | Some e \<Rightarrow>
          let (e', s1) = (if add then snd (add_pending_vlan_mbr (ucast vlan_id) e s)
                          else (del_pending_vlan_mbr (ucast vlan_id) e, s))
          in s1\<lparr>sys_pending_vlan_mbr_if_list := update_first (\<lambda>e. pend_name e = name) (\<lambda>_. e')
                  (sys_pending_vlan_mbr_if_list s1)\<rparr>)"

definition move_pending_vlan_mbr_to_lif :: "lif_ptr \<Rightarrow> System \<Rightarrow> System" where
  "move_pending_vlan_mbr_to_lif p s =
     (case find_pending_vlan_mbr_if (lif_name (lif_of s p)) s of None \<Rightarrow> s
      | Some e \<Rightarrow>
          let s1 = foldl (\<lambda>s v. snd (local_if_add_vlan p (vl_vid v) s)) s (pend_vlan_tree e)
          in s1\<lparr>sys_pending_vlan_mbr_if_list := remove1 e (sys_pending_vlan_mbr_if_list s1)\<rparr>)"

definition del_all_pending_vlan_mbr_ifs :: "System \<Rightarrow> System" where
  "del_all_pending_vlan_mbr_ifs s = s\<lparr>sys_pending_vlan_mbr_if_list := []\<rparr>"

section \<open>Peer interfaces\<close>

definition upd_pifs :: "(PeerInterface list \<Rightarrow> PeerInterface list) \<Rightarrow> CSM \<Rightarrow> CSM" where
  "upd_pifs f = upd_mlacp (\<lambda>m. m\<lparr>ml_pif_list := f (ml_pif_list m)\<rparr>)"

definition peer_if_create ::
  "csm_ptr \<Rightarrow> int \<Rightarrow> int \<Rightarrow> System \<Rightarrow> PeerInterface option \<times> System" where
  "peer_if_create c peer_if_number ty s =
     (if peer_if_number < 0 then (None, s)
      else if ty \<noteq> IF_T_PORT \<and> ty \<noteq> IF_T_PORT_CHANNEL then (None, s)
      else
        let (ok, s1) = malloc s
        in if \<not> ok then (None, s1)
           else
             let pif = zero_PeerInterface\<lparr>pif_ifindex := peer_if_number, pif_type := ty,
                         pif_csm := (if ty = IF_T_PORT then Some c else None)\<rparr>
             in (Some pif, upd_csm c (upd_pifs (\<lambda>ps. pif # ps)) s1))"

definition peer_if_del_all_vlan :: "PeerInterface \<Rightarrow> PeerInterface" where
  "peer_if_del_all_vlan pif =
     foldl (\<lambda>p v. p\<lparr>pif_vlan_tree := rb_remove v (pif_vlan_tree p)\<rparr>) pif (pif_vlan_tree pif)"

definition peer_if_destroy :: "PeerInterface \<Rightarrow> csm_ptr \<Rightarrow> System \<Rightarrow> System" where
  "peer_if_destroy pif c s = upd_csm c (upd_pifs (remove1 pif)) s"

definition peer_if_add_vlan ::
  "u16 \<Rightarrow> PeerInterface \<Rightarrow> System \<Rightarrow> int \<times> PeerInterface \<times> System" where
  "peer_if_add_vlan vid pif s =
     (let mark = (\<lambda>p. p\<lparr>pif_vlan_tree :=
                   vlan_upd vid (\<lambda>v. v\<lparr>vl_removed := 0\<rparr>) (pif_vlan_tree p)\<rparr>)
      in case vlan_find vid (pif_vlan_tree pif) of
           Some _ \<Rightarrow> (0, mark pif, s)
         | None \<Rightarrow>
             let (ok, s1) = malloc s
             in if \<not> ok then (MCLAG_ERROR, pif, s1)
                else (0, mark (pif\<lparr>pif_vlan_tree := rb_insert vlan_node_compare
                          (vlan_info_init\<lparr>vl_vid := vid\<rparr>) (pif_vlan_tree pif)\<rparr>), s1))"

text \<open>
  \<open>peer_if_clean_unused_vlan\<close> removes a node only one iteration after it was visited, and the last
  one after the loop.
\<close>

definition clean_unused_step ::
  "VLAN_ID option \<times> VLAN_ID list \<Rightarrow> VLAN_ID \<Rightarrow> VLAN_ID option \<times> VLAN_ID list" where
  "clean_unused_step st v =
     (let tree = (case fst st of None \<Rightarrow> snd st | Some u \<Rightarrow> rb_remove u (snd st))
      in (if vl_removed v = 1 then Some v else None, tree))"

definition peer_if_clean_unused_vlan :: "PeerInterface \<Rightarrow> PeerInterface" where
  "peer_if_clean_unused_vlan pif =
     (let (last, tree) = foldl clean_unused_step (None, pif_vlan_tree pif) (pif_vlan_tree pif)
      in pif\<lparr>pif_vlan_tree := (case last of None \<Rightarrow> tree | Some u \<Rightarrow> rb_remove u tree)\<rparr>)"

section \<open>Binding local interfaces to a session\<close>

definition upd_lif_list :: "(lif_ptr list \<Rightarrow> lif_ptr list) \<Rightarrow> CSM \<Rightarrow> CSM" where
  "upd_lif_list f = upd_mlacp (\<lambda>m. m\<lparr>ml_lif_list := f (ml_lif_list m)\<rparr>)"

definition upd_lif_purge_list :: "(lif_ptr list \<Rightarrow> lif_ptr list) \<Rightarrow> CSM \<Rightarrow> CSM" where
  "upd_lif_purge_list f = upd_mlacp (\<lambda>m. m\<lparr>ml_lif_purge_list := f (ml_lif_purge_list m)\<rparr>)"

definition mlacp_unbind_local_if :: "lif_ptr \<Rightarrow> System \<Rightarrow> System" where
  "mlacp_unbind_local_if p s =
     (case lif_csm (lif_of s p) of None \<Rightarrow> s
      | Some c \<Rightarrow>
          let s1 = upd_csm c (upd_lif_list (remove1 p)) s;
              s2 = (if ml_current_state (MLACP (csm_of s c)) = MLACP_STATE_EXCHANGE \<and>
                       lif_type (lif_of s p) = IF_T_PORT_CHANNEL
                    then upd_csm c (upd_lif_purge_list (\<lambda>ps. p # ps)) s1 else s1)
          in upd_lif p (\<lambda>l. l\<lparr>lif_po_id := (if lif_type l = IF_T_PORT then -1 else lif_po_id l),
                            lif_csm := None\<rparr>) s2)"

definition mlacp_bind_local_if :: "csm_ptr \<Rightarrow> lif_ptr \<Rightarrow> System \<Rightarrow> int \<times> System" where
  "mlacp_bind_local_if c p s =
     (if lif_csm (lif_of s p) = Some c then (0, s)
      else
        let s1 = upd_csm c (upd_lif_purge_list (removeAll p)) s
        in if p \<in> set (ml_lif_list (MLACP (csm_of s1 c))) then (0, s1)
           else
             let s2 = mlacp_unbind_local_if p s1;
                 s3 = upd_csm c (upd_lif_list (\<lambda>ps. p # ps)) s2;
                 s4 = upd_lif p (\<lambda>l. l\<lparr>lif_csm := Some c, lif_port_config_sync :=
                        (if lif_type l = IF_T_PORT_CHANNEL then 1
                         else lif_port_config_sync l)\<rparr>) s3;
                 lif = lif_of s4 p
             in if lif_type lif = IF_T_PORT_CHANNEL then (0, s4)
                else case find (\<lambda>q. lif_type (lif_of s4 q) = IF_T_PORT_CHANNEL \<and>
                                   lif_po_id (lif_of s4 q) = lif_po_id lif)
                            (ml_lif_list (MLACP (csm_of s4 c))) of
                  Some q \<Rightarrow> (0, update_if_ipmac_on_standby q s4)
                | None \<Rightarrow>
                    (case local_if_find_by_po_id (lif_po_id lif) s4 of
                       None \<Rightarrow> (MCLAG_ERROR, s4)
                     | Some q \<Rightarrow>
                         (0, upd_lif q (\<lambda>l. l\<lparr>lif_csm := Some c, lif_port_config_sync := 1\<rparr>)
                               (upd_csm c (upd_lif_list (\<lambda>ps. q # ps)) s4))))"

definition local_if_po_remove :: "lif_ptr \<Rightarrow> System \<Rightarrow> System" where
  "local_if_po_remove p s =
     (case lif_csm (lif_of s p) of None \<Rightarrow> s
      | Some c \<Rightarrow>
          foldl (\<lambda>s q. if lif_type (lif_of s q) = IF_T_PORT \<and>
                         lif_po_id (lif_of s q) = lif_po_id (lif_of s p)
                      then mlacp_unbind_local_if q s else s)
            s (ml_lif_list (MLACP (csm_of s c))))"

definition local_if_remove :: "lif_ptr \<Rightarrow> System \<Rightarrow> System" where
  "local_if_remove p s = upd_lif p (\<lambda>l. l\<lparr>lif_po_id := -1\<rparr>) (mlacp_unbind_local_if p s)"

section \<open>What the operations leave alone\<close>

text \<open>Talking to the kernel and to mclagsyncd changes nothing the daemon itself keeps.\<close>

definition same_data :: "System \<Rightarrow> System \<Rightarrow> bool" where
  "same_data s s' \<longleftrightarrow> s' = s\<lparr>sys_syncd_tx_counters := sys_syncd_tx_counters s',
     env_n_send := env_n_send s', syncd_tx := syncd_tx s', kernel_log := kernel_log s'\<rparr>"

lemma same_data_refl [simp]: "same_data s s"
  by (simp add: same_data_def)

lemma same_data_trans: "same_data s t \<Longrightarrow> same_data t u \<Longrightarrow> same_data s u"
  by (cases s; cases t; cases u) (simp add: same_data_def)

lemma same_data_frame:
  assumes "same_data s s'"
  shows "sys_csm_heap s' = sys_csm_heap s" "sys_lif_heap s' = sys_lif_heap s"
    "sys_sync_fd s' = sys_sync_fd s" "sys_csm_list s' = sys_csm_list s"
    "sys_lif_list s' = sys_lif_list s" "sys_lif_purge_list s' = sys_lif_purge_list s"
    "sys_pending_vlan_mbr_if_list s' = sys_pending_vlan_mbr_if_list s"
    "peer_tx s' = peer_tx s" "env_time s' = env_time s" "env_malloc s' = env_malloc s"
    "env_n_malloc s' = env_n_malloc s" "env_write s' = env_write s"
    "sys_ICCP_MSG_ID s' = sys_ICCP_MSG_ID s" "sys_warmboot_exit s' = sys_warmboot_exit s"
  by (subst assms [unfolded same_data_def], simp)+

lemma only_syncd_same_data: "only_syncd s s' \<Longrightarrow> same_data s s'"
  by (cases s; cases s') (simp add: same_data_def only_syncd_def)

lemma same_data_kernel [simp]: "same_data s (snd (kernel r s))"
  by (simp add: kernel_def same_data_def)

lemma sync_fd_write_only_syncd: "sync_fd_write buf s = (rc, s') \<Longrightarrow> only_syncd s s'"
  by (auto simp: sync_fd_write_def split: prod.splits send_result.splits dest: sync_fd_send_spec)

lemma same_data_hwaddr_refresh [simp]: "same_data s (hwaddr_refresh i mac s)"
  unfolding hwaddr_refresh_def iccp_netlink_if_startup_set_def iccp_netlink_if_shutdown_set_def
    iccp_netlink_if_hwaddr_set_def
  by (meson same_data_kernel same_data_trans)

lemma same_data_ipadd_mac [simp]: "same_data s (iccp_set_interface_ipadd_mac lif m s)"
  unfolding iccp_set_interface_ipadd_mac_def Let_def
  by (auto split: prod.splits intro!: only_syncd_same_data
      intro: only_syncd_trans [OF sync_fd_write_only_syncd])

lemma same_data_peer_mac [simp]: "same_data s (set_peer_mac_in_kernel m v a s)"
  by (simp add: set_peer_mac_in_kernel_def Let_def)

lemmas data_frame [simp] =
  same_data_frame [OF same_data_hwaddr_refresh] same_data_frame [OF same_data_ipadd_mac]
  same_data_frame [OF same_data_peer_mac] same_data_frame [OF same_data_kernel]

lemma upd_lif_frame [simp]:
  "sys_csm_heap (upd_lif p f s) = sys_csm_heap s" "sys_lif_list (upd_lif p f s) = sys_lif_list s"
  "sys_csm_list (upd_lif p f s) = sys_csm_list s" "env_malloc (upd_lif p f s) = env_malloc s"
  "env_n_malloc (upd_lif p f s) = env_n_malloc s"
  "sys_pending_vlan_mbr_if_list (upd_lif p f s) = sys_pending_vlan_mbr_if_list s"
  "sys_lif_heap (upd_lif p f s) = (sys_lif_heap s)(p := f (sys_lif_heap s p))"
  by (simp_all add: upd_lif_def)

lemma upd_csm_frame [simp]:
  "sys_lif_heap (upd_csm c f s) = sys_lif_heap s" "sys_lif_list (upd_csm c f s) = sys_lif_list s"
  "sys_csm_list (upd_csm c f s) = sys_csm_list s" "env_malloc (upd_csm c f s) = env_malloc s"
  "env_n_malloc (upd_csm c f s) = env_n_malloc s"
  "sys_csm_heap (upd_csm c f s) = (sys_csm_heap s)(c := f (sys_csm_heap s c))"
  by (simp_all add: upd_csm_def)

text \<open>
  The address updates change the addresses of interfaces and nothing else of the daemon's data:
  \<open>addr_only\<close> relates two states whose interfaces agree up to the three address fields.
\<close>

definition wipe_addr :: "LocalInterface \<Rightarrow> LocalInterface" where
  "wipe_addr l = l\<lparr>lif_mac_addr := [], lif_mac_addr_ori := [], lif_l3_mac_addr := []\<rparr>"

definition addr_only :: "System \<Rightarrow> System \<Rightarrow> bool" where
  "addr_only s s' \<longleftrightarrow>
     (\<forall>p. wipe_addr (lif_of s' p) = wipe_addr (lif_of s p)) \<and>
     sys_csm_heap s' = sys_csm_heap s \<and> sys_csm_list s' = sys_csm_list s \<and>
     sys_lif_list s' = sys_lif_list s \<and> env_malloc s' = env_malloc s \<and>
     env_n_malloc s' = env_n_malloc s \<and>
     sys_pending_vlan_mbr_if_list s' = sys_pending_vlan_mbr_if_list s"

lemma addr_only_refl [simp]: "addr_only s s"
  by (simp add: addr_only_def)

lemma addr_only_trans: "addr_only s t \<Longrightarrow> addr_only t u \<Longrightarrow> addr_only s u"
  by (simp add: addr_only_def)

lemma addr_only_same_data: "same_data s s' \<Longrightarrow> addr_only s s'"
  by (simp add: addr_only_def same_data_frame)

lemma addr_only_foldl:
  "addr_only s t \<Longrightarrow> (\<And>s x. addr_only s (f s x)) \<Longrightarrow> addr_only s (foldl f t xs)"
  by (rule foldl_invariant) (auto intro: addr_only_trans)

lemma addr_only_steps:
  assumes "addr_only s t"
  shows "addr_only s (hwaddr_refresh i mac t)" "addr_only s (iccp_set_interface_ipadd_mac lif m t)"
    "addr_only s (set_peer_mac_in_kernel m v a t)"
  using assms by (auto intro: addr_only_trans [OF _ addr_only_same_data])

lemma addr_only_upd:
  "(\<And>l. wipe_addr (f l) = wipe_addr l) \<Longrightarrow> addr_only s t \<Longrightarrow> addr_only s (upd_lif p f t)"
  by (simp add: addr_only_def)

lemma wipe_addr_simps [simp]:
  "wipe_addr (l\<lparr>lif_l3_mac_addr := a\<rparr>) = wipe_addr l"
  "wipe_addr (l\<lparr>lif_mac_addr := a\<rparr>) = wipe_addr l"
  "wipe_addr (l\<lparr>lif_mac_addr_ori := a\<rparr>) = wipe_addr l"
  by (simp_all add: wipe_addr_def)

lemma addr_only_fields:
  assumes "addr_only s s'"
  shows "lif_vlan_tree (lif_of s' p) = lif_vlan_tree (lif_of s p)"
    "lif_vlan_count (lif_of s' p) = lif_vlan_count (lif_of s p)"
    "lif_name (lif_of s' p) = lif_name (lif_of s p)"
    "lif_type (lif_of s' p) = lif_type (lif_of s p)"
    "lif_csm (lif_of s' p) = lif_csm (lif_of s p)"
    "lif_po_id (lif_of s' p) = lif_po_id (lif_of s p)"
    "lif_ifindex (lif_of s' p) = lif_ifindex (lif_of s p)"
    "local_if_is_l3_mode (lif_of s' p) = local_if_is_l3_mode (lif_of s p)"
    "lif_is_l3_proto_enabled (lif_of s' p) = lif_is_l3_proto_enabled (lif_of s p)"
proof -
  have w: "wipe_addr (lif_of s' p) = wipe_addr (lif_of s p)"
    using assms by (simp add: addr_only_def)
  show "lif_vlan_tree (lif_of s' p) = lif_vlan_tree (lif_of s p)"
    "lif_vlan_count (lif_of s' p) = lif_vlan_count (lif_of s p)"
    "lif_name (lif_of s' p) = lif_name (lif_of s p)"
    "lif_type (lif_of s' p) = lif_type (lif_of s p)"
    "lif_csm (lif_of s' p) = lif_csm (lif_of s p)"
    "lif_po_id (lif_of s' p) = lif_po_id (lif_of s p)"
    "lif_ifindex (lif_of s' p) = lif_ifindex (lif_of s p)"
    "local_if_is_l3_mode (lif_of s' p) = local_if_is_l3_mode (lif_of s p)"
    "lif_is_l3_proto_enabled (lif_of s' p) = lif_is_l3_proto_enabled (lif_of s p)"
    using w by (cases "lif_of s' p"; cases "lif_of s p";
        simp add: wipe_addr_def local_if_is_l3_mode_def)+
qed

lemma addr_only_update_vlan: "addr_only s (update_vlan_if_mac_on_standby p s)"
  unfolding update_vlan_if_mac_on_standby_def Let_def
  by (auto split: option.split intro!: addr_only_steps addr_only_upd)

lemma addr_only_recover_vlan: "addr_only s (recover_vlan_if_mac_on_standby p d m s)"
  unfolding recover_vlan_if_mac_on_standby_def Let_def
  by (auto split: option.split intro!: addr_only_steps addr_only_upd)

lemma addr_only_iccp_up: "addr_only s (update_vlan_if_mac_on_iccp_up p up m s)"
  unfolding update_vlan_if_mac_on_iccp_up_def
  by (rule addr_only_foldl)
    (auto split: option.split intro: addr_only_update_vlan addr_only_recover_vlan)

lemma addr_only_vlan_itf_set_mac: "addr_only s (vlan_itf_set_mac q mac s)"
  unfolding vlan_itf_set_mac_def Let_def by (auto intro!: addr_only_steps addr_only_upd)

lemma addr_only_update_if: "addr_only s (update_if_ipmac_on_standby p s)"
  unfolding update_if_ipmac_on_standby_def Let_def
  by (auto split: option.split
      intro!: addr_only_foldl addr_only_vlan_itf_set_mac addr_only_steps addr_only_upd)

lemma addr_only_recover_if: "addr_only s (recover_if_ipmac_on_standby p s)"
  unfolding recover_if_ipmac_on_standby_def Let_def
  by (auto split: option.split
      intro!: addr_only_foldl addr_only_vlan_itf_set_mac addr_only_steps addr_only_upd)

section \<open>Well-formed VLAN trees\<close>

text \<open>The tree is ordered, so its VLANs are distinct, and the counter is its size.\<close>

definition vlan_wf :: "LocalInterface \<Rightarrow> bool" where
  "vlan_wf l \<longleftrightarrow> rb_sorted vlan_node_compare (lif_vlan_tree l) \<and>
     lif_vlan_count l = word_of_nat (length (lif_vlan_tree l))"

lemma vlan_compare_0: "vlan_node_compare a b = 0 \<longleftrightarrow> vl_vid a = vl_vid b"
  by (auto simp: vlan_node_compare_def)

lemma vlan_compare_key [simp]:
  "vlan_node_compare (a\<lparr>vl_removed := r\<rparr>) b = vlan_node_compare a b"
  "vlan_node_compare a (b\<lparr>vl_removed := r\<rparr>) = vlan_node_compare a b"
  "vlan_node_compare (a\<lparr>vl_itf := i\<rparr>) b = vlan_node_compare a b"
  "vlan_node_compare a (b\<lparr>vl_itf := i\<rparr>) = vlan_node_compare a b"
  by (simp_all add: vlan_node_compare_def)

lemma vlan_key_vid [simp]: "vl_vid (vlan_key vid) = vid"
  by (simp add: vlan_key_def)

lemma vlan_find_vid: "vlan_find vid tree = Some v \<Longrightarrow> v \<in> set tree \<and> vl_vid v = vid"
  by (auto dest!: rb_find_Some simp: vlan_compare_0)

lemma vlan_find_None: "vlan_find vid tree = None \<longleftrightarrow> (\<forall>v \<in> set tree. vl_vid v \<noteq> vid)"
  by (auto simp: rb_find_None vlan_compare_0)

lemma vlan_find_cong: "vl_vid v = vid \<Longrightarrow> rb_find vlan_node_compare v tree = vlan_find vid tree"
  by (simp add: rb_find_def vlan_compare_0)

lemma vlan_upd_find:
  assumes "\<And>v. vl_vid (f v) = vl_vid v"
  shows "vlan_find k (vlan_upd vid f tree) =
    (if k = vid then map_option f (vlan_find k tree) else vlan_find k tree)"
  using assms by (induction tree) (auto simp: vlan_upd_def rb_find_def vlan_compare_0)

lemma vlan_upd_sorted:
  assumes "\<And>v. vl_vid (f v) = vl_vid v" "rb_sorted vlan_node_compare tree"
  shows "rb_sorted vlan_node_compare (vlan_upd vid f tree)"
proof -
  have "vlan_node_compare (if vl_vid a = vid then f a else a) (if vl_vid b = vid then f b else b)
      = vlan_node_compare a b" for a b
    by (auto simp: vlan_node_compare_def assms(1))
  with assms(2) show ?thesis
    by (simp add: vlan_upd_def rb_sorted_def sorted_wrt_map)
qed

lemma length_vlan_upd [simp]: "length (vlan_upd vid f tree) = length tree"
  by (simp add: vlan_upd_def)

lemma length_rb_insert_new:
  "rb_find cmp x xs = None \<Longrightarrow> length (rb_insert cmp x xs) = Suc (length xs)"
  by (induction xs) (auto simp: rb_find_None)

text \<open>What \<open>local_if_add_vlan\<close> does to the interface, in one equation per field.\<close>

lemma local_if_vlan_joined_tree:
  "lif_vlan_tree (lif_of (local_if_vlan_joined p v s) q) =
     (if q = p then vlan_upd (vl_vid v) (\<lambda>n. n\<lparr>vl_removed := 0\<rparr>) (lif_vlan_tree (lif_of s p))
      else lif_vlan_tree (lif_of s q))"
  "lif_vlan_count (lif_of (local_if_vlan_joined p v s) q) = lif_vlan_count (lif_of s q)"
  unfolding local_if_vlan_joined_def Let_def
  by (auto split: option.split simp: addr_only_fields [OF addr_only_update_vlan])

lemma malloc_frame [simp]:
  "sys_lif_heap (snd (malloc s)) = sys_lif_heap s" "sys_csm_heap (snd (malloc s)) = sys_csm_heap s"
  "sys_lif_list (snd (malloc s)) = sys_lif_list s" "env_malloc (snd (malloc s)) = env_malloc s"
  "sys_pending_vlan_mbr_if_list (snd (malloc s)) = sys_pending_vlan_mbr_if_list s"
  "fst (malloc s) = env_malloc s (env_n_malloc s)"
  by (simp_all add: malloc_def)

text \<open>The tree after the node \<open>n\<close> joined it, or was found in it.\<close>

definition vlan_added :: "VLAN_ID \<Rightarrow> VLAN_ID list \<Rightarrow> VLAN_ID list" where
  "vlan_added n tree = vlan_upd (vl_vid n) (\<lambda>v. v\<lparr>vl_removed := 0\<rparr>)
     (if vlan_find (vl_vid n) tree = None then rb_insert vlan_node_compare n tree else tree)"

lemma vlan_added_find:
  "vlan_find k (vlan_added n tree) =
     (if k = vl_vid n
      then Some (case vlan_find k tree of None \<Rightarrow> n\<lparr>vl_removed := 0\<rparr> | Some v \<Rightarrow> v\<lparr>vl_removed := 0\<rparr>)
      else vlan_find k tree)"
proof -
  have same: "vlan_find (vl_vid n) (rb_insert vlan_node_compare n tree) = Some n"
    if "vlan_find (vl_vid n) tree = None"
    using vlan_order.find_insert_same [of n tree] that
    by (simp add: vlan_find_cong [of n])
  have other: "vlan_find k (rb_insert vlan_node_compare n tree) = vlan_find k tree"
    if "vlan_find (vl_vid n) tree = None" "k \<noteq> vl_vid n"
    using vlan_order.find_insert_other [of "vlan_key k" n tree] that
    by (simp add: vlan_find_cong [of n] vlan_compare_0)
  show ?thesis
    by (auto simp: vlan_added_def vlan_upd_find same other split: option.split)
qed

lemma vlan_added_sorted:
  "rb_sorted vlan_node_compare tree \<Longrightarrow> rb_sorted vlan_node_compare (vlan_added n tree)"
  by (simp add: vlan_added_def vlan_upd_sorted vlan_order.sorted_insert)

lemma length_vlan_added:
  "length (vlan_added n tree) =
     (if vlan_find (vl_vid n) tree = None then Suc (length tree) else length tree)"
  by (simp add: vlan_added_def length_rb_insert_new vlan_find_cong [of n])

lemma local_if_add_vlan_cases:
  assumes "local_if_add_vlan p vid s = (rc, s')"
  shows "(rc = MCLAG_ERROR \<and> sys_lif_heap s' = sys_lif_heap s) \<or>
    (rc = 0 \<and> (\<exists>n. vl_vid n = vid \<and> (\<forall>q.
       lif_vlan_tree (lif_of s' q) = (if q = p then vlan_added n (lif_vlan_tree (lif_of s p))
                                      else lif_vlan_tree (lif_of s q)) \<and>
       lif_vlan_count (lif_of s' q) =
         (if q = p \<and> vlan_find vid (lif_vlan_tree (lif_of s p)) = None
          then lif_vlan_count (lif_of s p) + 1 else lif_vlan_count (lif_of s q)))))"
proof (cases "vlan_find vid (lif_vlan_tree (lif_of s p))")
  case (Some v)
  with assms have "rc = 0" "s' = local_if_vlan_joined p v s"
    by (simp_all add: local_if_add_vlan_def)
  with Some vlan_find_vid [OF Some] show ?thesis
    by (auto simp: local_if_vlan_joined_tree vlan_added_def intro!: exI [of _ v])
next
  case None
  define n where "n = vlan_info_init\<lparr>vl_vid := vid,
      vl_itf := local_if_find_by_name (vlan_name vid) (snd (malloc s))\<rparr>"
  define t where "t = upd_lif p (\<lambda>l. l\<lparr>lif_vlan_count := lif_vlan_count l + 1,
      lif_port_config_sync := 1,
      lif_vlan_tree := rb_insert vlan_node_compare n (lif_vlan_tree l)\<rparr>) (snd (malloc s))"
  have n: "vl_vid n = vid" by (simp add: n_def)
  have "(rc, s') = (if fst (malloc s) then (0, local_if_vlan_joined p n t)
      else (MCLAG_ERROR, snd (malloc s)))"
    using assms None unfolding t_def n_def
    by (auto simp: local_if_add_vlan_def Let_def case_prod_beta split: if_splits)
  then consider "rc = 0" "s' = local_if_vlan_joined p n t" | "rc = MCLAG_ERROR" "s' = snd (malloc s)"
    by (metis prod.inject)
  then show ?thesis
  proof cases
    case 1
    with n None show ?thesis
      by (auto simp: local_if_vlan_joined_tree vlan_added_def t_def intro!: exI [of _ n])
  qed simp
qed

lemma local_if_add_vlan_wf:
  assumes "local_if_add_vlan p vid s = (rc, s')" "vlan_wf (lif_of s q)"
  shows "vlan_wf (lif_of s' q)"
  using local_if_add_vlan_cases [OF assms(1)] assms(2)
  by (auto simp: vlan_wf_def vlan_added_sorted length_vlan_added)

lemma local_if_del_vlan_wf:
  assumes "vlan_wf l"
  shows "vlan_wf (local_if_del_vlan vid l)"
proof (cases "vlan_find vid (lif_vlan_tree l)")
  case None
  with assms show ?thesis by (simp add: local_if_del_vlan_def)
next
  case (Some v)
  then obtain m where "length (lif_vlan_tree l) = Suc m"
    using vlan_find_vid [OF Some] by (cases "lif_vlan_tree l") auto
  with assms Some vlan_find_vid [OF Some] show ?thesis
    by (auto simp: local_if_del_vlan_def vlan_wf_def rb_sorted_remove)
      (simp add: rb_remove_def length_remove1)
qed

lemma del_all_vlan_fold:
  "lif_vlan_tree l = ws @ vs \<Longrightarrow> distinct (lif_vlan_tree l) \<Longrightarrow>
   foldl (\<lambda>l v. l\<lparr>lif_vlan_tree := rb_remove v (lif_vlan_tree l),
                  lif_vlan_count := lif_vlan_count l - 1\<rparr>) l vs =
   l\<lparr>lif_vlan_tree := ws, lif_vlan_count := lif_vlan_count l - word_of_nat (length vs)\<rparr>"
proof (induction vs arbitrary: l)
  case (Cons v vs)
  have "rb_remove v (lif_vlan_tree l) = ws @ vs"
    using Cons.prems by (simp add: rb_remove_def remove1_append)
  with Cons show ?case by simp
qed simp

lemma local_if_del_all_vlan_wf:
  assumes "vlan_wf l"
  shows "vlan_wf (local_if_del_all_vlan l) \<and> lif_vlan_tree (local_if_del_all_vlan l) = []"
proof -
  have "distinct (lif_vlan_tree l)"
    using assms vlan_order.sorted_distinct by (simp add: vlan_wf_def)
  then show ?thesis
    using del_all_vlan_fold [of l "[]" "lif_vlan_tree l"] assms
    by (simp add: local_if_del_all_vlan_def vlan_wf_def rb_sorted_def)
qed

lemma local_if_add_vlan_frame:
  "env_malloc (snd (local_if_add_vlan p vid s)) = env_malloc s"
  "sys_pending_vlan_mbr_if_list (snd (local_if_add_vlan p vid s)) = sys_pending_vlan_mbr_if_list s"
  using addr_only_update_vlan
  by (auto simp: local_if_add_vlan_def local_if_vlan_joined_def Let_def case_prod_beta addr_only_def
      split: option.split)

lemma local_if_add_vlan_ok:
  assumes "\<forall>n. env_malloc s n"
  shows "fst (local_if_add_vlan p vid s) = 0"
  using assms by (simp add: local_if_add_vlan_def malloc_def Let_def split: option.split)

lemma local_if_add_vlan_find:
  assumes "local_if_add_vlan p vid s = (0, s')"
  shows "(\<exists>v. vlan_find vid (lif_vlan_tree (lif_of s' p)) = Some v \<and> vl_removed v = 0)"
    "k \<noteq> vid \<or> q \<noteq> p \<Longrightarrow>
     vlan_find k (lif_vlan_tree (lif_of s' q)) = vlan_find k (lif_vlan_tree (lif_of s q))"
  using local_if_add_vlan_cases [OF assms]
  by (auto simp: vlan_added_find MCLAG_ERROR_def split: option.split)

lemma add_all_vlans:
  assumes "\<forall>n. env_malloc s n"
  shows "let s' = foldl (\<lambda>s v. snd (local_if_add_vlan p (vl_vid v) s)) s vs
    in (\<forall>v \<in> set vs. vlan_find (vl_vid v) (lif_vlan_tree (lif_of s' p)) \<noteq> None) \<and>
       (\<forall>k. vlan_find k (lif_vlan_tree (lif_of s p)) \<noteq> None \<longrightarrow>
            vlan_find k (lif_vlan_tree (lif_of s' p)) \<noteq> None) \<and>
       sys_pending_vlan_mbr_if_list s' = sys_pending_vlan_mbr_if_list s"
  using assms
proof (induction vs arbitrary: s)
  case Nil
  then show ?case by simp
next
  case (Cons v vs)
  define t where "t = snd (local_if_add_vlan p (vl_vid v) s)"
  have add: "local_if_add_vlan p (vl_vid v) s = (0, t)"
    using local_if_add_vlan_ok [OF Cons.prems] by (metis t_def prod.collapse)
  have t: "\<forall>n. env_malloc t n" "sys_pending_vlan_mbr_if_list t = sys_pending_vlan_mbr_if_list s"
    using Cons.prems local_if_add_vlan_frame [of p "vl_vid v" s] by (simp_all add: t_def)
  have mono: "vlan_find k (lif_vlan_tree (lif_of t p)) \<noteq> None"
    if "vlan_find k (lif_vlan_tree (lif_of s p)) \<noteq> None \<or> k = vl_vid v" for k
    using local_if_add_vlan_find(1) [OF add] local_if_add_vlan_find(2) [OF add, of k p] that
    by (cases "k = vl_vid v") auto
  show ?case
    using Cons.IH [OF t(1)] mono t(2) by (simp add: Let_def flip: t_def)
qed

lemma clean_unused_fold:
  assumes "distinct (pre @ (case u of None \<Rightarrow> [] | Some x \<Rightarrow> [x]) @ vs)"
  shows "(case foldl clean_unused_step (u, pre @ (case u of None \<Rightarrow> [] | Some x \<Rightarrow> [x]) @ vs) vs
          of (None, t) \<Rightarrow> t | (Some x, t) \<Rightarrow> rb_remove x t)
    = pre @ filter (\<lambda>v. vl_removed v \<noteq> 1) vs"
  using assms
proof (induction vs arbitrary: pre u)
  case Nil
  then show ?case by (auto simp: rb_remove_def remove1_append split: option.splits)
next
  case (Cons v vs)
  have step: "clean_unused_step (u, pre @ (case u of None \<Rightarrow> [] | Some x \<Rightarrow> [x]) @ v # vs) v
      = (if vl_removed v = 1 then Some v else None, pre @ v # vs)"
    using Cons.prems
    by (auto simp: clean_unused_step_def rb_remove_def remove1_append split: option.splits)
  have d: "distinct (pre @ v # vs)"
    using Cons.prems by (auto split: option.splits)
  show ?case
    using Cons.IH [of pre "Some v"] Cons.IH [of "pre @ [v]" None] d
    by (cases "vl_removed v = 1") (simp_all add: step)
qed

section \<open>The interfaces of a session\<close>

text \<open>
  An interface points to the session whose list it is on, and no list has an interface twice.
\<close>

definition bound_inv :: "System \<Rightarrow> bool" where
  "bound_inv s \<longleftrightarrow> (\<forall>c. distinct (ml_lif_list (MLACP (csm_of s c)))) \<and>
     (\<forall>c p. p \<in> set (ml_lif_list (MLACP (csm_of s c))) \<longleftrightarrow> lif_csm (lif_of s p) = Some c)"

lemma upd_mlacp_sel [simp]: "MLACP (upd_mlacp f csm) = f (MLACP csm)"
  by (simp add: upd_mlacp_def upd_app_def)

lemma lif_list_upd [simp]:
  "ml_lif_list (MLACP (upd_lif_list f csm)) = f (ml_lif_list (MLACP csm))"
  "ml_lif_list (MLACP (upd_lif_purge_list f csm)) = ml_lif_list (MLACP csm)"
  "ml_lif_purge_list (MLACP (upd_lif_purge_list f csm)) = f (ml_lif_purge_list (MLACP csm))"
  "ml_lif_purge_list (MLACP (upd_lif_list f csm)) = ml_lif_purge_list (MLACP csm)"
  by (simp_all add: upd_lif_list_def upd_lif_purge_list_def)

lemma bound_inv_unbind:
  assumes "bound_inv s"
  shows "bound_inv (mlacp_unbind_local_if p s) \<and> lif_csm (lif_of (mlacp_unbind_local_if p s) p) = None"
proof (cases "lif_csm (lif_of s p)")
  case None
  with assms show ?thesis by (simp add: mlacp_unbind_local_if_def)
next
  case (Some c)
  with assms show ?thesis
    by (auto simp: mlacp_unbind_local_if_def bound_inv_def Let_def)
qed

lemma bound_inv_join:
  assumes "bound_inv s" "lif_csm (lif_of s p) = None" "\<And>l. lif_csm (f l) = Some c"
  shows "bound_inv (upd_lif p f (upd_csm c (upd_lif_list (\<lambda>ps. p # ps)) s))"
  using assms by (auto simp: bound_inv_def)

lemma bound_inv_cong:
  assumes "bound_inv s" "\<And>c. ml_lif_list (MLACP (csm_of t c)) = ml_lif_list (MLACP (csm_of s c))"
    "\<And>p. lif_csm (lif_of t p) = lif_csm (lif_of s p)"
  shows "bound_inv t"
  using assms by (simp add: bound_inv_def)

lemma bound_inv_addr_only: "bound_inv s \<Longrightarrow> addr_only s t \<Longrightarrow> bound_inv t"
  by (erule bound_inv_cong) (auto simp: addr_only_fields, simp add: addr_only_def)

text \<open>
  The state of \<open>mlacp_bind_local_if\<close> once the interface itself has joined: \<open>s4\<close> of its
  definition.
\<close>

definition bind_joined :: "csm_ptr \<Rightarrow> lif_ptr \<Rightarrow> System \<Rightarrow> System" where
  "bind_joined c p s =
     upd_lif p (\<lambda>l. l\<lparr>lif_csm := Some c, lif_port_config_sync :=
         (if lif_type l = IF_T_PORT_CHANNEL then 1 else lif_port_config_sync l)\<rparr>)
       (upd_csm c (upd_lif_list (\<lambda>ps. p # ps))
         (mlacp_unbind_local_if p (upd_csm c (upd_lif_purge_list (removeAll p)) s)))"

lemma mlacp_bind_local_if_unfold:
  assumes "bound_inv s" "lif_csm (lif_of s p) \<noteq> Some c"
  shows "mlacp_bind_local_if c p s =
    (let s4 = bind_joined c p s; lif = lif_of s4 p
     in if lif_type lif = IF_T_PORT_CHANNEL then (0, s4)
        else case find (\<lambda>q. lif_type (lif_of s4 q) = IF_T_PORT_CHANNEL \<and>
                           lif_po_id (lif_of s4 q) = lif_po_id lif)
                    (ml_lif_list (MLACP (csm_of s4 c))) of
          Some q \<Rightarrow> (0, update_if_ipmac_on_standby q s4)
        | None \<Rightarrow>
            (case local_if_find_by_po_id (lif_po_id lif) s4 of
               None \<Rightarrow> (MCLAG_ERROR, s4)
             | Some q \<Rightarrow>
                 (0, upd_lif q (\<lambda>l. l\<lparr>lif_csm := Some c, lif_port_config_sync := 1\<rparr>)
                       (upd_csm c (upd_lif_list (\<lambda>ps. q # ps)) s4))))"
  using assms
  by (simp add: mlacp_bind_local_if_def bind_joined_def bound_inv_def Let_def)

lemma unbind_frame [simp]:
  "sys_lif_list (mlacp_unbind_local_if p s) = sys_lif_list s"
  "lif_type (lif_of (mlacp_unbind_local_if p s) q) = lif_type (lif_of s q)"
  "q \<noteq> p \<Longrightarrow> lif_of (mlacp_unbind_local_if p s) q = lif_of s q"
  by (auto simp: mlacp_unbind_local_if_def Let_def split: option.split)

lemma bind_joined_inv:
  assumes "bound_inv s"
  shows "bound_inv (bind_joined c p s)"
proof -
  have "bound_inv (upd_csm c (upd_lif_purge_list (removeAll p)) s)"
    using assms by (rule bound_inv_cong) auto
  from bound_inv_unbind [OF this, of p] show ?thesis
    unfolding bind_joined_def by (auto intro!: bound_inv_join)
qed

lemma bind_joined_frame [simp]:
  "sys_lif_list (bind_joined c p s) = sys_lif_list s"
  "lif_type (lif_of (bind_joined c p s) q) = lif_type (lif_of s q)"
  "q \<noteq> p \<Longrightarrow> lif_of (bind_joined c p s) q = lif_of s q"
  "lif_csm (lif_of (bind_joined c p s) p) = Some c"
  by (simp_all add: bind_joined_def)

section \<open>Properties\<close>

text \<open>
  C24. Every operation on the VLANs of a local interface keeps its tree ordered, free of
  duplicates, and its VLAN counter equal to the size of the tree: adding a VLAN to any interface,
  removing one, and removing all, which leaves none.
\<close>

theorem local_if_vlan_invariant:
  assumes "vlan_wf (lif_of s q)"
  shows "vlan_wf (lif_of (snd (local_if_add_vlan p vid s)) q) \<and>
    vlan_wf (local_if_del_vlan vid (lif_of s q)) \<and>
    vlan_find vid (lif_vlan_tree (local_if_del_vlan vid (lif_of s q))) = None \<and>
    vlan_wf (local_if_del_all_vlan (lif_of s q)) \<and>
    lif_vlan_tree (local_if_del_all_vlan (lif_of s q)) = []"
proof -
  obtain rc s' where add: "local_if_add_vlan p vid s = (rc, s')" by fastforce
  have "vlan_find vid (lif_vlan_tree (local_if_del_vlan vid (lif_of s q))) = None"
  proof (cases "vlan_find vid (lif_vlan_tree (lif_of s q))")
    case (Some v)
    with assms vlan_find_vid [OF Some]
      vlan_order.find_remove_same [of "lif_vlan_tree (lif_of s q)" v] show ?thesis
      by (simp add: local_if_del_vlan_def vlan_wf_def vlan_find_cong [of v])
  qed (simp add: local_if_del_vlan_def)
  then show ?thesis
    using local_if_add_vlan_wf [OF add assms] local_if_del_vlan_wf [OF assms]
      local_if_del_all_vlan_wf [OF assms] add by simp
qed

theorem local_if_vlan_invariant_witness:
  "vlan_wf (lif_of (snd (local_if_add_vlan 0 5 (a_host (\<lambda>_. SendErr)))) 0)"
  using local_if_vlan_invariant [of "a_host (\<lambda>_. SendErr)" 0 0 5]
  by (simp add: a_host_def vlan_wf_def zero_LocalInterface_def rb_sorted_def)

text \<open>
  Looking up VLANs after adding one: the added VLAN is there and is not marked as removed,
  every other VLAN of the interface and every VLAN of other interfaces is as before. When there
  is no memory the call reports the error and no interface changes.
\<close>

lemma local_if_add_vlan_lookup:
  "case local_if_add_vlan p vid s of (rc, s') \<Rightarrow>
     (rc = MCLAG_ERROR \<and> sys_lif_heap s' = sys_lif_heap s \<and> \<not> env_malloc s (env_n_malloc s)) \<or>
     (rc = 0 \<and>
      (\<exists>v. vlan_find vid (lif_vlan_tree (lif_of s' p)) = Some v \<and> vl_removed v = 0) \<and>
      (\<forall>k q. k \<noteq> vid \<or> q \<noteq> p \<longrightarrow>
         vlan_find k (lif_vlan_tree (lif_of s' q)) = vlan_find k (lif_vlan_tree (lif_of s q))))"
proof -
  obtain rc s' where add: "local_if_add_vlan p vid s = (rc, s')" by fastforce
  show ?thesis
  proof (cases "rc = 0")
    case True
    with add local_if_add_vlan_find show ?thesis by simp
  next
    case False
    with add local_if_add_vlan_cases [OF add] show ?thesis
      by (auto simp: local_if_add_vlan_def Let_def case_prod_beta split: option.splits if_splits)
  qed
qed

text \<open>
  Memberships that arrived before their interface are not lost: when the interface appears
  and there is memory, every VLAN that was waiting for it is on it, the VLANs it already had
  stay, and the waiting entry is gone.
\<close>

lemma move_pending_vlan_mbr_complete:
  assumes "\<forall>n. env_malloc s n"
    and "find_pending_vlan_mbr_if (lif_name (lif_of s p)) s = Some e"
  shows "let s' = move_pending_vlan_mbr_to_lif p s
    in (\<forall>v \<in> set (pend_vlan_tree e). vlan_find (vl_vid v) (lif_vlan_tree (lif_of s' p)) \<noteq> None) \<and>
       (\<forall>k. vlan_find k (lif_vlan_tree (lif_of s p)) \<noteq> None \<longrightarrow>
            vlan_find k (lif_vlan_tree (lif_of s' p)) \<noteq> None) \<and>
       sys_pending_vlan_mbr_if_list s' = remove1 e (sys_pending_vlan_mbr_if_list s)"
  using add_all_vlans [OF assms(1), of p "pend_vlan_tree e"] assms(2)
  by (simp add: move_pending_vlan_mbr_to_lif_def Let_def)

text \<open>
  The sweep over the VLANs of a peer interface, which removes each stale node one iteration
  late, removes exactly the nodes that are marked.
\<close>

lemma peer_if_clean_unused_vlan_filter:
  assumes "rb_sorted vlan_node_compare (pif_vlan_tree pif)"
  shows "peer_if_clean_unused_vlan pif =
    pif\<lparr>pif_vlan_tree := filter (\<lambda>v. vl_removed v \<noteq> 1) (pif_vlan_tree pif)\<rparr>"
  using clean_unused_fold [of "[]" None "pif_vlan_tree pif"]
    vlan_order.sorted_distinct [OF assms]
  by (auto simp: peer_if_clean_unused_vlan_def split: prod.splits option.splits)

text \<open>
  Binding an interface to a session, when no port channel belongs to another session,
  keeps the lists of the sessions and the session pointers of the interfaces in step, and the
  interface ends up in that session.
\<close>

lemma mlacp_bind_local_if_bound:
  assumes "bound_inv s"
    and "\<forall>q \<in> set (sys_lif_list s). lif_type (lif_of s q) = IF_T_PORT_CHANNEL \<longrightarrow>
      lif_csm (lif_of s q) = None \<or> lif_csm (lif_of s q) = Some c"
  shows "bound_inv (snd (mlacp_bind_local_if c p s)) \<and>
    lif_csm (lif_of (snd (mlacp_bind_local_if c p s)) p) = Some c"
proof (cases "lif_csm (lif_of s p) = Some c")
  case True
  with assms(1) show ?thesis by (simp add: mlacp_bind_local_if_def)
next
  case False
  let ?s4 = "bind_joined c p s"
  have inv: "bound_inv ?s4" using assms(1) by (rule bind_joined_inv)
  have po: "q \<noteq> p \<and> bound_inv (upd_lif q (\<lambda>l. l\<lparr>lif_csm := Some c, lif_port_config_sync := 1\<rparr>)
      (upd_csm c (upd_lif_list (\<lambda>ps. q # ps)) ?s4))"
    if "local_if_find_by_po_id i ?s4 = Some q" "lif_type (lif_of s p) \<noteq> IF_T_PORT_CHANNEL"
      "find (\<lambda>q. lif_type (lif_of ?s4 q) = IF_T_PORT_CHANNEL \<and> lif_po_id (lif_of ?s4 q) = i)
        (ml_lif_list (MLACP (csm_of ?s4 c))) = None" for i q
  proof -
    have q: "q \<in> set (sys_lif_list s)" "lif_type (lif_of s q) = IF_T_PORT_CHANNEL" "q \<noteq> p"
        "lif_po_id (lif_of ?s4 q) = i"
      using that(1,2) by (auto simp: local_if_find_by_po_id_def dest!: find_SomeD)
    then have "q \<notin> set (ml_lif_list (MLACP (csm_of ?s4 c)))"
      using that(3) by (auto simp: find_None_iff)
    with inv have "lif_csm (lif_of ?s4 q) \<noteq> Some c" by (simp add: bound_inv_def)
    with assms(2) q have "lif_csm (lif_of ?s4 q) = None" by auto
    with q(3) show ?thesis by (auto intro: bound_inv_join [OF inv])
  qed
  show ?thesis
    using inv po bound_inv_addr_only [OF inv addr_only_update_if]
      addr_only_fields(5) [OF addr_only_update_if]
    by (auto simp: mlacp_bind_local_if_unfold [OF assms(1) False] Let_def
        split: option.split)
qed

text \<open>
  Moving a physical port from one session to another does not work: leaving the old session
  erases the number of the port channel the port belongs to, so the call fails although the port
  itself was moved, and the port has lost its port channel.
\<close>

lemma mlacp_bind_local_if_moved_port:
  assumes "bound_inv s" "lif_csm (lif_of s p) = Some c'" "c' \<noteq> c"
    and "lif_type (lif_of s p) = IF_T_PORT"
    and "\<forall>q. lif_type (lif_of s q) = IF_T_PORT_CHANNEL \<longrightarrow> lif_po_id (lif_of s q) \<noteq> -1"
  shows "case mlacp_bind_local_if c p s of (rc, s') \<Rightarrow>
    rc = MCLAG_ERROR \<and> lif_csm (lif_of s' p) = Some c \<and> lif_po_id (lif_of s' p) = -1"
proof -
  let ?s4 = "bind_joined c p s"
  have po_id: "lif_po_id (lif_of ?s4 p) = -1"
    using assms(2,4) by (simp add: bind_joined_def mlacp_unbind_local_if_def Let_def)
  have type: "IF_T_PORT \<noteq> IF_T_PORT_CHANNEL" by (simp add: const_defs)
  have no_po: "\<not> (lif_type (lif_of ?s4 q) = IF_T_PORT_CHANNEL \<and> lif_po_id (lif_of ?s4 q) = -1)" for q
    using assms(4,5) type by (cases "q = p") auto
  then have "local_if_find_by_po_id (-1) ?s4 = None"
    "find (\<lambda>q. lif_type (lif_of ?s4 q) = IF_T_PORT_CHANNEL \<and> lif_po_id (lif_of ?s4 q) = -1)
       (ml_lif_list (MLACP (csm_of ?s4 c))) = None"
    unfolding local_if_find_by_po_id_def find_None_iff by blast+
  with po_id assms(2,3,4) type show ?thesis
    by (simp add: mlacp_bind_local_if_unfold [OF assms(1)] Let_def del: bind_joined_frame(2))
      (simp)
qed

text \<open>
  A routed port channel of a standby session takes the address of the active node and gives
  it back: after the update its layer-3 address is the remote system id, and after the recovery
  its layer-3 address and its hardware address are the node's own. On any other role neither
  operation does anything.
\<close>

lemma standby_address_takeover:
  assumes "lif_csm (lif_of s p) = Some c" "lif_type (lif_of s p) = IF_T_PORT_CHANNEL"
    and "local_if_is_l3_mode (lif_of s p)"
    and "length (lif_mac_addr (lif_of s p)) = 6" "length (lif_l3_mac_addr (lif_of s p)) = 6"
    and "own = ml_system_id (MLACP (csm_of s c))" "length own = 6"
    and "remote = rs_system_id (ml_remote_system (MLACP (csm_of s c)))" "length remote = 6"
      "remote \<noteq> null_mac"
  shows "let s1 = update_if_ipmac_on_standby p s; s2 = recover_if_ipmac_on_standby p s1
    in if csm_role_type (csm_of s c) = STP_ROLE_STANDBY
       then lif_l3_mac_addr (lif_of s1 p) = remote \<and>
            lif_l3_mac_addr (lif_of s2 p) = own \<and> lif_mac_addr (lif_of s2 p) = own
       else s1 = s \<and> s2 = s"
proof (cases "csm_role_type (csm_of s c) = STP_ROLE_STANDBY")
  case False
  with assms(1,2) show ?thesis
    by (simp add: update_if_ipmac_on_standby_def recover_if_ipmac_on_standby_def)
next
  case True
  let ?s1 = "update_if_ipmac_on_standby p s"
  have remote: "memcmp remote null_mac \<noteq> 0"
    using assms(9,10) by (simp add: memcmp_eq_0)
  have l3: "lif_l3_mac_addr (lif_of ?s1 p) = remote"
    and mac: "lif_mac_addr (lif_of ?s1 p) = lif_mac_addr (lif_of s p)"
    using assms True remote
    by (auto simp: update_if_ipmac_on_standby_def Let_def memcmp_eq_0)
  have csm: "sys_csm_heap ?s1 = sys_csm_heap s"
    using addr_only_update_if [of s p] by (simp add: addr_only_def)
  have "lif_csm (lif_of ?s1 p) = Some c" "lif_type (lif_of ?s1 p) = IF_T_PORT_CHANNEL"
    "local_if_is_l3_mode (lif_of ?s1 p)"
    using addr_only_fields [OF addr_only_update_if, of p s p] assms(1-3) by auto
  then have "lif_l3_mac_addr (lif_of (recover_if_ipmac_on_standby p ?s1) p) = own \<and>
      lif_mac_addr (lif_of (recover_if_ipmac_on_standby p ?s1) p) = own"
    using assms(4,6,7) True mac csm
    by (auto simp: recover_if_ipmac_on_standby_def Let_def memcmp_eq_0)
  with l3 True show ?thesis by simp
qed

end
