(* ===== verification/Iccp_Csm.thy ===== *)
theory Iccp_Csm
  imports Iccp_Port
begin

text \<open>
  The connection state machine's messages (\<open>iccp_csm.c\<close>) and the application layer above it
  (\<open>app_csm.c\<close>): preparing the connection messages, sending with the log of the last 128 messages,
  queueing received messages, and what a received message does to the session.

  A received message is the byte list the receive routine allocated. Reading a structure needs
  the whole structure to lie within the message; an operation that reads past the end of the
  message has no defined result, which is \<open>None\<close>.
\<close>

section \<open>Counters\<close>

text \<open>\<open>mlacp_fsm_iccp_to_dbg_msg_type\<close>; 29 is \<open>ICCP_DBG_CNTR_MSG_MAX\<close>.\<close>

definition mlacp_fsm_iccp_to_dbg_msg_type :: "u16 \<Rightarrow> nat" where
  "mlacp_fsm_iccp_to_dbg_msg_type ty =
     (if ty = TLV_T_MLACP_SYSTEM_CONFIG then 0
      else if ty = TLV_T_MLACP_AGGREGATOR_CONFIG then 1
      else if ty = TLV_T_MLACP_AGGREGATOR_STATE then 2
      else if ty = TLV_T_MLACP_SYNC_REQUEST then 11
      else if ty = TLV_T_MLACP_SYNC_DATA then 10
      else if ty = TLV_T_MLACP_HEARTBEAT then 8
      else if ty = TLV_T_MLACP_PORT_CHANNEL_INFO then 6
      else if ty = TLV_T_MLACP_PEERLINK_INFO then 7
      else if ty = TLV_T_MLACP_ARP_INFO then 4
      else if ty = TLV_T_MLACP_MAC_INFO then 3
      else if ty = TLV_T_MLACP_WARMBOOT_FLAG then 12
      else if ty = TLV_T_MLACP_IF_UP_ACK then 13
      else 29)"

abbreviation (input) DIR_TX :: nat where "DIR_TX \<equiv> 0"
abbreviation (input) DIR_RX :: nat where "DIR_RX \<equiv> 1"

definition count_iccp :: "nat \<Rightarrow> u16 \<Rightarrow> nat \<Rightarrow> CSM \<Rightarrow> CSM" where
  "count_iccp dir ty sts csm =
     (let d = mlacp_fsm_iccp_to_dbg_msg_type ty
      in if d < 29 \<and> sts < 2
         then upd_mlacp (\<lambda>m. m\<lparr>ml_dbg_counters :=
                (\<lambda>a b e. if a = d \<and> b = dir \<and> e = sts then ml_dbg_counters m a b e + 1
                         else ml_dbg_counters m a b e)\<rparr>) csm
         else csm)"

definition MLACP_SET_ICCP_TX_DBG_COUNTER :: "u16 \<Rightarrow> nat \<Rightarrow> CSM \<Rightarrow> CSM" where
  "MLACP_SET_ICCP_TX_DBG_COUNTER ty sts csm = count_iccp DIR_TX ty sts csm"

definition MLACP_SET_ICCP_RX_DBG_COUNTER :: "u16 \<Rightarrow> nat \<Rightarrow> CSM \<Rightarrow> CSM" where
  "MLACP_SET_ICCP_RX_DBG_COUNTER ty sts csm = count_iccp DIR_RX ty sts csm"

section \<open>Sending\<close>

text \<open>One entry of the message log; the index wraps at 128.\<close>

definition log_append :: "MsgTypeSet \<Rightarrow> MsgLog \<Rightarrow> MsgLog" where
  "log_append e l =
     (let i = log_end_index l
      in \<lparr>log_msg = (log_msg l)[unat i := e],
          log_end_index = (if 128 \<le> i + 1 then 0 else i + 1)\<rparr>)"

text \<open>
  \<open>iccp_csm_send\<close>: the buffer is 64 KiB, so the headers are always inside it and the last case of
  the definition is never taken.
\<close>

definition iccp_csm_send :: "csm_ptr \<Rightarrow> bytes \<Rightarrow> int \<Rightarrow> System \<Rightarrow> int \<times> System" where
  "iccp_csm_send c buf msg_len s =
     (if csm_sock_fd (csm_of s c) \<le> 0 \<or> msg_len \<le> 0 then (MCLAG_ERROR, s)
      else
        let hdrs = buf_take 24 buf
        in case de_LDPHdr hdrs of
             Some (ldp, _) \<Rightarrow>
               (case de_ICCParameter (drop (if htons (ucast (ldp_msg_type ldp)) = MSG_T_CAPABILITY
                                            then 8 else 16) hdrs) of
                  Some (param, _) \<Rightarrow>
                    let tlv = ntohs (ucast (par_type param));
                        s1 = upd_csm c (\<lambda>m. m\<lparr>csm_msg_log := log_append
                               \<lparr>mts_msg_id = ntohl (ldp_msg_id ldp),
                                mts_type = ntohs (ucast (ldp_msg_type ldp)), mts_tlv = tlv\<rparr>
                               (csm_msg_log m)\<rparr>) s;
                        rc = env_write s1 (length (peer_tx s1)) (nat msg_len);
                        s2 = s1\<lparr>peer_tx := peer_tx s1 @
                               [(csm_sock_fd (csm_of s c), buf_take (nat msg_len) buf, rc)]\<rparr>
                    in (rc, upd_csm c (MLACP_SET_ICCP_TX_DBG_COUNTER tlv
                              (if rc \<le> 0 \<or> rc \<noteq> msg_len then STS_ERR else STS_OK)) s2)
                | None \<Rightarrow> (MCLAG_ERROR, s))
           | None \<Rightarrow> (MCLAG_ERROR, s))"

section \<open>Preparing the connection messages\<close>

text \<open>\<open>ICCP_MSG_ID++\<close>\<close>

definition next_msg_id :: "System \<Rightarrow> u32 \<times> System" where
  "next_msg_id s = (sys_ICCP_MSG_ID s, s\<lparr>sys_ICCP_MSG_ID := sys_ICCP_MSG_ID s + 1\<rparr>)"

definition ldp_header :: "u16 \<Rightarrow> nat \<Rightarrow> u32 \<Rightarrow> LDPHdr" where
  "ldp_header ty msg_len msg_id =
     \<lparr>ldp_u_bit = 0, ldp_msg_type = ucast (htons ty),
      ldp_msg_len = htons (word_of_nat (msg_len - MSG_L_INCLUD_U_BIT_MSG_T_L_FIELDS)),
      ldp_msg_id = htonl msg_id\<rparr>"

definition iccp_csm_fill_icc_rg_id_tlv :: "CSM \<Rightarrow> ICCRGIDTLV" where
  "iccp_csm_fill_icc_rg_id_tlv csm =
     \<lparr>rg_type = htons TLV_T_ICC_RG_ID, rg_len = htons TLV_L_ICC_RG_ID,
      rg_icc_rg_id = htonl (inf_icc_rg_id (csm_iccp_info csm))\<rparr>"

definition icc_header :: "CSM \<Rightarrow> u16 \<Rightarrow> nat \<Rightarrow> u32 \<Rightarrow> ICCHdr" where
  "icc_header csm ty msg_len msg_id =
     \<lparr>icc_ldp_hdr = ldp_header ty msg_len msg_id,
      icc_rg_id_tlv = iccp_csm_fill_icc_rg_id_tlv csm\<rparr>"

definition icc_param :: "u16 \<Rightarrow> nat \<Rightarrow> ICCParameter" where
  "icc_param ty len = \<lparr>par_u_bit = 0, par_f_bit = 0, par_type = ucast (htons ty),
     par_len = htons (word_of_nat len)\<rparr>"

text \<open>The first 16-bit word of a parameter, and the parameter with that word swapped in place.\<close>

definition par_word :: "ICCParameter \<Rightarrow> u16" where
  "par_word p = ucast (par_type p) OR push_bit 14 (ucast (par_f_bit p))
     OR push_bit 15 (ucast (par_u_bit p))"

definition iccp_csm_prepare_capability_msg :: "csm_ptr \<Rightarrow> System \<Rightarrow> bytes \<times> System" where
  "iccp_csm_prepare_capability_msg c s =
     (let (msg_id, s') = next_msg_id s;
          param = \<lparr>par_u_bit = 1, par_f_bit = 0, par_type = ucast TLV_T_ICCP_CAPABILITY,
                   par_len = 0\<rparr>;
          cap = \<lparr>cap_icc_parameter = param,
                 cap_s_bit = inf_sender_capability_flag (csm_iccp_info (csm_of s c)),
                 cap_reserved = 0, cap_major_ver = 1, cap_minior_ver = 0\<rparr>
      in (ser_LDPHdr (ldp_header MSG_T_CAPABILITY 16 msg_id)
          @ le16 (htons (par_word param)) @ le16 (htons TLV_L_ICCP_CAPABILITY)
          @ le16 (htons (cap_word cap)) @ [cap_major_ver cap] @ [cap_minior_ver cap], s'))"

definition iccp_csm_prepare_nak_msg :: "csm_ptr \<Rightarrow> System \<Rightarrow> bytes \<times> System" where
  "iccp_csm_prepare_nak_msg c s =
     (let (msg_id, s') = next_msg_id s; info = csm_iccp_info (csm_of s c);
          known = (inf_status_code info = STATUS_CODE_U_ICCP_RG)
      in (ser_ICCHdr (icc_header (csm_of s c) MSG_T_NOTIFICATION 28 msg_id)
          @ ser_NAKTLV \<lparr>nak_icc_parameter = icc_param TLV_T_NAK 8,
              nak_iccp_status_code = (if known then htonl (inf_status_code info) else 0),
              nak_rejected_msg_id = (if known then htonl (inf_rejected_msg_id info) else 0)\<rparr>,
          s'))"

definition iccp_csm_prepare_rg_connect_msg :: "csm_ptr \<Rightarrow> System \<Rightarrow> bytes \<times> System" where
  "iccp_csm_prepare_rg_connect_msg c s =
     (let (msg_id, s') = next_msg_id s; name = inf_sender_name (csm_iccp_info (csm_of s c))
      in (ser_ICCHdr (icc_header (csm_of s c) MSG_T_RG_CONNECT (20 + length name) msg_id)
          @ ser_ICCParameter (icc_param TLV_T_ICC_SENDER_NAME (length name)) @ c_chars name, s'))"

definition iccp_csm_prepare_rg_disconnect_msg :: "csm_ptr \<Rightarrow> System \<Rightarrow> bytes \<times> System" where
  "iccp_csm_prepare_rg_disconnect_msg c s =
     (let (msg_id, s') = next_msg_id s
      in (ser_ICCHdr (icc_header (csm_of s c) MSG_T_RG_DISCONNECT 24 msg_id)
          @ ser_DisconnectCodeTLV \<lparr>dis_icc_parameter = icc_param TLV_T_DISCONNECT_CODE 4,
              dis_iccp_status_code = htonl (inf_status_code (csm_iccp_info (csm_of s c)))\<rparr>, s'))"

definition app_csm_prepare_nak_msg :: "csm_ptr \<Rightarrow> System \<Rightarrow> bytes \<times> System" where
  "app_csm_prepare_nak_msg c s =
     (let (msg_id, s') = next_msg_id s
      in (ser_ICCHdr (icc_header (csm_of s c) MSG_T_NOTIFICATION 28 msg_id)
          @ ser_NAKTLV \<lparr>nak_icc_parameter = icc_param TLV_T_NAK 8,
              nak_iccp_status_code = htonl STATUS_CODE_ICCP_REJECTED_MSG,
              nak_rejected_msg_id = htonl (app_invalid_msg_id (csm_app_csm (csm_of s c)))\<rparr>, s'))"

text \<open>The length and the buffer; -1 when the state has nothing to send.\<close>

definition prepared :: "bytes \<times> System \<Rightarrow> int \<times> bytes \<times> System" where
  "prepared r = (int (length (fst r)), fst r, snd r)"

definition iccp_csm_prepare_iccp_msg :: "csm_ptr \<Rightarrow> System \<Rightarrow> int \<times> bytes \<times> System" where
  "iccp_csm_prepare_iccp_msg c s =
     (let info = csm_iccp_info (csm_of s c)
      in case csm_current_state (csm_of s c) of
           ICCP_NONEXISTENT \<Rightarrow> (-1, [], s)
         | ICCP_INITIALIZED \<Rightarrow> prepared (iccp_csm_prepare_capability_msg c s)
         | ICCP_CAPSENT \<Rightarrow> (-1, [], s)
         | ICCP_CAPREC \<Rightarrow>
             if 0 < inf_status_code info then prepared (iccp_csm_prepare_nak_msg c s)
             else prepared (iccp_csm_prepare_rg_connect_msg c s)
         | ICCP_CONNECTING \<Rightarrow>
             if 0 < inf_status_code info then prepared (iccp_csm_prepare_nak_msg c s)
             else (-1, [], s)
         | ICCP_OPERATIONAL \<Rightarrow>
             if inf_peer_rg_connect_flag info = 0
             then prepared (iccp_csm_prepare_rg_disconnect_msg c s) else (-1, [], s))"

section \<open>Queueing received messages\<close>

text \<open>The first log entry with the given message id.\<close>

definition log_lookup :: "u32 \<Rightarrow> CSM \<Rightarrow> MsgTypeSet option" where
  "log_lookup msg_id csm = find (\<lambda>e. msg_id = mts_msg_id e) (log_msg (csm_msg_log csm))"

definition mlacp_enqueue_msg :: "bytes \<Rightarrow> CSM \<Rightarrow> CSM" where
  "mlacp_enqueue_msg msg = upd_mlacp (\<lambda>m. m\<lparr>ml_msg_list := ml_msg_list m @ [msg]\<rparr>)"

definition mlacp_dequeue_msg :: "CSM \<Rightarrow> bytes option \<times> CSM" where
  "mlacp_dequeue_msg csm =
     (case ml_msg_list (MLACP csm) of [] \<Rightarrow> (None, csm)
      | m # ms \<Rightarrow> (Some m, upd_mlacp (\<lambda>l. l\<lparr>ml_msg_list := ms\<rparr>) csm))"

definition app_queue :: "bytes \<Rightarrow> CSM \<Rightarrow> CSM" where
  "app_queue msg = upd_app (\<lambda>a. a\<lparr>app_msg_list := app_msg_list a @ [msg]\<rparr>)"

definition app_csm_enqueue_msg :: "bytes \<Rightarrow> CSM \<Rightarrow> CSM option" where
  "app_csm_enqueue_msg msg csm = do {
     (icc, _) \<leftarrow> de_ICCHdr msg;
     m \<leftarrow> swap16_at 16 msg;
     (param, _) \<leftarrow> de_ICCParameter (drop 16 m);
     let ty = ucast (ldp_msg_type (icc_ldp_hdr icc));
     let tlv = ucast (par_type param);
     if ty = MSG_T_RG_APP_DATA then
       Some (if TLV_T_MLACP_CONNECT < tlv \<and> tlv < TLV_T_MLACP_LIST_END
             then mlacp_enqueue_msg m csm else app_queue m csm)
     else if ty = MSG_T_NOTIFICATION then do {
       (nak, _) \<leftarrow> de_NAKTLV (drop 16 m);
       Some (case log_lookup (ntohl (nak_rejected_msg_id nak)) csm of
               None \<Rightarrow> app_queue m csm
             | Some e \<Rightarrow> if TLV_T_MLACP_CONNECT < mts_tlv e \<and> mts_tlv e \<le> TLV_T_MLACP_MAC_INFO
                         then mlacp_enqueue_msg m csm else app_queue m csm) }
     else Some csm }"

definition app_csm_dequeue_msg :: "CSM \<Rightarrow> bytes option \<times> CSM" where
  "app_csm_dequeue_msg csm =
     (case app_msg_list (csm_app_csm csm) of [] \<Rightarrow> (None, csm)
      | m # ms \<Rightarrow> (Some m, upd_app (\<lambda>a. a\<lparr>app_msg_list := ms\<rparr>) csm))"

definition csm_queue :: "bytes \<Rightarrow> CSM \<Rightarrow> CSM" where
  "csm_queue msg csm = csm\<lparr>csm_msg_list := csm_msg_list csm @ [msg]\<rparr>"

definition iccp_csm_enqueue_msg :: "bytes \<Rightarrow> CSM \<Rightarrow> CSM option" where
  "iccp_csm_enqueue_msg msg csm = do {
     m \<leftarrow> swap16_at 0 msg;
     (ldp, _) \<leftarrow> de_LDPHdr m;
     let ty = ucast (ldp_msg_type ldp);
     if ty = MSG_T_RG_APP_DATA then app_csm_enqueue_msg m csm
     else if ty = MSG_T_NOTIFICATION then do {
       (nak, _) \<leftarrow> de_NAKTLV (drop 16 m);
       (case log_lookup (ntohl (nak_rejected_msg_id nak)) csm of
          None \<Rightarrow> Some (csm_queue m csm)
        | Some e \<Rightarrow> if mts_type e = MSG_T_RG_APP_DATA then app_csm_enqueue_msg m csm
                    else Some (csm_queue m csm)) }
     else Some (csm_queue m csm) }"

definition iccp_csm_dequeue_msg :: "CSM \<Rightarrow> bytes option \<times> CSM" where
  "iccp_csm_dequeue_msg csm =
     (case csm_msg_list csm of [] \<Rightarrow> (None, csm)
      | m # ms \<Rightarrow> (Some m, csm\<lparr>csm_msg_list := ms\<rparr>))"

text \<open>\<open>iccp_csm_init_msg\<close>: a copy of the first \<open>len\<close> bytes, if there is memory for it.\<close>

definition iccp_csm_init_msg :: "bytes \<Rightarrow> nat \<Rightarrow> System \<Rightarrow> bytes option \<times> System" where
  "iccp_csm_init_msg data len s =
     (if len = 0 then (None, s)
      else let (ok1, s1) = malloc s
           in if \<not> ok1 then (None, s1)
              else let (ok2, s2) = malloc s1
                   in if \<not> ok2 then (None, s2) else (Some (buf_take len data), s2))"

section \<open>Received connection messages\<close>

definition iccp_csm_check_id_from_msg :: "bytes \<Rightarrow> CSM \<Rightarrow> CSM option" where
  "iccp_csm_check_id_from_msg msg csm = do {
     (ldp, _) \<leftarrow> de_LDPHdr msg;
     if ucast (ldp_msg_type ldp) = MSG_T_CAPABILITY then Some csm
     else do {
       (icc, _) \<leftarrow> de_ICCHdr msg;
       let rg = ntohl (rg_icc_rg_id (icc_rg_id_tlv icc));
       Some (if rg = inf_icc_rg_id (csm_iccp_info csm)
             then (if inf_status_code (csm_iccp_info csm) = STATUS_CODE_U_ICCP_RG
                   then upd_info (\<lambda>i. i\<lparr>inf_status_code := 0, inf_rejected_msg_id := 0\<rparr>) csm
                   else csm)
             else upd_info (\<lambda>i. i\<lparr>inf_status_code := STATUS_CODE_U_ICCP_RG,
                                  inf_rejected_msg_id := rg\<rparr>) csm) }}"

definition iccp_csm_correspond_from_capability_msg :: "bytes \<Rightarrow> CSM \<Rightarrow> CSM option" where
  "iccp_csm_correspond_from_capability_msg msg csm = do {
     m \<leftarrow> swap16_at 8 msg;
     m \<leftarrow> swap16_at 12 m;
     (cap, _) \<leftarrow> de_LDPICCPCapabilityTLV (drop 8 m);
     let p = cap_icc_parameter cap;
     Some (if par_u_bit p = 1 \<and> par_f_bit p = 0 \<and> ucast (par_type p) = TLV_T_ICCP_CAPABILITY
              \<and> ntohs (par_len p) = TLV_L_ICCP_CAPABILITY \<and> cap_s_bit cap = 1
              \<and> cap_major_ver cap = 1 \<and> cap_minior_ver cap = 0
           then upd_info (\<lambda>i. i\<lparr>inf_peer_capability_flag := 1\<rparr>) csm else csm) }"

definition iccp_csm_correspond_from_rg_connect_msg :: "bytes \<Rightarrow> CSM \<Rightarrow> CSM option" where
  "iccp_csm_correspond_from_rg_connect_msg msg csm = do {
     m \<leftarrow> swap16_at 16 msg;
     (p, _) \<leftarrow> de_ICCParameter (drop 16 m);
     Some (if par_u_bit p = 0 \<and> par_f_bit p = 0 \<and> ucast (par_type p) = TLV_T_ICC_SENDER_NAME
           then upd_info (\<lambda>i. i\<lparr>inf_peer_rg_connect_flag := 1\<rparr>) csm else csm) }"

definition iccp_csm_correspond_from_rg_disconnect_msg :: "bytes \<Rightarrow> CSM \<Rightarrow> CSM option" where
  "iccp_csm_correspond_from_rg_disconnect_msg msg csm = do {
     m \<leftarrow> swap16_at 16 msg;
     (d, _) \<leftarrow> de_DisconnectCodeTLV (drop 16 m);
     let p = dis_icc_parameter d;
     Some (if par_u_bit p = 0 \<and> par_f_bit p = 0 \<and> ucast (par_type p) = TLV_T_DISCONNECT_CODE
              \<and> ntohs (par_len p) = TLV_L_DISCONNECT_CODE
              \<and> ntohl (dis_iccp_status_code d) = STATUS_CODE_ICCP_RG_REMOVED
           then upd_info (\<lambda>i. i\<lparr>inf_sender_rg_connect_flag := 0,
                                inf_peer_rg_connect_flag := 0\<rparr>) csm
           else csm) }"

text \<open>
  For a notification the function logs the status code found at \<open>icc_hdr + sizeof(ICCHdr)\<close>, which
  is 16 headers, or 256 bytes, past the beginning of the message, and the code 4 bytes further.
\<close>

definition iccp_csm_correspond_from_msg :: "bytes \<Rightarrow> CSM \<Rightarrow> CSM option" where
  "iccp_csm_correspond_from_msg msg csm = do {
     (ldp, _) \<leftarrow> de_LDPHdr msg;
     csm1 \<leftarrow> iccp_csm_check_id_from_msg msg csm;
     let ty = ucast (ldp_msg_type ldp);
     if ty = MSG_T_CAPABILITY then iccp_csm_correspond_from_capability_msg msg csm1
     else if ty = MSG_T_RG_CONNECT then iccp_csm_correspond_from_rg_connect_msg msg csm1
     else if ty = MSG_T_RG_DISCONNECT then iccp_csm_correspond_from_rg_disconnect_msg msg csm1
     else if ty = MSG_T_NOTIFICATION then
       (if 264 \<le> length msg then Some csm1 else None)
     else if ty = MSG_T_RG_APP_DATA then Some csm1
     else Some (csm1\<lparr>csm_u_msg_in_count := csm_u_msg_in_count csm1 + 1\<rparr>) }"

definition iccp_csm_enter_state :: "ICCP_CONNECTION_STATE \<Rightarrow> CSM \<Rightarrow> CSM" where
  "iccp_csm_enter_state st csm =
     (case st of
        ICCP_INITIALIZED \<Rightarrow> upd_info (\<lambda>i. i\<lparr>inf_sender_capability_flag := 1\<rparr>) csm
      | ICCP_CAPREC \<Rightarrow> upd_info (\<lambda>i. i\<lparr>inf_sender_capability_flag := 1,
                                       inf_peer_capability_flag := 1\<rparr>) csm
      | ICCP_CONNECTING \<Rightarrow> upd_info (\<lambda>i. i\<lparr>inf_sender_rg_connect_flag := 1\<rparr>) csm
      | ICCP_OPERATIONAL \<Rightarrow> upd_info (\<lambda>i. i\<lparr>inf_sender_rg_connect_flag := 1,
                                            inf_peer_rg_connect_flag := 1\<rparr>) csm
      | _ \<Rightarrow> csm)"

definition app_csm_transit :: "CSM \<Rightarrow> CSM" where
  "app_csm_transit csm =
     (if app_current_state (csm_app_csm csm) \<noteq> APP_NONEXISTENT \<and> csm_sock_fd csm \<le> 0
      then upd_app (\<lambda>a. a\<lparr>app_current_state := APP_NONEXISTENT\<rparr>) csm
      else if app_current_state (csm_app_csm csm) \<noteq> APP_OPERATIONAL
              \<and> csm_current_state csm = ICCP_OPERATIONAL
      then upd_app (\<lambda>a. a\<lparr>app_current_state := APP_OPERATIONAL\<rparr>) csm
      else csm)"

section \<open>From the sender to the receiver\<close>

text \<open>
  What a message does at the receiver: it is queued, and the state machine takes it from the
  queue and lets it act on the session.
\<close>

lemma swap16_at_0 [simp]: "swap16_at 0 (le16 w @ r) = Some (le16 (htons w) @ r)"
  by (simp add: swap16_at_def le16_def htons_def)

lemma swap16_at_le16:
  assumes "2 \<le> n"
  shows "swap16_at n (le16 w @ r) = map_option (\<lambda>x. le16 w @ x) (swap16_at (n - 2) r)"
proof -
  obtain k where "n = k + 2" using assms by (metis le_add_diff_inverse2)
  then show ?thesis by (simp add: swap16_at_def le16_def list_update_append)
qed

lemma swap16_at_le32:
  assumes "4 \<le> n"
  shows "swap16_at n (le32 w @ r) = map_option (\<lambda>x. le32 w @ x) (swap16_at (n - 4) r)"
proof -
  obtain k where "n = k + 4" using assms by (metis le_add_diff_inverse2)
  then show ?thesis by (simp add: swap16_at_def le32_def eval_nat_numeral)
qed

lemmas swap_simps = swap16_at_le16 swap16_at_le32

lemma htons_const [simp]:
  "htons MSG_T_CAPABILITY = 0x0202" "htons MSG_T_RG_CONNECT = 0x0007"
  "htons MSG_T_RG_DISCONNECT = 0x0107" "htons MSG_T_NOTIFICATION = 0x0207"
  "htons MSG_T_RG_APP_DATA = 0x0307"
  "htons TLV_T_ICC_SENDER_NAME = 0x0100" "htons TLV_T_NAK = 0x0200"
  "htons TLV_T_DISCONNECT_CODE = 0x0400"
  by (simp_all add: htons_def of_le16_def const_defs)

lemma msg_type_distinct [simp]:
  "MSG_T_CAPABILITY \<noteq> MSG_T_RG_CONNECT"
  "MSG_T_CAPABILITY \<noteq> MSG_T_RG_DISCONNECT"
  "MSG_T_CAPABILITY \<noteq> MSG_T_NOTIFICATION"
  "MSG_T_CAPABILITY \<noteq> MSG_T_RG_APP_DATA"
  "MSG_T_RG_CONNECT \<noteq> MSG_T_CAPABILITY"
  "MSG_T_RG_CONNECT \<noteq> MSG_T_RG_DISCONNECT"
  "MSG_T_RG_CONNECT \<noteq> MSG_T_NOTIFICATION"
  "MSG_T_RG_CONNECT \<noteq> MSG_T_RG_APP_DATA"
  "MSG_T_RG_DISCONNECT \<noteq> MSG_T_CAPABILITY"
  "MSG_T_RG_DISCONNECT \<noteq> MSG_T_RG_CONNECT"
  "MSG_T_RG_DISCONNECT \<noteq> MSG_T_NOTIFICATION"
  "MSG_T_RG_DISCONNECT \<noteq> MSG_T_RG_APP_DATA"
  "MSG_T_NOTIFICATION \<noteq> MSG_T_CAPABILITY"
  "MSG_T_NOTIFICATION \<noteq> MSG_T_RG_CONNECT"
  "MSG_T_NOTIFICATION \<noteq> MSG_T_RG_DISCONNECT"
  "MSG_T_NOTIFICATION \<noteq> MSG_T_RG_APP_DATA"
  "MSG_T_RG_APP_DATA \<noteq> MSG_T_CAPABILITY"
  "MSG_T_RG_APP_DATA \<noteq> MSG_T_RG_CONNECT"
  "MSG_T_RG_APP_DATA \<noteq> MSG_T_RG_DISCONNECT"
  "MSG_T_RG_APP_DATA \<noteq> MSG_T_NOTIFICATION"
  by (simp_all add: const_defs)

lemma msg_type_field [simp]:
  "(ucast (ucast MSG_T_CAPABILITY :: 15 word) :: u16) = MSG_T_CAPABILITY"
  "(ucast (ucast MSG_T_RG_CONNECT :: 15 word) :: u16) = MSG_T_RG_CONNECT"
  "(ucast (ucast MSG_T_RG_DISCONNECT :: 15 word) :: u16) = MSG_T_RG_DISCONNECT"
  "(ucast (ucast MSG_T_NOTIFICATION :: 15 word) :: u16) = MSG_T_NOTIFICATION"
  "(ucast (ucast MSG_T_RG_APP_DATA :: 15 word) :: u16) = MSG_T_RG_APP_DATA"
  by (simp_all add: const_defs)

definition deliver :: "bytes \<Rightarrow> CSM \<Rightarrow> CSM option" where
  "deliver msg csm = do {
     csm1 \<leftarrow> iccp_csm_enqueue_msg msg csm;
     (case iccp_csm_dequeue_msg csm1 of
        (None, csm2) \<Rightarrow> Some csm2
      | (Some m, csm2) \<Rightarrow> iccp_csm_correspond_from_msg m csm2) }"


text \<open>The header as the receiver keeps it, with the first word in host order.\<close>

definition host_header :: "u16 \<Rightarrow> nat \<Rightarrow> u32 \<Rightarrow> bytes" where
  "host_header ty len msg_id = le16 ty
     @ le16 (htons (word_of_nat (len - MSG_L_INCLUD_U_BIT_MSG_T_L_FIELDS))) @ le32 (htonl msg_id)"

definition plain_type :: "u16 \<Rightarrow> bool" where
  "plain_type ty \<longleftrightarrow> (ucast (ucast (htons ty) :: 15 word) :: u16) = htons ty"

lemma plain_types [simp]:
  "plain_type MSG_T_CAPABILITY" "plain_type MSG_T_RG_CONNECT" "plain_type MSG_T_RG_DISCONNECT"
  "plain_type MSG_T_NOTIFICATION" "plain_type MSG_T_RG_APP_DATA"
  by (simp_all add: plain_type_def)

lemma swap_header:
  "plain_type ty \<Longrightarrow>
   swap16_at 0 (ser_LDPHdr (ldp_header ty len msg_id) @ r) = Some (host_header ty len msg_id @ r)"
  by (simp add: ser_LDPHdr_def ldp_header_def host_header_def plain_type_def)

lemma de_host_header [simp]:
  "de_LDPHdr (host_header ty len msg_id @ r) =
     Some (\<lparr>ldp_u_bit = ucast (drop_bit 15 ty), ldp_msg_type = ucast ty,
       ldp_msg_len = htons (word_of_nat (len - MSG_L_INCLUD_U_BIT_MSG_T_L_FIELDS)),
       ldp_msg_id = htonl msg_id\<rparr>, r)"
  by (simp add: de_LDPHdr_def host_header_def)

lemma length_host_header [simp]: "length (host_header ty len msg_id) = 8"
  by (simp add: host_header_def)

lemma swap_behind_header:
  "8 \<le> n \<Longrightarrow> swap16_at n (host_header ty len msg_id @ r) =
     map_option (\<lambda>x. host_header ty len msg_id @ x) (swap16_at (n - 8) r)"
  by (simp add: host_header_def swap_simps option.map_comp comp_def)

lemma deliver_direct:
  assumes "csm_msg_list B = []" "plain_type ty"
    "ty = MSG_T_CAPABILITY \<or> ty = MSG_T_RG_CONNECT \<or> ty = MSG_T_RG_DISCONNECT"
  shows "deliver (ser_LDPHdr (ldp_header ty len msg_id) @ r) B =
    iccp_csm_correspond_from_msg (host_header ty len msg_id @ r) B"
proof -
  have same: "B\<lparr>csm_msg_list := []\<rparr> = B" using assms(1) by (cases B) simp
  from assms(1,3) show ?thesis
    by (auto simp: same deliver_def iccp_csm_enqueue_msg_def swap_header assms(2) csm_queue_def
        iccp_csm_dequeue_msg_def const_defs)
qed

lemma cap_word_fields [simp]:
  "ucast (cap_word t) = cap_reserved t" "ucast (drop_bit 15 (cap_word t)) = cap_s_bit t"
  unfolding cap_word_def
  by (rule bit_word_eqI; auto simp: bit_simps dest: bit_imp_le_length)+

lemma par_word_fields [simp]:
  "ucast (par_word p) = par_type p" "ucast (drop_bit 14 (par_word p)) = par_f_bit p"
  "ucast (drop_bit 15 (par_word p)) = par_u_bit p"
  unfolding par_word_def
  by (rule bit_word_eqI; auto simp: bit_simps dest: bit_imp_le_length)+

text \<open>What the id check makes of the session when the peer's group is \<open>rg\<close>.\<close>

definition rg_checked :: "u32 \<Rightarrow> CSM \<Rightarrow> CSM" where
  "rg_checked rg B =
     (if rg = inf_icc_rg_id (csm_iccp_info B)
      then (if inf_status_code (csm_iccp_info B) = STATUS_CODE_U_ICCP_RG
            then upd_info (\<lambda>i. i\<lparr>inf_status_code := 0, inf_rejected_msg_id := 0\<rparr>) B else B)
      else upd_info (\<lambda>i. i\<lparr>inf_status_code := STATUS_CODE_U_ICCP_RG, inf_rejected_msg_id := rg\<rparr>) B)"

lemma check_id_host_header:
  assumes "ty \<noteq> MSG_T_CAPABILITY" "(ucast (ucast ty :: 15 word) :: u16) = ty"
  shows "iccp_csm_check_id_from_msg
      (host_header ty len msg_id @ ser_ICCRGIDTLV (iccp_csm_fill_icc_rg_id_tlv A) @ r) B =
    Some (rg_checked (inf_icc_rg_id (csm_iccp_info A)) B)"
  using assms
  by (simp add: iccp_csm_check_id_from_msg_def de_ICCHdr_def wire_simps
      iccp_csm_fill_icc_rg_id_tlv_def rg_checked_def)

lemma swap_behind_rg:
  "8 \<le> n \<Longrightarrow> swap16_at n (ser_ICCRGIDTLV t @ r) =
     map_option (\<lambda>x. ser_ICCRGIDTLV t @ x) (swap16_at (n - 8) r)"
  by (simp add: ser_ICCRGIDTLV_def swap_simps option.map_comp comp_def)

lemma swap_param:
  assumes "(ucast (ucast (htons ty) :: 14 word) :: u16) = htons ty"
  shows "swap16_at 0 (ser_ICCParameter (icc_param ty len) @ r) =
    Some (le16 ty @ le16 (htons (word_of_nat len)) @ r)"
  using assms by (simp add: ser_ICCParameter_def icc_param_def)

lemma de_host_param [simp]:
  "de_ICCParameter (le16 ty @ le16 l @ r) =
     Some (\<lparr>par_u_bit = ucast (drop_bit 15 ty), par_f_bit = ucast (drop_bit 14 ty),
       par_type = ucast ty, par_len = l\<rparr>, r)"
  by (simp add: de_ICCParameter_def)

text \<open>The notification messages of both layers, as received.\<close>

lemma swap_icc_header:
  "plain_type ty \<Longrightarrow> swap16_at 0 (ser_ICCHdr (icc_header A ty len msg_id) @ r) =
     Some (host_header ty len msg_id @ ser_ICCRGIDTLV (iccp_csm_fill_icc_rg_id_tlv A) @ r)"
  by (simp add: ser_ICCHdr_def icc_header_def swap_header)

lemma enqueue_nak:
  assumes "msg = ser_ICCHdr (icc_header A MSG_T_NOTIFICATION 28 msg_id) @
      ser_NAKTLV \<lparr>nak_icc_parameter = icc_param TLV_T_NAK 8, nak_iccp_status_code = code,
        nak_rejected_msg_id = htonl rejected\<rparr>"
    and "m = host_header MSG_T_NOTIFICATION 28 msg_id @
      ser_ICCRGIDTLV (iccp_csm_fill_icc_rg_id_tlv A) @
      ser_NAKTLV \<lparr>nak_icc_parameter = icc_param TLV_T_NAK 8, nak_iccp_status_code = code,
        nak_rejected_msg_id = htonl rejected\<rparr>"
  shows "iccp_csm_enqueue_msg msg B =
    (case log_lookup rejected B of
       None \<Rightarrow> Some (csm_queue m B)
     | Some e \<Rightarrow> if mts_type e = MSG_T_RG_APP_DATA then app_csm_enqueue_msg m B
                 else Some (csm_queue m B))"
  unfolding assms using NAKTLV_codec.de_ser_exact
  by (simp add: iccp_csm_enqueue_msg_def swap_icc_header wire_simps)

section \<open>The message log\<close>

definition ring_ok :: "MsgLog \<Rightarrow> bool" where
  "ring_ok l \<longleftrightarrow> length (log_msg l) = 128 \<and> log_end_index l < 128"

lemma log_append_index:
  assumes "ring_ok l"
  shows "unat (log_end_index (log_append e l)) = Suc (unat (log_end_index l)) mod 128"
proof -
  have lt: "unat (log_end_index l) < 128"
    using assms by (simp add: ring_ok_def word_less_nat_alt)
  then have "unat (log_end_index l + 1) = Suc (unat (log_end_index l))"
    by (subst unat_add_lem [THEN iffD1]) simp_all
  then show ?thesis
    using lt by (auto simp: log_append_def Let_def word_le_nat_alt mod_Suc split: if_splits)
qed

lemma ring_ok_append: "ring_ok l \<Longrightarrow> ring_ok (log_append e l)"
  using log_append_index [of l e]
  by (auto simp: ring_ok_def word_less_nat_alt) (simp add: log_append_def Let_def)

lemma ring_ok_foldl: "ring_ok l \<Longrightarrow> ring_ok (foldl (\<lambda>l e. log_append e l) l es)"
  by (rule foldl_invariant) (auto intro: ring_ok_append)

lemma log_append_msg: "log_msg (log_append e l) = (log_msg l)[unat (log_end_index l) := e]"
  by (simp add: log_append_def Let_def)

lemma ring_index:
  "ring_ok l \<Longrightarrow> unat (log_end_index (foldl (\<lambda>l e. log_append e l) l es)) =
     (unat (log_end_index l) + length es) mod 128"
proof (induction es rule: rev_induct)
  case Nil
  then show ?case by (simp add: ring_ok_def word_less_nat_alt)
next
  case (snoc e es)
  then show ?case
    by (simp add: log_append_index ring_ok_foldl mod_Suc_eq)
qed

lemma ring_position:
  assumes "ring_ok l" "length es \<le> 128" "j < length es"
  shows "log_msg (foldl (\<lambda>l e. log_append e l) l es) ! ((unat (log_end_index l) + j) mod 128) = es ! j"
  using assms(2,3)
proof (induction es rule: rev_induct)
  case (snoc e es)
  let ?l = "foldl (\<lambda>l e. log_append e l) l es" and ?i = "unat (log_end_index l)"
  have len: "length (log_msg ?l) = 128"
    using ring_ok_foldl [OF assms(1)] by (simp add: ring_ok_def)
  show ?case
  proof (cases "j = length es")
    case True
    then show ?thesis
      using len by (simp add: log_append_msg ring_index [OF assms(1)] nth_append)
  next
    case False
    with snoc.prems have j: "j < length es" "length es < 128" by auto
    have "(?i + j) mod 128 \<noteq> (?i + length es) mod 128"
    proof
      assume "(?i + j) mod 128 = (?i + length es) mod 128"
      then have "128 dvd (?i + length es) - (?i + j)"
        using j by (metis add_le_cancel_left less_imp_le_nat mod_eq_dvd_iff_nat)
      then have "128 dvd length es - j" by simp
      with j show False by (meson dvd_imp_le less_imp_diff_less not_less zero_less_diff)
    qed
    with snoc j show ?thesis
      using len by (simp add: log_append_msg ring_index [OF assms(1)] nth_append)
  qed
qed simp

lemma ring_keeps_last:
  assumes "ring_ok l" "length es \<le> 128"
  shows "set es \<subseteq> set (log_msg (foldl (\<lambda>l e. log_append e l) l es))"
proof
  fix e assume "e \<in> set es"
  then obtain j where j: "j < length es" "es ! j = e" by (metis in_set_conv_nth)
  have "length (log_msg (foldl (\<lambda>l e. log_append e l) l es)) = 128"
    using ring_ok_foldl [OF assms(1)] by (simp add: ring_ok_def)
  then show "e \<in> set (log_msg (foldl (\<lambda>l e. log_append e l) l es))"
    using ring_position [OF assms j(1)] j(2)
    by (metis mod_less_divisor nth_mem zero_less_numeral)
qed

lemma tlv_nak_field [simp]: "(ucast (ucast (htons TLV_T_NAK) :: 14 word) :: u16) = htons TLV_T_NAK"
  by simp

lemma app_enqueue_nak:
  assumes "m = host_header MSG_T_NOTIFICATION 28 msg_id @
      ser_ICCRGIDTLV (iccp_csm_fill_icc_rg_id_tlv A) @
      ser_NAKTLV \<lparr>nak_icc_parameter = icc_param TLV_T_NAK 8, nak_iccp_status_code = code,
        nak_rejected_msg_id = htonl rejected\<rparr>"
    and "m' = host_header MSG_T_NOTIFICATION 28 msg_id @
      ser_ICCRGIDTLV (iccp_csm_fill_icc_rg_id_tlv A) @
      le16 TLV_T_NAK @ le16 (htons 8) @ le32 code @ le32 (htonl rejected)"
  shows "app_csm_enqueue_msg m B =
    (case log_lookup rejected B of
       None \<Rightarrow> Some (app_queue m' B)
     | Some e \<Rightarrow> Some (if TLV_T_MLACP_CONNECT < mts_tlv e \<and> mts_tlv e \<le> TLV_T_MLACP_MAC_INFO
                       then mlacp_enqueue_msg m' B else app_queue m' B))"
  unfolding assms using de_le32_ser [of _ "[]"]
  by (simp add: app_csm_enqueue_msg_def de_ICCHdr_def wire_simps ser_NAKTLV_def swap_behind_header
      swap_behind_rg swap_param de_NAKTLV_def split: option.split)

section \<open>Properties\<close>

text \<open>
  A capability message, prepared on one node and received on the other, sets the peer's
  capability flag exactly when the sender announced the capability, and changes nothing else.
\<close>

lemma capability_exchange:
  assumes "csm_msg_list B = []"
  shows "deliver (fst (iccp_csm_prepare_capability_msg c s)) B =
    Some (if inf_sender_capability_flag (csm_iccp_info (csm_of s c)) = 1
          then upd_info (\<lambda>i. i\<lparr>inf_peer_capability_flag := 1\<rparr>) B else B)"
proof -
  let ?flag = "inf_sender_capability_flag (csm_iccp_info (csm_of s c))"
  let ?param = "\<lparr>par_u_bit = 1, par_f_bit = 0, par_type = ucast TLV_T_ICCP_CAPABILITY, par_len = 0\<rparr>"
  let ?cap = "\<lparr>cap_icc_parameter = ?param, cap_s_bit = ?flag, cap_reserved = 0,
      cap_major_ver = 1, cap_minior_ver = 0\<rparr>"
  have "deliver (fst (iccp_csm_prepare_capability_msg c s)) B =
      iccp_csm_correspond_from_msg (host_header MSG_T_CAPABILITY 16 (sys_ICCP_MSG_ID s) @
        le16 (htons (par_word ?param)) @ le16 (htons TLV_L_ICCP_CAPABILITY) @
        le16 (htons (cap_word ?cap)) @ [1] @ [0]) B"
    by (simp add: iccp_csm_prepare_capability_msg_def next_msg_id_def Let_def deliver_direct assms)
  also have "\<dots> = Some (if ?flag = 1 then upd_info (\<lambda>i. i\<lparr>inf_peer_capability_flag := 1\<rparr>) B else B)"
    by (simp add: iccp_csm_correspond_from_msg_def iccp_csm_check_id_from_msg_def
      iccp_csm_correspond_from_capability_msg_def swap_behind_header swap_simps
      de_LDPICCPCapabilityTLV_def de_ICCParameter_def const_defs)
  finally show ?thesis .
qed

text \<open>
  A connect message records that the peer has connected. When the peer is in the same
  redundancy group an earlier complaint about its group is withdrawn; when it is not, the
  complaint is recorded, and the id it will be rejected with is the group id of the message.
\<close>

lemma rg_connect_exchange:
  assumes "csm_msg_list B = []"
  shows "deliver (fst (iccp_csm_prepare_rg_connect_msg c s)) B =
    Some (upd_info (\<lambda>i. i\<lparr>inf_peer_rg_connect_flag := 1\<rparr>)
      (rg_checked (inf_icc_rg_id (csm_iccp_info (csm_of s c))) B))"
proof -
  let ?A = "csm_of s c"
  let ?name = "inf_sender_name (csm_iccp_info ?A)"
  have "deliver (fst (iccp_csm_prepare_rg_connect_msg c s)) B =
      iccp_csm_correspond_from_msg (host_header MSG_T_RG_CONNECT (20 + length ?name) (sys_ICCP_MSG_ID s) @
        ser_ICCRGIDTLV (iccp_csm_fill_icc_rg_id_tlv ?A) @
        ser_ICCParameter (icc_param TLV_T_ICC_SENDER_NAME (length ?name)) @ c_chars ?name) B"
    by (simp add: iccp_csm_prepare_rg_connect_msg_def next_msg_id_def Let_def ser_ICCHdr_def
        icc_header_def deliver_direct assms)
  also have "\<dots> = Some (upd_info (\<lambda>i. i\<lparr>inf_peer_rg_connect_flag := 1\<rparr>)
      (rg_checked (inf_icc_rg_id (csm_iccp_info ?A)) B))"
    by (simp add: iccp_csm_correspond_from_msg_def check_id_host_header
        iccp_csm_correspond_from_rg_connect_msg_def swap_behind_header swap_behind_rg swap_param
        wire_simps const_defs htons_def of_le16_def)
  finally show ?thesis .
qed

text \<open>
  A disconnect message with the code "group removed" takes back both connect flags; with
  any other code it leaves them alone.
\<close>

lemma rg_disconnect_exchange:
  assumes "csm_msg_list B = []"
  shows "deliver (fst (iccp_csm_prepare_rg_disconnect_msg c s)) B =
    Some (let B' = rg_checked (inf_icc_rg_id (csm_iccp_info (csm_of s c))) B
          in if inf_status_code (csm_iccp_info (csm_of s c)) = STATUS_CODE_ICCP_RG_REMOVED
             then upd_info (\<lambda>i. i\<lparr>inf_sender_rg_connect_flag := 0, inf_peer_rg_connect_flag := 0\<rparr>) B'
             else B')"
proof -
  let ?A = "csm_of s c"
  have "deliver (fst (iccp_csm_prepare_rg_disconnect_msg c s)) B =
      iccp_csm_correspond_from_msg (host_header MSG_T_RG_DISCONNECT 24 (sys_ICCP_MSG_ID s) @
        ser_ICCRGIDTLV (iccp_csm_fill_icc_rg_id_tlv ?A) @
        ser_ICCParameter (icc_param TLV_T_DISCONNECT_CODE 4) @
        le32 (htonl (inf_status_code (csm_iccp_info ?A)))) B"
    by (simp add: iccp_csm_prepare_rg_disconnect_msg_def next_msg_id_def Let_def ser_ICCHdr_def
        icc_header_def ser_DisconnectCodeTLV_def deliver_direct assms)
  also have "\<dots> = Some (let B' = rg_checked (inf_icc_rg_id (csm_iccp_info ?A)) B
      in if inf_status_code (csm_iccp_info ?A) = STATUS_CODE_ICCP_RG_REMOVED
         then upd_info (\<lambda>i. i\<lparr>inf_sender_rg_connect_flag := 0, inf_peer_rg_connect_flag := 0\<rparr>) B'
         else B')"
    using de_le32_ser [of _ "[]"]
    by (simp add: iccp_csm_correspond_from_msg_def check_id_host_header
        iccp_csm_correspond_from_rg_disconnect_msg_def swap_behind_header swap_behind_rg swap_param
        de_DisconnectCodeTLV_def wire_simps const_defs htons_def of_le16_def Let_def)
  finally show ?thesis .
qed

text \<open>
  C33. A node that rejects the peer's redundancy group answers with a notification of 28 bytes.
  A peer that gets this notification reads past the end of the message: the expression for the
  logged status code counts in headers instead of bytes.
\<close>

theorem nak_read_out_of_bounds:
  assumes "csm_msg_list B = []"
    and "inf_status_code (csm_iccp_info (csm_of s c)) = STATUS_CODE_U_ICCP_RG"
    and "\<forall>e. log_lookup (inf_rejected_msg_id (csm_iccp_info (csm_of s c))) B = Some e \<longrightarrow>
      mts_type e \<noteq> MSG_T_RG_APP_DATA"
  shows "deliver (fst (iccp_csm_prepare_nak_msg c s)) B = None"
proof -
  define m where "m = host_header MSG_T_NOTIFICATION 28 (sys_ICCP_MSG_ID s) @
      ser_ICCRGIDTLV (iccp_csm_fill_icc_rg_id_tlv (csm_of s c)) @
      ser_NAKTLV \<lparr>nak_icc_parameter = icc_param TLV_T_NAK 8,
        nak_iccp_status_code = htonl STATUS_CODE_U_ICCP_RG,
        nak_rejected_msg_id = htonl (inf_rejected_msg_id (csm_iccp_info (csm_of s c)))\<rparr>"
  have "iccp_csm_enqueue_msg (fst (iccp_csm_prepare_nak_msg c s)) B = Some (csm_queue m B)"
    using assms(2,3) enqueue_nak [OF _ m_def, of _ B]
    by (auto simp: iccp_csm_prepare_nak_msg_def next_msg_id_def Let_def split: option.split)
  moreover have "length m = 28"
    by (simp add: m_def wire_simps)
  ultimately show ?thesis
    using assms(1)
    by (simp add: deliver_def csm_queue_def iccp_csm_dequeue_msg_def iccp_csm_correspond_from_msg_def
        split: bind_split)
      (simp add: m_def check_id_host_header)
qed

theorem nak_read_out_of_bounds_witness:
  "deliver (fst (iccp_csm_prepare_nak_msg 0 ((a_host (\<lambda>_. SendErr))\<lparr>sys_csm_heap :=
     (\<lambda>_. upd_info (\<lambda>i. i\<lparr>inf_status_code := STATUS_CODE_U_ICCP_RG, inf_rejected_msg_id := 7\<rparr>)
            zero_CSM)\<rparr>))) zero_CSM = None"
proof -
  have "log_lookup 7 zero_CSM = None"
    by (simp add: log_lookup_def zero_CSM_def find_None_iff)
  then show ?thesis
    using nak_read_out_of_bounds [of zero_CSM "(a_host (\<lambda>_. SendErr))\<lparr>sys_csm_heap :=
       (\<lambda>_. upd_info (\<lambda>i. i\<lparr>inf_status_code := STATUS_CODE_U_ICCP_RG, inf_rejected_msg_id := 7\<rparr>)
              zero_CSM)\<rparr>" 0]
    by (simp add: upd_info_def) (simp add: zero_CSM_def)
qed

text \<open>
  A notification that arrives with less than a complete rejection behind its header is read
  past its end while it is queued.
\<close>

lemma short_notification_out_of_bounds:
  assumes "length rest < 12"
  shows "iccp_csm_enqueue_msg
      (ser_ICCHdr (icc_header A MSG_T_NOTIFICATION len msg_id) @ rest) B = None"
proof -
  have "de_NAKTLV rest = None"
  proof (rule ccontr)
    assume "de_NAKTLV rest \<noteq> None"
    then obtain x r where "de_NAKTLV rest = Some (x, r)" by auto
    then have "12 \<le> length rest"
      by (auto simp: de_NAKTLV_def de_ICCParameter_def bind_eq_Some_conv elim!: de_le16.elims
          de_le32.elims split: prod.splits)
    with assms show False by simp
  qed
  then show ?thesis
    by (simp add: iccp_csm_enqueue_msg_def swap_icc_header wire_simps)
qed

text \<open>
  C16. A rejection of one of the last 128 messages is recognised: when the peer answers a
  synchronisation message, of type \<open>RG_APP_DATA\<close> and with a TLV above \<open>CONNECT\<close> and at most \<open>MAC_INFO\<close>,
  with a notification, and that message is still among the last 128 sent and is the only one in the
  log with its id, the notification reaches the synchronisation layer, as a rejection that names the
  message. Rejections of messages with other TLVs go to the queue of the application layer.
\<close>

theorem rejection_routed:
  assumes "ring_ok (csm_msg_log B0)" "length (e # es) \<le> 128"
    and "B = B0\<lparr>csm_msg_log := foldl (\<lambda>l e. log_append e l) (csm_msg_log B0) (e # es)\<rparr>"
    and "\<forall>x \<in> set (log_msg (csm_msg_log B)). mts_msg_id x = mts_msg_id e \<longrightarrow> x = e"
    and "mts_type e = MSG_T_RG_APP_DATA"
      "TLV_T_MLACP_CONNECT < mts_tlv e" "mts_tlv e \<le> TLV_T_MLACP_MAC_INFO"
    and "app_invalid_msg_id (csm_app_csm (csm_of s c)) = mts_msg_id e"
  shows "\<exists>m nak. iccp_csm_enqueue_msg (fst (app_csm_prepare_nak_msg c s)) B =
      Some (mlacp_enqueue_msg m B) \<and> de_NAKTLV (drop 16 m) = Some (nak, []) \<and>
      ucast (par_type (nak_icc_parameter nak)) = TLV_T_NAK \<and>
      ntohl (nak_rejected_msg_id nak) = mts_msg_id e"
proof -
  have "e \<in> set (log_msg (csm_msg_log B))"
    using ring_keeps_last [OF assms(1,2)] assms(3) by auto
  then have found: "log_lookup (mts_msg_id e) B = Some e"
    using assms(4) unfolding log_lookup_def by (metis (mono_tags, lifting) find_None_iff find_SomeD not_None_eq)
  define m where "m = host_header MSG_T_NOTIFICATION 28 (sys_ICCP_MSG_ID s) @
      ser_ICCRGIDTLV (iccp_csm_fill_icc_rg_id_tlv (csm_of s c)) @
      le16 TLV_T_NAK @ le16 (htons 8) @ le32 (htonl STATUS_CODE_ICCP_REJECTED_MSG) @
      le32 (htonl (mts_msg_id e))"
  have "iccp_csm_enqueue_msg (fst (app_csm_prepare_nak_msg c s)) B = Some (mlacp_enqueue_msg m B)"
    using assms(5-8) found
    by (simp add: app_csm_prepare_nak_msg_def next_msg_id_def Let_def
        enqueue_nak [OF refl refl] app_enqueue_nak [OF refl m_def])
  moreover have "\<exists>nak. de_NAKTLV (drop 16 m) = Some (nak, []) \<and>
      ucast (par_type (nak_icc_parameter nak)) = TLV_T_NAK \<and>
      ntohl (nak_rejected_msg_id nak) = mts_msg_id e"
    using de_le32_ser [of _ "[]"] by (simp add: m_def wire_simps de_NAKTLV_def) (simp add: const_defs)
  ultimately show ?thesis by blast
qed

theorem rejection_routed_witness:
  "\<exists>m. iccp_csm_enqueue_msg (fst (app_csm_prepare_nak_msg 0 ((a_host (\<lambda>_. SendErr))\<lparr>sys_csm_heap :=
       (\<lambda>_. upd_app (\<lambda>a. a\<lparr>app_invalid_msg_id := 9\<rparr>) zero_CSM)\<rparr>)))
     (zero_CSM\<lparr>csm_msg_log := log_append
        \<lparr>mts_msg_id = 9, mts_type = MSG_T_RG_APP_DATA, mts_tlv = TLV_T_MLACP_MAC_INFO\<rparr>
        (csm_msg_log zero_CSM)\<rparr>) =
   Some (mlacp_enqueue_msg m
     (zero_CSM\<lparr>csm_msg_log := log_append
        \<lparr>mts_msg_id = 9, mts_type = MSG_T_RG_APP_DATA, mts_tlv = TLV_T_MLACP_MAC_INFO\<rparr>
        (csm_msg_log zero_CSM)\<rparr>))"
proof -
  let ?e = "\<lparr>mts_msg_id = 9, mts_type = MSG_T_RG_APP_DATA, mts_tlv = TLV_T_MLACP_MAC_INFO\<rparr>"
  let ?s = "(a_host (\<lambda>_. SendErr))\<lparr>sys_csm_heap :=
      (\<lambda>_. upd_app (\<lambda>a. a\<lparr>app_invalid_msg_id := 9\<rparr>) zero_CSM)\<rparr>"
  have "ring_ok (csm_msg_log zero_CSM)"
    by (simp add: ring_ok_def zero_CSM_def const_defs)
  moreover have "x = ?e" if "x \<in> set (log_msg (log_append ?e (csm_msg_log zero_CSM)))"
      "mts_msg_id x = 9" for x
  proof -
    have "set (log_msg (csm_msg_log zero_CSM)) \<subseteq> {\<lparr>mts_msg_id = 0, mts_type = 0, mts_tlv = 0\<rparr>}"
      by (auto simp: zero_CSM_def)
    then show ?thesis
      using that set_update_subset_insert [of "log_msg (csm_msg_log zero_CSM)"]
      by (fastforce simp: log_append_msg)
  qed
  ultimately show ?thesis
    using rejection_routed [of zero_CSM ?e "[]" _ ?s 0]
    by (simp add: upd_app_def TLV_T_MLACP_CONNECT_def TLV_T_MLACP_MAC_INFO_def) blast
qed

end
