(* ===== verification/Sync_Prepare.thy ===== *)
theory Sync_Prepare
  imports Iccp_Csm
begin

text \<open>
  The synchronisation messages a node sends to its peer (\<open>mlacp_sync_prepare.c\<close>): the fixed-size
  messages, and the messages with several entries, which are built in the shared buffer one entry
  at a time. Each function returns the message length, the buffer and the state with the message
  id advanced; a message that does not fit into the buffer is an error.
\<close>

section \<open>Fixed-size messages\<close>

definition mlacp_fill_icc_header :: "CSM \<Rightarrow> nat \<Rightarrow> System \<Rightarrow> bytes \<times> System" where
  "mlacp_fill_icc_header csm msg_len s =
     (let (msg_id, s') = next_msg_id s
      in (ser_ICCHdr (icc_header csm MSG_T_RG_APP_DATA msg_len msg_id), s'))"

text \<open>A header followed by the bytes of a TLV, in a buffer of \<open>max_buf_size\<close> bytes.\<close>

definition app_data_msg :: "csm_ptr \<Rightarrow> nat \<Rightarrow> bytes \<Rightarrow> System \<Rightarrow> int \<times> bytes \<times> System" where
  "app_data_msg c max_buf_size tlv s =
     (let msg_len = 16 + length tlv
      in if max_buf_size < msg_len then (MCLAG_ERROR, [], s)
         else let (hdr, s') = mlacp_fill_icc_header (csm_of s c) msg_len s
              in (int msg_len, hdr @ tlv, s'))"

definition mlacp_prepare_for_sync_request_tlv ::
  "csm_ptr \<Rightarrow> nat \<Rightarrow> System \<Rightarrow> int \<times> bytes \<times> System" where
  "mlacp_prepare_for_sync_request_tlv c max_buf_size s =
     (let tlv = \<lparr>sr_icc_parameter = icc_param TLV_T_MLACP_SYNC_REQUEST 8, sr_req_num = 0,
                 sr_flags_word = htons 0xFFFF, sr_port_num_agg_id = 0, sr_actor_key = 0\<rparr>;
          (len, buf, s') = app_data_msg c max_buf_size (ser_mLACPSyncReqTLV tlv) s
      in (len, buf, if len = MCLAG_ERROR then s'
                    else upd_csm c (upd_mlacp (\<lambda>m. m\<lparr>ml_sync_req_num := 0\<rparr>)) s'))"

definition mlacp_prepare_for_sync_data_tlv ::
  "csm_ptr \<Rightarrow> nat \<Rightarrow> bool \<Rightarrow> System \<Rightarrow> int \<times> bytes \<times> System" where
  "mlacp_prepare_for_sync_data_tlv c max_buf_size fin s =
     app_data_msg c max_buf_size (ser_mLACPSyncDataTLV
       \<lparr>sd_icc_parameter = icc_param TLV_T_MLACP_SYNC_DATA 4,
        sd_req_num = htons (word_of_int (ml_sync_req_num (MLACP (csm_of s c)))),
        sd_flags = (if fin then htons 1 else 0)\<rparr>) s"

definition mlacp_prepare_for_sys_config ::
  "csm_ptr \<Rightarrow> nat \<Rightarrow> System \<Rightarrow> int \<times> bytes \<times> System" where
  "mlacp_prepare_for_sys_config c max_buf_size s =
     (let m = MLACP (csm_of s c)
      in app_data_msg c max_buf_size (ser_mLACPSysConfigTLV
           \<lparr>sc_icc_parameter = icc_param TLV_T_MLACP_SYSTEM_CONFIG 9,
            sc_sys_id = ml_system_id m, sc_sys_priority = htons (ml_system_priority m),
            sc_node_id = ml_node_id m\<rparr>) s)"

definition mlacp_prepare_for_Aggport_state ::
  "csm_ptr \<Rightarrow> nat \<Rightarrow> lif_ptr \<Rightarrow> System \<Rightarrow> int \<times> bytes \<times> System" where
  "mlacp_prepare_for_Aggport_state c max_buf_size p s =
     (let lif = lif_of s p
      in if lif_type lif \<noteq> IF_T_PORT_CHANNEL then (MCLAG_ERROR, [], s)
         else app_data_msg c max_buf_size (ser_mLACPAggPortStateTLV
           \<lparr>as_icc_parameter = icc_param TLV_T_MLACP_AGGREGATOR_STATE 15,
            as_partner_sys_id = replicate 6 0, as_partner_sys_priority = 0, as_partner_key = 0,
            as_agg_id = htons (word_of_int (lif_po_id lif)), as_actor_key = 0,
            as_agg_state = lif_state lif\<rparr>) s)"

definition mlacp_prepare_for_Aggport_config ::
  "csm_ptr \<Rightarrow> nat \<Rightarrow> lif_ptr \<Rightarrow> bool \<Rightarrow> System \<Rightarrow> int \<times> bytes \<times> System" where
  "mlacp_prepare_for_Aggport_config c max_buf_size p purge s =
     (let lif = lif_of s p
      in app_data_msg c max_buf_size (ser_mLACPAggConfigTLV
           \<lparr>ac_icc_parameter = icc_param TLV_T_MLACP_AGGREGATOR_CONFIG 42,
            ac_ro_id = replicate 8 0, ac_agg_id = htons (word_of_int (lif_po_id lif)),
            ac_mac_addr = lif_mac_addr lif, ac_actor_key = 0, ac_member_ports_priority = 0,
            ac_flags = (if purge then 2 else 1),
            ac_agg_name_len = word_of_nat (length (lif_name lif)),
            ac_agg_name = c_array MAX_L_PORT_NAME (lif_name lif)\<rparr>) s)"

definition mlacp_prepare_for_port_channel_info ::
  "csm_ptr \<Rightarrow> nat \<Rightarrow> lif_ptr \<Rightarrow> System \<Rightarrow> int \<times> bytes \<times> System" where
  "mlacp_prepare_for_port_channel_info c max_buf_size p s =
     (let lif = lif_of s p; vlans = lif_vlan_tree lif;
          name_len = min (length (lif_name lif)) MAX_L_PORT_NAME
      in if lif_type lif = IF_T_PORT then (MCLAG_ERROR, [], s)
         else app_data_msg c max_buf_size (ser_mLACPPortChannelInfoTLV
           \<lparr>pc_icc_parameter = icc_param TLV_T_MLACP_PORT_CHANNEL_INFO (32 + 2 * length vlans),
            pc_agg_id = htons (word_of_int (lif_po_id lif)),
            pc_if_name = c_array MAX_L_PORT_NAME (lif_name lif),
            pc_if_name_len = word_of_nat name_len, pc_l3_mode = lif_l3_mode lif,
            pc_ipv4_addr = htonl (lif_ipv4_addr lif),
            pc_po_id = htons (word_of_int (lif_po_id lif)),
            pc_num_of_vlan_id = htons (word_of_nat (length vlans))\<rparr>
           @ concat (map (\<lambda>v. le16 (htons (vl_vid v))) vlans)) s)"

definition mlacp_prepare_for_port_peerlink_info ::
  "csm_ptr \<Rightarrow> nat \<Rightarrow> lif_ptr \<Rightarrow> System \<Rightarrow> int \<times> bytes \<times> System" where
  "mlacp_prepare_for_port_peerlink_info c max_buf_size p s =
     (let lif = lif_of s p
      in app_data_msg c max_buf_size (ser_mLACPPeerLinkInfoTLV
           \<lparr>pl_icc_parameter = icc_param TLV_T_MLACP_PEERLINK_INFO 21,
            pl_if_name = c_array MAX_L_PORT_NAME (lif_name lif),
            pl_port_type = word_of_int (lif_type lif)\<rparr>) s)"

definition mlacp_prepare_for_heartbeat ::
  "csm_ptr \<Rightarrow> nat \<Rightarrow> System \<Rightarrow> int \<times> bytes \<times> System" where
  "mlacp_prepare_for_heartbeat c max_buf_size s =
     app_data_msg c max_buf_size (ser_mLACPHeartbeatTLV
       \<lparr>hb_icc_parameter = icc_param TLV_T_MLACP_HEARTBEAT 1, hb_heartbeat = 0xFF\<rparr>) s"

definition mlacp_prepare_for_warm_reboot ::
  "csm_ptr \<Rightarrow> nat \<Rightarrow> System \<Rightarrow> int \<times> bytes \<times> System" where
  "mlacp_prepare_for_warm_reboot c max_buf_size s =
     app_data_msg c max_buf_size (ser_mLACPWarmbootTLV
       \<lparr>wb_icc_parameter = icc_param TLV_T_MLACP_WARMBOOT_FLAG 1, wb_warmboot = 1\<rparr>) s"

definition mlacp_prepare_for_if_up_ack ::
  "csm_ptr \<Rightarrow> nat \<Rightarrow> u8 \<Rightarrow> u16 \<Rightarrow> u8 \<Rightarrow> System \<Rightarrow> int \<times> bytes \<times> System" where
  "mlacp_prepare_for_if_up_ack c max_buf_size if_type if_id isolation s =
     app_data_msg c max_buf_size (ser_mLACPIfUpAckTLV
       \<lparr>ua_icc_parameter = icc_param TLV_T_MLACP_IF_UP_ACK 4, ua_if_type = if_type,
        ua_port_isolation_state = isolation, ua_if_id = htons if_id\<rparr>) s"

section \<open>Messages with several entries\<close>

text \<open>
  Entry number \<open>count\<close> is added to the message in \<open>buf\<close>. The header, the length and the number
  of entries are written anew with every entry, the type of the TLV only with the first one. The
  caller has cleared the buffer before the first entry, so the tail of a name is zero.
\<close>

definition add_info_entry ::
  "csm_ptr \<Rightarrow> nat \<Rightarrow> u16 \<Rightarrow> bytes \<Rightarrow> nat \<Rightarrow> bytes \<Rightarrow> System \<Rightarrow> int \<times> bytes \<times> System" where
  "add_info_entry c max_buf_size ty entry count buf s =
     (let esize = length entry;
          tlv_len = 6 + esize * (count + 1);
          msg_len = 16 + tlv_len
      in if max_buf_size < msg_len then (MCLAG_ERROR, buf, s)
         else
           let (hdr, s') = mlacp_fill_icc_header (csm_of s c) msg_len s;
               first_word = (if count = 0 then le16 (par_word (icc_param ty 0))
                             else take 2 (drop 16 (buf_take 18 buf)));
               buf1 = write_at 0 (hdr @ first_word @ le16 (htons (word_of_nat (tlv_len - 4)))
                        @ le16 (htons (word_of_nat (count + 1)))) buf
           in (int msg_len, write_at (22 + esize * count) entry buf1, s'))"

definition mac_data :: "MACMsg \<Rightarrow> mLACPMACData" where
  "mac_data m = \<lparr>md_type = mac_op_type m, md_mac_type = mac_fdb_type m,
     md_mac_addr = mac_addr m, md_vid = htons (mac_vid m),
     md_ifname = c_array MAX_L_PORT_NAME (mac_origin_ifname m)\<rparr>"

definition mlacp_prepare_for_mac_info_to_peer ::
  "csm_ptr \<Rightarrow> nat \<Rightarrow> MACMsg \<Rightarrow> nat \<Rightarrow> bytes \<Rightarrow> System \<Rightarrow> int \<times> bytes \<times> System" where
  "mlacp_prepare_for_mac_info_to_peer c max_buf_size m count buf s =
     add_info_entry c max_buf_size TLV_T_MLACP_MAC_INFO (ser_mLACPMACData (mac_data m)) count buf s"

text \<open>
  \<open>sprintf\<close> copies a name up to its terminator into the cleared buffer. The learn flag of a
  neighbour entry is not copied into the message.
\<close>

definition c_copy :: "nat \<Rightarrow> bytes \<Rightarrow> bytes" where
  "c_copy n bs = take n (takeWhile (\<lambda>b. b \<noteq> 0) bs @ replicate n 0)"

definition mlacp_prepare_for_arp_info ::
  "csm_ptr \<Rightarrow> nat \<Rightarrow> ARPMsg \<Rightarrow> nat \<Rightarrow> bytes \<Rightarrow> System \<Rightarrow> int \<times> bytes \<times> System" where
  "mlacp_prepare_for_arp_info c max_buf_size a count buf s =
     add_info_entry c max_buf_size TLV_T_MLACP_ARP_INFO (ser_ARPMsg (a\<lparr>arp_learn_flag := 0,
       arp_ifname := c_copy MAX_L_PORT_NAME (arp_ifname a)\<rparr>)) count buf s"

definition mlacp_prepare_for_ndisc_info ::
  "csm_ptr \<Rightarrow> nat \<Rightarrow> NDISCMsg \<Rightarrow> nat \<Rightarrow> bytes \<Rightarrow> System \<Rightarrow> int \<times> bytes \<times> System" where
  "mlacp_prepare_for_ndisc_info c max_buf_size n count buf s =
     add_info_entry c max_buf_size TLV_T_MLACP_NDISC_INFO (ser_NDISCMsg (n\<lparr>nd_learn_flag := 0,
       nd_ifname := c_copy MAX_L_PORT_NAME (nd_ifname n)\<rparr>)) count buf s"

section \<open>Building and receiving\<close>

text \<open>The message with the entries \<open>es\<close>, built in a cleared buffer.\<close>

definition build_info ::
  "csm_ptr \<Rightarrow> nat \<Rightarrow> u16 \<Rightarrow> bytes list \<Rightarrow> System \<Rightarrow> nat \<times> int \<times> bytes \<times> System" where
  "build_info c max_buf_size ty es s =
     foldl (\<lambda>(n, len, buf, s) e. (n + 1, add_info_entry c max_buf_size ty e n buf s))
       (0, 0, [], s) es"

definition info_msg :: "CSM \<Rightarrow> u16 \<Rightarrow> nat \<Rightarrow> bytes list \<Rightarrow> u32 \<Rightarrow> bytes" where
  "info_msg csm ty esize es msg_id =
     ser_ICCHdr (icc_header csm MSG_T_RG_APP_DATA (22 + esize * length es) msg_id)
     @ le16 (par_word (icc_param ty 0)) @ le16 (htons (word_of_nat (2 + esize * length es)))
     @ le16 (htons (word_of_nat (length es))) @ concat es"

lemma length_concat_same: "(\<And>e. e \<in> set es \<Longrightarrow> length e = esize) \<Longrightarrow> length (concat es) = esize * length es"
  by (induction es) auto

lemma next_msg_id_frame [simp]:
  "sys_csm_heap (s\<lparr>sys_ICCP_MSG_ID := i\<rparr>) = sys_csm_heap s" by simp

lemma add_info_entry_step:
  assumes "length e = esize" "\<And>x. x \<in> set es \<Longrightarrow> length x = esize"
    "22 + esize * Suc (length es) \<le> max_buf_size"
    "buf = (if es = [] then [] else info_msg (csm_of s c) ty esize es msg_id)"
  shows "add_info_entry c max_buf_size ty e (length es) buf s =
    (int (22 + esize * Suc (length es)), info_msg (csm_of s c) ty esize (es @ [e]) (sys_ICCP_MSG_ID s),
     s\<lparr>sys_ICCP_MSG_ID := sys_ICCP_MSG_ID s + 1\<rparr>)"
proof -
  let ?hdr = "ser_ICCHdr (icc_header (csm_of s c) MSG_T_RG_APP_DATA (22 + esize * Suc (length es))
      (sys_ICCP_MSG_ID s))"
  let ?w = "le16 (par_word (icc_param ty 0))"
  let ?tail = "le16 (htons (word_of_nat (2 + esize * Suc (length es)))) @
      le16 (htons (word_of_nat (Suc (length es))))"
  have len: "length (concat es) = esize * length es"
    using assms(2) by (rule length_concat_same)
  have first: "(if length es = 0 then ?w else take 2 (drop 16 (buf_take 18 buf))) = ?w"
    using assms(4) by (auto simp: buf_take_def info_msg_def wire_simps)
  have head: "write_at 0 (?hdr @ ?w @ ?tail) buf = (?hdr @ ?w @ ?tail) @ concat es"
    using assms(4) by (auto simp: write_at_def info_msg_def wire_simps)
  have "write_at (22 + esize * length es) e ((?hdr @ ?w @ ?tail) @ concat es) =
      (?hdr @ ?w @ ?tail) @ concat es @ e"
    by (subst write_at_append) (simp_all add: len wire_simps)
  then show ?thesis
    using assms(1,3) first head
    by (simp add: add_info_entry_def mlacp_fill_icc_header_def next_msg_id_def info_msg_def Let_def
        algebra_simps)
qed

lemma build_info_msg:
  assumes "\<And>x. x \<in> set es \<Longrightarrow> length x = esize" "22 + esize * length es \<le> max_buf_size" "es \<noteq> []"
  shows "build_info c max_buf_size ty es s =
    (length es, int (22 + esize * length es),
     info_msg (csm_of s c) ty esize es (sys_ICCP_MSG_ID s + word_of_nat (length es - 1)),
     s\<lparr>sys_ICCP_MSG_ID := sys_ICCP_MSG_ID s + word_of_nat (length es)\<rparr>)"
  using assms
proof (induction es rule: rev_induct)
  case (snoc e es)
  show ?case
  proof (cases "es = []")
    case True
    with snoc.prems add_info_entry_step [of e esize "[]" max_buf_size "[]" s c ty] show ?thesis
      by (simp add: build_info_def)
  next
    case False
    let ?t = "s\<lparr>sys_ICCP_MSG_ID := sys_ICCP_MSG_ID s + word_of_nat (length es)\<rparr>"
    let ?buf = "info_msg (csm_of s c) ty esize es (sys_ICCP_MSG_ID s + word_of_nat (length es - 1))"
    have "build_info c max_buf_size ty es s = (length es, int (22 + esize * length es), ?buf, ?t)"
      using snoc False by simp
    moreover have "add_info_entry c max_buf_size ty e (length es) ?buf ?t =
        (int (22 + esize * Suc (length es)),
         info_msg (csm_of s c) ty esize (es @ [e]) (sys_ICCP_MSG_ID s + word_of_nat (length es)),
         ?t\<lparr>sys_ICCP_MSG_ID := sys_ICCP_MSG_ID ?t + 1\<rparr>)"
      using add_info_entry_step [of e esize es max_buf_size ?buf ?t c ty] snoc.prems False by simp
    ultimately show ?thesis
      by (simp add: build_info_def add.assoc)
  qed
qed simp

text \<open>
  A TLV type that both byte orders of which fit into the 14 bits of the field, and that belongs
  to the synchronisation layer.
\<close>

definition sync_type :: "u16 \<Rightarrow> bool" where
  "sync_type ty \<longleftrightarrow> (ucast (ucast (htons ty) :: 14 word) :: u16) = htons ty
     \<and> (ucast (ucast ty :: 14 word) :: u16) = ty
     \<and> TLV_T_MLACP_CONNECT < ty \<and> ty < TLV_T_MLACP_LIST_END"

lemma sync_types [simp]:
  "sync_type TLV_T_MLACP_SYSTEM_CONFIG" "sync_type TLV_T_MLACP_AGGREGATOR_CONFIG"
  "sync_type TLV_T_MLACP_AGGREGATOR_STATE" "sync_type TLV_T_MLACP_SYNC_REQUEST"
  "sync_type TLV_T_MLACP_SYNC_DATA" "sync_type TLV_T_MLACP_HEARTBEAT"
  "sync_type TLV_T_MLACP_PORT_CHANNEL_INFO" "sync_type TLV_T_MLACP_PEERLINK_INFO"
  "sync_type TLV_T_MLACP_ARP_INFO" "sync_type TLV_T_MLACP_MAC_INFO"
  "sync_type TLV_T_MLACP_WARMBOOT_FLAG" "sync_type TLV_T_MLACP_NDISC_INFO"
  "sync_type TLV_T_MLACP_IF_UP_ACK"
  by (simp_all add: sync_type_def const_defs htons_def of_le16_def)

lemma par_word_icc_param: "sync_type ty \<Longrightarrow> par_word (icc_param ty len) = htons ty"
  by (simp add: par_word_def icc_param_def sync_type_def)

lemma ser_icc_param:
  "sync_type ty \<Longrightarrow> ser_ICCParameter (icc_param ty len) = le16 (htons ty) @ le16 (htons (word_of_nat len))"
  by (simp add: ser_ICCParameter_def icc_param_def sync_type_def)

text \<open>
  Whatever follows a header of application data and a synchronisation type ends up in the queue
  of the synchronisation layer, with the type in host byte order.
\<close>

definition received :: "CSM \<Rightarrow> nat \<Rightarrow> u32 \<Rightarrow> u16 \<Rightarrow> bytes \<Rightarrow> bytes" where
  "received A len msg_id ty r =
     host_header MSG_T_RG_APP_DATA len msg_id @ ser_ICCRGIDTLV (iccp_csm_fill_icc_rg_id_tlv A)
     @ le16 ty @ r"

lemma drop_received [simp]: "drop 16 (received A len msg_id ty r) = le16 ty @ r"
  by (simp add: received_def wire_simps)

lemma enqueue_app_data:
  assumes "sync_type ty" "2 \<le> length r"
  shows "iccp_csm_enqueue_msg
      (ser_ICCHdr (icc_header A MSG_T_RG_APP_DATA len msg_id) @ le16 (htons ty) @ r) B =
    Some (mlacp_enqueue_msg (received A len msg_id ty r) B)"
proof -
  obtain l r' where r: "r = le16 l @ r'"
    using assms(2) by (cases r; cases "tl r") (auto simp: le16_def intro!: that [of "of_le16 _ _"])
  show ?thesis
    using assms(1) unfolding r
    by (simp add: iccp_csm_enqueue_msg_def app_csm_enqueue_msg_def swap_icc_header de_ICCHdr_def
        wire_simps swap_behind_header swap_behind_rg received_def sync_type_def)
qed

end
