(* ===== verification/Mac_Table.thy ===== *)
theory Mac_Table
  imports Sync_Prepare
begin

text \<open>
  The table of MAC addresses a node shares with its peer: the tree \<open>mac_rb\<close> of the entries, ordered
  by VLAN and address, and the list \<open>mac_msg_list\<close> of the entries to be sent to the peer. An entry
  can be in both at once, and it is freed when it is in neither. The operations come from
  \<open>mlacp_link_handler.c\<close> (port events, updates from mclagsyncd), \<open>mlacp_fsm.c\<close> (synchronisation,
  queues) and \<open>mlacp_sync_update.c\<close> (updates from the peer).
\<close>

section \<open>The tree and the entries\<close>

definition MACMsg_compare :: "MACMsg \<Rightarrow> MACMsg \<Rightarrow> int" where
  "MACMsg_compare a b =
     (if mac_vid a < mac_vid b then -1 else if mac_vid b < mac_vid a then 1
      else if memcmp (mac_addr a) (mac_addr b) < 0 then -1
      else if 0 < memcmp (mac_addr a) (mac_addr b) then 1 else 0)"

abbreviation mac_of :: "System \<Rightarrow> csm_ptr \<Rightarrow> mac_ptr \<Rightarrow> MACMsg" where
  "mac_of s c p \<equiv> ml_mac_heap (MLACP (csm_of s c)) p"

abbreviation mac_rb :: "System \<Rightarrow> csm_ptr \<Rightarrow> mac_ptr list" where
  "mac_rb s c \<equiv> ml_mac_rb (MLACP (csm_of s c))"

abbreviation mac_msg_list :: "System \<Rightarrow> csm_ptr \<Rightarrow> mac_ptr list" where
  "mac_msg_list s c \<equiv> ml_mac_msg_list (MLACP (csm_of s c))"

definition upd_ml :: "csm_ptr \<Rightarrow> (mLACP \<Rightarrow> mLACP) \<Rightarrow> System \<Rightarrow> System" where
  "upd_ml c f = upd_csm c (upd_mlacp f)"

definition upd_mac :: "csm_ptr \<Rightarrow> mac_ptr \<Rightarrow> (MACMsg \<Rightarrow> MACMsg) \<Rightarrow> System \<Rightarrow> System" where
  "upd_mac c p f = upd_ml c (\<lambda>m. m\<lparr>ml_mac_heap := (ml_mac_heap m)(p := f (ml_mac_heap m p))\<rparr>)"

text \<open>\<open>RB_FIND\<close> with the VLAN and the address of \<open>mac_find\<close>.\<close>

definition mac_key :: "u16 \<Rightarrow> bytes \<Rightarrow> MACMsg" where
  "mac_key vid addr = zero_MACMsg\<lparr>mac_vid := vid, mac_addr := addr\<rparr>"

definition mac_find :: "u16 \<Rightarrow> bytes \<Rightarrow> System \<Rightarrow> csm_ptr \<Rightarrow> mac_ptr option" where
  "mac_find vid addr s c =
     rb_find (\<lambda>k p. MACMsg_compare k (mac_of s c p)) (mac_key vid addr) (mac_rb s c)"

text \<open>\<open>TAILQ_INSERT_TAIL\<close>, unless \<open>MAC_IN_MSG_LIST\<close> says that the entry is in the list.\<close>

definition mac_enqueue :: "csm_ptr \<Rightarrow> mac_ptr \<Rightarrow> System \<Rightarrow> System" where
  "mac_enqueue c p s =
     (if p \<in> set (mac_msg_list s c) then s
      else upd_ml c (\<lambda>m. m\<lparr>ml_mac_msg_list := ml_mac_msg_list m @ [p]\<rparr>) s)"

text \<open>\<open>MAC_RB_REMOVE\<close>, and \<open>free\<close> unless the entry waits in the list.\<close>

definition mac_rb_remove :: "csm_ptr \<Rightarrow> mac_ptr \<Rightarrow> System \<Rightarrow> System" where
  "mac_rb_remove c p = upd_ml c (\<lambda>m. m\<lparr>ml_mac_rb := rb_remove p (ml_mac_rb m)\<rparr>)"

definition mac_free_unlisted :: "csm_ptr \<Rightarrow> mac_ptr \<Rightarrow> System \<Rightarrow> System" where
  "mac_free_unlisted c p s =
     (if p \<in> set (mac_msg_list s c) then s
      else upd_ml c (\<lambda>m. m\<lparr>ml_mac_freed := p # ml_mac_freed m\<rparr>) s)"

definition mac_remove :: "csm_ptr \<Rightarrow> mac_ptr \<Rightarrow> System \<Rightarrow> System" where
  "mac_remove c p s = mac_free_unlisted c p (mac_rb_remove c p s)"

text \<open>\<open>iccp_csm_init_mac_msg\<close>: a new entry with the given contents.\<close>

definition iccp_csm_init_mac_msg :: "csm_ptr \<Rightarrow> MACMsg \<Rightarrow> System \<Rightarrow> mac_ptr option \<times> System" where
  "iccp_csm_init_mac_msg c data s =
     (let (ok, s1) = malloc s; p = ml_mac_next (MLACP (csm_of s1 c))
      in if \<not> ok then (None, s1)
         else (Some p, upd_ml c (\<lambda>m. m\<lparr>ml_mac_next := Suc p,
                 ml_mac_heap := (ml_mac_heap m)(p := data)\<rparr>) s1))"

definition mac_rb_insert :: "csm_ptr \<Rightarrow> mac_ptr \<Rightarrow> System \<Rightarrow> System" where
  "mac_rb_insert c p = upd_ml c (\<lambda>m. m\<lparr>ml_mac_rb :=
     rb_insert (\<lambda>p q. MACMsg_compare (ml_mac_heap m p) (ml_mac_heap m q)) p (ml_mac_rb m)\<rparr>)"

text \<open>Both together: a new entry in the tree, if there is memory for it.\<close>

definition mac_create :: "csm_ptr \<Rightarrow> MACMsg \<Rightarrow> System \<Rightarrow> mac_ptr option \<times> System" where
  "mac_create c m s =
     (case iccp_csm_init_mac_msg c m s of
        (None, s1) \<Rightarrow> (None, s1) | (Some p, s1) \<Rightarrow> (Some p, mac_rb_insert c p s1))"

section \<open>The hardware table\<close>

definition fdb_info :: "MACMsg \<Rightarrow> u8 \<Rightarrow> u8 \<Rightarrow> mclag_fdb_info" where
  "fdb_info m mac_type oper = \<lparr>fdb_mac = mac_addr m, fdb_vid = ucast (mac_vid m),
     fdb_port_name = c_array MAX_L_PORT_NAME (mac_ifname m), fdb_type = ucast mac_type,
     fdb_op_type = ucast oper\<rparr>"

text \<open>The entry is given by value: some callers pass an entry on their stack.\<close>

definition iccp_send_fdb_entry_to_syncd ::
  "MACMsg \<Rightarrow> u8 \<Rightarrow> u8 \<Rightarrow> System \<Rightarrow> MACMsg \<times> System" where
  "iccp_send_fdb_entry_to_syncd m mac_type oper s =
     (if mac_addr m = null_mac then (m, s)
      else
        let ty = MCLAG_MSG_TYPE_SET_FDB;
            msg = syncd_hdr ty (ser_mclag_fdb_info (fdb_info m mac_type oper));
            s1 = (if 0 < sys_sync_fd s then snd (iccp_send_to_mclagsyncd ty msg s)
                  else SYSTEM_SET_SYNCD_TX_DBG_COUNTER ty STS_ERR s)
        in (m\<lparr>mac_add_to_syncd := (if oper = MAC_SYNC_DEL then 0 else 1)\<rparr>, s1))"

definition add_stack_mac_to_chip :: "MACMsg \<Rightarrow> u8 \<Rightarrow> System \<Rightarrow> System" where
  "add_stack_mac_to_chip m mac_type s = snd (iccp_send_fdb_entry_to_syncd m mac_type MAC_SYNC_ADD s)"

definition del_stack_mac_from_chip :: "MACMsg \<Rightarrow> System \<Rightarrow> System" where
  "del_stack_mac_from_chip m s =
     snd (iccp_send_fdb_entry_to_syncd m (mac_fdb_type m) MAC_SYNC_DEL s)"

definition mac_to_chip :: "csm_ptr \<Rightarrow> mac_ptr \<Rightarrow> u8 \<Rightarrow> u8 \<Rightarrow> System \<Rightarrow> System" where
  "mac_to_chip c p mac_type oper s =
     (let (m, s1) = iccp_send_fdb_entry_to_syncd (mac_of s c p) mac_type oper s
      in upd_mac c p (\<lambda>_. m) s1)"

definition add_mac_to_chip :: "csm_ptr \<Rightarrow> mac_ptr \<Rightarrow> u8 \<Rightarrow> System \<Rightarrow> System" where
  "add_mac_to_chip c p mac_type s = mac_to_chip c p mac_type MAC_SYNC_ADD s"

definition del_mac_from_chip :: "csm_ptr \<Rightarrow> mac_ptr \<Rightarrow> System \<Rightarrow> System" where
  "del_mac_from_chip c p s = mac_to_chip c p (mac_fdb_type (mac_of s c p)) MAC_SYNC_DEL s"

section \<open>Ageing\<close>

definition local_age_flag :: "bool \<Rightarrow> u8 \<Rightarrow> u8" where
  "local_age_flag st flag = (if st then flag OR MAC_AGE_LOCAL else flag AND NOT MAC_AGE_LOCAL)"

text \<open>The new flag is returned; the entry itself is changed only in its operation.\<close>

definition set_mac_local_age_flag ::
  "csm_ptr \<Rightarrow> mac_ptr \<Rightarrow> bool \<Rightarrow> bool \<Rightarrow> System \<Rightarrow> u8 \<times> System" where
  "set_mac_local_age_flag c p st update_peer s =
     (let flag = mac_age_flag (mac_of s c p)
      in if (flag AND MAC_AGE_LOCAL \<noteq> 0) = st then (flag, s)
         else (local_age_flag st flag,
               if ml_current_state (MLACP (csm_of s c)) = MLACP_STATE_EXCHANGE \<and> update_peer
               then mac_enqueue c p (upd_mac c p (\<lambda>m. m\<lparr>mac_op_type :=
                      (if st then MAC_SYNC_DEL else MAC_SYNC_ADD)\<rparr>) s)
               else s))"

text \<open>\<open>mac_msg->age_flag = set_mac_local_age_flag(csm, mac_msg, ...)\<close>\<close>

definition mac_set_local_age :: "csm_ptr \<Rightarrow> mac_ptr \<Rightarrow> bool \<Rightarrow> System \<Rightarrow> System" where
  "mac_set_local_age c p st s =
     (let (flag, s1) = set_mac_local_age_flag c p st True s
      in upd_mac c p (\<lambda>m. m\<lparr>mac_age_flag := flag\<rparr>) s1)"

abbreviation (input) both_aged :: "MACMsg \<Rightarrow> bool" where
  "both_aged m \<equiv> mac_age_flag m = MAC_AGE_LOCAL OR MAC_AGE_PEER"

definition mac_set_ifname :: "csm_ptr \<Rightarrow> mac_ptr \<Rightarrow> string \<Rightarrow> System \<Rightarrow> System" where
  "mac_set_ifname c p ifname = upd_mac c p (\<lambda>m. m\<lparr>mac_ifname := ifname\<rparr>)"

definition peer_link_is_up :: "System \<Rightarrow> csm_ptr \<Rightarrow> bool" where
  "peer_link_is_up s c =
     (case csm_peer_link_if (csm_of s c) of None \<Rightarrow> False
      | Some q \<Rightarrow> lif_state (lif_of s q) = PORT_STATE_UP)"

text \<open>
  \<open>RB_FOREACH_SAFE\<close>: the successor is fetched before the body runs, and the bodies remove no node
  but their own, so the loop visits the nodes the tree had at the beginning.
\<close>

definition mac_foreach :: "csm_ptr \<Rightarrow> (mac_ptr \<Rightarrow> System \<Rightarrow> System) \<Rightarrow> System \<Rightarrow> System" where
  "mac_foreach c body s = foldl (\<lambda>s p. body p s) s (mac_rb s c)"

section \<open>Port events\<close>

definition mac_port_down :: "csm_ptr \<Rightarrow> PeerInterface option \<Rightarrow> mac_ptr \<Rightarrow> System \<Rightarrow> System" where
  "mac_port_down c pif p s =
     (let peer_itf = csm_peer_itf_name (csm_of s c);
          redirect = (\<lambda>s. add_mac_to_chip c p (mac_fdb_type (mac_of s c p))
                            (mac_set_ifname c p peer_itf s));
          withdraw = (\<lambda>s. mac_set_ifname c p peer_itf (del_mac_from_chip c p s))
      in if mac_age_flag (mac_of s c p) = MAC_AGE_PEER
            \<and> (case pif of None \<Rightarrow> False | Some i \<Rightarrow> pif_state i = PORT_STATE_UP)
         then upd_mac c p (\<lambda>m. m\<lparr>mac_pending_local_del := 1\<rparr>)
                (if peer_itf \<noteq> [] \<and> peer_link_is_up s c then redirect s else withdraw s)
         else
           let s1 = mac_set_local_age c p True s
           in if both_aged (mac_of s1 c p)
              then mac_remove c p (if mac_fdb_type (mac_of s1 c p) \<noteq> MAC_TYPE_STATIC
                                   then del_mac_from_chip c p s1 else s1)
              else if peer_itf \<noteq> []
              then (if peer_link_is_up s1 c then redirect s1 else withdraw s1)
              else del_mac_from_chip c p s1)"

definition mac_clear_pending :: "csm_ptr \<Rightarrow> mac_ptr \<Rightarrow> System \<Rightarrow> System" where
  "mac_clear_pending c p s =
     (let s1 = del_mac_from_chip c p s
      in if mac_fdb_type (mac_of s1 c p) \<noteq> MAC_TYPE_STATIC
         then mac_free_unlisted c p (upd_mac c p (\<lambda>m. m\<lparr>mac_op_type := MAC_SYNC_DEL\<rparr>)
                (mac_rb_remove c p s1))
         else upd_mac c p (\<lambda>m. m\<lparr>mac_pending_local_del := 0\<rparr>) s1)"

definition mac_port_up :: "csm_ptr \<Rightarrow> mac_ptr \<Rightarrow> System \<Rightarrow> System" where
  "mac_port_up c p s =
     (if mac_ifname (mac_of s c p) = csm_peer_itf_name (csm_of s c)
      then
        let s1 = upd_mac c p (\<lambda>m. m\<lparr>mac_pending_local_del := 0,
                   mac_ifname := mac_origin_ifname m\<rparr>) s
        in add_mac_to_chip c p (if mac_age_flag (mac_of s1 c p) = MAC_AGE_LOCAL
                                then mac_fdb_type (mac_of s1 c p) else MAC_TYPE_DYNAMIC_LOCAL) s1
      else if mac_pending_local_del (mac_of s c p) \<noteq> 0 then mac_clear_pending c p s
      else s)"

definition update_l2_mac_state :: "csm_ptr \<Rightarrow> lif_ptr \<Rightarrow> bool \<Rightarrow> System \<Rightarrow> System" where
  "update_l2_mac_state c l po_state s =
     (let name = lif_name (lif_of s l); pif = peer_if_find_by_name (csm_of s c) name;
          s1 = upd_lif l (\<lambda>i. i\<lparr>lif_po_down_time := (if po_state then 0 else env_time s)\<rparr>) s
      in mac_foreach c (\<lambda>p s. if name \<noteq> mac_origin_ifname (mac_of s c p) then s
                              else if po_state then mac_port_up c p s
                              else mac_port_down c pif p s) s1)"

definition update_orphan_port_mac :: "csm_ptr \<Rightarrow> lif_ptr \<Rightarrow> bool \<Rightarrow> System \<Rightarrow> System" where
  "update_orphan_port_mac c l state s =
     (if \<not> state then s
      else mac_foreach c (\<lambda>p s.
             if mac_origin_ifname (mac_of s c p) = lif_name (lif_of s l)
                \<and> mac_age_flag (mac_of s c p) = MAC_AGE_PEER
                \<and> ml_current_state (MLACP (csm_of s c)) = MLACP_STATE_EXCHANGE
             then mac_enqueue c p (upd_mac c p (\<lambda>m. m\<lparr>mac_op_type := MAC_SYNC_ADD\<rparr>) s)
             else s) s)"

definition mlacp_convert_remote_mac_to_local :: "csm_ptr \<Rightarrow> string \<Rightarrow> System \<Rightarrow> System" where
  "mlacp_convert_remote_mac_to_local c po_name s =
     (case local_if_find_by_name po_name s of None \<Rightarrow> s
      | Some l \<Rightarrow>
          if lif_state (lif_of s l) = PORT_STATE_DOWN then s
          else mac_foreach c (\<lambda>p s.
                 if mac_origin_ifname (mac_of s c p) = po_name
                    \<and> mac_age_flag (mac_of s c p) = MAC_AGE_LOCAL
                 then mac_enqueue c p (upd_mac c p (\<lambda>m. m\<lparr>mac_op_type := MAC_SYNC_ADD\<rparr>)
                        (add_mac_to_chip c p MAC_TYPE_DYNAMIC_LOCAL
                          (upd_mac c p (\<lambda>m. m\<lparr>mac_age_flag := MAC_AGE_PEER\<rparr>) s)))
                 else s) s)"

definition update_remote_macs_to_peerlink :: "csm_ptr \<Rightarrow> lif_ptr \<Rightarrow> System \<Rightarrow> System" where
  "update_remote_macs_to_peerlink c l s =
     mac_foreach c (\<lambda>p s.
       let peer_itf = csm_peer_itf_name (csm_of s c)
       in if lif_name (lif_of s l) = mac_origin_ifname (mac_of s c p)
             \<and> mac_age_flag (mac_of s c p) AND MAC_AGE_PEER = 0
             \<and> peer_itf \<noteq> [] \<and> peer_link_is_up s c \<and> mac_ifname (mac_of s c p) \<noteq> peer_itf
          then add_mac_to_chip c p (mac_fdb_type (mac_of s c p)) (mac_set_ifname c p peer_itf s)
          else s) s"

definition mac_peer_disconnected :: "csm_ptr \<Rightarrow> mac_ptr \<Rightarrow> System \<Rightarrow> System" where
  "mac_peer_disconnected c p s =
     (if mac_ifname (mac_of s c p) = csm_peer_itf_name (csm_of s c)
      then
        let s1 = upd_mac c p (\<lambda>m. m\<lparr>mac_age_flag := mac_age_flag m OR MAC_AGE_PEER\<rparr>) s
        in if both_aged (mac_of s1 c p) \<or> mac_pending_local_del (mac_of s1 c p) \<noteq> 0
           then mac_remove c p (del_mac_from_chip c p s1) else s1
      else if mac_age_flag (mac_of s c p) = 0
      then upd_mac c p (\<lambda>m. m\<lparr>mac_age_flag := MAC_AGE_PEER\<rparr>) s
      else if mac_age_flag (mac_of s c p) = MAC_AGE_LOCAL
      then upd_mac c p (\<lambda>m. m\<lparr>mac_age_flag := MAC_AGE_PEER\<rparr>)
             (add_mac_to_chip c p MAC_TYPE_DYNAMIC_LOCAL s)
      else s)"

definition mlacp_peer_disconn_fdb_handler :: "csm_ptr \<Rightarrow> System \<Rightarrow> System" where
  "mlacp_peer_disconn_fdb_handler c s = mac_foreach c (mac_peer_disconnected c) s"

text \<open>The events of the peer link.\<close>

definition mlacp_peerlink_up_handler :: "csm_ptr \<Rightarrow> System \<Rightarrow> System" where
  "mlacp_peerlink_up_handler c s = mac_foreach c (\<lambda>p s.
     if mac_ifname (mac_of s c p) = csm_peer_itf_name (csm_of s c)
     then add_mac_to_chip c p (mac_fdb_type (mac_of s c p)) s else s) s"

definition mac_peerlink_down :: "csm_ptr \<Rightarrow> mac_ptr \<Rightarrow> System \<Rightarrow> System" where
  "mac_peerlink_down c p s =
     (if mac_ifname (mac_of s c p) \<noteq> csm_peer_itf_name (csm_of s c) then s
      else
        let s1 = (if mac_pending_local_del (mac_of s c p) = 0 then mac_set_local_age c p True s else s);
            s2 = del_mac_from_chip c p s1
        in if both_aged (mac_of s2 c p) then mac_remove c p s2 else s2)"

definition mlacp_peerlink_down_handler :: "csm_ptr \<Rightarrow> System \<Rightarrow> System" where
  "mlacp_peerlink_down_handler c s = mac_foreach c (mac_peerlink_down c) s"

section \<open>Synchronisation\<close>

definition MAX_MAC_ENTRY_NUM :: nat where [const_defs]: "MAX_MAC_ENTRY_NUM = 30"
definition MLACP_LOCAL_IF_DOWN_TIMER :: int where [const_defs]: "MLACP_LOCAL_IF_DOWN_TIMER = 600"

definition mlacp_sync_mac :: "csm_ptr \<Rightarrow> System \<Rightarrow> System" where
  "mlacp_sync_mac c s = mac_foreach c (\<lambda>p s.
     if mac_age_flag (mac_of s c p) AND MAC_AGE_LOCAL = 0
     then mac_enqueue c p (upd_mac c p (\<lambda>m. m\<lparr>mac_op_type := MAC_SYNC_ADD\<rparr>) s)
     else s) s"

definition mlacp_local_lif_clear_pending_mac :: "csm_ptr \<Rightarrow> lif_ptr \<Rightarrow> System \<Rightarrow> System" where
  "mlacp_local_lif_clear_pending_mac c l s = mac_foreach c (\<lambda>p s.
     if mac_pending_local_del (mac_of s c p) \<noteq> 0
        \<and> mac_origin_ifname (mac_of s c p) = lif_name (lif_of s l)
     then mac_clear_pending c p s else s) s"

definition mlacp_local_lif_state_mac_handler :: "csm_ptr \<Rightarrow> System \<Rightarrow> System" where
  "mlacp_local_lif_state_mac_handler c s = foldl (\<lambda>s l.
     let lif = lif_of s l
     in if lif_state lif = PORT_STATE_DOWN \<and> lif_type lif = IF_T_PORT_CHANNEL
           \<and> lif_po_down_time lif \<noteq> 0
           \<and> env_time s - lif_po_down_time lif > MLACP_LOCAL_IF_DOWN_TIMER
        then upd_lif l (\<lambda>i. i\<lparr>lif_po_down_time := 0\<rparr>) (mlacp_local_lif_clear_pending_mac c l s)
        else s) s (ml_lif_list (MLACP (csm_of s c)))"

text \<open>
  After an entry was copied into the message it is freed if it stands for a deletion and is not in
  the tree any more. The code looks at the parent link first, which is set for every node but the
  root; for a node of the tree either that test or the lookup keeps the entry.
\<close>

definition mac_sent :: "csm_ptr \<Rightarrow> mac_ptr \<Rightarrow> System \<Rightarrow> System" where
  "mac_sent c p s =
     (let m = mac_of s c p
      in if mac_op_type m = MAC_SYNC_DEL \<and> mac_find (mac_vid m) (mac_addr m) s c = None
         then upd_ml c (\<lambda>l. l\<lparr>ml_mac_freed := p # ml_mac_freed l\<rparr>) s else s)"

text \<open>The loop: the number of entries in the buffer, the buffer, and the message length so far.\<close>

fun send_mac_loop :: "csm_ptr \<Rightarrow> mac_ptr list \<Rightarrow> nat \<Rightarrow> bytes \<Rightarrow> int \<Rightarrow> System \<Rightarrow> System" where
  "send_mac_loop c [] count buf msg_len s =
     (if count \<noteq> 0 then snd (iccp_csm_send c buf msg_len s) else s)"
| "send_mac_loop c (p # ps) count buf msg_len s =
     (let s1 = upd_ml c (\<lambda>l. l\<lparr>ml_mac_msg_list := ps\<rparr>) s;
          (len, buf1, s2) = mlacp_prepare_for_mac_info_to_peer c CSM_BUFFER_SIZE (mac_of s1 c p)
                              count buf s1;
          s3 = mac_sent c p s2
      in if MAX_MAC_ENTRY_NUM \<le> count + 1
         then send_mac_loop c ps 0 [] len (snd (iccp_csm_send c buf1 len s3))
         else send_mac_loop c ps (count + 1) buf1 len s3)"

definition mlacp_sync_send_syncMacInfo :: "csm_ptr \<Rightarrow> System \<Rightarrow> System" where
  "mlacp_sync_send_syncMacInfo c s = send_mac_loop c (mac_msg_list s c) 0 [] 0 s"

text \<open>
  \<open>mlacp_mac_msg_queue_reinit\<close> frees the listed deletions, and then visits the nodes of the tree;
  visiting a node that was freed has no defined result.
\<close>

definition mlacp_mac_msg_queue_reinit :: "csm_ptr \<Rightarrow> System \<Rightarrow> System option" where
  "mlacp_mac_msg_queue_reinit c s =
     (let dels = filter (\<lambda>p. mac_op_type (mac_of s c p) = MAC_SYNC_DEL) (mac_msg_list s c);
          s1 = upd_ml c (\<lambda>l. l\<lparr>ml_mac_msg_list := [], ml_mac_freed := rev dels @ ml_mac_freed l\<rparr>) s
      in if list_ex (\<lambda>p. p \<in> set (ml_mac_freed (MLACP (csm_of s1 c)))) (mac_rb s1 c) then None
         else Some s1)"

section \<open>Updates from the peer\<close>

text \<open>The MCLAG port channel with the given name, and the entry pointed to the peer link.\<close>

definition mclag_if_of :: "string \<Rightarrow> csm_ptr \<Rightarrow> System \<Rightarrow> lif_ptr option" where
  "mclag_if_of ifname c s =
     find (\<lambda>l. lif_type (lif_of s l) = IF_T_PORT_CHANNEL \<and> lif_name (lif_of s l) = ifname)
       (ml_lif_list (MLACP (csm_of s c)))"

definition mac_to_peer_link :: "csm_ptr \<Rightarrow> mac_ptr \<Rightarrow> System \<Rightarrow> System" where
  "mac_to_peer_link c p s =
     (let peer_itf = csm_peer_itf_name (csm_of s c)
      in if mac_ifname (mac_of s c p) = peer_itf then s
         else add_mac_to_chip c p (mac_fdb_type (mac_of s c p)) (mac_set_ifname c p peer_itf s))"

text \<open>\<open>l\<close> is the local MCLAG port, if there is one; an orphan port or a port that is down.\<close>

definition mac_not_here :: "lif_ptr option \<Rightarrow> System \<Rightarrow> bool" where
  "mac_not_here l s \<longleftrightarrow>
     (case l of None \<Rightarrow> True | Some q \<Rightarrow> lif_state (lif_of s q) = PORT_STATE_DOWN)"

definition mac_peer_moved :: "csm_ptr \<Rightarrow> mac_ptr \<Rightarrow> lif_ptr option \<Rightarrow> string \<Rightarrow> System \<Rightarrow> System" where
  "mac_peer_moved c p l ifname s =
     (if mac_fdb_type (mac_of s c p) = MAC_TYPE_STATIC
      then upd_mac c p (\<lambda>m. m\<lparr>mac_age_flag := mac_age_flag m OR MAC_AGE_PEER\<rparr>) s
      else
        let s1 = upd_mac c p (\<lambda>m. m\<lparr>mac_origin_ifname := ifname\<rparr>) s
        in if mac_not_here l s1
           then
             let s2 = mac_set_local_age c p True s1
             in if csm_peer_itf_name (csm_of s2 c) \<noteq> [] then mac_to_peer_link c p s2
                else
                  let s3 = mac_set_ifname c p ifname (del_mac_from_chip c p s2)
                  in if l = None then mac_remove c p s3 else s3
           else
             let s2 = mac_set_ifname c p ifname s1
             in add_mac_to_chip c p (mac_fdb_type (mac_of s2 c p)) s2)"

text \<open>The peer has the address: its age flag goes, and so does the wait for a port that is down.\<close>

definition mac_peer_seen :: "csm_ptr \<Rightarrow> mac_ptr \<Rightarrow> lif_ptr option \<Rightarrow> System \<Rightarrow> System" where
  "mac_peer_seen c p l s =
     (let s1 = upd_mac c p (\<lambda>m. m\<lparr>mac_age_flag := mac_age_flag m AND NOT MAC_AGE_PEER\<rparr>) s
      in if l \<noteq> None \<and> mac_pending_local_del (mac_of s1 c p) \<noteq> 0
         then mac_enqueue c p (upd_mac c p (\<lambda>m. m\<lparr>mac_pending_local_del := 0,
                mac_age_flag := MAC_AGE_LOCAL, mac_op_type := MAC_SYNC_DEL\<rparr>) s1)
         else s1)"

definition mac_peer_add :: "csm_ptr \<Rightarrow> mac_ptr \<Rightarrow> lif_ptr option \<Rightarrow> string \<Rightarrow> System \<Rightarrow> System" where
  "mac_peer_add c p l ifname s =
     (let s1 = mac_peer_seen c p l s; m = mac_of s1 c p
      in if mac_ifname m \<noteq> ifname \<or> mac_origin_ifname m \<noteq> ifname
         then mac_peer_moved c p l ifname s1
         else if l = None \<and> csm_peer_itf_name (csm_of s1 c) \<noteq> [] then mac_to_peer_link c p s1
         else s1)"

definition mac_peer_del :: "csm_ptr \<Rightarrow> mac_ptr \<Rightarrow> System \<Rightarrow> System" where
  "mac_peer_del c p s =
     (let s1 = upd_mac c p (\<lambda>m. m\<lparr>mac_age_flag := mac_age_flag m OR MAC_AGE_PEER\<rparr>) s
      in if both_aged (mac_of s1 c p) then mac_remove c p (del_mac_from_chip c p s1) else s1)"

definition peer_mac_entry :: "csm_ptr \<Rightarrow> mLACPMACData \<Rightarrow> lif_ptr option \<Rightarrow> string \<Rightarrow> System \<Rightarrow> MACMsg" where
  "peer_mac_entry c d l ifname s =
     zero_MACMsg\<lparr>mac_fdb_type := md_mac_type d, mac_vid := ntohs (md_vid d),
       mac_addr := md_mac_addr d, mac_origin_ifname := ifname,
       mac_ifname := (if mac_not_here l s \<and> csm_peer_itf_name (csm_of s c) \<noteq> []
                      then csm_peer_itf_name (csm_of s c) else ifname),
       mac_age_flag := local_age_flag True 0\<rparr>"

definition mac_peer_new :: "csm_ptr \<Rightarrow> mLACPMACData \<Rightarrow> lif_ptr option \<Rightarrow> string \<Rightarrow> System \<Rightarrow> System" where
  "mac_peer_new c d l ifname s =
     (let peer_itf = csm_peer_itf_name (csm_of s c); m = peer_mac_entry c d l ifname s
      in if mac_not_here l s \<and> peer_itf = [] \<and> l = None then s
         else case mac_create c m s of
                (None, s1) \<Rightarrow> s1
              | (Some p, s1) \<Rightarrow>
                  if mac_ifname m = peer_itf
                  then (if peer_link_is_up s1 c
                        then add_stack_mac_to_chip m (mac_fdb_type m) s1 else s1)
                  else if \<not> mac_not_here l s1 then add_stack_mac_to_chip m (mac_fdb_type m) s1
                  else s1)"

text \<open>
  One entry of a message from the peer. The name in the entry is compared and printed as a C
  string, so a name without a terminator has no defined result.
\<close>

definition mlacp_fsm_update_mac_entry_from_peer ::
  "csm_ptr \<Rightarrow> mLACPMACData \<Rightarrow> System \<Rightarrow> System option" where
  "mlacp_fsm_update_mac_entry_from_peer c d s =
     (if md_mac_addr d = null_mac then Some s
      else
        case c_string (md_ifname d) of None \<Rightarrow> None
        | Some ifname \<Rightarrow>
            let l = mclag_if_of ifname c s
            in Some (case mac_find (ntohs (md_vid d)) (md_mac_addr d) s c of
                 Some p \<Rightarrow> if md_type d = MAC_SYNC_ADD then mac_peer_add c p l ifname s
                           else if md_type d = MAC_SYNC_DEL then mac_peer_del c p s else s
               | None \<Rightarrow> if md_type d = MAC_SYNC_ADD then mac_peer_new c d l ifname s else s))"

fun update_mac_entries :: "csm_ptr \<Rightarrow> nat \<Rightarrow> bytes \<Rightarrow> System \<Rightarrow> System option" where
  "update_mac_entries c 0 bs s = Some s"
| "update_mac_entries c (Suc n) bs s =
     (case de_mLACPMACData bs of None \<Rightarrow> None
      | Some (d, r) \<Rightarrow>
          (case mlacp_fsm_update_mac_entry_from_peer c d s of None \<Rightarrow> None
           | Some s1 \<Rightarrow> update_mac_entries c n r s1))"

text \<open>\<open>tlv\<close> is the message from the TLV on.\<close>

definition mlacp_fsm_update_mac_info_from_peer :: "csm_ptr \<Rightarrow> bytes \<Rightarrow> System \<Rightarrow> System option" where
  "mlacp_fsm_update_mac_info_from_peer c tlv s =
     (case de_mLACPMACInfoTLV tlv of None \<Rightarrow> None
      | Some (t, r) \<Rightarrow> update_mac_entries c (unat (ntohs (mi_num_of_entry t))) r s)"

section \<open>Updates from mclagsyncd\<close>

text \<open>The MCLAG port channel the address was learned on; a search that meets a peer link stops.\<close>

fun find_mclag_if :: "string \<Rightarrow> csm_ptr list \<Rightarrow> System \<Rightarrow> lif_ptr option" where
  "find_mclag_if ifname [] s = None"
| "find_mclag_if ifname (c # cs) s =
     (if ifname = csm_peer_itf_name (csm_of s c) then None
      else case mclag_if_of ifname c s of Some l \<Rightarrow> Some l | None \<Rightarrow> find_mclag_if ifname cs s)"

definition pif_is :: "u8 \<Rightarrow> PeerInterface option \<Rightarrow> bool" where
  "pif_is st pif \<longleftrightarrow> (case pif of None \<Rightarrow> False | Some i \<Rightarrow> pif_state i = st)"

definition syncd_add_known ::
  "csm_ptr \<Rightarrow> mac_ptr \<Rightarrow> MACMsg \<Rightarrow> bool \<Rightarrow> PeerInterface option \<Rightarrow> lif_ptr \<Rightarrow> System \<Rightarrow> System" where
  "syncd_add_known c p m from_mclag pif mac_lif s =
     (if lif_state (lif_of s mac_lif) = PORT_STATE_DOWN \<and> from_mclag \<and> pif_is PORT_STATE_UP pif
      then add_mac_to_chip c p (mac_fdb_type m)
             (upd_mac c p (\<lambda>i. i\<lparr>mac_pending_local_del := 1, mac_fdb_type := mac_fdb_type m,
                mac_origin_ifname := mac_ifname m,
                mac_ifname := csm_peer_itf_name (csm_of s c)\<rparr>) s)
      else if mac_fdb_type (mac_of s c p) \<noteq> mac_fdb_type m
              \<or> mac_ifname (mac_of s c p) \<noteq> mac_ifname m
              \<or> mac_origin_ifname (mac_of s c p) \<noteq> mac_ifname m
      then
        let s1 = upd_mac c p (\<lambda>i. i\<lparr>mac_fdb_type := mac_fdb_type m, mac_ifname := mac_ifname m,
                   mac_origin_ifname := mac_ifname m\<rparr>) s;
            s2 = mac_set_local_age c p False s1
        in if mac_age_flag m AND MAC_AGE_PEER = 0
           then del_stack_mac_from_chip m
                  (upd_mac c p (\<lambda>i. i\<lparr>mac_age_flag := MAC_AGE_PEER\<rparr>) s2)
           else s2
      else
        let s1 = mac_set_local_age c p False s
        in if mac_age_flag m AND MAC_AGE_PEER = 0 then del_stack_mac_from_chip m s1 else s1)"

definition syncd_add_new ::
  "csm_ptr \<Rightarrow> MACMsg \<Rightarrow> bool \<Rightarrow> PeerInterface option \<Rightarrow> lif_ptr \<Rightarrow> System \<Rightarrow> System" where
  "syncd_add_new c m from_mclag pif mac_lif s =
     (let down = (lif_state (lif_of s mac_lif) = PORT_STATE_DOWN)
      in if from_mclag \<and> down \<and> pif_is PORT_STATE_DOWN pif then del_stack_mac_from_chip m s
         else
           let m1 = m\<lparr>mac_age_flag := mac_age_flag m OR MAC_AGE_PEER,
                      mac_op_type := MAC_SYNC_ADD\<rparr>
           in case mac_create c m1 s of
                (None, s1) \<Rightarrow> s1
              | (Some p, s1) \<Rightarrow>
                  if down
                  then (if from_mclag \<and> pif_is PORT_STATE_UP pif
                        then add_stack_mac_to_chip (m1\<lparr>mac_pending_local_del := 1,
                               mac_ifname := csm_peer_itf_name (csm_of s1 c)\<rparr>)
                               (mac_fdb_type m1) s1
                        else s1)
                  else if ml_current_state (MLACP (csm_of s1 c)) = MLACP_STATE_EXCHANGE
                  then upd_ml c (\<lambda>l. l\<lparr>ml_mac_msg_list := ml_mac_msg_list l @ [p]\<rparr>) s1
                  else s1)"

definition syncd_aged_out :: "csm_ptr \<Rightarrow> mac_ptr \<Rightarrow> System \<Rightarrow> System" where
  "syncd_aged_out c p s =
     mac_remove c p (if mac_add_to_syncd (mac_of s c p) \<noteq> 0 then del_mac_from_chip c p s else s)"

definition syncd_add_back :: "csm_ptr \<Rightarrow> mac_ptr \<Rightarrow> System \<Rightarrow> System" where
  "syncd_add_back c p s = add_mac_to_chip c p (mac_fdb_type (mac_of s c p)) s"

text \<open>A deletion of an entry that points to the peer link, and of any other entry.\<close>

definition syncd_del_peer_link :: "csm_ptr \<Rightarrow> mac_ptr \<Rightarrow> System \<Rightarrow> System" where
  "syncd_del_peer_link c p s =
     (let s1 = mac_set_local_age c p True s
      in if both_aged (mac_of s1 c p) then syncd_aged_out c p s1
         else case csm_peer_link_if (csm_of s1 c) of None \<Rightarrow> s1
              | Some q \<Rightarrow> if lif_state (lif_of s1 q) \<noteq> PORT_STATE_DOWN
                          then syncd_add_back c p s1 else s1)"

definition syncd_del_local :: "csm_ptr \<Rightarrow> mac_ptr \<Rightarrow> lif_ptr option \<Rightarrow> System \<Rightarrow> System" where
  "syncd_del_local c p lif_po s =
     (let s1 = mac_set_local_age c p True s; peer_itf = csm_peer_itf_name (csm_of s1 c)
      in if both_aged (mac_of s1 c p) then syncd_aged_out c p s1
         else if (case lif_po of None \<Rightarrow> False
                  | Some l \<Rightarrow> lif_state (lif_of s1 l) = PORT_STATE_DOWN)
         then (if peer_itf \<noteq> []
               then let s2 = mac_set_ifname c p peer_itf s1
                    in if peer_link_is_up s2 c then syncd_add_back c p s2 else s2
               else s1)
         else case local_if_find_by_name (mac_ifname (mac_of s1 c p)) s1 of None \<Rightarrow> s1
              | Some l \<Rightarrow> if lif_state (lif_of s1 l) = PORT_STATE_UP
                          then syncd_add_back c p s1 else s1)"

definition syncd_del :: "csm_ptr \<Rightarrow> mac_ptr \<Rightarrow> lif_ptr option \<Rightarrow> System \<Rightarrow> System" where
  "syncd_del c p lif_po s =
     (if mac_ifname (mac_of s c p) = csm_peer_itf_name (csm_of s c)
      then (if mac_pending_local_del (mac_of s c p) \<noteq> 0 then s else syncd_del_peer_link c p s)
      else syncd_del_local c p lif_po s)"

definition do_mac_update_from_syncd ::
  "bytes \<Rightarrow> u16 \<Rightarrow> string \<Rightarrow> u8 \<Rightarrow> u8 \<Rightarrow> System \<Rightarrow> System" where
  "do_mac_update_from_syncd addr vid ifname fdb_ty op_type s =
     (if addr = null_mac then s
      else case sys_csm_list s of [] \<Rightarrow> s
      | c # _ \<Rightarrow>
          let lif_po = find_mclag_if ifname (sys_csm_list s) s;
              pif = peer_if_find_by_name (csm_of s c) ifname;
              info = mac_find vid addr s c;
              m = zero_MACMsg\<lparr>mac_op_type := op_type, mac_fdb_type := fdb_ty, mac_addr := addr,
                    mac_vid := vid, mac_ifname := ifname, mac_origin_ifname := ifname\<rparr>
          in if op_type = MAC_SYNC_ADD
             then (case local_if_find_by_name ifname s of None \<Rightarrow> s
                   | Some mac_lif \<Rightarrow>
                       if csm_peer_itf_name (csm_of s c) = ifname then s
                       else case info of
                              Some p \<Rightarrow> syncd_add_known c p m (lif_po \<noteq> None) pif mac_lif s
                            | None \<Rightarrow> syncd_add_new c m (lif_po \<noteq> None) pif mac_lif s)
             else (case info of None \<Rightarrow> s | Some p \<Rightarrow> syncd_del c p lif_po s))"

section \<open>What the primitives change\<close>

lemma upd_ml_frame [simp]:
  "MLACP (csm_of (upd_ml c f s) d) = (if d = c then f (MLACP (csm_of s c)) else MLACP (csm_of s d))"
  "csm_peer_itf_name (csm_of (upd_ml c f s) d) = csm_peer_itf_name (csm_of s d)"
  "csm_peer_link_if (csm_of (upd_ml c f s) d) = csm_peer_link_if (csm_of s d)"
  "csm_role_type (csm_of (upd_ml c f s) d) = csm_role_type (csm_of s d)"
  "sys_lif_heap (upd_ml c f s) = sys_lif_heap s" "sys_lif_list (upd_ml c f s) = sys_lif_list s"
  "sys_csm_list (upd_ml c f s) = sys_csm_list s" "env_time (upd_ml c f s) = env_time s"
  "sys_sync_fd (upd_ml c f s) = sys_sync_fd s" "syncd_tx (upd_ml c f s) = syncd_tx s"
  "peer_tx (upd_ml c f s) = peer_tx s"
  by (simp_all add: upd_ml_def upd_csm_def upd_mlacp_def upd_app_def)

lemma upd_mac_mlacp:
  "MLACP (csm_of (upd_mac c p f s) d) =
     (if d = c then (MLACP (csm_of s c))\<lparr>ml_mac_heap := (ml_mac_heap (MLACP (csm_of s c)))
        (p := f (mac_of s c p))\<rparr> else MLACP (csm_of s d))"
  by (simp add: upd_mac_def)

lemma upd_mac_sel [simp]:
  "mac_rb (upd_mac c p f s) d = mac_rb s d"
  "mac_msg_list (upd_mac c p f s) d = mac_msg_list s d"
  "ml_mac_freed (MLACP (csm_of (upd_mac c p f s) d)) = ml_mac_freed (MLACP (csm_of s d))"
  "ml_mac_next (MLACP (csm_of (upd_mac c p f s) d)) = ml_mac_next (MLACP (csm_of s d))"
  "ml_current_state (MLACP (csm_of (upd_mac c p f s) d)) = ml_current_state (MLACP (csm_of s d))"
  "mac_of (upd_mac c p f s) c q = (if q = p then f (mac_of s c p) else mac_of s c q)"
  by (simp_all add: upd_mac_mlacp)

lemma upd_mac_frame [simp]:
  "csm_peer_itf_name (csm_of (upd_mac c p f s) d) = csm_peer_itf_name (csm_of s d)"
  "csm_peer_link_if (csm_of (upd_mac c p f s) d) = csm_peer_link_if (csm_of s d)"
  "sys_lif_heap (upd_mac c p f s) = sys_lif_heap s" "sys_lif_list (upd_mac c p f s) = sys_lif_list s"
  "sys_csm_list (upd_mac c p f s) = sys_csm_list s" "env_time (upd_mac c p f s) = env_time s"
  "sys_sync_fd (upd_mac c p f s) = sys_sync_fd s" "syncd_tx (upd_mac c p f s) = syncd_tx s"
  by (simp_all add: upd_mac_def)

lemma mac_enqueue_mlacp:
  "MLACP (csm_of (mac_enqueue c p s) d) =
     (if d = c \<and> p \<notin> set (mac_msg_list s c)
      then (MLACP (csm_of s c))\<lparr>ml_mac_msg_list := mac_msg_list s c @ [p]\<rparr>
      else MLACP (csm_of s d))"
  by (simp add: mac_enqueue_def)

lemma mac_enqueue_sel [simp]:
  "mac_rb (mac_enqueue c p s) d = mac_rb s d"
  "mac_of (mac_enqueue c p s) d q = mac_of s d q"
  "set (mac_msg_list (mac_enqueue c p s) c) = insert p (set (mac_msg_list s c))"
  "ml_current_state (MLACP (csm_of (mac_enqueue c p s) d)) = ml_current_state (MLACP (csm_of s d))"
  by (auto simp: mac_enqueue_mlacp)

lemma mac_enqueue_frame [simp]:
  "csm_peer_itf_name (csm_of (mac_enqueue c p s) d) = csm_peer_itf_name (csm_of s d)"
  "csm_peer_link_if (csm_of (mac_enqueue c p s) d) = csm_peer_link_if (csm_of s d)"
  "sys_lif_heap (mac_enqueue c p s) = sys_lif_heap s"
  "sys_lif_list (mac_enqueue c p s) = sys_lif_list s"
  "sys_csm_list (mac_enqueue c p s) = sys_csm_list s" "env_time (mac_enqueue c p s) = env_time s"
  "syncd_tx (mac_enqueue c p s) = syncd_tx s"
  by (simp_all add: mac_enqueue_def)

lemma send_fdb_only_syncd: "only_syncd s (snd (iccp_send_fdb_entry_to_syncd m ty oper s))"
proof -
  have "only_syncd s (snd (iccp_send_to_mclagsyncd t msg s))" for t msg
    using syncd_send_loop_outcome [of t msg 0 0 s]
    by (cases "syncd_send_loop t msg 0 0 s")
      (auto simp: iccp_send_to_mclagsyncd_def send_outcome_def)
  then show ?thesis
    by (simp add: iccp_send_fdb_entry_to_syncd_def Let_def)
qed

lemma stack_chip_only_syncd [simp]:
  "only_syncd s (add_stack_mac_to_chip m ty s)" "only_syncd s (del_stack_mac_from_chip m s)"
  by (simp_all add: add_stack_mac_to_chip_def del_stack_mac_from_chip_def send_fdb_only_syncd)

text \<open>A report to the hardware table changes only the entry's mark that it was reported.\<close>

definition mac_reported :: "u8 \<Rightarrow> MACMsg \<Rightarrow> MACMsg" where
  "mac_reported oper m = (if mac_addr m = null_mac then m
      else m\<lparr>mac_add_to_syncd := (if oper = MAC_SYNC_DEL then 0 else 1)\<rparr>)"

lemma send_fdb_entry [simp]: "fst (iccp_send_fdb_entry_to_syncd m ty oper s) = mac_reported oper m"
  by (simp add: iccp_send_fdb_entry_to_syncd_def mac_reported_def Let_def)

lemma mac_reported_sel [simp]:
  "mac_vid (mac_reported oper m) = mac_vid m" "mac_addr (mac_reported oper m) = mac_addr m"
  "mac_op_type (mac_reported oper m) = mac_op_type m"
  "mac_fdb_type (mac_reported oper m) = mac_fdb_type m"
  "mac_ifname (mac_reported oper m) = mac_ifname m"
  "mac_origin_ifname (mac_reported oper m) = mac_origin_ifname m"
  "mac_age_flag (mac_reported oper m) = mac_age_flag m"
  "mac_pending_local_del (mac_reported oper m) = mac_pending_local_del m"
  by (simp_all add: mac_reported_def)

lemma mac_to_chip_eq:
  "mac_to_chip c p ty oper s = upd_mac c p (mac_reported oper)
     (snd (iccp_send_fdb_entry_to_syncd (mac_of s c p) ty oper s))"
proof -
  have heap: "sys_csm_heap (snd (iccp_send_fdb_entry_to_syncd m ty oper s)) = sys_csm_heap s" for m
    by (rule only_syncd_frame(1) [OF send_fdb_only_syncd])
  show ?thesis
    by (simp add: mac_to_chip_def upd_mac_def upd_ml_def upd_csm_def upd_mlacp_def upd_app_def
        split_beta heap)
qed

lemma mac_to_chip_sel [simp]:
  "mac_rb (mac_to_chip c p ty oper s) d = mac_rb s d"
  "mac_msg_list (mac_to_chip c p ty oper s) d = mac_msg_list s d"
  "ml_current_state (MLACP (csm_of (mac_to_chip c p ty oper s) d)) = ml_current_state (MLACP (csm_of s d))"
  "mac_of (mac_to_chip c p ty oper s) c q =
     (if q = p then mac_reported oper (mac_of s c p) else mac_of s c q)"
  "csm_peer_itf_name (csm_of (mac_to_chip c p ty oper s) d) = csm_peer_itf_name (csm_of s d)"
  "csm_peer_link_if (csm_of (mac_to_chip c p ty oper s) d) = csm_peer_link_if (csm_of s d)"
  "sys_lif_heap (mac_to_chip c p ty oper s) = sys_lif_heap s"
  "sys_lif_list (mac_to_chip c p ty oper s) = sys_lif_list s"
  "sys_csm_list (mac_to_chip c p ty oper s) = sys_csm_list s"
  "env_time (mac_to_chip c p ty oper s) = env_time s"
  by (simp_all add: mac_to_chip_eq only_syncd_frame [OF send_fdb_only_syncd])

lemmas chip_defs = add_mac_to_chip_def del_mac_from_chip_def

text \<open>An entry's operation and flags may change, its key may not.\<close>

definition keeps_key :: "(MACMsg \<Rightarrow> MACMsg) \<Rightarrow> bool" where
  "keeps_key f \<longleftrightarrow> (\<forall>m. mac_vid (f m) = mac_vid m \<and> mac_addr (f m) = mac_addr m)"

declare keeps_key_def [simp]

lemma upd_ml_upd_ml: "upd_ml c f (upd_ml c g s) = upd_ml c (\<lambda>m. f (g m)) s"
  by (simp add: upd_ml_def upd_csm_def upd_mlacp_def upd_app_def)

lemma upd_ml_cong:
  "f (MLACP (csm_of s c)) = g (MLACP (csm_of s c)) \<Longrightarrow> upd_ml c f s = upd_ml c g s"
  by (simp add: upd_ml_def upd_csm_def upd_mlacp_def upd_app_def)

lemma mac_remove_touched:
  "mac_free_unlisted c p (upd_mac c p f (mac_rb_remove c p s)) = mac_remove c p (upd_mac c p f s)"
  by (simp add: mac_remove_def mac_free_unlisted_def mac_rb_remove_def upd_mac_def upd_ml_upd_ml)
    (auto intro: upd_ml_cong)

text \<open>The entry \<open>p\<close> may leave the tree, no other one may.\<close>

definition removes_at_most :: "csm_ptr \<Rightarrow> mac_ptr \<Rightarrow> System \<Rightarrow> System \<Rightarrow> bool" where
  "removes_at_most c p s t \<longleftrightarrow> mac_rb t c = mac_rb s c \<or> mac_rb t c = rb_remove p (mac_rb s c)"

lemma removes_at_most_refl [simp]: "removes_at_most c p s s"
  by (simp add: removes_at_most_def)

lemma mac_remove_rb [simp]: "mac_rb (mac_remove c p s) c = rb_remove p (mac_rb s c)"
  by (simp add: mac_remove_def mac_free_unlisted_def mac_rb_remove_def)

lemma mac_set_local_age_rb [simp]: "mac_rb (mac_set_local_age c p st s) d = mac_rb s d"
  by (simp add: mac_set_local_age_def set_mac_local_age_flag_def Let_def)

lemma mac_set_ifname_rb [simp]: "mac_rb (mac_set_ifname c p n s) d = mac_rb s d"
  by (simp add: mac_set_ifname_def)

lemma mac_peer_seen_rb [simp]: "mac_rb (mac_peer_seen c p l s) d = mac_rb s d"
  by (simp add: mac_peer_seen_def Let_def)

lemma bodies_remove_at_most:
  "removes_at_most c p s (mac_port_down c pif p s)" "removes_at_most c p s (mac_clear_pending c p s)"
  "removes_at_most c p s (mac_port_up c p s)" "removes_at_most c p s (mac_peer_disconnected c p s)"
  "removes_at_most c p s (mac_peerlink_down c p s)"
  by (simp_all add: removes_at_most_def mac_port_down_def mac_clear_pending_def mac_port_up_def
      mac_peer_disconnected_def mac_peerlink_down_def mac_remove_touched chip_defs Let_def)

text \<open>Sending a message to the peer logs and counts it.\<close>

lemma count_iccp_mlacp:
  "\<exists>k. MLACP (count_iccp dir ty sts csm) = (MLACP csm)\<lparr>ml_dbg_counters := k\<rparr>"
proof (cases "mlacp_fsm_iccp_to_dbg_msg_type ty < 29 \<and> sts < 2")
  case True
  then show ?thesis by (auto simp: count_iccp_def Let_def)
next
  case False
  then have "MLACP (count_iccp dir ty sts csm) = (MLACP csm)\<lparr>ml_dbg_counters := ml_dbg_counters (MLACP csm)\<rparr>"
    by (auto simp: count_iccp_def Let_def)
  then show ?thesis by blast
qed

lemma iccp_csm_send_cases:
  obtains "iccp_csm_send c buf len s = (MCLAG_ERROR, s)"
  | e ty sts rc where "iccp_csm_send c buf len s =
      (rc, upd_csm c (MLACP_SET_ICCP_TX_DBG_COUNTER ty sts)
        ((upd_csm c (\<lambda>m. m\<lparr>csm_msg_log := log_append e (csm_msg_log m)\<rparr>) s)
          \<lparr>peer_tx := peer_tx s @ [(csm_sock_fd (csm_of s c), buf_take (nat len) buf, rc)]\<rparr>))"
proof (cases "csm_sock_fd (csm_of s c) \<le> 0 \<or> len \<le> 0")
  case True
  then show thesis using that(1) by (simp add: iccp_csm_send_def)
next
  case False
  have tx: "peer_tx (upd_csm c f s) = peer_tx s" "env_write (upd_csm c f s) = env_write s" for f
    by (simp_all add: upd_csm_def)
  show thesis
  proof (cases "de_LDPHdr (buf_take 24 buf)")
    case None
    then show thesis using that(1) False by (simp add: iccp_csm_send_def)
  next
    case (Some lr)
    then obtain ldp r where ldp: "de_LDPHdr (buf_take 24 buf) = Some (ldp, r)" by (cases lr) simp
    let ?param = "de_ICCParameter (drop (if htons (ucast (ldp_msg_type ldp)) = MSG_T_CAPABILITY
        then 8 else 16) (buf_take 24 buf))"
    show thesis
    proof (cases ?param)
      case None
      then show thesis using that(1) False ldp by (simp add: iccp_csm_send_def)
    next
      case (Some pr)
      then obtain par r' where "?param = Some (par, r')" by (cases pr) simp
      then show thesis
        using False ldp by (intro that(2)) (simp add: iccp_csm_send_def Let_def tx)
    qed
  qed
qed

lemma iccp_csm_send_mlacp:
  "\<exists>k. MLACP (csm_of (snd (iccp_csm_send c buf len s)) d) = (MLACP (csm_of s d))\<lparr>ml_dbg_counters := k\<rparr>"
proof (cases rule: iccp_csm_send_cases [of c buf len s])
  case 1
  then show ?thesis by (intro exI [of _ "ml_dbg_counters (MLACP (csm_of s d))"]) simp
next
  case (2 e ty sts rc)
  show ?thesis
    using count_iccp_mlacp [of DIR_TX ty sts "(csm_of s c)\<lparr>csm_msg_log := log_append e (csm_msg_log (csm_of s c))\<rparr>"]
    by (cases "d = c")
      (auto simp: 2 MLACP_SET_ICCP_TX_DBG_COUNTER_def intro: exI [of _ "ml_dbg_counters (MLACP (csm_of s d))"])
qed

lemma iccp_csm_send_sel [simp]:
  "mac_rb (snd (iccp_csm_send c buf len s)) d = mac_rb s d"
  "mac_msg_list (snd (iccp_csm_send c buf len s)) d = mac_msg_list s d"
  "ml_mac_heap (MLACP (csm_of (snd (iccp_csm_send c buf len s)) d)) = ml_mac_heap (MLACP (csm_of s d))"
  "ml_mac_freed (MLACP (csm_of (snd (iccp_csm_send c buf len s)) d)) = ml_mac_freed (MLACP (csm_of s d))"
  "ml_mac_next (MLACP (csm_of (snd (iccp_csm_send c buf len s)) d)) = ml_mac_next (MLACP (csm_of s d))"
  using iccp_csm_send_mlacp [of c buf len s d] by auto

section \<open>Invariants of the table\<close>

text \<open>
  What it takes for a property of the state to survive every operation on the table: it may not
  depend on the conversation with mclagsyncd, and the primitive steps have to keep it. The
  operations are proved to keep such a property once and for all.
\<close>

locale mac_invariant =
  fixes c :: csm_ptr and I :: "System \<Rightarrow> bool"
  assumes distinct_rb: "I s \<Longrightarrow> distinct (mac_rb s c)"
    and talk: "I s \<Longrightarrow> only_syncd s t \<Longrightarrow> I t"
    and touch: "I s \<Longrightarrow> p \<in> set (mac_rb s c) \<Longrightarrow> keeps_key f \<Longrightarrow> I (upd_mac c p f s)"
    and listed: "I s \<Longrightarrow> p \<in> set (mac_rb s c) \<Longrightarrow> I (mac_enqueue c p s)"
    and removed: "I s \<Longrightarrow> p \<in> set (mac_rb s c) \<Longrightarrow> I (mac_remove c p s)"
    and down_time: "I s \<Longrightarrow> I (upd_lif l (\<lambda>i. i\<lparr>lif_po_down_time := tm\<rparr>) s)"
begin

lemma chip:
  assumes "I s" "p \<in> set (mac_rb s c)"
  shows "I (mac_to_chip c p ty oper s)"
  unfolding mac_to_chip_eq
  using assms talk [OF assms(1) send_fdb_only_syncd]
  by (intro touch) (simp_all add: only_syncd_frame [OF send_fdb_only_syncd])

lemma local_age:
  assumes "I s" "p \<in> set (mac_rb s c)"
  shows "I (mac_set_local_age c p st s)"
  using assms
  by (auto simp: mac_set_local_age_def set_mac_local_age_flag_def Let_def intro!: touch listed)

lemma set_name:
  "I s \<Longrightarrow> p \<in> set (mac_rb s c) \<Longrightarrow> I (mac_set_ifname c p n s)"
  by (simp add: mac_set_ifname_def touch)

lemma add_chip: "I s \<Longrightarrow> p \<in> set (mac_rb s c) \<Longrightarrow> I (add_mac_to_chip c p ty s)"
  by (simp add: add_mac_to_chip_def chip)

lemma del_chip: "I s \<Longrightarrow> p \<in> set (mac_rb s c) \<Longrightarrow> I (del_mac_from_chip c p s)"
  by (simp add: del_mac_from_chip_def chip)

lemmas steps = touch listed removed chip local_age set_name add_chip del_chip

lemma port_down: "I s \<Longrightarrow> p \<in> set (mac_rb s c) \<Longrightarrow> I (mac_port_down c pif p s)"
  by (simp add: mac_port_down_def Let_def steps chip_defs)

lemma clear_pending: "I s \<Longrightarrow> p \<in> set (mac_rb s c) \<Longrightarrow> I (mac_clear_pending c p s)"
  by (simp add: mac_clear_pending_def mac_remove_touched Let_def steps chip_defs)

lemma port_up: "I s \<Longrightarrow> p \<in> set (mac_rb s c) \<Longrightarrow> I (mac_port_up c p s)"
  by (simp add: mac_port_up_def clear_pending Let_def steps)

lemma peer_disconnected: "I s \<Longrightarrow> p \<in> set (mac_rb s c) \<Longrightarrow> I (mac_peer_disconnected c p s)"
  by (simp add: mac_peer_disconnected_def Let_def steps chip_defs)

lemma foreach:
  assumes "I s"
    and "\<And>p s. I s \<Longrightarrow> p \<in> set (mac_rb s c) \<Longrightarrow> I (body p s) \<and> removes_at_most c p s (body p s)"
  shows "I (mac_foreach c body s)"
proof -
  have "I (foldl (\<lambda>s p. body p s) s ps)" if "I s" "set ps \<subseteq> set (mac_rb s c)" "distinct ps" for ps s
    using that
  proof (induction ps arbitrary: s)
    case (Cons p ps)
    have p: "I (body p s)" "removes_at_most c p s (body p s)"
      using Cons.prems assms(2) by simp_all
    have "set ps \<subseteq> set (mac_rb (body p s) c)"
      using p(2) Cons.prems distinct_rb [OF Cons.prems(1)]
      by (auto simp: removes_at_most_def rb_remove_def)
    with Cons.IH p(1) Cons.prems(3) show ?case by simp
  qed simp
  from this [OF assms(1) subset_refl distinct_rb [OF assms(1)]] show ?thesis
    by (simp add: mac_foreach_def)
qed

lemma l2_mac_state: "I s \<Longrightarrow> I (update_l2_mac_state c l po_state s)"
  unfolding update_l2_mac_state_def Let_def
  by (rule foreach [OF down_time])
    (auto simp: port_up port_down bodies_remove_at_most)

lemma orphan_port: "I s \<Longrightarrow> I (update_orphan_port_mac c l state s)"
  unfolding update_orphan_port_mac_def
  by (auto intro!: foreach simp: steps removes_at_most_def)

lemma convert_remote: "I s \<Longrightarrow> I (mlacp_convert_remote_mac_to_local c n s)"
  unfolding mlacp_convert_remote_mac_to_local_def
  by (auto intro!: foreach split: option.split simp: steps chip_defs removes_at_most_def)

lemma remote_to_peerlink: "I s \<Longrightarrow> I (update_remote_macs_to_peerlink c l s)"
  unfolding update_remote_macs_to_peerlink_def Let_def
  by (auto intro!: foreach simp: steps chip_defs removes_at_most_def)

lemma disconn_fdb: "I s \<Longrightarrow> I (mlacp_peer_disconn_fdb_handler c s)"
  unfolding mlacp_peer_disconn_fdb_handler_def
  by (rule foreach) (simp_all add: peer_disconnected bodies_remove_at_most)

lemma link_entry_down: "I s \<Longrightarrow> p \<in> set (mac_rb s c) \<Longrightarrow> I (mac_peerlink_down c p s)"
  by (cases "mac_pending_local_del (mac_of s c p) = 0")
    (simp_all add: mac_peerlink_down_def Let_def steps chip_defs)

lemma peerlink_down: "I s \<Longrightarrow> I (mlacp_peerlink_down_handler c s)"
  unfolding mlacp_peerlink_down_handler_def
  by (rule foreach) (simp_all add: link_entry_down bodies_remove_at_most)

lemma peerlink_up: "I s \<Longrightarrow> I (mlacp_peerlink_up_handler c s)"
  unfolding mlacp_peerlink_up_handler_def
  by (auto intro!: foreach simp: steps chip_defs removes_at_most_def)

lemma sync_mac: "I s \<Longrightarrow> I (mlacp_sync_mac c s)"
  unfolding mlacp_sync_mac_def
  by (auto intro!: foreach simp: steps removes_at_most_def)

lemma lif_clear_pending: "I s \<Longrightarrow> I (mlacp_local_lif_clear_pending_mac c l s)"
  unfolding mlacp_local_lif_clear_pending_mac_def
  by (rule foreach) (auto simp: clear_pending bodies_remove_at_most)

lemma lif_state_handler: "I s \<Longrightarrow> I (mlacp_local_lif_state_mac_handler c s)"
  unfolding mlacp_local_lif_state_mac_handler_def Let_def
  by (rule foldl_invariant) (auto simp: lif_clear_pending down_time)

lemma to_peer_link: "I s \<Longrightarrow> p \<in> set (mac_rb s c) \<Longrightarrow> I (mac_to_peer_link c p s)"
  by (simp add: mac_to_peer_link_def Let_def steps)

lemma peer_moved: "I s \<Longrightarrow> p \<in> set (mac_rb s c) \<Longrightarrow> I (mac_peer_moved c p l n s)"
  by (simp add: mac_peer_moved_def Let_def steps to_peer_link chip_defs)

lemma peer_seen: "I s \<Longrightarrow> p \<in> set (mac_rb s c) \<Longrightarrow> I (mac_peer_seen c p l s)"
  by (simp add: mac_peer_seen_def Let_def steps)

lemma peer_add: "I s \<Longrightarrow> p \<in> set (mac_rb s c) \<Longrightarrow> I (mac_peer_add c p l n s)"
  by (simp add: mac_peer_add_def Let_def peer_seen peer_moved to_peer_link)

lemma peer_del: "I s \<Longrightarrow> p \<in> set (mac_rb s c) \<Longrightarrow> I (mac_peer_del c p s)"
  by (simp add: mac_peer_del_def Let_def steps chip_defs)

lemma stack_chip: "I s \<Longrightarrow> I (add_stack_mac_to_chip m ty s)" "I s \<Longrightarrow> I (del_stack_mac_from_chip m s)"
  using talk [of s] by simp_all

lemma syncd_known:
  "I s \<Longrightarrow> p \<in> set (mac_rb s c) \<Longrightarrow> I (syncd_add_known c p m b pif l s)"
  by (simp add: syncd_add_known_def Let_def steps stack_chip)

lemma syncd_deleted: "I s \<Longrightarrow> p \<in> set (mac_rb s c) \<Longrightarrow> I (syncd_del c p l s)"
  by (simp add: syncd_del_def syncd_del_peer_link_def syncd_del_local_def syncd_aged_out_def
      syncd_add_back_def Let_def steps chip_defs split: option.split)

end

text \<open>
  The operations that create entries, that send the listed ones, and that act on whole messages
  need more: a new entry is fresh, and neither a message to the peer nor its bookkeeping disturbs
  the property.
\<close>

locale mac_table_invariant = mac_invariant +
  assumes fresh: "I s \<Longrightarrow> ml_mac_next (MLACP (csm_of s c)) \<notin> set (mac_msg_list s c) \<union> set (mac_rb s c)"
    and created: "I s \<Longrightarrow> length (mac_addr m) = 6 \<Longrightarrow> mac_find (mac_vid m) (mac_addr m) s c = None \<Longrightarrow>
      I (snd (mac_create c m s))"
    and unlisted: "I s \<Longrightarrow> mac_msg_list s c = p # ps \<Longrightarrow>
      I (mac_sent c p (upd_ml c (\<lambda>l. l\<lparr>ml_mac_msg_list := ps\<rparr>) s))"
    and numbered: "I s \<Longrightarrow> I (s\<lparr>sys_ICCP_MSG_ID := i\<rparr>)"
    and sent: "I s \<Longrightarrow> I (snd (iccp_csm_send c buf len s))"

text \<open>The two outcomes of creating an entry under a key the tree does not have.\<close>

definition mac_created :: "MACMsg \<Rightarrow> mLACP \<Rightarrow> mLACP" where
  "mac_created m l =
     (let p = ml_mac_next l; h = (ml_mac_heap l)(p := m)
      in l\<lparr>ml_mac_next := Suc p, ml_mac_heap := h,
           ml_mac_rb := rb_insert (\<lambda>p q. MACMsg_compare (h p) (h q)) p (ml_mac_rb l)\<rparr>)"

lemma mac_create_cases:
  obtains "mac_create c m s = (None, snd (malloc s))"
  | "mac_create c m s = (Some (ml_mac_next (MLACP (csm_of s c))), upd_ml c (mac_created m) (snd (malloc s)))"
proof (cases "env_malloc s (env_n_malloc s)")
  case True
  then have "mac_create c m s =
      (Some (ml_mac_next (MLACP (csm_of s c))), upd_ml c (mac_created m) (snd (malloc s)))"
    by (simp add: mac_create_def iccp_csm_init_mac_msg_def malloc_def mac_rb_insert_def upd_ml_upd_ml
        Let_def)
      (rule upd_ml_cong, simp add: mac_created_def Let_def cong: if_cong)
  with that(2) show thesis by blast
next
  case False
  with that(1) show thesis
    by (simp add: mac_create_def iccp_csm_init_mac_msg_def malloc_def)
qed

lemma malloc_sel [simp]:
  "sys_csm_list (snd (malloc s)) = sys_csm_list s" "env_time (snd (malloc s)) = env_time s"
  "syncd_tx (snd (malloc s)) = syncd_tx s" "sys_sync_fd (snd (malloc s)) = sys_sync_fd s"
  by (simp_all add: malloc_def)

lemma MACMsg_compare_0: "length (mac_addr a) = length (mac_addr b) \<Longrightarrow>
    MACMsg_compare a b = 0 \<longleftrightarrow> mac_vid a = mac_vid b \<and> mac_addr a = mac_addr b"
  using memcmp_eq_0 [of "mac_addr a" "mac_addr b"] by (auto simp: MACMsg_compare_def)

lemma MACMsg_compare_self [simp]: "MACMsg_compare m m = 0"
  by (simp add: MACMsg_compare_def)

lemma MACMsg_tree_order: "tree_order MACMsg_compare (\<lambda>m. length (mac_addr m) = 6)"
proof (unfold_locales, goal_cases)
  case (2 x y)
  then show ?case
    using memcmp_antisym [of "mac_addr x" "mac_addr y"] by (auto simp: MACMsg_compare_def)
next
  case (3 x y z)
  then show ?case
    using memcmp_less_trans [of "mac_addr x" "mac_addr y" "mac_addr z"]
    by (auto simp: MACMsg_compare_def split: if_splits)
next
  case (4 x y z)
  then have "mac_vid x = mac_vid y \<and> mac_addr x = mac_addr y"
    using MACMsg_compare_0 [of x y] by simp
  with 4 show ?case by (auto simp: MACMsg_compare_def split: if_splits)
qed simp

text \<open>The same order on the entries, through the memory \<open>h\<close> that holds them.\<close>

interpretation mac_order: tree_order "\<lambda>p q. MACMsg_compare (h p) (h q)" "\<lambda>p. length (mac_addr (h p)) = 6"
  for h :: "mac_ptr \<Rightarrow> MACMsg"
  by unfold_locales
    (simp, rule tree_order.cmp_flip [OF MACMsg_tree_order],
      erule (4) tree_order.cmp_trans [OF MACMsg_tree_order],
      erule (4) tree_order.cmp_eq [OF MACMsg_tree_order])

lemma MACMsg_compare_key [simp]:
  "MACMsg_compare (mac_key (mac_vid m) (mac_addr m)) n = MACMsg_compare m n"
  by (simp add: MACMsg_compare_def mac_key_def)

lemma mac_created_new:
  assumes "mac_find (mac_vid m) (mac_addr m) s c = None" "p \<notin> set (mac_rb s c)"
  shows "rb_find (\<lambda>a b. MACMsg_compare (((ml_mac_heap (MLACP (csm_of s c)))(p := m)) a)
      (((ml_mac_heap (MLACP (csm_of s c)))(p := m)) b)) p (mac_rb s c) = None"
  using assms by (auto simp: mac_find_def rb_find_None)

lemma prepare_mac_info_state:
  "\<exists>k buf1 i. mlacp_prepare_for_mac_info_to_peer c mx m n buf s = (k, buf1, s\<lparr>sys_ICCP_MSG_ID := i\<rparr>)"
proof (cases "mx < 16 + (6 + length (ser_mLACPMACData (mac_data m)) * (n + 1))")
  case True
  then have "mlacp_prepare_for_mac_info_to_peer c mx m n buf s =
      (MCLAG_ERROR, buf, s\<lparr>sys_ICCP_MSG_ID := sys_ICCP_MSG_ID s\<rparr>)"
    by (simp add: mlacp_prepare_for_mac_info_to_peer_def add_info_entry_def Let_def)
  then show ?thesis by blast
next
  case False
  then show ?thesis
    by (auto simp: mlacp_prepare_for_mac_info_to_peer_def add_info_entry_def Let_def
        mlacp_fill_icc_header_def next_msg_id_def)
qed

lemma mac_find_msg_id [simp]: "mac_find v a (s\<lparr>sys_ICCP_MSG_ID := i\<rparr>) c = mac_find v a s c"
  by (simp add: mac_find_def)

lemma mac_sent_msg_id:
  "mac_sent c p (s\<lparr>sys_ICCP_MSG_ID := i\<rparr>) = (mac_sent c p s)\<lparr>sys_ICCP_MSG_ID := i\<rparr>"
  by (simp add: mac_sent_def Let_def upd_ml_def upd_csm_def)

lemma mac_sent_list [simp]: "mac_msg_list (mac_sent c p s) d = mac_msg_list s d"
  by (simp add: mac_sent_def Let_def)

context mac_table_invariant
begin

lemma create: "I s \<Longrightarrow> length (mac_addr m) = 6 \<Longrightarrow> mac_find (mac_vid m) (mac_addr m) s c = None \<Longrightarrow>
    mac_create c m s = (r, u) \<Longrightarrow> I u"
  using created [of s m] by simp

lemma peer_new:
  assumes "I s" "length (md_mac_addr d) = 6" "mac_find (ntohs (md_vid d)) (md_mac_addr d) s c = None"
  shows "I (mac_peer_new c d l n s)"
proof -
  have "I (snd (mac_create c (peer_mac_entry c d l n s) s))"
    using assms by (intro created) (simp_all add: peer_mac_entry_def)
  then show ?thesis
    using assms(1) by (auto simp: mac_peer_new_def Let_def split: prod.split option.split intro!: stack_chip)
qed

lemma entry_from_peer:
  assumes "I s" "length (md_mac_addr d) = 6" "mlacp_fsm_update_mac_entry_from_peer c d s = Some t"
  shows "I t"
proof -
  have "p \<in> set (mac_rb s c)" if "mac_find v a s c = Some p" for v a p
    using that rb_find_Some unfolding mac_find_def by fast
  then show ?thesis
    using assms peer_new
    by (auto simp: mlacp_fsm_update_mac_entry_from_peer_def Let_def peer_add peer_del
        split: if_splits option.splits)
qed

lemma mac_found: "mac_find v a s c = Some p \<Longrightarrow> p \<in> set (mac_rb s c)"
  unfolding mac_find_def by (blast dest: rb_find_Some)

lemma entries_from_peer: "I s \<Longrightarrow> update_mac_entries c n bs s = Some t \<Longrightarrow> I t"
proof (induction n arbitrary: bs s)
  case (Suc n)
  then obtain d r s1 where d: "de_mLACPMACData bs = Some (d, r)"
      "mlacp_fsm_update_mac_entry_from_peer c d s = Some s1" "update_mac_entries c n r s1 = Some t"
    by (auto split: option.splits prod.splits)
  have "length (md_mac_addr d) = 6"
    using d(1) by (auto simp: de_mLACPMACData_def de_bytes_def const_defs bind_eq_Some_conv
        split: prod.splits if_splits)
  with Suc d show ?case by (blast intro: entry_from_peer)
qed simp

lemma info_from_peer: "I s \<Longrightarrow> mlacp_fsm_update_mac_info_from_peer c tlv s = Some t \<Longrightarrow> I t"
  by (auto simp: mlacp_fsm_update_mac_info_from_peer_def entries_from_peer split: option.splits)

lemma create_listed:
  assumes "I s" "length (mac_addr m) = 6" "mac_find (mac_vid m) (mac_addr m) s c = None"
    "mac_create c m s = (Some p, u)"
  shows "I (upd_ml c (\<lambda>l. l\<lparr>ml_mac_msg_list := ml_mac_msg_list l @ [p]\<rparr>) u)"
proof -
  have u: "p = ml_mac_next (MLACP (csm_of s c))" "u = upd_ml c (mac_created m) (snd (malloc s))"
    using assms(4) by (cases rule: mac_create_cases [of c m s]; simp)+
  have "p \<notin> set (mac_msg_list u c)"
    using fresh [OF assms(1)] by (simp add: u mac_created_def Let_def)
  moreover have "p \<in> set (mac_rb u c)"
    using fresh [OF assms(1)] rb_insert_new [OF mac_created_new [OF assms(3), of p]]
    by (simp add: u mac_created_def Let_def)
  ultimately show ?thesis
    using listed [OF create [OF assms(1-4)], of p] by (simp add: mac_enqueue_def)
qed

lemma syncd_new:
  assumes "I s" "length (mac_addr m) = 6" "mac_find (mac_vid m) (mac_addr m) s c = None"
  shows "I (syncd_add_new c m b pif l s)"
proof -
  let ?m = "m\<lparr>mac_age_flag := mac_age_flag m OR MAC_AGE_PEER, mac_op_type := MAC_SYNC_ADD\<rparr>"
  have m: "length (mac_addr ?m) = 6" "mac_find (mac_vid ?m) (mac_addr ?m) s c = None"
    using assms by simp_all
  obtain r u where u: "mac_create c ?m s = (r, u)" by fastforce
  have "I u" by (rule create [OF assms(1) m u])
  then show ?thesis
    using assms(1) u create_listed [OF assms(1) m]
    by (cases r) (simp_all add: syncd_add_new_def Let_def stack_chip)
qed

lemma from_syncd:
  assumes "I s" "length addr = 6" "sys_csm_list s = c # cs"
  shows "I (do_mac_update_from_syncd addr vid ifname ty op s)"
  using assms
  by (auto simp: do_mac_update_from_syncd_def Let_def syncd_known syncd_new syncd_deleted mac_found
      split: option.split)

lemma send_loop: "I s \<Longrightarrow> mac_msg_list s c = ps \<Longrightarrow> I (send_mac_loop c ps n buf len s)"
proof (induction ps arbitrary: n buf len s)
  case Nil
  then show ?case by (simp add: sent)
next
  case (Cons p ps)
  define s1 where "s1 = upd_ml c (\<lambda>l. l\<lparr>ml_mac_msg_list := ps\<rparr>) s"
  obtain k buf1 i where prep: "mlacp_prepare_for_mac_info_to_peer c CSM_BUFFER_SIZE (mac_of s1 c p) n buf s1
      = (k, buf1, s1\<lparr>sys_ICCP_MSG_ID := i\<rparr>)"
    using prepare_mac_info_state by blast
  define s3 where "s3 = (mac_sent c p s1)\<lparr>sys_ICCP_MSG_ID := i\<rparr>"
  have "I s3"
    unfolding s3_def s1_def by (rule numbered [OF unlisted [OF Cons.prems]])
  moreover have "mac_msg_list s3 c = ps"
    by (simp add: s3_def s1_def)
  moreover have "send_mac_loop c (p # ps) n buf len s =
      (if MAX_MAC_ENTRY_NUM \<le> n + 1 then send_mac_loop c ps 0 [] k (snd (iccp_csm_send c buf1 k s3))
       else send_mac_loop c ps (n + 1) buf1 k s3)"
    by (simp add: prep mac_sent_msg_id Let_def flip: s1_def s3_def)
  ultimately show ?case
    by (simp add: Cons.IH sent)
qed

lemma send_mac_info: "I s \<Longrightarrow> I (mlacp_sync_send_syncMacInfo c s)"
  by (simp add: mlacp_sync_send_syncMacInfo_def send_loop)

end

section \<open>Memory safety\<close>

text \<open>
  The tree is ordered, the list has no entry twice, both hold only entries that were created, and
  no entry of either was freed.
\<close>

definition mac_ok :: "mLACP \<Rightarrow> bool" where
  "mac_ok m \<longleftrightarrow>
     rb_sorted (\<lambda>p q. MACMsg_compare (ml_mac_heap m p) (ml_mac_heap m q)) (ml_mac_rb m) \<and>
     (\<forall>p \<in> set (ml_mac_rb m). length (mac_addr (ml_mac_heap m p)) = 6) \<and>
     distinct (ml_mac_msg_list m) \<and>
     set (ml_mac_rb m) \<union> set (ml_mac_msg_list m) \<union> set (ml_mac_freed m) \<subseteq> {..< ml_mac_next m} \<and>
     (set (ml_mac_rb m) \<union> set (ml_mac_msg_list m)) \<inter> set (ml_mac_freed m) = {}"

lemma mac_ok_cong:
  assumes "mac_ok m" "ml_mac_heap n = ml_mac_heap m" "ml_mac_rb n = ml_mac_rb m"
    "ml_mac_msg_list n = ml_mac_msg_list m" "ml_mac_freed n = ml_mac_freed m" "ml_mac_next n = ml_mac_next m"
  shows "mac_ok n"
  using assms by (simp add: mac_ok_def)

lemma MACMsg_compare_cong:
  "mac_vid a = mac_vid a' \<Longrightarrow> mac_addr a = mac_addr a' \<Longrightarrow> mac_vid b = mac_vid b' \<Longrightarrow>
   mac_addr b = mac_addr b' \<Longrightarrow> MACMsg_compare a b = MACMsg_compare a' b'"
  by (simp add: MACMsg_compare_def)

lemma mac_ok_touch:
  assumes "mac_ok m" "keeps_key f"
  shows "mac_ok (m\<lparr>ml_mac_heap := (ml_mac_heap m)(p := f (ml_mac_heap m p))\<rparr>)"
proof -
  have "MACMsg_compare (((ml_mac_heap m)(p := f (ml_mac_heap m p))) a) (((ml_mac_heap m)(p := f (ml_mac_heap m p))) b)
      = MACMsg_compare (ml_mac_heap m a) (ml_mac_heap m b)" for a b
    using assms(2) by (intro MACMsg_compare_cong) simp_all
  then show ?thesis
    using assms by (simp add: mac_ok_def)
qed

lemma mac_ok_created:
  assumes "mac_ok (MLACP (csm_of s c))" "length (mac_addr m) = 6"
    "mac_find (mac_vid m) (mac_addr m) s c = None"
  shows "mac_ok (mac_created m (MLACP (csm_of s c)))"
proof -
  let ?l = "MLACP (csm_of s c)"
  define p where "p = ml_mac_next ?l"
  define h where "h = (ml_mac_heap ?l)(p := m)"
  have fresh: "p \<notin> set (ml_mac_rb ?l)"
    using assms(1) by (auto simp: mac_ok_def p_def)
  have same: "h q = ml_mac_heap ?l q" if "q \<in> set (ml_mac_rb ?l)" for q
    using that fresh by (auto simp: h_def)
  have "rb_sorted (\<lambda>p q. MACMsg_compare (h p) (h q)) (ml_mac_rb ?l)"
    using assms(1) same unfolding mac_ok_def rb_sorted_def
    by (auto elim!: sorted_wrt_mono_rel [rotated])
  then have "rb_sorted (\<lambda>p q. MACMsg_compare (h p) (h q)) (rb_insert (\<lambda>p q. MACMsg_compare (h p) (h q)) p (ml_mac_rb ?l))"
    using assms same by (intro mac_order.sorted_insert) (auto simp: h_def mac_ok_def)
  moreover have "set (rb_insert (\<lambda>p q. MACMsg_compare (h p) (h q)) p (ml_mac_rb ?l)) = insert p (set (ml_mac_rb ?l))"
    using rb_insert_new [OF mac_created_new [OF assms(3) fresh]] by (simp add: h_def)
  ultimately show ?thesis
    using assms(1,2) fresh same
    by (auto simp: mac_created_def Let_def mac_ok_def h_def p_def)
qed

lemma mac_ok_removed:
  assumes "mac_ok (MLACP (csm_of s c))" "p \<in> set (mac_rb s c)"
  shows "mac_ok (MLACP (csm_of (mac_remove c p s) c))"
proof -
  have "distinct (mac_rb s c)"
    using assms(1) mac_order.sorted_distinct by (auto simp: mac_ok_def)
  then have "set (rb_remove p (mac_rb s c)) = set (mac_rb s c) - {p}"
    by (rule set_rb_remove)
  then show ?thesis
    using assms
    by (auto simp: mac_ok_def mac_remove_def mac_rb_remove_def mac_free_unlisted_def rb_sorted_remove)
qed

lemma mac_ok_unlisted:
  assumes "mac_ok (MLACP (csm_of s c))" "mac_msg_list s c = p # ps"
  shows "mac_ok (MLACP (csm_of (mac_sent c p (upd_ml c (\<lambda>l. l\<lparr>ml_mac_msg_list := ps\<rparr>) s)) c))"
proof -
  let ?t = "upd_ml c (\<lambda>l. l\<lparr>ml_mac_msg_list := ps\<rparr>) s"
  have "p \<notin> set (mac_rb s c)" if "mac_find (mac_vid (mac_of s c p)) (mac_addr (mac_of s c p)) ?t c = None"
    using that by (auto simp: mac_find_def rb_find_None)
  then show ?thesis
    using assms by (auto simp: mac_sent_def Let_def mac_ok_def)
qed

lemma mac_ok_reinit:
  "mac_ok (MLACP (csm_of s c)) \<Longrightarrow> mlacp_mac_msg_queue_reinit c s = Some t \<Longrightarrow> mac_ok (MLACP (csm_of t c))"
  by (auto simp: mlacp_mac_msg_queue_reinit_def Let_def mac_ok_def list_ex_iff split: if_splits)

interpretation mac_safety: mac_table_invariant c "\<lambda>s. mac_ok (MLACP (csm_of s c))" for c
proof (unfold_locales, goal_cases)
  case (1 s)
  then show ?case using mac_order.sorted_distinct by (auto simp: mac_ok_def)
next
  case (2 s t)
  then show ?case using only_syncd_frame(1) [OF 2(2)] by simp
next
  case (3 s p f)
  then show ?case using mac_ok_touch [OF 3(1,3)] by (simp add: upd_mac_mlacp)
next
  case (4 s p)
  then show ?case by (auto simp: mac_enqueue_mlacp mac_ok_def)
next
  case (5 s p)
  then show ?case by (rule mac_ok_removed)
next
  case (6 s l tm)
  then show ?case by simp
next
  case (7 s)
  then show ?case by (auto simp: mac_ok_def)
next
  case (8 s m)
  have "mac_ok (mac_created m (MLACP (csm_of s c)))"
    using 8 by (rule mac_ok_created)
  with 8(1) show ?case
    by (cases rule: mac_create_cases [of c m s]) simp_all
next
  case (9 s p ps)
  then show ?case by (rule mac_ok_unlisted)
next
  case (10 s i)
  then show ?case by simp
next
  case (11 s buf len)
  then show ?case by (rule mac_ok_cong) simp_all
qed

end
