(* ===== verification/Mac_Ageing.thy ===== *)
theory Mac_Ageing
  imports Mac_Table
begin

text \<open>
  The age flags of the MAC entries, and the properties of the table. An entry's flag says who has
  lost the address: nobody, the local node, the peer, or both, in which case the entry is removed.
  The theory follows the flag through every operation, defines the steps the table can take, and
  states what holds after any number of them: memory safety, the ageing rule, what remains after
  the session went down, and the cases in which the code departs from them.
\<close>

section \<open>Age flags\<close>

lemma age_local_idem: "(flag AND MAC_AGE_LOCAL \<noteq> 0) = st \<Longrightarrow> local_age_flag st flag = flag"
proof -
  assume a: "(flag AND MAC_AGE_LOCAL \<noteq> 0) = st"
  have b: "flag AND 1 = (if bit flag 0 then 1 else 0)"
    by (rule bit_word_eqI) (auto simp: bit_simps intro: gr0I)
  have "bit flag 0 = st" using a b by (simp add: MAC_AGE_LOCAL_def split: if_splits)
  then show ?thesis
    by (intro bit_word_eqI) (auto simp: local_age_flag_def MAC_AGE_LOCAL_def bit_simps intro: gr0I)
qed

lemma mac_set_local_age_of:
  "mac_of (mac_set_local_age c p st s) c q =
     (if q = p then (mac_of s c p)\<lparr>mac_age_flag := local_age_flag st (mac_age_flag (mac_of s c p)),
        mac_op_type := (if (mac_age_flag (mac_of s c p) AND MAC_AGE_LOCAL \<noteq> 0) \<noteq> st
            \<and> ml_current_state (MLACP (csm_of s c)) = MLACP_STATE_EXCHANGE
          then if st then MAC_SYNC_DEL else MAC_SYNC_ADD else mac_op_type (mac_of s c p))\<rparr>
      else mac_of s c q)"
  using age_local_idem [of "mac_age_flag (mac_of s c p)" st]
  by (auto simp: mac_set_local_age_def set_mac_local_age_flag_def Let_def)


lemma local_age_flag_vals [simp]:
  "local_age_flag True 0 = MAC_AGE_LOCAL" "local_age_flag True MAC_AGE_LOCAL = MAC_AGE_LOCAL"
  "local_age_flag True MAC_AGE_PEER = MAC_AGE_LOCAL OR MAC_AGE_PEER"
  "local_age_flag False 0 = 0" "local_age_flag False MAC_AGE_LOCAL = 0"
  "local_age_flag False MAC_AGE_PEER = MAC_AGE_PEER"
  by (simp_all add: local_age_flag_def const_defs)

text \<open>Not aged on both sides.\<close>

definition flag_ok :: "MACMsg \<Rightarrow> bool" where
  "flag_ok m \<longleftrightarrow> mac_age_flag m = 0 \<or> mac_age_flag m = MAC_AGE_LOCAL \<or> mac_age_flag m = MAC_AGE_PEER"

lemma age_consts [simp]:
  "MAC_AGE_LOCAL \<noteq> MAC_AGE_LOCAL OR MAC_AGE_PEER" "MAC_AGE_PEER \<noteq> MAC_AGE_LOCAL OR MAC_AGE_PEER"
  "MAC_AGE_PEER \<noteq> MAC_AGE_LOCAL" "MAC_AGE_LOCAL \<noteq> MAC_AGE_PEER" "MAC_AGE_LOCAL \<noteq> 0" "MAC_AGE_PEER \<noteq> 0"
  "MAC_AGE_PEER OR MAC_AGE_PEER = MAC_AGE_PEER" "MAC_AGE_LOCAL OR MAC_AGE_PEER \<noteq> 0"
  "MAC_AGE_LOCAL AND NOT MAC_AGE_PEER = MAC_AGE_LOCAL" "MAC_AGE_PEER AND NOT MAC_AGE_PEER = 0"
  by (simp_all add: const_defs)


section \<open>Changes of one entry\<close>

text \<open>Two states whose tables differ in the entry \<open>p\<close> only; \<open>p\<close> is in the tree of both, or was removed.\<close>

definition same_but :: "csm_ptr \<Rightarrow> mac_ptr \<Rightarrow> System \<Rightarrow> System \<Rightarrow> bool" where
  "same_but c p s t \<longleftrightarrow> mac_rb t c = mac_rb s c \<and> (\<forall>q. q \<noteq> p \<longrightarrow> mac_of t c q = mac_of s c q)"

definition gone :: "csm_ptr \<Rightarrow> mac_ptr \<Rightarrow> System \<Rightarrow> System \<Rightarrow> bool" where
  "gone c p s t \<longleftrightarrow> mac_rb t c = rb_remove p (mac_rb s c) \<and> (\<forall>q. q \<noteq> p \<longrightarrow> mac_of t c q = mac_of s c q)"

lemma mac_remove_of [simp]: "mac_of (mac_remove c p s) d q = mac_of s d q"
  by (simp add: mac_remove_def mac_free_unlisted_def mac_rb_remove_def)

lemma mac_set_ifname_of [simp]:
  "mac_of (mac_set_ifname c p n s) c q = (if q = p then (mac_of s c p)\<lparr>mac_ifname := n\<rparr> else mac_of s c q)"
  by (simp add: mac_set_ifname_def)

lemma mac_set_local_age_flag [simp]:
  "mac_age_flag (mac_of (mac_set_local_age c p st s) c p) = local_age_flag st (mac_age_flag (mac_of s c p))"
  by (simp add: mac_set_local_age_of)

lemma same_but_simps [simp]:
  "same_but c p s s" "same_but c p s (upd_mac c p f t) \<longleftrightarrow> same_but c p s t"
  "same_but c p s (mac_to_chip c p ty oper t) \<longleftrightarrow> same_but c p s t"
  "same_but c p s (mac_set_ifname c p n t) \<longleftrightarrow> same_but c p s t"
  "same_but c p s (mac_enqueue c p t) \<longleftrightarrow> same_but c p s t"
  "same_but c p s (mac_set_local_age c p st t) \<longleftrightarrow> same_but c p s t"
  "same_but c p s t \<Longrightarrow> gone c p s (mac_remove c p t)"
  by (auto simp: same_but_def gone_def mac_set_local_age_of)

definition ages_well :: "csm_ptr \<Rightarrow> mac_ptr \<Rightarrow> System \<Rightarrow> System \<Rightarrow> bool" where
  "ages_well c p s t \<longleftrightarrow> same_but c p s t \<and> flag_ok (mac_of t c p) \<or> gone c p s t"

lemma ages_wellI: "same_but c p s t \<Longrightarrow> flag_ok (mac_of t c p) \<Longrightarrow> ages_well c p s t"
  "gone c p s t \<Longrightarrow> ages_well c p s t"
  by (simp_all add: ages_well_def)

lemma local_age_ok:
  "flag_ok m \<Longrightarrow> local_age_flag True (mac_age_flag m) \<noteq> MAC_AGE_LOCAL OR MAC_AGE_PEER \<Longrightarrow>
   local_age_flag True (mac_age_flag m) = MAC_AGE_LOCAL"
  by (auto simp: flag_ok_def)

lemma ages_port_down:
  "flag_ok (mac_of s c p) \<Longrightarrow> ages_well c p s (mac_port_down c pif p s)"
  by (simp add: ages_well_def mac_port_down_def Let_def chip_defs flag_ok_def [of "mac_of _ c p"] local_age_ok)

lemma flag_ok_touch [simp]:
  "flag_ok (mac_reported oper m) = flag_ok m" "flag_ok (m\<lparr>mac_ifname := n\<rparr>) = flag_ok m"
  "flag_ok (m\<lparr>mac_op_type := u\<rparr>) = flag_ok m" "flag_ok (m\<lparr>mac_pending_local_del := u\<rparr>) = flag_ok m"
  "flag_ok (m\<lparr>mac_origin_ifname := n\<rparr>) = flag_ok m" "flag_ok (m\<lparr>mac_fdb_type := u\<rparr>) = flag_ok m"
  by (simp_all add: flag_ok_def)

lemma ages_clear_pending:
  "flag_ok (mac_of s c p) \<Longrightarrow> ages_well c p s (mac_clear_pending c p s)"
  by (simp add: ages_well_def mac_clear_pending_def mac_remove_touched Let_def chip_defs)

lemma ages_port_up: "flag_ok (mac_of s c p) \<Longrightarrow> ages_well c p s (mac_port_up c p s)"
  by (simp add: mac_port_up_def ages_clear_pending Let_def) (simp add: ages_well_def chip_defs)

lemma ages_peer_disconnected:
  "flag_ok (mac_of s c p) \<Longrightarrow> ages_well c p s (mac_peer_disconnected c p s)"
  by (auto simp: ages_well_def mac_peer_disconnected_def Let_def chip_defs flag_ok_def)

lemma ages_peerlink_down:
  "flag_ok (mac_of s c p) \<Longrightarrow> ages_well c p s (mac_peerlink_down c p s)"
  by (auto simp: ages_well_def mac_peerlink_down_def Let_def chip_defs flag_ok_def)

lemma ages_peer_del: "flag_ok (mac_of s c p) \<Longrightarrow> ages_well c p s (mac_peer_del c p s)"
  by (auto simp: ages_well_def mac_peer_del_def Let_def chip_defs flag_ok_def)

lemma ages_to_peer_link:
  "same_but c p s t \<Longrightarrow> flag_ok (mac_of t c p) \<Longrightarrow> ages_well c p s (mac_to_peer_link c p t)"
  by (simp add: ages_well_def mac_to_peer_link_def Let_def chip_defs)

lemma ages_peer_moved:
  assumes "same_but c p s t" "mac_age_flag (mac_of t c p) = 0 \<or> mac_age_flag (mac_of t c p) = MAC_AGE_LOCAL"
    "mac_fdb_type (mac_of t c p) \<noteq> MAC_TYPE_STATIC"
  shows "ages_well c p s (mac_peer_moved c p l n t)"
proof -
  have ok: "flag_ok (mac_of t c p)" "flag_ok (mac_of (mac_set_local_age c p True
      (upd_mac c p (mac_origin_ifname_update (\<lambda>_. n)) t)) c p)"
    using assms(2) by (auto simp: flag_ok_def)
  then show ?thesis
    using assms(1,3) by (simp add: mac_peer_moved_def Let_def ages_to_peer_link)
      (simp add: ages_well_def chip_defs)
qed

lemma mac_peer_seen_sel [simp]:
  "same_but c p s (mac_peer_seen c p l t) \<longleftrightarrow> same_but c p s t"
  "mac_fdb_type (mac_of (mac_peer_seen c p l s) c p) = mac_fdb_type (mac_of s c p)"
  by (simp_all add: mac_peer_seen_def Let_def)

lemma mac_peer_seen_flag:
  "flag_ok (mac_of s c p) \<Longrightarrow> mac_age_flag (mac_of (mac_peer_seen c p l s) c p) = 0 \<or>
     mac_age_flag (mac_of (mac_peer_seen c p l s) c p) = MAC_AGE_LOCAL"
  by (auto simp: mac_peer_seen_def Let_def flag_ok_def)

lemma ages_peer_add:
  assumes "flag_ok (mac_of s c p)" "mac_fdb_type (mac_of s c p) \<noteq> MAC_TYPE_STATIC"
  shows "ages_well c p s (mac_peer_add c p l n s)"
proof -
  have "flag_ok (mac_of (mac_peer_seen c p l s) c p)"
    using mac_peer_seen_flag [OF assms(1)] by (auto simp: flag_ok_def)
  then show ?thesis
    using mac_peer_seen_flag [OF assms(1), of l] assms(2)
    by (auto simp: mac_peer_add_def Let_def ages_peer_moved ages_to_peer_link intro: ages_wellI)
qed

lemma stack_chip_sel [simp]:
  "sys_csm_heap (add_stack_mac_to_chip m ty s) = sys_csm_heap s"
  "sys_csm_heap (del_stack_mac_from_chip m s) = sys_csm_heap s"
  using only_syncd_frame(1) [OF stack_chip_only_syncd(1)] only_syncd_frame(1) [OF stack_chip_only_syncd(2)]
  by simp_all

lemma same_but_stack [simp]:
  "same_but c p s (del_stack_mac_from_chip m t) \<longleftrightarrow> same_but c p s t"
  by (simp add: same_but_def)

lemma ages_syncd_known:
  "flag_ok (mac_of s c p) \<Longrightarrow> ages_well c p s (syncd_add_known c p m b pif l s)"
  by (auto simp: syncd_add_known_def Let_def chip_defs ages_well_def flag_ok_def)

lemma ages_aged_out: "same_but c p s t \<Longrightarrow> ages_well c p s (syncd_aged_out c p t)"
  by (simp add: syncd_aged_out_def ages_well_def chip_defs)

lemma ages_add_back [simp]: "ages_well c p s (syncd_add_back c p t) \<longleftrightarrow> ages_well c p s t"
  by (simp add: syncd_add_back_def ages_well_def chip_defs gone_def)

lemma ages_set_ifname [simp]: "ages_well c p s (mac_set_ifname c p n t) \<longleftrightarrow> ages_well c p s t"
  by (simp add: ages_well_def gone_def)

lemma ages_syncd_del:
  assumes "flag_ok (mac_of s c p)"
  shows "ages_well c p s (syncd_del c p l s)"
proof -
  define s1 where "s1 = mac_set_local_age c p True s"
  have "same_but c p s s1" by (simp add: s1_def)
  moreover have "both_aged (mac_of s1 c p) \<or> ages_well c p s s1"
    using assms by (auto simp: s1_def ages_well_def flag_ok_def)
  ultimately have "ages_well c p s (syncd_del_peer_link c p s)" "ages_well c p s (syncd_del_local c p l s)"
    unfolding syncd_del_peer_link_def syncd_del_local_def Let_def s1_def [symmetric]
    by (auto simp: ages_aged_out split: option.split)
  with assms show ?thesis by (simp add: syncd_del_def) (simp add: ages_well_def)
qed


section \<open>Loops over the table\<close>

text \<open>
  A loop whose body changes no entry but its own: when the body establishes \<open>Q\<close> for an entry that
  satisfies \<open>P\<close>, or removes it, then \<open>Q\<close> holds for all that remains.
\<close>

definition turns :: "csm_ptr \<Rightarrow> (MACMsg \<Rightarrow> bool) \<Rightarrow> mac_ptr \<Rightarrow> System \<Rightarrow> System \<Rightarrow> bool" where
  "turns c Q p s t \<longleftrightarrow> same_but c p s t \<and> Q (mac_of t c p) \<or> gone c p s t"

lemma mac_foreach_all:
  assumes "distinct (mac_rb s c)" "F s" "\<forall>p \<in> set (mac_rb s c). P (mac_of s c p)"
    and body: "\<And>p t. F t \<Longrightarrow> p \<in> set (mac_rb t c) \<Longrightarrow> P (mac_of t c p) \<Longrightarrow>
      F (body p t) \<and> turns c Q p t (body p t)"
  shows "F (mac_foreach c body s) \<and>
    (\<forall>p \<in> set (mac_rb (mac_foreach c body s) c). Q (mac_of (mac_foreach c body s) c p))"
proof -
  have "F (foldl (\<lambda>s p. body p s) t ps) \<and>
      (\<forall>p \<in> set (mac_rb (foldl (\<lambda>s p. body p s) t ps) c). Q (mac_of (foldl (\<lambda>s p. body p s) t ps) c p))"
    if "distinct ps" "distinct (mac_rb t c)" "F t" "set ps \<subseteq> set (mac_rb t c)"
      "\<forall>p \<in> set ps. P (mac_of t c p)" "\<forall>p \<in> set (mac_rb t c) - set ps. Q (mac_of t c p)" for ps t
    using that
  proof (induction ps arbitrary: t)
    case (Cons p ps)
    let ?t = "body p t"
    have t: "F ?t" "turns c Q p t ?t"
      using body [of t p] Cons.prems by simp_all
    have others: "mac_of ?t c q = mac_of t c q" if "q \<noteq> p" for q
      using t(2) that by (auto simp: turns_def same_but_def gone_def)
    have rb: "mac_rb ?t c = mac_rb t c \<and> Q (mac_of ?t c p) \<or> mac_rb ?t c = rb_remove p (mac_rb t c)"
      using t(2) by (auto simp: turns_def same_but_def gone_def)
    have "distinct (mac_rb ?t c)" "set ps \<subseteq> set (mac_rb ?t c)"
      using rb Cons.prems by (auto simp: rb_remove_def)
    moreover have "\<forall>q \<in> set ps. P (mac_of ?t c q)"
      using Cons.prems others by fastforce
    moreover have "\<forall>q \<in> set (mac_rb ?t c) - set ps. Q (mac_of ?t c q)"
    proof
      fix q assume q: "q \<in> set (mac_rb ?t c) - set ps"
      then have "q \<in> set (mac_rb t c)" "q = p \<Longrightarrow> Q (mac_of ?t c p)"
        using rb Cons.prems(2) by (auto simp: rb_remove_def)
      then show "Q (mac_of ?t c q)"
        using q Cons.prems(6) others by (cases "q = p") auto
    qed
    ultimately show ?case
      using Cons.IH [of ?t] t(1) Cons.prems(1) by simp
  qed simp
  from this [of "mac_rb s c" s] assms(1-3) show ?thesis
    by (simp add: mac_foreach_def)
qed

definition aged_ok :: "csm_ptr \<Rightarrow> System \<Rightarrow> bool" where
  "aged_ok c s \<longleftrightarrow> (\<forall>p \<in> set (mac_rb s c). flag_ok (mac_of s c p))"

lemma ages_well_turns: "ages_well c p s t = turns c flag_ok p s t"
  by (simp add: ages_well_def turns_def)

lemma aged_ok_step:
  assumes "distinct (mac_rb s c)" "aged_ok c s" "ages_well c p s t"
  shows "aged_ok c t"
  unfolding aged_ok_def
proof
  fix q assume q: "q \<in> set (mac_rb t c)"
  show "flag_ok (mac_of t c q)"
    using assms q by (cases "q = p")
      (auto simp: ages_well_def same_but_def gone_def aged_ok_def rb_remove_def)
qed

lemma aged_ok_foreach:
  assumes "distinct (mac_rb s c)" "aged_ok c s"
    "\<And>p t. flag_ok (mac_of t c p) \<Longrightarrow> ages_well c p t (body p t)"
  shows "aged_ok c (mac_foreach c body s)"
  using mac_foreach_all [of s c "\<lambda>_. True" flag_ok body flag_ok] assms
  by (simp add: aged_ok_def ages_well_turns)

lemma ages_touch:
  "flag_ok (mac_of s c p) \<Longrightarrow> ages_well c p s s"
  by (simp add: ages_well_def)

lemma aged_ok_cong: "mac_rb t c = mac_rb s c \<Longrightarrow> (\<And>p. mac_of t c p = mac_of s c p) \<Longrightarrow> aged_ok c t = aged_ok c s"
  by (simp add: aged_ok_def)

lemma aged_ok_l2:
  "distinct (mac_rb s c) \<Longrightarrow> aged_ok c s \<Longrightarrow> aged_ok c (update_l2_mac_state c l po s)"
  unfolding update_l2_mac_state_def Let_def
  by (rule aged_ok_foreach) (simp_all add: ages_port_up ages_port_down ages_touch aged_ok_def)

lemma aged_ok_orphan:
  "distinct (mac_rb s c) \<Longrightarrow> aged_ok c s \<Longrightarrow> aged_ok c (update_orphan_port_mac c l st s)"
  unfolding update_orphan_port_mac_def
  by (simp, intro impI aged_ok_foreach) (simp_all add: ages_well_def)

lemma aged_ok_convert:
  "distinct (mac_rb s c) \<Longrightarrow> aged_ok c s \<Longrightarrow> aged_ok c (mlacp_convert_remote_mac_to_local c n s)"
  unfolding mlacp_convert_remote_mac_to_local_def
  by (auto split: option.split intro!: aged_ok_foreach) (simp_all add: ages_well_def flag_ok_def chip_defs)

lemma aged_ok_peerlink:
  "distinct (mac_rb s c) \<Longrightarrow> aged_ok c s \<Longrightarrow> aged_ok c (update_remote_macs_to_peerlink c l s)"
  unfolding update_remote_macs_to_peerlink_def Let_def
  by (rule aged_ok_foreach) (simp_all add: ages_well_def chip_defs)

lemma aged_ok_disconn:
  "distinct (mac_rb s c) \<Longrightarrow> aged_ok c s \<Longrightarrow> aged_ok c (mlacp_peer_disconn_fdb_handler c s)"
  unfolding mlacp_peer_disconn_fdb_handler_def
  by (rule aged_ok_foreach) (simp_all add: ages_peer_disconnected)

lemma aged_ok_peerlink_down:
  "distinct (mac_rb s c) \<Longrightarrow> aged_ok c s \<Longrightarrow> aged_ok c (mlacp_peerlink_down_handler c s)"
  unfolding mlacp_peerlink_down_handler_def
  by (rule aged_ok_foreach) (simp_all add: ages_peerlink_down)

lemma aged_ok_peerlink_up:
  "distinct (mac_rb s c) \<Longrightarrow> aged_ok c s \<Longrightarrow> aged_ok c (mlacp_peerlink_up_handler c s)"
  unfolding mlacp_peerlink_up_handler_def
  by (rule aged_ok_foreach) (simp_all add: ages_well_def chip_defs)

lemma aged_ok_reinit:
  "mlacp_mac_msg_queue_reinit c s = Some t \<Longrightarrow> aged_ok c s \<Longrightarrow> aged_ok c t"
  by (auto simp: mlacp_mac_msg_queue_reinit_def Let_def aged_ok_def split: if_splits)

lemma aged_ok_sync_mac:
  "distinct (mac_rb s c) \<Longrightarrow> aged_ok c s \<Longrightarrow> aged_ok c (mlacp_sync_mac c s)"
  unfolding mlacp_sync_mac_def
  by (rule aged_ok_foreach) (simp_all add: ages_well_def)

lemma aged_ok_clear_pending:
  "distinct (mac_rb s c) \<Longrightarrow> aged_ok c s \<Longrightarrow> aged_ok c (mlacp_local_lif_clear_pending_mac c l s)"
  unfolding mlacp_local_lif_clear_pending_mac_def
  by (rule aged_ok_foreach) (simp_all add: ages_clear_pending ages_touch)

lemma mac_ok_distinct: "mac_ok (MLACP (csm_of s c)) \<Longrightarrow> distinct (mac_rb s c)"
  by (rule mac_safety.distinct_rb)

lemma aged_ok_upd_lif [simp]: "aged_ok c (upd_lif l f s) = aged_ok c s"
  by (simp add: aged_ok_def)

lemma aged_ok_lif_state:
  assumes "mac_ok (MLACP (csm_of s c))" "aged_ok c s"
  shows "aged_ok c (mlacp_local_lif_state_mac_handler c s)"
  unfolding mlacp_local_lif_state_mac_handler_def Let_def
  using assms
  by (intro conjunct2 [OF foldl_invariant [of "\<lambda>t. mac_ok (MLACP (csm_of t c)) \<and> aged_ok c t"]])
    (auto simp: mac_safety.lif_clear_pending aged_ok_clear_pending mac_ok_distinct)

lemma aged_ok_created:
  assumes "mac_ok (MLACP (csm_of s c))" "aged_ok c s" "flag_ok m"
    "mac_find (mac_vid m) (mac_addr m) s c = None" "mac_create c m s = (r, u)"
  shows "aged_ok c u"
proof (cases rule: mac_create_cases [of c m s])
  case 1
  with assms show ?thesis by (auto simp: aged_ok_def)
next
  case 2
  let ?p = "ml_mac_next (MLACP (csm_of s c))"
  have fresh: "?p \<notin> set (mac_rb s c)"
    using mac_safety.fresh [OF assms(1)] by simp
  show ?thesis
    using 2 assms rb_insert_new [OF mac_created_new [OF assms(4) fresh]]
    by (auto simp: aged_ok_def mac_created_def Let_def)
qed

lemma aged_ok_stack [simp]:
  "aged_ok c (add_stack_mac_to_chip m ty s) = aged_ok c s" "aged_ok c (del_stack_mac_from_chip m s) = aged_ok c s"
  by (simp_all add: aged_ok_def)

lemma aged_ok_peer_new:
  assumes "mac_ok (MLACP (csm_of s c))" "aged_ok c s"
    "mac_find (ntohs (md_vid d)) (md_mac_addr d) s c = None"
  shows "aged_ok c (mac_peer_new c d l n s)"
proof -
  obtain r u where u: "mac_create c (peer_mac_entry c d l n s) s = (r, u)" by fastforce
  have "aged_ok c u"
    using assms by (intro aged_ok_created [OF assms(1,2) _ _ u]) (simp_all add: peer_mac_entry_def flag_ok_def)
  then show ?thesis
    using assms(2) u by (simp add: mac_peer_new_def Let_def split: option.split)
qed

lemma aged_ok_from_peer:
  assumes "mac_ok (MLACP (csm_of s c))" "aged_ok c s"
    "mlacp_fsm_update_mac_entry_from_peer c d s = Some t"
    "\<And>p. mac_find (ntohs (md_vid d)) (md_mac_addr d) s c = Some p \<Longrightarrow> md_type d = MAC_SYNC_ADD \<Longrightarrow>
      mac_fdb_type (mac_of s c p) \<noteq> MAC_TYPE_STATIC"
  shows "aged_ok c t"
proof (cases "mac_find (ntohs (md_vid d)) (md_mac_addr d) s c")
  case None
  then show ?thesis
    using assms aged_ok_peer_new by (auto simp: mlacp_fsm_update_mac_entry_from_peer_def Let_def
        split: if_splits option.splits)
next
  case (Some p)
  then have "flag_ok (mac_of s c p)"
    using assms(2) mac_safety.mac_found by (auto simp: aged_ok_def)
  then have "ages_well c p s t"
    using assms(3,4) Some ages_peer_add ages_peer_del ages_touch
    by (auto simp: mlacp_fsm_update_mac_entry_from_peer_def Let_def split: if_splits option.splits)
  with assms(2) mac_ok_distinct [OF assms(1)] show ?thesis by (blast intro: aged_ok_step)
qed

lemma aged_ok_from_syncd:
  assumes "mac_ok (MLACP (csm_of s c))" "aged_ok c s" "sys_csm_list s = c # cs"
  shows "aged_ok c (do_mac_update_from_syncd addr vid n ty op s)"
proof (cases "mac_find vid addr s c")
  case None
  have new: "aged_ok c (syncd_add_new c m b pif l s)"
    if "mac_vid m = vid" "mac_addr m = addr" "mac_age_flag m = 0" for m b pif l
  proof -
    let ?m = "m\<lparr>mac_age_flag := mac_age_flag m OR MAC_AGE_PEER, mac_op_type := MAC_SYNC_ADD\<rparr>"
    obtain r u where u: "mac_create c ?m s = (r, u)" by fastforce
    have "aged_ok c u"
      using assms(1,2) that None by (intro aged_ok_created [OF assms(1,2) _ _ u]) (simp_all add: flag_ok_def)
    then have "aged_ok c (upd_ml c (\<lambda>l. l\<lparr>ml_mac_msg_list := ml_mac_msg_list l @ [p]\<rparr>) u)" for p
      by (simp add: aged_ok_def)
    with \<open>aged_ok c u\<close> assms(2) u that(3) show ?thesis
      by (simp add: syncd_add_new_def Let_def split: option.split)
  qed
  show ?thesis
    using assms(2,3) new None by (simp add: do_mac_update_from_syncd_def Let_def zero_MACMsg_def split: option.split)
next
  case (Some p)
  then have ok: "flag_ok (mac_of s c p)"
    using assms(2) mac_safety.mac_found by (auto simp: aged_ok_def)
  have "aged_ok c (syncd_add_known c p m b pif l s)" "aged_ok c (syncd_del c p k s)" for m b pif l k
    using aged_ok_step [OF mac_ok_distinct [OF assms(1)] assms(2)]
      ages_syncd_known [OF ok] ages_syncd_del [OF ok] by blast+
  then show ?thesis
    using assms(2,3) Some by (simp add: do_mac_update_from_syncd_def Let_def split: option.split)
qed

lemma send_mac_loop_table:
  "mac_rb (send_mac_loop c ps n buf len s) c = mac_rb s c \<and>
   mac_of (send_mac_loop c ps n buf len s) c q = mac_of s c q"
proof (induction ps arbitrary: n buf len s)
  case (Cons p ps)
  have sent: "mac_rb (mac_sent c p t) c = mac_rb t c" "mac_of (mac_sent c p t) c q = mac_of t c q" for t
    by (simp_all add: mac_sent_def Let_def)
  define s1 where "s1 = upd_ml c (\<lambda>l. l\<lparr>ml_mac_msg_list := ps\<rparr>) s"
  have s1: "mac_rb s1 c = mac_rb s c" "mac_of s1 c q = mac_of s c q"
    by (simp_all add: s1_def)
  obtain k buf1 i where "mlacp_prepare_for_mac_info_to_peer c CSM_BUFFER_SIZE (mac_of s1 c p) n buf s1
      = (k, buf1, s1\<lparr>sys_ICCP_MSG_ID := i\<rparr>)"
    using prepare_mac_info_state by blast
  then have loop: "send_mac_loop c (p # ps) n buf len s =
      (if MAX_MAC_ENTRY_NUM \<le> n + 1
       then send_mac_loop c ps 0 [] k (snd (iccp_csm_send c buf1 k (mac_sent c p (s1\<lparr>sys_ICCP_MSG_ID := i\<rparr>))))
       else send_mac_loop c ps (n + 1) buf1 k (mac_sent c p (s1\<lparr>sys_ICCP_MSG_ID := i\<rparr>)))"
    by (simp add: Let_def flip: s1_def)
  show ?case unfolding loop by (simp add: Cons.IH sent s1)
qed simp

section \<open>Steps of the table\<close>

text \<open>
  What can happen to the table of the session \<open>c\<close>: every operation of the daemon that reads or
  writes it. Clearing the list is a step whenever its result is defined. A message from the peer is
  taken entry by entry, and \<open>RB_INIT\<close> is the step of a session that starts afresh or ends. Anything
  else the daemon does between two of these steps (ports, queues, timers, the other sessions) leaves
  the table as it is. With the flag \<open>False\<close> the relation leaves out one case: the peer adds an address
  that is static here.
\<close>

definition table_kept :: "csm_ptr \<Rightarrow> System \<Rightarrow> System \<Rightarrow> bool" where
  "table_kept c s t \<longleftrightarrow>
     (let m = MLACP (csm_of s c); n = MLACP (csm_of t c)
      in ml_mac_heap n = ml_mac_heap m \<and> ml_mac_rb n = ml_mac_rb m \<and> ml_mac_msg_list n = ml_mac_msg_list m
         \<and> ml_mac_freed n = ml_mac_freed m \<and> ml_mac_next n = ml_mac_next m)"

inductive mac_step :: "bool \<Rightarrow> csm_ptr \<Rightarrow> System \<Rightarrow> System \<Rightarrow> bool" for st :: bool and c :: csm_ptr where
  port_state: "mac_step st c s (update_l2_mac_state c l up s)"
| orphan: "mac_step st c s (update_orphan_port_mac c l up s)"
| convert: "mac_step st c s (mlacp_convert_remote_mac_to_local c name s)"
| redirect: "mac_step st c s (update_remote_macs_to_peerlink c l s)"
| disconnect: "mac_step st c s (mlacp_peer_disconn_fdb_handler c s)"
| link_up: "mac_step st c s (mlacp_peerlink_up_handler c s)"
| link_down: "mac_step st c s (mlacp_peerlink_down_handler c s)"
| resync: "mac_step st c s (mlacp_sync_mac c s)"
| timeout: "mac_step st c s (mlacp_local_lif_state_mac_handler c s)"
| send: "mac_step st c s (mlacp_sync_send_syncMacInfo c s)"
| reinit: "mlacp_mac_msg_queue_reinit c s = Some t \<Longrightarrow> mac_step st c s t"
| rb_init: "mac_step st c s (upd_ml c (\<lambda>m. m\<lparr>ml_mac_rb := []\<rparr>) s)"
| syncd: "length addr = 6 \<Longrightarrow> sys_csm_list s = c # cs \<Longrightarrow>
    mac_step st c s (do_mac_update_from_syncd addr vid name ty op s)"
| peer: "length (md_mac_addr d) = 6 \<Longrightarrow> mlacp_fsm_update_mac_entry_from_peer c d s = Some t \<Longrightarrow>
    (\<And>p. \<not> st \<Longrightarrow> md_type d = MAC_SYNC_ADD \<Longrightarrow>
      mac_find (ntohs (md_vid d)) (md_mac_addr d) s c = Some p \<Longrightarrow>
      mac_fdb_type (mac_of s c p) \<noteq> MAC_TYPE_STATIC) \<Longrightarrow>
    mac_step st c s t"
| elsewhere: "table_kept c s t \<Longrightarrow> mac_step st c s t"

lemma table_keptD:
  assumes "table_kept c s t"
  shows "mac_ok (MLACP (csm_of s c)) \<Longrightarrow> mac_ok (MLACP (csm_of t c))" "aged_ok c s \<Longrightarrow> aged_ok c t"
  using assms by (auto simp: table_kept_def Let_def aged_ok_def intro: mac_ok_cong)

lemma mac_ok_rb_init:
  "mac_ok (MLACP (csm_of s c)) \<Longrightarrow> mac_ok (MLACP (csm_of (upd_ml c (\<lambda>m. m\<lparr>ml_mac_rb := []\<rparr>) s) c))"
  by (auto simp: mac_ok_def rb_sorted_def)

lemma mac_step_ok: "mac_step st c s t \<Longrightarrow> mac_ok (MLACP (csm_of s c)) \<Longrightarrow> mac_ok (MLACP (csm_of t c))"
  by (induction rule: mac_step.induct)
    (auto intro: mac_safety.l2_mac_state mac_safety.orphan_port mac_safety.convert_remote
      mac_safety.remote_to_peerlink mac_safety.disconn_fdb mac_safety.peerlink_up mac_safety.peerlink_down
      mac_safety.sync_mac mac_safety.lif_state_handler mac_safety.send_mac_info mac_safety.from_syncd
      mac_safety.entry_from_peer mac_ok_reinit mac_ok_rb_init table_keptD(1) simp del: upd_ml_frame)

lemma mac_step_aged:
  "mac_step False c s t \<Longrightarrow> mac_ok (MLACP (csm_of s c)) \<Longrightarrow> aged_ok c s \<Longrightarrow> aged_ok c t"
proof (induction rule: mac_step.induct)
  case (send s)
  then show ?case
    by (simp add: mlacp_sync_send_syncMacInfo_def aged_ok_def send_mac_loop_table)
next
  case (rb_init s)
  then show ?case by (simp add: aged_ok_def)
qed (blast intro: aged_ok_l2 aged_ok_orphan aged_ok_convert aged_ok_peerlink aged_ok_disconn
    aged_ok_peerlink_up aged_ok_peerlink_down aged_ok_reinit aged_ok_sync_mac aged_ok_lif_state
    aged_ok_from_syncd aged_ok_from_peer mac_ok_distinct table_keptD(2))+

section \<open>Concrete runs\<close>

text \<open>
  A session that exchanges data, with the port channel \<open>Po1\<close> and the peer link \<open>Po9\<close>, both up; an
  address learned on \<open>Po1\<close>; the same address reported by the peer; the address known to both nodes
  and then lost here; and a static address of an orphan port of the peer.
\<close>

definition a_table :: System where
  "a_table = (a_host (\<lambda>_. SendErr))\<lparr>sys_csm_list := [0], sys_lif_list := [0, 1],
     sys_lif_heap := (\<lambda>l. zero_LocalInterface\<lparr>lif_type := IF_T_PORT_CHANNEL,
       lif_name := (if l = 0 then ''Po1'' else ''Po9''), lif_state := PORT_STATE_UP\<rparr>),
     sys_csm_heap := (\<lambda>_. upd_mlacp (\<lambda>m. m\<lparr>ml_current_state := MLACP_STATE_EXCHANGE, ml_lif_list := [0]\<rparr>)
       (zero_CSM\<lparr>csm_peer_itf_name := ''Po9'', csm_peer_link_if := Some 1\<rparr>))\<rparr>"

definition a_mac :: bytes where "a_mac = [0, 1, 2, 3, 4, 5]"

definition a_report :: "u8 \<Rightarrow> string \<Rightarrow> mLACPMACData" where
  "a_report ty name = \<lparr>md_type = MAC_SYNC_ADD, md_mac_type = ty, md_mac_addr = a_mac,
     md_vid = htons 10, md_ifname = c_array MAX_L_PORT_NAME name\<rparr>"

definition a_learned :: System where
  "a_learned = do_mac_update_from_syncd a_mac 10 ''Po1'' MAC_TYPE_DYNAMIC MAC_SYNC_ADD a_table"

definition a_reported :: System where
  "a_reported = mac_peer_new 0 (a_report MAC_TYPE_DYNAMIC ''Po1'') (Some 0) ''Po1'' a_table"

definition a_lost :: System where
  "a_lost = do_mac_update_from_syncd a_mac 10 ''Po1'' MAC_TYPE_DYNAMIC MAC_SYNC_DEL
     (do_mac_update_from_syncd a_mac 10 ''Po1'' MAC_TYPE_DYNAMIC MAC_SYNC_ADD a_reported)"

definition a_static :: System where
  "a_static = mac_peer_new 0 (a_report MAC_TYPE_STATIC ''Eth1'') None ''Eth1'' a_table"

lemma a_table_ok: "mac_ok (MLACP (csm_of a_table 0))" "mac_rb a_table 0 = []"
  "sys_csm_list a_table = 0 # []"
  by (simp_all add: a_table_def zero_CSM_def zero_mLACP_def mac_ok_def rb_sorted_def)

lemma a_mac_length: "length a_mac = 6"
  by (simp add: a_mac_def)

lemma a_learned_step: "mac_step st 0 a_table a_learned"
  unfolding a_learned_def using a_mac_length a_table_ok(3) by (rule mac_step.syncd)

lemma a_learned_ok: "mac_ok (MLACP (csm_of a_learned 0))"
  using mac_step_ok [OF a_learned_step a_table_ok(1)] .

lemma a_new_ok: "mac_ok (MLACP (csm_of (mac_peer_new 0 (a_report ty n) l n a_table) 0))"
  by (rule mac_safety.peer_new [OF a_table_ok(1)])
    (simp_all add: a_report_def a_mac_length mac_find_def a_table_ok(2) rb_find_def)

lemma a_reported_list: "sys_csm_list a_reported = 0 # []"
  "sys_csm_list (do_mac_update_from_syncd a_mac 10 ''Po1'' MAC_TYPE_DYNAMIC MAC_SYNC_ADD a_reported) = 0 # []"
  by code_simp+

lemma a_lost_ok: "mac_ok (MLACP (csm_of a_lost 0))"
  unfolding a_lost_def
  using a_new_ok [of MAC_TYPE_DYNAMIC "''Po1''" "Some 0"] a_reported_list
  by (intro mac_safety.from_syncd a_mac_length) (simp_all add: a_reported_def)

section \<open>Properties\<close>

text \<open>
  C1. Whatever sequence of port events, peer link events, synchronisations, timeouts, transmissions,
  updates from mclagsyncd, updates from the peer and resets the table goes through, and whatever the
  daemon does elsewhere in between, its tree stays ordered with one entry per VLAN and address, and
  neither the tree nor the list ever holds an entry that was freed. The clearing of the list is one
  of these operations as far as its result is defined; the state in which it is not is the subject
  of a property of its own.
\<close>

theorem mac_table_memory_safe:
  assumes "(mac_step True c)\<^sup>*\<^sup>* s t" "mac_ok (MLACP (csm_of s c))"
  shows "mac_ok (MLACP (csm_of t c)) \<and>
    (\<forall>p \<in> set (mac_rb t c) \<union> set (mac_msg_list t c). p \<notin> set (ml_mac_freed (MLACP (csm_of t c))))"
proof -
  have "mac_ok (MLACP (csm_of t c))"
    using assms by (induction rule: rtranclp_induct) (auto intro: mac_step_ok)
  then show ?thesis by (auto simp: mac_ok_def)
qed

theorem mac_table_memory_safe_witness:
  "mac_rb a_learned 0 = [0] \<and> mac_msg_list a_learned 0 = [0] \<and> mac_ok (MLACP (csm_of a_learned 0)) \<and>
   0 \<notin> set (ml_mac_freed (MLACP (csm_of a_learned 0)))"
proof -
  have "mac_rb a_learned 0 = [0]" "mac_msg_list a_learned 0 = [0]" by code_simp+
  then show ?thesis
    using mac_table_memory_safe [of 0 a_table a_learned] a_learned_step a_table_ok(1) by auto
qed

text \<open>
  C12. Under the same operations, as long as the peer does not add an address that is static here,
  no entry of the table is marked as aged on both nodes: such an entry is removed by the step that
  completes its ageing.
\<close>

theorem mac_table_ageing:
  assumes "(mac_step False c)\<^sup>*\<^sup>* s t" "mac_ok (MLACP (csm_of s c))"
    "\<forall>p \<in> set (mac_rb s c). flag_ok (mac_of s c p)"
  shows "\<forall>p \<in> set (mac_rb t c). \<not> both_aged (mac_of t c p)"
proof -
  have "mac_ok (MLACP (csm_of t c)) \<and> aged_ok c t"
    using assms unfolding aged_ok_def [symmetric]
    by (induction rule: rtranclp_induct) (auto intro: mac_step_ok mac_step_aged)
  then show ?thesis by (auto simp: aged_ok_def flag_ok_def)
qed

theorem mac_table_ageing_witness:
  "mac_rb a_learned 0 = [0] \<and> \<not> both_aged (mac_of a_learned 0 0)"
proof -
  have "mac_rb a_learned 0 = [0]" by code_simp
  then show ?thesis
    using mac_table_ageing [of 0 a_table a_learned] a_learned_step a_table_ok by auto
qed

text \<open>
  When the session goes down, every entry that remains in the table is the node's own: it is
  marked as lost by the peer and not as lost here, and no entry waits on the peer link for the
  deletion of a port that is down.
\<close>

lemma mlacp_peer_disconn_fdb_local:
  assumes "mac_ok (MLACP (csm_of s c))" "\<forall>p \<in> set (mac_rb s c). flag_ok (mac_of s c p)"
  defines "t \<equiv> mlacp_peer_disconn_fdb_handler c s"
  shows "\<forall>p \<in> set (mac_rb t c). mac_age_flag (mac_of t c p) = MAC_AGE_PEER \<and>
    \<not> (mac_ifname (mac_of t c p) = csm_peer_itf_name (csm_of t c) \<and> mac_pending_local_del (mac_of t c p) \<noteq> 0)"
proof -
  define link where "link = csm_peer_itf_name (csm_of s c)"
  let ?Q = "\<lambda>m. mac_age_flag m = MAC_AGE_PEER \<and> \<not> (mac_ifname m = link \<and> mac_pending_local_del m \<noteq> 0)"
  have "csm_peer_itf_name (csm_of t c) = link \<and> (\<forall>p \<in> set (mac_rb t c). ?Q (mac_of t c p))"
    unfolding t_def mlacp_peer_disconn_fdb_handler_def
  proof (rule mac_foreach_all [where P = flag_ok])
    fix p u
    assume u: "csm_peer_itf_name (csm_of u c) = link" "flag_ok (mac_of u c p)"
    have "csm_peer_itf_name (csm_of (mac_remove c p v) c) = csm_peer_itf_name (csm_of v c)" for v
      by (simp add: mac_remove_def mac_free_unlisted_def mac_rb_remove_def)
    then show "csm_peer_itf_name (csm_of (mac_peer_disconnected c p u) c) = link \<and>
        turns c ?Q p u (mac_peer_disconnected c p u)"
      using u by (auto simp: mac_peer_disconnected_def Let_def chip_defs turns_def flag_ok_def)
  qed (use assms mac_ok_distinct in \<open>simp_all add: link_def\<close>)
  then show ?thesis by simp
qed

text \<open>
  C34. Clearing the list of entries to be sent frees every listed deletion. This goes wrong exactly
  when such an entry is still in the tree, which is the normal state of an address that was lost
  here but not by the peer: the tree is then visited after the entry was freed. In all other cases
  the table survives with an empty list.
\<close>

theorem mlacp_mac_msg_queue_reinit_use_after_free:
  assumes "mac_ok (MLACP (csm_of s c))"
  shows "if \<exists>p \<in> set (mac_rb s c). p \<in> set (mac_msg_list s c) \<and> mac_op_type (mac_of s c p) = MAC_SYNC_DEL
    then mlacp_mac_msg_queue_reinit c s = None
    else \<exists>t. mlacp_mac_msg_queue_reinit c s = Some t \<and> mac_ok (MLACP (csm_of t c)) \<and>
      mac_msg_list t c = [] \<and> mac_rb t c = mac_rb s c"
  using assms
  by (auto simp: mlacp_mac_msg_queue_reinit_def Let_def mac_ok_def list_ex_iff)

theorem mlacp_mac_msg_queue_reinit_use_after_free_witness:
  "mlacp_mac_msg_queue_reinit 0 a_lost = None"
proof -
  have "mac_rb a_lost 0 = [0]" "mac_msg_list a_lost 0 = [0]" "mac_op_type (mac_of a_lost 0 0) = MAC_SYNC_DEL"
    by code_simp+
  then show ?thesis
    using mlacp_mac_msg_queue_reinit_use_after_free [of a_lost 0] a_lost_ok by simp
qed

text \<open>
  A static address the node knows only from its peer is kept as it is when the peer reports it
  on another port, but it gets the mark of an address the peer has lost. It stays in the table as
  an entry that is aged on both nodes.
\<close>

lemma static_mac_moved_by_peer:
  assumes "mac_ok (MLACP (csm_of s c))"
    "c_string (md_ifname d) = Some ifname" "md_mac_addr d \<noteq> null_mac" "md_type d = MAC_SYNC_ADD"
    "mac_find (ntohs (md_vid d)) (md_mac_addr d) s c = Some p"
    "mac_fdb_type (mac_of s c p) = MAC_TYPE_STATIC" "mac_age_flag (mac_of s c p) = MAC_AGE_LOCAL"
    "mac_pending_local_del (mac_of s c p) = 0" "mac_origin_ifname (mac_of s c p) \<noteq> ifname"
  shows "\<exists>t. mlacp_fsm_update_mac_entry_from_peer c d s = Some t \<and> mac_rb t c = mac_rb s c \<and>
    p \<in> set (mac_rb t c) \<and> both_aged (mac_of t c p)"
  using assms mac_safety.mac_found [OF assms(5)]
  by (auto simp: mlacp_fsm_update_mac_entry_from_peer_def Let_def mac_peer_add_def mac_peer_seen_def
      mac_peer_moved_def)

end
