(* ===== verification/Mac_Sync.thy ===== *)
theory Mac_Sync
  imports Mac_Ageing
begin

text \<open>
  The way of a MAC entry from one node to the other: the transmission of the listed entries in
  batches (\<open>mlacp_sync_send_syncMacInfo\<close>), the queue of the receiver, and the update of the table
  there; and the table as a finite map, which is what the operations implement.
\<close>

section \<open>Sending to the peer\<close>

lemma de_LDPHdr_total: "8 \<le> length bs \<Longrightarrow> \<exists>x r. de_LDPHdr bs = Some (x, r)"
  by (auto simp: Suc_le_length_iff eval_nat_numeral de_LDPHdr_def)

lemma de_ICCParameter_total: "4 \<le> length bs \<Longrightarrow> \<exists>x r. de_ICCParameter bs = Some (x, r)"
  by (auto simp: Suc_le_length_iff eval_nat_numeral de_ICCParameter_def)

lemma iccp_csm_send_done:
  assumes "0 < csm_sock_fd (csm_of s c)" "0 < len"
  obtains e ty sts rc where "iccp_csm_send c buf len s =
      (rc, upd_csm c (MLACP_SET_ICCP_TX_DBG_COUNTER ty sts)
        ((upd_csm c (\<lambda>m. m\<lparr>csm_msg_log := log_append e (csm_msg_log m)\<rparr>) s)
          \<lparr>peer_tx := peer_tx s @ [(csm_sock_fd (csm_of s c), buf_take (nat len) buf, rc)]\<rparr>))"
proof -
  obtain ldp r where ldp: "de_LDPHdr (buf_take 24 buf) = Some (ldp, r)"
    using de_LDPHdr_total [of "buf_take 24 buf"] by auto
  obtain par r' where par: "de_ICCParameter (drop (if htons (ucast (ldp_msg_type ldp)) = MSG_T_CAPABILITY
      then 8 else 16) (buf_take 24 buf)) = Some (par, r')"
    using de_ICCParameter_total [of "drop 8 (buf_take 24 buf)"]
      de_ICCParameter_total [of "drop 16 (buf_take 24 buf)"]
    by (cases "htons (ucast (ldp_msg_type ldp)) = MSG_T_CAPABILITY") auto
  have tx: "peer_tx (upd_csm c f s) = peer_tx s" "env_write (upd_csm c f s) = env_write s" for f
    by (simp_all add: upd_csm_def)
  show thesis
    by (rule that) (use assms ldp par in \<open>simp add: iccp_csm_send_def Let_def tx\<close>)
qed

lemma count_iccp_frame [simp]:
  "csm_sock_fd (count_iccp dir ty sts csm) = csm_sock_fd csm"
  "csm_iccp_info (count_iccp dir ty sts csm) = csm_iccp_info csm"
  by (simp_all add: count_iccp_def Let_def upd_mlacp_def upd_app_def)

lemma iccp_csm_send_frame [simp]:
  "csm_sock_fd (csm_of (snd (iccp_csm_send c buf len s)) d) = csm_sock_fd (csm_of s d)"
  "csm_iccp_info (csm_of (snd (iccp_csm_send c buf len s)) d) = csm_iccp_info (csm_of s d)"
proof -
  have "csm_sock_fd (csm_of (snd (iccp_csm_send c buf len s)) d) = csm_sock_fd (csm_of s d) \<and>
      csm_iccp_info (csm_of (snd (iccp_csm_send c buf len s)) d) = csm_iccp_info (csm_of s d)"
  proof (cases rule: iccp_csm_send_cases [of c buf len s])
    case (2 e ty sts rc)
    show ?thesis
      unfolding 2 snd_conv by (simp add: MLACP_SET_ICCP_TX_DBG_COUNTER_def upd_csm_def)
  qed simp
  then show "csm_sock_fd (csm_of (snd (iccp_csm_send c buf len s)) d) = csm_sock_fd (csm_of s d)"
    "csm_iccp_info (csm_of (snd (iccp_csm_send c buf len s)) d) = csm_iccp_info (csm_of s d)"
    by simp_all
qed

lemma iccp_csm_send_tx:
  assumes "0 < csm_sock_fd (csm_of s c)" "0 < len"
  shows "\<exists>rc. peer_tx (snd (iccp_csm_send c buf len s)) =
    peer_tx s @ [(csm_sock_fd (csm_of s c), buf_take (nat len) buf, rc)]"
proof -
  obtain e ty sts rc where "iccp_csm_send c buf len s =
      (rc, upd_csm c (MLACP_SET_ICCP_TX_DBG_COUNTER ty sts)
        ((upd_csm c (\<lambda>m. m\<lparr>csm_msg_log := log_append e (csm_msg_log m)\<rparr>) s)
          \<lparr>peer_tx := peer_tx s @ [(csm_sock_fd (csm_of s c), buf_take (nat len) buf, rc)]\<rparr>))"
    using assms by (rule iccp_csm_send_done)
  then show ?thesis by (auto simp: upd_csm_def)
qed

section \<open>Batches\<close>

definition mac_info_msg :: "CSM \<Rightarrow> mLACPMACData list \<Rightarrow> u32 \<Rightarrow> bytes" where
  "mac_info_msg csm ds msg_id = info_msg csm TLV_T_MLACP_MAC_INFO 30 (map ser_mLACPMACData ds) msg_id"

lemma mac_info_msg_cong:
  "csm_iccp_info A = csm_iccp_info B \<Longrightarrow> mac_info_msg A ds i = mac_info_msg B ds i"
  by (simp add: mac_info_msg_def info_msg_def icc_header_def iccp_csm_fill_icc_rg_id_tlv_def)

lemma valid_mac_data: "length (mac_addr m) = 6 \<Longrightarrow> valid_mLACPMACData (mac_data m)"
  by (simp add: valid_mLACPMACData_def mac_data_def const_defs)

lemma length_mac_info_msg:
  "(\<And>d. d \<in> set ds \<Longrightarrow> valid_mLACPMACData d) \<Longrightarrow> length (mac_info_msg csm ds i) = 22 + 30 * length ds"
  using mLACPMACData_codec.length_concat_ser [of ds]
  by (simp add: mac_info_msg_def info_msg_def wire_simps)

lemma prepare_mac_info_step:
  assumes "\<And>d. d \<in> set ds \<Longrightarrow> valid_mLACPMACData d" "length (mac_addr m) = 6" "length ds < 30"
    "buf = (if ds = [] then [] else mac_info_msg (csm_of s c) ds i)"
  shows "mlacp_prepare_for_mac_info_to_peer c CSM_BUFFER_SIZE m (length ds) buf s =
    (int (22 + 30 * Suc (length ds)), mac_info_msg (csm_of s c) (ds @ [mac_data m]) (sys_ICCP_MSG_ID s),
     s\<lparr>sys_ICCP_MSG_ID := sys_ICCP_MSG_ID s + 1\<rparr>)"
proof -
  have m: "length (ser_mLACPMACData (mac_data m)) = 30"
    by (rule mLACPMACData_codec.length_ser [OF valid_mac_data [OF assms(2)]])
  have ds: "length x = 30" if "x \<in> set (map ser_mLACPMACData ds)" for x
    using that assms(1) by (auto simp: mLACPMACData_codec.length_ser)
  have "22 + 30 * Suc (length (map ser_mLACPMACData ds)) \<le> CSM_BUFFER_SIZE"
    using assms(3) by (simp add: CSM_BUFFER_SIZE_def)
  moreover have "buf = (if map ser_mLACPMACData ds = [] then []
      else info_msg (csm_of s c) TLV_T_MLACP_MAC_INFO 30 (map ser_mLACPMACData ds) i)"
    using assms(4) by (simp add: mac_info_msg_def)
  ultimately show ?thesis
    using add_info_entry_step [of _ 30 "map ser_mLACPMACData ds" CSM_BUFFER_SIZE, OF m ds, of buf s c TLV_T_MLACP_MAC_INFO i]
    by (simp add: mlacp_prepare_for_mac_info_to_peer_def mac_info_msg_def)
qed

definition sent_msgs :: "System \<Rightarrow> bytes list" where
  "sent_msgs s = map (\<lambda>(fd, msg, rc). msg) (peer_tx s)"

definition batch_of :: "CSM \<Rightarrow> mLACPMACData list \<Rightarrow> bytes \<Rightarrow> bool" where
  "batch_of csm b msg \<longleftrightarrow> b \<noteq> [] \<and> length b \<le> 30 \<and> (\<exists>i. msg = mac_info_msg csm b i)"

lemma batch_of_cong: "csm_iccp_info A = csm_iccp_info B \<Longrightarrow> batch_of A = batch_of B"
  by (intro ext) (simp add: batch_of_def mac_info_msg_cong [of A B])

lemma sent_batch:
  assumes "0 < csm_sock_fd (csm_of s c)" "ds \<noteq> []" "\<And>d. d \<in> set ds \<Longrightarrow> valid_mLACPMACData d"
  shows "sent_msgs (snd (iccp_csm_send c (mac_info_msg A ds i) (int (22 + 30 * length ds)) s)) =
    sent_msgs s @ [mac_info_msg A ds i]"
proof -
  have "buf_take (22 + 30 * length ds) (mac_info_msg A ds i) = mac_info_msg A ds i"
    using length_mac_info_msg [of ds A i] assms(3) by (simp add: buf_take_def)
  moreover have "nat (22 + 30 * int (length ds)) = 22 + 30 * length ds" by simp
  ultimately show ?thesis
    using iccp_csm_send_tx [OF assms(1), of "int (22 + 30 * length ds)" "mac_info_msg A ds i"]
    by (auto simp: sent_msgs_def)
qed

lemma mac_sent_frame [simp]:
  "csm_sock_fd (csm_of (mac_sent c p s) d) = csm_sock_fd (csm_of s d)"
  "csm_iccp_info (csm_of (mac_sent c p s) d) = csm_iccp_info (csm_of s d)"
  "ml_mac_heap (MLACP (csm_of (mac_sent c p s) d)) = ml_mac_heap (MLACP (csm_of s d))"
  "sent_msgs (mac_sent c p s) = sent_msgs s" "sys_ICCP_MSG_ID (mac_sent c p s) = sys_ICCP_MSG_ID s"
  by (simp_all add: mac_sent_def Let_def sent_msgs_def upd_ml_def upd_csm_def upd_mlacp_def upd_app_def)

lemma sent_msgs_frame [simp]:
  "sent_msgs (s\<lparr>sys_ICCP_MSG_ID := i\<rparr>) = sent_msgs s" "sent_msgs (upd_ml c f s) = sent_msgs s"
  by (simp_all add: sent_msgs_def upd_ml_def upd_csm_def)

lemma upd_ml_link [simp]:
  "csm_sock_fd (csm_of (upd_ml c f s) d) = csm_sock_fd (csm_of s d)"
  "csm_iccp_info (csm_of (upd_ml c f s) d) = csm_iccp_info (csm_of s d)"
  by (simp_all add: upd_ml_def upd_csm_def upd_mlacp_def upd_app_def)

text \<open>The states between two turns of the loop have the same entries and the same connection.\<close>

definition same_link :: "csm_ptr \<Rightarrow> System \<Rightarrow> System \<Rightarrow> bool" where
  "same_link c s t \<longleftrightarrow> csm_sock_fd (csm_of t c) = csm_sock_fd (csm_of s c) \<and>
     csm_iccp_info (csm_of t c) = csm_iccp_info (csm_of s c) \<and>
     ml_mac_heap (MLACP (csm_of t c)) = ml_mac_heap (MLACP (csm_of s c))"

lemma same_link_send: "same_link c s t \<Longrightarrow> same_link c s (snd (iccp_csm_send d buf len t))"
  by (simp add: same_link_def)

lemma send_mac_loop_step:
  assumes "\<And>d. d \<in> set ds \<Longrightarrow> valid_mLACPMACData d" "length ds < 30"
    "length (mac_addr (mac_of s c p)) = 6"
    "buf = (if ds = [] then [] else mac_info_msg (csm_of s c) ds i)"
    "d = mac_data (mac_of s c p)" "msg = mac_info_msg (csm_of s c) (ds @ [d]) (sys_ICCP_MSG_ID s)"
    "k = int (22 + 30 * length (ds @ [d]))"
  obtains t where "same_link c s t" "sent_msgs t = sent_msgs s"
    "send_mac_loop c (p # ps) (length ds) buf len s =
      (if length ds = 29 then send_mac_loop c ps 0 [] k (snd (iccp_csm_send c msg k t))
       else send_mac_loop c ps (length (ds @ [d])) msg k t)"
proof -
  define s1 where "s1 = upd_ml c (\<lambda>l. l\<lparr>ml_mac_msg_list := ps\<rparr>) s"
  define t where "t = (mac_sent c p s1)\<lparr>sys_ICCP_MSG_ID := sys_ICCP_MSG_ID s + 1\<rparr>"
  have s1: "mac_of s1 c p = mac_of s c p" "csm_iccp_info (csm_of s1 c) = csm_iccp_info (csm_of s c)"
      "sys_ICCP_MSG_ID s1 = sys_ICCP_MSG_ID s"
    by (simp_all add: s1_def upd_ml_def upd_csm_def upd_mlacp_def upd_app_def)
  have buf: "buf = (if ds = [] then [] else mac_info_msg (csm_of s1 c) ds i)"
    by (simp add: assms(4) mac_info_msg_cong [OF s1(2)])
  have "mlacp_prepare_for_mac_info_to_peer c CSM_BUFFER_SIZE (mac_of s1 c p) (length ds) buf s1 =
      (k, msg, s1\<lparr>sys_ICCP_MSG_ID := sys_ICCP_MSG_ID s + 1\<rparr>)"
    using prepare_mac_info_step [of ds "mac_of s1 c p" buf s1 c i, OF assms(1) _ assms(2) buf] assms(3)
    by (simp add: s1 mac_info_msg_cong [OF s1(2)] assms(5-7))
  then have "send_mac_loop c (p # ps) (length ds) buf len s =
      (if length ds = 29 then send_mac_loop c ps 0 [] k (snd (iccp_csm_send c msg k t))
       else send_mac_loop c ps (length (ds @ [d])) msg k t)"
    using assms(2) by (simp add: mac_sent_msg_id MAX_MAC_ENTRY_NUM_def Let_def t_def flip: s1_def)
  moreover have "same_link c s t" "sent_msgs t = sent_msgs s"
    by (simp_all add: same_link_def t_def s1_def)
  ultimately show thesis by (rule that [rotated 2])
qed

lemma send_mac_loop_batches:
  assumes "0 < csm_sock_fd (csm_of s c)" "\<And>d. d \<in> set ds \<Longrightarrow> valid_mLACPMACData d" "length ds < 30"
    "\<And>p. p \<in> set ps \<Longrightarrow> length (mac_addr (mac_of s c p)) = 6"
    "buf = (if ds = [] then [] else mac_info_msg (csm_of s c) ds i)"
    "ds \<noteq> [] \<Longrightarrow> len = int (22 + 30 * length ds)"
  shows "\<exists>bs msgs. concat bs = ds @ map (\<lambda>p. mac_data (mac_of s c p)) ps
    \<and> list_all2 (batch_of (csm_of s c)) bs msgs
    \<and> sent_msgs (send_mac_loop c ps (length ds) buf len s) = sent_msgs s @ msgs"
  using assms
proof (induction ps arbitrary: ds buf len i s)
  case Nil
  show ?case
  proof (cases "ds = []")
    case True
    then show ?thesis by (intro exI [of _ "[]"]) simp
  next
    case False
    then have "sent_msgs (send_mac_loop c [] (length ds) buf len s) = sent_msgs s @ [buf]"
      using Nil sent_batch [of s c ds "csm_of s c" i] by simp
    moreover have "batch_of (csm_of s c) ds buf"
      using False Nil by (auto simp: batch_of_def)
    ultimately show ?thesis
      by (intro exI [of _ "[ds]"] exI [of _ "[buf]"]) simp
  qed
next
  case (Cons p ps)
  define d where "d = mac_data (mac_of s c p)"
  define k where "k = int (22 + 30 * length (ds @ [d]))"
  define msg where "msg = mac_info_msg (csm_of s c) (ds @ [d]) (sys_ICCP_MSG_ID s)"
  have valid: "valid_mLACPMACData x" if "x \<in> set (ds @ [d])" for x
    using that Cons.prems(2,4) by (auto simp: d_def valid_mac_data)
  obtain t where t: "same_link c s t" "sent_msgs t = sent_msgs s"
    and step: "send_mac_loop c (p # ps) (length ds) buf len s =
      (if length ds = 29 then send_mac_loop c ps 0 [] k (snd (iccp_csm_send c msg k t))
       else send_mac_loop c ps (length (ds @ [d])) msg k t)"
    using send_mac_loop_step [OF Cons.prems(2,3) _ Cons.prems(5) d_def msg_def k_def, of ps len]
      Cons.prems(4) by auto
  show ?case
  proof (cases "length ds = 29")
    case True
    define t' where "t' = snd (iccp_csm_send c msg k t)"
    have t': "same_link c s t'" "sent_msgs t' = sent_msgs s @ [msg]"
      using sent_batch [of t c "ds @ [d]" "csm_of s c" "sys_ICCP_MSG_ID s"] Cons.prems(1) valid t
      by (simp_all add: t'_def same_link_send) (simp add: msg_def k_def same_link_def)
    obtain bs msgs where "concat bs = map (\<lambda>p. mac_data (mac_of s c p)) ps"
        "list_all2 (batch_of (csm_of s c)) bs msgs"
        "sent_msgs (send_mac_loop c ps 0 [] k t') = sent_msgs t' @ msgs"
      using Cons.IH [of t' "[]" "[]" i k] Cons.prems t'(1) batch_of_cong [of "csm_of t' c" "csm_of s c"]
      by (auto simp: same_link_def)
    moreover have "batch_of (csm_of s c) (ds @ [d]) msg"
      using Cons.prems(3) by (auto simp: batch_of_def msg_def)
    ultimately show ?thesis
      using True step t'(2) by (intro exI [of _ "(ds @ [d]) # bs"] exI [of _ "msg # msgs"])
        (simp add: d_def t'_def)
  next
    case False
    have "msg = mac_info_msg (csm_of t c) (ds @ [d]) (sys_ICCP_MSG_ID s)"
      using t(1) mac_info_msg_cong [of "csm_of t c" "csm_of s c"] by (simp add: msg_def same_link_def)
    then have "\<exists>bs msgs. concat bs = (ds @ [d]) @ map (\<lambda>p. mac_data (mac_of t c p)) ps
        \<and> list_all2 (batch_of (csm_of t c)) bs msgs
        \<and> sent_msgs (send_mac_loop c ps (length (ds @ [d])) msg k t) = sent_msgs t @ msgs"
      using Cons.prems(1,3,4) valid t(1) False
      by (intro Cons.IH) (simp_all add: same_link_def k_def)
    then obtain bs msgs where "concat bs = (ds @ [d]) @ map (\<lambda>p. mac_data (mac_of s c p)) ps"
        "list_all2 (batch_of (csm_of s c)) bs msgs"
        "sent_msgs (send_mac_loop c ps (length (ds @ [d])) msg k t) = sent_msgs t @ msgs"
      using t(1) batch_of_cong [of "csm_of t c" "csm_of s c"] by (auto simp: same_link_def)
    then show ?thesis
      using False step t(2) by (intro exI [of _ bs] exI [of _ msgs]) (simp add: d_def)
  qed
qed

section \<open>Receiving\<close>

text \<open>
  One message at the receiver: it is queued by its type, taken from the queue of the
  synchronisation layer, and its entries are applied. The specification knows no messages: the
  entries are applied one after the other.
\<close>

definition receive_mac_info :: "csm_ptr \<Rightarrow> bytes \<Rightarrow> System \<Rightarrow> System option" where
  "receive_mac_info c msg s =
     (case iccp_csm_enqueue_msg msg (csm_of s c) of None \<Rightarrow> None
      | Some csm \<Rightarrow>
          (case mlacp_dequeue_msg csm of (None, _) \<Rightarrow> None
           | (Some m, csm') \<Rightarrow> mlacp_fsm_update_mac_info_from_peer c (drop 16 m)
                                 (upd_csm c (\<lambda>_. csm') s)))"

fun receive_all :: "csm_ptr \<Rightarrow> bytes list \<Rightarrow> System \<Rightarrow> System option" where
  "receive_all c [] s = Some s"
| "receive_all c (m # ms) s =
     (case receive_mac_info c m s of None \<Rightarrow> None | Some t \<Rightarrow> receive_all c ms t)"

fun apply_entries :: "csm_ptr \<Rightarrow> mLACPMACData list \<Rightarrow> System \<Rightarrow> System option" where
  "apply_entries c [] s = Some s"
| "apply_entries c (d # ds) s =
     (case mlacp_fsm_update_mac_entry_from_peer c d s of None \<Rightarrow> None | Some t \<Rightarrow> apply_entries c ds t)"

lemma apply_entries_append:
  "apply_entries c (ds @ es) s =
     (case apply_entries c ds s of None \<Rightarrow> None | Some t \<Rightarrow> apply_entries c es t)"
  by (induction ds arbitrary: s) (auto split: option.split)

lemma update_mac_entries_ser:
  "(\<And>d. d \<in> set ds \<Longrightarrow> valid_mLACPMACData d) \<Longrightarrow>
   update_mac_entries c (length ds) (concat (map ser_mLACPMACData ds)) s = apply_entries c ds s"
  by (induction ds arbitrary: s) (auto simp: mLACPMACData_codec.de_ser split: option.split)

lemma enqueue_dequeue:
  "ml_msg_list (MLACP csm) = [] \<Longrightarrow> mlacp_dequeue_msg (mlacp_enqueue_msg m csm) = (Some m, csm)"
  by (simp add: mlacp_dequeue_msg_def mlacp_enqueue_msg_def upd_mlacp_def upd_app_def)

lemma upd_csm_same [simp]: "upd_csm c (\<lambda>_. csm_of s c) s = s"
  by (simp add: upd_csm_def)

lemma receive_batch:
  assumes "batch_of A b msg" "\<And>d. d \<in> set b \<Longrightarrow> valid_mLACPMACData d"
    "ml_msg_list (MLACP (csm_of s c)) = []"
  shows "receive_mac_info c msg s = apply_entries c b s"
proof -
  obtain i where msg: "msg = mac_info_msg A b i" and len: "length b \<le> 30"
    using assms(1) by (auto simp: batch_of_def)
  define r where "r = le16 (htons (word_of_nat (2 + 30 * length b))) @ le16 (htons (word_of_nat (length b)))
      @ concat (map ser_mLACPMACData b)"
  have "msg = ser_ICCHdr (icc_header A MSG_T_RG_APP_DATA (22 + 30 * length b) i) @
      le16 (htons TLV_T_MLACP_MAC_INFO) @ r"
    by (simp add: msg mac_info_msg_def info_msg_def par_word_icc_param r_def)
  then have "iccp_csm_enqueue_msg msg (csm_of s c) =
      Some (mlacp_enqueue_msg (received A (22 + 30 * length b) i TLV_T_MLACP_MAC_INFO r) (csm_of s c))"
    using enqueue_app_data by (simp add: r_def)
  moreover have "unat (word_of_nat (length b) :: u16) = length b"
    using len by (simp add: unat_of_nat)
  ultimately show ?thesis
    using assms(2,3)
    by (simp add: receive_mac_info_def enqueue_dequeue r_def mlacp_fsm_update_mac_info_from_peer_def
        update_mac_entries_ser de_mLACPMACInfoTLV_def de_ICCParameter_def)
qed

text \<open>The operations of the table leave the queue of received messages alone.\<close>

lemma queue_frame [simp]:
  "ml_msg_list (MLACP (csm_of (upd_mac c p f s) d)) = ml_msg_list (MLACP (csm_of s d))"
  "ml_msg_list (MLACP (csm_of (mac_enqueue c p s) d)) = ml_msg_list (MLACP (csm_of s d))"
  "ml_msg_list (MLACP (csm_of (mac_remove c p s) d)) = ml_msg_list (MLACP (csm_of s d))"
  "ml_msg_list (MLACP (csm_of (mac_sent c p s) d)) = ml_msg_list (MLACP (csm_of s d))"
  "ml_msg_list (MLACP (csm_of (snd (iccp_csm_send c buf len s)) d)) = ml_msg_list (MLACP (csm_of s d))"
  using iccp_csm_send_mlacp [of c buf len s d]
  by (auto simp: upd_mac_def upd_ml_def upd_csm_def upd_mlacp_def upd_app_def mac_enqueue_def
      mac_remove_def mac_rb_remove_def mac_free_unlisted_def mac_sent_def Let_def)

lemma queue_create [simp]:
  "ml_msg_list (MLACP (csm_of (snd (mac_create c m s)) c)) = ml_msg_list (MLACP (csm_of s c))"
  by (cases rule: mac_create_cases [of c m s]) (simp_all add: mac_created_def Let_def)

interpretation mac_queue: mac_table_invariant c
  "\<lambda>s. mac_ok (MLACP (csm_of s c)) \<and> ml_msg_list (MLACP (csm_of s c)) = []" for c
proof (unfold_locales, goal_cases)
  case (2 s t)
  then show ?case using only_syncd_frame(1) [OF 2(2)] by simp
next
  case (7 s)
  then show ?case using mac_safety.fresh by blast
next
  case (9 s p ps)
  then show ?case using mac_safety.unlisted by simp
qed (simp_all add: mac_safety.distinct_rb mac_safety.touch mac_safety.listed mac_safety.removed
    mac_safety.down_time mac_safety.created mac_safety.numbered mac_safety.sent)

lemma apply_entries_queue:
  assumes "mac_ok (MLACP (csm_of s c)) \<and> ml_msg_list (MLACP (csm_of s c)) = []"
    "\<And>d. d \<in> set ds \<Longrightarrow> valid_mLACPMACData d" "apply_entries c ds s = Some t"
  shows "mac_ok (MLACP (csm_of t c)) \<and> ml_msg_list (MLACP (csm_of t c)) = []"
  using assms
proof (induction ds arbitrary: s)
  case (Cons d ds)
  then obtain u where u: "mlacp_fsm_update_mac_entry_from_peer c d s = Some u" "apply_entries c ds u = Some t"
    by (auto split: option.splits)
  have "length (md_mac_addr d) = 6"
    using Cons.prems(2) by (simp add: valid_mLACPMACData_def const_defs)
  from mac_queue.entry_from_peer [OF Cons.prems(1) this u(1)] u(2) Cons show ?case by simp
qed simp

lemma receive_all_batches:
  assumes "list_all2 (batch_of A) bs msgs" "\<And>d. d \<in> set (concat bs) \<Longrightarrow> valid_mLACPMACData d"
    "mac_ok (MLACP (csm_of t c)) \<and> ml_msg_list (MLACP (csm_of t c)) = []"
  shows "receive_all c msgs t = apply_entries c (concat bs) t"
  using assms
proof (induction arbitrary: t rule: list_all2_induct)
  case (Cons b bs msg msgs)
  have b: "receive_mac_info c msg t = apply_entries c b t"
    using Cons.prems by (intro receive_batch [OF Cons.hyps(1)]) auto
  show ?case
  proof (cases "apply_entries c b t")
    case (Some u)
    have "mac_ok (MLACP (csm_of u c)) \<and> ml_msg_list (MLACP (csm_of u c)) = []"
      using Cons.prems Some by (intro apply_entries_queue [of t c b u]) auto
    then show ?thesis
      using Cons Some b by (simp add: apply_entries_append)
  qed (simp add: b apply_entries_append)
qed simp

lemma list_all2_in_right: "list_all2 P xs ys \<Longrightarrow> y \<in> set ys \<Longrightarrow> \<exists>x \<in> set xs. P x y"
  by (induction rule: list_all2_induct) auto

text \<open>
  C9. Round trip of the MAC synchronisation: the entries that wait in the send list, however many
  messages they are split into, have on the receiver the effect of the same entries applied one by
  one in the order of the list; no message holds more than thirty entries, so none exceeds the
  buffer. \<open>s\<close> is the sender with its session \<open>c\<close>, \<open>t\<close> the receiver with its session \<open>d\<close>.
\<close>

theorem mac_sync_roundtrip:
  assumes "0 < csm_sock_fd (csm_of s c)"
    "list_all (\<lambda>p. length (mac_addr (mac_of s c p)) = 6) (mac_msg_list s c)"
    "mac_ok (MLACP (csm_of t d))" "ml_msg_list (MLACP (csm_of t d)) = []"
  shows "\<exists>msgs. sent_msgs (mlacp_sync_send_syncMacInfo c s) = sent_msgs s @ msgs
    \<and> list_all (\<lambda>m. length m \<le> 922) msgs
    \<and> receive_all d msgs t =
        apply_entries d (map (\<lambda>p. mac_data (mac_of s c p)) (mac_msg_list s c)) t"
proof -
  let ?ds = "map (\<lambda>p. mac_data (mac_of s c p)) (mac_msg_list s c)"
  obtain bs msgs where b: "concat bs = ?ds" "list_all2 (batch_of (csm_of s c)) bs msgs"
      "sent_msgs (mlacp_sync_send_syncMacInfo c s) = sent_msgs s @ msgs"
    using send_mac_loop_batches [of s c "[]" "mac_msg_list s c" "[]" 0 0] assms(1,2)
    by (auto simp: mlacp_sync_send_syncMacInfo_def list_all_iff)
  have valid: "valid_mLACPMACData x" if "x \<in> set (concat bs)" for x
    using that b(1) assms(2) by (auto simp: valid_mac_data list_all_iff)
  have "length m \<le> 922" if m: "m \<in> set msgs" for m
  proof -
    obtain b where "b \<in> set bs" "batch_of (csm_of s c) b m"
      using list_all2_in_right [OF b(2) m] by blast
    moreover from this have "length (mac_info_msg csm b i) = 22 + 30 * length b" for csm i
      using valid by (intro length_mac_info_msg) auto
    ultimately show ?thesis
      by (auto simp: batch_of_def)
  qed
  moreover have "receive_all d msgs t = apply_entries d ?ds t"
    using receive_all_batches [OF b(2) valid] assms(3,4) b(1) by simp
  ultimately show ?thesis
    using b(3) by (auto simp: list_all_iff)
qed

theorem mac_sync_roundtrip_witness:
  "\<exists>msgs. sent_msgs (mlacp_sync_send_syncMacInfo 0 (upd_csm 0 (\<lambda>m. m\<lparr>csm_sock_fd := 7\<rparr>) a_learned)) = msgs
    \<and> receive_all 0 msgs a_table = apply_entries 0 [a_report MAC_TYPE_DYNAMIC ''Po1''] a_table"
proof -
  let ?s = "upd_csm 0 (\<lambda>m. m\<lparr>csm_sock_fd := 7\<rparr>) a_learned"
  have "csm_sock_fd (csm_of ?s 0) = 7" "mac_msg_list ?s 0 = [0]" "sent_msgs ?s = []"
    "mac_data (mac_of ?s 0 0) = a_report MAC_TYPE_DYNAMIC ''Po1''" "length (mac_addr (mac_of ?s 0 0)) = 6"
    "ml_msg_list (MLACP (csm_of a_table 0)) = []"
    by code_simp+
  with mac_sync_roundtrip [of ?s 0 a_table 0] a_table_ok(1) show ?thesis by auto
qed

end
