(* ===== verification/Mac_Spec.thy ===== *)
theory Mac_Spec
  imports Mac_Ageing
begin

text \<open>
  The MAC table as its users see it: a finite map from a VLAN and an address to who has the
  address, this node, the peer, or both. The specification says what each kind of report makes of
  the owners of its address; the operations on the tree and the entries refine it, and which kind a
  report is depends only on the report, the ports it names and the entry the table has for it.
\<close>

section \<open>The specification\<close>

type_synonym mac_id = "u16 \<times> bytes"
type_synonym owners = "mac_id \<rightharpoonup> bool \<times> bool"

text \<open>
  A report of the local hardware: the address was seen where the table has it, or is new; it was seen
  on another port; it is gone. A report of the peer: the address was seen, and nothing is known
  against its being here as well; it was seen behind a port that leads away from this node; it was
  seen on a port of the peer alone while there is no peer link to reach it; it is gone. A report can
  also be one that does not count.
\<close>

datatype mac_report = LocalSeen | LocalMoved | LocalLost | PeerSeen | PeerAway | PeerUnreachable | PeerLost
  | Ignored

fun lose_local :: "(bool \<times> bool) option \<Rightarrow> (bool \<times> bool) option" where
  "lose_local (Some (_, True)) = Some (False, True)"
| "lose_local _ = None"

fun lose_peer :: "(bool \<times> bool) option \<Rightarrow> (bool \<times> bool) option" where
  "lose_peer (Some (True, _)) = Some (True, False)"
| "lose_peer _ = None"

text \<open>
  The first component says that this node has the address, the second that the peer has it. An
  address nobody has is forgotten. A report of one node never gives the address to the other.
\<close>

definition mac_spec :: "mac_report \<Rightarrow> (bool \<times> bool) option \<Rightarrow> (bool \<times> bool) option" where
  "mac_spec ev h = (case ev of
     LocalSeen \<Rightarrow> Some (True, case h of None \<Rightarrow> False | Some w \<Rightarrow> snd w)
   | LocalMoved \<Rightarrow> Some (True, False)
   | LocalLost \<Rightarrow> lose_local h
   | PeerSeen \<Rightarrow> Some (case h of None \<Rightarrow> False | Some w \<Rightarrow> fst w, True)
   | PeerAway \<Rightarrow> Some (False, True)
   | PeerUnreachable \<Rightarrow> None
   | PeerLost \<Rightarrow> lose_peer h
   | Ignored \<Rightarrow> h)"

text \<open>An entry that stands for its port under the name \<open>n\<close>.\<close>

definition at_port :: "string \<Rightarrow> MACMsg \<Rightarrow> bool" where
  "at_port n m \<longleftrightarrow> mac_ifname m = n \<and> mac_origin_ifname m = n"

definition has_memory :: "System \<Rightarrow> bool" where
  "has_memory s \<longleftrightarrow> env_malloc s (env_n_malloc s)"

text \<open>
  The kind of a report of the peer about the port \<open>n\<close>: \<open>l\<close> is the local member of the MCLAG port
  with that name, if there is one. The address is out of reach when there is no such member and no
  peer link; it is away when the entry moves and there is no such member, or it is down, or when the
  entry waits for a local deletion. An addition that needs a new entry is lost without memory.
\<close>

definition peer_report :: "csm_ptr \<Rightarrow> mLACPMACData \<Rightarrow> string \<Rightarrow> System \<Rightarrow> mac_report" where
  "peer_report c d n s =
     (let l = mclag_if_of n c s; e = mac_find (ntohs (md_vid d)) (md_mac_addr d) s c;
          no_way = (l = None \<and> csm_peer_itf_name (csm_of s c) = [])
      in if md_mac_addr d = null_mac then Ignored
         else if md_type d = MAC_SYNC_DEL then PeerLost
         else if md_type d \<noteq> MAC_SYNC_ADD then Ignored
         else case e of
           None \<Rightarrow> if no_way then PeerUnreachable else if has_memory s then PeerSeen else Ignored
         | Some p \<Rightarrow>
             let m = mac_of s c p
             in if \<not> at_port n m \<and> no_way then PeerUnreachable
                else if \<not> at_port n m \<and> mac_not_here l s \<or> l \<noteq> None \<and> mac_pending_local_del m \<noteq> 0 then PeerAway
                else PeerSeen)"

text \<open>
  The kind of a local report about the port \<open>n\<close>. An addition does not count if the port is unknown or
  is the peer link, if the port is an MCLAG port that is down (for a known address while the peer's
  member is up, for a new one while it is down as well), or if there is no memory for a new entry. A
  deletion does not count while the entry waits on the peer link for the deletion of its port.
\<close>

definition local_report :: "csm_ptr \<Rightarrow> bytes \<Rightarrow> u16 \<Rightarrow> string \<Rightarrow> u8 \<Rightarrow> u8 \<Rightarrow> System \<Rightarrow> mac_report" where
  "local_report c addr vid n ty op s =
     (let e = mac_find vid addr s c; link = csm_peer_itf_name (csm_of s c);
          mclag_down = (\<lambda>q. lif_state (lif_of s q) = PORT_STATE_DOWN \<and> find_mclag_if n (sys_csm_list s) s \<noteq> None);
          peer_is = (\<lambda>st. pif_is st (peer_if_find_by_name (csm_of s c) n))
      in if addr = null_mac then Ignored
         else if op = MAC_SYNC_ADD then
           (case local_if_find_by_name n s of None \<Rightarrow> Ignored
            | Some q \<Rightarrow>
                if n = link then Ignored
                else case e of
                  None \<Rightarrow> if mclag_down q \<and> peer_is PORT_STATE_DOWN \<or> \<not> has_memory s then Ignored else LocalSeen
                | Some p \<Rightarrow>
                    if mclag_down q \<and> peer_is PORT_STATE_UP then Ignored
                    else if at_port n (mac_of s c p) \<and> mac_fdb_type (mac_of s c p) = ty then LocalSeen
                    else LocalMoved)
         else case e of None \<Rightarrow> Ignored
              | Some p \<Rightarrow> if mac_ifname (mac_of s c p) = link \<and> mac_pending_local_del (mac_of s c p) \<noteq> 0
                          then Ignored else LocalLost)"

section \<open>The abstraction\<close>

definition mac_id_of :: "MACMsg \<Rightarrow> mac_id" where
  "mac_id_of m = (mac_vid m, mac_addr m)"

definition owned :: "MACMsg \<Rightarrow> bool \<times> bool" where
  "owned m = (mac_age_flag m AND MAC_AGE_LOCAL = 0, mac_age_flag m AND MAC_AGE_PEER = 0)"

definition owners_of :: "System \<Rightarrow> csm_ptr \<Rightarrow> owners" where
  "owners_of s c k = map_option (\<lambda>p. owned (mac_of s c p))
     (find (\<lambda>p. mac_id_of (mac_of s c p) = k) (mac_rb s c))"

lemma mac_ok_unique:
  assumes "mac_ok (MLACP (csm_of s c))" "p \<in> set (mac_rb s c)" "q \<in> set (mac_rb s c)"
    "mac_id_of (mac_of s c p) = mac_id_of (mac_of s c q)"
  shows "p = q"
proof (rule ccontr)
  assume "p \<noteq> q"
  have cmp: "MACMsg_compare (mac_of s c p) (mac_of s c q) = 0" "MACMsg_compare (mac_of s c q) (mac_of s c p) = 0"
    using assms(4) by (simp_all add: MACMsg_compare_def mac_id_of_def)
  obtain i j where ij: "p = mac_rb s c ! i" "q = mac_rb s c ! j" "i < length (mac_rb s c)" "j < length (mac_rb s c)"
    using assms(2,3) by (auto simp: in_set_conv_nth)
  have "i < j \<or> j < i" using ij \<open>p \<noteq> q\<close> by (cases i j rule: linorder_cases) auto
  moreover have "sorted_wrt (\<lambda>p q. MACMsg_compare (mac_of s c p) (mac_of s c q) < 0) (mac_rb s c)"
    using assms(1) by (simp add: mac_ok_def rb_sorted_def)
  ultimately have "MACMsg_compare (mac_of s c p) (mac_of s c q) < 0 \<or>
      MACMsg_compare (mac_of s c q) (mac_of s c p) < 0"
    using ij by (auto simp: sorted_wrt_iff_nth_less)
  with cmp show False by simp
qed

lemma owners_of_Some:
  assumes "mac_ok (MLACP (csm_of s c))" "p \<in> set (mac_rb s c)"
  shows "owners_of s c (mac_id_of (mac_of s c p)) = Some (owned (mac_of s c p))"
proof (cases "find (\<lambda>q. mac_id_of (mac_of s c q) = mac_id_of (mac_of s c p)) (mac_rb s c)")
  case None
  then show ?thesis using assms(2) by (auto simp: find_None_iff)
next
  case (Some q)
  then have "q = p"
    using find_SomeD [OF Some] mac_ok_unique [OF assms(1)] assms(2) by auto
  with Some show ?thesis by (simp add: owners_of_def)
qed

lemma owners_of_None:
  "(\<And>p. p \<in> set (mac_rb s c) \<Longrightarrow> mac_id_of (mac_of s c p) \<noteq> k) \<Longrightarrow> owners_of s c k = None"
  by (auto simp: owners_of_def find_None_iff)

lemma mac_find_id:
  assumes "mac_ok (MLACP (csm_of s c))" "length a = 6"
  shows "mac_find v a s c = Some p \<Longrightarrow> p \<in> set (mac_rb s c) \<and> mac_id_of (mac_of s c p) = (v, a)"
    "mac_find v a s c = None \<Longrightarrow> owners_of s c (v, a) = None"
proof -
  have cmp: "MACMsg_compare (mac_key v a) (mac_of s c p) = 0 \<longleftrightarrow> mac_id_of (mac_of s c p) = (v, a)"
    if "p \<in> set (mac_rb s c)" for p
    using MACMsg_compare_0 [of "mac_key v a" "mac_of s c p"] assms that
    by (auto simp: mac_ok_def mac_key_def mac_id_of_def)
  show "mac_find v a s c = Some p \<Longrightarrow> p \<in> set (mac_rb s c) \<and> mac_id_of (mac_of s c p) = (v, a)"
    unfolding mac_find_def using cmp by (auto dest: rb_find_Some)
  show "mac_find v a s c = None \<Longrightarrow> owners_of s c (v, a) = None"
    unfolding mac_find_def rb_find_None using cmp by (auto intro: owners_of_None)
qed

section \<open>Steps on one entry\<close>

lemma option_eqI: "(\<And>x. a = Some x \<longleftrightarrow> b = Some x) \<Longrightarrow> a = b"
  by (cases a; cases b) auto

lemma owners_of_iff:
  assumes "mac_ok (MLACP (csm_of s c))"
  shows "owners_of s c k = Some h \<longleftrightarrow>
    (\<exists>p \<in> set (mac_rb s c). mac_id_of (mac_of s c p) = k \<and> owned (mac_of s c p) = h)"
  using owners_of_Some [OF assms] owners_of_None [of s c k] by fastforce

lemma owners_agree:
  assumes "mac_ok (MLACP (csm_of s c))" "mac_ok (MLACP (csm_of t c))" "k \<noteq> k0"
    "\<And>p. p \<in> set (mac_rb s c) \<Longrightarrow> mac_id_of (mac_of s c p) \<noteq> k0 \<Longrightarrow>
      p \<in> set (mac_rb t c) \<and> mac_of t c p = mac_of s c p"
    "\<And>p. p \<in> set (mac_rb t c) \<Longrightarrow> mac_id_of (mac_of t c p) \<noteq> k0 \<Longrightarrow>
      p \<in> set (mac_rb s c) \<and> mac_of t c p = mac_of s c p"
  shows "owners_of t c k = owners_of s c k"
proof (rule option_eqI)
  fix h
  show "owners_of t c k = Some h \<longleftrightarrow> owners_of s c k = Some h"
    unfolding owners_of_iff [OF assms(1)] owners_of_iff [OF assms(2)]
    using assms(3-5) by metis
qed

lemma owners_same_but:
  assumes "mac_ok (MLACP (csm_of s c))" "mac_ok (MLACP (csm_of t c))" "p \<in> set (mac_rb s c)"
    "same_but c p s t" "mac_id_of (mac_of t c p) = mac_id_of (mac_of s c p)"
  shows "owners_of t c = (owners_of s c)(mac_id_of (mac_of s c p) \<mapsto> owned (mac_of t c p))"
proof
  fix k
  show "owners_of t c k = ((owners_of s c)(mac_id_of (mac_of s c p) \<mapsto> owned (mac_of t c p))) k"
  proof (cases "k = mac_id_of (mac_of s c p)")
    case True
    then show ?thesis
      using owners_of_Some [OF assms(2), of p] assms(3-5) by (simp add: same_but_def)
  next
    case False
    then have "owners_of t c k = owners_of s c k"
      using assms by (intro owners_agree [OF assms(1,2) False]) (auto simp: same_but_def)
    with False show ?thesis by simp
  qed
qed

lemma owners_gone:
  assumes "mac_ok (MLACP (csm_of s c))" "mac_ok (MLACP (csm_of t c))" "p \<in> set (mac_rb s c)" "gone c p s t"
  shows "owners_of t c = (owners_of s c)(mac_id_of (mac_of s c p) := None)"
proof
  fix k
  have rb: "set (mac_rb t c) = set (mac_rb s c) - {p}"
    using assms(1,4) mac_ok_distinct by (auto simp: gone_def set_rb_remove)
  have "k \<noteq> mac_id_of (mac_of s c p) \<Longrightarrow> owners_of t c k = owners_of s c k"
    using assms(4) rb by (intro owners_agree [OF assms(1,2)]) (auto simp: gone_def)
  moreover have "owners_of t c (mac_id_of (mac_of s c p)) = None"
    using assms rb mac_ok_unique [OF assms(1) _ assms(3)] by (intro owners_of_None) (auto simp: gone_def)
  ultimately show "owners_of t c k = ((owners_of s c)(mac_id_of (mac_of s c p) := None)) k"
    by simp
qed

lemma owners_created:
  assumes "mac_ok (MLACP (csm_of s c))" "length (mac_addr m) = 6"
    "mac_find (mac_vid m) (mac_addr m) s c = None" "mac_create c m s = (r, t)"
  shows "owners_of t c = (if r = None then owners_of s c else (owners_of s c)(mac_id_of m \<mapsto> owned m))"
  using assms(4)
proof (cases rule: mac_create_cases [of c m s])
  case 1
  then show ?thesis using assms(4) by (auto simp: owners_of_def)
next
  case 2
  let ?p = "ml_mac_next (MLACP (csm_of s c))"
  have t: "r = Some ?p" "t = upd_ml c (mac_created m) (snd (malloc s))"
    using 2 assms(4) by auto
  have fresh: "?p \<notin> set (mac_rb s c)" using mac_safety.fresh [OF assms(1)] by simp
  have ok: "mac_ok (MLACP (csm_of t c))" using mac_safety.create [OF assms] .
  have rb: "set (mac_rb t c) = insert ?p (set (mac_rb s c))"
    using rb_insert_new [OF mac_created_new [OF assms(3) fresh]] by (simp add: t mac_created_def Let_def)
  have of_t: "mac_of t c q = (if q = ?p then m else mac_of s c q)" for q
    by (simp add: t mac_created_def Let_def)
  have new: "owners_of t c (mac_id_of m) = Some (owned m)"
    using owners_of_Some [OF ok, of ?p] rb by (simp add: of_t)
  have "owners_of t c k = owners_of s c k" if "k \<noteq> mac_id_of m" for k
    using fresh rb by (intro owners_agree [OF assms(1) ok that]) (auto simp: of_t split: if_splits)
  with new show ?thesis by (auto simp: t)
qed

text \<open>The operations on known entries do not change VLAN and address of any entry.\<close>

interpretation mac_keys: mac_invariant c
  "\<lambda>s. mac_ok (MLACP (csm_of s c)) \<and> (\<forall>p \<in> set (mac_rb s c). mac_id_of (mac_of s c p) = K p)" for c K
proof (unfold_locales, goal_cases)
  case (2 s t)
  then show ?case using only_syncd_frame(1) [OF 2(2)] by simp
next
  case (3 s p f)
  then show ?case by (simp add: mac_safety.touch) (simp add: mac_id_of_def keeps_key_def)
next
  case (5 s p)
  then show ?case using mac_ok_distinct mac_safety.removed by (auto simp: rb_remove_def)
qed (simp_all add: mac_safety.distinct_rb mac_safety.listed mac_safety.down_time)

text \<open>What an operation makes of the entry \<open>p\<close>.\<close>

definition becomes :: "csm_ptr \<Rightarrow> mac_ptr \<Rightarrow> System \<Rightarrow> System \<Rightarrow> (bool \<times> bool) option \<Rightarrow> bool" where
  "becomes c p s t h \<longleftrightarrow>
     (case h of None \<Rightarrow> gone c p s t | Some w \<Rightarrow> same_but c p s t \<and> owned (mac_of t c p) = w)"

lemma owners_becomes:
  assumes "mac_ok (MLACP (csm_of s c))" "p \<in> set (mac_rb s c)" "becomes c p s t h"
    "mac_ok (MLACP (csm_of t c)) \<and> (\<forall>q \<in> set (mac_rb t c). mac_id_of (mac_of t c q) = mac_id_of (mac_of s c q))"
  shows "owners_of t c = (owners_of s c)(mac_id_of (mac_of s c p) := h)"
  using assms owners_gone [of s c t p] owners_same_but [of s c t p]
  by (auto simp: becomes_def same_but_def split: option.splits)

lemma owned_cases:
  assumes "flag_ok m"
  obtains "mac_age_flag m = 0" "owned m = (True, True)"
  | "mac_age_flag m = MAC_AGE_LOCAL" "owned m = (False, True)"
  | "mac_age_flag m = MAC_AGE_PEER" "owned m = (True, False)"
  using assms that by (auto simp: flag_ok_def owned_def const_defs)

lemma owned_flag:
  "mac_age_flag m = MAC_AGE_LOCAL \<Longrightarrow> owned m = (False, True)"
  "mac_age_flag m = MAC_AGE_PEER \<Longrightarrow> owned m = (True, False)"
  "mac_age_flag m = 0 \<Longrightarrow> owned m = (True, True)"
  by (simp_all add: owned_def const_defs)

lemma becomes_peer_del:
  assumes "flag_ok (mac_of s c p)"
  shows "becomes c p s (mac_peer_del c p s) (lose_peer (Some (owned (mac_of s c p))))"
  using assms
  by (rule owned_cases) (simp_all add: becomes_def mac_peer_del_def Let_def chip_defs owned_flag)

lemma becomes_to_peer_link [simp]:
  "becomes c p s (mac_to_peer_link c p t) h \<longleftrightarrow> becomes c p s t h"
  by (auto simp: becomes_def mac_to_peer_link_def Let_def chip_defs gone_def owned_def split: option.split)

lemma becomes_peer_seen:
  assumes "flag_ok (mac_of s c p)"
  shows "becomes c p s (mac_peer_seen c p l s)
    (Some (fst (owned (mac_of s c p)) \<and> \<not> (l \<noteq> None \<and> mac_pending_local_del (mac_of s c p) \<noteq> 0), True))"
  using assms
  by (rule owned_cases) (auto simp: becomes_def mac_peer_seen_def Let_def owned_flag)

lemma becomes_peer_moved:
  assumes "becomes c p s t (Some (b, True))" "flag_ok (mac_of t c p)"
    "mac_fdb_type (mac_of t c p) \<noteq> MAC_TYPE_STATIC"
  shows "becomes c p s (mac_peer_moved c p l n t)
    (if mac_not_here l t then if l = None \<and> csm_peer_itf_name (csm_of t c) = [] then None else Some (False, True)
     else Some (b, True))"
proof -
  have flag: "mac_age_flag (mac_of t c p) = 0 \<or> mac_age_flag (mac_of t c p) = MAC_AGE_LOCAL"
    by (rule owned_cases [OF assms(2)]) (use assms(1) in \<open>simp_all add: becomes_def\<close>)
  define u where "u = mac_set_local_age c p True (upd_mac c p (\<lambda>m. m\<lparr>mac_origin_ifname := n\<rparr>) t)"
  have u: "becomes c p s u (Some (False, True))" "csm_peer_itf_name (csm_of u c) = csm_peer_itf_name (csm_of t c)"
    using assms(1) flag by (auto simp: u_def becomes_def owned_flag mac_set_local_age_def set_mac_local_age_flag_def Let_def)
  have here: "becomes c p s (add_mac_to_chip c p ty (mac_set_ifname c p n
      (upd_mac c p (\<lambda>m. m\<lparr>mac_origin_ifname := n\<rparr>) t))) (Some (b, True))" for ty
    using assms(1) by (simp add: becomes_def chip_defs owned_def)
  have away: "becomes c p s (mac_set_ifname c p n (del_mac_from_chip c p u)) (Some (False, True))"
    "becomes c p s (mac_remove c p (mac_set_ifname c p n (del_mac_from_chip c p u))) None"
    using u by (simp_all add: becomes_def chip_defs owned_def)
  have "mac_not_here l (upd_mac c p f t) = mac_not_here l t" for f
    by (simp add: mac_not_here_def split: option.split)
  then show ?thesis
    using assms(3) u here away unfolding mac_peer_moved_def Let_def u_def [symmetric]
    by auto
qed

lemma mac_peer_seen_names [simp]:
  "mac_ifname (mac_of (mac_peer_seen c p l s) c p) = mac_ifname (mac_of s c p)"
  "mac_origin_ifname (mac_of (mac_peer_seen c p l s) c p) = mac_origin_ifname (mac_of s c p)"
  "csm_peer_itf_name (csm_of (mac_peer_seen c p l s) d) = csm_peer_itf_name (csm_of s d)"
  "mac_not_here k (mac_peer_seen c p l s) = mac_not_here k s"
  by (simp_all add: mac_peer_seen_def mac_not_here_def Let_def split: option.split)

lemma becomes_peer_add:
  assumes "flag_ok (mac_of s c p)" "mac_fdb_type (mac_of s c p) \<noteq> MAC_TYPE_STATIC"
  defines "m \<equiv> mac_of s c p"
  shows "becomes c p s (mac_peer_add c p l n s)
    (if \<not> at_port n m \<and> l = None \<and> csm_peer_itf_name (csm_of s c) = [] then None
     else if \<not> at_port n m \<and> mac_not_here l s \<or> l \<noteq> None \<and> mac_pending_local_del m \<noteq> 0 then Some (False, True)
     else Some (fst (owned m), True))"
proof -
  let ?t = "mac_peer_seen c p l s"
  have seen: "becomes c p s ?t (Some (fst (owned m) \<and> \<not> (l \<noteq> None \<and> mac_pending_local_del m \<noteq> 0), True))"
    unfolding m_def by (rule becomes_peer_seen [OF assms(1)])
  have "flag_ok (mac_of ?t c p)"
    using mac_peer_seen_flag [OF assms(1), of l] by (auto simp: flag_ok_def)
  from becomes_peer_moved [OF seen this, of l n] assms(2)
  have moved: "becomes c p s (mac_peer_moved c p l n ?t)
      (if mac_not_here l s then if l = None \<and> csm_peer_itf_name (csm_of s c) = [] then None else Some (False, True)
       else Some (fst (owned m) \<and> \<not> (l \<noteq> None \<and> mac_pending_local_del m \<noteq> 0), True))"
    by (simp cong: if_cong)
  have none: "mac_not_here None s" by (simp add: mac_not_here_def)
  show ?thesis
  proof (cases "at_port n m")
    case True
    then show ?thesis
      using seen by (auto simp: mac_peer_add_def Let_def at_port_def m_def)
  next
    case False
    then have "mac_peer_add c p l n s = mac_peer_moved c p l n ?t"
      by (simp add: mac_peer_add_def Let_def at_port_def m_def)
    with False moved none show ?thesis by (auto split: if_splits)
  qed
qed

lemma becomes_syncd_add:
  assumes "flag_ok (mac_of s c p)" "mac_age_flag m = 0" "mac_ifname m = n"
  shows "becomes c p s (syncd_add_known c p m b pif q s)
    (Some (if lif_state (lif_of s q) = PORT_STATE_DOWN \<and> b \<and> pif_is PORT_STATE_UP pif then owned (mac_of s c p)
       else if at_port n (mac_of s c p) \<and> mac_fdb_type (mac_of s c p) = mac_fdb_type m
       then (True, snd (owned (mac_of s c p))) else (True, False)))"
  using assms(1)
proof (rule owned_cases)
qed (use assms(2,3) in \<open>auto simp: syncd_add_known_def Let_def becomes_def chip_defs owned_flag at_port_def\<close>)

lemma becomes_aged_out: "same_but c p s t \<Longrightarrow> becomes c p s (syncd_aged_out c p t) None"
  by (simp add: becomes_def syncd_aged_out_def chip_defs)

lemma becomes_chip [simp]:
  "becomes c p s (syncd_add_back c p t) h \<longleftrightarrow> becomes c p s t h"
  "becomes c p s (mac_set_ifname c p n t) h \<longleftrightarrow> becomes c p s t h"
  by (auto simp: becomes_def syncd_add_back_def chip_defs gone_def owned_def split: option.split)

lemma becomes_syncd_del:
  assumes "flag_ok (mac_of s c p)"
  shows "becomes c p s (syncd_del c p l s)
    (if mac_ifname (mac_of s c p) = csm_peer_itf_name (csm_of s c) \<and> mac_pending_local_del (mac_of s c p) \<noteq> 0
     then Some (owned (mac_of s c p)) else lose_local (Some (owned (mac_of s c p))))"
proof -
  define u where "u = mac_set_local_age c p True s"
  have u: "same_but c p s u" by (simp add: u_def)
  have "both_aged (mac_of u c p) \<and> lose_local (Some (owned (mac_of s c p))) = None \<or>
      \<not> both_aged (mac_of u c p) \<and> becomes c p s u (lose_local (Some (owned (mac_of s c p))))"
    by (rule owned_cases [OF assms]) (simp_all add: u_def becomes_def owned_flag)
  then have "becomes c p s (syncd_del_peer_link c p s) (lose_local (Some (owned (mac_of s c p))))"
    "becomes c p s (syncd_del_local c p l s) (lose_local (Some (owned (mac_of s c p))))"
    unfolding syncd_del_peer_link_def syncd_del_local_def Let_def u_def [symmetric]
    using becomes_aged_out [OF u] by (auto split: option.split)
  moreover have "becomes c p s s (Some (owned (mac_of s c p)))"
    by (simp add: becomes_def)
  ultimately show ?thesis by (simp add: syncd_del_def)
qed

section \<open>Refinement\<close>

lemma owners_of_cong:
  "mac_rb t c = mac_rb s c \<Longrightarrow> ml_mac_heap (MLACP (csm_of t c)) = ml_mac_heap (MLACP (csm_of s c)) \<Longrightarrow>
   owners_of t c = owners_of s c"
  by (rule ext) (simp add: owners_of_def)

lemma owners_of_simps [simp]:
  "owners_of (add_stack_mac_to_chip m ty s) c = owners_of s c"
  "owners_of (del_stack_mac_from_chip m s) c = owners_of s c"
  "owners_of (upd_ml c (\<lambda>l. l\<lparr>ml_mac_msg_list := ps l\<rparr>) s) c = owners_of s c"
  by (rule owners_of_cong; simp)+

text \<open>An operation on a known entry, as a change of the map at the key of the entry.\<close>

lemma known_refines:
  assumes "mac_ok (MLACP (csm_of s c))" "length a = 6" "mac_find v a s c = Some p"
    "becomes c p s (f s) h"
    "\<And>K. mac_ok (MLACP (csm_of s c)) \<and> (\<forall>q \<in> set (mac_rb s c). mac_id_of (mac_of s c q) = K q) \<Longrightarrow>
      p \<in> set (mac_rb s c) \<Longrightarrow>
      mac_ok (MLACP (csm_of (f s) c)) \<and> (\<forall>q \<in> set (mac_rb (f s) c). mac_id_of (mac_of (f s) c q) = K q)"
  shows "owners_of (f s) c = (owners_of s c)((v, a) := h)"
    "owners_of s c (v, a) = Some (owned (mac_of s c p))"
proof -
  have p: "p \<in> set (mac_rb s c)" "mac_id_of (mac_of s c p) = (v, a)"
    using mac_find_id(1) [OF assms(1-3)] by simp_all
  have "mac_ok (MLACP (csm_of (f s) c)) \<and>
      (\<forall>q \<in> set (mac_rb (f s) c). mac_id_of (mac_of (f s) c q) = mac_id_of (mac_of s c q))"
    using assms(1) p(1) by (intro assms(5)) simp_all
  then show "owners_of (f s) c = (owners_of s c)((v, a) := h)"
    using owners_becomes [OF assms(1) p(1) assms(4)] p(2) by simp
  show "owners_of s c (v, a) = Some (owned (mac_of s c p))"
    using owners_of_Some [OF assms(1) p(1)] p(2) by simp
qed

lemmas peer_add_refines = known_refines [where f = "mac_peer_add _ _ _ _", OF _ _ _ _ mac_keys.peer_add]
lemmas peer_del_refines = known_refines [where f = "mac_peer_del _ _", OF _ _ _ _ mac_keys.peer_del]
lemmas syncd_add_refines = known_refines [where f = "syncd_add_known _ _ _ _ _ _", OF _ _ _ _ mac_keys.syncd_known]
lemmas syncd_del_refines = known_refines [where f = "syncd_del _ _ _", OF _ _ _ _ mac_keys.syncd_deleted]

lemma mac_create_memory: "fst (mac_create c m s) = None \<longleftrightarrow> \<not> has_memory s"
  by (simp add: mac_create_def iccp_csm_init_mac_msg_def malloc_def has_memory_def Let_def)

lemma peer_new_refines:
  assumes "mac_ok (MLACP (csm_of s c))" "length (md_mac_addr d) = 6"
    "mac_find (ntohs (md_vid d)) (md_mac_addr d) s c = None"
  shows "owners_of (mac_peer_new c d l n s) c =
    (if l = None \<and> csm_peer_itf_name (csm_of s c) = [] \<or> \<not> has_memory s then owners_of s c
     else (owners_of s c)((ntohs (md_vid d), md_mac_addr d) \<mapsto> (False, True)))"
proof -
  let ?m = "peer_mac_entry c d l n s"
  obtain r t where r: "mac_create c ?m s = (r, t)" by fastforce
  have "owners_of t c = (if r = None then owners_of s c else (owners_of s c)(mac_id_of ?m \<mapsto> owned ?m))"
    using assms by (intro owners_created [OF assms(1) _ _ r]) (simp_all add: peer_mac_entry_def)
  moreover have "mac_id_of ?m = (ntohs (md_vid d), md_mac_addr d)" "owned ?m = (False, True)"
    by (simp_all add: peer_mac_entry_def mac_id_of_def owned_flag)
  moreover have "r = None \<longleftrightarrow> \<not> has_memory s"
    using mac_create_memory [of c ?m s] r by simp
  moreover have "mac_not_here None s" by (simp add: mac_not_here_def)
  ultimately show ?thesis
    by (auto simp: mac_peer_new_def Let_def r split: option.split)
qed

text \<open>
  C4. Functional refinement for the reports of the peer: an entry of a message from the peer makes of
  the owners of its address exactly what the specification says for a report of its kind, and no
  other address changes owners. The table is one without entries aged on both nodes, which is what
  its operations maintain, and an address the peer adds is not static here: this is the one case in
  which the code departs from the specification.
\<close>

theorem mac_peer_report_refines:
  assumes "mac_ok (MLACP (csm_of s c))" "\<forall>p \<in> set (mac_rb s c). flag_ok (mac_of s c p)"
    "length (md_mac_addr d) = 6" "c_string (md_ifname d) = Some n"
    "\<And>p. md_type d = MAC_SYNC_ADD \<Longrightarrow> mac_find (ntohs (md_vid d)) (md_mac_addr d) s c = Some p \<Longrightarrow>
      mac_fdb_type (mac_of s c p) \<noteq> MAC_TYPE_STATIC"
  defines "k \<equiv> (ntohs (md_vid d), md_mac_addr d)"
  shows "\<exists>t. mlacp_fsm_update_mac_entry_from_peer c d s = Some t \<and>
    owners_of t c = (owners_of s c)(k := mac_spec (peer_report c d n s) (owners_of s c k))"
proof (cases "md_mac_addr d = null_mac")
  case True
  then show ?thesis
    by (simp add: mlacp_fsm_update_mac_entry_from_peer_def peer_report_def mac_spec_def)
next
  case False
  have ops: "MAC_SYNC_ADD \<noteq> MAC_SYNC_DEL" by (simp add: const_defs)
  show ?thesis
  proof (cases "mac_find (ntohs (md_vid d)) (md_mac_addr d) s c")
    case None
    have none: "owners_of s c k = None"
      unfolding k_def by (rule mac_find_id(2) [OF assms(1,3) None])
    then show ?thesis
      using False None ops assms(4) peer_new_refines [OF assms(1,3) None, of "mclag_if_of n c s" n]
      by (auto simp: mlacp_fsm_update_mac_entry_from_peer_def peer_report_def mac_spec_def Let_def fun_upd_idem k_def)
  next
    case (Some p)
    have p: "flag_ok (mac_of s c p)"
      using mac_find_id(1) [OF assms(1,3) Some] assms(2) by auto
    have own: "owners_of s c k = Some (owned (mac_of s c p))"
      using peer_del_refines(2) [OF assms(1,3) Some becomes_peer_del [OF p]] by (simp add: k_def)
    have add: "owners_of (mac_peer_add c p (mclag_if_of n c s) n s) c
        = (owners_of s c)(k := mac_spec (peer_report c d n s) (owners_of s c k))"
      if "md_type d = MAC_SYNC_ADD"
      using peer_add_refines(1) [OF assms(1,3) Some becomes_peer_add [OF p assms(5) [OF that Some], of "mclag_if_of n c s" n]]
        False Some ops that own
      by (simp add: peer_report_def mac_spec_def Let_def k_def)
    have del: "owners_of (mac_peer_del c p s) c = (owners_of s c)(k := lose_peer (owners_of s c k))"
      using peer_del_refines(1) [OF assms(1,3) Some becomes_peer_del [OF p]] own by (simp add: k_def)
    show ?thesis
      using False Some ops assms(4) add del
      by (auto simp: mlacp_fsm_update_mac_entry_from_peer_def peer_report_def mac_spec_def Let_def)
  qed
qed

theorem mac_peer_report_refines_witness:
  "\<exists>t. mlacp_fsm_update_mac_entry_from_peer 0 (a_report MAC_TYPE_DYNAMIC ''Po1'') a_learned = Some t
     \<and> peer_report 0 (a_report MAC_TYPE_DYNAMIC ''Po1'') ''Po1'' a_learned = PeerSeen
     \<and> owners_of a_learned 0 (10, a_mac) = Some (True, False)
     \<and> owners_of t 0 = (owners_of a_learned 0)((10, a_mac) \<mapsto> (True, True))"
proof -
  let ?d = "a_report MAC_TYPE_DYNAMIC ''Po1''"
  have r: "mac_rb a_learned 0 = [0]" "flag_ok (mac_of a_learned 0 0)"
      "mac_fdb_type (mac_of a_learned 0 0) \<noteq> MAC_TYPE_STATIC"
      "mac_find (ntohs (md_vid ?d)) (md_mac_addr ?d) a_learned 0 = Some 0"
      "peer_report 0 ?d ''Po1'' a_learned = PeerSeen" "owners_of a_learned 0 (10, a_mac) = Some (True, False)"
      "c_string (md_ifname ?d) = Some ''Po1''"
    by code_simp+
  have d: "length (md_mac_addr ?d) = 6" "ntohs (md_vid ?d) = 10" "md_mac_addr ?d = a_mac"
    by code_simp+
  from mac_peer_report_refines [OF a_learned_ok _ d(1) r(7)] r d show ?thesis
    by (simp add: mac_spec_def)
qed

lemma syncd_new_refines:
  assumes "mac_ok (MLACP (csm_of s c))" "length (mac_addr m) = 6"
    "mac_find (mac_vid m) (mac_addr m) s c = None" "mac_age_flag m = 0"
  shows "owners_of (syncd_add_new c m b pif l s) c =
    (if b \<and> lif_state (lif_of s l) = PORT_STATE_DOWN \<and> pif_is PORT_STATE_DOWN pif \<or> \<not> has_memory s then owners_of s c
     else (owners_of s c)(mac_id_of m \<mapsto> (True, False)))"
proof -
  let ?m = "m\<lparr>mac_age_flag := MAC_AGE_PEER, mac_op_type := MAC_SYNC_ADD\<rparr>"
  obtain r t where r: "mac_create c ?m s = (r, t)" by fastforce
  have "owners_of t c = (if r = None then owners_of s c else (owners_of s c)(mac_id_of ?m \<mapsto> owned ?m))"
    using assms by (intro owners_created [OF assms(1) _ _ r]) simp_all
  moreover have "mac_id_of ?m = mac_id_of m" "owned ?m = (True, False)"
    by (simp_all add: mac_id_of_def owned_flag)
  moreover have "r = None \<longleftrightarrow> \<not> has_memory s"
    using mac_create_memory [of c ?m s] r by simp
  ultimately show ?thesis
    using assms(4) by (auto simp: syncd_add_new_def Let_def r split: option.split)
qed

text \<open>
  C5. Functional refinement for the reports of the local hardware, which come through mclagsyncd to
  the first session: a report makes of the owners of its address exactly what the specification says
  for a report of its kind, and no other address changes owners. A learned address becomes local,
  and only local if it moved; a lost one stays in the table only if the peer has it. The reports
  that do not count are the ones the kind of a report lists.
\<close>

theorem mac_local_report_refines:
  assumes "mac_ok (MLACP (csm_of s c))" "\<forall>p \<in> set (mac_rb s c). flag_ok (mac_of s c p)"
    "sys_csm_list s = c # cs" "length addr = 6"
  shows "owners_of (do_mac_update_from_syncd addr vid ifname fdb_ty op_type s) c = (owners_of s c)((vid, addr) :=
    mac_spec (local_report c addr vid ifname fdb_ty op_type s) (owners_of s c (vid, addr)))"
proof (cases "mac_find vid addr s c")
  case None
  let ?m = "zero_MACMsg\<lparr>mac_op_type := op_type, mac_fdb_type := fdb_ty, mac_addr := addr,
    mac_vid := vid, mac_ifname := ifname, mac_origin_ifname := ifname\<rparr>"
  have "mac_id_of ?m = (vid, addr)" "mac_age_flag ?m = 0"
    by (simp_all add: mac_id_of_def zero_MACMsg_def)
  moreover have "owners_of s c (vid, addr) = None"
    by (rule mac_find_id(2) [OF assms(1,4) None])
  ultimately show ?thesis
    using None assms(3,4) syncd_new_refines [OF assms(1), of ?m]
    by (auto simp: do_mac_update_from_syncd_def local_report_def mac_spec_def Let_def fun_upd_idem
        split: option.split)
next
  case (Some p)
  have p: "flag_ok (mac_of s c p)"
    using mac_find_id(1) [OF assms(1,4) Some] assms(2) by auto
  have own: "owners_of s c (vid, addr) = Some (owned (mac_of s c p))"
    using syncd_del_refines(2) [OF assms(1,4) Some becomes_syncd_del [OF p]] .
  note del = syncd_del_refines(1) [OF assms(1,4) Some becomes_syncd_del [OF p]]
  note add = syncd_add_refines(1) [OF assms(1,4) Some becomes_syncd_add [OF p]]
  show ?thesis
    using Some assms(3) own
    by (auto simp: do_mac_update_from_syncd_def local_report_def mac_spec_def Let_def fun_upd_idem add del
        zero_MACMsg_def split: option.split)
qed

theorem mac_local_report_refines_witness:
  "local_report 0 a_mac 10 ''Po1'' MAC_TYPE_DYNAMIC MAC_SYNC_ADD a_table = LocalSeen \<and>
   owners_of a_learned 0 = (owners_of a_table 0)((10, a_mac) \<mapsto> (True, False))"
proof -
  have "local_report 0 a_mac 10 ''Po1'' MAC_TYPE_DYNAMIC MAC_SYNC_ADD a_table = LocalSeen"
    "owners_of a_table 0 (10, a_mac) = None" by code_simp+
  with mac_local_report_refines [OF a_table_ok(1) _ a_table_ok(3) a_mac_length, of 10 "''Po1''" MAC_TYPE_DYNAMIC MAC_SYNC_ADD]
  show ?thesis by (simp add: a_table_ok(2) mac_spec_def flip: a_learned_def)
qed

end
