(* ===== verification/Rb_Heap.thy ===== *)
theory Rb_Heap
  imports Rb_Tree "HOL-Library.Monad_Syntax"
begin

text \<open>
  The red-black tree of \<open>openbsd_tree.c\<close> as it lies in memory: entries with a parent, a left and a
  right pointer and a colour, linked into the structures the daemon stores in its trees, and the
  operations the macros of \<open>openbsd_tree.h\<close> expand to. The memory is a function from the addresses
  of nodes to their entries. An address names both a node and the entry inside it: \<open>rb_n2e\<close> and
  \<open>rb_e2n\<close> only add and subtract the offset of the entry in the node. \<open>NULL\<close> is \<open>None\<close>; an
  operation that would dereference it, and a loop that would not return, have the result
  \<open>None\<close>. \<open>RB_GENERATE\<close> sets the field \<open>t_augment\<close> of the type to \<open>NULL\<close>, so the calls
  guarded by it are left out. The operations come in mirrored pairs and with mirrored branches;
  here a side is a parameter.

  The second half of the theory says what it means that a tree lies in memory, with one entry in
  focus and the path from it to the root as a context, and shows that a rotation at the focus
  rearranges exactly that part.
\<close>

section \<open>Entries and memory\<close>

datatype rb_color = RB_BLACK | RB_RED

datatype side = LEFT | RIGHT

fun opp :: "side \<Rightarrow> side" where
  "opp LEFT = RIGHT"
| "opp RIGHT = LEFT"

record rb_entry =
  rbt_parent :: "nat option"
  rbt_left :: "nat option"
  rbt_right :: "nat option"
  rbt_color :: rb_color

text \<open>The head of the tree with the entries it is linked over.\<close>

record rbt_tree =
  rbt_root :: "nat option"
  mem :: "nat \<Rightarrow> rb_entry"

definition RBE_PARENT :: "rbt_tree \<Rightarrow> nat \<Rightarrow> nat option" where
  "RBE_PARENT s x = rbt_parent (mem s x)"

definition RBE_COLOR :: "rbt_tree \<Rightarrow> nat \<Rightarrow> rb_color" where
  "RBE_COLOR s x = rbt_color (mem s x)"

text \<open>\<open>RBE_LEFT\<close> and \<open>RBE_RIGHT\<close>.\<close>

definition RBE_CHILD :: "side \<Rightarrow> rbt_tree \<Rightarrow> nat \<Rightarrow> nat option" where
  "RBE_CHILD d s x = (case d of LEFT \<Rightarrow> rbt_left (mem s x) | RIGHT \<Rightarrow> rbt_right (mem s x))"

abbreviation RBE_LEFT :: "rbt_tree \<Rightarrow> nat \<Rightarrow> nat option" where
  "RBE_LEFT \<equiv> RBE_CHILD LEFT"

abbreviation RBE_RIGHT :: "rbt_tree \<Rightarrow> nat \<Rightarrow> nat option" where
  "RBE_RIGHT \<equiv> RBE_CHILD RIGHT"

text \<open>The assignments to the fields of an entry and to the root.\<close>

definition set_parent :: "nat \<Rightarrow> nat option \<Rightarrow> rbt_tree \<Rightarrow> rbt_tree" where
  "set_parent x v s = s\<lparr>mem := (mem s)(x := (mem s x)\<lparr>rbt_parent := v\<rparr>)\<rparr>"

definition set_child :: "side \<Rightarrow> nat \<Rightarrow> nat option \<Rightarrow> rbt_tree \<Rightarrow> rbt_tree" where
  "set_child d x v s = s\<lparr>mem := (mem s)(x := (case d of LEFT \<Rightarrow> (mem s x)\<lparr>rbt_left := v\<rparr>
     | RIGHT \<Rightarrow> (mem s x)\<lparr>rbt_right := v\<rparr>))\<rparr>"

definition set_color :: "nat \<Rightarrow> rb_color \<Rightarrow> rbt_tree \<Rightarrow> rbt_tree" where
  "set_color x v s = s\<lparr>mem := (mem s)(x := (mem s x)\<lparr>rbt_color := v\<rparr>)\<rparr>"

definition set_root :: "nat option \<Rightarrow> rbt_tree \<Rightarrow> rbt_tree" where
  "set_root v s = s\<lparr>rbt_root := v\<rparr>"

text \<open>The whole entry of \<open>x\<close> is overwritten with that of \<open>y\<close>.\<close>

definition copy_entry :: "nat \<Rightarrow> nat \<Rightarrow> rbt_tree \<Rightarrow> rbt_tree" where
  "copy_entry x y s = s\<lparr>mem := (mem s)(x := mem s y)\<rparr>"

text \<open>An assignment to the parent or to the colour of an entry, guarded by a test for \<open>NULL\<close>.\<close>

definition if_parent :: "nat option \<Rightarrow> nat option \<Rightarrow> rbt_tree \<Rightarrow> rbt_tree" where
  "if_parent p v s = (case p of None \<Rightarrow> s | Some x \<Rightarrow> set_parent x v s)"

definition if_color :: "nat option \<Rightarrow> rb_color \<Rightarrow> rbt_tree \<Rightarrow> rbt_tree" where
  "if_color p v s = (case p of None \<Rightarrow> s | Some x \<Rightarrow> set_color x v s)"

section \<open>Rotation\<close>

text \<open>The pointer to \<open>old\<close> in its parent, or the root, becomes \<open>new\<close>.\<close>

definition relink :: "nat option \<Rightarrow> nat \<Rightarrow> nat option \<Rightarrow> rbt_tree \<Rightarrow> rbt_tree" where
  "relink parent old new s = (case parent of
     Some p \<Rightarrow> if RBE_LEFT s p = Some old then set_child LEFT p new s else set_child RIGHT p new s
   | None \<Rightarrow> set_root new s)"

definition rbe_set :: "nat \<Rightarrow> nat option \<Rightarrow> rbt_tree \<Rightarrow> rbt_tree" where
  "rbe_set rbe parent s =
     set_color rbe RB_RED (set_child LEFT rbe None (set_child RIGHT rbe None
       (set_parent rbe parent s)))"

definition rbe_set_blackred :: "nat \<Rightarrow> nat \<Rightarrow> rbt_tree \<Rightarrow> rbt_tree" where
  "rbe_set_blackred black red s = set_color red RB_RED (set_color black RB_BLACK s)"

text \<open>\<open>rbe_rotate LEFT\<close> is \<open>rbe_rotate_left\<close> and \<open>rbe_rotate RIGHT\<close> is \<open>rbe_rotate_right\<close>.\<close>

definition rbe_rotate :: "side \<Rightarrow> nat \<Rightarrow> rbt_tree \<Rightarrow> rbt_tree option" where
  "rbe_rotate d rbe s = do {
     tmp \<leftarrow> RBE_CHILD (opp d) s rbe;
     let s = set_child (opp d) rbe (RBE_CHILD d s tmp) s;
     let s = (if RBE_CHILD (opp d) s rbe \<noteq> None
              then if_parent (RBE_CHILD d s tmp) (Some rbe) s else s);
     let parent = RBE_PARENT s rbe;
     let s = set_parent tmp parent s;
     let s = relink parent rbe (Some tmp) s;
     let s = set_child d tmp (Some rbe) s;
     Some (set_parent rbe (Some tmp) s)
   }"

section \<open>Rebalancing\<close>

definition rbe_black_root :: "rbt_tree \<Rightarrow> rbt_tree option" where
  "rbe_black_root s = do { r \<leftarrow> rbt_root s; Some (set_color r RB_BLACK s) }"

text \<open>
  The loop of \<open>rbe_insert_color\<close>: \<open>d\<close> is the side of the grandparent the parent is on.
\<close>

partial_function (option) rbe_insert_color :: "nat \<Rightarrow> rbt_tree \<Rightarrow> rbt_tree option" where
  "rbe_insert_color rbe s = (case RBE_PARENT s rbe of
     None \<Rightarrow> rbe_black_root s
   | Some parent \<Rightarrow>
       if RBE_COLOR s parent \<noteq> RB_RED then rbe_black_root s
       else do {
         gparent \<leftarrow> RBE_PARENT s parent;
         let d = (if RBE_LEFT s gparent = Some parent then LEFT else RIGHT);
         let tmp = RBE_CHILD (opp d) s gparent;
         if tmp \<noteq> None \<and> RBE_COLOR s (the tmp) = RB_RED
         then rbe_insert_color gparent
                (rbe_set_blackred parent gparent (set_color (the tmp) RB_BLACK s))
         else do {
           (parent, rbe, s) \<leftarrow>
             (if RBE_CHILD (opp d) s parent = Some rbe
              then do { s \<leftarrow> rbe_rotate d parent s; Some (rbe, parent, s) }
              else Some (parent, rbe, s));
           s \<leftarrow> rbe_rotate (opp d) gparent (rbe_set_blackred parent gparent s);
           rbe_insert_color rbe s
         }
       })"

definition is_black :: "rbt_tree \<Rightarrow> nat option \<Rightarrow> bool" where
  "is_black s p = (case p of None \<Rightarrow> True | Some x \<Rightarrow> RBE_COLOR s x = RB_BLACK)"

text \<open>
  The three parts of the body of \<open>rbe_remove_color\<close>, for an entry on side \<open>d\<close> of its parent:
  a red sibling is rotated away; a sibling whose far child is black is rotated; the parent is
  rotated and the loop ends.
\<close>

definition rbe_remove_red :: "side \<Rightarrow> nat \<Rightarrow> nat \<Rightarrow> rbt_tree \<Rightarrow> (nat \<times> rbt_tree) option" where
  "rbe_remove_red d parent tmp s =
     (if RBE_COLOR s tmp = RB_RED then do {
        s \<leftarrow> rbe_rotate d parent (rbe_set_blackred tmp parent s);
        tmp \<leftarrow> RBE_CHILD (opp d) s parent;
        Some (tmp, s)
      } else Some (tmp, s))"

definition rbe_remove_near :: "side \<Rightarrow> nat \<Rightarrow> nat \<Rightarrow> rbt_tree \<Rightarrow> (nat \<times> rbt_tree) option" where
  "rbe_remove_near d parent tmp s =
     (if is_black s (RBE_CHILD (opp d) s tmp) then do {
        let s = if_color (RBE_CHILD d s tmp) RB_BLACK s;
        s \<leftarrow> rbe_rotate (opp d) tmp (set_color tmp RB_RED s);
        tmp \<leftarrow> RBE_CHILD (opp d) s parent;
        Some (tmp, s)
      } else Some (tmp, s))"

definition rbe_remove_far :: "side \<Rightarrow> nat \<Rightarrow> nat \<Rightarrow> rbt_tree \<Rightarrow> rbt_tree option" where
  "rbe_remove_far d parent tmp s = do {
     let s = set_color tmp (RBE_COLOR s parent) s;
     let s = set_color parent RB_BLACK s;
     let s = if_color (RBE_CHILD (opp d) s tmp) RB_BLACK s;
     rbe_rotate d parent s
   }"

partial_function (option) rbe_remove_color ::
  "nat option \<Rightarrow> nat option \<Rightarrow> rbt_tree \<Rightarrow> rbt_tree option" where
  "rbe_remove_color parent rbe s =
     (if is_black s rbe \<and> rbe \<noteq> rbt_root s \<and> parent \<noteq> None then do {
        parent \<leftarrow> parent;
        let d = (if RBE_LEFT s parent = rbe then LEFT else RIGHT);
        tmp \<leftarrow> RBE_CHILD (opp d) s parent;
        (tmp, s) \<leftarrow> rbe_remove_red d parent tmp s;
        if is_black s (RBE_LEFT s tmp) \<and> is_black s (RBE_RIGHT s tmp) then do {
          let s = set_color tmp RB_RED s;
          rbe_remove_color (RBE_PARENT s parent) (Some parent) s
        } else do {
          (tmp, s) \<leftarrow> rbe_remove_near d parent tmp s;
          s \<leftarrow> rbe_remove_far d parent tmp s;
          Some (if_color (rbt_root s) RB_BLACK s)
        }
      } else Some (if_color rbe RB_BLACK s))"

section \<open>Removal, insertion and search\<close>

text \<open>The loops that follow the pointers of one side as long as there are any.\<close>

partial_function (option) rbe_extreme :: "side \<Rightarrow> rbt_tree \<Rightarrow> nat \<Rightarrow> nat option" where
  "rbe_extreme d s rbe = (case RBE_CHILD d s rbe of
     None \<Rightarrow> Some rbe
   | Some tmp \<Rightarrow> rbe_extreme d s tmp)"

text \<open>An entry with at most one child is replaced by it.\<close>

definition rbe_splice :: "nat \<Rightarrow> nat option \<Rightarrow> rbt_tree \<Rightarrow> rbt_tree" where
  "rbe_splice rbe child s = relink (RBE_PARENT s rbe) rbe child
     (if_parent child (RBE_PARENT s rbe) s)"

text \<open>The entry \<open>rbe\<close>, unlinked before, takes the place of \<open>old\<close>.\<close>

definition rbe_replace :: "nat \<Rightarrow> nat \<Rightarrow> rbt_tree \<Rightarrow> rbt_tree option" where
  "rbe_replace old rbe s = do {
     let s = copy_entry rbe old s;
     let s = relink (RBE_PARENT s old) old (Some rbe) s;
     l \<leftarrow> RBE_LEFT s old;
     let s = set_parent l (Some rbe) s;
     Some (if_parent (RBE_RIGHT s old) (Some rbe) s)
   }"

definition rbe_remove :: "nat \<Rightarrow> rbt_tree \<Rightarrow> (nat \<times> rbt_tree) option" where
  "rbe_remove old s =
     (if RBE_LEFT s old = None \<or> RBE_RIGHT s old = None then do {
        let child = (if RBE_LEFT s old = None then RBE_RIGHT s old else RBE_LEFT s old);
        let parent = RBE_PARENT s old;
        let color = RBE_COLOR s old;
        let s = rbe_splice old child s;
        s \<leftarrow> (if color = RB_BLACK then rbe_remove_color parent child s else Some s);
        Some (old, s)
      } else do {
        rbe \<leftarrow> RBE_RIGHT s old;
        rbe \<leftarrow> rbe_extreme LEFT s rbe;
        let child = RBE_RIGHT s rbe;
        let parent = RBE_PARENT s rbe;
        let color = RBE_COLOR s rbe;
        let s = rbe_splice rbe child s;
        let parent = (if RBE_PARENT s rbe = Some old then Some rbe else parent);
        s \<leftarrow> rbe_replace old rbe s;
        s \<leftarrow> (if color = RB_BLACK then rbe_remove_color parent child s else Some s);
        Some (old, s)
      })"

definition rb_remove_node :: "nat \<Rightarrow> rbt_tree \<Rightarrow> (nat \<times> rbt_tree) option" where
  "rb_remove_node elm s = rbe_remove elm s"

text \<open>
  The comparison function of the tree reads the keys of the two nodes; \<open>key\<close> gives the key of
  the node at an address. The loop of \<open>_rb_insert\<close> ends at a node with the same key
  (\<open>Inl\<close>) or with the parent of the new node and the result of the last comparison.
\<close>

partial_function (option) rb_insert_loop ::
  "('k \<Rightarrow> 'k \<Rightarrow> int) \<Rightarrow> (nat \<Rightarrow> 'k) \<Rightarrow> rbt_tree \<Rightarrow> 'k \<Rightarrow> nat option \<Rightarrow> nat option \<Rightarrow> int \<Rightarrow>
   (nat + nat option \<times> int) option" where
  "rb_insert_loop cmp key s elm tmp parent co = (case tmp of
     None \<Rightarrow> Some (Inr (parent, co))
   | Some x \<Rightarrow>
       let co = cmp elm (key x) in
       if co < 0 then rb_insert_loop cmp key s elm (RBE_LEFT s x) (Some x) co
       else if co > 0 then rb_insert_loop cmp key s elm (RBE_RIGHT s x) (Some x) co
       else Some (Inl x))"

text \<open>The new node becomes a leaf below \<open>parent\<close>.\<close>

definition rbe_attach :: "nat \<Rightarrow> nat option \<Rightarrow> int \<Rightarrow> rbt_tree \<Rightarrow> rbt_tree" where
  "rbe_attach rbe parent co s = (let s = rbe_set rbe parent s in
     case parent of
       Some p \<Rightarrow> if co < 0 then set_child LEFT p (Some rbe) s else set_child RIGHT p (Some rbe) s
     | None \<Rightarrow> set_root (Some rbe) s)"

definition rb_insert_node ::
  "('k \<Rightarrow> 'k \<Rightarrow> int) \<Rightarrow> (nat \<Rightarrow> 'k) \<Rightarrow> nat \<Rightarrow> rbt_tree \<Rightarrow> (nat option \<times> rbt_tree) option" where
  "rb_insert_node cmp key elm s = do {
     r \<leftarrow> rb_insert_loop cmp key s (key elm) (rbt_root s) None 0;
     case r of
       Inl node \<Rightarrow> Some (Some node, s)
     | Inr (parent, co) \<Rightarrow> do {
         s \<leftarrow> rbe_insert_color elm (rbe_attach elm parent co s);
         Some (None, s)
       }
   }"

partial_function (option) rb_find_loop ::
  "('k \<Rightarrow> 'k \<Rightarrow> int) \<Rightarrow> (nat \<Rightarrow> 'k) \<Rightarrow> rbt_tree \<Rightarrow> 'k \<Rightarrow> nat option \<Rightarrow> nat option option" where
  "rb_find_loop cmp key s k tmp = (case tmp of
     None \<Rightarrow> Some None
   | Some x \<Rightarrow>
       let comp = cmp k (key x) in
       if comp < 0 then rb_find_loop cmp key s k (RBE_LEFT s x)
       else if comp > 0 then rb_find_loop cmp key s k (RBE_RIGHT s x)
       else Some (Some x))"

definition rb_find_node ::
  "('k \<Rightarrow> 'k \<Rightarrow> int) \<Rightarrow> (nat \<Rightarrow> 'k) \<Rightarrow> 'k \<Rightarrow> rbt_tree \<Rightarrow> nat option option" where
  "rb_find_node cmp key k s = rb_find_loop cmp key s k (rbt_root s)"

partial_function (option) rb_nfind_loop ::
  "('k \<Rightarrow> 'k \<Rightarrow> int) \<Rightarrow> (nat \<Rightarrow> 'k) \<Rightarrow> rbt_tree \<Rightarrow> 'k \<Rightarrow> nat option \<Rightarrow> nat option \<Rightarrow>
   nat option option" where
  "rb_nfind_loop cmp key s k res tmp = (case tmp of
     None \<Rightarrow> Some res
   | Some x \<Rightarrow>
       let comp = cmp k (key x) in
       if comp < 0 then rb_nfind_loop cmp key s k (Some x) (RBE_LEFT s x)
       else if comp > 0 then rb_nfind_loop cmp key s k res (RBE_RIGHT s x)
       else Some (Some x))"

definition rb_nfind_node ::
  "('k \<Rightarrow> 'k \<Rightarrow> int) \<Rightarrow> (nat \<Rightarrow> 'k) \<Rightarrow> 'k \<Rightarrow> rbt_tree \<Rightarrow> nat option option" where
  "rb_nfind_node cmp key k s = rb_nfind_loop cmp key s k None (rbt_root s)"

section \<open>Traversal\<close>

text \<open>
  \<open>rb_step_node RIGHT\<close> is \<open>_rb_next\<close> and \<open>rb_step_node LEFT\<close> is \<open>_rb_prev\<close>; \<open>rbe_climb\<close> is the
  loop that leaves the subtrees the entry is the last of.
\<close>

partial_function (option) rbe_climb :: "side \<Rightarrow> rbt_tree \<Rightarrow> nat \<Rightarrow> nat option" where
  "rbe_climb d s rbe = (case RBE_PARENT s rbe of
     None \<Rightarrow> Some rbe
   | Some p \<Rightarrow> if RBE_CHILD d s p = Some rbe then rbe_climb d s p else Some rbe)"

definition rb_step_node :: "side \<Rightarrow> rbt_tree \<Rightarrow> nat \<Rightarrow> nat option option" where
  "rb_step_node d s rbe = (case RBE_CHILD d s rbe of
     Some r \<Rightarrow> map_option Some (rbe_extreme (opp d) s r)
   | None \<Rightarrow>
       if RBE_PARENT s rbe \<noteq> None \<and> RBE_CHILD (opp d) s (the (RBE_PARENT s rbe)) = Some rbe
       then Some (RBE_PARENT s rbe)
       else map_option (RBE_PARENT s) (rbe_climb d s rbe))"

text \<open>\<open>_rb_min\<close> (\<open>LEFT\<close>) and \<open>_rb_max\<close> (\<open>RIGHT\<close>).\<close>

partial_function (option) rb_end_loop ::
  "side \<Rightarrow> rbt_tree \<Rightarrow> nat option \<Rightarrow> nat option \<Rightarrow> nat option option" where
  "rb_end_loop d s parent rbe =
     (if rbe = None then Some parent else rb_end_loop d s rbe (RBE_CHILD d s (the rbe)))"

definition rb_end_node :: "side \<Rightarrow> rbt_tree \<Rightarrow> nat option option" where
  "rb_end_node d s = rb_end_loop d s None (rbt_root s)"

text \<open>\<open>RB_FOREACH\<close> with a body that leaves the tree alone: the nodes in the order of the visits.\<close>

partial_function (option) rb_visit :: "rbt_tree \<Rightarrow> nat option \<Rightarrow> nat list option" where
  "rb_visit s x = (case x of
     None \<Rightarrow> Some []
   | Some n \<Rightarrow> do {
       y \<leftarrow> rb_step_node RIGHT s n;
       ns \<leftarrow> rb_visit s y;
       Some (n # ns)
     })"

definition RB_FOREACH :: "rbt_tree \<Rightarrow> nat list option" where
  "RB_FOREACH s = do { x \<leftarrow> rb_end_node LEFT s; rb_visit s x }"

text \<open>
  \<open>RB_FOREACH_SAFE\<close>, which fetches the next node before the body runs on the current one.
\<close>

partial_function (option) rb_visit_safe ::
  "(nat \<Rightarrow> rbt_tree \<Rightarrow> rbt_tree option) \<Rightarrow> nat option \<Rightarrow> rbt_tree \<Rightarrow> rbt_tree option" where
  "rb_visit_safe body x s = (case x of
     None \<Rightarrow> Some s
   | Some n \<Rightarrow> do {
       y \<leftarrow> rb_step_node RIGHT s n;
       s \<leftarrow> body n s;
       rb_visit_safe body y s
     })"

definition RB_FOREACH_SAFE ::
  "(nat \<Rightarrow> rbt_tree \<Rightarrow> rbt_tree option) \<Rightarrow> rbt_tree \<Rightarrow> rbt_tree option" where
  "RB_FOREACH_SAFE body s = do { x \<leftarrow> rb_end_node LEFT s; rb_visit_safe body x s }"

text \<open>A body that removes the nodes with the property \<open>P\<close>.\<close>

definition remove_if :: "(nat \<Rightarrow> bool) \<Rightarrow> nat \<Rightarrow> rbt_tree \<Rightarrow> rbt_tree option" where
  "remove_if P n s = (if P n then map_option snd (rb_remove_node n s) else Some s)"

section \<open>Single nodes\<close>

definition rb_init :: "rbt_tree \<Rightarrow> rbt_tree" where
  "rb_init s = set_root None s"

definition rb_empty :: "rbt_tree \<Rightarrow> bool" where
  "rb_empty s \<longleftrightarrow> rbt_root s = None"

definition rb_root_node :: "rbt_tree \<Rightarrow> nat option" where
  "rb_root_node s = rbt_root s"

text \<open>\<open>_rb_left\<close>, \<open>_rb_right\<close>, \<open>_rb_parent\<close> and the functions that set these pointers.\<close>

definition rb_child_node :: "side \<Rightarrow> rbt_tree \<Rightarrow> nat \<Rightarrow> nat option" where
  "rb_child_node d s node = RBE_CHILD d s node"

definition rb_parent_node :: "rbt_tree \<Rightarrow> nat \<Rightarrow> nat option" where
  "rb_parent_node s node = RBE_PARENT s node"

definition rb_set_child :: "side \<Rightarrow> nat \<Rightarrow> nat option \<Rightarrow> rbt_tree \<Rightarrow> rbt_tree" where
  "rb_set_child d node v s = set_child d node v s"

definition rb_set_parent :: "nat \<Rightarrow> nat option \<Rightarrow> rbt_tree \<Rightarrow> rbt_tree" where
  "rb_set_parent node v s = set_parent node v s"

definition rb_poison :: "nat \<Rightarrow> nat option \<Rightarrow> rbt_tree \<Rightarrow> rbt_tree" where
  "rb_poison node poison s =
     set_parent node poison (set_child LEFT node poison (set_child RIGHT node poison s))"

definition rb_check :: "rbt_tree \<Rightarrow> nat \<Rightarrow> nat option \<Rightarrow> bool" where
  "rb_check s node poison \<longleftrightarrow> RBE_PARENT s node = poison \<and> RBE_LEFT s node = poison \<and>
     RBE_RIGHT s node = poison"

section \<open>A tree in memory\<close>

lemma opp_opp [simp]: "opp (opp d) = d"
  by (cases d) auto

lemma opp_neq [simp]: "opp d \<noteq> d" "d \<noteq> opp d"
  by (cases d; simp)+

lemma opp_eq [simp]: "opp d = opp e \<longleftrightarrow> d = e"
  by (cases d; cases e) auto

lemma side_neq: "d \<noteq> e \<longleftrightarrow> d = opp e"
  by (cases d; cases e) auto

lemma color_neq [simp]: "c \<noteq> RB_RED \<longleftrightarrow> c = RB_BLACK" "c \<noteq> RB_BLACK \<longleftrightarrow> c = RB_RED"
  by (cases c; simp)+

lemmas rb_mem_defs = RBE_PARENT_def RBE_COLOR_def RBE_CHILD_def set_parent_def set_child_def
  set_color_def set_root_def copy_entry_def

text \<open>What a field holds after an assignment.\<close>

lemma parent_simps [simp]:
  "RBE_PARENT (set_parent x v s) y = (if y = x then v else RBE_PARENT s y)"
  "RBE_PARENT (set_child d x w s) y = RBE_PARENT s y"
  "RBE_PARENT (set_color x c s) y = RBE_PARENT s y"
  "RBE_PARENT (set_root v s) y = RBE_PARENT s y"
  "RBE_PARENT (copy_entry x z s) y = (if y = x then RBE_PARENT s z else RBE_PARENT s y)"
  by (auto simp: rb_mem_defs split: side.splits)

lemma child_simps [simp]:
  "RBE_CHILD e (set_parent x v s) y = RBE_CHILD e s y"
  "RBE_CHILD e (set_child d x w s) y = (if y = x \<and> d = e then w else RBE_CHILD e s y)"
  "RBE_CHILD e (set_color x c s) y = RBE_CHILD e s y"
  "RBE_CHILD e (set_root v s) y = RBE_CHILD e s y"
  "RBE_CHILD e (copy_entry x z s) y = (if y = x then RBE_CHILD e s z else RBE_CHILD e s y)"
  by (auto simp: rb_mem_defs split: side.splits)

lemma color_simps [simp]:
  "RBE_COLOR (set_parent x v s) y = RBE_COLOR s y"
  "RBE_COLOR (set_child d x w s) y = RBE_COLOR s y"
  "RBE_COLOR (set_color x c s) y = (if y = x then c else RBE_COLOR s y)"
  "RBE_COLOR (set_root v s) y = RBE_COLOR s y"
  "RBE_COLOR (copy_entry x z s) y = (if y = x then RBE_COLOR s z else RBE_COLOR s y)"
  by (auto simp: rb_mem_defs split: side.splits)

lemma root_simps [simp]:
  "rbt_root (set_parent x v s) = rbt_root s"
  "rbt_root (set_child d x w s) = rbt_root s"
  "rbt_root (set_color x c s) = rbt_root s"
  "rbt_root (set_root v s) = v"
  "rbt_root (copy_entry x z s) = rbt_root s"
  by (auto simp: rb_mem_defs)

lemma mem_simps [simp]:
  "y \<noteq> x \<Longrightarrow> mem (set_parent x v s) y = mem s y"
  "y \<noteq> x \<Longrightarrow> mem (set_child d x v s) y = mem s y"
  "y \<noteq> x \<Longrightarrow> mem (set_color x c s) y = mem s y"
  "mem (set_root v s) y = mem s y"
  "y \<noteq> x \<Longrightarrow> mem (copy_entry x z s) y = mem s y"
  by (auto simp: rb_mem_defs)

lemma if_simps [simp]:
  "if_parent None v s = s" "if_parent (Some x) v s = set_parent x v s"
  "if_color None c s = s" "if_color (Some x) c s = set_color x c s"
  "is_black s None" "is_black s (Some x) \<longleftrightarrow> RBE_COLOR s x = RB_BLACK"
  by (simp_all add: if_parent_def if_color_def is_black_def)

text \<open>The shape of a tree, with the addresses of its nodes.\<close>

datatype rtree = Lf | Nd rtree rb_color nat rtree

fun inorder :: "rtree \<Rightarrow> nat list" where
  "inorder Lf = []"
| "inorder (Nd l c x r) = inorder l @ x # inorder r"

fun ptr :: "rtree \<Rightarrow> nat option" where
  "ptr Lf = None"
| "ptr (Nd l c x r) = Some x"

fun hue :: "rtree \<Rightarrow> rb_color" where
  "hue Lf = RB_BLACK"
| "hue (Nd l c x r) = c"

fun paint :: "rb_color \<Rightarrow> rtree \<Rightarrow> rtree" where
  "paint c Lf = Lf"
| "paint c (Nd l c' x r) = Nd l c x r"

text \<open>\<open>mk d c x a b\<close> has the subtree \<open>a\<close> on the side \<open>d\<close> and \<open>b\<close> on the other.\<close>

fun mk :: "side \<Rightarrow> rb_color \<Rightarrow> nat \<Rightarrow> rtree \<Rightarrow> rtree \<Rightarrow> rtree" where
  "mk LEFT c x a b = Nd a c x b"
| "mk RIGHT c x a b = Nd b c x a"

fun tree_at :: "rbt_tree \<Rightarrow> nat option \<Rightarrow> rtree \<Rightarrow> bool" where
  "tree_at s p Lf = True"
| "tree_at s p (Nd l c x r) \<longleftrightarrow> RBE_PARENT s x = p \<and> RBE_COLOR s x = c \<and>
     RBE_LEFT s x = ptr l \<and> RBE_RIGHT s x = ptr r \<and> tree_at s (Some x) l \<and> tree_at s (Some x) r"

text \<open>
  The way from the focus up to the root: each crumb is a node the focus is below, the side it is
  on, and the subtree on the other side.
\<close>

datatype crumb = Crumb side rb_color nat rtree

type_synonym path = "crumb list"

fun plug :: "rtree \<Rightarrow> path \<Rightarrow> rtree" where
  "plug t [] = t"
| "plug t (Crumb d c x u # k) = plug (mk d c x t u) k"

fun above :: "path \<Rightarrow> nat option" where
  "above [] = None"
| "above (Crumb d c x u # k) = Some x"

fun path_nodes :: "path \<Rightarrow> nat set" where
  "path_nodes [] = {}"
| "path_nodes (Crumb d c x u # k) = insert x (set (inorder u) \<union> path_nodes k)"

fun path_at :: "rbt_tree \<Rightarrow> nat option \<Rightarrow> path \<Rightarrow> bool" where
  "path_at s p [] \<longleftrightarrow> rbt_root s = p"
| "path_at s p (Crumb d c x u # k) \<longleftrightarrow> RBE_PARENT s x = above k \<and> RBE_COLOR s x = c \<and>
     RBE_CHILD d s x = p \<and> RBE_CHILD (opp d) s x = ptr u \<and> tree_at s (Some x) u \<and>
     path_at s (Some x) k"

fun path_distinct :: "path \<Rightarrow> bool" where
  "path_distinct [] = True"
| "path_distinct (Crumb d c x u # k) \<longleftrightarrow> distinct (inorder u) \<and> x \<notin> set (inorder u) \<and>
     x \<notin> path_nodes k \<and> set (inorder u) \<inter> path_nodes k = {} \<and> path_distinct k"

text \<open>The tree \<open>plug t k\<close> lies in memory.\<close>

definition focus :: "rbt_tree \<Rightarrow> rtree \<Rightarrow> path \<Rightarrow> bool" where
  "focus s t k \<longleftrightarrow> tree_at s (above k) t \<and> path_at s (ptr t) k \<and> distinct (inorder t) \<and>
     path_distinct k \<and> set (inorder t) \<inter> path_nodes k = {}"

definition rb_tree_at :: "rbt_tree \<Rightarrow> rtree \<Rightarrow> bool" where
  "rb_tree_at s t \<longleftrightarrow> rbt_root s = ptr t \<and> tree_at s None t \<and> distinct (inorder t)"

text \<open>Only the entries of the nodes in \<open>A\<close> differ.\<close>

definition same_outside :: "nat set \<Rightarrow> rbt_tree \<Rightarrow> rbt_tree \<Rightarrow> bool" where
  "same_outside A s s' \<longleftrightarrow> (\<forall>x. x \<notin> A \<longrightarrow> mem s' x = mem s x)"

lemma focus_root: "focus s t [] \<longleftrightarrow> rb_tree_at s t"
  by (auto simp: focus_def rb_tree_at_def)

lemma mk_opp [simp]: "mk (opp d) c x a b = mk d c x b a"
  by (cases d) auto

lemma mk_fields [simp]:
  "ptr (mk d c x a b) = Some x" "hue (mk d c x a b) = c" "paint c' (mk d c x a b) = mk d c' x a b"
  "set (inorder (mk d c x a b)) = insert x (set (inorder a) \<union> set (inorder b))"
  "distinct (inorder (mk d c x a b)) \<longleftrightarrow> distinct (inorder a) \<and> distinct (inorder b) \<and>
     x \<notin> set (inorder a) \<and> x \<notin> set (inorder b) \<and> set (inorder a) \<inter> set (inorder b) = {}"
  by (cases d; auto)+

lemma mk_cases: obtains "t = Lf" | c x a b where "t = mk d c x a b"
  by (cases t; cases d) auto

lemma tree_at_mk [simp]:
  "tree_at s p (mk d c x a b) \<longleftrightarrow> RBE_PARENT s x = p \<and> RBE_COLOR s x = c \<and>
     RBE_CHILD d s x = ptr a \<and> RBE_CHILD (opp d) s x = ptr b \<and> tree_at s (Some x) a \<and>
     tree_at s (Some x) b"
  by (cases d) auto

lemma entry_cong:
  assumes "mem s' x = mem s x"
  shows "RBE_PARENT s' x = RBE_PARENT s x" "RBE_COLOR s' x = RBE_COLOR s x"
    "RBE_CHILD d s' x = RBE_CHILD d s x"
  using assms by (simp_all add: RBE_PARENT_def RBE_COLOR_def RBE_CHILD_def split: side.split)

lemma tree_at_frame:
  "(\<And>x. x \<in> set (inorder t) \<Longrightarrow> mem s' x = mem s x) \<Longrightarrow> tree_at s' p t \<longleftrightarrow> tree_at s p t"
  by (induction t arbitrary: p) (auto simp: RBE_PARENT_def RBE_COLOR_def RBE_CHILD_def)

lemma tree_at_assign [simp]:
  "x \<notin> set (inorder t) \<Longrightarrow> tree_at (set_parent x v s) p t = tree_at s p t"
  "x \<notin> set (inorder t) \<Longrightarrow> tree_at (set_child d x v s) p t = tree_at s p t"
  "x \<notin> set (inorder t) \<Longrightarrow> tree_at (set_color x c s) p t = tree_at s p t"
  "tree_at (set_root v s) p t = tree_at s p t"
  "x \<notin> set (inorder t) \<Longrightarrow> tree_at (copy_entry x z s) p t = tree_at s p t"
  by (auto intro!: tree_at_frame mem_simps)

lemma path_at_frame:
  "(\<And>x. x \<in> path_nodes k \<Longrightarrow> mem s' x = mem s x) \<Longrightarrow> rbt_root s' = rbt_root s \<Longrightarrow>
   path_at s' p k \<longleftrightarrow> path_at s p k"
proof (induction s p k rule: path_at.induct)
  case (2 s p d c x u k)
  have "tree_at s' (Some x) u = tree_at s (Some x) u"
    by (rule tree_at_frame) (use 2 in simp)
  moreover have "mem s' x = mem s x" using 2 by simp
  note entry_cong [OF this]
  ultimately show ?case using 2 by simp
qed simp

lemma path_at_assign [simp]:
  "x \<notin> path_nodes k \<Longrightarrow> path_at (set_parent x v s) p k = path_at s p k"
  "x \<notin> path_nodes k \<Longrightarrow> path_at (set_child d x v s) p k = path_at s p k"
  "x \<notin> path_nodes k \<Longrightarrow> path_at (set_color x c s) p k = path_at s p k"
  "x \<notin> path_nodes k \<Longrightarrow> path_at (copy_entry x z s) p k = path_at s p k"
  by (auto intro!: path_at_frame mem_simps)

text \<open>Moving the focus.\<close>

lemma focus_up: "focus s t (Crumb d c x u # k) \<longleftrightarrow> focus s (mk d c x t u) k"
  by (auto simp: focus_def)

lemma plug_append: "plug t (k @ k') = plug (plug t k) k'"
  by (induction t k rule: plug.induct) auto

lemma path_nodes_append [simp]: "path_nodes (k @ k') = path_nodes k \<union> path_nodes k'"
  by (induction k rule: path_nodes.induct) auto

lemma focus_plug: "focus s t (k @ k') \<longleftrightarrow> focus s (plug t k) k'"
  by (induction t k rule: plug.induct) (auto simp: focus_up)

lemma focus_whole: "focus s t k \<longleftrightarrow> rb_tree_at s (plug t k)"
  using focus_plug [of s t k "[]"] by (simp add: focus_root)

text \<open>A tree whose root gets another parent.\<close>

lemma tree_at_reparent:
  "tree_at s p t \<Longrightarrow> distinct (inorder t) \<Longrightarrow> tree_at (if_parent (ptr t) q s) q t"
  by (cases t) auto

text \<open>A subtree takes the place of another below the same path.\<close>

lemma relink_path:
  assumes "path_at s (Some x) k" "path_distinct k" "x \<notin> path_nodes k"
  shows "path_at (relink (above k) x p s) p k"
    and "same_outside (path_nodes k) s (relink (above k) x p s)"
proof -
  have "path_at (relink (above k) x p s) p k \<and>
    same_outside (path_nodes k) s (relink (above k) x p s)"
  proof (cases k rule: above.cases)
    case 1
    with assms show ?thesis by (simp add: relink_def same_outside_def)
  next
    case (2 d c y u k')
    have "x \<notin> set (inorder u)"
      using assms(3) 2 by simp
    then have "ptr u \<noteq> Some x" by (cases u) auto
    with assms 2 show ?thesis by (cases d) (auto simp: relink_def same_outside_def)
  qed
  then show "path_at (relink (above k) x p s) p k"
    and "same_outside (path_nodes k) s (relink (above k) x p s)" by auto
qed

lemma above_path_nodes: "above k = Some x \<Longrightarrow> x \<in> path_nodes k"
  by (cases k rule: above.cases) auto

lemma relink_fields [simp]:
  "RBE_PARENT (relink q x p s) y = RBE_PARENT s y"
  "RBE_COLOR (relink q x p s) y = RBE_COLOR s y"
  "y \<notin> path_nodes k \<Longrightarrow> RBE_CHILD d (relink (above k) x p s) y = RBE_CHILD d s y"
  by (auto simp: relink_def dest: above_path_nodes split: option.split)

lemma relink_tree [simp]:
  "path_nodes k \<inter> set (inorder t) = {} \<Longrightarrow>
   tree_at (relink (above k) y p s) pa t = tree_at s pa t"
  by (auto simp: relink_def disjoint_iff dest!: above_path_nodes split: option.split)

lemma ptr_inorder: "ptr t = Some x \<Longrightarrow> x \<in> set (inorder t)"
  by (cases t) auto

lemma same_outside_mono: "same_outside A s s' \<Longrightarrow> A \<subseteq> B \<Longrightarrow> same_outside B s s'"
  by (auto simp: same_outside_def)

lemma same_outside_trans [trans]:
  "same_outside A s s' \<Longrightarrow> same_outside A s' s'' \<Longrightarrow> same_outside A s s''"
  by (auto simp: same_outside_def)

lemma same_outside_refl [simp]: "same_outside A s s"
  by (simp add: same_outside_def)

lemma same_outside_assign [simp]:
  "x \<in> A \<Longrightarrow> same_outside A s0 (set_parent x v s) = same_outside A s0 s"
  "x \<in> A \<Longrightarrow> same_outside A s0 (set_child d x w s) = same_outside A s0 s"
  "x \<in> A \<Longrightarrow> same_outside A s0 (set_color x c s) = same_outside A s0 s"
  "same_outside A s0 (set_root r s) = same_outside A s0 s"
  "x \<in> A \<Longrightarrow> same_outside A s0 (copy_entry x z s) = same_outside A s0 s"
  by (auto simp: same_outside_def rb_mem_defs)

lemma same_outside_relink [simp]:
  "path_nodes k \<subseteq> A \<Longrightarrow> same_outside A s0 (relink (above k) y p s) = same_outside A s0 s"
  by (auto simp: relink_def dest!: above_path_nodes split: option.split)

lemma same_outside_if_parent [simp]:
  "set (inorder t) \<subseteq> A \<Longrightarrow> same_outside A s0 (if_parent (ptr t) v s) = same_outside A s0 s"
  "set (inorder t) \<subseteq> A \<Longrightarrow> same_outside A s0 (if_color (ptr t) c s) = same_outside A s0 s"
  by (cases t; simp)+

lemma if_parent_fields [simp]:
  "y \<notin> set (inorder t) \<Longrightarrow> RBE_PARENT (if_parent (ptr t) v s) y = RBE_PARENT s y"
  "RBE_CHILD d (if_parent q v s) y = RBE_CHILD d s y"
  "RBE_COLOR (if_parent q v s) y = RBE_COLOR s y"
  "rbt_root (if_parent q v s) = rbt_root s"
  "set (inorder t) \<inter> set (inorder u) = {} \<Longrightarrow>
   tree_at (if_parent (ptr t) v s) p u = tree_at s p u"
  "set (inorder t) \<inter> path_nodes k = {} \<Longrightarrow>
   path_at (if_parent (ptr t) v s) p k = path_at s p k"
  by (cases t; simp; fail | cases q; simp)+

text \<open>
  The rotation at the node \<open>g\<close> in focus, whose child \<open>p\<close> on the side opposite to \<open>d\<close> comes up.
\<close>

lemma rbe_rotate_ok:
  assumes "focus s (mk d c g a (mk d c' p b e)) k"
  obtains s' where "rbe_rotate d g s = Some s'" "focus s' (mk d c' p (mk d c g a b) e) k"
    "same_outside (insert g (insert p (set (inorder b) \<union> path_nodes k))) s s'"
proof -
  define s1 where
    "s1 = set_parent p (above k) (if_parent (ptr b) (Some g) (set_child (opp d) g (ptr b) s))"
  define s2 where "s2 = relink (above k) g (Some p) s1"
  define s3 where "s3 = set_parent g (Some p) (set_child d p (Some g) s2)"
  have disj: "path_nodes k \<inter> set (inorder a) = {}" "path_nodes k \<inter> set (inorder b) = {}"
    "path_nodes k \<inter> set (inorder e) = {}" "set (inorder b) \<inter> set (inorder a) = {}"
    "set (inorder b) \<inter> path_nodes k = {}"
    using assms by (auto simp: focus_def)
  note f = assms [unfolded focus_def, simplified]
  have path: "path_at s1 (Some g) k"
    using f disj by (simp add: s1_def)
  have "tree_at (if_parent (ptr b) (Some g) (set_child (opp d) g (ptr b) s)) (Some g) b"
    using f by (intro tree_at_reparent [of _ "Some p"]) auto
  then have "tree_at s2 (Some g) b"
    using f disj by (simp add: s2_def s1_def)
  moreover have "path_at s2 (Some p) k"
    using relink_path(1) [OF path] f by (simp add: s2_def)
  ultimately have "focus s3 (mk d c' p (mk d c g a b) e) k"
    using f disj by (auto simp: focus_def s1_def s2_def s3_def)
  moreover have "rbe_rotate d g s = Some s3"
    using f by (cases b) (auto simp: rbe_rotate_def s1_def s2_def s3_def Let_def)
  moreover have "same_outside (insert g (insert p (set (inorder b) \<union> path_nodes k))) s s3"
    by (simp add: s1_def s2_def s3_def subset_insertI2)
  ultimately show ?thesis using that by blast
qed

end
