(* ===== verification/Rb_Balance.thy ===== *)
theory Rb_Balance
  imports Rb_Heap
begin

text \<open>
  The red-black invariant of the trees of \<open>openbsd_tree.c\<close>, and the two rebalancing loops:
  both return, restore the invariant and keep the order of the nodes.
\<close>

section \<open>The invariant\<close>

fun bheight :: "rtree \<Rightarrow> nat" where
  "bheight Lf = 0"
| "bheight (Nd l c x r) = bheight l + (if c = RB_BLACK then 1 else 0)"

text \<open>
  No red node has a red child, and every way from a node down to a leaf has the same number of
  black nodes.
\<close>

fun rb_inv :: "rtree \<Rightarrow> bool" where
  "rb_inv Lf = True"
| "rb_inv (Nd l c x r) \<longleftrightarrow> (c = RB_RED \<longrightarrow> hue l = RB_BLACK \<and> hue r = RB_BLACK) \<and>
     bheight l = bheight r \<and> rb_inv l \<and> rb_inv r"

definition rb_balanced :: "rtree \<Rightarrow> bool" where
  "rb_balanced t \<longleftrightarrow> rb_inv t \<and> hue t = RB_BLACK"

text \<open>
  The same for the part of a tree around the focus, when the focus has \<open>n\<close> black nodes on its
  ways down.
\<close>

fun below_black :: "path \<Rightarrow> bool" where
  "below_black [] = False"
| "below_black (Crumb d c x u # k) \<longleftrightarrow> c = RB_BLACK"

fun path_inv :: "path \<Rightarrow> nat \<Rightarrow> bool" where
  "path_inv [] n = True"
| "path_inv (Crumb d c x u # k) n \<longleftrightarrow> rb_inv u \<and> bheight u = n \<and>
     (c = RB_RED \<longrightarrow> hue u = RB_BLACK \<and> below_black k) \<and>
     path_inv k (n + (if c = RB_BLACK then 1 else 0))"

fun before_path :: "path \<Rightarrow> nat list" where
  "before_path [] = []"
| "before_path (Crumb d c x u # k) =
     before_path k @ (if d = RIGHT then inorder u @ [x] else [])"

fun after_path :: "path \<Rightarrow> nat list" where
  "after_path [] = []"
| "after_path (Crumb d c x u # k) = (if d = LEFT then x # inorder u else []) @ after_path k"

lemma inorder_plug: "inorder (plug t k) = before_path k @ inorder t @ after_path k"
proof (induction t k rule: plug.induct)
  case (2 t d c x u k)
  then show ?case by (cases d) auto
qed simp

lemma rb_inv_mk [simp]:
  "rb_inv (mk d c x a b) \<longleftrightarrow> (c = RB_RED \<longrightarrow> hue a = RB_BLACK \<and> hue b = RB_BLACK) \<and>
     bheight a = bheight b \<and> rb_inv a \<and> rb_inv b"
  "bheight a = bheight b \<Longrightarrow> bheight (mk d c x a b) = bheight a + (if c = RB_BLACK then 1 else 0)"
  by (cases d; auto)+

lemma paint_same: "hue t = c \<Longrightarrow> paint c t = t"
  by (cases t) auto

lemma paint_fields [simp]:
  "inorder (paint c t) = inorder t" "ptr (paint c t) = ptr t"
  "paint c t = Lf \<longleftrightarrow> t = Lf" "hue (paint RB_BLACK t) = RB_BLACK"
  by (cases t; simp)+

lemma rb_inv_paint [simp]: "rb_inv t \<Longrightarrow> rb_inv (paint RB_BLACK t)"
  by (cases t) auto

lemma rb_balanced_simps [simp]:
  "rb_balanced Lf"
  "rb_balanced (Nd l c x r) \<longleftrightarrow> c = RB_BLACK \<and> bheight l = bheight r \<and> rb_inv l \<and> rb_inv r"
  by (auto simp: rb_balanced_def)

text \<open>The invariant of a tree splits at any focus.\<close>

lemma balanced_plug:
  "rb_balanced (plug t k) \<longleftrightarrow>
     rb_inv t \<and> path_inv k (bheight t) \<and> (hue t = RB_RED \<longrightarrow> below_black k)"
proof (induction t k rule: plug.induct)
  case (1 t)
  then show ?case by (cases "hue t") (auto simp: rb_balanced_def)
next
  case (2 t d c x u k)
  show ?case
  proof (cases "bheight t = bheight u")
    case True
    with 2 show ?thesis by (cases c) auto
  next
    case False
    with 2 show ?thesis by auto
  qed
qed

section \<open>Insertion\<close>

lemma black_root_ok:
  assumes "rb_tree_at s t" "t \<noteq> Lf"
  obtains s' where "rbe_black_root s = Some s'" "rb_tree_at s' (paint RB_BLACK t)"
    "same_outside (set (inorder t)) s s'"
proof (cases t)
  case (Nd l c x r)
  show ?thesis
    by (rule that [of "set_color x RB_BLACK s"])
      (use assms Nd in \<open>auto simp: rb_tree_at_def rbe_black_root_def\<close>)
qed (use assms in simp)

text \<open>
  What the two rebalancing loops promise for the tree around a focus: they return, the tree that
  is then in memory is balanced and has the same nodes in the same order, and no other entry was
  written.
\<close>

definition rebalanced :: "rbt_tree \<Rightarrow> rtree \<Rightarrow> path \<Rightarrow> rbt_tree option \<Rightarrow> bool" where
  "rebalanced s t k res \<longleftrightarrow> (\<exists>s' t'. res = Some s' \<and> rb_tree_at s' t' \<and> rb_balanced t' \<and>
     inorder t' = inorder (plug t k) \<and> same_outside (set (inorder (plug t k))) s s')"

text \<open>A rotation keeps the order, so the whole tree in memory has the same nodes.\<close>

lemma inorder_rotate:
  "inorder (mk d c1 x a (mk d c2 y b e)) = inorder (mk d c3 y (mk d c4 x a b) e)"
  by (cases d) auto

lemma inorder_plug_cong: "inorder t = inorder t' \<Longrightarrow> inorder (plug t k) = inorder (plug t' k)"
  by (simp add: inorder_plug)

lemma set_plug: "set (inorder (plug t k)) = set (inorder t) \<union> path_nodes k"
proof (induction t k rule: plug.induct)
qed auto

lemma inorder_mk_cong:
  "inorder a = inorder a' \<Longrightarrow> inorder b = inorder b' \<Longrightarrow>
   inorder (mk d c x a b) = inorder (mk d c' x a' b')"
  by (cases d) auto

text \<open>The loop ends when the parent of the node is black or there is none.\<close>

lemma insert_color_end:
  assumes "focus s t k" "ptr t = Some x" "rb_inv (plug t k)"
    "k = [] \<or> below_black k"
  shows "rebalanced s t k (rbe_insert_color x s)"
proof -
  have "rb_tree_at s (plug t k)" using assms(1) by (simp add: focus_whole)
  moreover have "plug t k \<noteq> Lf"
    using assms(2) ptr_inorder [of t x] set_plug [of t k] by fastforce
  ultimately obtain s' where "rbe_black_root s = Some s'"
    "rb_tree_at s' (paint RB_BLACK (plug t k))" "same_outside (set (inorder (plug t k))) s s'"
    by (rule black_root_ok)
  moreover have "rbe_insert_color x s = rbe_black_root s"
    using assms(1,2,4)
    by (cases t; cases k rule: above.cases) (auto simp: focus_def rbe_insert_color.simps)
  ultimately show ?thesis
    using assms(3) by (auto simp: rebalanced_def rb_balanced_def)
qed

lemma rebalanced_step:
  assumes "rebalanced s1 t1 k1 res" "inorder (plug t1 k1) = inorder (plug t k)"
    "same_outside (set (inorder (plug t k))) s s1"
  shows "rebalanced s t k res"
  using assms by (auto simp: rebalanced_def intro: same_outside_trans)

lemma same_outside_blackred [simp]:
  "black \<in> A \<Longrightarrow> red \<in> A \<Longrightarrow>
   same_outside A s0 (rbe_set_blackred black red s) = same_outside A s0 s"
  by (simp add: rbe_set_blackred_def)

text \<open>The last rotation, at the grandparent \<open>g\<close> of the red node.\<close>

lemma insert_color_outer:
  assumes f: "focus s (mk d RB_BLACK g (mk d RB_RED p t b) u) k" and x: "ptr t = Some x"
    and inv: "rb_inv t" "rb_inv b" "rb_inv u" "hue u = RB_BLACK" "hue b = RB_BLACK"
      "bheight b = bheight t" "bheight u = bheight t" "path_inv k (bheight t + 1)"
  shows "rebalanced s (mk d RB_BLACK g (mk d RB_RED p t b) u) k
    (rbe_rotate (opp d) g (rbe_set_blackred p g s) \<bind> rbe_insert_color x)"
proof -
  let ?s1 = "rbe_set_blackred p g s"
  let ?t = "mk d RB_BLACK p t (mk d RB_RED g b u)"
  let ?A = "set (inorder (plug (mk d RB_BLACK g (mk d RB_RED p t b) u) k))"
  have "focus ?s1 (mk (opp d) RB_RED g u (mk (opp d) RB_BLACK p b t)) k"
    using f by (auto simp: focus_def rbe_set_blackred_def)
  then obtain s2 where s2: "rbe_rotate (opp d) g ?s1 = Some s2"
    "focus s2 (mk (opp d) RB_BLACK p (mk (opp d) RB_RED g u b) t) k"
    "same_outside (insert g (insert p (set (inorder b) \<union> path_nodes k))) ?s1 s2"
    by (rule rbe_rotate_ok)
  have "same_outside ?A ?s1 s2"
    by (rule same_outside_mono [OF s2(3)]) (auto simp: set_plug)
  then have same: "same_outside ?A s s2"
    by (rule same_outside_trans [rotated]) (simp add: set_plug)
  have ord: "inorder ?t = inorder (mk d RB_BLACK g (mk d RB_RED p t b) u)"
    by (rule inorder_rotate)
  have "rb_balanced (plug ?t k)"
    using inv by (simp add: balanced_plug)
  then have "rebalanced s2 t (Crumb d RB_BLACK p (mk d RB_RED g b u) # k)
    (rbe_insert_color x s2)"
    using s2(2) x by (intro insert_color_end) (auto simp: focus_up rb_balanced_def)
  then show ?thesis
    unfolding s2(1) bind.simps
    by (rule rebalanced_step)
      (use same ord in \<open>simp_all add: inorder_plug [of _ k]\<close>)
qed

text \<open>The body of the loop for a red node \<open>x\<close> below the red node \<open>p\<close>, which is below \<open>g\<close>.\<close>

lemma insert_color_body:
  assumes f: "focus s (mk d' RB_BLACK g (mk d RB_RED p t v) u) k" and x: "ptr t = Some x"
  shows "rbe_insert_color x s = (let tmp = RBE_CHILD (opp d') s g in
     if tmp \<noteq> None \<and> RBE_COLOR s (the tmp) = RB_RED
     then rbe_insert_color g (rbe_set_blackred p g (set_color (the tmp) RB_BLACK s))
     else do {
       (parent, rbe, s) \<leftarrow>
         (if RBE_CHILD (opp d') s p = Some x
          then do { s \<leftarrow> rbe_rotate d' p s; Some (x, p, s) }
          else Some (p, x, s));
       s \<leftarrow> rbe_rotate (opp d') g (rbe_set_blackred parent g s);
       rbe_insert_color rbe s
     })"
proof -
  have "(if RBE_LEFT s g = Some p then LEFT else RIGHT) = d'"
    using f by (cases d'; cases u) (auto simp: focus_def)
  moreover have "RBE_PARENT s x = Some p"
    using f x by (cases t) (auto simp: focus_def)
  ultimately show ?thesis
    using f by (subst rbe_insert_color.simps) (simp add: focus_def Let_def)
qed

text \<open>A red uncle: the node above is the next one to look at.\<close>

lemma insert_color_red_uncle:
  assumes f: "focus s (mk d' RB_BLACK g (mk d RB_RED p t v) u) k" and x: "ptr t = Some x"
    and u: "hue u = RB_RED"
    and loop: "\<And>s1. focus s1 (mk d' RB_RED g (mk d RB_BLACK p t v) (paint RB_BLACK u)) k \<Longrightarrow>
      rebalanced s1 (mk d' RB_RED g (mk d RB_BLACK p t v) (paint RB_BLACK u)) k
        (rbe_insert_color g s1)"
  shows "rebalanced s (mk d' RB_BLACK g (mk d RB_RED p t v) u) k (rbe_insert_color x s)"
proof -
  obtain w ul ur where w: "u = Nd ul RB_RED w ur" using u by (cases u) auto
  let ?s1 = "rbe_set_blackred p g (set_color w RB_BLACK s)"
  let ?t1 = "mk d' RB_RED g (mk d RB_BLACK p t v) (paint RB_BLACK u)"
  have "focus ?s1 ?t1 k"
    using f w by (auto simp: focus_def rbe_set_blackred_def)
  moreover have "rbe_insert_color x s = rbe_insert_color g ?s1"
    using insert_color_body [OF f x] f w by (simp add: focus_def)
  moreover have "inorder ?t1 = inorder (mk d' RB_BLACK g (mk d RB_RED p t v) u)"
    by (intro inorder_mk_cong) simp_all
  ultimately show ?thesis
    using rebalanced_step [OF loop] by (simp add: w inorder_plug [of _ k])
qed

text \<open>A black uncle: one rotation or two, and the loop ends.\<close>

lemma insert_color_black_uncle:
  assumes f: "focus s (mk d' RB_BLACK g (mk d RB_RED p (mk e RB_RED x a b) v) u) k"
    and inv: "rb_inv (mk e RB_RED x a b)" "rb_inv v" "rb_inv u" "hue v = RB_BLACK" "hue u = RB_BLACK"
      "bheight v = bheight a" "bheight u = bheight a" "path_inv k (bheight a + 1)"
  shows "rebalanced s (mk d' RB_BLACK g (mk d RB_RED p (mk e RB_RED x a b) v) u) k
    (rbe_insert_color x s)"
proof -
  let ?t = "mk e RB_RED x a b"
  have "\<not> (RBE_CHILD (opp d') s g \<noteq> None \<and> RBE_COLOR s (the (RBE_CHILD (opp d') s g)) = RB_RED)"
    using f inv(5) by (cases u) (auto simp: focus_def)
  note loop = insert_color_body [OF f, of x, simplified mk_fields, OF refl, unfolded Let_def,
      unfolded if_not_P [OF this]]
  show ?thesis
  proof (cases "d = d'")
    case True
    have "ptr v \<noteq> Some x" using f by (cases v) (auto simp: focus_def)
    then have "rbe_insert_color x s =
        rbe_rotate (opp d') g (rbe_set_blackred p g s) \<bind> rbe_insert_color x"
      using loop f True by (simp add: focus_def)
    then show ?thesis
      using insert_color_outer [of s d' g p ?t v u k x] f True inv by simp
  next
    case False
    then have d: "d = opp d'" by (simp add: side_neq)
    obtain a' b' where t: "?t = mk d' RB_RED x a' b'"
      by (cases e; cases d') auto
    have ab: "rb_inv a'" "rb_inv b'" "hue a' = RB_BLACK" "hue b' = RB_BLACK"
      "bheight a' = bheight a" "bheight b' = bheight a"
      using inv(1) t by (cases e; cases d'; simp)+
    have "focus s (mk d' RB_RED p v (mk d' RB_RED x a' b')) (Crumb d' RB_BLACK g u # k)"
      using f by (simp add: focus_up d t)
    then obtain s1 where s1: "rbe_rotate d' p s = Some s1"
      "focus s1 (mk d' RB_RED x (mk d' RB_RED p v a') b') (Crumb d' RB_BLACK g u # k)"
      "same_outside (insert p (insert x (set (inorder a') \<union>
         path_nodes (Crumb d' RB_BLACK g u # k)))) s s1"
      by (rule rbe_rotate_ok)
    let ?t1 = "mk d' RB_BLACK g (mk d' RB_RED x (mk d' RB_RED p v a') b') u"
    have "rbe_insert_color x s =
        rbe_rotate (opp d') g (rbe_set_blackred x g s1) \<bind> rbe_insert_color p"
      using loop f s1(1) by (simp add: focus_def d)
    moreover have "rebalanced s1 ?t1 k
        (rbe_rotate (opp d') g (rbe_set_blackred x g s1) \<bind> rbe_insert_color p)"
      by (rule insert_color_outer) (use s1(2) inv ab in \<open>auto simp: focus_up\<close>)
    moreover have "inorder ?t1 = inorder (mk d' RB_BLACK g (mk d RB_RED p ?t v) u)"
      unfolding d t mk_opp by (intro inorder_mk_cong inorder_rotate [symmetric] refl)
    moreover have "same_outside (set (inorder (plug (mk d' RB_BLACK g (mk d RB_RED p ?t v) u) k))) s s1"
      by (rule same_outside_mono [OF s1(3)]) (auto simp: set_plug t)
    ultimately show ?thesis
      by (auto elim!: rebalanced_step simp: inorder_plug [of _ k])
  qed
qed

lemma insert_color_loop:
  assumes "focus s (mk e RB_RED x a b) k" "rb_inv (mk e RB_RED x a b)" "path_inv k (bheight a)"
  shows "rebalanced s (mk e RB_RED x a b) k (rbe_insert_color x s)"
  using assms
proof (induction k arbitrary: s e x a b rule: length_induct)
  case (1 k)
  let ?t = "mk e RB_RED x a b"
  consider "k = []" | "below_black k"
    | d p v d' g u k' where "k = Crumb d RB_RED p v # Crumb d' RB_BLACK g u # k'"
    using "1.prems"(3)
    by (cases k rule: above.cases; cases "tl k" rule: above.cases) (fastforce elim: rb_color.exhaust)+
  then show ?case
  proof cases
    case k: 3
    have f: "focus s (mk d' RB_BLACK g (mk d RB_RED p ?t v) u) k'"
      using "1.prems"(1) k by (simp add: focus_up)
    have "rebalanced s (mk d' RB_BLACK g (mk d RB_RED p ?t v) u) k' (rbe_insert_color x s)"
    proof (cases "hue u")
      case RB_RED
      then obtain ul w ur where "u = Nd ul RB_RED w ur" by (cases u) auto
      then have "rb_inv (mk d' RB_RED g (mk d RB_BLACK p ?t v) (paint RB_BLACK u))"
        "path_inv k' (bheight (mk d RB_BLACK p ?t v))" "length k' < length k"
        using "1.prems"(2,3) k by auto
      with RB_RED f show ?thesis
        using "1.IH" by (intro insert_color_red_uncle) auto
    next
      case RB_BLACK
      with f "1.prems"(2,3) k show ?thesis by (intro insert_color_black_uncle) auto
    qed
    then show ?thesis by (simp add: k rebalanced_def)
  next
    case 2
    with "1.prems" have "rb_balanced (plug ?t k)" by (simp add: balanced_plug)
    with 2 "1.prems" show ?thesis by (intro insert_color_end) (auto simp: rb_balanced_def)
  qed (use "1.prems" in \<open>auto intro!: insert_color_end\<close>)
qed

section \<open>Removal\<close>

lemma root_plug: "focus s t k \<Longrightarrow> rbt_root s = ptr (plug t k)"
  by (simp add: focus_whole rb_tree_at_def)

lemma ptr_plug: "k \<noteq> [] \<Longrightarrow> \<exists>x \<in> path_nodes k. ptr (plug t k) = Some x"
proof (induction t k rule: plug.induct)
  case (2 t d c x u k)
  then show ?case by (cases "k = []") auto
qed simp

lemma root_above: "focus s t k \<Longrightarrow> k \<noteq> [] \<Longrightarrow> rbt_root s \<noteq> ptr t"
  using ptr_plug [of k t] ptr_inorder [of t] by (auto simp: root_plug focus_def)

lemma balanced_not_red: "rb_balanced t \<Longrightarrow> paint RB_BLACK t = t"
  by (simp add: rb_balanced_def paint_same)

text \<open>The loop ends at a red node, or at the root.\<close>

lemma remove_color_end:
  assumes "focus s t k" "rb_inv (paint RB_BLACK t)"
    "k = [] \<or> hue t = RB_RED \<and> path_inv k (bheight t + 1)"
  shows "rebalanced s t k (rbe_remove_color (above k) (ptr t) s)"
proof -
  have "rbe_remove_color (above k) (ptr t) s = Some (if_color (ptr t) RB_BLACK s)"
    using assms by (subst rbe_remove_color.simps) (cases t; auto simp: focus_def)
  moreover have "focus (if_color (ptr t) RB_BLACK s) (paint RB_BLACK t) k"
    using assms(1) by (cases t) (auto simp: focus_def)
  moreover have "rb_balanced (plug (paint RB_BLACK t) k)"
    using assms(2,3) by (cases t) (auto simp: balanced_plug)
  moreover have "same_outside (set (inorder (plug t k))) s (if_color (ptr t) RB_BLACK s)"
    by (simp add: set_plug)
  ultimately show ?thesis
    unfolding rebalanced_def by (metis focus_whole inorder_plug_cong paint_fields(1))
qed

text \<open>The last rotation: the child of the sibling that is far from the focus is red.\<close>

lemma remove_far_ok:
  assumes f: "focus s (mk d c p t (mk d RB_BLACK w a b)) k" and b: "hue b = RB_RED"
    and inv: "rb_inv t" "rb_inv a" "rb_inv b" "bheight a = bheight t" "bheight b = bheight t"
      "path_inv k (bheight t + 1 + (if c = RB_BLACK then 1 else 0))" "c = RB_RED \<Longrightarrow> below_black k"
  shows "rebalanced s (mk d c p t (mk d RB_BLACK w a b)) k
    (rbe_remove_far d p w s \<bind> (\<lambda>s. Some (if_color (rbt_root s) RB_BLACK s)))"
proof -
  let ?s1 = "if_color (ptr b) RB_BLACK (set_color p RB_BLACK (set_color w c s))"
  let ?A = "set (inorder (plug (mk d c p t (mk d RB_BLACK w a b)) k))"
  let ?t = "mk d c w (mk d RB_BLACK p t a) (paint RB_BLACK b)"
  obtain y bl br where y: "b = Nd bl RB_RED y br" using b by (cases b) auto
  have far: "rbe_remove_far d p w s = rbe_rotate d p ?s1"
    using f y by (auto simp: rbe_remove_far_def focus_def)
  have "focus ?s1 (mk d RB_BLACK p t (mk d c w a (paint RB_BLACK b))) k"
    using f y by (auto simp: focus_def)
  then obtain s2 where s2: "rbe_rotate d p ?s1 = Some s2" "focus s2 ?t k"
    "same_outside (insert p (insert w (set (inorder a) \<union> path_nodes k))) ?s1 s2"
    by (rule rbe_rotate_ok)
  have "bheight (paint RB_BLACK b) = bheight t + 1"
    using inv(5) y by simp
  then have bal: "rb_balanced (plug ?t k)"
    using inv by (cases c) (auto simp: balanced_plug)
  have "same_outside ?A ?s1 s2"
    by (rule same_outside_mono [OF s2(3)]) (auto simp: set_plug)
  then have same: "same_outside ?A s s2"
    by (rule same_outside_trans [rotated]) (simp add: set_plug y)
  have rep: "rb_tree_at s2 (plug ?t k)" using s2(2) by (simp add: focus_whole)
  moreover have "plug ?t k \<noteq> Lf"
    using set_plug [of ?t k] by force
  ultimately obtain s3 where s3: "rbe_black_root s2 = Some s3" "rb_tree_at s3 (plug ?t k)"
    "same_outside (set (inorder (plug ?t k))) s2 s3"
    using black_root_ok [of s2 "plug ?t k"] balanced_not_red [OF bal] by metis
  have "inorder (plug ?t k) = inorder (plug (mk d c p t (mk d RB_BLACK w a b)) k)"
    by (intro inorder_plug_cong) (cases d; simp)
  moreover have "Some (if_color (rbt_root s2) RB_BLACK s2) = rbe_black_root s2"
    using s3(1) by (cases "rbt_root s2") (auto simp: rbe_black_root_def)
  ultimately show ?thesis
    using far s2(1) s3 bal same unfolding rebalanced_def by (auto intro: same_outside_trans)
qed

lemma remove_near_ok:
  assumes f: "focus s (mk d c p t (mk d RB_BLACK w a b)) k"
    and hue: "\<not> (hue a = RB_BLACK \<and> hue b = RB_BLACK)"
    and inv: "rb_inv t" "rb_inv a" "rb_inv b" "bheight a = bheight t" "bheight b = bheight t"
      "path_inv k (bheight t + 1 + (if c = RB_BLACK then 1 else 0))" "c = RB_RED \<Longrightarrow> below_black k"
  shows "rebalanced s (mk d c p t (mk d RB_BLACK w a b)) k
    (do { (tmp, s) \<leftarrow> rbe_remove_near d p w s;
          s \<leftarrow> rbe_remove_far d p tmp s;
          Some (if_color (rbt_root s) RB_BLACK s) })"
proof (cases "hue b")
  case RB_RED
  then have "rbe_remove_near d p w s = Some (w, s)"
    using f by (cases b) (auto simp: rbe_remove_near_def focus_def)
  then show ?thesis
    using remove_far_ok [OF f RB_RED inv] by simp
next
  case b: RB_BLACK
  obtain y ya yb where a: "a = mk d RB_RED y ya yb"
    using hue b by (cases a; cases d) auto
  let ?s1 = "set_color w RB_RED (set_color y RB_BLACK s)"
  let ?k = "Crumb (opp d) c p t # k"
  let ?A = "set (inorder (plug (mk d c p t (mk d RB_BLACK w a b)) k))"
  have "focus ?s1 (mk (opp d) RB_RED w b (mk (opp d) RB_BLACK y yb ya)) ?k"
    using f a by (auto simp: focus_def)
  then obtain s2 where s2: "rbe_rotate (opp d) w ?s1 = Some s2"
    "focus s2 (mk (opp d) RB_BLACK y (mk (opp d) RB_RED w b yb) ya) ?k"
    "same_outside (insert w (insert y (set (inorder yb) \<union> path_nodes ?k))) ?s1 s2"
    by (rule rbe_rotate_ok)
  have f2: "focus s2 (mk d c p t (mk d RB_BLACK y ya (mk d RB_RED w yb b))) k"
    using s2(2) by (simp add: focus_up)
  have "is_black s (RBE_CHILD (opp d) s w)"
    using f b by (cases b) (auto simp: focus_def)
  then have "rbe_remove_near d p w s = Some (y, s2)"
    using f f2 s2(1) a by (simp add: rbe_remove_near_def focus_def)
  moreover have "rebalanced s2 (mk d c p t (mk d RB_BLACK y ya (mk d RB_RED w yb b))) k
      (rbe_remove_far d p y s2 \<bind> (\<lambda>s. Some (if_color (rbt_root s) RB_BLACK s)))"
    by (rule remove_far_ok [OF f2]) (use inv a b in auto)
  moreover have "same_outside ?A ?s1 s2"
    by (rule same_outside_mono [OF s2(3)]) (auto simp: set_plug a)
  then have "same_outside ?A s s2"
    by (rule same_outside_trans [rotated]) (simp add: set_plug a)
  moreover have "inorder (mk d c p t (mk d RB_BLACK y ya (mk d RB_RED w yb b))) =
      inorder (mk d c p t (mk d RB_BLACK w a b))"
    by (cases d) (simp_all add: a)
  ultimately show ?thesis
    by (auto elim!: rebalanced_step simp: inorder_plug [of _ k])
qed

text \<open>One turn of the loop, once the sibling is black.\<close>

lemma remove_turn:
  assumes f: "focus s (mk d c p t (mk d RB_BLACK w a b)) k"
    and inv: "rb_inv t" "rb_inv a" "rb_inv b" "bheight a = bheight t" "bheight b = bheight t"
      "path_inv k (bheight t + 1 + (if c = RB_BLACK then 1 else 0))" "c = RB_RED \<Longrightarrow> below_black k"
    and loop: "\<And>s'. focus s' (mk d c p t (mk d RB_RED w a b)) k \<Longrightarrow>
      hue a = RB_BLACK \<Longrightarrow> hue b = RB_BLACK \<Longrightarrow>
      rebalanced s' (mk d c p t (mk d RB_RED w a b)) k (rbe_remove_color (above k) (Some p) s')"
  shows "rebalanced s (mk d c p t (mk d RB_BLACK w a b)) k
    (if is_black s (RBE_LEFT s w) \<and> is_black s (RBE_RIGHT s w) then do {
       let s = set_color w RB_RED s;
       rbe_remove_color (RBE_PARENT s p) (Some p) s
     } else do {
       (tmp, s) \<leftarrow> rbe_remove_near d p w s;
       s \<leftarrow> rbe_remove_far d p tmp s;
       Some (if_color (rbt_root s) RB_BLACK s)
     })"
proof -
  have "is_black s (ptr a) \<longleftrightarrow> hue a = RB_BLACK" "is_black s (ptr b) \<longleftrightarrow> hue b = RB_BLACK"
    using f by (cases a; cases b; auto simp: focus_def)+
  then have black: "is_black s (RBE_LEFT s w) \<and> is_black s (RBE_RIGHT s w) \<longleftrightarrow>
      hue a = RB_BLACK \<and> hue b = RB_BLACK"
    using f by (cases d) (auto simp: focus_def)
  show ?thesis
  proof (cases "hue a = RB_BLACK \<and> hue b = RB_BLACK")
    case True
    let ?s = "set_color w RB_RED s"
    have f': "focus ?s (mk d c p t (mk d RB_RED w a b)) k"
      using f by (auto simp: focus_def)
    then have "RBE_PARENT ?s p = above k" by (simp add: focus_def)
    moreover have "inorder (mk d c p t (mk d RB_RED w a b)) =
        inorder (mk d c p t (mk d RB_BLACK w a b))"
      by (intro inorder_mk_cong refl)
    ultimately show ?thesis
      using rebalanced_step [OF loop [OF f']] True
      by (simp add: black Let_def inorder_plug [of _ k])
  next
    case False
    then show ?thesis
      using remove_near_ok [OF f False inv] by (simp only: black if_False)
  qed
qed

text \<open>The body of the loop for a black focus below the node \<open>p\<close>, with the sibling \<open>w\<close>.\<close>

lemma remove_color_body:
  assumes f: "focus s (mk d c p t (mk d cw w a b)) k" and black: "hue t = RB_BLACK"
  shows "rbe_remove_color (Some p) (ptr t) s = do {
    (tmp, s) \<leftarrow> rbe_remove_red d p w s;
    if is_black s (RBE_LEFT s tmp) \<and> is_black s (RBE_RIGHT s tmp) then do {
      let s = set_color tmp RB_RED s;
      rbe_remove_color (RBE_PARENT s p) (Some p) s
    } else do {
      (tmp, s) \<leftarrow> rbe_remove_near d p tmp s;
      s \<leftarrow> rbe_remove_far d p tmp s;
      Some (if_color (rbt_root s) RB_BLACK s)
    }}"
proof -
  have d: "(if RBE_LEFT s p = ptr t then LEFT else RIGHT) = d"
    using f by (cases d; cases t) (auto simp: focus_def)
  have "is_black s (ptr t)" "RBE_CHILD (opp d) s p = Some w"
    using f black by (cases t; auto simp: focus_def)+
  moreover have "ptr t \<noteq> rbt_root s"
    using root_above [of s t "Crumb d c p (mk d cw w a b) # k"] f by (auto simp: focus_up)
  ultimately show ?thesis
    by (subst rbe_remove_color.simps) (unfold Let_def bind.simps d, simp)
qed

text \<open>A red sibling is rotated above the parent, which makes its near child the sibling.\<close>

lemma remove_red_sibling:
  assumes f: "focus s (mk d RB_BLACK p t (mk d RB_RED w a b)) k"
    and t: "rb_inv t" "hue t = RB_BLACK"
    and inv: "rb_inv (mk d RB_RED w a b)" "bheight a = bheight t + 1" "path_inv k (bheight t + 2)"
  shows "rebalanced s (mk d RB_BLACK p t (mk d RB_RED w a b)) k
    (rbe_remove_color (Some p) (ptr t) s)"
proof -
  let ?s1 = "rbe_set_blackred w p s"
  let ?k = "Crumb d RB_BLACK w b # k"
  let ?A = "set (inorder (plug (mk d RB_BLACK p t (mk d RB_RED w a b)) k))"
  obtain y ya yb where a: "a = mk d RB_BLACK y ya yb"
    using inv by (cases a rule: mk_cases [where d = d]) auto
  then have y: "rb_inv ya" "rb_inv yb" "bheight ya = bheight t" "bheight yb = bheight t"
    "rb_inv b" "bheight b = bheight t + 1"
    using inv(1,2) by auto
  have "focus ?s1 (mk d RB_RED p t (mk d RB_BLACK w a b)) k"
    using f by (auto simp: focus_def rbe_set_blackred_def)
  then obtain s2 where s2: "rbe_rotate d p ?s1 = Some s2"
    "focus s2 (mk d RB_BLACK w (mk d RB_RED p t a) b) k"
    "same_outside (insert p (insert w (set (inorder a) \<union> path_nodes k))) ?s1 s2"
    by (rule rbe_rotate_ok)
  have f2: "focus s2 (mk d RB_RED p t (mk d RB_BLACK y ya yb)) ?k"
    using s2(2) by (simp add: focus_up a)
  have red: "rbe_remove_red d p w s = Some (y, s2)"
    using f f2 s2(1) by (simp add: rbe_remove_red_def focus_def)
  have stop: "rebalanced s' (mk d RB_RED p t (mk d RB_RED y ya yb)) ?k
      (rbe_remove_color (above ?k) (Some p) s')"
    if "focus s' (mk d RB_RED p t (mk d RB_RED y ya yb)) ?k" "hue ya = RB_BLACK" "hue yb = RB_BLACK"
    for s'
    using remove_color_end [OF that(1)] that(2,3) t y inv(3) by simp
  have "rebalanced s2 (mk d RB_RED p t (mk d RB_BLACK y ya yb)) ?k
      (rbe_remove_color (Some p) (ptr t) s)"
    unfolding remove_color_body [OF f t(2)] red bind.simps prod.case
    by (rule remove_turn [OF f2 t(1) y(1-4) _ _ stop]) (use y inv(3) in auto)
  moreover have "same_outside ?A ?s1 s2"
    by (rule same_outside_mono [OF s2(3)]) (auto simp: set_plug)
  then have "same_outside ?A s s2"
    by (rule same_outside_trans [rotated]) (simp add: set_plug)
  moreover have "inorder (mk d RB_BLACK w (mk d RB_RED p t a) b) =
      inorder (mk d RB_BLACK p t (mk d RB_RED w a b))"
    by (rule inorder_rotate [symmetric])
  ultimately show ?thesis
    by (auto elim!: rebalanced_step simp: inorder_plug [of _ k] a)
qed

text \<open>
  The loop restores the invariant when the subtree in focus has lost one black node on each of
  its ways down.
\<close>

lemma remove_color_loop:
  assumes "focus s t k" "rb_inv (paint RB_BLACK t)" "path_inv k (bheight t + 1)"
  shows "rebalanced s t k (rbe_remove_color (above k) (ptr t) s)"
  using assms
proof (induction k arbitrary: s t)
  case Nil
  then show ?case by (intro remove_color_end) auto
next
  case (Cons cr k)
  obtain d c p u where cr: "cr = Crumb d c p u" by (cases cr) auto
  show ?case
  proof (cases "hue t")
    case RB_RED
    with Cons.prems show ?thesis by (intro remove_color_end) auto
  next
    case black: RB_BLACK
    have t: "rb_inv t" using Cons.prems(2) black by (simp add: paint_same)
    have u: "rb_inv u" "bheight u = bheight t + 1"
      "c = RB_RED \<Longrightarrow> hue u = RB_BLACK \<and> below_black k"
      "path_inv k (bheight t + 1 + (if c = RB_BLACK then 1 else 0))"
      using Cons.prems(3) cr by auto
    obtain w a b cw where w: "u = mk d cw w a b"
      using u(2) by (cases u rule: mk_cases) auto
    have ab: "rb_inv a" "rb_inv b" "bheight a = bheight t" "bheight b = bheight t" if "cw = RB_BLACK"
      using u(1,2) w that by auto
    have f: "focus s (mk d c p t (mk d cw w a b)) k"
      using Cons.prems(1) cr w by (simp add: focus_up)
    have "rebalanced s (mk d c p t u) k (rbe_remove_color (Some p) (ptr t) s)"
    proof (cases cw)
      case RB_RED
      with f t black u w show ?thesis
        by (cases c) (auto intro!: remove_red_sibling)
    next
      case cw: RB_BLACK
      have loop: "rebalanced s' (mk d c p t (mk d RB_RED w a b)) k
          (rbe_remove_color (above k) (Some p) s')"
        if f': "focus s' (mk d c p t (mk d RB_RED w a b)) k" and "hue a = RB_BLACK" "hue b = RB_BLACK"
        for s'
        using Cons.IH [OF f'] remove_color_end [OF f'] that t u(4) ab [OF cw] by (cases c) auto
      have red: "rbe_remove_red d p w s = Some (w, s)"
        using f cw by (simp add: rbe_remove_red_def focus_def)
      show ?thesis
        unfolding remove_color_body [OF f black] red w cw bind.simps prod.case
        by (rule remove_turn [OF f [unfolded cw] t ab [OF cw] u(4) _ loop]) (simp_all add: u(3))
    qed
    then show ?thesis by (simp add: cr rebalanced_def)
  qed
qed

end
