(* ===== verification/Rb_Refine.thy ===== *)
theory Rb_Refine
  imports Rb_Balance
begin

text \<open>
  The operations of \<open>openbsd_tree.c\<close> on a tree in memory do what the operations of \<open>Rb_Tree\<close> do
  on the list of its keys: insertion, removal, search and traversal return, keep the tree
  balanced and write no entry that is not in the tree.
\<close>

section \<open>Removal\<close>

text \<open>An entry with one child at most is replaced by it.\<close>

lemma rbe_splice_ok:
  assumes "focus s (mk e c x t Lf) k"
  shows "focus (rbe_splice x (ptr t) s) t k"
    and "mem (rbe_splice x (ptr t) s) x = mem s x"
    and "same_outside (set (inorder t) \<union> path_nodes k) s (rbe_splice x (ptr t) s)"
proof -
  let ?s1 = "if_parent (ptr t) (above k) s"
  note f = assms [unfolded focus_def, simplified]
  have splice: "rbe_splice x (ptr t) s = relink (above k) x (ptr t) ?s1"
    using f by (simp add: rbe_splice_def)
  have disj: "path_nodes k \<inter> set (inorder t) = {}" "set (inorder t) \<inter> path_nodes k = {}"
    using f by auto
  have "path_at ?s1 (Some x) k" using f disj by simp
  note path = relink_path [OF this, of "ptr t"]
  have "tree_at ?s1 (above k) t"
    using f by (intro tree_at_reparent [of _ "Some x"]) auto
  then show "focus (rbe_splice x (ptr t) s) t k"
    using f disj path(1) unfolding splice focus_def by simp
  have "x \<notin> set (inorder t)" "x \<notin> path_nodes k" using f by auto
  then have "mem ?s1 x = mem s x" by (cases t) auto
  then show "mem (rbe_splice x (ptr t) s) x = mem s x"
    using path(2) f \<open>x \<notin> path_nodes k\<close> unfolding splice same_outside_def by simp
  show "same_outside (set (inorder t) \<union> path_nodes k) s (rbe_splice x (ptr t) s)"
    unfolding splice by simp
qed

text \<open>An entry that is not in the tree takes the place of the one in focus.\<close>

lemma rbe_replace_ok:
  assumes f: "focus s (Nd l c x r) k" and y: "y \<notin> set (inorder (plug (Nd l c x r) k))"
    and l: "l \<noteq> Lf"
  obtains s' where "rbe_replace x y s = Some s'" "focus s' (Nd l c y r) k"
    "same_outside (insert y (set (inorder (plug (Nd l c x r) k)))) s s'"
proof -
  obtain ll lc lx lr where l': "l = Nd ll lc lx lr" using l by (cases l) auto
  define s1 where "s1 = relink (above k) x (Some y) (copy_entry y x s)"
  define s2 where "s2 = if_parent (ptr l) (Some y) s1"
  define s3 where "s3 = if_parent (ptr r) (Some y) s2"
  note f' = f [unfolded focus_def, simplified]
  have y': "y \<notin> set (inorder l)" "y \<notin> set (inorder r)" "y \<noteq> x" "y \<notin> path_nodes k"
    using y by (auto simp: set_plug)
  have disj: "path_nodes k \<inter> set (inorder l) = {}" "path_nodes k \<inter> set (inorder r) = {}"
    "set (inorder l) \<inter> set (inorder r) = {}" "set (inorder r) \<inter> set (inorder l) = {}"
    "set (inorder l) \<inter> path_nodes k = {}" "set (inorder r) \<inter> path_nodes k = {}"
    using f' by auto
  have "path_at (copy_entry y x s) (Some x) k" using f' y' by simp
  then have "path_at s1 (Some y) k" using relink_path(1) f' by (simp add: s1_def)
  moreover have "tree_at s1 (Some x) l" "tree_at s1 (Some x) r"
    using f' y' disj by (simp_all add: s1_def)
  then have "tree_at s2 (Some y) l" "tree_at s2 (Some x) r"
    using f' disj by (simp_all add: s2_def tree_at_reparent)
  then have "tree_at s3 (Some y) l" "tree_at s3 (Some y) r"
    using f' disj by (simp_all add: s3_def tree_at_reparent)
  ultimately have "focus s3 (Nd l c y r) k"
    using f' y' disj by (auto simp: focus_def s3_def s2_def s1_def)
  moreover have "rbe_replace x y s = Some s3"
    using f' y' by (auto simp: rbe_replace_def s3_def s2_def s1_def Let_def l')
  moreover have "same_outside (insert y (set (inorder (plug (Nd l c x r) k)))) s s3"
  proof -
    let ?A = "insert y (set (inorder (plug (Nd l c x r) k)))"
    have "set (inorder l) \<subseteq> ?A" "set (inorder r) \<subseteq> ?A" "path_nodes k \<subseteq> ?A"
      by (auto simp: set_plug)
    then show ?thesis by (simp add: s3_def s2_def s1_def)
  qed
  ultimately show ?thesis using that by blast
qed

lemma path_snoc:
  "before_path (k @ [Crumb d c x u]) = (if d = RIGHT then inorder u @ [x] else []) @ before_path k"
  "after_path (k @ [Crumb d c x u]) = after_path k @ (if d = LEFT then x # inorder u else [])"
  by (induction k rule: before_path.induct) auto

text \<open>Following the pointers of one side ends at the first or the last node of the subtree.\<close>

lemma rbe_extreme_ok:
  assumes "tree_at s p t" "ptr t = Some x"
  obtains c y r k where "rbe_extreme d s x = Some y" "t = plug (mk d c y Lf r) k"
    "d = LEFT \<Longrightarrow> before_path k = []" "d = RIGHT \<Longrightarrow> after_path k = []"
proof -
  have "\<exists>c y r k. rbe_extreme d s x = Some y \<and> t = plug (mk d c y Lf r) k \<and>
      (d = LEFT \<longrightarrow> before_path k = []) \<and> (d = RIGHT \<longrightarrow> after_path k = [])"
    using assms
  proof (induction t arbitrary: p x rule: measure_induct_rule [where f = size])
    case (less t)
    obtain c a b where t: "t = mk d c x a b"
      using less.prems(2) by (cases t rule: mk_cases [where d = d]) auto
    show ?case
    proof (cases "ptr a")
      case None
      then have "rbe_extreme d s x = Some x" "a = Lf"
        using less.prems(1) t by (cases a; simp add: rbe_extreme.simps)+
      then have "rbe_extreme d s x = Some x \<and> t = plug (mk d c x Lf b) []"
        using t by simp
      then show ?thesis by fastforce
    next
      case (Some z)
      have "tree_at s (Some x) a" "size a < size t"
        using less.prems(1) t by (cases d; simp)+
      then obtain c' y r k where k: "rbe_extreme d s z = Some y" "a = plug (mk d c' y Lf r) k"
        "d = LEFT \<longrightarrow> before_path k = []" "d = RIGHT \<longrightarrow> after_path k = []"
        using less.IH Some by blast
      have "rbe_extreme d s x = Some y"
        using less.prems(1) t k(1) Some by (subst rbe_extreme.simps) simp
      moreover have "t = plug (mk d c' y Lf r) (k @ [Crumb d c x b])"
        using t k(2) by (simp add: plug_append)
      ultimately show ?thesis using k(3,4) path_snoc [of k d c x b] by fastforce
    qed
  qed
  then show ?thesis using that by blast
qed

lemma remove_finish:
  assumes "focus s t k" "rb_balanced (plug (mk d c x t Lf) k)"
  shows "rebalanced s t k (if c = RB_BLACK then rbe_remove_color (above k) (ptr t) s else Some s)"
proof (cases c)
  case RB_BLACK
  then show ?thesis
    using assms remove_color_loop [OF assms(1)] by (auto simp: balanced_plug)
next
  case RB_RED
  then have "rb_balanced (plug t k)"
    using assms(2) by (auto simp: balanced_plug)
  with RB_RED assms(1) show ?thesis
    by (auto simp: rebalanced_def focus_whole)
qed

lemma locate:
  assumes "x \<in> set (inorder t)"
  obtains l c r k where "t = plug (Nd l c x r) k"
proof -
  have "\<exists>l c r k. t = plug (Nd l c x r) k"
    using assms
  proof (induction t)
    case (Nd l c y r)
    consider "x = y" | "x \<in> set (inorder l)" | "x \<in> set (inorder r)" using Nd.prems by auto
    then show ?case
    proof cases
      case 1
      then have "Nd l c y r = plug (Nd l c x r) []" by simp
      then show ?thesis by blast
    next
      case 2
      with Nd.IH(1) obtain l' c' r' k where "l = plug (Nd l' c' x r') k" by blast
      then have "Nd l c y r = plug (Nd l' c' x r') (k @ [Crumb LEFT c y r])"
        by (simp add: plug_append)
      then show ?thesis by blast
    next
      case 3
      with Nd.IH(2) obtain l' c' r' k where "r = plug (Nd l' c' x r') k" by blast
      then have "Nd l c y r = plug (Nd l' c' x r') (k @ [Crumb RIGHT c y l])"
        by (simp add: plug_append)
      then show ?thesis by blast
    qed
  qed simp
  then show ?thesis using that by blast
qed

text \<open>What removal promises.\<close>

definition removed :: "rbt_tree \<Rightarrow> rtree \<Rightarrow> nat \<Rightarrow> (nat \<times> rbt_tree) option \<Rightarrow> bool" where
  "removed s t x res \<longleftrightarrow> (\<exists>s' t'. res = Some (x, s') \<and> rb_tree_at s' t' \<and> rb_balanced t' \<and>
     inorder t' = rb_remove x (inorder t) \<and> same_outside (set (inorder t)) s s')"

lemma removedI:
  assumes "rebalanced s1 t1 k1 res" "inorder (plug t1 k1) = xs @ ys" "inorder t = xs @ x # ys"
    "x \<notin> set xs" "same_outside (set (inorder t)) s s1"
  shows "removed s t x (do { s \<leftarrow> res; Some (x, s) })"
proof -
  obtain s' t' where s': "res = Some s'" "rb_tree_at s' t'" "rb_balanced t'"
    "inorder t' = xs @ ys" "same_outside (set (xs @ ys)) s1 s'"
    using assms(1,2) by (auto simp: rebalanced_def)
  have "same_outside (set (inorder t)) s1 s'"
    by (rule same_outside_mono [OF s'(5)]) (auto simp: assms(3))
  then have "same_outside (set (inorder t)) s s'"
    by (rule same_outside_trans [OF assms(5)])
  with s' show ?thesis
    using assms(3,4) by (auto simp: removed_def rb_remove_def remove1_append)
qed

lemma remove_one_child:
  assumes f: "focus s (mk e c x t Lf) k" and bal: "rb_balanced (plug (mk e c x t Lf) k)"
  shows "removed s (plug (mk e c x t Lf) k) x (rbe_remove x s)"
proof -
  let ?t = "plug (mk e c x t Lf) k"
  let ?s1 = "rbe_splice x (ptr t) s"
  note sp = rbe_splice_ok [OF f]
  have x: "x \<notin> set (inorder t)" "x \<notin> path_nodes k" using f by (auto simp: focus_def)
  have rem: "rbe_remove x s = do {
      s \<leftarrow> (if c = RB_BLACK then rbe_remove_color (above k) (ptr t) ?s1 else Some ?s1);
      Some (x, s) }"
    using f by (cases e; cases t) (auto simp: rbe_remove_def focus_def Let_def)
  have "inorder ?t = before_path k @ inorder (mk e c x t Lf) @ after_path k"
    by (rule inorder_plug)
  then have ord: "inorder ?t = (if e = LEFT then before_path k @ inorder t else before_path k) @
      x # (if e = LEFT then after_path k else inorder t @ after_path k)"
    by (cases e) auto
  have "distinct (inorder ?t)"
    using f by (simp add: focus_whole rb_tree_at_def)
  then have "x \<notin> set (if e = LEFT then before_path k @ inorder t else before_path k)"
    using ord by (auto split: if_splits)
  moreover have "same_outside (set (inorder ?t)) s ?s1"
    by (rule same_outside_mono [OF sp(3)]) (auto simp: set_plug)
  ultimately show ?thesis
    unfolding rem by (intro removedI [OF remove_finish [OF sp(1) bal] _ ord]) (auto simp: inorder_plug)
qed

lemma balanced_rename:
  "rb_balanced (plug (Nd l c x r) k) \<longleftrightarrow> rb_balanced (plug (Nd l c y r) k)"
  by (simp add: balanced_plug)

text \<open>
  A node with two children: its successor \<open>y\<close>, the first node of the right subtree, is taken out
  from there and put in its place.
\<close>

lemma remove_two_children:
  assumes f: "focus s (Nd l c x r) k" and l: "l \<noteq> Lf" and r: "r \<noteq> Lf"
    and bal: "rb_balanced (plug (Nd l c x r) k)"
  shows "removed s (plug (Nd l c x r) k) x (rbe_remove x s)"
proof -
  let ?t = "plug (Nd l c x r) k"
  note f' = f [unfolded focus_def, simplified]
  obtain z where z: "ptr r = Some z" using r by (cases r) auto
  have "tree_at s (Some x) r" using f' by simp
  from rbe_extreme_ok [OF this z, where d = LEFT] obtain cy y ry kr where
    ext: "rbe_extreme LEFT s z = Some y" and rk: "r = plug (mk RIGHT cy y ry Lf) kr"
    and kr: "before_path kr = []"
    by (metis mk.simps)
  let ?k1 = "kr @ Crumb RIGHT c x l # k" and ?k2 = "kr @ Crumb RIGHT c y l # k"
  have f1: "focus s (mk RIGHT cy y ry Lf) ?k1"
    using f by (simp add: focus_plug focus_up rk)
  let ?s1 = "rbe_splice y (ptr ry) s"
  note sp = rbe_splice_ok [OF f1]
  have fx: "focus ?s1 (Nd l c x (plug ry kr)) k"
    using sp(1) by (simp add: focus_plug focus_up)
  have dist: "distinct (inorder ?t)" using f by (simp add: focus_whole rb_tree_at_def)
  then have "y \<notin> set (inorder (plug (Nd l c x (plug ry kr)) k))"
    by (auto simp: rk inorder_plug)
  from rbe_replace_ok [OF fx this l] obtain s2 where s2: "rbe_replace x y ?s1 = Some s2"
    "focus s2 (Nd l c y (plug ry kr)) k"
    "same_outside (insert y (set (inorder (plug (Nd l c x (plug ry kr)) k)))) ?s1 s2"
    by blast
  have f2: "focus s2 ry ?k2" using s2(2) by (simp add: focus_plug focus_up)
  have above: "(if RBE_PARENT ?s1 y = Some x then Some y else RBE_PARENT s y) = above ?k2"
    using f1 sp(2) by (cases kr rule: above.cases) (auto simp: focus_def RBE_PARENT_def)
  have rem: "rbe_remove x s = do {
      s \<leftarrow> (if cy = RB_BLACK then rbe_remove_color (above ?k2) (ptr ry) s2 else Some s2);
      Some (x, s) }"
  proof -
    have x: "RBE_LEFT s x \<noteq> None" "RBE_RIGHT s x = Some z" using f' l z by (cases l; auto)+
    have y: "RBE_RIGHT s y = ptr ry" "RBE_COLOR s y = cy" using f1 by (auto simp: focus_def)
    show ?thesis
      unfolding rbe_remove_def Let_def x(2) bind.simps ext y above s2(1) using x(1) by auto
  qed
  have "same_outside (set (inorder ?t)) s ?s1"
    by (rule same_outside_mono [OF sp(3)]) (auto simp: set_plug rk)
  moreover have "same_outside (set (inorder ?t)) ?s1 s2"
    by (rule same_outside_mono [OF s2(3)]) (auto simp: set_plug rk)
  ultimately have same: "same_outside (set (inorder ?t)) s s2"
    by (rule same_outside_trans)
  have "rb_balanced (plug (mk RIGHT cy y ry Lf) ?k2)"
    using bal balanced_rename [of l c x r k y] by (simp add: plug_append rk)
  note fin = remove_finish [OF f2 this]
  have ord: "inorder ?t = (before_path k @ inorder l) @ x # (y # inorder ry @ after_path kr @ after_path k)"
    using kr by (simp add: inorder_plug rk)
  have "inorder (plug ry ?k2) =
      (before_path k @ inorder l) @ (y # inorder ry @ after_path kr @ after_path k)"
    using kr by (simp add: plug_append inorder_plug)
  moreover have "x \<notin> set (before_path k @ inorder l)"
    using dist ord by simp
  ultimately show ?thesis
    unfolding rem by (rule removedI [OF fin _ ord]) (rule same)
qed

text \<open>Every node of a balanced tree can be removed.\<close>

lemma rbe_remove_ok:
  assumes "rb_tree_at s t" "rb_balanced t" "x \<in> set (inorder t)"
  shows "removed s t x (rbe_remove x s)"
proof -
  obtain l c r k where t: "t = plug (Nd l c x r) k"
    using assms(3) by (rule locate)
  then have f: "focus s (Nd l c x r) k" using assms(1) by (simp add: focus_whole)
  consider "l = Lf" | "r = Lf" | "l \<noteq> Lf" "r \<noteq> Lf" by blast
  then show ?thesis
  proof cases
    case 1
    then have "Nd l c x r = mk RIGHT c x r Lf" by simp
    with f assms(2) show ?thesis unfolding t by (metis remove_one_child)
  next
    case 2
    then have "Nd l c x r = mk LEFT c x l Lf" by simp
    with f assms(2) show ?thesis unfolding t by (metis remove_one_child)
  next
    case 3
    then show ?thesis using remove_two_children [OF f] assms(2) t by simp
  qed
qed

section \<open>Traversal\<close>

text \<open>The node after (\<open>RIGHT\<close>) or before (\<open>LEFT\<close>) the one in focus, of those around it.\<close>

fun first_of :: "nat list \<Rightarrow> nat option" where
  "first_of [] = None"
| "first_of (x # xs) = Some x"

lemma rbe_climb_ok:
  assumes "focus s t k" "ptr t = Some x"
  shows "\<exists>y. rbe_climb RIGHT s x = Some y \<and> RBE_PARENT s y = first_of (after_path k)"
  using assms
proof (induction k arbitrary: t x)
  case Nil
  then show ?case by (cases t) (auto simp: focus_def rbe_climb.simps)
next
  case (Cons cr k)
  obtain d c p u where cr: "cr = Crumb d c p u" by (cases cr) auto
  have f: "focus s (mk d c p t u) k" using Cons.prems(1) cr by (simp add: focus_up)
  have p: "RBE_PARENT s x = Some p" "RBE_CHILD d s p = Some x" "RBE_CHILD (opp d) s p = ptr u"
    "ptr u \<noteq> Some x"
    using f Cons.prems(2) by (cases t; cases u; auto simp: focus_def)+
  show ?case
  proof (cases d)
    case LEFT
    then show ?thesis using p cr by (subst rbe_climb.simps) auto
  next
    case RIGHT
    then show ?thesis using p cr Cons.IH [OF f] by (subst rbe_climb.simps) auto
  qed
qed

lemma rb_next_ok:
  assumes f: "focus s (Nd l c x r) k"
  shows "rb_step_node RIGHT s x = Some (first_of (inorder r @ after_path k))"
proof (cases "ptr r")
  case (Some z)
  have "tree_at s (Some x) r" using f by (simp add: focus_def)
  from rbe_extreme_ok [OF this Some, where d = LEFT] obtain cy y ry kr where
    "rbe_extreme LEFT s z = Some y" "r = plug (Nd Lf cy y ry) kr" "before_path kr = []"
    by (metis mk.simps(1))
  then show ?thesis
    using f Some by (auto simp: rb_step_node_def focus_def inorder_plug)
next
  case None
  then have r: "r = Lf" by (cases r) auto
  obtain y where y: "rbe_climb RIGHT s x = Some y" "RBE_PARENT s y = first_of (after_path k)"
    using rbe_climb_ok [OF f] by auto
  show ?thesis
  proof (cases k rule: above.cases)
    case 1
    then show ?thesis using f r y by (auto simp: rb_step_node_def focus_def)
  next
    case (2 d c' p u k')
    then have "ptr u \<noteq> Some x" using f by (cases u) (auto simp: focus_def)
    then show ?thesis using 2 f r y
      by (cases d) (auto simp: rb_step_node_def focus_def)
  qed
qed

lemma rb_next_in_order:
  assumes rep: "rb_tree_at s t" and ord: "inorder t = xs @ y # ys"
  shows "rb_step_node RIGHT s y = Some (first_of ys)"
proof -
  have "y \<in> set (inorder t)" using ord by simp
  then obtain l c r k where t: "t = plug (Nd l c y r) k" by (rule locate)
  have "distinct (xs @ y # ys)" using rep ord by (simp add: rb_tree_at_def)
  moreover have "(before_path k @ inorder l) @ y # (inorder r @ after_path k) = xs @ y # ys"
    using ord by (simp add: t inorder_plug)
  ultimately have "inorder r @ after_path k = ys"
    using append_Cons_eq_iff [of y xs ys "before_path k @ inorder l" "inorder r @ after_path k"]
    by auto
  then show ?thesis
    using rb_next_ok [of s l c y r k] rep by (simp add: t focus_whole)
qed

lemma rb_visit_ok:
  assumes "rb_tree_at s t" "inorder t = xs @ ys"
  shows "rb_visit s (first_of ys) = Some ys"
  using assms(2)
proof (induction ys arbitrary: xs)
  case (Cons y ys)
  from Cons.IH [of "xs @ [y]"] Cons.prems rb_next_in_order [OF assms(1) Cons.prems]
  show ?case by (subst rb_visit.simps) simp
qed (simp add: rb_visit.simps)

lemma rb_end_loop_ok:
  assumes "tree_at s p t"
  shows "rb_end_loop d s q (ptr t) = Some (case ptr t of None \<Rightarrow> q
    | Some x \<Rightarrow> (if d = LEFT then Some (hd (inorder t)) else Some (List.last (inorder t))))"
  using assms
proof (induction t arbitrary: p q)
  case Lf
  then show ?case by (simp add: rb_end_loop.simps)
next
  case (Nd l c x r)
  have "rb_end_loop d s (Some x) (ptr (if d = LEFT then l else r)) =
      Some (if d = LEFT then Some (hd (inorder l @ [x])) else Some (List.last (x # inorder r)))"
    using Nd.IH(1) [of "Some x" "Some x"] Nd.IH(2) [of "Some x" "Some x"] Nd.prems
    by (cases l; cases r) (auto simp: hd_append)
  then show ?case
    using Nd.prems by (subst rb_end_loop.simps) (cases d; cases l; simp add: hd_append)
qed

text \<open>\<open>RB_FOREACH\<close> visits the nodes in order.\<close>

lemma rb_min_ok: "rb_tree_at s t \<Longrightarrow> rb_end_node LEFT s = Some (first_of (inorder t))"
  using rb_end_loop_ok [of s None t LEFT None]
  by (cases "inorder t"; cases t) (auto simp: rb_tree_at_def rb_end_node_def)

lemma RB_FOREACH_ok: "rb_tree_at s t \<Longrightarrow> RB_FOREACH s = Some (inorder t)"
  using rb_visit_ok [of s t "[]" "inorder t"] by (simp add: RB_FOREACH_def rb_min_ok)

text \<open>
  Nodes may be removed while they are visited: \<open>RB_FOREACH_SAFE\<close> still visits every node, and
  exactly the nodes its body keeps are left.
\<close>

lemma rb_visit_safe_ok:
  assumes "rb_tree_at s t" "rb_balanced t" "inorder t = xs @ ys"
  shows "\<exists>s' t'. rb_visit_safe (remove_if P) (first_of ys) s = Some s' \<and> rb_tree_at s' t' \<and>
    rb_balanced t' \<and> inorder t' = xs @ filter (\<lambda>x. \<not> P x) ys \<and>
    same_outside (set (inorder t)) s s'"
  using assms
proof (induction ys arbitrary: s t xs)
  case Nil
  then show ?case by (auto simp: rb_visit_safe.simps)
next
  case (Cons y ys)
  have y: "y \<in> set (inorder t)" using Cons.prems(3) by simp
  have step: "rb_step_node RIGHT s y = Some (first_of ys)"
    by (rule rb_next_in_order [OF Cons.prems(1,3)])
  show ?case
  proof (cases "P y")
    case True
    obtain s1 t1 where s1: "rbe_remove y s = Some (y, s1)" "rb_tree_at s1 t1" "rb_balanced t1"
      "inorder t1 = rb_remove y (inorder t)" "same_outside (set (inorder t)) s s1"
      using rbe_remove_ok [OF Cons.prems(1,2) y] by (auto simp: removed_def)
    have "distinct (xs @ y # ys)" using Cons.prems(1,3) by (simp add: rb_tree_at_def)
    then have ord: "inorder t1 = xs @ ys"
      using s1(4) Cons.prems(3) by (simp add: rb_remove_def remove1_append)
    from Cons.IH [OF s1(2,3) ord] obtain s' t' where s':
      "rb_visit_safe (remove_if P) (first_of ys) s1 = Some s'" "rb_tree_at s' t'" "rb_balanced t'"
      "inorder t' = xs @ filter (\<lambda>x. \<not> P x) ys" "same_outside (set (inorder t1)) s1 s'"
      by blast
    have "same_outside (set (inorder t)) s1 s'"
      by (rule same_outside_mono [OF s'(5)]) (auto simp: ord Cons.prems(3))
    then have "same_outside (set (inorder t)) s s'" by (rule same_outside_trans [OF s1(5)])
    with s' True step s1(1) show ?thesis
      by (subst rb_visit_safe.simps) (auto simp: remove_if_def [of P y] rb_remove_node_def)
  next
    case False
    have "inorder t = (xs @ [y]) @ ys" using Cons.prems(3) by simp
    from Cons.IH [OF Cons.prems(1,2) this] False step show ?thesis
      by (subst rb_visit_safe.simps) (auto simp: remove_if_def [of P y])
  qed
qed

section \<open>Search and insertion\<close>

text \<open>Where an insertion changes the list.\<close>

lemma rb_insert_between:
  assumes "\<forall>y \<in> set ys. 0 < cmp x y" "\<forall>z \<in> set zs. cmp x z < 0"
  shows "rb_insert cmp x (ys @ zs) = ys @ x # zs"
  using assms by (induction ys) (cases zs; auto)+

lemma map_rb_insert:
  "map f (rb_insert (\<lambda>a b. cmp (f a) (f b)) x xs) = rb_insert cmp (f x) (map f xs)"
  by (induction xs) auto

text \<open>A list that does not get longer was not changed.\<close>

lemma rb_insert_length: "length (rb_insert cmp x xs) = length xs \<Longrightarrow> rb_insert cmp x xs = xs"
  by (induction xs) (auto split: if_splits)

lemma find_append:
  "find P (xs @ ys) = (case find P xs of None \<Rightarrow> find P ys | Some x \<Rightarrow> Some x)"
  by (induction xs) auto

text \<open>
  The loop of the insertion ends at a node with the same key, or at the empty place where a new
  node belongs: its parent is the first node of the path to that place, and the result of the
  last comparison says on which side of it the place is.
\<close>

definition insert_at :: "('k \<Rightarrow> 'k \<Rightarrow> int) \<Rightarrow> (nat \<Rightarrow> 'k) \<Rightarrow> 'k \<Rightarrow> rtree \<Rightarrow> nat option \<Rightarrow> int \<Rightarrow>
    (nat + nat option \<times> int) option \<Rightarrow> bool" where
  "insert_at cmp key k t p co res \<longleftrightarrow>
     (\<exists>y \<in> set (inorder t). cmp k (key y) = 0 \<and> res = Some (Inl y)) \<or>
     (\<exists>path co'. res = Some (Inr (if path = [] then p else above path, co')) \<and> t = plug Lf path \<and>
       (if path = [] then co' = co
        else \<exists>c x u. hd path = Crumb (if co' < 0 then LEFT else RIGHT) c x u) \<and>
       (\<forall>y \<in> set (before_path path). 0 < cmp k (key y)) \<and>
       (\<forall>y \<in> set (after_path path). cmp k (key y) < 0))"

lemma above_append: "k \<noteq> [] \<Longrightarrow> above (k @ k') = above k"
  by (cases k rule: above.cases) auto

lemma insert_at_root:
  assumes "insert_at cmp key k t None co res"
  obtains (Old) y where "y \<in> set (inorder t)" "cmp k (key y) = 0" "res = Some (Inl y)"
    | (New) path co' where "res = Some (Inr (above path, co'))" "t = plug Lf path"
      "if path = [] then True else \<exists>c p u. hd path = Crumb (if co' < 0 then LEFT else RIGHT) c p u"
      "\<forall>y \<in> set (before_path path). 0 < cmp k (key y)"
      "\<forall>y \<in> set (after_path path). cmp k (key y) < 0"
  using assms unfolding insert_at_def
proof (elim disjE exE conjE bexE, goal_cases)
  case (2 path co')
  then show ?case by (intro New [of path co']) (auto split: if_splits)
qed auto

text \<open>The new node is red and has no children.\<close>

lemma attach_ok:
  assumes "rb_tree_at s (plug Lf k)" "x \<notin> set (inorder (plug Lf k))"
    "if k = [] then True else \<exists>c p u. hd k = Crumb (if co < 0 then LEFT else RIGHT) c p u"
  shows "focus (rbe_attach x (above k) co s) (Nd Lf RB_RED x Lf) k"
    "same_outside (insert x (path_nodes k)) s (rbe_attach x (above k) co s)"
proof -
  have f: "focus s Lf k" using assms(1) by (simp add: focus_whole)
  have x: "x \<notin> path_nodes k" using assms(2) by (simp add: set_plug)
  have set: "tree_at (rbe_set x q s) p u = tree_at s p u" if "x \<notin> set (inorder u)" for q p u
    using that by (simp add: rbe_set_def)
  have path: "path_at (rbe_set x q s) p k' = path_at s p k'" if "x \<notin> path_nodes k'" for q p k'
    using that by (simp add: rbe_set_def)
  show "focus (rbe_attach x (above k) co s) (Nd Lf RB_RED x Lf) k"
    using f x assms(3)
    by (cases k rule: above.cases; cases "co < 0")
      (auto simp: rbe_attach_def focus_def set path, auto simp: rbe_set_def)
  show "same_outside (insert x (path_nodes k)) s (rbe_attach x (above k) co s)"
    by (cases k rule: above.cases) (auto simp: rbe_attach_def rbe_set_def Let_def)
qed

lemma insert_loop_find:
  assumes "tree_at s q t" "rb_insert_loop cmp key s k (ptr t) p co = Some (Inl y)"
  shows "rb_find_loop cmp key s k (ptr t) = Some (Some y)"
  using assms
proof (induction t arbitrary: p q co)
  case Lf
  then show ?case by (simp add: rb_insert_loop.simps)
next
  case (Nd l c x r)
  from Nd.prems(2) have "(let co = cmp k (key x) in
      if co < 0 then rb_insert_loop cmp key s k (RBE_LEFT s x) (Some x) co
      else if co > 0 then rb_insert_loop cmp key s k (RBE_RIGHT s x) (Some x) co
      else Some (Inl x)) = Some (Inl y)"
    by (subst (asm) rb_insert_loop.simps) simp
  then show ?case
    using Nd.IH Nd.prems(1)
    by (subst rb_find_loop.simps) (auto simp: Let_def split: if_splits)
qed

lemma insert_at_down:
  assumes "insert_at cmp key k t (Some x) (cmp k (key x)) res"
    "cmp k (key x) \<noteq> 0" "d = (if cmp k (key x) < 0 then LEFT else RIGHT)"
    "d = LEFT \<Longrightarrow> \<forall>z \<in> set (x # inorder u). cmp k (key z) < 0"
    "d = RIGHT \<Longrightarrow> \<forall>z \<in> set (inorder u @ [x]). 0 < cmp k (key z)"
  shows "insert_at cmp key k (mk d c x t u) p co res"
  using assms(1) unfolding insert_at_def
proof (elim disjE exE conjE bexE, goal_cases)
  case (1 y)
  then show ?case by auto
next
  case (2 path co')
  let ?path = "path @ [Crumb d c x u]"
  have "res = Some (Inr (if ?path = [] then p else above ?path, co'))"
    using 2(1) by (cases "path = []") (auto simp: above_append)
  moreover have "mk d c x t u = plug Lf ?path" using 2(2) by (simp add: plug_append)
  moreover have "\<exists>c x u. hd ?path = Crumb (if co' < 0 then LEFT else RIGHT) c x u"
    using 2(3) assms(3) by (cases "path = []") auto
  ultimately show ?case
    using 2(4,5) assms(4,5) by (intro disjI2 exI [of _ ?path] exI [of _ co']) (cases d; auto simp: path_snoc)+
qed

lemmas insert_at_left = insert_at_down [where d = LEFT, unfolded mk.simps]
lemmas insert_at_right = insert_at_down [where d = RIGHT, unfolded mk.simps]

context tree_order begin

lemma cmp_eq_right:
  assumes "ok x" "ok y" "ok z" "cmp x y = 0" "cmp z y < 0"
  shows "0 < cmp x z"
proof (rule ccontr)
  assume "\<not> 0 < cmp x z"
  then consider "cmp x z < 0" | "cmp x z = 0" by linarith
  then have "cmp x y < 0"
    by cases (use assms cmp_trans [of x z y] cmp_eq [of x z y] in auto)
  with assms(4) show False by simp
qed

lemma rb_insert_present:
  assumes "rb_sorted cmp xs" "y \<in> set xs" "cmp x y = 0" "ok x" "\<forall>z \<in> set xs. ok z"
  shows "rb_insert cmp x xs = xs"
  using assms
proof (induction xs)
  case (Cons z zs)
  show ?case
  proof (cases "y = z")
    case False
    then have "0 < cmp x z"
      using Cons.prems by (intro cmp_eq_right [of x y z]) (auto simp: rb_sorted_def)
    then show ?thesis using Cons False by (auto simp: rb_sorted_def)
  qed (use Cons.prems in simp)
qed simp

text \<open>
  A search that goes left at a node passes over everything from there on, and one that goes right
  over everything up to there.
\<close>

lemma sorted_less:
  assumes "rb_sorted cmp (xs @ y # ys)" "cmp k y < 0" "ok k" "\<forall>z \<in> set (y # ys). ok z"
  shows "\<forall>z \<in> set (y # ys). cmp k z < 0"
  using assms cmp_trans [of k y] by (auto simp: rb_sorted_def sorted_wrt_append)

lemma sorted_greater:
  assumes "rb_sorted cmp (xs @ y # ys)" "0 < cmp k y" "ok k" "\<forall>z \<in> set xs. ok z" "ok y"
  shows "\<forall>z \<in> set (xs @ [y]). 0 < cmp k z"
proof -
  have "cmp y k < 0" using assms(2) by (simp add: cmp_flip)
  then have "cmp z k < 0" if "z \<in> set xs" for z
    using assms that by (intro cmp_trans [of z y k]) (auto simp: rb_sorted_def sorted_wrt_append)
  then show ?thesis using assms(2) by (auto simp: cmp_flip)
qed

lemma sorted_equal:
  assumes "rb_sorted cmp (xs @ y # ys)" "cmp k y = 0" "ok k" "\<forall>z \<in> set xs. ok z" "ok y"
  shows "\<forall>z \<in> set xs. 0 < cmp k z"
  using assms cmp_eq_right [of k y] by (auto simp: rb_sorted_def sorted_wrt_append)

lemma sorted_parts:
  "rb_sorted cmp (xs @ y # ys) \<Longrightarrow> rb_sorted cmp xs \<and> rb_sorted cmp ys"
  by (auto simp: rb_sorted_def sorted_wrt_append)

lemma rb_find_loop_ok:
  assumes "tree_at s p t" "rb_sorted cmp (map key (inorder t))" "ok k"
    "\<forall>x \<in> set (inorder t). ok (key x)"
  shows "rb_find_loop cmp key s k (ptr t) = Some (find (\<lambda>x. cmp k (key x) = 0) (inorder t))"
  using assms
proof (induction t arbitrary: p)
  case Lf
  then show ?case by (simp add: rb_find_loop.simps)
next
  case (Nd l c x r)
  let ?P = "\<lambda>x. cmp k (key x) = 0"
  have sorted: "rb_sorted cmp (map key (inorder l) @ key x # map key (inorder r))"
    using Nd.prems(2) by simp
  note parts = sorted_parts [OF sorted]
  consider "cmp k (key x) < 0" | "0 < cmp k (key x)" | "cmp k (key x) = 0" by linarith
  then show ?case
  proof cases
    case 1
    then have "\<forall>z \<in> set (x # inorder r). \<not> ?P z"
      using sorted_less [OF sorted 1 Nd.prems(3)] Nd.prems(4) by auto
    then have "find ?P (x # inorder r) = None" by (simp add: find_None_iff)
    with 1 Nd parts show ?thesis
      by (subst rb_find_loop.simps) (auto simp: find_append split: option.split)
  next
    case 2
    then have "\<forall>z \<in> set (inorder l @ [x]). \<not> ?P z"
      using sorted_greater [OF sorted 2 Nd.prems(3)] Nd.prems(4) by auto
    then have "find ?P (inorder l) = None" "\<not> ?P x" by (auto simp: find_None_iff)
    with 2 Nd parts show ?thesis
      by (subst rb_find_loop.simps) (auto simp: find_append)
  next
    case 3
    then have "\<forall>z \<in> set (inorder l). \<not> ?P z"
      using sorted_equal [OF sorted 3 Nd.prems(3)] Nd.prems(4) by auto
    then have "find ?P (inorder l) = None" by (auto simp: find_None_iff)
    with 3 show ?thesis
      by (subst rb_find_loop.simps) (simp add: find_append)
  qed
qed

lemma rb_nfind_loop_ok:
  assumes "tree_at s p t" "rb_sorted cmp (map key (inorder t))" "ok k"
    "\<forall>x \<in> set (inorder t). ok (key x)"
  shows "rb_nfind_loop cmp key s k res (ptr t) =
    Some (case find (\<lambda>x. cmp k (key x) \<le> 0) (inorder t) of None \<Rightarrow> res | Some y \<Rightarrow> Some y)"
  using assms
proof (induction t arbitrary: p res)
  case Lf
  then show ?case by (simp add: rb_nfind_loop.simps)
next
  case (Nd l c x r)
  let ?P = "\<lambda>x. cmp k (key x) \<le> 0"
  have sorted: "rb_sorted cmp (map key (inorder l) @ key x # map key (inorder r))"
    using Nd.prems(2) by simp
  note parts = sorted_parts [OF sorted]
  consider "cmp k (key x) < 0" | "0 < cmp k (key x)" | "cmp k (key x) = 0" by linarith
  then show ?case
  proof cases
    case 1
    with Nd parts show ?thesis
      by (subst rb_nfind_loop.simps) (auto simp: find_append split: option.split)
  next
    case 2
    then have "\<forall>z \<in> set (inorder l @ [x]). \<not> ?P z"
      using sorted_greater [OF sorted 2 Nd.prems(3)] Nd.prems(4) by auto
    then have "find ?P (inorder l) = None" "\<not> ?P x" by (auto simp: find_None_iff)
    with 2 Nd parts show ?thesis
      by (subst rb_nfind_loop.simps) (auto simp: find_append)
  next
    case 3
    then have "\<forall>z \<in> set (inorder l). \<not> ?P z"
      using sorted_equal [OF sorted 3 Nd.prems(3)] Nd.prems(4) by auto
    then have "find ?P (inorder l) = None" by (auto simp: find_None_iff)
    with 3 show ?thesis
      by (subst rb_nfind_loop.simps) (simp add: find_append)
  qed
qed

lemma rb_insert_loop_ok:
  assumes "tree_at s q t" "rb_sorted cmp (map key (inorder t))" "ok k"
    "\<forall>x \<in> set (inorder t). ok (key x)"
  shows "insert_at cmp key k t p co (rb_insert_loop cmp key s k (ptr t) p co)"
  using assms
proof (induction t arbitrary: p q co)
  case Lf
  then show ?case by (auto simp: rb_insert_loop.simps insert_at_def intro!: exI [of _ "[]"])
next
  case (Nd l c x r)
  have sorted: "rb_sorted cmp (map key (inorder l) @ key x # map key (inorder r))"
    using Nd.prems(2) by simp
  note parts = sorted_parts [OF sorted]
  consider "cmp k (key x) < 0" | "0 < cmp k (key x)" | "cmp k (key x) = 0" by linarith
  then show ?case
  proof cases
    case 1
    have "insert_at cmp key k l (Some x) (cmp k (key x))
        (rb_insert_loop cmp key s k (ptr l) (Some x) (cmp k (key x)))"
      using Nd parts by auto
    moreover have "\<forall>z \<in> set (x # inorder r). cmp k (key z) < 0"
      using sorted_less [OF sorted 1 Nd.prems(3)] Nd.prems(4) by auto
    ultimately have "insert_at cmp key k (Nd l c x r) p co
        (rb_insert_loop cmp key s k (ptr l) (Some x) (cmp k (key x)))"
      by (intro insert_at_left) (use 1 in auto)
    then show ?thesis using 1 Nd.prems(1) by (subst rb_insert_loop.simps) auto
  next
    case 2
    have "insert_at cmp key k r (Some x) (cmp k (key x))
        (rb_insert_loop cmp key s k (ptr r) (Some x) (cmp k (key x)))"
      using Nd parts by auto
    moreover have "\<forall>z \<in> set (inorder l @ [x]). 0 < cmp k (key z)"
      using sorted_greater [OF sorted 2 Nd.prems(3)] Nd.prems(4) by auto
    ultimately have "insert_at cmp key k (Nd l c x r) p co
        (rb_insert_loop cmp key s k (ptr r) (Some x) (cmp k (key x)))"
      by (intro insert_at_right) (use 2 in auto)
    then show ?thesis using 2 Nd.prems(1) by (subst rb_insert_loop.simps) auto
  next
    case 3
    then show ?thesis by (subst rb_insert_loop.simps) (auto simp: insert_at_def)
  qed
qed

lemma rb_insert_node_ok:
  assumes rep: "rb_tree_at s t" and bal: "rb_balanced t" and x: "x \<notin> set (inorder t)"
    and sorted: "rb_sorted cmp (map key (inorder t))"
    and ok: "ok (key x)" "\<forall>y \<in> set (inorder t). ok (key y)"
  shows "\<exists>s' t'. rb_insert_node cmp key x s =
      Some (find (\<lambda>y. cmp (key x) (key y) = 0) (inorder t), s') \<and>
    rb_tree_at s' t' \<and> rb_balanced t' \<and>
    inorder t' = rb_insert (\<lambda>a b. cmp (key a) (key b)) x (inorder t) \<and>
    same_outside (insert x (set (inorder t))) s s'"
proof -
  let ?loop = "rb_insert_loop cmp key s (key x) (rbt_root s) None 0"
  have t: "tree_at s None t" "rbt_root s = ptr t" using rep by (simp_all add: rb_tree_at_def)
  have "insert_at cmp key (key x) t None 0 ?loop"
    unfolding t(2) by (rule rb_insert_loop_ok [OF t(1) sorted ok])
  then show ?thesis
  proof (cases rule: insert_at_root)
    case (Old y)
    have "rb_find_loop cmp key s (key x) (ptr t) = Some (Some y)"
      using insert_loop_find [OF t(1)] Old(3) t(2) by simp
    then have "find (\<lambda>y. cmp (key x) (key y) = 0) (inorder t) = Some y"
      using rb_find_loop_ok [OF t(1) sorted ok] by simp
    moreover have "map key (rb_insert (\<lambda>a b. cmp (key a) (key b)) x (inorder t)) = map key (inorder t)"
      unfolding map_rb_insert by (rule rb_insert_present [OF sorted _ Old(2)]) (use Old(1) ok in auto)
    then have "rb_insert (\<lambda>a b. cmp (key a) (key b)) x (inorder t) = inorder t"
      by (auto dest!: map_eq_imp_length_eq rb_insert_length)
    ultimately show ?thesis
      using Old(3) rep bal by (auto simp: rb_insert_node_def intro!: exI [of _ t])
  next
    case (New k co)
    let ?x = "Nd Lf RB_RED x Lf"
    note at = attach_ok [OF rep [unfolded New(2)] x [unfolded New(2)] New(3)]
    have "path_inv k 0" using bal New(2) by (simp add: balanced_plug)
    then have "rebalanced s1 ?x k (rbe_insert_color x s1)" if "focus s1 ?x k" for s1
      using insert_color_loop [of s1 LEFT x Lf Lf k] that by simp
    from this [OF at(1)] obtain s' t' where
      s': "rbe_insert_color x (rbe_attach x (above k) co s) = Some s'"
      "rb_tree_at s' t'" "rb_balanced t'" "inorder t' = inorder (plug ?x k)"
      and same: "same_outside (set (inorder (plug ?x k))) (rbe_attach x (above k) co s) s'"
      by (auto simp: rebalanced_def)
    have "same_outside (insert x (set (inorder t))) s s'"
      using same_outside_trans [OF at(2)] same by (simp add: New(2) set_plug)
    moreover have "rb_insert_node cmp key x s = Some (None, s')"
      using New(1) s'(1) by (simp add: rb_insert_node_def)
    moreover have "find (\<lambda>y. cmp (key x) (key y) = 0) (inorder t) = None"
      using New(4,5) by (auto simp: find_None_iff New(2) inorder_plug)
    moreover have "inorder t' = rb_insert (\<lambda>a b. cmp (key a) (key b)) x (inorder t)"
      using New(4,5) by (simp add: s'(4) New(2) inorder_plug rb_insert_between)
    ultimately show ?thesis
      using s'(2,3) by auto
  qed
qed

end

section \<open>The height\<close>

text \<open>
  A way down the tree: the nodes that a search passes, each a child of the one before.
\<close>

fun rb_way :: "rbt_tree \<Rightarrow> nat option \<Rightarrow> nat list \<Rightarrow> bool" where
  "rb_way s p [] = True"
| "rb_way s p (x # xs) \<longleftrightarrow> p = Some x \<and> (\<exists>d. rb_way s (RBE_CHILD d s x) xs)"

lemma rb_way_height:
  assumes "tree_at s p t" "rb_inv t" "rb_way s (ptr t) xs"
  shows "length xs \<le> 2 * bheight t + (if hue t = RB_RED then 1 else 0)"
  using assms
proof (induction xs arbitrary: p t)
  case (Cons x xs)
  then obtain l c r where t: "t = Nd l c x r" by (cases t) auto
  obtain d where "rb_way s (RBE_CHILD d s x) xs" using Cons.prems(3) by auto
  then obtain u where u: "u = l \<or> u = r" "rb_way s (ptr u) xs"
    using Cons.prems(1) t by (cases d) auto
  have "length xs \<le> 2 * bheight u + (if hue u = RB_RED then 1 else 0)"
    using Cons.IH [of "Some x" u] Cons.prems(1,2) u t by auto
  then show ?case
    using Cons.prems(2) u(1) t by (cases c) (auto split: if_splits)
qed simp

lemma size_bheight: "rb_inv t \<Longrightarrow> 2 ^ bheight t \<le> length (inorder t) + 1"
  by (induction t) auto

lemma rb_way_bound:
  assumes "rb_tree_at s t" "rb_balanced t" "rb_way s (rbt_root s) xs"
  shows "2 ^ length xs \<le> (length (inorder t) + 1)\<^sup>2"
proof -
  have "length xs \<le> 2 * bheight t"
    using rb_way_height [of s None t xs] assms by (auto simp: rb_tree_at_def rb_balanced_def)
  then have "(2::nat) ^ length xs \<le> (2 ^ bheight t)\<^sup>2"
    by (metis mult.commute one_le_numeral power_increasing power_mult)
  also have "\<dots> \<le> (length (inorder t) + 1)\<^sup>2"
    using assms(2) by (intro power_mono size_bheight) (auto simp: rb_balanced_def)
  finally show ?thesis .
qed

end
