(* ===== verification/Mac_Tree.thy ===== *)
theory Mac_Tree
  imports Rb_Refine Mac_Ageing
begin

text \<open>
  The tree of the MAC table in memory. \<open>mac_rb\<close> is the list of the entries in order; here it is the
  red-black tree linked through the field \<open>mac_entry_rb\<close> of the entries, and \<open>RB_INSERT\<close>,
  \<open>RB_REMOVE\<close>, \<open>RB_FIND\<close> and the \<open>RB_FOREACH\<close> loops on it implement the operations of \<open>Mac_Table\<close>.
  The last section does the same for the trees of VLANs.
\<close>

section \<open>The MAC table\<close>

text \<open>A balanced tree in memory whose nodes, in order, are the list \<open>xs\<close>.\<close>

definition tree_of :: "rbt_tree \<Rightarrow> nat list \<Rightarrow> bool" where
  "tree_of r xs \<longleftrightarrow> (\<exists>t. rb_tree_at r t \<and> rb_balanced t \<and> inorder t = xs)"

lemma tree_of_init: "tree_of (rb_init r) []"
  by (auto simp: tree_of_def rb_tree_at_def rb_init_def intro!: exI [of _ Lf])

lemma tree_of_unique: "tree_of r xs \<Longrightarrow> tree_of r ys \<Longrightarrow> xs = ys"
  by (metis RB_FOREACH_ok option.inject tree_of_def)

interpretation mac_tree: tree_order MACMsg_compare "\<lambda>m. length (mac_addr m) = 6"
  by (rule MACMsg_tree_order)

lemma mac_rb_upd_ml: "mac_rb (upd_ml c f s) c = ml_mac_rb (f (MLACP (csm_of s c)))"
  by (simp add: upd_ml_def)

lemma mac_ok_tree:
  assumes "mac_ok (MLACP (csm_of s c))"
  shows "rb_sorted MACMsg_compare (map (mac_of s c) (mac_rb s c))"
    "\<forall>p \<in> set (mac_rb s c). length (mac_addr (mac_of s c p)) = 6"
  using assms by (simp_all add: mac_ok_def rb_sorted_def sorted_wrt_map)

text \<open>The table of an example node with one entry, and its tree.\<close>

definition a_tree :: rbt_tree where
  "a_tree = \<lparr>rbt_root = Some 0, mem = (\<lambda>_. \<lparr>rbt_parent = None, rbt_left = None, rbt_right = None,
     rbt_color = RB_BLACK\<rparr>)\<rparr>"

lemma a_tree_of: "tree_of a_tree [0]"
  unfolding tree_of_def
  by (rule exI [of _ "Nd Lf RB_BLACK 0 Lf"])
    (simp add: rb_tree_at_def a_tree_def RBE_PARENT_def RBE_COLOR_def RBE_CHILD_def)

lemma a_learned_table:
  "mac_rb a_learned 0 = [0]" "length (mac_addr (mac_of a_learned 0 1)) = 6"
  "mac_addr (mac_of a_learned 0 0) = a_mac"
  by code_simp+

section \<open>Properties\<close>

text \<open>
  C6. \<open>RB_INSERT\<close> on the tree of the MAC table returns for every table and every entry that is not
  in it. The tree it leaves is balanced and holds the entries of the table after \<open>mac_rb_insert\<close>;
  the result is the entry with the same VLAN and address if there is one, and no entry outside of
  the tree is written but the new one.
\<close>

theorem mac_tree_insert_refines:
  assumes "tree_of r (mac_rb s c)" "mac_ok (MLACP (csm_of s c))" "p \<notin> set (mac_rb s c)"
    "length (mac_addr (mac_of s c p)) = 6"
  shows "\<exists>r'. rb_insert_node MACMsg_compare (mac_of s c) p r =
      Some (mac_find (mac_vid (mac_of s c p)) (mac_addr (mac_of s c p)) s c, r') \<and>
    tree_of r' (mac_rb (mac_rb_insert c p s) c) \<and>
    same_outside (insert p (set (mac_rb s c))) r r'"
proof -
  obtain t where t: "rb_tree_at r t" "rb_balanced t" "inorder t = mac_rb s c"
    using assms(1) by (auto simp: tree_of_def)
  show ?thesis
    using mac_tree.rb_insert_node_ok [of r t p "mac_of s c"] mac_ok_tree [OF assms(2)] assms(3,4)
    unfolding mac_rb_insert_def mac_rb_upd_ml
    by (auto simp: t tree_of_def mac_find_def rb_find_def)
qed

theorem mac_tree_insert_refines_witness:
  "\<exists>r'. rb_insert_node MACMsg_compare (mac_of a_learned 0) 1 a_tree =
      Some (mac_find (mac_vid (mac_of a_learned 0 1)) (mac_addr (mac_of a_learned 0 1)) a_learned 0, r') \<and>
    tree_of r' (mac_rb (mac_rb_insert 0 1 a_learned) 0) \<and>
    same_outside {0, 1} a_tree r'"
  using mac_tree_insert_refines [of a_tree a_learned 0 1] a_tree_of a_learned_ok a_learned_table
  by (simp add: insert_commute)

text \<open>
  C7. \<open>RB_REMOVE\<close> of an entry of the MAC table returns, and leaves a balanced tree of the entries
  of the table after \<open>mac_rb_remove\<close>.
\<close>

theorem mac_tree_remove_refines:
  assumes "tree_of r (mac_rb s c)" "p \<in> set (mac_rb s c)"
  shows "\<exists>r'. rb_remove_node p r = Some (p, r') \<and> tree_of r' (mac_rb (mac_rb_remove c p s) c) \<and>
    same_outside (set (mac_rb s c)) r r'"
proof -
  obtain t where t: "rb_tree_at r t" "rb_balanced t" "inorder t = mac_rb s c"
    using assms(1) by (auto simp: tree_of_def)
  with rbe_remove_ok [of r t p] assms(2) show ?thesis
    unfolding mac_rb_remove_def mac_rb_upd_ml
    by (auto simp: removed_def tree_of_def rb_remove_node_def)
qed

theorem mac_tree_remove_refines_witness:
  "\<exists>r'. rb_remove_node 0 a_tree = Some (0, r') \<and> tree_of r' [] \<and> same_outside {0} a_tree r'"
  using mac_tree_remove_refines [of a_tree a_learned 0 0] a_tree_of a_learned_table
  unfolding mac_rb_remove_def mac_rb_upd_ml by (simp add: rb_remove_def)

text \<open>
  C25. \<open>RB_FIND\<close> returns the entry that the search in the list finds, \<open>RB_NFIND\<close> the first entry
  that is not below the key, and \<open>RB_FOREACH\<close> visits the entries of the table in their order.
\<close>

theorem mac_tree_search:
  assumes "tree_of r (mac_rb s c)" "mac_ok (MLACP (csm_of s c))" "length addr = 6"
  shows "rb_find_node MACMsg_compare (mac_of s c) (mac_key vid addr) r = Some (mac_find vid addr s c) \<and>
    rb_nfind_node MACMsg_compare (mac_of s c) (mac_key vid addr) r =
      Some (find (\<lambda>p. MACMsg_compare (mac_key vid addr) (mac_of s c p) \<le> 0) (mac_rb s c)) \<and>
    RB_FOREACH r = Some (mac_rb s c)"
proof -
  obtain t where t: "rb_tree_at r t" "inorder t = mac_rb s c"
    using assms(1) by (auto simp: tree_of_def)
  then have at: "tree_at r None t" "rbt_root r = ptr t" by (auto simp: rb_tree_at_def)
  have key: "length (mac_addr (mac_key vid addr)) = 6" using assms(3) by (simp add: mac_key_def)
  note ok = mac_ok_tree [OF assms(2), folded t(2)]
  show ?thesis
    using mac_tree.rb_find_loop_ok [OF at(1) ok(1) key ok(2)]
      mac_tree.rb_nfind_loop_ok [OF at(1) ok(1) key ok(2), of None] RB_FOREACH_ok [OF t(1)]
    by (auto simp: rb_find_node_def rb_nfind_node_def at(2) t(2) mac_find_def rb_find_def
        split: option.splits)
qed

theorem mac_tree_search_witness:
  "rb_find_node MACMsg_compare (mac_of a_learned 0) (mac_key 10 a_mac) a_tree = Some (Some 0) \<and>
   RB_FOREACH a_tree = Some [0]"
proof -
  have "mac_find 10 a_mac a_learned 0 = Some 0" "length a_mac = 6" by code_simp+
  then show ?thesis
    using mac_tree_search [of a_tree a_learned 0 a_mac 10] a_tree_of a_learned_ok a_learned_table
    by simp
qed

text \<open>
  C26. \<open>RB_FOREACH_SAFE\<close> with a body that removes the entries with some property returns, and
  leaves a balanced tree of exactly the other entries, in their order.
\<close>

theorem mac_tree_remove_loop:
  assumes "tree_of r (mac_rb s c)"
  shows "\<exists>r'. RB_FOREACH_SAFE (remove_if P) r = Some r' \<and>
    tree_of r' (filter (\<lambda>p. \<not> P p) (mac_rb s c)) \<and> same_outside (set (mac_rb s c)) r r'"
proof -
  obtain t where t: "rb_tree_at r t" "rb_balanced t" "inorder t = mac_rb s c"
    using assms by (auto simp: tree_of_def)
  show ?thesis
    using rb_visit_safe_ok [OF t(1,2), of "[]" "mac_rb s c" P] t
    by (auto simp: RB_FOREACH_SAFE_def rb_min_ok tree_of_def)
qed

theorem mac_tree_remove_loop_witness:
  "\<exists>r'. RB_FOREACH_SAFE (remove_if (\<lambda>p. p = 0)) a_tree = Some r' \<and> tree_of r' [] \<and>
    same_outside {0} a_tree r'"
  using mac_tree_remove_loop [of a_tree a_learned 0 "\<lambda>p. p = 0"] a_tree_of a_learned_table by simp

text \<open>
  The trees the daemon can have: those that \<open>RB_INIT\<close> leaves, and what \<open>RB_INSERT\<close> of an entry that is
  not in the tree and \<open>RB_REMOVE\<close> of one that is make of such a tree. \<open>key\<close> gives the contents of the
  entries, whose VLAN and address no operation changes.
\<close>

inductive rb_built :: "(nat \<Rightarrow> MACMsg) \<Rightarrow> rbt_tree \<Rightarrow> bool" for key :: "nat \<Rightarrow> MACMsg" where
  init: "rb_built key (rb_init r)"
| insert: "rb_built key r \<Longrightarrow> RB_FOREACH r = Some xs \<Longrightarrow> p \<notin> set xs \<Longrightarrow> length (mac_addr (key p)) = 6 \<Longrightarrow>
    rb_insert_node MACMsg_compare key p r = Some (q, r') \<Longrightarrow> rb_built key r'"
| remove: "rb_built key r \<Longrightarrow> RB_FOREACH r = Some xs \<Longrightarrow> p \<in> set xs \<Longrightarrow> rb_remove_node p r = Some (q, r') \<Longrightarrow>
    rb_built key r'"

lemma rb_sorted_map: "rb_sorted cmp (map key xs) = rb_sorted (\<lambda>p q. cmp (key p) (key q)) xs"
  by (simp add: rb_sorted_def sorted_wrt_map)

lemma rb_built_tree:
  "rb_built key r \<Longrightarrow> \<exists>t. rb_tree_at r t \<and> rb_balanced t \<and> rb_sorted MACMsg_compare (map key (inorder t)) \<and>
    (\<forall>p \<in> set (inorder t). length (mac_addr (key p)) = 6)"
proof (induction rule: rb_built.induct)
  case (init r)
  show ?case by (auto simp: rb_tree_at_def rb_init_def rb_sorted_def intro!: exI [of _ Lf])
next
  case (insert r xs p q r')
  then obtain t where t: "rb_tree_at r t" "rb_balanced t" "rb_sorted MACMsg_compare (map key (inorder t))"
      "\<forall>p \<in> set (inorder t). length (mac_addr (key p)) = 6" "inorder t = xs"
    using RB_FOREACH_ok by fastforce
  from mac_tree.rb_insert_node_ok [OF t(1,2) _ t(3) insert(4) t(4)] insert(3,5) t(5)
  obtain t' where t': "rb_tree_at r' t'" "rb_balanced t'"
      "inorder t' = rb_insert (\<lambda>a b. MACMsg_compare (key a) (key b)) p (inorder t)" by auto
  moreover have "set (inorder t') \<subseteq> insert p (set (inorder t))"
    unfolding t'(3) by (rule set_rb_insert)
  ultimately show ?case
    using mac_order.sorted_insert [of key "inorder t" p] t(3,4) insert(4) by (fastforce simp: rb_sorted_map)
next
  case (remove r xs p q r')
  then obtain t where t: "rb_tree_at r t" "rb_balanced t" "rb_sorted MACMsg_compare (map key (inorder t))"
      "\<forall>p \<in> set (inorder t). length (mac_addr (key p)) = 6" "inorder t = xs"
    using RB_FOREACH_ok by fastforce
  from rbe_remove_ok [OF t(1,2), of p] remove(3,4) t(5)
  obtain t' where "rb_tree_at r' t'" "rb_balanced t'" "inorder t' = rb_remove p (inorder t)"
    by (auto simp: removed_def rb_remove_node_def)
  then show ?case
    using rb_sorted_remove t(3,4) by (fastforce simp: rb_sorted_map rb_remove_def)
qed

text \<open>
  C27. Whatever sequence of \<open>RB_INSERT\<close> and \<open>RB_REMOVE\<close> has built the tree of a MAC table since its
  \<open>RB_INIT\<close>, its entries are visited in the order of VLAN and address, and with \<open>n\<close> of them a way down
  from the root, which is what a search takes, has at most \<open>2 * log 2 (n + 1)\<close> nodes.
\<close>

theorem mac_tree_height:
  assumes "rb_built key r"
  shows "\<exists>xs. RB_FOREACH r = Some xs \<and> rb_sorted MACMsg_compare (map key xs) \<and>
    (\<forall>ws. rb_way r (rbt_root r) ws \<longrightarrow> 2 ^ length ws \<le> (length xs + 1)\<^sup>2)"
  using rb_built_tree [OF assms] RB_FOREACH_ok rb_way_bound by blast

theorem mac_tree_height_witness:
  "\<exists>q r xs. rb_insert_node MACMsg_compare (mac_of a_learned 0) 0 (rb_init a_tree) = Some (q, r) \<and>
     RB_FOREACH r = Some xs \<and> (2::nat) ^ length [0::nat] \<le> (length xs + 1)\<^sup>2"
proof -
  let ?key = "mac_of a_learned 0"
  have len: "length (mac_addr (?key 0)) = 6" using a_learned_table(3) a_mac_length by simp
  have lf: "rb_tree_at (rb_init a_tree) Lf" by (simp add: rb_tree_at_def rb_init_def)
  note e = RB_FOREACH_ok [OF lf, simplified]
  from mac_tree.rb_insert_node_ok [OF lf, of 0 ?key] len
  obtain r u where r: "rb_insert_node MACMsg_compare ?key 0 (rb_init a_tree) = Some (None, r)" "rb_tree_at r u"
      "inorder u = [0]"
    by (auto simp: rb_sorted_def)
  have root: "rbt_root r = Some 0"
    using r(2,3) by (cases u) (auto simp: rb_tree_at_def append_eq_Cons_conv)
  have "rb_built ?key r" by (rule rb_built.insert [OF rb_built.init e _ len r(1)]) simp
  then obtain xs where "RB_FOREACH r = Some xs" "2 ^ length [0::nat] \<le> (length xs + 1)\<^sup>2"
    using mac_tree_height root by (metis rb_way.simps)
  with r(1) show ?thesis by blast
qed

section \<open>The VLAN trees\<close>

lemmas vlan_insert_node_ok = tree_order.rb_insert_node_ok [OF vlan_order.tree_order_axioms]
lemmas vlan_find_loop_ok = tree_order.rb_find_loop_ok [OF vlan_order.tree_order_axioms]

text \<open>
  The tree of VLANs of an interface, whose nodes have the contents \<open>key\<close>: \<open>RB_INSERT\<close> and
  \<open>RB_FIND\<close> do what \<open>rb_insert\<close> and \<open>vlan_find\<close> do on the list.
\<close>

lemma vlan_tree_insert:
  assumes "tree_of r ps" "map key ps = tree" "rb_sorted vlan_node_compare tree" "p \<notin> set ps"
  shows "\<exists>r' ps'. rb_insert_node vlan_node_compare key p r =
      Some (find (\<lambda>q. vlan_node_compare (key p) (key q) = 0) ps, r') \<and>
    tree_of r' ps' \<and> map key ps' = rb_insert vlan_node_compare (key p) tree"
  using assms vlan_insert_node_ok [of r _ p key]
  by (fastforce simp: tree_of_def map_rb_insert)

lemma vlan_tree_find:
  assumes "tree_of r ps" "map key ps = tree" "rb_sorted vlan_node_compare tree"
  shows "\<exists>q. rb_find_node vlan_node_compare key (vlan_key vid) r = Some q \<and>
    map_option key q = vlan_find vid tree"
proof -
  obtain t where t: "rb_tree_at r t" "inorder t = ps" using assms(1) by (auto simp: tree_of_def)
  have "map_option key (find (\<lambda>x. P (key x)) xs) = find P (map key xs)" for P xs
    by (induction xs) auto
  then show ?thesis
    using vlan_find_loop_ok [of r None t key "vlan_key vid"] t assms(2,3)
    by (auto simp: rb_find_node_def rb_tree_at_def rb_find_def)
qed

end
