(* ===== verification/Neighbour.thy ===== *)
theory Neighbour
  imports Mac_Table
begin

text \<open>
  The ARP and ND entries a node shares with its peer: the lists of what is known (\<open>arp_list\<close>,
  \<open>ndisc_list\<close>), the queues of what is to be sent (\<open>arp_msg_list\<close>, \<open>ndisc_msg_list\<close>), the requests
  to the kernel, and the entries a node sends about its own addresses. The operations come from
  \<open>mlacp_sync_update.c\<close>, \<open>mlacp_fsm.c\<close> and \<open>mlacp_link_handler.c\<close>; the ones for ARP and ND have the
  same text on different types, so what they share is defined once.

  The name in an entry is an array of 20 bytes. What an array holds behind the terminator of a name
  it was printed into is not represented. An entry of a message whose name has no terminator has no
  defined result.
\<close>

section \<open>Requests to the kernel\<close>

definition NEIGH_SYNC_FLAG_ACK :: u8 where [const_defs]: "NEIGH_SYNC_FLAG_ACK = 1"
definition NEIGH_SYNC_FLAG_SELF_LL :: u8 where [const_defs]: "NEIGH_SYNC_FLAG_SELF_LL = 2"
definition NEIGH_SYNC_FLAG_SELF_IP :: u8 where [const_defs]: "NEIGH_SYNC_FLAG_SELF_IP = 4"
definition ICCP_NLE_SEQ_MISMATCH :: int where [const_defs]: "ICCP_NLE_SEQ_MISMATCH = -16"
definition MAX_NEIGH_ENTRY_NUM :: nat where [const_defs]: "MAX_NEIGH_ENTRY_NUM = 40"

text \<open>
  The failures of the netlink library to allocate its objects are among the values the request to
  the kernel may return. \<open>v6\<close> is the address family.
\<close>

definition iccp_netlink_neighbor_request ::
  "bool \<Rightarrow> bytes \<Rightarrow> bool \<Rightarrow> bytes \<Rightarrow> string \<Rightarrow> bool \<Rightarrow> System \<Rightarrow> int \<times> System" where
  "iccp_netlink_neighbor_request v6 addr add mac portname permanent s =
     (case local_if_find_by_name portname s of None \<Rightarrow> (-3, s)
      | Some l \<Rightarrow> kernel ((if add then NeighAdd else NeighDel) v6 addr mac
                    (lif_ifindex (lif_of s l)) permanent) s)"

text \<open>\<open>strcmp(lif->name, arp_msg->ifname) == 0\<close>\<close>

definition named :: "string \<Rightarrow> bytes \<Rightarrow> bool" where
  "named name arr \<longleftrightarrow> c_string arr = Some name"

definition arp_set_handler :: "csm_ptr \<Rightarrow> lif_ptr \<Rightarrow> bool \<Rightarrow> System \<Rightarrow> System" where
  "arp_set_handler c l add s =
     (if add \<and> ml_current_state (MLACP (csm_of s c)) \<noteq> MLACP_STATE_EXCHANGE then s
      else foldl (\<lambda>s a. if arp_op_type a \<noteq> NEIGH_SYNC_DEL \<and> named (lif_name (lif_of s l)) (arp_ifname a)
               then snd (iccp_netlink_neighbor_request False (le32 (arp_ipv4_addr a)) add
                      (arp_mac_addr a) (lif_name (lif_of s l)) False s)
               else s) s (ml_arp_list (MLACP (csm_of s c))))"

text \<open>The third argument of the request is 1 in both branches of \<open>ndisc_set_handler\<close>.\<close>

definition ndisc_set_handler :: "csm_ptr \<Rightarrow> lif_ptr \<Rightarrow> bool \<Rightarrow> System \<Rightarrow> System" where
  "ndisc_set_handler c l add s =
     (if add \<and> ml_current_state (MLACP (csm_of s c)) \<noteq> MLACP_STATE_EXCHANGE then s
      else foldl (\<lambda>s n. if nd_op_type n \<noteq> NEIGH_SYNC_DEL \<and> named (lif_name (lif_of s l)) (nd_ifname n)
               then snd (iccp_netlink_neighbor_request True (nd_ipv6_addr n) True
                      (nd_mac_addr n) (lif_name (lif_of s l)) False s)
               else s) s (ml_ndisc_list (MLACP (csm_of s c))))"

datatype ROUTE_MANIPULATE_TYPE = ROUTE_NONE | ROUTE_ADD | ROUTE_DEL

definition set_l3_itf_state :: "csm_ptr \<Rightarrow> lif_ptr \<Rightarrow> ROUTE_MANIPULATE_TYPE \<Rightarrow> System \<Rightarrow> System" where
  "set_l3_itf_state c l route_type s =
     (case route_type of
        ROUTE_NONE \<Rightarrow> s
      | ROUTE_ADD \<Rightarrow> if take 4 (lif_name (lif_of s l)) \<noteq> ''Vlan''
                     then ndisc_set_handler c l False (arp_set_handler c l False s) else s
      | ROUTE_DEL \<Rightarrow> ndisc_set_handler c l True (arp_set_handler c l True s))"

section \<open>Queues and transmission\<close>

text \<open>\<open>iccp_csm_init_msg\<close> on a structure: whether there was memory for the copy.\<close>

definition msg_copied :: "System \<Rightarrow> bool \<times> System" where
  "msg_copied s =
     (let (ok1, s1) = malloc s
      in if \<not> ok1 then (False, s1) else let (ok2, s2) = malloc s1 in (ok2, s2))"

definition arp_enqueue :: "csm_ptr \<Rightarrow> ARPMsg \<Rightarrow> System \<Rightarrow> System" where
  "arp_enqueue c a s =
     (let (ok, s1) = msg_copied s
      in if ok then upd_ml c (\<lambda>m. m\<lparr>ml_arp_msg_list := ml_arp_msg_list m @ [a]\<rparr>) s1 else s1)"

definition ndisc_enqueue :: "csm_ptr \<Rightarrow> NDISCMsg \<Rightarrow> System \<Rightarrow> System" where
  "ndisc_enqueue c n s =
     (let (ok, s1) = msg_copied s
      in if ok then upd_ml c (\<lambda>m. m\<lparr>ml_ndisc_msg_list := ml_ndisc_msg_list m @ [n]\<rparr>) s1 else s1)"

text \<open>Entries of the list that satisfy \<open>P\<close> are marked as additions in place, and queued.\<close>

definition arp_resend :: "csm_ptr \<Rightarrow> (ARPMsg \<Rightarrow> bool) \<Rightarrow> System \<Rightarrow> System" where
  "arp_resend c P s =
     (let mark = (\<lambda>a. a\<lparr>arp_op_type := NEIGH_SYNC_ADD, arp_flag := 0\<rparr>);
          as = ml_arp_list (MLACP (csm_of s c));
          s1 = upd_ml c (\<lambda>m. m\<lparr>ml_arp_list := map (\<lambda>a. if P a then mark a else a) as\<rparr>) s
      in foldl (\<lambda>s a. arp_enqueue c (mark a) s) s1 (filter P as))"

definition ndisc_resend :: "csm_ptr \<Rightarrow> (NDISCMsg \<Rightarrow> bool) \<Rightarrow> System \<Rightarrow> System" where
  "ndisc_resend c P s =
     (let mark = (\<lambda>n. n\<lparr>nd_op_type := NEIGH_SYNC_ADD, nd_flag := 0\<rparr>);
          ns = ml_ndisc_list (MLACP (csm_of s c));
          s1 = upd_ml c (\<lambda>m. m\<lparr>ml_ndisc_list := map (\<lambda>n. if P n then mark n else n) ns\<rparr>) s
      in foldl (\<lambda>s n. ndisc_enqueue c (mark n) s) s1 (filter P ns))"

definition syn_arp_info_to_peer :: "csm_ptr \<Rightarrow> lif_ptr \<Rightarrow> System \<Rightarrow> System" where
  "syn_arp_info_to_peer c l s = arp_resend c (\<lambda>a. named (lif_name (lif_of s l)) (arp_ifname a)) s"

definition syn_ndisc_info_to_peer :: "csm_ptr \<Rightarrow> lif_ptr \<Rightarrow> System \<Rightarrow> System" where
  "syn_ndisc_info_to_peer c l s = ndisc_resend c (\<lambda>n. named (lif_name (lif_of s l)) (nd_ifname n)) s"

definition mlacp_resync_arp :: "csm_ptr \<Rightarrow> System \<Rightarrow> System" where
  "mlacp_resync_arp c s = arp_resend c (\<lambda>_. True) s"

definition mlacp_resync_ndisc :: "csm_ptr \<Rightarrow> System \<Rightarrow> System" where
  "mlacp_resync_ndisc c s = ndisc_resend c (\<lambda>_. True) s"

fun send_arp_loop :: "csm_ptr \<Rightarrow> ARPMsg list \<Rightarrow> nat \<Rightarrow> bytes \<Rightarrow> int \<Rightarrow> System \<Rightarrow> System" where
  "send_arp_loop c [] count buf msg_len s =
     (if count \<noteq> 0 then snd (iccp_csm_send c buf msg_len s) else s)"
| "send_arp_loop c (a # as) count buf msg_len s =
     (let s1 = upd_ml c (\<lambda>m. m\<lparr>ml_arp_msg_list := as\<rparr>) s;
          (len, buf1, s2) = mlacp_prepare_for_arp_info c CSM_BUFFER_SIZE a count buf s1
      in if MAX_NEIGH_ENTRY_NUM \<le> count + 1
         then send_arp_loop c as 0 [] len (snd (iccp_csm_send c buf1 len s2))
         else send_arp_loop c as (count + 1) buf1 len s2)"

definition mlacp_sync_send_syncArpInfo :: "csm_ptr \<Rightarrow> System \<Rightarrow> System" where
  "mlacp_sync_send_syncArpInfo c s = send_arp_loop c (ml_arp_msg_list (MLACP (csm_of s c))) 0 [] 0 s"

fun send_ndisc_loop :: "csm_ptr \<Rightarrow> NDISCMsg list \<Rightarrow> nat \<Rightarrow> bytes \<Rightarrow> int \<Rightarrow> System \<Rightarrow> System" where
  "send_ndisc_loop c [] count buf msg_len s =
     (if count \<noteq> 0 then snd (iccp_csm_send c buf msg_len s) else s)"
| "send_ndisc_loop c (n # ns) count buf msg_len s =
     (let s1 = upd_ml c (\<lambda>m. m\<lparr>ml_ndisc_msg_list := ns\<rparr>) s;
          (len, buf1, s2) = mlacp_prepare_for_ndisc_info c CSM_BUFFER_SIZE n count buf s1
      in if MAX_NEIGH_ENTRY_NUM \<le> count + 1
         then send_ndisc_loop c ns 0 [] len (snd (iccp_csm_send c buf1 len s2))
         else send_ndisc_loop c ns (count + 1) buf1 len s2)"

definition mlacp_sync_send_syncNdiscInfo :: "csm_ptr \<Rightarrow> System \<Rightarrow> System" where
  "mlacp_sync_send_syncNdiscInfo c s =
     send_ndisc_loop c (ml_ndisc_msg_list (MLACP (csm_of s c))) 0 [] 0 s"

section \<open>The node's own addresses\<close>

definition set_peerlink_learn_kernel :: "csm_ptr \<Rightarrow> bool \<Rightarrow> System \<Rightarrow> System" where
  "set_peerlink_learn_kernel c enable s =
     (case csm_peer_link_if (csm_of s c) of None \<Rightarrow> s
      | Some l \<Rightarrow>
          let (ret, s1) = kernel (ShellCmd (''bridge link set dev '' @ lif_name (lif_of s l)
                            @ (if enable then '' learning on'' else '' learning off''))) s
          in upd_csm c (\<lambda>m. if ret \<noteq> 0
               then m\<lparr>csm_peer_link_learning_enable := (if enable then 1 else 0),
                      csm_peer_link_learning_retry_time := env_time s1\<rparr>
               else m\<lparr>csm_peer_link_learning_retry_time := 0\<rparr>) s1)"

definition sscanf_sag :: "string \<Rightarrow> int" where
  "sscanf_sag name =
     (if take 3 name = ''sag''
      then (case scan_int (drop 3 name) of None \<Rightarrow> 0 | Some i \<Rightarrow> i) else 0)"

definition syn_local_mac_info_to_peer :: "csm_ptr \<Rightarrow> lif_ptr \<Rightarrow> bool \<Rightarrow> bool \<Rightarrow> System \<Rightarrow> int \<times> System" where
  "syn_local_mac_info_to_peer c l sync_add is_sag s =
     (if ml_system_id (MLACP (csm_of s c)) = null_mac then (MCLAG_ERROR, s)
      else
        let name = lif_name (lif_of s l);
            m = zero_MACMsg\<lparr>mac_op_type := (if sync_add then MAC_SYNC_ADD else MAC_SYNC_DEL),
                  mac_vid := word_of_int (if is_sag then sscanf_sag name else sscanf_Vlan name),
                  mac_fdb_type := MAC_TYPE_STATIC,
                  mac_origin_ifname := csm_peer_itf_name (csm_of s c),
                  mac_addr := ml_system_id (MLACP (csm_of s c))\<rparr>;
            (len, buf, s1) = mlacp_prepare_for_mac_info_to_peer c CSM_BUFFER_SIZE m 0 [] s
        in if 0 < len then iccp_csm_send c buf len s1 else (MCLAG_ERROR, s1))"

definition syn_local_arp_info_to_peer :: "csm_ptr \<Rightarrow> lif_ptr \<Rightarrow> bool \<Rightarrow> bool \<Rightarrow> System \<Rightarrow> int \<times> System" where
  "syn_local_arp_info_to_peer c l sync_add ack s =
     (let lif = lif_of s l;
          a = \<lparr>arp_op_type = (if sync_add then NEIGH_SYNC_ADD else NEIGH_SYNC_DEL),
               arp_flag = (if sync_add \<and> ack then NEIGH_SYNC_FLAG_ACK else 0) OR NEIGH_SYNC_FLAG_SELF_IP,
               arp_learn_flag = 0, arp_ifname = c_array MAX_L_PORT_NAME (lif_name lif),
               arp_ipv4_addr = lif_ipv4_addr lif, arp_mac_addr = lif_mac_addr lif\<rparr>;
          (len, buf, s1) = mlacp_prepare_for_arp_info c CSM_BUFFER_SIZE a 0 [] s
      in if 0 < len then iccp_csm_send c buf len s1 else (MCLAG_ERROR, s1))"

definition syn_local_nd_info_to_peer ::
  "csm_ptr \<Rightarrow> lif_ptr \<Rightarrow> bool \<Rightarrow> bool \<Rightarrow> bool \<Rightarrow> System \<Rightarrow> int \<times> System" where
  "syn_local_nd_info_to_peer c l sync_add ack is_ipv6_ll s =
     (let lif = lif_of s l; own = ml_system_id (MLACP (csm_of s c))
      in if is_ipv6_ll \<and> (lif_ll_prefixlen_v6 lif = 0 \<or> own = null_mac) then (MCLAG_ERROR, s)
         else
           let n = \<lparr>nd_op_type = (if sync_add then NEIGH_SYNC_ADD else NEIGH_SYNC_DEL),
                    nd_flag = (if sync_add \<and> ack then NEIGH_SYNC_FLAG_ACK else 0)
                      OR (if is_ipv6_ll then NEIGH_SYNC_FLAG_SELF_LL else NEIGH_SYNC_FLAG_SELF_IP),
                    nd_learn_flag = 0, nd_ifname = c_array MAX_L_PORT_NAME (lif_name lif),
                    nd_ipv6_addr = (if is_ipv6_ll then lif_ipv6_ll_addr lif else lif_ipv6_addr lif),
                    nd_mac_addr = (if is_ipv6_ll then own else lif_mac_addr lif)\<rparr>;
               (len, buf, s1) = mlacp_prepare_for_ndisc_info c CSM_BUFFER_SIZE n 0 [] s
           in if 0 < len then iccp_csm_send c buf len s1 else (MCLAG_ERROR, s1))"

definition syn_local_neigh_mac_info_to_peer ::
  "lif_ptr \<Rightarrow> bool \<Rightarrow> bool \<Rightarrow> bool \<Rightarrow> bool \<Rightarrow> bool \<Rightarrow> bool \<Rightarrow> System \<Rightarrow> int \<times> System" where
  "syn_local_neigh_mac_info_to_peer l sync_add v4 v6 sync_mac ack is_ipv6_ll s =
     (case sys_csm_list s of [] \<Rightarrow> (MCLAG_ERROR, s)
      | c # _ \<Rightarrow>
          if ml_current_state (MLACP (csm_of s c)) \<noteq> MLACP_STATE_EXCHANGE then (MCLAG_ERROR, s)
          else if lif_type (lif_of s l) \<noteq> IF_T_VLAN then (MCLAG_ERROR, s)
          else
            let s1 = set_peerlink_learn_kernel c False s;
                s2 = (if sync_mac then snd (syn_local_mac_info_to_peer c l sync_add is_ipv6_ll s1) else s1);
                s3 = (if v4 then snd (syn_local_arp_info_to_peer c l sync_add ack s2) else s2)
            in (0, if v6 then snd (syn_local_nd_info_to_peer c l sync_add ack is_ipv6_ll s3) else s3))"

definition syn_ack_local_neigh_mac_info_to_peer :: "string \<Rightarrow> bool \<Rightarrow> System \<Rightarrow> System" where
  "syn_ack_local_neigh_mac_info_to_peer ifname is_ipv6_ll s =
     (case local_if_find_by_name ifname s of None \<Rightarrow> s
      | Some l \<Rightarrow>
          let lif = lif_of s l
          in if is_ipv6_ll then snd (syn_local_neigh_mac_info_to_peer l True False True True False True s)
             else if lif_l3_mode lif \<noteq> 0 \<and> lif_is_l3_proto_enabled lif
             then snd (syn_local_neigh_mac_info_to_peer l True (lif_ipv4_addr lif \<noteq> 0)
                    (lif_prefixlen_v6 lif \<noteq> 0) True False False s)
             else s)"

definition sync_unique_ip :: "System \<Rightarrow> System" where
  "sync_unique_ip s =
     foldl (\<lambda>s name. syn_ack_local_neigh_mac_info_to_peer name False s) s (sys_unq_ip_if_list s)"

section \<open>Entries from the peer\<close>

text \<open>
  Whether the address of an entry can be reached through an interface that is up (first component),
  and whether it is an address of this node (second component). \<open>mine\<close> says that the address of the
  entry is one of the interface's; \<open>vid\<close> is the VLAN in the name of the interface, 0 for none.
\<close>

definition neigh_on_peer_link ::
  "(LocalInterface \<Rightarrow> bool) \<Rightarrow> string \<Rightarrow> u16 \<Rightarrow> csm_ptr \<Rightarrow> System \<Rightarrow> bool \<times> bool" where
  "neigh_on_peer_link mine ifname vid c s =
     (case local_if_find_by_name (csm_peer_itf_name (csm_of s c)) s of None \<Rightarrow> (False, False)
      | Some l \<Rightarrow>
          if vid = 0 \<or> local_if_is_l3_mode (lif_of s l) then (False, False)
          else case vlan_find vid (lif_vlan_tree (lif_of s l)) of
            Some v \<Rightarrow>
              (case vl_itf v of None \<Rightarrow> (False, False)
               | Some q \<Rightarrow> (True, lif_name (lif_of s q) = ifname \<and> local_if_is_l3_mode (lif_of s q)
                                    \<and> mine (lif_of s q)))
          | None \<Rightarrow>
              (case local_if_find_by_name ifname s of None \<Rightarrow> (False, False)
               | Some q \<Rightarrow> if lif_is_l3_proto_enabled (lif_of s q) then (True, mine (lif_of s q))
                           else (False, False)))"

fun neigh_on_mclag ::
  "(LocalInterface \<Rightarrow> bool) \<Rightarrow> string \<Rightarrow> u16 \<Rightarrow> lif_ptr list \<Rightarrow> bool \<Rightarrow> System \<Rightarrow> bool \<times> bool" where
  "neigh_on_mclag mine ifname vid [] my s = (False, my)"
| "neigh_on_mclag mine ifname vid (l # ls) my s =
     (let lif = lif_of s l
      in if lif_type lif \<noteq> IF_T_PORT_CHANNEL then neigh_on_mclag mine ifname vid ls my s
         else if \<not> local_if_is_l3_mode lif then
           let v = (if vid = 0 then None else vlan_find vid (lif_vlan_tree lif));
               itf = (case v of None \<Rightarrow> None | Some v \<Rightarrow> vl_itf v);
               my1 = (case itf of None \<Rightarrow> my | Some q \<Rightarrow> my \<or> mine (lif_of s q))
           in if v \<noteq> None \<and> lif_po_active lif = 1 then (True, my1)
              else neigh_on_mclag mine ifname vid ls my1 s
         else if lif_name lif = ifname \<and> lif_po_active lif = 1 then (True, my)
         else neigh_on_mclag mine ifname vid ls my s)"

text \<open>
  The outcome of the checks: the entry is ignored because the address is the node's own, it is
  passed to the kernel, or it is only recorded.
\<close>

datatype neigh_verdict = NeighIgnore | NeighInstall | NeighRecord

definition neigh_verdict_of ::
  "(LocalInterface \<Rightarrow> bool) \<Rightarrow> (LocalInterface \<Rightarrow> bool) \<Rightarrow> string \<Rightarrow> csm_ptr \<Rightarrow> System \<Rightarrow> neigh_verdict" where
  "neigh_verdict_of mine mine_global ifname c s =
     (let vid = word_of_int (sscanf_Vlan ifname);
          (set1, my1) = neigh_on_peer_link mine ifname vid c s
      in if my1 then NeighIgnore
         else if set1 then NeighInstall
         else
           let (set2, my2) = neigh_on_mclag mine_global ifname vid (ml_lif_list (MLACP (csm_of s c))) False s
           in if my2 then NeighIgnore
              else if set2 then NeighInstall
              else case local_if_find_by_name ifname s of None \<Rightarrow> NeighRecord
                   | Some l \<Rightarrow> if mine_global (lif_of s l) then NeighIgnore else NeighRecord)"

text \<open>
  The request to the kernel for an entry that can be reached: its result, and the state after the
  node's own addresses were sent back if the entry asks for that.
\<close>

definition neigh_install ::
  "bool \<Rightarrow> bytes \<Rightarrow> u8 \<Rightarrow> u8 \<Rightarrow> bytes \<Rightarrow> string \<Rightarrow> bool \<Rightarrow> bool \<Rightarrow> System \<Rightarrow> bool \<times> System" where
  "neigh_install v6 addr op flag mac ifname permanent is_ack_ll s =
     (let (err, s1) = iccp_netlink_neighbor_request v6 addr (op = NEIGH_SYNC_ADD) mac ifname permanent s
      in if err < 0 \<and> err \<noteq> ICCP_NLE_SEQ_MISMATCH then (False, s1)
         else (True, if op = NEIGH_SYNC_ADD \<and> flag AND NEIGH_SYNC_FLAG_ACK \<noteq> 0
                     then syn_ack_local_neigh_mac_info_to_peer ifname is_ack_ll s1 else s1))"

text \<open>
  The list of known entries: the entry with the same address is updated, a deletion removes it, an
  addition that is not in the list is appended if there is memory for it.
\<close>

definition neigh_learn ::
  "('a \<Rightarrow> bool) \<Rightarrow> ('a \<Rightarrow> 'a) \<Rightarrow> 'a \<Rightarrow> u8 \<Rightarrow> 'a list \<Rightarrow> System \<Rightarrow> 'a list \<times> System" where
  "neigh_learn same refresh entry op xs s =
     (let found = list_ex same xs; xs1 = update_first same refresh xs
      in if found \<and> op = NEIGH_SYNC_DEL
         then (case find same xs1 of None \<Rightarrow> (xs1, s) | Some x \<Rightarrow> (remove1 x xs1, s))
         else if \<not> found \<and> op = NEIGH_SYNC_ADD
         then (let (ok, s1) = msg_copied s in (if ok then xs1 @ [entry] else xs1, s1))
         else (xs1, s))"

definition arp_learn :: "csm_ptr \<Rightarrow> ARPMsg \<Rightarrow> string \<Rightarrow> System \<Rightarrow> System" where
  "arp_learn c e ifname s =
     (let name = c_array MAX_L_PORT_NAME ifname;
          same = (\<lambda>a. arp_ipv4_addr a = arp_ipv4_addr e);
          (as, s1) = neigh_learn same (\<lambda>a. a\<lparr>arp_ifname := name, arp_mac_addr := arp_mac_addr e\<rparr>)
                       (e\<lparr>arp_flag := 0, arp_learn_flag := NEIGH_REMOTE, arp_ifname := name\<rparr>)
                       (arp_op_type e) (ml_arp_list (MLACP (csm_of s c))) s
      in upd_ml c (\<lambda>m. m\<lparr>ml_arp_list := as,
           ml_arp_msg_list := filter (\<lambda>a. \<not> same a) (ml_arp_msg_list m)\<rparr>) s1)"

definition mlacp_fsm_update_arp_entry :: "csm_ptr \<Rightarrow> ARPMsg \<Rightarrow> System \<Rightarrow> (int \<times> System) option" where
  "mlacp_fsm_update_arp_entry c e s =
     (case c_string (arp_ifname e) of None \<Rightarrow> None
      | Some ifname \<Rightarrow>
          let mine = (\<lambda>lif. arp_ipv4_addr e = lif_ipv4_addr lif)
          in Some (case neigh_verdict_of mine mine ifname c s of
               NeighIgnore \<Rightarrow> (0, s)
             | NeighRecord \<Rightarrow> (0, arp_learn c e ifname s)
             | NeighInstall \<Rightarrow>
                 let (ok, s1) = neigh_install False (le32 (arp_ipv4_addr e)) (arp_op_type e) (arp_flag e)
                       (arp_mac_addr e) ifname (arp_flag e AND NEIGH_SYNC_FLAG_SELF_IP \<noteq> 0) False s
                 in if ok then (0, arp_learn c e ifname s1) else (MCLAG_ERROR, s1)))"

fun update_arp_entries :: "csm_ptr \<Rightarrow> nat \<Rightarrow> bytes \<Rightarrow> System \<Rightarrow> System option" where
  "update_arp_entries c 0 bs s = Some s"
| "update_arp_entries c (Suc n) bs s =
     (case de_ARPMsg bs of None \<Rightarrow> None
      | Some (e, r) \<Rightarrow>
          (case mlacp_fsm_update_arp_entry c e s of None \<Rightarrow> None
           | Some (_, s1) \<Rightarrow> update_arp_entries c n r s1))"

definition mlacp_fsm_update_arp_info :: "csm_ptr \<Rightarrow> bytes \<Rightarrow> System \<Rightarrow> System option" where
  "mlacp_fsm_update_arp_info c tlv s =
     (case de_mLACPARPInfoTLV tlv of None \<Rightarrow> None
      | Some (t, r) \<Rightarrow> update_arp_entries c (unat (ntohs (ai_num_of_entry t))) r s)"

definition ndisc_learn :: "csm_ptr \<Rightarrow> NDISCMsg \<Rightarrow> string \<Rightarrow> System \<Rightarrow> System" where
  "ndisc_learn c e ifname s =
     (let name = c_array MAX_L_PORT_NAME ifname;
          same = (\<lambda>n. memcmp (nd_ipv6_addr n) (nd_ipv6_addr e) = 0);
          (ns, s1) = neigh_learn same (\<lambda>n. n\<lparr>nd_ifname := name, nd_mac_addr := nd_mac_addr e\<rparr>)
                       (e\<lparr>nd_flag := 0, nd_learn_flag := NEIGH_REMOTE, nd_ifname := name\<rparr>)
                       (nd_op_type e) (ml_ndisc_list (MLACP (csm_of s c))) s
      in upd_ml c (\<lambda>m. m\<lparr>ml_ndisc_list := ns,
           ml_ndisc_msg_list := filter (\<lambda>n. \<not> same n) (ml_ndisc_msg_list m)\<rparr>) s1)"

text \<open>
  The text form of an address starts with "fe80" exactly when its first two bytes are FE and 80:
  the first group is printed without leading zeros, and is not part of a run of zeros.
\<close>

definition is_link_local :: "bytes \<Rightarrow> bool" where
  "is_link_local addr \<longleftrightarrow> take 2 addr = [0xFE, 0x80]"

definition mlacp_fsm_update_ndisc_entry :: "csm_ptr \<Rightarrow> NDISCMsg \<Rightarrow> System \<Rightarrow> (int \<times> System) option" where
  "mlacp_fsm_update_ndisc_entry c e s =
     (case c_string (nd_ifname e) of None \<Rightarrow> None
      | Some ifname \<Rightarrow>
          let mine_global = (\<lambda>lif. memcmp (nd_ipv6_addr e) (lif_ipv6_addr lif) = 0);
              mine = (\<lambda>lif. mine_global lif \<or> is_link_local (nd_ipv6_addr e)
                             \<and> memcmp (nd_ipv6_addr e) (lif_ipv6_ll_addr lif) = 0)
          in Some (case neigh_verdict_of mine mine_global ifname c s of
               NeighIgnore \<Rightarrow> (0, s)
             | NeighRecord \<Rightarrow> (0, ndisc_learn c e ifname s)
             | NeighInstall \<Rightarrow>
                 let self_ll = nd_flag e AND NEIGH_SYNC_FLAG_SELF_LL \<noteq> 0;
                     (ok, s1) = neigh_install True (nd_ipv6_addr e) (nd_op_type e) (nd_flag e)
                       (nd_mac_addr e) ifname (self_ll \<or> nd_flag e AND NEIGH_SYNC_FLAG_SELF_IP \<noteq> 0) self_ll s
                 in if ok then (0, ndisc_learn c e ifname s1) else (MCLAG_ERROR, s1)))"

fun update_ndisc_entries :: "csm_ptr \<Rightarrow> nat \<Rightarrow> bytes \<Rightarrow> System \<Rightarrow> System option" where
  "update_ndisc_entries c 0 bs s = Some s"
| "update_ndisc_entries c (Suc n) bs s =
     (case de_NDISCMsg bs of None \<Rightarrow> None
      | Some (e, r) \<Rightarrow>
          (case mlacp_fsm_update_ndisc_entry c e s of None \<Rightarrow> None
           | Some (_, s1) \<Rightarrow> update_ndisc_entries c n r s1))"

definition mlacp_fsm_update_ndisc_info :: "csm_ptr \<Rightarrow> bytes \<Rightarrow> System \<Rightarrow> System option" where
  "mlacp_fsm_update_ndisc_info c tlv s =
     (case de_mLACPNDISCInfoTLV tlv of None \<Rightarrow> None
      | Some (t, r) \<Rightarrow> update_ndisc_entries c (unat (ntohs (ni_num_of_entry t))) r s)"

section \<open>What sending leaves alone\<close>

text \<open>
  Two states of a host whose synchronisation data differ in the message counters only.
\<close>

definition sync_part :: "mLACP \<Rightarrow> mLACP" where
  "sync_part m = m\<lparr>ml_dbg_counters := (\<lambda>_ _ _. 0)\<rparr>"

definition same_sync :: "System \<Rightarrow> System \<Rightarrow> bool" where
  "same_sync s t \<longleftrightarrow> env_malloc t = env_malloc s \<and> (\<forall>d. sync_part (MLACP (csm_of t d)) = sync_part (MLACP (csm_of s d)))"

lemma sync_part_sel:
  "ml_arp_list (sync_part m) = ml_arp_list m" "ml_ndisc_list (sync_part m) = ml_ndisc_list m"
  "ml_arp_msg_list (sync_part m) = ml_arp_msg_list m" "ml_ndisc_msg_list (sync_part m) = ml_ndisc_msg_list m"
  "ml_current_state (sync_part m) = ml_current_state m"
  by (simp_all add: sync_part_def)

lemma same_syncD:
  assumes "same_sync s t"
  shows "ml_arp_list (MLACP (csm_of t d)) = ml_arp_list (MLACP (csm_of s d))"
    "ml_ndisc_list (MLACP (csm_of t d)) = ml_ndisc_list (MLACP (csm_of s d))"
    "ml_arp_msg_list (MLACP (csm_of t d)) = ml_arp_msg_list (MLACP (csm_of s d))"
    "ml_ndisc_msg_list (MLACP (csm_of t d)) = ml_ndisc_msg_list (MLACP (csm_of s d))"
    "ml_current_state (MLACP (csm_of t d)) = ml_current_state (MLACP (csm_of s d))"
    "env_malloc t = env_malloc s"
  using assms sync_part_sel [of "MLACP (csm_of t d)"] sync_part_sel [of "MLACP (csm_of s d)"]
  by (simp_all add: same_sync_def)

lemma same_sync_heap: "sys_csm_heap t = sys_csm_heap s \<Longrightarrow> env_malloc t = env_malloc s \<Longrightarrow> same_sync s t"
  by (simp add: same_sync_def)

lemma same_sync_refl [simp]: "same_sync s s"
  by (simp add: same_sync_def)

lemma same_sync_trans: "same_sync s t \<Longrightarrow> same_sync t u \<Longrightarrow> same_sync s u"
  by (simp add: same_sync_def)

lemma iccp_csm_send_malloc: "env_malloc (snd (iccp_csm_send c buf len s)) = env_malloc s"
  by (rule iccp_csm_send_cases [of c buf len s]) (simp_all add: upd_csm_def)

lemma same_sync_send: "same_sync s (snd (iccp_csm_send c buf len s))"
proof -
  have "sync_part (MLACP (csm_of (snd (iccp_csm_send c buf len s)) d)) = sync_part (MLACP (csm_of s d))" for d
  proof -
    obtain k where "MLACP (csm_of (snd (iccp_csm_send c buf len s)) d) = (MLACP (csm_of s d))\<lparr>ml_dbg_counters := k\<rparr>"
      using iccp_csm_send_mlacp by blast
    then show ?thesis by (simp add: sync_part_def)
  qed
  then show ?thesis by (simp add: same_sync_def iccp_csm_send_malloc)
qed

lemma same_sync_kernel [simp]: "same_sync s (snd (kernel r s))"
  by (simp add: same_sync_heap kernel_def)

lemma same_sync_request [simp]: "same_sync s (snd (iccp_netlink_neighbor_request v6 a add m n p s))"
  by (auto simp: iccp_netlink_neighbor_request_def split: option.split)

lemma same_sync_upd_csm:
  "(\<And>m. MLACP (f m) = MLACP m) \<Longrightarrow> same_sync s (upd_csm c f s)"
  by (simp add: same_sync_def upd_csm_def)

lemma same_sync_learn [simp]: "same_sync s (set_peerlink_learn_kernel c b s)"
proof (cases "csm_peer_link_if (csm_of s c)")
  case (Some l)
  obtain ret t where t: "kernel (ShellCmd (''bridge link set dev '' @ lif_name (lif_of s l)
      @ (if b then '' learning on'' else '' learning off''))) s = (ret, t)" by fastforce
  have "same_sync s t" using t by (auto simp: kernel_def intro: same_sync_heap)
  moreover have "same_sync t (set_peerlink_learn_kernel c b s)"
    unfolding set_peerlink_learn_kernel_def Some option.case t Let_def prod.case
    by (rule same_sync_upd_csm) simp
  ultimately show ?thesis by (rule same_sync_trans)
qed (simp add: set_peerlink_learn_kernel_def)

text \<open>Adding an entry to a message changes nothing but the message id.\<close>

lemma add_info_entry_state: "\<exists>k b i. add_info_entry c mx ty e n buf s = (k, b, s\<lparr>sys_ICCP_MSG_ID := i\<rparr>)"
proof (cases "mx < 16 + (6 + length e * (n + 1))")
  case True
  then have "add_info_entry c mx ty e n buf s = (MCLAG_ERROR, buf, s\<lparr>sys_ICCP_MSG_ID := sys_ICCP_MSG_ID s\<rparr>)"
    by (simp add: add_info_entry_def Let_def)
  then show ?thesis by blast
qed (auto simp: add_info_entry_def Let_def mlacp_fill_icc_header_def next_msg_id_def)

lemma same_sync_entry:
  assumes "add_info_entry c mx ty e n buf s = (k, b, t)"
  shows "same_sync s t" "same_sync s (snd (iccp_csm_send d b k t))"
proof -
  show t: "same_sync s t"
    using assms add_info_entry_state [of c mx ty e n buf s] by (auto intro: same_sync_heap)
  show "same_sync s (snd (iccp_csm_send d b k t))"
    by (rule same_sync_trans [OF t same_sync_send])
qed

lemmas prepare_entry_defs = mlacp_prepare_for_mac_info_to_peer_def mlacp_prepare_for_arp_info_def
  mlacp_prepare_for_ndisc_info_def

lemma same_sync_local [simp]:
  "same_sync s (snd (syn_local_mac_info_to_peer c l b1 b2 s))"
  "same_sync s (snd (syn_local_arp_info_to_peer c l b1 b2 s))"
  "same_sync s (snd (syn_local_nd_info_to_peer c l b1 b2 b3 s))"
  unfolding syn_local_mac_info_to_peer_def syn_local_arp_info_to_peer_def syn_local_nd_info_to_peer_def
  by (auto simp: Let_def prepare_entry_defs same_sync_entry split: prod.split)

lemma same_sync_neigh_mac [simp]: "same_sync s (snd (syn_local_neigh_mac_info_to_peer l a v4 v6 m k ll s))"
proof -
  note after = same_sync_trans [OF _ same_sync_local(1)] same_sync_trans [OF _ same_sync_local(2)]
    same_sync_trans [OF _ same_sync_local(3)]
  show ?thesis
    unfolding syn_local_neigh_mac_info_to_peer_def by (simp add: Let_def after split: list.split)
qed

lemma same_sync_ack [simp]: "same_sync s (syn_ack_local_neigh_mac_info_to_peer n ll s)"
  by (auto simp: syn_ack_local_neigh_mac_info_to_peer_def Let_def split: option.split)

lemma same_sync_install:
  assumes "neigh_install v6 addr op flag mac ifname perm ll s = (ok, t)"
  shows "same_sync s t"
proof -
  obtain err u where u: "iccp_netlink_neighbor_request v6 addr (op = NEIGH_SYNC_ADD) mac ifname perm s = (err, u)"
    by fastforce
  have "same_sync s u" using same_sync_request [of s v6 addr "op = NEIGH_SYNC_ADD" mac ifname perm] u by simp
  with assms u same_sync_trans [OF _ same_sync_ack] show ?thesis
    by (auto simp: neigh_install_def Let_def split: if_splits)
qed

section \<open>The lists of known entries\<close>

text \<open>
  ARP and ND entries differ in their address and in how it is compared. Over any address the update
  of the list keeps the addresses distinct, and it behaves like an update of a map from addresses
  to entries.
\<close>

lemma update_first_none: "\<not> list_ex P xs \<Longrightarrow> update_first P f xs = xs"
  by (induction xs) auto

lemma msg_copied_sel [simp]: "sys_csm_heap (snd (msg_copied s)) = sys_csm_heap s"
  by (simp add: msg_copied_def malloc_def Let_def)

definition entry_at :: "('a \<Rightarrow> 'k) \<Rightarrow> 'k \<Rightarrow> 'a list \<Rightarrow> 'a option" where
  "entry_at addr k xs = find (\<lambda>x. addr x = k) xs"

definition entries_ok :: "('a \<Rightarrow> 'k) \<Rightarrow> ('a \<Rightarrow> bool) \<Rightarrow> 'a list \<Rightarrow> bool" where
  "entries_ok addr ok xs \<longleftrightarrow> distinct (map addr xs) \<and> (\<forall>x \<in> set xs. ok x)"

locale neighbour_list =
  fixes addr :: "'a \<Rightarrow> 'k" and ok :: "'a \<Rightarrow> bool" and same :: "'a \<Rightarrow> 'a \<Rightarrow> bool"
    and refresh :: "'a \<Rightarrow> 'a \<Rightarrow> 'a" and new :: "'a \<Rightarrow> 'a"
  assumes same_addr: "ok e \<Longrightarrow> ok x \<Longrightarrow> same e x \<longleftrightarrow> addr x = addr e"
    and addr_refresh: "addr (refresh e x) = addr x"
    and ok_refresh: "ok x \<Longrightarrow> ok (refresh e x)"
    and addr_new: "addr (new e) = addr e"
    and ok_new: "ok e \<Longrightarrow> ok (new e)"
begin

lemma lookup_None: "entry_at addr k xs = None \<longleftrightarrow> k \<notin> addr ` set xs"
  by (auto simp: entry_at_def find_None_iff)

lemma lookup_append: "entry_at addr k (xs @ ys) = (case entry_at addr k xs of None \<Rightarrow> entry_at addr k ys | Some x \<Rightarrow> Some x)"
  by (induction xs) (auto simp: entry_at_def)

lemma same_list_ex: "entries_ok addr ok xs \<Longrightarrow> ok e \<Longrightarrow> list_ex (same e) xs \<longleftrightarrow> entry_at addr (addr e) xs \<noteq> None"
  unfolding lookup_None by (auto simp: list_ex_iff entries_ok_def same_addr intro: rev_image_eqI)

lemma lookup_single: "entry_at addr k [x] = (if addr x = k then Some x else None)"
  by (simp add: entry_at_def)

lemma refreshed:
  assumes "entries_ok addr ok xs" "ok e"
  shows "entries_ok addr ok (update_first (same e) (refresh e) xs) \<and>
    (\<forall>k. entry_at addr k (update_first (same e) (refresh e) xs) =
      (if k = addr e then map_option (refresh e) (entry_at addr k xs) else entry_at addr k xs))"
  using assms
proof (induction xs)
  case (Cons x xs)
  have "set (map addr (update_first (same e) (refresh e) xs)) = set (map addr xs)"
    by (induction xs) (auto simp: addr_refresh)
  with Cons show ?case
    by (auto simp: entries_ok_def entry_at_def same_addr addr_refresh ok_refresh)
qed (simp add: entries_ok_def entry_at_def)

lemma find_same: "entries_ok addr ok xs \<Longrightarrow> ok e \<Longrightarrow> find (same e) xs = entry_at addr (addr e) xs"
  unfolding entry_at_def by (rule find_cong) (auto simp: entries_ok_def same_addr)

lemma lookup_remove1:
  assumes "entries_ok addr ok xs" "entry_at addr k xs = Some x"
  shows "entries_ok addr ok (remove1 x xs) \<and> (\<forall>j. entry_at addr j (remove1 x xs) = (if j = k then None else entry_at addr j xs))"
  using assms
proof (induction xs)
  case (Cons y ys)
  show ?case
  proof (cases "addr y = k")
    case True
    then have "k \<notin> addr ` set ys" using Cons.prems(1) by (simp add: entries_ok_def)
    then have "entry_at addr k ys = None" by (simp add: lookup_None)
    with True Cons.prems show ?thesis by (auto simp: entries_ok_def entry_at_def)
  next
    case False
    then have x: "entry_at addr k ys = Some x" using Cons.prems(2) by (simp add: entry_at_def)
    then have "x \<in> set ys" using find_SomeD unfolding entry_at_def by fastforce
    then have "x \<noteq> y" using Cons.prems(1) by (auto simp: entries_ok_def)
    moreover have "addr y \<notin> addr ` set (remove1 x ys)"
      using Cons.prems(1) set_remove1_subset [of x ys] by (auto simp: entries_ok_def)
    ultimately show ?thesis
      using Cons.IH [OF _ x] Cons.prems(1) False by (auto simp: entries_ok_def entry_at_def)
  qed
qed (simp add: entry_at_def)

lemma learn:
  assumes "entries_ok addr ok xs" "ok e" "neigh_learn (same e) (refresh e) (new e) op xs s = (ys, t)"
  shows "entries_ok addr ok ys" "k \<noteq> addr e \<Longrightarrow> entry_at addr k ys = entry_at addr k xs"
    "op = NEIGH_SYNC_DEL \<Longrightarrow> entry_at addr (addr e) ys = None"
    "op = NEIGH_SYNC_ADD \<Longrightarrow> fst (msg_copied s) \<Longrightarrow> entry_at addr (addr e) ys =
      Some (case entry_at addr (addr e) xs of None \<Rightarrow> new e | Some x \<Rightarrow> refresh e x)"
proof -
  have ops: "NEIGH_SYNC_ADD \<noteq> NEIGH_SYNC_DEL" by (simp add: const_defs)
  let ?us = "update_first (same e) (refresh e) xs"
  have us: "entries_ok addr ok ?us" "entry_at addr j ?us = (if j = addr e then map_option (refresh e) (entry_at addr j xs) else entry_at addr j xs)" for j
    using refreshed [OF assms(1,2)] by auto
  have "entries_ok addr ok ys \<and> (k \<noteq> addr e \<longrightarrow> entry_at addr k ys = entry_at addr k xs) \<and>
    (op = NEIGH_SYNC_DEL \<longrightarrow> entry_at addr (addr e) ys = None) \<and>
    (op = NEIGH_SYNC_ADD \<longrightarrow> fst (msg_copied s) \<longrightarrow> entry_at addr (addr e) ys =
      Some (case entry_at addr (addr e) xs of None \<Rightarrow> new e | Some x \<Rightarrow> refresh e x))"
  proof (cases "entry_at addr (addr e) xs")
    case None
    then have "\<not> list_ex (same e) xs" using same_list_ex [OF assms(1,2)] by simp
    then have ys: "ys = (if op = NEIGH_SYNC_ADD \<and> fst (msg_copied s) then xs @ [new e] else xs)"
      using assms(3) by (auto simp: neigh_learn_def Let_def update_first_none split: prod.splits if_splits)
    have "entries_ok addr ok (xs @ [new e])"
      using assms(1,2) None [unfolded lookup_None] by (auto simp: entries_ok_def addr_new ok_new)
    then show ?thesis
      using ys None assms(1) ops by (auto simp: lookup_append lookup_single addr_new split: option.split)
  next
    case (Some x)
    then have "list_ex (same e) xs" using same_list_ex [OF assms(1,2)] by simp
    moreover have fnd: "find (same e) ?us = Some (refresh e x)"
      using find_same [OF us(1) assms(2)] us(2) [of "addr e"] Some by simp
    ultimately have ys: "ys = (if op = NEIGH_SYNC_DEL then remove1 (refresh e x) ?us else ?us)"
      using assms(3) by (auto simp: neigh_learn_def Let_def split: if_splits)
    have "entry_at addr (addr e) ?us = Some (refresh e x)" using us(2) Some by simp
    from lookup_remove1 [OF us(1) this] show ?thesis
      using ys us Some ops by auto
  qed
  then show "entries_ok addr ok ys" "k \<noteq> addr e \<Longrightarrow> entry_at addr k ys = entry_at addr k xs"
    "op = NEIGH_SYNC_DEL \<Longrightarrow> entry_at addr (addr e) ys = None"
    "op = NEIGH_SYNC_ADD \<Longrightarrow> fst (msg_copied s) \<Longrightarrow> entry_at addr (addr e) ys =
      Some (case entry_at addr (addr e) xs of None \<Rightarrow> new e | Some x \<Rightarrow> refresh e x)"
    by simp_all
qed

end


interpretation arp_table: neighbour_list arp_ipv4_addr "\<lambda>_. True"
  "\<lambda>e a. arp_ipv4_addr a = arp_ipv4_addr e"
  "\<lambda>e a. a\<lparr>arp_ifname := name, arp_mac_addr := arp_mac_addr e\<rparr>"
  "\<lambda>e. e\<lparr>arp_flag := 0, arp_learn_flag := NEIGH_REMOTE, arp_ifname := name\<rparr>" for name
  by unfold_locales simp_all

interpretation ndisc_table: neighbour_list nd_ipv6_addr "\<lambda>n. length (nd_ipv6_addr n) = 16"
  "\<lambda>e n. memcmp (nd_ipv6_addr n) (nd_ipv6_addr e) = 0"
  "\<lambda>e n. n\<lparr>nd_ifname := name, nd_mac_addr := nd_mac_addr e\<rparr>"
  "\<lambda>e. e\<lparr>nd_flag := 0, nd_learn_flag := NEIGH_REMOTE, nd_ifname := name\<rparr>" for name
  by unfold_locales (simp_all add: memcmp_eq_0)

section \<open>A concrete node\<close>

text \<open>A node with a routed port channel \<open>Po1\<close> that is up, and an entry the peer reports on it.\<close>

definition a_router :: System where
  "a_router = (a_host (\<lambda>_. SendErr))\<lparr>sys_csm_list := [0], sys_lif_list := [0],
     sys_lif_heap := (\<lambda>_. zero_LocalInterface\<lparr>lif_type := IF_T_PORT_CHANNEL, lif_name := ''Po1'',
       lif_ifindex := 7, lif_ipv4_addr := 0x0100000A, lif_po_active := 1\<rparr>),
     sys_csm_heap := (\<lambda>_. upd_mlacp (\<lambda>m. m\<lparr>ml_current_state := MLACP_STATE_EXCHANGE, ml_lif_list := [0]\<rparr>)
       zero_CSM)\<rparr>"

definition an_arp_entry :: ARPMsg where
  "an_arp_entry = \<lparr>arp_op_type = NEIGH_SYNC_ADD, arp_flag = 0, arp_learn_flag = 0,
     arp_ifname = c_array MAX_L_PORT_NAME ''Po1'', arp_ipv4_addr = 0x0200000A,
     arp_mac_addr = [0, 1, 2, 3, 4, 5]\<rparr>"

definition a_nd_entry :: NDISCMsg where
  "a_nd_entry = \<lparr>nd_op_type = NEIGH_SYNC_ADD, nd_flag = 0, nd_learn_flag = NEIGH_REMOTE,
     nd_ifname = c_array MAX_L_PORT_NAME ''Po1'', nd_ipv6_addr = replicate 15 0 @ [1],
     nd_mac_addr = [0, 1, 2, 3, 4, 5]\<rparr>"

definition an_arp_info :: bytes where
  "an_arp_info = ser_mLACPARPInfoTLV \<lparr>ai_icc_parameter = icc_param TLV_T_MLACP_ARP_INFO 38,
     ai_num_of_entry = htons 1\<rparr> @ ser_ARPMsg an_arp_entry"

section \<open>Properties\<close>

definition known_ok :: "csm_ptr \<Rightarrow> System \<Rightarrow> bool" where
  "known_ok c s \<longleftrightarrow> entries_ok arp_ipv4_addr (\<lambda>_. True) (ml_arp_list (MLACP (csm_of s c))) \<and>
     entries_ok nd_ipv6_addr (\<lambda>n. length (nd_ipv6_addr n) = 16) (ml_ndisc_list (MLACP (csm_of s c)))"

lemma known_ok_sync: "same_sync s t \<Longrightarrow> known_ok c t = known_ok c s"
  by (simp add: known_ok_def same_syncD)

lemma neigh_learn_state:
  assumes "neigh_learn same refresh new op xs s = (ys, t)"
  shows "sys_csm_heap t = sys_csm_heap s \<and> env_malloc t = env_malloc s"
proof -
  have "t = s \<or> t = snd (msg_copied s)"
    using assms by (auto simp: neigh_learn_def Let_def split: if_splits option.splits prod.splits)
  moreover have "env_malloc (snd (msg_copied s)) = env_malloc s"
    by (simp add: msg_copied_def malloc_def Let_def)
  ultimately show ?thesis using msg_copied_sel [of s] by auto
qed

lemma known_ok_arp_learn:
  assumes "known_ok d s"
  shows "known_ok d (arp_learn c e n s)"
proof -
  obtain as t where as: "neigh_learn (\<lambda>a. arp_ipv4_addr a = arp_ipv4_addr e)
      (\<lambda>a. a\<lparr>arp_ifname := c_array MAX_L_PORT_NAME n, arp_mac_addr := arp_mac_addr e\<rparr>)
      (e\<lparr>arp_flag := 0, arp_learn_flag := NEIGH_REMOTE, arp_ifname := c_array MAX_L_PORT_NAME n\<rparr>)
      (arp_op_type e) (ml_arp_list (MLACP (csm_of s c))) s = (as, t)" by fastforce
  have "sys_csm_heap t = sys_csm_heap s"
    using neigh_learn_state [OF as] by simp
  with arp_table.learn(1) [OF _ _ as] assms show ?thesis
    by (cases "d = c") (simp_all add: arp_learn_def as known_ok_def)
qed

lemma known_ok_ndisc_learn:
  assumes "known_ok d s" "length (nd_ipv6_addr e) = 16"
  shows "known_ok d (ndisc_learn c e n s)"
proof -
  obtain ns t where ns: "neigh_learn (\<lambda>n. memcmp (nd_ipv6_addr n) (nd_ipv6_addr e) = 0)
      (\<lambda>x. x\<lparr>nd_ifname := c_array MAX_L_PORT_NAME n, nd_mac_addr := nd_mac_addr e\<rparr>)
      (e\<lparr>nd_flag := 0, nd_learn_flag := NEIGH_REMOTE, nd_ifname := c_array MAX_L_PORT_NAME n\<rparr>)
      (nd_op_type e) (ml_ndisc_list (MLACP (csm_of s c))) s = (ns, t)" by fastforce
  have "sys_csm_heap t = sys_csm_heap s"
    using neigh_learn_state [OF ns] by simp
  with ndisc_table.learn(1) [OF _ _ ns] assms show ?thesis
    by (cases "d = c") (simp_all add: ndisc_learn_def ns known_ok_def)
qed

lemma known_ok_arp_entry:
  assumes "known_ok d s" "mlacp_fsm_update_arp_entry c e s = Some (rc, t)"
  shows "known_ok d t"
  using assms known_ok_arp_learn same_sync_install [THEN known_ok_sync, of _ _ _ _ _ _ _ _ s]
  by (auto simp: mlacp_fsm_update_arp_entry_def Let_def split: option.splits neigh_verdict.splits prod.splits if_splits)

lemma known_ok_ndisc_entry:
  assumes "known_ok d s" "length (nd_ipv6_addr e) = 16" "mlacp_fsm_update_ndisc_entry c e s = Some (rc, t)"
  shows "known_ok d t"
  using assms known_ok_ndisc_learn same_sync_install [THEN known_ok_sync, of _ _ _ _ _ _ _ _ s]
  by (auto simp: mlacp_fsm_update_ndisc_entry_def Let_def split: option.splits neigh_verdict.splits prod.splits if_splits)

lemma known_ok_arp_entries: "known_ok d s \<Longrightarrow> update_arp_entries c n bs s = Some t \<Longrightarrow> known_ok d t"
proof (induction n arbitrary: bs s)
  case (Suc n)
  then obtain e r rc u where "mlacp_fsm_update_arp_entry c e s = Some (rc, u)" "update_arp_entries c n r u = Some t"
    by (auto split: option.splits prod.splits)
  with Suc known_ok_arp_entry show ?case by blast
qed simp

lemma de_NDISCMsg_length: "de_NDISCMsg bs = Some (e, r) \<Longrightarrow> length (nd_ipv6_addr e) = 16"
  by (auto simp: de_NDISCMsg_def de_bytes_def bind_eq_Some_conv split: prod.splits if_splits)

lemma known_ok_ndisc_entries: "known_ok d s \<Longrightarrow> update_ndisc_entries c n bs s = Some t \<Longrightarrow> known_ok d t"
proof (induction n arbitrary: bs s)
  case (Suc n)
  then obtain e r rc u where "de_NDISCMsg bs = Some (e, r)" "mlacp_fsm_update_ndisc_entry c e s = Some (rc, u)"
      "update_ndisc_entries c n r u = Some t"
    by (auto split: option.splits prod.splits)
  with Suc known_ok_ndisc_entry de_NDISCMsg_length show ?case by blast
qed simp

lemma known_ok_arp_info: "known_ok d s \<Longrightarrow> mlacp_fsm_update_arp_info c tlv s = Some t \<Longrightarrow> known_ok d t"
  by (auto simp: mlacp_fsm_update_arp_info_def known_ok_arp_entries split: option.splits)

lemma known_ok_ndisc_info: "known_ok d s \<Longrightarrow> mlacp_fsm_update_ndisc_info c tlv s = Some t \<Longrightarrow> known_ok d t"
  by (auto simp: mlacp_fsm_update_ndisc_info_def known_ok_ndisc_entries split: option.splits)

lemma arp_learn_sel:
  assumes "entries_ok arp_ipv4_addr (\<lambda>_. True) (ml_arp_list (MLACP (csm_of s c)))" "t = arp_learn c e n s"
  shows "k \<noteq> arp_ipv4_addr e \<Longrightarrow> entry_at arp_ipv4_addr k (ml_arp_list (MLACP (csm_of t c))) =
      entry_at arp_ipv4_addr k (ml_arp_list (MLACP (csm_of s c)))"
    "arp_op_type e = NEIGH_SYNC_DEL \<Longrightarrow>
      entry_at arp_ipv4_addr (arp_ipv4_addr e) (ml_arp_list (MLACP (csm_of t c))) = None"
    "arp_op_type e = NEIGH_SYNC_ADD \<Longrightarrow> \<forall>i. env_malloc s i \<Longrightarrow>
      \<exists>a. entry_at arp_ipv4_addr (arp_ipv4_addr e) (ml_arp_list (MLACP (csm_of t c))) = Some a \<and>
        arp_ifname a = c_array MAX_L_PORT_NAME n \<and> arp_mac_addr a = arp_mac_addr e"
    "entry_at arp_ipv4_addr (arp_ipv4_addr e) (ml_arp_msg_list (MLACP (csm_of t c))) = None"
proof -
  obtain as u where as: "neigh_learn (\<lambda>a. arp_ipv4_addr a = arp_ipv4_addr e)
      (\<lambda>a. a\<lparr>arp_ifname := c_array MAX_L_PORT_NAME n, arp_mac_addr := arp_mac_addr e\<rparr>)
      (e\<lparr>arp_flag := 0, arp_learn_flag := NEIGH_REMOTE, arp_ifname := c_array MAX_L_PORT_NAME n\<rparr>)
      (arp_op_type e) (ml_arp_list (MLACP (csm_of s c))) s = (as, u)" by fastforce
  have t: "ml_arp_list (MLACP (csm_of t c)) = as"
    "ml_arp_msg_list (MLACP (csm_of t c)) =
      filter (\<lambda>a. arp_ipv4_addr a \<noteq> arp_ipv4_addr e) (ml_arp_msg_list (MLACP (csm_of u c)))"
    using assms(2) as by (simp_all add: arp_learn_def upd_ml_def upd_csm_def upd_mlacp_def upd_app_def)
  note learned = arp_table.learn [OF assms(1) _ as]
  show "k \<noteq> arp_ipv4_addr e \<Longrightarrow> entry_at arp_ipv4_addr k (ml_arp_list (MLACP (csm_of t c))) =
      entry_at arp_ipv4_addr k (ml_arp_list (MLACP (csm_of s c)))"
    "arp_op_type e = NEIGH_SYNC_DEL \<Longrightarrow>
      entry_at arp_ipv4_addr (arp_ipv4_addr e) (ml_arp_list (MLACP (csm_of t c))) = None"
    using learned(2,3) by (simp_all add: t)
  show "entry_at arp_ipv4_addr (arp_ipv4_addr e) (ml_arp_msg_list (MLACP (csm_of t c))) = None"
    by (auto simp: t entry_at_def find_None_iff)
  assume "arp_op_type e = NEIGH_SYNC_ADD" "\<forall>i. env_malloc s i"
  then have "entry_at arp_ipv4_addr (arp_ipv4_addr e) as =
      Some (case entry_at arp_ipv4_addr (arp_ipv4_addr e) (ml_arp_list (MLACP (csm_of s c))) of
        None \<Rightarrow> e\<lparr>arp_flag := 0, arp_learn_flag := NEIGH_REMOTE, arp_ifname := c_array MAX_L_PORT_NAME n\<rparr>
      | Some x \<Rightarrow> x\<lparr>arp_ifname := c_array MAX_L_PORT_NAME n, arp_mac_addr := arp_mac_addr e\<rparr>)"
    using learned(4) by (simp add: msg_copied_def malloc_def Let_def)
  then show "\<exists>a. entry_at arp_ipv4_addr (arp_ipv4_addr e) (ml_arp_list (MLACP (csm_of t c))) = Some a \<and>
        arp_ifname a = c_array MAX_L_PORT_NAME n \<and> arp_mac_addr a = arp_mac_addr e"
    by (auto simp: t split: option.split)
qed

text \<open>
  C22. An ARP entry of the peer that is accepted and is not about an address of this node: an
  addition is found afterwards under its address, with the interface and the hardware address of the
  message, a deletion is not; every other address is found as before; and nothing about the address
  is left in the queue for the peer, so the two nodes do not answer each other.
\<close>

theorem mlacp_fsm_update_arp_entry_learned:
  assumes "distinct (map arp_ipv4_addr (ml_arp_list (MLACP (csm_of s c))))"
    "c_string (arp_ifname e) = Some name"
    "neigh_verdict_of (\<lambda>l. arp_ipv4_addr e = lif_ipv4_addr l) (\<lambda>l. arp_ipv4_addr e = lif_ipv4_addr l) name c s
      \<noteq> NeighIgnore"
    "mlacp_fsm_update_arp_entry c e s = Some (0, t)"
  shows "(\<forall>k. k \<noteq> arp_ipv4_addr e \<longrightarrow> entry_at arp_ipv4_addr k (ml_arp_list (MLACP (csm_of t c))) =
      entry_at arp_ipv4_addr k (ml_arp_list (MLACP (csm_of s c)))) \<and>
    (arp_op_type e = NEIGH_SYNC_DEL \<longrightarrow>
      entry_at arp_ipv4_addr (arp_ipv4_addr e) (ml_arp_list (MLACP (csm_of t c))) = None) \<and>
    (arp_op_type e = NEIGH_SYNC_ADD \<longrightarrow> (\<forall>i. env_malloc s i) \<longrightarrow>
      (\<exists>a. entry_at arp_ipv4_addr (arp_ipv4_addr e) (ml_arp_list (MLACP (csm_of t c))) = Some a \<and>
        arp_ifname a = c_array MAX_L_PORT_NAME name \<and> arp_mac_addr a = arp_mac_addr e)) \<and>
    entry_at arp_ipv4_addr (arp_ipv4_addr e) (ml_arp_msg_list (MLACP (csm_of t c))) = None"
proof -
  let ?v = "neigh_verdict_of (\<lambda>l. arp_ipv4_addr e = lif_ipv4_addr l)
      (\<lambda>l. arp_ipv4_addr e = lif_ipv4_addr l) name c s"
  obtain ok u' where install: "neigh_install False (le32 (arp_ipv4_addr e)) (arp_op_type e) (arp_flag e)
      (arp_mac_addr e) name (arp_flag e AND NEIGH_SYNC_FLAG_SELF_IP \<noteq> 0) False s = (ok, u')" by fastforce
  define u where "u = (if ?v = NeighInstall then u' else s)"
  have "same_sync s u" using same_sync_install [OF install] by (simp add: u_def)
  moreover have "t = arp_learn c e name u"
    using assms(2-4) by (cases ?v) (auto simp: mlacp_fsm_update_arp_entry_def Let_def MCLAG_ERROR_def install u_def
        split: if_splits)
  ultimately have u: "same_sync s u" "t = arp_learn c e name u" .
  have "entries_ok arp_ipv4_addr (\<lambda>_. True) (ml_arp_list (MLACP (csm_of u c)))"
    using assms(1) same_syncD(1) [OF u(1)] by (simp add: entries_ok_def)
  from arp_learn_sel [OF this u(2)] same_syncD(1,6) [OF u(1)] show ?thesis by simp
qed

theorem mlacp_fsm_update_arp_entry_learned_witness:
  "\<exists>t. mlacp_fsm_update_arp_entry 0 an_arp_entry a_router = Some (0, t) \<and>
     entry_at arp_ipv4_addr 0x0200000A (ml_arp_msg_list (MLACP (csm_of t 0))) = None \<and>
     (\<exists>a. entry_at arp_ipv4_addr 0x0200000A (ml_arp_list (MLACP (csm_of t 0))) = Some a \<and>
       arp_mac_addr a = [0, 1, 2, 3, 4, 5])"
proof -
  have r: "map_option fst (mlacp_fsm_update_arp_entry 0 an_arp_entry a_router) = Some 0"
    "ml_arp_list (MLACP (csm_of a_router 0)) = []" "c_string (arp_ifname an_arp_entry) = Some ''Po1''"
    "neigh_verdict_of (\<lambda>l. arp_ipv4_addr an_arp_entry = lif_ipv4_addr l)
      (\<lambda>l. arp_ipv4_addr an_arp_entry = lif_ipv4_addr l) ''Po1'' 0 a_router = NeighInstall"
    "arp_ipv4_addr an_arp_entry = 0x0200000A" "arp_op_type an_arp_entry = NEIGH_SYNC_ADD"
    "arp_mac_addr an_arp_entry = [0, 1, 2, 3, 4, 5]"
    by code_simp+
  then obtain t where t: "mlacp_fsm_update_arp_entry 0 an_arp_entry a_router = Some (0, t)"
    by auto
  have "env_malloc a_router i" for i
    by (simp add: a_router_def a_host_def)
  then have "entry_at arp_ipv4_addr 0x0200000A (ml_arp_msg_list (MLACP (csm_of t 0))) = None \<and>
     (\<exists>a. entry_at arp_ipv4_addr 0x0200000A (ml_arp_list (MLACP (csm_of t 0))) = Some a \<and>
       arp_mac_addr a = [0, 1, 2, 3, 4, 5])"
    using mlacp_fsm_update_arp_entry_learned [OF _ r(3) _ t] r(2,4-7) by auto
  with t show ?thesis by blast
qed

lemma kernel_requests:
  assumes "local_if_find_by_name (lif_name (lif_of s l)) s = Some l"
  shows "kernel_log (foldl (\<lambda>s x. if P x \<and> Q (lif_name (lif_of s l)) x
      then snd (iccp_netlink_neighbor_request v6 (adr x) add (mc x) (lif_name (lif_of s l)) False s) else s) s xs) =
    kernel_log s @ map (\<lambda>x. (if add then NeighAdd else NeighDel) v6 (adr x) (mc x) (lif_ifindex (lif_of s l)) False)
      (filter (\<lambda>x. P x \<and> Q (lif_name (lif_of s l)) x) xs)"
  using assms
proof (induction xs arbitrary: s)
  case (Cons x xs)
  let ?t = "if P x \<and> Q (lif_name (lif_of s l)) x
      then snd (iccp_netlink_neighbor_request v6 (adr x) add (mc x) (lif_name (lif_of s l)) False s) else s"
  have "sys_lif_heap ?t = sys_lif_heap s" "sys_lif_list ?t = sys_lif_list s"
    using Cons.prems by (simp_all add: iccp_netlink_neighbor_request_def kernel_def)
  then have "local_if_find_by_name (lif_name (lif_of ?t l)) ?t = Some l" "sys_lif_heap ?t = sys_lif_heap s"
    using Cons.prems by (simp_all add: local_if_find_by_name_def)
  with Cons show ?case
    by (simp add: iccp_netlink_neighbor_request_def) (simp add: kernel_def)
qed simp

text \<open>
  What the withdrawal of the neighbours of a port asks of the kernel: the ARP entries are deleted, the
  ND entries are added.
\<close>

lemma set_handlers_log:
  assumes "local_if_find_by_name (lif_name (lif_of s l)) s = Some l"
  shows "kernel_log (arp_set_handler c l False s) = kernel_log s @
      map (\<lambda>a. NeighDel False (le32 (arp_ipv4_addr a)) (arp_mac_addr a) (lif_ifindex (lif_of s l)) False)
        (filter (\<lambda>a. arp_op_type a \<noteq> NEIGH_SYNC_DEL \<and> named (lif_name (lif_of s l)) (arp_ifname a))
          (ml_arp_list (MLACP (csm_of s c))))"
    "kernel_log (ndisc_set_handler c l False s) = kernel_log s @
      map (\<lambda>n. NeighAdd True (nd_ipv6_addr n) (nd_mac_addr n) (lif_ifindex (lif_of s l)) False)
        (filter (\<lambda>n. nd_op_type n \<noteq> NEIGH_SYNC_DEL \<and> named (lif_name (lif_of s l)) (nd_ifname n))
          (ml_ndisc_list (MLACP (csm_of s c))))"
  using kernel_requests [OF assms, of "\<lambda>a. arp_op_type a \<noteq> NEIGH_SYNC_DEL" "\<lambda>n a. named n (arp_ifname a)" False
      "\<lambda>a. le32 (arp_ipv4_addr a)" False arp_mac_addr "ml_arp_list (MLACP (csm_of s c))"]
    kernel_requests [OF assms, of "\<lambda>a. nd_op_type a \<noteq> NEIGH_SYNC_DEL" "\<lambda>n a. named n (nd_ifname a)" True
      nd_ipv6_addr True nd_mac_addr "ml_ndisc_list (MLACP (csm_of s c))"]
  by (simp_all add: arp_set_handler_def ndisc_set_handler_def)

lemma neighbor_request_frame:
  "sys_csm_heap (snd (iccp_netlink_neighbor_request v a b m n p s)) = sys_csm_heap s"
  "sys_lif_heap (snd (iccp_netlink_neighbor_request v a b m n p s)) = sys_lif_heap s"
  "sys_lif_list (snd (iccp_netlink_neighbor_request v a b m n p s)) = sys_lif_list s"
  by (simp_all add: iccp_netlink_neighbor_request_def kernel_def split: option.split)

lemma arp_set_handler_frame:
  "sys_csm_heap (arp_set_handler c l b s) = sys_csm_heap s \<and> sys_lif_heap (arp_set_handler c l b s) = sys_lif_heap s \<and>
   sys_lif_list (arp_set_handler c l b s) = sys_lif_list s"
proof -
  let ?I = "\<lambda>t. sys_csm_heap t = sys_csm_heap s \<and> sys_lif_heap t = sys_lif_heap s \<and> sys_lif_list t = sys_lif_list s"
  have "?I (foldl (\<lambda>s a. if arp_op_type a \<noteq> NEIGH_SYNC_DEL \<and> named (lif_name (lif_of s l)) (arp_ifname a)
      then snd (iccp_netlink_neighbor_request False (le32 (arp_ipv4_addr a)) b (arp_mac_addr a) (lif_name (lif_of s l)) False s)
      else s) s as)" for as
    by (rule foldl_invariant [where P = ?I]) (auto simp: neighbor_request_frame)
  note kept = this [of "ml_arp_list (MLACP (csm_of s c))"]
  show ?thesis
  proof (cases "b \<and> ml_current_state (MLACP (csm_of s c)) \<noteq> MLACP_STATE_EXCHANGE")
    case True
    show ?thesis unfolding arp_set_handler_def if_P [OF True] by simp
  next
    case False
    show ?thesis unfolding arp_set_handler_def if_not_P [OF False] by (rule kept)
  qed
qed

end
