(* ===== verification/Port_State.thy ===== *)
theory Port_State
  imports Neighbour
begin

text \<open>
  What a change of an MCLAG port channel, here or on the peer, does to forwarding: the port isolation
  between the peer link and the port channel (in the hardware through mclagsyncd, in the kernel
  through \<open>ebtables\<close>), the neighbours of its routed interfaces, and the bookkeeping of the port
  (\<open>mlacp_link_handler.c\<close>).

  The list of the isolated ports is printed into a buffer of 512 bytes. A print behind the end of
  the buffer, and a copy of more than the buffer, have no defined result.
\<close>

section \<open>Port isolation\<close>

definition MLAG_PO_BUF_SIZE :: nat where "MLAG_PO_BUF_SIZE = 512"

text \<open>
  \<open>dst_len += snprintf(mlag_po_buf + dst_len, sizeof(mlag_po_buf) - dst_len, ...)\<close>: the size is
  unsigned, so it is huge once \<open>dst_len\<close> exceeds the buffer. What was printed so far, and \<open>dst_len\<close>.
\<close>

definition po_buf_print :: "string \<Rightarrow> string \<times> nat \<Rightarrow> (string \<times> nat) option" where
  "po_buf_print txt st =
     (if MLAG_PO_BUF_SIZE < snd st then None
      else Some (fst st @ take (MLAG_PO_BUF_SIZE - 1 - snd st) txt, snd st + length txt))"

definition po_text :: "LocalInterface \<Rightarrow> string" where
  "po_text lif = lif_name lif @ (if lif_portchannel_member_buf lif = [] then [] else '','')
     @ lif_portchannel_member_buf lif"

definition po_buf_add :: "LocalInterface \<Rightarrow> string \<times> nat \<Rightarrow> (string \<times> nat) option" where
  "po_buf_add lif st = do {
     st1 \<leftarrow> (if fst st \<noteq> [] then po_buf_print '','' st else Some st);
     po_buf_print (po_text lif) st1 }"

fun fold_opt :: "('a \<Rightarrow> 's \<Rightarrow> 's option) \<Rightarrow> 'a list \<Rightarrow> 's \<Rightarrow> 's option" where
  "fold_opt f [] s = Some s"
| "fold_opt f (x # xs) s = (case f x s of None \<Rightarrow> None | Some t \<Rightarrow> fold_opt f xs t)"

definition isolated_ports :: "csm_ptr \<Rightarrow> System \<Rightarrow> LocalInterface list" where
  "isolated_ports c s = filter (\<lambda>lif. lif_type lif = IF_T_PORT_CHANNEL \<and> lif_isolate_to_peer_link lif = 1)
     (map (lif_of s) (ml_lif_list (MLACP (csm_of s c))))"

text \<open>The bytes \<open>memcpy\<close> takes from the buffer, which is zero behind what was printed.\<close>

definition po_buf_bytes :: "string \<times> nat \<Rightarrow> bytes option" where
  "po_buf_bytes st = (if MLAG_PO_BUF_SIZE < snd st then None
                      else Some (buf_take (snd st) (c_chars (fst st))))"

definition update_peerlink_isolate_from_all_csm_lif :: "csm_ptr \<Rightarrow> System \<Rightarrow> System option" where
  "update_peerlink_isolate_from_all_csm_lif c s =
     (case csm_peer_link_if (csm_of s c) of None \<Rightarrow> Some s
      | Some l \<Rightarrow>
          if lif_type (lif_of s l) = IF_T_VXLAN then Some s
          else do {
            st \<leftarrow> fold_opt po_buf_add (isolated_ports c s) ([], 0);
            dst \<leftarrow> po_buf_bytes st;
            let ty = MCLAG_MSG_TYPE_PORT_ISOLATE;
            let msg = syncd_msg ty [(MCLAG_SUB_OPTION_TYPE_ISOLATE_SRC, c_chars (lif_name (lif_of s l))),
                                    (MCLAG_SUB_OPTION_TYPE_ISOLATE_DST, dst)];
            if sys_sync_fd s \<noteq> 0 then
              (let (rc, s') = sync_fd_write msg s
               in Some (SYSTEM_SET_SYNCD_TX_DBG_COUNTER ty
                    (if rc \<le> 0 \<or> rc \<noteq> int (length msg) then STS_ERR else STS_OK) s'))
            else Some s })"

definition set_peerlink_mlag_port_kernel_forward :: "csm_ptr \<Rightarrow> lif_ptr \<Rightarrow> bool \<Rightarrow> System \<Rightarrow> System" where
  "set_peerlink_mlag_port_kernel_forward c l enable s =
     (case csm_peer_link_if (csm_of s c) of None \<Rightarrow> s
      | Some q \<Rightarrow>
          let cmd = (\<lambda>op. ShellCmd (''ebtables '' @ op @ '' FORWARD -i '' @ lif_name (lif_of s q) @ '' -o ''
                       @ lif_name (lif_of s l) @ '' -j DROP''));
              s1 = snd (kernel (cmd ''-D'') s)
          in snd (kernel (cmd (if enable then ''-I'' else ''-D'')) s1))"

definition set_peerlink_mlag_port_isolate ::
  "csm_ptr \<Rightarrow> lif_ptr \<Rightarrow> bool \<Rightarrow> bool \<Rightarrow> System \<Rightarrow> System option" where
  "set_peerlink_mlag_port_isolate c l enable is_unbind_pending s =
     (let s1 = upd_lif l (\<lambda>i. i\<lparr>lif_isolate_to_peer_link := (if enable then 1 else 0)\<rparr>) s
      in if csm_peer_link_if (csm_of s1 c) = None
            \<or> ml_current_state (MLACP (csm_of s1 c)) \<noteq> MLACP_STATE_EXCHANGE then Some s1
         else do {
           s2 \<leftarrow> update_peerlink_isolate_from_all_csm_lif c s1;
           let s3 = set_peerlink_mlag_port_kernel_forward c l enable s2;
           Some (if is_unbind_pending then s3
                 else snd (mlacp_link_set_peerlink_port_isolation (csm_mlag_id (csm_of s3 c))
                        (lif_name (lif_of s3 l)) enable s3)) })"

definition peerlink_port_isolate_cleanup :: "csm_ptr \<Rightarrow> System \<Rightarrow> System option" where
  "peerlink_port_isolate_cleanup c s =
     fold_opt (\<lambda>l s. if lif_type (lif_of s l) = IF_T_PORT_CHANNEL
                     then set_peerlink_mlag_port_isolate c l False False s else Some s)
       (ml_lif_list (MLACP (csm_of s c))) s"

definition update_peerlink_isolate_from_pif ::
  "csm_ptr \<Rightarrow> PeerInterface \<Rightarrow> bool \<Rightarrow> bool \<Rightarrow> System \<Rightarrow> System option" where
  "update_peerlink_isolate_from_pif c pif po_state new_create s =
     (if csm_peer_link_if (csm_of s c) = None
         \<or> \<not> new_create \<and> (if po_state then 1 else 0) = pif_po_active pif
         \<or> ml_current_state (MLACP (csm_of s c)) \<noteq> MLACP_STATE_EXCHANGE then Some s
      else case find (\<lambda>l. lif_name (lif_of s l) = pif_name pif) (ml_lif_list (MLACP (csm_of s c))) of
        None \<Rightarrow> Some s
      | Some l \<Rightarrow> if lif_po_active (lif_of s l) = 1
                  then set_peerlink_mlag_port_isolate c l po_state False s else Some s)"

definition update_peerlink_isolate_from_lif :: "csm_ptr \<Rightarrow> lif_ptr \<Rightarrow> bool \<Rightarrow> System \<Rightarrow> System option" where
  "update_peerlink_isolate_from_lif c l po_state s =
     (if csm_peer_link_if (csm_of s c) = None
         \<or> ml_current_state (MLACP (csm_of s c)) \<noteq> MLACP_STATE_EXCHANGE then Some s
      else
        let peer_up = (case find (\<lambda>pif. pif_name pif = lif_name (lif_of s l)) (ml_pif_list (MLACP (csm_of s c))) of
                         None \<Rightarrow> True | Some pif \<Rightarrow> pif_po_active pif = 1)
        in if po_state then set_peerlink_mlag_port_isolate c l peer_up False s else Some s)"

section \<open>Port channels\<close>

definition peer_po_is_alive :: "csm_ptr \<Rightarrow> int \<Rightarrow> System \<Rightarrow> bool" where
  "peer_po_is_alive c po_id s =
     (case find (\<lambda>pif. pif_type pif = IF_T_PORT_CHANNEL \<and> pif_po_id pif = po_id) (ml_pif_list (MLACP (csm_of s c))) of
        None \<Rightarrow> False | Some pif \<Rightarrow> pif_po_active pif \<noteq> 0)"

text \<open>\<open>update_vlan_if_info\<close> and \<open>update_l3_if_info\<close>\<close>

definition update_l3_if_info :: "csm_ptr \<Rightarrow> lif_ptr \<Rightarrow> System \<Rightarrow> System" where
  "update_l3_if_info c l s =
     upd_lif l (\<lambda>i. i\<lparr>lif_mlacp_state := ml_current_state (MLACP (csm_of s c))\<rparr>) s"

definition update_vlan_if_info :: "csm_ptr \<Rightarrow> lif_ptr \<Rightarrow> System \<Rightarrow> System" where
  "update_vlan_if_info c l s =
     upd_lif l (\<lambda>i. i\<lparr>lif_mlacp_state := ml_current_state (MLACP (csm_of s c))\<rparr>) s"

text \<open>\<open>po_state != lif->po_active\<close> for the two values \<open>po_state\<close> has.\<close>

definition po_changes :: "bool \<Rightarrow> LocalInterface \<Rightarrow> bool" where
  "po_changes po_state lif \<longleftrightarrow> (if po_state then 1 else 0) \<noteq> lif_po_active lif"

definition update_l2_po_state :: "csm_ptr \<Rightarrow> lif_ptr \<Rightarrow> bool \<Rightarrow> System \<Rightarrow> System" where
  "update_l2_po_state c l po_state s =
     foldl (\<lambda>s v. case vl_itf v of None \<Rightarrow> s
            | Some q \<Rightarrow>
                let s1 = update_vlan_if_info c q s; st = ml_current_state (MLACP (csm_of s1 c));
                    route_type = (if po_changes po_state (lif_of s1 l) \<or> st \<noteq> lif_mlacp_state (lif_of s1 q)
                                  then if po_state then ROUTE_DEL
                                       else if st = MLACP_STATE_EXCHANGE
                                               \<and> peer_po_is_alive c (lif_ifindex (lif_of s1 l)) s1
                                       then ROUTE_ADD else ROUTE_NONE
                                  else ROUTE_NONE)
                in if \<not> local_if_is_l3_mode (lif_of s1 q) then s1
                   else update_l3_if_info c q (set_l3_itf_state c q route_type s1))
       s (lif_vlan_tree (lif_of s l))"

definition update_l3_po_state :: "csm_ptr \<Rightarrow> lif_ptr \<Rightarrow> bool \<Rightarrow> System \<Rightarrow> System" where
  "update_l3_po_state c l po_state s =
     (let lif = lif_of s l; st = ml_current_state (MLACP (csm_of s c));
          changed = po_changes po_state lif;
          alive = peer_po_is_alive c (lif_po_id lif) s;
          route_type = (if changed \<and> po_state then ROUTE_DEL
                        else if changed \<and> \<not> po_state \<and> st = MLACP_STATE_EXCHANGE
                        then if alive then ROUTE_ADD else ROUTE_NONE
                        else if st \<noteq> lif_mlacp_state lif \<and> st = MLACP_STATE_EXCHANGE \<and> \<not> po_state
                        then if alive then ROUTE_ADD else ROUTE_NONE
                        else ROUTE_NONE)
      in update_l3_if_info c l (set_l3_itf_state c l route_type s))"

definition update_po_if_info :: "csm_ptr \<Rightarrow> lif_ptr \<Rightarrow> bool \<Rightarrow> System \<Rightarrow> System" where
  "update_po_if_info c l po_state s =
     upd_lif l (\<lambda>i. (if po_changes po_state i
                     then i\<lparr>lif_changed := 1, lif_po_active := (if po_state then 1 else 0)\<rparr> else i)
                    \<lparr>lif_mlacp_state := ml_current_state (MLACP (csm_of s c))\<rparr>) s"

definition mlacp_portchannel_state_handler :: "csm_ptr \<Rightarrow> lif_ptr \<Rightarrow> bool \<Rightarrow> System \<Rightarrow> System option" where
  "mlacp_portchannel_state_handler c l po_state s = do {
     s1 \<leftarrow> update_peerlink_isolate_from_lif c l po_state s;
     let s2 = update_l2_mac_state c l po_state s1;
     let s3 = (if \<not> local_if_is_l3_mode (lif_of s2 l) then update_l2_po_state c l po_state s2
               else update_l3_po_state c l po_state s2);
     let s4 = update_po_if_info c l po_state s3;
     Some (if po_state then s4 else mlacp_link_disable_traffic_distribution l s4) }"

definition mlacp_mlag_link_add_handler :: "csm_ptr \<Rightarrow> lif_ptr \<Rightarrow> System \<Rightarrow> System option" where
  "mlacp_mlag_link_add_handler c l s =
     (if ml_current_state (MLACP (csm_of s c)) \<noteq> MLACP_STATE_EXCHANGE then Some s
      else do {
        s1 \<leftarrow> update_peerlink_isolate_from_lif c l (lif_po_active (lif_of s l) = 1) s;
        Some (if csm_role_type (csm_of s1 c) = STP_ROLE_STANDBY
                 \<and> peer_if_find_by_name (csm_of s1 c) (lif_name (lif_of s1 l)) \<noteq> None
              then let s2 = update_if_ipmac_on_standby l s1
                   in snd (mlacp_link_set_iccp_system_id (csm_mlag_id (csm_of s2 c)) (lif_mac_addr (lif_of s2 l)) s2)
              else s1) })"

definition mlacp_mlag_link_del_handler :: "csm_ptr \<Rightarrow> lif_ptr \<Rightarrow> System \<Rightarrow> System option" where
  "mlacp_mlag_link_del_handler c l s =
     (if ml_current_state (MLACP (csm_of s c)) \<noteq> MLACP_STATE_EXCHANGE then Some s
      else set_peerlink_mlag_port_isolate c l False True s)"

definition mlacp_mlag_intf_detach_handler :: "csm_ptr \<Rightarrow> lif_ptr \<Rightarrow> System \<Rightarrow> System option" where
  "mlacp_mlag_intf_detach_handler c l s = do {
     s1 \<leftarrow> mlacp_mlag_link_del_handler c l s;
     let s2 = update_remote_macs_to_peerlink c l s1;
     let s3 = (if \<not> local_if_is_l3_mode (lif_of s2 l) then update_l2_po_state c l False s2
               else update_l3_po_state c l False s2);
     Some (if lif_is_traffic_disable (lif_of s3 l)
              \<and> (case csm_peer_link_if (csm_of s3 c) of None \<Rightarrow> True
                 | Some q \<Rightarrow> lif_name (lif_of s3 q) = lif_name (lif_of s3 l))
           then mlacp_link_enable_traffic_distribution l s3 else s3) }"

text \<open>The interface \<open>q\<close> is the port channel itself, or the interface of a VLAN it is a member of.\<close>

definition stp_peer_link_itf :: "csm_ptr \<Rightarrow> lif_ptr \<Rightarrow> bool \<Rightarrow> lif_ptr \<Rightarrow> System \<Rightarrow> System" where
  "stp_peer_link_itf c l po_state q s =
     (let active = lif_po_active (lif_of s l);
          s1 = (if active = 0 then set_l3_itf_state c q (if po_state then ROUTE_ADD else ROUTE_DEL) s else s)
      in if po_state \<and> active = 1 then syn_ndisc_info_to_peer c q (syn_arp_info_to_peer c q s1) else s1)"

definition update_stp_peer_link :: "csm_ptr \<Rightarrow> PeerInterface \<Rightarrow> bool \<Rightarrow> bool \<Rightarrow> System \<Rightarrow> System" where
  "update_stp_peer_link c pif po_state new_create s =
     (if \<not> new_create \<and> (if po_state then 1 else 0) = pif_po_active pif then s
      else case find (\<lambda>l. lif_name (lif_of s l) = pif_name pif) (ml_lif_list (MLACP (csm_of s c))) of
        None \<Rightarrow> s
      | Some l \<Rightarrow>
          if local_if_is_l3_mode (lif_of s l) then stp_peer_link_itf c l po_state l s
          else foldl (\<lambda>s v. case vl_itf v of None \<Rightarrow> s
                 | Some q \<Rightarrow> if local_if_is_l3_mode (lif_of s q) then stp_peer_link_itf c l po_state q s else s)
               s (lif_vlan_tree (lif_of s l)))"

section \<open>The buffer of isolated ports\<close>

fun commas :: "LocalInterface list \<Rightarrow> string" where
  "commas [] = []"
| "commas [x] = po_text x"
| "commas (x # y # ys) = po_text x @ '','' @ commas (y # ys)"

lemma commas_Cons: "commas (x # xs) = po_text x @ concat (map (\<lambda>y. '','' @ po_text y) xs)"
  by (induction xs arbitrary: x) simp_all

text \<open>What the buffer holds when the text \<open>w\<close> was printed into it, and the number of its characters.\<close>

definition printed :: "string \<Rightarrow> string \<times> nat" where
  "printed w = (take (MLAG_PO_BUF_SIZE - 1) w, length w)"

lemma po_buf_print_printed:
  "po_buf_print x (printed w) = (if MLAG_PO_BUF_SIZE < length w then None else Some (printed (w @ x)))"
  by (simp add: po_buf_print_def printed_def)

lemma printed_nonempty: "fst (printed w) \<noteq> [] \<longleftrightarrow> w \<noteq> []"
  by (simp add: printed_def MLAG_PO_BUF_SIZE_def)

lemma po_buf_bytes_printed:
  "po_buf_bytes (printed w) = (if MLAG_PO_BUF_SIZE < length w then None
     else Some (buf_take (length w) (c_chars (take (MLAG_PO_BUF_SIZE - 1) w))))"
  by (simp add: po_buf_bytes_def printed_def)

lemma fold_po_buf_add:
  "w \<noteq> [] \<Longrightarrow> Option.bind (fold_opt po_buf_add xs (printed w)) po_buf_bytes =
     po_buf_bytes (printed (w @ concat (map (\<lambda>y. '','' @ po_text y) xs)))"
proof (induction xs arbitrary: w)
  case (Cons x xs)
  show ?case
  proof (cases "MLAG_PO_BUF_SIZE \<le> length w")
    case True
    then have "po_buf_add x (printed w) = None"
      using Cons.prems by (auto simp: po_buf_add_def printed_nonempty po_buf_print_printed)
    with True show ?thesis by (simp add: po_buf_bytes_printed)
  next
    case False
    then have "po_buf_add x (printed w) = Some (printed (w @ '','' @ po_text x))"
      using Cons.prems by (auto simp: po_buf_add_def printed_nonempty po_buf_print_printed)
    then show ?thesis using Cons.IH [of "w @ '','' @ po_text x"] by simp
  qed
qed simp

lemma isolated_ports_text:
  assumes "\<forall>p \<in> set xs. lif_name p \<noteq> []"
  shows "Option.bind (fold_opt po_buf_add xs ([], 0)) po_buf_bytes = po_buf_bytes (printed (commas xs))"
proof (cases xs)
  case (Cons x ys)
  have "([], 0) = printed []" by (simp add: printed_def)
  then have "po_buf_add x ([], 0) = Some (printed (po_text x))"
    using po_buf_print_printed [of "po_text x" "[]"] by (simp add: po_buf_add_def MLAG_PO_BUF_SIZE_def printed_def)
  moreover have "po_text x \<noteq> []" using assms Cons by (simp add: po_text_def)
  ultimately show ?thesis using Cons fold_po_buf_add [of "po_text x" ys] by (simp add: commas_Cons)
qed (simp add: printed_def)

text \<open>
  C36. The list of isolated ports in the message to mclagsyncd: sending it is undefined (the buffer
  of 512 bytes is overrun) exactly when the names of the isolated port channels and of their members,
  with the commas between them, have more than 512 characters. Otherwise one message goes out that
  parses back to the peer link and a list of that length, and with fewer than 512 characters the list
  is exact.
\<close>

theorem update_peerlink_isolate_bounds:
  assumes "csm_peer_link_if (csm_of s c) = Some l" "lif_type (lif_of s l) \<noteq> IF_T_VXLAN"
    "c_name MAX_L_PORT_NAME (lif_name (lif_of s l))"
    "\<forall>p \<in> set (isolated_ports c s). lif_name p \<noteq> []"
    "sys_sync_fd s \<noteq> 0" "env_send s (env_n_send s) = Sent n" "600 \<le> n"
  shows "(update_peerlink_isolate_from_all_csm_lif c s = None \<longleftrightarrow> 512 < length (commas (isolated_ports c s))) \<and>
    (\<forall>t. update_peerlink_isolate_from_all_csm_lif c s = Some t \<longrightarrow>
      (\<exists>msg dst. syncd_tx t = syncd_tx s @ [msg] \<and> parse_syncd msg = Some (MCLAG_MSG_TYPE_PORT_ISOLATE,
        [(MCLAG_SUB_OPTION_TYPE_ISOLATE_SRC, c_chars (lif_name (lif_of s l))), (MCLAG_SUB_OPTION_TYPE_ISOLATE_DST, dst)]) \<and>
        length dst = length (commas (isolated_ports c s)) \<and>
        (length (commas (isolated_ports c s)) < 512 \<longrightarrow> dst = c_chars (commas (isolated_ports c s)))))"
proof -
  let ?w = "commas (isolated_ports c s)"
  define dst where "dst = buf_take (length ?w) (c_chars (take (MLAG_PO_BUF_SIZE - 1) ?w))"
  define msg where "msg = syncd_msg MCLAG_MSG_TYPE_PORT_ISOLATE
    [(MCLAG_SUB_OPTION_TYPE_ISOLATE_SRC, c_chars (lif_name (lif_of s l))), (MCLAG_SUB_OPTION_TYPE_ISOLATE_DST, dst)]"
  have r: "update_peerlink_isolate_from_all_csm_lif c s = (if 512 < length ?w then None else
      let (rc, t) = sync_fd_write msg s in Some (SYSTEM_SET_SYNCD_TX_DBG_COUNTER MCLAG_MSG_TYPE_PORT_ISOLATE
        (if rc \<le> 0 \<or> rc \<noteq> int (length msg) then STS_ERR else STS_OK) t))"
    using assms(1,2,5) isolated_ports_text [OF assms(4)]
    by (auto simp: update_peerlink_isolate_from_all_csm_lif_def msg_def dst_def po_buf_bytes_printed
        MLAG_PO_BUF_SIZE_def Let_def bind_eq_None_conv bind_eq_Some_conv split: option.splits)
  have len: "length dst = length ?w" by (simp add: dst_def)
  have name: "length (lif_name (lif_of s l)) < 20" using assms(3) by (simp add: c_name_def MAX_L_PORT_NAME_def)
  show ?thesis
  proof (cases "512 < length ?w")
    case False
    then have small: "length msg < 600" using len name by (simp add: msg_def syncd_msg_def syncd_hdr_def)
    have "parse_syncd msg = Some (MCLAG_MSG_TYPE_PORT_ISOLATE,
        [(MCLAG_SUB_OPTION_TYPE_ISOLATE_SRC, c_chars (lif_name (lif_of s l))), (MCLAG_SUB_OPTION_TYPE_ISOLATE_DST, dst)])"
      unfolding msg_def using False name len by (intro parse_syncd_msg) simp
    moreover have "sync_fd_write msg s = (int (length msg), s\<lparr>env_n_send := Suc (env_n_send s), syncd_tx := syncd_tx s @ [msg]\<rparr>)"
      using small assms(6,7) by (simp add: sync_fd_write_def sync_fd_send_def)
    moreover have "length ?w < 512 \<longrightarrow> dst = c_chars ?w"
      by (simp add: dst_def MLAG_PO_BUF_SIZE_def)
    ultimately show ?thesis
      using False len by (auto simp: r SYSTEM_SET_SYNCD_TX_DBG_COUNTER_def Let_def)
  qed (simp add: r)
qed


text \<open>
  A node whose MCLAG port channel, with the given members, is isolated from the peer link.
\<close>

definition a_peer_link_node :: "string \<Rightarrow> System" where
  "a_peer_link_node members = (a_host (\<lambda>_. Sent 600))\<lparr>sys_sync_fd := 5, sys_csm_list := [0], sys_lif_list := [0, 2],
     sys_lif_heap := (\<lambda>_. zero_LocalInterface)
       (0 := zero_LocalInterface\<lparr>lif_type := IF_T_PORT_CHANNEL, lif_name := ''PortChannel1'', lif_po_active := 1,
          lif_portchannel_member_buf := members, lif_isolate_to_peer_link := 1\<rparr>,
        2 := zero_LocalInterface\<lparr>lif_type := IF_T_PORT_CHANNEL, lif_name := ''PortChannel9''\<rparr>),
     sys_csm_heap := (\<lambda>_. (upd_mlacp (\<lambda>m. m\<lparr>ml_current_state := MLACP_STATE_EXCHANGE, ml_lif_list := [0]\<rparr>) zero_CSM)
       \<lparr>csm_peer_link_if := Some 2\<rparr>)\<rparr>"

lemma a_peer_link_node_sel [simp]:
  fixes m :: string
  defines "s \<equiv> a_peer_link_node m"
  shows "csm_peer_link_if (csm_of s 0) = Some 2" "lif_type (lif_of s 2) \<noteq> IF_T_VXLAN"
    "c_name MAX_L_PORT_NAME (lif_name (lif_of s 2))" "sys_sync_fd s \<noteq> 0" "env_send s (env_n_send s) = Sent 600"
    "isolated_ports 0 s = [lif_of s 0]" "lif_name (lif_of s 0) = ''PortChannel1''"
    "lif_portchannel_member_buf (lif_of s 0) = m"
  by (simp_all add: s_def a_peer_link_node_def a_host_def upd_defs const_defs MAX_L_PORT_NAME_def c_name_def
      isolated_ports_def zero_LocalInterface_def zero_CSM_def zero_mLACP_def)

theorem update_peerlink_isolate_bounds_witness:
  "update_peerlink_isolate_from_all_csm_lif 0 (a_peer_link_node (replicate 500 CHR ''0'')) = None \<and>
   update_peerlink_isolate_from_all_csm_lif 0 (a_peer_link_node (replicate 499 CHR ''0'')) \<noteq> None"
  using update_peerlink_isolate_bounds [of "a_peer_link_node (replicate 500 CHR ''0'')" 0 2 600]
    update_peerlink_isolate_bounds [of "a_peer_link_node (replicate 499 CHR ''0'')" 0 2 600]
  by (simp add: po_text_def)

section \<open>Isolation\<close>

text \<open>An operation that changes the isolation of no port: it may append to the requests to the kernel.\<close>

definition keeps_isolation :: "System \<Rightarrow> System \<Rightarrow> bool" where
  "keeps_isolation s t \<longleftrightarrow> (\<forall>q. lif_isolate_to_peer_link (lif_of t q) = lif_isolate_to_peer_link (lif_of s q)) \<and>
     (\<exists>r. kernel_log t = kernel_log s @ r)"

lemma keeps_isolation_refl [simp]: "keeps_isolation s s"
  by (simp add: keeps_isolation_def)

lemma keeps_isolation_trans [trans]:
  "keeps_isolation s t \<Longrightarrow> keeps_isolation t u \<Longrightarrow> keeps_isolation s u"
  by (auto simp: keeps_isolation_def)

lemma keeps_isolation_foldl:
  assumes "\<And>s x. keeps_isolation s (f s x)"
  shows "keeps_isolation s (foldl f s xs)"
  by (rule foldl_invariant) (auto intro: keeps_isolation_trans assms)

lemma only_syncd_kernel_log: "only_syncd s t \<Longrightarrow> kernel_log t = kernel_log s"
  by (subst only_syncd_def [THEN iffD1], assumption, simp)

lemma keeps_isolation_only_syncd: "only_syncd s t \<Longrightarrow> keeps_isolation s t"
  using only_syncd_frame(2) [of s t] only_syncd_kernel_log [of s t] by (simp add: keeps_isolation_def)

lemma keeps_isolation_upd_lif [simp]:
  "(\<And>i. lif_isolate_to_peer_link (f i) = lif_isolate_to_peer_link i) \<Longrightarrow> keeps_isolation s (upd_lif l f s)"
  by (auto simp: keeps_isolation_def upd_lif_def)

lemma keeps_isolation_request [simp]: "keeps_isolation s (snd (iccp_netlink_neighbor_request v a b m n p s))"
  by (auto simp: keeps_isolation_def iccp_netlink_neighbor_request_def kernel_def split: option.split)

lemma keeps_isolation_handlers [simp]:
  "keeps_isolation s (arp_set_handler c l b s)" "keeps_isolation s (ndisc_set_handler c l b s)"
  by (auto simp: arp_set_handler_def ndisc_set_handler_def intro!: keeps_isolation_foldl)

lemma keeps_isolation_set_l3 [simp]: "keeps_isolation s (set_l3_itf_state c l r s)"
  by (cases r) (auto simp: set_l3_itf_state_def intro: keeps_isolation_trans keeps_isolation_handlers)

lemma keeps_isolation_if_info [simp]:
  "keeps_isolation s (update_l3_if_info c l s)" "keeps_isolation s (update_vlan_if_info c l s)"
  "keeps_isolation s (update_po_if_info c l b s)"
  by (simp_all add: update_l3_if_info_def update_vlan_if_info_def update_po_if_info_def)

lemma keeps_isolation_l3_po [simp]: "keeps_isolation s (update_l3_po_state c l b s)"
  unfolding update_l3_po_state_def Let_def
  by (rule keeps_isolation_trans [OF keeps_isolation_set_l3 keeps_isolation_if_info(1)])

lemma keeps_isolation_l2_po [simp]: "keeps_isolation s (update_l2_po_state c l b s)"
  unfolding update_l2_po_state_def Let_def
  by (rule keeps_isolation_foldl)
    (auto split: option.split intro!: keeps_isolation_trans [OF _ keeps_isolation_if_info(1)]
      keeps_isolation_trans [OF _ keeps_isolation_set_l3])

lemma keeps_isolation_disable [simp]: "keeps_isolation s (mlacp_link_disable_traffic_distribution l s)"
proof -
  have "keeps_isolation s t" if "mlacp_link_set_traffic_dist_mode n b s = (rc, t)" for n b rc t
    using that by (auto simp: mlacp_link_set_traffic_dist_mode_def Let_def dest!: syncd_request_cases
        intro: keeps_isolation_only_syncd)
  then show ?thesis
    by (auto simp: mlacp_link_disable_traffic_distribution_def Let_def split: option.split prod.split
        intro: keeps_isolation_trans [OF _ keeps_isolation_upd_lif])
qed

lemma keeps_isolation_mac [simp]:
  "keeps_isolation s (upd_mac c p f s)" "keeps_isolation s (mac_enqueue c p s)" "keeps_isolation s (mac_remove c p s)"
  by (auto simp: keeps_isolation_def upd_mac_def upd_ml_def upd_csm_def mac_enqueue_def mac_remove_def
      mac_free_unlisted_def mac_rb_remove_def)

lemmas keeps_isolation_after =
  keeps_isolation_trans [OF _ keeps_isolation_if_info(3)] keeps_isolation_trans [OF _ keeps_isolation_disable]
  keeps_isolation_trans [OF _ keeps_isolation_l2_po] keeps_isolation_trans [OF _ keeps_isolation_l3_po]

interpretation mac_isolation: mac_invariant c
  "\<lambda>s. mac_ok (MLACP (csm_of s c)) \<and> keeps_isolation s0 s" for c s0
proof (unfold_locales, goal_cases)
  case (2 s t)
  then show ?case using mac_safety.talk keeps_isolation_only_syncd keeps_isolation_trans by blast
next
  case (6 s l tm)
  then show ?case by (auto intro: mac_safety.down_time keeps_isolation_trans [OF _ keeps_isolation_upd_lif])
qed (auto simp: mac_safety.distinct_rb mac_safety.touch mac_safety.listed mac_safety.removed
    intro: keeps_isolation_trans keeps_isolation_mac)

lemma syncd_request_only_syncd: "only_syncd s (snd (syncd_request ty msg s))"
  using syncd_request_cases [of ty msg s] by (cases "syncd_request ty msg s") simp

lemma syncd_request_counted_only_syncd: "only_syncd s (snd (syncd_request_counted ty msg s))"
  using syncd_request_only_syncd [of s ty msg]
  by (auto simp: syncd_request_counted_def Let_def split: prod.split intro: only_syncd_trans [OF _ only_syncd_counter])

lemma isolation_request_only_syncd: "only_syncd s (snd (mlacp_link_set_peerlink_port_isolation i n b s))"
  by (simp add: mlacp_link_set_peerlink_port_isolation_def syncd_request_counted_only_syncd)

lemma all_csm_lif_only_syncd:
  "update_peerlink_isolate_from_all_csm_lif c s = Some t \<Longrightarrow> only_syncd s t"
  by (auto simp: update_peerlink_isolate_from_all_csm_lif_def Let_def bind_eq_Some_conv
      split: option.splits if_splits prod.splits
      intro: only_syncd_trans [OF sync_fd_write_only_syncd only_syncd_counter])

lemma port_isolate_effect:
  assumes "csm_peer_link_if (csm_of s c) = Some q" "ml_current_state (MLACP (csm_of s c)) = MLACP_STATE_EXCHANGE"
    "set_peerlink_mlag_port_isolate c l b un s = Some t"
  shows "sys_csm_heap t = sys_csm_heap s \<and>
    sys_lif_heap t = (sys_lif_heap s)(l := (lif_of s l)\<lparr>lif_isolate_to_peer_link := (if b then 1 else 0)\<rparr>) \<and>
    kernel_log t = kernel_log s @ map (\<lambda>op. ShellCmd (''ebtables '' @ op @ '' FORWARD -i '' @ lif_name (lif_of s q)
      @ '' -o '' @ lif_name (lif_of s l) @ '' -j DROP'')) [''-D'', if b then ''-I'' else ''-D'']"
proof -
  define s1 where "s1 = upd_lif l (\<lambda>i. i\<lparr>lif_isolate_to_peer_link := (if b then 1 else 0)\<rparr>) s"
  have s1: "sys_csm_heap s1 = sys_csm_heap s"
    "sys_lif_heap s1 = (sys_lif_heap s)(l := (lif_of s l)\<lparr>lif_isolate_to_peer_link := (if b then 1 else 0)\<rparr>)"
    "kernel_log s1 = kernel_log s" "lif_name (lif_of s1 p) = lif_name (lif_of s p)" for p
    by (simp_all add: s1_def upd_lif_def)
  obtain s2 where s2: "update_peerlink_isolate_from_all_csm_lif c s1 = Some s2"
    and t: "t = (let s3 = set_peerlink_mlag_port_kernel_forward c l b s2 in if un then s3
      else snd (mlacp_link_set_peerlink_port_isolation (csm_mlag_id (csm_of s3 c)) (lif_name (lif_of s3 l)) b s3))"
    using assms by (auto simp: set_peerlink_mlag_port_isolate_def Let_def s1_def [symmetric] s1(1) bind_eq_Some_conv)
  have o2: "only_syncd s1 s2" by (rule all_csm_lif_only_syncd [OF s2])
  let ?s3 = "set_peerlink_mlag_port_kernel_forward c l b s2"
  have "only_syncd ?s3 t" unfolding t Let_def by (simp add: isolation_request_only_syncd)
  then have "sys_csm_heap t = sys_csm_heap ?s3" "sys_lif_heap t = sys_lif_heap ?s3" "kernel_log t = kernel_log ?s3"
    by (simp_all add: only_syncd_frame only_syncd_kernel_log)
  then show ?thesis
    using assms(1) only_syncd_frame(1,2) [OF o2] only_syncd_kernel_log [OF o2]
    by (simp add: set_peerlink_mlag_port_kernel_forward_def Let_def s1 kernel_def)
qed


text \<open>
  C15. When an MCLAG port channel comes up while the session is established, it is isolated from the
  peer link if the peer's port channel is up (or not known yet), and not isolated otherwise: the flag
  is set so, and the kernel is asked to drop the frames from the peer link to the port, after the
  previous rule was removed, or only to remove the rule. No other port changes, and when the port
  goes down no port changes.
\<close>

theorem mlacp_portchannel_state_isolation:
  assumes "mac_ok (MLACP (csm_of s c))" "csm_peer_link_if (csm_of s c) = Some q"
    "ml_current_state (MLACP (csm_of s c)) = MLACP_STATE_EXCHANGE"
    "mlacp_portchannel_state_handler c l po_state s = Some t"
  shows "let peer_up = (case find (\<lambda>pif. pif_name pif = lif_name (lif_of s l)) (ml_pif_list (MLACP (csm_of s c))) of
           None \<Rightarrow> True | Some pif \<Rightarrow> pif_po_active pif = 1);
         rule = (\<lambda>op. ShellCmd (''ebtables '' @ op @ '' FORWARD -i '' @ lif_name (lif_of s q)
           @ '' -o '' @ lif_name (lif_of s l) @ '' -j DROP''))
     in (\<forall>p. lif_isolate_to_peer_link (lif_of t p) = (if po_state \<and> p = l then if peer_up then 1 else 0
           else lif_isolate_to_peer_link (lif_of s p))) \<and>
        (po_state \<longrightarrow> (\<exists>r. kernel_log t = kernel_log s @ rule ''-D'' # rule (if peer_up then ''-I'' else ''-D'') # r))"
proof -
  obtain s1 where s1: "update_peerlink_isolate_from_lif c l po_state s = Some s1"
    and t: "t = (let s2 = update_l2_mac_state c l po_state s1;
        s3 = (if \<not> local_if_is_l3_mode (lif_of s2 l) then update_l2_po_state c l po_state s2
              else update_l3_po_state c l po_state s2);
        s4 = update_po_if_info c l po_state s3
      in if po_state then s4 else mlacp_link_disable_traffic_distribution l s4)"
    using assms(4) by (auto simp: mlacp_portchannel_state_handler_def bind_eq_Some_conv Let_def)
  have heap: "sys_csm_heap s1 = sys_csm_heap s"
    using s1 assms(2,3) port_isolate_effect [OF assms(2,3)]
    by (auto simp: update_peerlink_isolate_from_lif_def Let_def split: if_splits)
  then have "mac_ok (MLACP (csm_of s1 c)) \<and> keeps_isolation s1 s1" using assms(1) by simp
  from mac_isolation.l2_mac_state [OF this]
  have "keeps_isolation s1 (update_l2_mac_state c l po_state s1)" by simp
  then have "keeps_isolation s1 t"
    unfolding t Let_def by (auto intro!: keeps_isolation_after)
  then have "\<forall>p. lif_isolate_to_peer_link (lif_of t p) = lif_isolate_to_peer_link (lif_of s1 p)"
    "\<exists>r. kernel_log t = kernel_log s1 @ r" by (auto simp: keeps_isolation_def)
  then show ?thesis
    using s1 assms(2,3) port_isolate_effect [OF assms(2,3)]
    by (auto simp: update_peerlink_isolate_from_lif_def Let_def split: if_splits)
qed

lemma a_node_up: "Option.is_none (mlacp_portchannel_state_handler 0 0 True (a_peer_link_node [])) = False"
  by code_simp

theorem mlacp_portchannel_state_isolation_witness:
  "\<exists>t r. mlacp_portchannel_state_handler 0 0 True (a_peer_link_node []) = Some t \<and>
     lif_isolate_to_peer_link (lif_of t 0) = 1 \<and> lif_isolate_to_peer_link (lif_of t 2) = 0 \<and>
     kernel_log t = [ShellCmd ''ebtables -D FORWARD -i PortChannel9 -o PortChannel1 -j DROP'',
       ShellCmd ''ebtables -I FORWARD -i PortChannel9 -o PortChannel1 -j DROP''] @ r"
proof -
  let ?s = "a_peer_link_node []"
  have s: "mac_ok (MLACP (csm_of ?s 0))" "ml_current_state (MLACP (csm_of ?s 0)) = MLACP_STATE_EXCHANGE"
    "ml_pif_list (MLACP (csm_of ?s 0)) = []" "kernel_log ?s = []" "lif_isolate_to_peer_link (lif_of ?s 2) = 0"
    "lif_name (lif_of ?s 2) = ''PortChannel9''"
    by (simp_all add: a_peer_link_node_def a_host_def upd_defs zero_LocalInterface_def zero_CSM_def zero_mLACP_def mac_ok_def rb_sorted_def)
  obtain t where t: "mlacp_portchannel_state_handler 0 0 True ?s = Some t"
    using a_node_up by (auto simp: Option.is_none_def)
  from mlacp_portchannel_state_isolation [OF s(1) a_peer_link_node_sel(1) s(2) t]
  show ?thesis using t s(3-6) by (auto simp: Let_def)
qed

section \<open>Neighbours of a port that goes down\<close>

text \<open>
  C35. When a routed port channel goes down while the node exchanges changes with its peer and the
  peer's port channel is alive, the node withdraws the ARP entries it has on it from the kernel; for
  the ND entries the same code asks the kernel to add them once more, and withdraws none.
\<close>

theorem ndisc_not_withdrawn:
  assumes "ml_current_state (MLACP (csm_of s c)) = MLACP_STATE_EXCHANGE" "po_changes False (lif_of s l)"
    "peer_po_is_alive c (lif_po_id (lif_of s l)) s" "take 4 (lif_name (lif_of s l)) \<noteq> ''Vlan''"
    "local_if_find_by_name (lif_name (lif_of s l)) s = Some l"
  shows "kernel_log (update_l3_po_state c l False s) = kernel_log s @
      map (\<lambda>a. NeighDel False (le32 (arp_ipv4_addr a)) (arp_mac_addr a) (lif_ifindex (lif_of s l)) False)
        (filter (\<lambda>a. arp_op_type a \<noteq> NEIGH_SYNC_DEL \<and> named (lif_name (lif_of s l)) (arp_ifname a))
          (ml_arp_list (MLACP (csm_of s c)))) @
      map (\<lambda>n. NeighAdd True (nd_ipv6_addr n) (nd_mac_addr n) (lif_ifindex (lif_of s l)) False)
        (filter (\<lambda>n. nd_op_type n \<noteq> NEIGH_SYNC_DEL \<and> named (lif_name (lif_of s l)) (nd_ifname n))
          (ml_ndisc_list (MLACP (csm_of s c))))"
proof -
  let ?t = "arp_set_handler c l False s"
  have frame: "sys_csm_heap ?t = sys_csm_heap s" "sys_lif_heap ?t = sys_lif_heap s" "sys_lif_list ?t = sys_lif_list s"
    using arp_set_handler_frame [of c l False s] by simp_all
  have "update_l3_po_state c l False s = update_l3_if_info c l (ndisc_set_handler c l False ?t)"
    using assms(1-4) by (simp add: update_l3_po_state_def set_l3_itf_state_def Let_def)
  moreover have "local_if_find_by_name (lif_name (lif_of ?t l)) ?t = Some l"
    using assms(5) frame by (simp add: local_if_find_by_name_def)
  ultimately show ?thesis
    using set_handlers_log(1) [OF assms(5), of c] set_handlers_log(2) [of ?t l c] frame
    by (simp add: update_l3_if_info_def upd_lif_def)
qed

definition a_router_with_peer :: System where
  "a_router_with_peer = upd_ml 0 (\<lambda>m. m\<lparr>ml_arp_list := [an_arp_entry], ml_ndisc_list := [a_nd_entry],
     ml_pif_list := [zero_PeerInterface\<lparr>pif_type := IF_T_PORT_CHANNEL, pif_po_active := 1\<rparr>]\<rparr>) a_router"

theorem ndisc_not_withdrawn_witness:
  "kernel_log (update_l3_po_state 0 0 False a_router_with_peer) =
     [NeighDel False [10, 0, 0, 2] [0, 1, 2, 3, 4, 5] 7 False,
      NeighAdd True (replicate 15 0 @ [1]) [0, 1, 2, 3, 4, 5] 7 False]"
proof -
  let ?s = a_router_with_peer
  have "ml_current_state (MLACP (csm_of ?s 0)) = MLACP_STATE_EXCHANGE" "po_changes False (lif_of ?s 0)"
    "peer_po_is_alive 0 (lif_po_id (lif_of ?s 0)) ?s" "take 4 (lif_name (lif_of ?s 0)) \<noteq> ''Vlan''"
    "local_if_find_by_name (lif_name (lif_of ?s 0)) ?s = Some 0"
    by code_simp+
  note down = ndisc_not_withdrawn [OF this]
  have "kernel_log ?s = []" "lif_ifindex (lif_of ?s 0) = 7"
    "filter (\<lambda>a. arp_op_type a \<noteq> NEIGH_SYNC_DEL \<and> named (lif_name (lif_of ?s 0)) (arp_ifname a))
       (ml_arp_list (MLACP (csm_of ?s 0))) = [an_arp_entry]"
    "filter (\<lambda>n. nd_op_type n \<noteq> NEIGH_SYNC_DEL \<and> named (lif_name (lif_of ?s 0)) (nd_ifname n))
       (ml_ndisc_list (MLACP (csm_of ?s 0))) = [a_nd_entry]"
    "le32 (arp_ipv4_addr an_arp_entry) = [10, 0, 0, 2]" "arp_mac_addr an_arp_entry = [0, 1, 2, 3, 4, 5]"
    "nd_ipv6_addr a_nd_entry = replicate 15 0 @ [1]" "nd_mac_addr a_nd_entry = [0, 1, 2, 3, 4, 5]"
    by code_simp+
  then show ?thesis by (simp add: down)
qed

end
