(* ===== verification/Peer_Update.thy ===== *)
theory Peer_Update
  imports Port_State
begin

text \<open>
  What the peer reports about itself (\<open>mlacp_sync_update.c\<close>): its system id, its MCLAG port
  channels, their states, addresses and VLANs, its peer link, its heartbeats and its warm reboots.
  Each operation takes the bytes from the TLV on; \<open>None\<close> is a read or write outside of an array, or
  through a \<open>NULL\<close> pointer.

  A peer interface is kept by value in the list of the session. The object a pointer \<open>peer_if\<close> refers
  to is the first element of the list with its value.
\<close>

section \<open>The system\<close>

definition mlacp_fsm_update_system_conf :: "csm_ptr \<Rightarrow> bytes \<Rightarrow> System \<Rightarrow> System option" where
  "mlacp_fsm_update_system_conf c tlv s =
     (case de_mLACPSysConfigTLV tlv of None \<Rightarrow> None
      | Some (t, _) \<Rightarrow>
          let old_remote_system_id = rs_system_id (ml_remote_system (MLACP (csm_of s c)));
              s1 = (if sc_node_id t = ml_node_id (MLACP (csm_of s c))
                    then upd_ml c (\<lambda>m. m\<lparr>ml_node_id := ml_node_id m + 1\<rparr>) s else s);
              s2 = upd_ml c (\<lambda>m. m\<lparr>ml_remote_system := \<lparr>rs_system_id = sc_sys_id t,
                     rs_system_priority = ntohs (sc_sys_priority t), rs_node_id = ucast (sc_node_id t)\<rparr>\<rparr>) s1;
              s3 = foldl (\<lambda>s l. update_if_ipmac_on_standby l s) s2 (ml_lif_list (MLACP (csm_of s2 c)))
          in Some (if csm_role_type (csm_of s3 c) = STP_ROLE_STANDBY
                      \<and> memcmp old_remote_system_id (sc_sys_id t) \<noteq> 0
                   then snd (mlacp_link_set_iccp_system_id (csm_mlag_id (csm_of s3 c)) (sc_sys_id t) s3)
                   else s3))"

section \<open>Port channels\<close>

definition pif_assign :: "csm_ptr \<Rightarrow> PeerInterface \<Rightarrow> PeerInterface \<Rightarrow> System \<Rightarrow> System" where
  "pif_assign c p q = upd_csm c (upd_pifs (update_first (\<lambda>r. r = p) (\<lambda>_. q)))"

definition mlacp_peer_mlag_intf_delete_handler :: "csm_ptr \<Rightarrow> string \<Rightarrow> System \<Rightarrow> System" where
  "mlacp_peer_mlag_intf_delete_handler c mlag_if_name s =
     (case local_if_find_by_name mlag_if_name s of None \<Rightarrow> s
      | Some l \<Rightarrow> recover_if_ipmac_on_standby l s)"

text \<open>\<open>portconf->flags & 0x02\<close>\<close>

definition agg_conf_purge :: "csm_ptr \<Rightarrow> string \<Rightarrow> System \<Rightarrow> System" where
  "agg_conf_purge c agg_name s =
     (case peer_if_find_by_name (csm_of s c) agg_name of
        None \<Rightarrow> upd_ml c (\<lambda>m. m\<lparr>ml_need_to_sync := 1\<rparr>) s
      | Some pif \<Rightarrow>
          let s1 = mlacp_peer_mlag_intf_delete_handler c (pif_name pif) s;
              s2 = snd (mlacp_link_del_remote_if_info (csm_mlag_id (csm_of s1 c)) (pif_name pif) s1)
          in peer_if_destroy pif c s2)"

text \<open>
  The rest of the function, on the peer interface \<open>pif\<close>. \<open>memcpy\<close> takes \<open>agg_name_len\<close> bytes of the
  20 of \<open>agg_name\<close> into the 20 of \<open>name\<close>, which are zero behind the previous name of a new interface.
\<close>

definition name_overwritten :: "string \<Rightarrow> bytes \<Rightarrow> nat \<Rightarrow> string option" where
  "name_overwritten name arr n =
     (if MAX_L_PORT_NAME < n then None
      else c_string (take n arr @ drop n (c_array MAX_L_PORT_NAME name)))"

definition agg_conf_update ::
  "csm_ptr \<Rightarrow> mLACPAggConfigTLV \<Rightarrow> string \<Rightarrow> PeerInterface \<Rightarrow> bool \<Rightarrow> System \<Rightarrow> System option" where
  "agg_conf_update c t agg_name pif new_create s = do {
     name \<leftarrow> name_overwritten (pif_name pif) (ac_agg_name t) (unat (ac_agg_name_len t));
     let pif1 = pif\<lparr>pif_po_id := uint (ntohs (ac_agg_id t)), pif_name := name, pif_mac_addr := ac_mac_addr t\<rparr>;
     let s1 = pif_assign c pif pif1 s;
     let po_active = (pif_state pif1 = PORT_STATE_UP);
     let s2 = update_stp_peer_link c pif1 po_active new_create s1;
     s3 \<leftarrow> update_peerlink_isolate_from_pif c pif1 po_active new_create s2;
     let pif2 = pif1\<lparr>pif_po_active := (if po_active then 1 else 0)\<rparr>;
     let s4 = pif_assign c pif1 pif2 s3;
     Some (if new_create then
             let s5 = snd (mlacp_link_set_remote_if_state (csm_mlag_id (csm_of s4 c)) (pif_name pif2) po_active s4)
             in if csm_role_type (csm_of s5 c) = STP_ROLE_STANDBY
                then case local_if_find_by_name agg_name s5 of None \<Rightarrow> s5
                     | Some l \<Rightarrow> update_if_ipmac_on_standby l s5
                else s5
           else s4) }"

definition mlacp_fsm_update_Agg_conf :: "csm_ptr \<Rightarrow> bytes \<Rightarrow> System \<Rightarrow> (int \<times> System) option" where
  "mlacp_fsm_update_Agg_conf c tlv s =
     (case de_mLACPAggConfigTLV tlv of None \<Rightarrow> None
      | Some (t, _) \<Rightarrow>
         (case c_string (ac_agg_name t) of None \<Rightarrow> None
          | Some agg_name \<Rightarrow>
              if ac_flags t AND 2 \<noteq> 0 then Some (0, agg_conf_purge c agg_name s)
              else case peer_if_find_by_name (csm_of s c) agg_name of
                Some pif \<Rightarrow> map_option (Pair 0) (agg_conf_update c t agg_name pif False s)
              | None \<Rightarrow>
                  if ac_flags t AND 1 = 0 then None
                  else case peer_if_create c (uint (ntohs (ac_agg_id t))) IF_T_PORT_CHANNEL s of
                    (None, s1) \<Rightarrow> Some (MCLAG_ERROR, s1)
                  | (Some pif, s1) \<Rightarrow> map_option (Pair 0) (agg_conf_update c t agg_name pif True s1)))"

text \<open>The first port channel of the peer with the given number.\<close>

definition peer_po :: "CSM \<Rightarrow> u16 \<Rightarrow> PeerInterface option" where
  "peer_po csm po_id =
     find (\<lambda>p. pif_type p = IF_T_PORT_CHANNEL \<and> pif_po_id p = uint po_id) (ml_pif_list (MLACP csm))"

definition mlacp_fsm_update_Aggport_state :: "csm_ptr \<Rightarrow> bytes \<Rightarrow> System \<Rightarrow> System option" where
  "mlacp_fsm_update_Aggport_state c tlv s =
     (case de_mLACPAggPortStateTLV tlv of None \<Rightarrow> None
      | Some (t, _) \<Rightarrow>
         (case peer_po (csm_of s c) (ntohs (as_agg_id t)) of None \<Rightarrow> Some s
          | Some pif \<Rightarrow>
              let po_active = (as_agg_state t = PORT_STATE_UP);
                  pif1 = pif\<lparr>pif_state := as_agg_state t\<rparr>;
                  s1 = pif_assign c pif pif1 s;
                  s2 = update_stp_peer_link c pif1 po_active False s1
              in do {
                s3 \<leftarrow> update_peerlink_isolate_from_pif c pif1 po_active False s2;
                let s4 = pif_assign c pif1 (pif1\<lparr>pif_po_active := (if po_active then 1 else 0)\<rparr>) s3;
                Some (if ml_current_state (MLACP (csm_of s4 c)) = MLACP_STATE_EXCHANGE then
                        let s5 = (if as_agg_state t = PORT_STATE_DOWN
                                  then mlacp_convert_remote_mac_to_local c (pif_name pif1) s4 else s4)
                        in snd (mlacp_link_set_remote_if_state (csm_mlag_id (csm_of s5 c)) (pif_name pif1) po_active s5)
                      else s4) }))"

text \<open>
  The VLANs behind the fixed part of the message, \<open>num_of_vlan_id\<close> of them, are added one by one.
  The consistency check at the end only writes to the log.
\<close>

fun add_peer_vlans :: "nat \<Rightarrow> bytes \<Rightarrow> PeerInterface \<Rightarrow> System \<Rightarrow> (PeerInterface \<times> System) option" where
  "add_peer_vlans 0 bs pif s = Some (pif, s)"
| "add_peer_vlans (Suc n) bs pif s =
     (case de_le16 bs of None \<Rightarrow> None
      | Some (v, r) \<Rightarrow>
          let (rc, pif1, s1) = peer_if_add_vlan (ntohs v) pif s in add_peer_vlans n r pif1 s1)"

definition mlacp_fsm_update_port_channel_info :: "csm_ptr \<Rightarrow> bytes \<Rightarrow> System \<Rightarrow> System option" where
  "mlacp_fsm_update_port_channel_info c tlv s =
     (case de_mLACPPortChannelInfoTLV tlv of None \<Rightarrow> None
      | Some (t, r) \<Rightarrow>
         (case peer_po (csm_of s c) (ntohs (pc_agg_id t)) of None \<Rightarrow> Some s
          | Some pif \<Rightarrow>
              let pif1 = pif\<lparr>pif_vlan_tree := map (\<lambda>v. v\<lparr>vl_removed := 1\<rparr>) (pif_vlan_tree pif),
                             pif_ipv4_addr := ntohl (pc_ipv4_addr t), pif_l3_mode := pc_l3_mode t\<rparr>
              in do {
                (pif2, s1) \<leftarrow> add_peer_vlans (unat (ntohs (pc_num_of_vlan_id t))) r pif1 s;
                Some (pif_assign c pif (peer_if_clean_unused_vlan pif2) s1) }))"

section \<open>Peer link, heartbeat and warm reboot\<close>

text \<open>\<open>mlacp_fsm_update_peerlink_info\<close> compares the peer links and only writes to the log.\<close>

definition mlacp_fsm_update_peerlink_info :: "csm_ptr \<Rightarrow> bytes \<Rightarrow> System \<Rightarrow> System option" where
  "mlacp_fsm_update_peerlink_info c tlv s =
     (case csm_peer_link_if (csm_of s c) of None \<Rightarrow> Some s
      | Some _ \<Rightarrow> map_option (\<lambda>_. s) (de_mLACPPeerLinkInfoTLV tlv))"

definition mlacp_fsm_update_heartbeat :: "csm_ptr \<Rightarrow> System \<Rightarrow> System" where
  "mlacp_fsm_update_heartbeat c s = upd_csm c (\<lambda>m. m\<lparr>csm_heartbeat_update_time := env_time s\<rparr>) s"

definition mlacp_fsm_update_warmboot :: "csm_ptr \<Rightarrow> System \<Rightarrow> System" where
  "mlacp_fsm_update_warmboot c s = upd_csm c (\<lambda>m. m\<lparr>csm_peer_warm_reboot_time := env_time s\<rparr>) s"

section \<open>The VLANs of a port channel of the peer\<close>

lemma peer_if_add_vlan_tree:
  assumes "\<forall>i. env_malloc s i"
  shows "\<exists>t. peer_if_add_vlan vid pif s =
      (0, pif\<lparr>pif_vlan_tree := vlan_added (vlan_info_init\<lparr>vl_vid := vid\<rparr>) (pif_vlan_tree pif)\<rparr>, t) \<and>
    env_malloc t = env_malloc s \<and> sys_csm_heap t = sys_csm_heap s"
proof -
  have "malloc s = (True, snd (malloc s))" using assms by (simp add: malloc_def)
  then obtain u where "malloc s = (True, u)" "env_malloc u = env_malloc s" "sys_csm_heap u = sys_csm_heap s"
    by (metis malloc_frame(2,4))
  then show ?thesis
    by (cases "vlan_find vid (pif_vlan_tree pif)") (simp_all add: peer_if_add_vlan_def Let_def vlan_added_def)
qed

definition vlans_added :: "u16 list \<Rightarrow> VLAN_ID list \<Rightarrow> VLAN_ID list" where
  "vlans_added vids tree = foldl (\<lambda>t v. vlan_added (vlan_info_init\<lparr>vl_vid := v\<rparr>) t) tree vids"

lemma add_peer_vlans_tree:
  assumes "\<forall>i. env_malloc s i"
  shows "\<exists>t. add_peer_vlans (length vids) (concat (map (\<lambda>v. le16 (htons v)) vids) @ r) pif s =
      Some (pif\<lparr>pif_vlan_tree := vlans_added vids (pif_vlan_tree pif)\<rparr>, t) \<and> sys_csm_heap t = sys_csm_heap s"
  using assms
proof (induction vids arbitrary: pif s)
  case (Cons v vids)
  let ?pif = "pif\<lparr>pif_vlan_tree := vlan_added (vlan_info_init\<lparr>vl_vid := v\<rparr>) (pif_vlan_tree pif)\<rparr>"
  obtain u where u: "peer_if_add_vlan v pif s = (0, ?pif, u)" "env_malloc u = env_malloc s"
      "sys_csm_heap u = sys_csm_heap s"
    using peer_if_add_vlan_tree [OF Cons.prems] by blast
  from Cons.IH [of u ?pif] u(2) Cons.prems obtain t where
    "add_peer_vlans (length vids) (concat (map (\<lambda>v. le16 (htons v)) vids) @ r) ?pif u =
      Some (?pif\<lparr>pif_vlan_tree := vlans_added vids (pif_vlan_tree ?pif)\<rparr>, t)" "sys_csm_heap t = sys_csm_heap u"
    by auto
  with u show ?case by (simp add: vlans_added_def)
qed (simp add: vlans_added_def)

lemma vlans_added_sorted:
  "rb_sorted vlan_node_compare tree \<Longrightarrow> rb_sorted vlan_node_compare (vlans_added vids tree)"
  unfolding vlans_added_def by (induction vids arbitrary: tree) (simp_all add: vlan_added_sorted)

lemma vlans_added_find:
  "if k \<in> set vids then \<exists>v. vlan_find k (vlans_added vids tree) = Some v \<and> vl_removed v = 0
   else vlan_find k (vlans_added vids tree) = vlan_find k tree"
proof (induction vids arbitrary: tree)
  case (Cons x vids)
  let ?t = "vlan_added (vlan_info_init\<lparr>vl_vid := x\<rparr>) tree"
  have "vlan_find k ?t = (if k = x then Some (case vlan_find k tree of None \<Rightarrow> vlan_info_init\<lparr>vl_vid := x, vl_removed := 0\<rparr>
      | Some v \<Rightarrow> v\<lparr>vl_removed := 0\<rparr>) else vlan_find k tree)"
    by (simp add: vlan_added_find)
  moreover have "k = x \<Longrightarrow> \<exists>v. vlan_find k ?t = Some v \<and> vl_removed v = 0"
    by (auto simp: vlan_added_find split: option.split)
  ultimately show ?case
    using Cons [of ?t] by (auto simp: vlans_added_def split: if_splits)
qed (simp add: vlans_added_def)

lemma sorted_vids: "rb_sorted vlan_node_compare tree \<longleftrightarrow> sorted_wrt (<) (map vl_vid tree)"
proof -
  have "vlan_node_compare a b < 0 \<longleftrightarrow> vl_vid a < vl_vid b" for a b
    by (simp add: vlan_node_compare_def)
  then show ?thesis by (simp add: rb_sorted_def sorted_wrt_map)
qed

lemma vlan_find_sorted:
  assumes "rb_sorted vlan_node_compare tree" "v \<in> set tree"
  shows "vlan_find (vl_vid v) tree = Some v"
proof -
  obtain w where w: "vlan_find (vl_vid v) tree = Some w"
    using assms(2) vlan_find_None [of "vl_vid v" tree] by fastforce
  have "inj_on vl_vid (set tree)"
    using assms(1) strict_sorted_iff [of "map vl_vid tree"] by (simp add: sorted_vids distinct_map)
  with vlan_find_vid [OF w] assms(2) have "w = v" by (auto dest: inj_onD)
  with w show ?thesis by simp
qed

text \<open>The nodes that are left once the VLANs of the message are unmarked are the VLANs of the message.\<close>

lemma vlans_left:
  assumes "rb_sorted vlan_node_compare tree" "\<forall>v \<in> set tree. vl_removed v = 1" "sorted_wrt (<) vids"
  shows "map vl_vid (filter (\<lambda>v. vl_removed v \<noteq> 1) (vlans_added vids tree)) = vids"
proof (rule strict_sorted_equal)
  let ?t = "vlans_added vids tree" and ?left = "filter (\<lambda>v. vl_removed v \<noteq> 1) (vlans_added vids tree)"
  have sorted: "rb_sorted vlan_node_compare ?t" using assms(1) by (rule vlans_added_sorted)
  then show "sorted_wrt (<) (map vl_vid ?left)"
    by (simp add: sorted_vids sorted_wrt_map sorted_wrt_filter)
  have "vl_vid v \<in> set vids" if "v \<in> set ?left" for v
  proof (rule ccontr)
    assume "vl_vid v \<notin> set vids"
    with that vlan_find_sorted [OF sorted, of v] vlans_added_find [of "vl_vid v" vids tree]
    have "vlan_find (vl_vid v) tree = Some v" by simp
    with assms(2) vlan_find_vid that show False by fastforce
  qed
  moreover have "k \<in> vl_vid ` set ?left" if k: "k \<in> set vids" for k
  proof -
    obtain v where "vlan_find k ?t = Some v" "vl_removed v = 0"
      using vlans_added_find [of k vids tree] k by auto
    then show ?thesis using vlan_find_vid [of k ?t v] by force
  qed
  ultimately show "set (map vl_vid ?left) = set vids" by auto
qed (rule assms(3))

lemma find_update_first:
  "find P xs = Some x \<Longrightarrow> P y \<Longrightarrow> find P (update_first (\<lambda>r. r = x) (\<lambda>_. y) xs) = Some y"
  by (induction xs) (auto split: if_splits)


lemma pif_assign_found:
  assumes "peer_po (csm_of s c) k = Some pif" "pif_type pif' = pif_type pif" "pif_po_id pif' = pif_po_id pif"
  shows "peer_po (csm_of (pif_assign c pif pif' s) c) k = Some pif'"
proof -
  let ?P = "\<lambda>p. pif_type p = IF_T_PORT_CHANNEL \<and> pif_po_id p = uint k"
  have "find ?P (ml_pif_list (MLACP (csm_of s c))) = Some pif" using assms(1) by (simp add: peer_po_def)
  moreover from this have "?P pif'" using find_SomeD assms(2,3) by fastforce
  ultimately have "find ?P (update_first (\<lambda>r. r = pif) (\<lambda>_. pif') (ml_pif_list (MLACP (csm_of s c)))) = Some pif'"
    by (rule find_update_first)
  then show ?thesis
    by (simp add: peer_po_def pif_assign_def upd_csm_def upd_pifs_def upd_mlacp_def upd_app_def)
qed

lemma clean_unused_sorted:
  assumes "rb_sorted vlan_node_compare (pif_vlan_tree pif)"
  shows "peer_if_clean_unused_vlan pif = pif\<lparr>pif_vlan_tree := filter (\<lambda>v. vl_removed v \<noteq> 1) (pif_vlan_tree pif)\<rparr>"
  using clean_unused_fold [of "[]" None "pif_vlan_tree pif"] vlan_order.sorted_distinct [OF assms]
  by (auto simp: peer_if_clean_unused_vlan_def split: prod.splits option.splits)

lemma port_channel_info_applied:
  assumes "de_mLACPPortChannelInfoTLV tlv = Some (t, concat (map (\<lambda>v. le16 (htons v)) vids))"
    "unat (ntohs (pc_num_of_vlan_id t)) = length vids" "sorted_wrt (<) vids" "\<forall>i. env_malloc s i"
    "peer_po (csm_of s c) (ntohs (pc_agg_id t)) = Some pif" "rb_sorted vlan_node_compare (pif_vlan_tree pif)"
  shows "\<exists>u tree. mlacp_fsm_update_port_channel_info c tlv s = Some u \<and>
    peer_po (csm_of u c) (ntohs (pc_agg_id t)) = Some (pif\<lparr>pif_ipv4_addr := ntohl (pc_ipv4_addr t),
      pif_l3_mode := pc_l3_mode t, pif_vlan_tree := tree\<rparr>) \<and> map vl_vid tree = vids"
proof -
  let ?marked = "map (\<lambda>v. v\<lparr>vl_removed := 1\<rparr>) (pif_vlan_tree pif)"
  let ?pif = "pif\<lparr>pif_vlan_tree := ?marked, pif_ipv4_addr := ntohl (pc_ipv4_addr t), pif_l3_mode := pc_l3_mode t\<rparr>"
  obtain u where u: "add_peer_vlans (length vids) (concat (map (\<lambda>v. le16 (htons v)) vids) @ []) ?pif s =
      Some (?pif\<lparr>pif_vlan_tree := vlans_added vids (pif_vlan_tree ?pif)\<rparr>, u)" "sys_csm_heap u = sys_csm_heap s"
    using add_peer_vlans_tree [OF assms(4)] by blast
  have marked: "rb_sorted vlan_node_compare ?marked" using assms(6) by (simp add: sorted_vids comp_def)
  let ?tree = "filter (\<lambda>v. vl_removed v \<noteq> 1) (vlans_added vids ?marked)"
  have "map vl_vid ?tree = vids" by (rule vlans_left [OF marked _ assms(3)]) simp
  moreover have "mlacp_fsm_update_port_channel_info c tlv s = Some (pif_assign c pif (?pif\<lparr>pif_vlan_tree := ?tree\<rparr>) u)"
    using assms(1,2,5) u(1) clean_unused_sorted [of "?pif\<lparr>pif_vlan_tree := vlans_added vids ?marked\<rparr>"]
      vlans_added_sorted [OF marked]
    by (simp add: mlacp_fsm_update_port_channel_info_def Let_def)
  moreover have "peer_po (csm_of u c) (ntohs (pc_agg_id t)) = Some pif" using assms(5) u(2) by simp
  from pif_assign_found [OF this]
  have "peer_po (csm_of (pif_assign c pif (?pif\<lparr>pif_vlan_tree := ?tree\<rparr>) u) c) (ntohs (pc_agg_id t)) =
      Some (?pif\<lparr>pif_vlan_tree := ?tree\<rparr>)" by simp
  ultimately show ?thesis by auto
qed


text \<open>Any message of the synchronisation layer reaches the queue of the peer, with its type in host order.\<close>

lemma app_data_delivered:
  assumes "sync_type ty" "app_data_msg a n (ser_ICCParameter (icc_param ty k) @ body) A = (len, buf, A')"
    "20 + length body \<le> n"
  shows "\<exists>msg. iccp_csm_enqueue_msg buf B = Some (mlacp_enqueue_msg msg B) \<and>
    drop 16 msg = le16 ty @ le16 (htons (word_of_nat k)) @ body"
proof -
  have "buf = ser_ICCHdr (icc_header (csm_of A a) MSG_T_RG_APP_DATA (20 + length body) (sys_ICCP_MSG_ID A)) @
      le16 (htons ty) @ le16 (htons (word_of_nat k)) @ body"
    using assms(2,3) by (simp add: app_data_msg_def Let_def ser_icc_param [OF assms(1)] mlacp_fill_icc_header_def
        next_msg_id_def split: if_splits prod.splits)
  then show ?thesis
    using enqueue_app_data [OF assms(1), of "le16 (htons (word_of_nat k)) @ body" "csm_of A a"] drop_received by auto
qed

text \<open>
  C13. The VLANs of a port channel reach the peer: a port channel message of one node, queued at the
  other and applied to its peer interface with the same number, makes the VLANs of the peer interface
  exactly those of the port channel, whatever they were before, and its address and its routing mode
  those of the port channel.
\<close>

theorem port_channel_info_roundtrip:
  assumes "lif_type (lif_of A l) \<noteq> IF_T_PORT" "rb_sorted vlan_node_compare (lif_vlan_tree (lif_of A l))"
    "length (lif_vlan_tree (lif_of A l)) \<le> 4096"
    "mlacp_prepare_for_port_channel_info a CSM_BUFFER_SIZE l A = (len, buf, A')"
    "\<forall>i. env_malloc B i" "peer_po (csm_of B c) (word_of_int (lif_po_id (lif_of A l))) = Some pif"
    "rb_sorted vlan_node_compare (pif_vlan_tree pif)"
  shows "\<exists>msg t pif'. iccp_csm_enqueue_msg buf (csm_of B c) = Some (mlacp_enqueue_msg msg (csm_of B c)) \<and>
    mlacp_fsm_update_port_channel_info c (drop 16 msg) B = Some t \<and>
    peer_po (csm_of t c) (word_of_int (lif_po_id (lif_of A l))) = Some pif' \<and>
    map vl_vid (pif_vlan_tree pif') = map vl_vid (lif_vlan_tree (lif_of A l)) \<and>
    pif_ipv4_addr pif' = lif_ipv4_addr (lif_of A l) \<and> pif_l3_mode pif' = lif_l3_mode (lif_of A l)"
proof -
  let ?lif = "lif_of A l" and ?vids = "map vl_vid (lif_vlan_tree (lif_of A l))"
  let ?po = "word_of_int (lif_po_id (lif_of A l)) :: u16" and ?n = "word_of_nat (length (lif_vlan_tree (lif_of A l))) :: u16"
  define body where "body = le16 (htons ?po) @ c_array MAX_L_PORT_NAME (lif_name ?lif) @
    [word_of_nat (min (length (lif_name ?lif)) MAX_L_PORT_NAME), lif_l3_mode ?lif] @
    le32 (htonl (lif_ipv4_addr ?lif)) @ le16 (htons ?po) @ le16 (htons ?n)"
  let ?tail = "body @ concat (map (\<lambda>v. le16 (htons v)) ?vids)"
  have lens: "length body = 32" "length (concat (map (\<lambda>v. le16 (htons v)) ?vids)) = 2 * length ?vids"
    using le16_codec.length_concat_ser [of "map htons ?vids"] by (simp_all add: body_def comp_def MAX_L_PORT_NAME_def)
  have "app_data_msg a CSM_BUFFER_SIZE
      (ser_ICCParameter (icc_param TLV_T_MLACP_PORT_CHANNEL_INFO (32 + 2 * length ?vids)) @ ?tail) A = (len, buf, A')"
    using assms(1,4) by (simp add: mlacp_prepare_for_port_channel_info_def Let_def body_def
        ser_mLACPPortChannelInfoTLV_def comp_def)
  from app_data_delivered [OF _ this, of "csm_of B c"] assms(3) lens
  obtain msg where msg: "iccp_csm_enqueue_msg buf (csm_of B c) = Some (mlacp_enqueue_msg msg (csm_of B c))"
      "drop 16 msg = le16 TLV_T_MLACP_PORT_CHANNEL_INFO @ le16 (htons (word_of_nat (32 + 2 * length ?vids))) @ ?tail"
    by (auto simp: CSM_BUFFER_SIZE_def)
  have "unat ?n = length ?vids" using assms(3) by (simp add: unat_of_nat take_bit_eq_mod)
  moreover obtain t where t: "de_mLACPPortChannelInfoTLV (drop 16 msg) = Some (t, concat (map (\<lambda>v. le16 (htons v)) ?vids))"
      "pc_num_of_vlan_id t = htons ?n" "pc_agg_id t = htons ?po" "pc_ipv4_addr t = htonl (lif_ipv4_addr ?lif)"
      "pc_l3_mode t = lif_l3_mode ?lif"
    unfolding msg(2) body_def by (simp add: de_mLACPPortChannelInfoTLV_def de_ICCParameter_def)
  ultimately show ?thesis
    using port_channel_info_applied [OF t(1) _ _ assms(5) _ assms(7), of c] assms(2,6) msg(1)
    by (auto simp: t sorted_vids)
qed


text \<open>A node with a port channel in two VLANs, and its peer, which knows the port channel in another one.\<close>

definition a_vlan_port :: System where
  "a_vlan_port = (a_host (\<lambda>_. SendErr))\<lparr>sys_csm_list := [0], sys_lif_list := [0],
     sys_lif_heap := (\<lambda>_. zero_LocalInterface\<lparr>lif_type := IF_T_PORT_CHANNEL, lif_name := ''Po1'', lif_po_id := 1,
       lif_mac_addr := [0, 0, 0, 0, 0, 7], lif_vlan_count := 2, lif_vlan_tree := [vlan_key 3, vlan_key 5]\<rparr>)\<rparr>"

definition a_vlan_peer :: System where
  "a_vlan_peer = (a_host (\<lambda>_. SendErr))\<lparr>sys_csm_list := [0], sys_csm_heap := (\<lambda>_. upd_mlacp (\<lambda>m. m\<lparr>ml_pif_list :=
     [zero_PeerInterface\<lparr>pif_type := IF_T_PORT_CHANNEL, pif_name := ''Po1'', pif_po_id := 1,
       pif_vlan_tree := [vlan_key 4]\<rparr>]\<rparr>) zero_CSM)\<rparr>"

theorem port_channel_info_roundtrip_witness:
  "\<exists>len buf A' msg t pif'. mlacp_prepare_for_port_channel_info 0 CSM_BUFFER_SIZE 0 a_vlan_port = (len, buf, A') \<and>
    iccp_csm_enqueue_msg buf (csm_of a_vlan_peer 0) = Some (mlacp_enqueue_msg msg (csm_of a_vlan_peer 0)) \<and>
    mlacp_fsm_update_port_channel_info 0 (drop 16 msg) a_vlan_peer = Some t \<and>
    peer_po (csm_of t 0) 1 = Some pif' \<and> map vl_vid (pif_vlan_tree pif') = [3, 5]"
proof -
  obtain len buf A' where m: "mlacp_prepare_for_port_channel_info 0 CSM_BUFFER_SIZE 0 a_vlan_port = (len, buf, A')"
    by (metis prod_cases3)
  have r: "lif_type (lif_of a_vlan_port 0) \<noteq> IF_T_PORT" "lif_vlan_tree (lif_of a_vlan_port 0) = [vlan_key 3, vlan_key 5]"
    "lif_po_id (lif_of a_vlan_port 0) = 1" "map_option pif_vlan_tree (peer_po (csm_of a_vlan_peer 0) 1) = Some [vlan_key 4]"
    by code_simp+
  then obtain pif where pif: "peer_po (csm_of a_vlan_peer 0) 1 = Some pif" "pif_vlan_tree pif = [vlan_key 4]"
    by auto
  have "env_malloc a_vlan_peer i" for i by (simp add: a_vlan_peer_def a_host_def)
  with port_channel_info_roundtrip [OF r(1) _ _ m, of a_vlan_peer 0 pif] pif r(2,3) m show ?thesis
    by (auto simp: sorted_vids)
qed

section \<open>Announcing a port channel\<close>

text \<open>What the update of the neighbours of a port channel leaves alone.\<close>

definition same_ports :: "System \<Rightarrow> System \<Rightarrow> bool" where
  "same_ports s t \<longleftrightarrow> (\<forall>d. ml_pif_list (MLACP (csm_of t d)) = ml_pif_list (MLACP (csm_of s d)) \<and>
     ml_current_state (MLACP (csm_of t d)) = ml_current_state (MLACP (csm_of s d)))"

lemma same_ports_refl [simp]: "same_ports s s"
  by (simp add: same_ports_def)

lemma same_ports_trans: "same_ports s t \<Longrightarrow> same_ports t u \<Longrightarrow> same_ports s u"
  by (simp add: same_ports_def)

lemma same_ports_heap: "sys_csm_heap t = sys_csm_heap s \<Longrightarrow> same_ports s t"
  by (simp add: same_ports_def)

lemma same_ports_foldl: "(\<And>s x. same_ports s (f s x)) \<Longrightarrow> same_ports s (foldl f s xs)"
  by (rule foldl_invariant) (auto intro: same_ports_trans)

lemma same_ports_request [simp]: "same_ports s (snd (iccp_netlink_neighbor_request v a b m n p s))"
  by (auto simp: iccp_netlink_neighbor_request_def kernel_def split: option.split intro!: same_ports_heap)

lemma same_ports_set_l3 [simp]: "same_ports s (set_l3_itf_state c l r s)"
proof -
  have handlers: "same_ports s (arp_set_handler c l b s)" "same_ports s (ndisc_set_handler c l b s)" for b s
    by (auto simp: arp_set_handler_def ndisc_set_handler_def intro!: same_ports_foldl)
  then show ?thesis
    by (cases r) (auto simp: set_l3_itf_state_def intro: same_ports_trans [OF handlers])
qed

lemma same_ports_upd_ml:
  "(\<And>m. ml_pif_list (f m) = ml_pif_list m \<and> ml_current_state (f m) = ml_current_state m) \<Longrightarrow> same_ports s (upd_ml c f s)"
  by (simp add: same_ports_def upd_ml_def upd_csm_def upd_mlacp_def upd_app_def)

lemma same_ports_copied: "msg_copied s = (ok, t) \<Longrightarrow> same_ports s t"
  using msg_copied_sel [of s] by (intro same_ports_heap) simp

lemma same_ports_enqueue [simp]: "same_ports s (arp_enqueue c a s)" "same_ports s (ndisc_enqueue c n s)"
  by (auto simp: arp_enqueue_def ndisc_enqueue_def split: prod.split dest!: same_ports_copied
      intro: same_ports_trans [OF _ same_ports_upd_ml])

lemma same_ports_resend [simp]: "same_ports s (syn_arp_info_to_peer c l s)" "same_ports s (syn_ndisc_info_to_peer c l s)"
  unfolding syn_arp_info_to_peer_def syn_ndisc_info_to_peer_def arp_resend_def ndisc_resend_def Let_def
  by (rule same_ports_trans [OF same_ports_upd_ml same_ports_foldl]; simp)+

lemma same_ports_stp_itf: "same_ports s (stp_peer_link_itf c l b q s)"
  by (auto simp: stp_peer_link_itf_def Let_def intro: same_ports_trans same_ports_set_l3 same_ports_resend)

lemma same_ports_stp: "same_ports s (update_stp_peer_link c pif b n s)"
  by (auto simp: update_stp_peer_link_def split: option.split
      intro!: same_ports_foldl same_ports_stp_itf)


lemma find_split:
  "find P xs = Some x \<Longrightarrow> \<exists>as bs. xs = as @ x # bs \<and> (\<forall>a \<in> set as. \<not> P a) \<and> P x"
proof (induction xs)
  case (Cons y ys)
  show ?case
  proof (cases "P y")
    case True
    then show ?thesis using Cons.prems by (intro exI [of _ "[]"] exI [of _ ys]) simp
  next
    case False
    then obtain as bs where "ys = as @ x # bs \<and> (\<forall>a \<in> set as. \<not> P a) \<and> P x" using Cons by auto
    then have "y # ys = (y # as) @ x # bs \<and> (\<forall>a \<in> set (y # as). \<not> P a) \<and> P x" using False by simp
    then show ?thesis by blast
  qed
qed simp

lemma update_first_split: "x \<notin> set as \<Longrightarrow> update_first (\<lambda>r. r = x) (\<lambda>_. y) (as @ x # bs) = as @ y # bs"
  by (induction as) auto

lemma pif_assign_split:
  assumes "ml_pif_list (MLACP (csm_of s c)) = as @ p # bs" "p \<notin> set as"
  shows "ml_pif_list (MLACP (csm_of (pif_assign c p q s) c)) = as @ q # bs"
    "ml_current_state (MLACP (csm_of (pif_assign c p q s) c)) = ml_current_state (MLACP (csm_of s c))"
  using assms by (simp_all add: pif_assign_def upd_csm_def upd_pifs_def upd_mlacp_def upd_app_def update_first_split)

lemma agg_conf_update_done:
  assumes "ml_pif_list (MLACP (csm_of s c)) = as @ pif # bs" "pif \<notin> set as" "\<forall>a \<in> set as. pif_name a \<noteq> name"
    "name_overwritten (pif_name pif) (ac_agg_name t) (unat (ac_agg_name_len t)) = Some name"
    "ml_current_state (MLACP (csm_of s c)) \<noteq> MLACP_STATE_EXCHANGE"
  shows "\<exists>u. agg_conf_update c t n pif new s = Some u \<and> ml_pif_list (MLACP (csm_of u c)) = as @
    pif\<lparr>pif_name := name, pif_mac_addr := ac_mac_addr t, pif_po_id := uint (ntohs (ac_agg_id t)),
        pif_po_active := (if pif_state pif = PORT_STATE_UP then 1 else 0)\<rparr> # bs"
proof -
  define p1 where "p1 = pif\<lparr>pif_po_id := uint (ntohs (ac_agg_id t)), pif_name := name, pif_mac_addr := ac_mac_addr t\<rparr>"
  define up where "up \<longleftrightarrow> pif_state pif = PORT_STATE_UP"
  define p2 where "p2 = p1\<lparr>pif_po_active := (if up then 1 else 0)\<rparr>"
  define s2 where "s2 = update_stp_peer_link c p1 up new (pif_assign c pif p1 s)"
  define s4 where "s4 = pif_assign c p1 p2 s2"
  have nm: "pif_name p2 = name" by (simp add: p2_def p1_def)
  have p1: "p1 \<notin> set as" "pif_state p1 = pif_state pif" using assms(3) by (auto simp: p1_def)
  have s2: "ml_pif_list (MLACP (csm_of s2 c)) = as @ p1 # bs" "ml_current_state (MLACP (csm_of s2 c)) \<noteq> MLACP_STATE_EXCHANGE"
    using same_ports_stp [of "pif_assign c pif p1 s" c p1 up new] pif_assign_split [OF assms(1,2)] assms(5)
    by (simp_all add: same_ports_def s2_def)
  then have "update_peerlink_isolate_from_pif c p1 up new s2 = Some s2"
    by (simp add: update_peerlink_isolate_from_pif_def)
  then have r: "agg_conf_update c t n pif new s = Some (if new then
      let s5 = snd (mlacp_link_set_remote_if_state (csm_mlag_id (csm_of s4 c)) name up s4)
      in if csm_role_type (csm_of s5 c) = STP_ROLE_STANDBY
         then case local_if_find_by_name n s5 of None \<Rightarrow> s5 | Some l \<Rightarrow> update_if_ipmac_on_standby l s5 else s5
      else s4)"
    using assms(4) p1(2)
    by (simp add: agg_conf_update_def p1_def [symmetric] s2_def [symmetric] up_def [symmetric] p2_def [symmetric]
        s4_def [symmetric] Let_def nm)
  have heap: "sys_csm_heap (snd (mlacp_link_set_remote_if_state i nm b v)) = sys_csm_heap v"
    "sys_csm_heap (update_if_ipmac_on_standby l v) = sys_csm_heap v" for i nm b v l
    using only_syncd_frame(1) [OF syncd_request_counted_only_syncd] addr_only_update_if [of v l]
    by (simp_all add: mlacp_link_set_remote_if_state_def addr_only_def)
  have "ml_pif_list (MLACP (csm_of s4 c)) = as @ p2 # bs"
    using pif_assign_split(1) [OF s2(1) p1(1)] by (simp add: s4_def)
  then show ?thesis unfolding r by (auto simp: Let_def heap p2_def p1_def up_def split: option.split)
qed


lemma agg_conf_update_None:
  assumes "ml_current_state (MLACP (csm_of s c)) \<noteq> MLACP_STATE_EXCHANGE"
  shows "agg_conf_update c t n pif new s = None \<longleftrightarrow>
    name_overwritten (pif_name pif) (ac_agg_name t) (unat (ac_agg_name_len t)) = None"
proof -
  have "ml_current_state (MLACP (csm_of (pif_assign c p q v) c)) = ml_current_state (MLACP (csm_of v c))" for p q v
    by (simp add: pif_assign_def upd_csm_def upd_pifs_def upd_mlacp_def upd_app_def)
  moreover have "ml_current_state (MLACP (csm_of (update_stp_peer_link c p b new v) c)) =
      ml_current_state (MLACP (csm_of v c))" for p b v
    using same_ports_stp by (simp add: same_ports_def)
  ultimately show ?thesis
    using assms by (auto simp: agg_conf_update_def update_peerlink_isolate_from_pif_def Let_def bind_eq_None_conv)
qed

lemma name_overwritten_same:
  assumes "c_name MAX_L_PORT_NAME n" "old = [] \<or> old = n"
  shows "name_overwritten old (c_array MAX_L_PORT_NAME n) (length n) = Some n"
proof -
  have "take (length n) (c_array MAX_L_PORT_NAME n) @ drop (length n) (c_array MAX_L_PORT_NAME old) = c_array MAX_L_PORT_NAME n"
    using assms by (auto simp: c_array_name c_name_def c_array_def)
  with assms(1) show ?thesis by (simp add: name_overwritten_def c_name_def)
qed

lemma name_overwritten_None:
  assumes "c_name MAX_L_PORT_NAME old" "0 \<in> set arr" "length arr = MAX_L_PORT_NAME"
  shows "name_overwritten old arr n = None \<longleftrightarrow> MAX_L_PORT_NAME < n"
proof -
  have "0 \<in> set (take n arr @ drop n (c_array MAX_L_PORT_NAME old))" if n: "n \<le> MAX_L_PORT_NAME"
  proof (cases "n = MAX_L_PORT_NAME")
    case False
    then show ?thesis using assms(1) n by (auto simp: c_array_name c_name_def)
  qed (use assms(2,3) in simp)
  then show ?thesis by (auto simp: name_overwritten_def c_string_def)
qed


lemma find_append_Cons: "find P (as @ x # bs) = (case find P as of None \<Rightarrow> if P x then Some x else find P bs | r \<Rightarrow> r)"
  by (induction as) auto

lemma peer_if_create_po:
  assumes "\<forall>i. env_malloc s i" "0 \<le> k"
  shows "\<exists>pif t. peer_if_create c k IF_T_PORT_CHANNEL s = (Some pif, t) \<and> pif_name pif = [] \<and>
    ml_pif_list (MLACP (csm_of t c)) = pif # ml_pif_list (MLACP (csm_of s c)) \<and>
    ml_current_state (MLACP (csm_of t c)) = ml_current_state (MLACP (csm_of s c)) \<and> pif_state pif = PORT_STATE_UP"
  using assms by (simp add: peer_if_create_def malloc_def Let_def zero_PeerInterface_def upd_csm_def upd_pifs_def
      upd_mlacp_def upd_app_def PORT_STATE_UP_def)

lemma agg_conf_announced:
  assumes "de_mLACPAggConfigTLV tlv = Some (t, r)" "c_name MAX_L_PORT_NAME n"
    "ac_agg_name t = c_array MAX_L_PORT_NAME n" "unat (ac_agg_name_len t) = length n" "ac_flags t = 1"
    "\<forall>i. env_malloc s i" "ml_current_state (MLACP (csm_of s c)) \<noteq> MLACP_STATE_EXCHANGE"
  shows "\<exists>u pif. mlacp_fsm_update_Agg_conf c tlv s = Some (0, u) \<and> peer_if_find_by_name (csm_of u c) n = Some pif \<and>
    pif_po_id pif = uint (ntohs (ac_agg_id t)) \<and> pif_mac_addr pif = ac_mac_addr t \<and>
    (\<forall>k. k \<noteq> n \<longrightarrow> peer_if_find_by_name (csm_of u c) k = peer_if_find_by_name (csm_of s c) k)"
proof (cases "peer_if_find_by_name (csm_of s c) n")
  case None
  obtain pif v where v: "peer_if_create c (uint (ntohs (ac_agg_id t))) IF_T_PORT_CHANNEL s = (Some pif, v)"
      "pif_name pif = []" "ml_pif_list (MLACP (csm_of v c)) = [] @ pif # ml_pif_list (MLACP (csm_of s c))"
      "ml_current_state (MLACP (csm_of v c)) = ml_current_state (MLACP (csm_of s c))"
    using peer_if_create_po [OF assms(6), of "uint (ntohs (ac_agg_id t))" c] by auto
  from agg_conf_update_done [OF v(3), of n t n True] name_overwritten_same [OF assms(2)] v(2,4) assms(3,4,7)
  obtain u where "agg_conf_update c t n pif True v = Some u" "ml_pif_list (MLACP (csm_of u c)) =
      pif\<lparr>pif_name := n, pif_mac_addr := ac_mac_addr t, pif_po_id := uint (ntohs (ac_agg_id t)),
        pif_po_active := (if pif_state pif = PORT_STATE_UP then 1 else 0)\<rparr> # ml_pif_list (MLACP (csm_of s c))"
    by auto
  with None v(1) assms(1-3,5) show ?thesis
    by (simp add: mlacp_fsm_update_Agg_conf_def) (simp add: peer_if_find_by_name_def)
next
  case (Some pif)
  then obtain as bs where split: "ml_pif_list (MLACP (csm_of s c)) = as @ pif # bs" "\<forall>a \<in> set as. pif_name a \<noteq> n"
      "pif_name pif = n"
    using find_split [of "\<lambda>p. pif_name p = n" "ml_pif_list (MLACP (csm_of s c))" pif]
    by (auto simp: peer_if_find_by_name_def)
  then have "pif \<notin> set as" by auto
  from agg_conf_update_done [OF split(1) this split(2), of t n False] name_overwritten_same [OF assms(2)] split(3) assms(3,4,7)
  obtain u where "agg_conf_update c t n pif False s = Some u" "ml_pif_list (MLACP (csm_of u c)) = as @
      pif\<lparr>pif_name := n, pif_mac_addr := ac_mac_addr t, pif_po_id := uint (ntohs (ac_agg_id t)),
        pif_po_active := (if pif_state pif = PORT_STATE_UP then 1 else 0)\<rparr> # bs"
    by auto
  moreover have "find (\<lambda>p. pif_name p = n) as = None" using split(2) by (simp add: find_None_iff)
  ultimately show ?thesis
    using Some split assms(1-3,5)
    by (simp add: mlacp_fsm_update_Agg_conf_def) (auto simp: peer_if_find_by_name_def find_append_Cons split: option.split)
qed

text \<open>
  C14. A port channel becomes known to the peer: during the initial synchronisation, the
  configuration message of one node, queued at the other and applied there, returns successfully and
  leaves a peer interface with the name, the number and the hardware address of the port channel,
  whether or not it was known before; all other peer interfaces are found as before.
\<close>

theorem agg_config_roundtrip:
  assumes "c_name MAX_L_PORT_NAME (lif_name (lif_of A l))" "length (lif_mac_addr (lif_of A l)) = 6"
    "mlacp_prepare_for_Aggport_config a CSM_BUFFER_SIZE l False A = (len, buf, A')"
    "\<forall>i. env_malloc B i" "ml_current_state (MLACP (csm_of B c)) \<noteq> MLACP_STATE_EXCHANGE"
  shows "\<exists>msg t pif. iccp_csm_enqueue_msg buf (csm_of B c) = Some (mlacp_enqueue_msg msg (csm_of B c)) \<and>
    mlacp_fsm_update_Agg_conf c (drop 16 msg) B = Some (0, t) \<and>
    peer_if_find_by_name (csm_of t c) (lif_name (lif_of A l)) = Some pif \<and>
    pif_po_id pif = uint (word_of_int (lif_po_id (lif_of A l)) :: u16) \<and>
    pif_mac_addr pif = lif_mac_addr (lif_of A l) \<and>
    (\<forall>k. k \<noteq> lif_name (lif_of A l) \<longrightarrow> peer_if_find_by_name (csm_of t c) k = peer_if_find_by_name (csm_of B c) k)"
proof -
  let ?lif = "lif_of A l"
  define body where "body = replicate 8 0 @ le16 (htons (word_of_int (lif_po_id ?lif))) @ lif_mac_addr ?lif @
    le16 0 @ le16 0 @ [1, word_of_nat (length (lif_name ?lif))] @ c_array MAX_L_PORT_NAME (lif_name ?lif)"
  have "length body = 42" using assms(2) by (simp add: body_def MAX_L_PORT_NAME_def)
  moreover have "app_data_msg a CSM_BUFFER_SIZE (ser_ICCParameter (icc_param TLV_T_MLACP_AGGREGATOR_CONFIG 42) @ body) A =
      (len, buf, A')"
    using assms(3) by (simp add: mlacp_prepare_for_Aggport_config_def Let_def body_def ser_mLACPAggConfigTLV_def)
  ultimately obtain msg where msg: "iccp_csm_enqueue_msg buf (csm_of B c) = Some (mlacp_enqueue_msg msg (csm_of B c))"
      "drop 16 msg = le16 TLV_T_MLACP_AGGREGATOR_CONFIG @ le16 (htons (word_of_nat 42)) @ body"
    using app_data_delivered [of TLV_T_MLACP_AGGREGATOR_CONFIG a CSM_BUFFER_SIZE 42 body A len buf A' "csm_of B c"]
    by (auto simp: CSM_BUFFER_SIZE_def)
  have "unat (word_of_nat (length (lif_name ?lif)) :: u8) = length (lif_name ?lif)"
    using assms(1) by (simp add: c_name_def MAX_L_PORT_NAME_def unat_of_nat take_bit_eq_mod)
  moreover obtain t r where "de_mLACPAggConfigTLV (drop 16 msg) = Some (t, r)" "ac_flags t = 1"
      "ac_agg_name t = c_array MAX_L_PORT_NAME (lif_name ?lif)" "ac_agg_name_len t = word_of_nat (length (lif_name ?lif))"
      "ac_agg_id t = htons (word_of_int (lif_po_id ?lif))" "ac_mac_addr t = lif_mac_addr ?lif"
    unfolding msg(2) body_def using assms(2)
    by (simp add: de_mLACPAggConfigTLV_def de_ICCParameter_def ETHER_ADDR_LEN_def
        bytes_codec.de_ser_exact [of "c_array _ _", simplified])
  ultimately show ?thesis
    using agg_conf_announced [of "drop 16 msg" t r "lif_name ?lif" B c] assms(1,4,5) msg(1) by auto
qed


theorem agg_config_roundtrip_witness:
  "\<exists>len buf A' msg t pif. mlacp_prepare_for_Aggport_config 0 CSM_BUFFER_SIZE 0 False a_vlan_port = (len, buf, A') \<and>
    iccp_csm_enqueue_msg buf (csm_of a_vlan_peer 0) = Some (mlacp_enqueue_msg msg (csm_of a_vlan_peer 0)) \<and>
    mlacp_fsm_update_Agg_conf 0 (drop 16 msg) a_vlan_peer = Some (0, t) \<and>
    peer_if_find_by_name (csm_of t 0) ''Po1'' = Some pif \<and> pif_mac_addr pif = [0, 0, 0, 0, 0, 7]"
proof -
  obtain len buf A' where m: "mlacp_prepare_for_Aggport_config 0 CSM_BUFFER_SIZE 0 False a_vlan_port = (len, buf, A')"
    by (metis prod_cases3)
  have r: "c_name MAX_L_PORT_NAME (lif_name (lif_of a_vlan_port 0))" "lif_name (lif_of a_vlan_port 0) = ''Po1''"
    "lif_mac_addr (lif_of a_vlan_port 0) = [0, 0, 0, 0, 0, 7]"
    "ml_current_state (MLACP (csm_of a_vlan_peer 0)) \<noteq> MLACP_STATE_EXCHANGE"
    by code_simp+
  have "env_malloc a_vlan_peer i" for i by (simp add: a_vlan_peer_def a_host_def)
  with agg_config_roundtrip [OF r(1) _ m _ r(4)] r(2,3) m show ?thesis by auto
qed

text \<open>
  C37. When the configuration message of the peer has an undefined effect, during the initial
  synchronisation and for a terminated name: exactly when it is not a withdrawal and either its name
  length exceeds the arrays of 20 bytes, which are overrun then, or it names an unknown port channel
  without the flag that asks to create it, and the daemon goes on with a \<open>NULL\<close> pointer.
\<close>

theorem mlacp_fsm_update_Agg_conf_undefined:
  assumes "de_mLACPAggConfigTLV tlv = Some (t, r)" "c_string (ac_agg_name t) = Some n"
    "\<forall>p \<in> set (ml_pif_list (MLACP (csm_of s c))). c_name MAX_L_PORT_NAME (pif_name p)"
    "\<forall>i. env_malloc s i" "ml_current_state (MLACP (csm_of s c)) \<noteq> MLACP_STATE_EXCHANGE"
  shows "mlacp_fsm_update_Agg_conf c tlv s = None \<longleftrightarrow> ac_flags t AND 2 = 0 \<and>
    (20 < unat (ac_agg_name_len t) \<or> peer_if_find_by_name (csm_of s c) n = None \<and> ac_flags t AND 1 = 0)"
proof -
  have arr: "0 \<in> set (ac_agg_name t)" "length (ac_agg_name t) = MAX_L_PORT_NAME"
    using assms(1,2) by (auto simp: c_string_def de_mLACPAggConfigTLV_def de_bytes_def bind_eq_Some_conv
        split: if_splits prod.splits)
  have upd: "agg_conf_update c t n pif new v = None \<longleftrightarrow> 20 < unat (ac_agg_name_len t)"
    if "c_name MAX_L_PORT_NAME (pif_name pif)" "ml_current_state (MLACP (csm_of v c)) \<noteq> MLACP_STATE_EXCHANGE"
    for pif new v
    using agg_conf_update_None [OF that(2)] name_overwritten_None [OF that(1) arr] by (simp add: MAX_L_PORT_NAME_def)
  show ?thesis
  proof (cases "peer_if_find_by_name (csm_of s c) n")
    case None
    obtain pif v where "peer_if_create c (uint (ntohs (ac_agg_id t))) IF_T_PORT_CHANNEL s = (Some pif, v)"
        "pif_name pif = []" "ml_current_state (MLACP (csm_of v c)) = ml_current_state (MLACP (csm_of s c))"
      using peer_if_create_po [OF assms(4), of "uint (ntohs (ac_agg_id t))" c] by auto
    with None assms(1,2,5) upd [of pif v True] show ?thesis
      by (auto simp: mlacp_fsm_update_Agg_conf_def c_name_def MAX_L_PORT_NAME_def)
  next
    case (Some pif)
    then have "c_name MAX_L_PORT_NAME (pif_name pif)" using assms(3) find_SomeD by (fastforce simp: peer_if_find_by_name_def)
    with Some assms(1,2,5) upd [of pif s False] show ?thesis by (simp add: mlacp_fsm_update_Agg_conf_def)
  qed
qed

definition a_bad_config :: bytes where
  "a_bad_config = ser_mLACPAggConfigTLV \<lparr>ac_icc_parameter = icc_param TLV_T_MLACP_AGGREGATOR_CONFIG 42,
     ac_ro_id = replicate 8 0, ac_agg_id = htons 1, ac_mac_addr = replicate 6 0, ac_actor_key = 0,
     ac_member_ports_priority = 0, ac_flags = 0, ac_agg_name_len = 3, ac_agg_name = c_array MAX_L_PORT_NAME ''Po2''\<rparr>"

theorem mlacp_fsm_update_Agg_conf_undefined_witness:
  "mlacp_fsm_update_Agg_conf 0 a_bad_config a_vlan_peer = None"
proof -
  have r: "map_option (\<lambda>(t, r). (ac_flags t, c_string (ac_agg_name t))) (de_mLACPAggConfigTLV a_bad_config) =
      Some (0, Some ''Po2'')"
    "list_all (\<lambda>p. c_name MAX_L_PORT_NAME (pif_name p)) (ml_pif_list (MLACP (csm_of a_vlan_peer 0)))"
    "peer_if_find_by_name (csm_of a_vlan_peer 0) ''Po2'' = None"
    "ml_current_state (MLACP (csm_of a_vlan_peer 0)) \<noteq> MLACP_STATE_EXCHANGE"
    by code_simp+
  then obtain t rest where t: "de_mLACPAggConfigTLV a_bad_config = Some (t, rest)" "ac_flags t = 0"
      "c_string (ac_agg_name t) = Some ''Po2''" by auto
  have "env_malloc a_vlan_peer i" for i by (simp add: a_vlan_peer_def a_host_def)
  with mlacp_fsm_update_Agg_conf_undefined [OF t(1,3) _ _ r(4)] r(2,3) t(2) show ?thesis by (simp add: list_all_iff)
qed


end
