(* ===== verification/Link_Events.thy ===== *)
theory Link_Events
  imports Peer_Update
begin

text \<open>
  What happens when the session with the peer comes up or goes down, and when the peer link does
  (\<open>mlacp_link_handler.c\<close>): the MAC table, port isolation, the hardware addresses of the standby node
  and the reports to mclagsyncd. The counters of these events in the system record are statistics
  nothing reads, and are left out.
\<close>

section \<open>The session\<close>

text \<open>\<open>mlacp_fix_bridge_mac\<close>: the bridge keeps the system id as its own address.\<close>

definition mlacp_fix_bridge_mac :: "csm_ptr \<Rightarrow> System \<Rightarrow> System" where
  "mlacp_fix_bridge_mac c s =
     (let id = ml_system_id (MLACP (csm_of s c))
      in if memcmp id (replicate 6 0) \<noteq> 0
         then snd (kernel (ShellCmd (''ip link set dev Bridge address '' @ mac_str id @ '' > /dev/null 2>&1'')) s)
         else s)"

definition mlacp_conn_handler_fdb :: "csm_ptr \<Rightarrow> System \<Rightarrow> System" where
  "mlacp_conn_handler_fdb c s = mlacp_sync_mac c s"

definition mlacp_peer_conn_handler :: "csm_ptr \<Rightarrow> System \<Rightarrow> System option" where
  "mlacp_peer_conn_handler c s =
     (let s1 = (if csm_warm_reboot_disconn_time (csm_of s c) \<noteq> 0
                then upd_csm c (\<lambda>m. m\<lparr>csm_warm_reboot_disconn_time := 0\<rparr>) s else s);
          s2 = (case csm_peer_link_if (csm_of s1 c) of None \<Rightarrow> s1
                | Some l \<Rightarrow> set_peerlink_learn_kernel c False (set_peerlink_mlag_port_learn (Some l) False s1));
          s3 = (if sys_once_connected s2 then s2
                else mlacp_fix_bridge_mac c (s2\<lparr>sys_once_connected := True\<rparr>));
          s4 = mlacp_conn_handler_fdb c s3
      in do {
        s5 \<leftarrow> fold_opt (\<lambda>l s. if lif_type (lif_of s l) = IF_T_PORT_CHANNEL
                then mlacp_portchannel_state_handler c l (lif_state (lif_of s l) = PORT_STATE_UP) s else Some s)
              (ml_lif_list (MLACP (csm_of s4 c))) s4;
        let s6 = snd (mlacp_link_set_iccp_state (csm_mlag_id (csm_of s5 c)) True s5);
        let s7 = foldl (\<lambda>s p. snd (mlacp_link_set_remote_if_state (csm_mlag_id (csm_of s c)) (pif_name p)
                     (pif_state p = PORT_STATE_UP) s)) s6 (ml_pif_list (MLACP (csm_of s6 c)));
        s8 \<leftarrow> update_peerlink_isolate_from_all_csm_lif c s7;
        let s9 = (case csm_peer_link_if (csm_of s8 c) of None \<Rightarrow> s8
                  | Some l \<Rightarrow> update_vlan_if_mac_on_iccp_up l True None s8);
        Some (sync_unique_ip s9) })"

text \<open>The rest of \<open>mlacp_peer_disconn_handler\<close>, once neither this node nor the peer is in a warm reboot.\<close>

definition session_lost :: "csm_ptr \<Rightarrow> System \<Rightarrow> System option" where
  "session_lost c s = do {
     let s1 = mlacp_peer_disconn_fdb_handler c s;
     let s2 = snd (mlacp_link_set_iccp_state (csm_mlag_id (csm_of s1 c)) False s1);
     s3 \<leftarrow> peerlink_port_isolate_cleanup c s2;
     let remote_system_mac = rs_system_id (ml_remote_system (MLACP (csm_of s3 c)));
     let s4 = upd_ml c (\<lambda>m. m\<lparr>ml_remote_system := (ml_remote_system m)\<lparr>rs_system_id := replicate 6 0\<rparr>\<rparr>) s3;
     let s5 = foldl (\<lambda>s l.
           let s' = (if csm_role_type (csm_of s c) = STP_ROLE_STANDBY then recover_if_ipmac_on_standby l s else s)
           in if lif_is_traffic_disable (lif_of s' l) then mlacp_link_enable_traffic_distribution l s' else s')
         s4 (ml_lif_list (MLACP (csm_of s4 c)));
     let s6 = (case csm_peer_link_if (csm_of s5 c) of None \<Rightarrow> s5
               | Some l \<Rightarrow> update_vlan_if_mac_on_iccp_up l False (Some remote_system_mac) s5);
     let s7 = (if csm_role_type (csm_of s6 c) = STP_ROLE_STANDBY
               then snd (mlacp_link_set_iccp_system_id (csm_mlag_id (csm_of s6 c))
                      (ml_system_id (MLACP (csm_of s6 c))) s6) else s6);
     Some (foldl (\<lambda>s p. snd (mlacp_link_del_remote_if_info (csm_mlag_id (csm_of s c)) (pif_name p) s))
       s7 (ml_pif_list (MLACP (csm_of s7 c)))) }"

definition mlacp_peer_disconn_handler :: "csm_ptr \<Rightarrow> System \<Rightarrow> System option" where
  "mlacp_peer_disconn_handler c s =
     (if sys_warmboot_exit s = WARM_REBOOT then Some s
      else if csm_peer_warm_reboot_time (csm_of s c) \<noteq> 0
      then Some (upd_csm c (\<lambda>m. m\<lparr>csm_peer_warm_reboot_time := 0, csm_warm_reboot_disconn_time := env_time s\<rparr>) s)
      else session_lost c s)"

section \<open>The peer link\<close>

definition mlacp_peer_link_learning_handler :: "csm_ptr \<Rightarrow> System \<Rightarrow> System" where
  "mlacp_peer_link_learning_handler c s =
     (case csm_peer_link_if (csm_of s c) of None \<Rightarrow> s
      | Some l \<Rightarrow>
          if lif_vlan_count (lif_of s l) = 0 then s
          else if csm_peer_link_learning_retry_time (csm_of s c) \<noteq> 0
                  \<and> 2 < env_time s - csm_peer_link_learning_retry_time (csm_of s c)
          then set_peerlink_learn_kernel c (csm_peer_link_learning_enable (csm_of s c) \<noteq> 0) s
          else s)"

end
