(* ===== verification/Mlacp_Fsm.thy ===== *)
theory Mlacp_Fsm
  imports Link_Events
begin

text \<open>
  The state machine of the synchronisation layer (\<open>mlacp_fsm.c\<close>). In the first stage the active node
  sends all it has and the standby node asks for it; in the second stage the roles are exchanged;
  then the two nodes exchange changes. A message is the byte list from the header on, with the types
  already in host byte order; \<open>None\<close> is a read outside of the message, or another access without a
  defined result.
\<close>

section \<open>Enumerations\<close>

definition WARM_REBOOT_TIMEOUT :: int where [const_defs]: "WARM_REBOOT_TIMEOUT = 90"
definition IF_UP_ACK_TYPE_PORT_CHANNEL :: u8 where [const_defs]: "IF_UP_ACK_TYPE_PORT_CHANNEL = 1"
definition PORT_ISOLATION_STATE_ENABLE :: u8 where [const_defs]: "PORT_ISOLATION_STATE_ENABLE = 1"

text \<open>\<open>current_state++\<close>. No operation increments the last state.\<close>

fun next_state :: "MLACP_APP_STATE \<Rightarrow> MLACP_APP_STATE" where
  "next_state MLACP_STATE_INIT = MLACP_STATE_STAGE1"
| "next_state MLACP_STATE_STAGE1 = MLACP_STATE_STAGE2"
| "next_state MLACP_STATE_STAGE2 = MLACP_STATE_EXCHANGE"
| "next_state MLACP_STATE_EXCHANGE = MLACP_STATE_ERROR"
| "next_state MLACP_STATE_ERROR = MLACP_STATE_ERROR"

definition enter_next_state :: "csm_ptr \<Rightarrow> System \<Rightarrow> System" where
  "enter_next_state c = upd_ml c (\<lambda>m. m\<lparr>ml_current_state := next_state (ml_current_state m)\<rparr>)"

section \<open>Senders\<close>

text \<open>The buffer is cleared, a message is prepared in it, and it is sent.\<close>

definition send_prepared :: "csm_ptr \<Rightarrow> int \<times> bytes \<times> System \<Rightarrow> int \<times> System" where
  "send_prepared c r = (case r of (len, buf, s) \<Rightarrow> iccp_csm_send c buf len s)"

definition mlacp_sync_send_sysConf :: "csm_ptr \<Rightarrow> System \<Rightarrow> System" where
  "mlacp_sync_send_sysConf c s =
     (let r = mlacp_prepare_for_sys_config c CSM_BUFFER_SIZE s
      in if 0 < fst r then snd (send_prepared c r) else snd (snd r))"

definition mlacp_sync_send_aggConf :: "csm_ptr \<Rightarrow> System \<Rightarrow> System" where
  "mlacp_sync_send_aggConf c s = foldl (\<lambda>s l.
     if lif_type (lif_of s l) = IF_T_PORT_CHANNEL
     then upd_lif l (\<lambda>i. i\<lparr>lif_port_config_sync := 0\<rparr>)
            (snd (send_prepared c (mlacp_prepare_for_Aggport_config c CSM_BUFFER_SIZE l False s)))
     else s) s (ml_lif_list (MLACP (csm_of s c)))"

definition mlacp_sync_send_aggState :: "csm_ptr \<Rightarrow> System \<Rightarrow> System" where
  "mlacp_sync_send_aggState c s = foldl (\<lambda>s l.
     if lif_type (lif_of s l) = IF_T_PORT_CHANNEL
     then upd_lif l (\<lambda>i. i\<lparr>lif_changed := 0\<rparr>)
            (snd (send_prepared c (mlacp_prepare_for_Aggport_state c CSM_BUFFER_SIZE l s)))
     else s) s (ml_lif_list (MLACP (csm_of s c)))"

definition mlacp_sync_send_syncPortChannelInfo :: "csm_ptr \<Rightarrow> System \<Rightarrow> System" where
  "mlacp_sync_send_syncPortChannelInfo c s = foldl (\<lambda>s l.
     if lif_type (lif_of s l) = IF_T_PORT_CHANNEL
     then upd_lif l (\<lambda>i. i\<lparr>lif_changed := 0\<rparr>)
            (snd (send_prepared c (mlacp_prepare_for_port_channel_info c CSM_BUFFER_SIZE l s)))
     else s) s (ml_lif_list (MLACP (csm_of s c)))"

definition mlacp_sync_send_syncPeerLinkInfo :: "csm_ptr \<Rightarrow> System \<Rightarrow> System" where
  "mlacp_sync_send_syncPeerLinkInfo c s =
     (case csm_peer_link_if (csm_of s c) of None \<Rightarrow> s
      | Some l \<Rightarrow> snd (send_prepared c (mlacp_prepare_for_port_peerlink_info c CSM_BUFFER_SIZE l s)))"

definition mlacp_sync_send_heartbeat :: "csm_ptr \<Rightarrow> System \<Rightarrow> System" where
  "mlacp_sync_send_heartbeat c s =
     (if csm_heartbeat_send_time (csm_of s c) = 0
         \<or> csm_keepalive_time (csm_of s c) < env_time s - csm_heartbeat_send_time (csm_of s c)
      then let s1 = snd (send_prepared c (mlacp_prepare_for_heartbeat c CSM_BUFFER_SIZE s))
           in upd_csm c (\<lambda>m. m\<lparr>csm_heartbeat_send_time := env_time s1\<rparr>) s1
      else s)"

definition mlacp_sync_send_syncDoneData :: "csm_ptr \<Rightarrow> System \<Rightarrow> System" where
  "mlacp_sync_send_syncDoneData c s =
     snd (send_prepared c (mlacp_prepare_for_sync_data_tlv c CSM_BUFFER_SIZE True
       (upd_ml c (\<lambda>m. m\<lparr>ml_wait_for_sync_data := 0\<rparr>) s)))"

definition mlacp_sync_sender_handler :: "csm_ptr \<Rightarrow> System \<Rightarrow> System" where
  "mlacp_sync_sender_handler c s =
     (case ml_sync_state (MLACP (csm_of s c)) of
        MLACP_SYNC_SYSCONF \<Rightarrow> mlacp_sync_send_sysConf c s
      | MLACP_SYNC_AGGCONF \<Rightarrow> mlacp_sync_send_aggConf c s
      | MLACP_SYNC_AGGSTATE \<Rightarrow> mlacp_sync_send_aggState c s
      | MLACP_SYNC_AGGINFO \<Rightarrow> mlacp_sync_send_syncPortChannelInfo c s
      | MLACP_SYNC_PEERLINKINFO \<Rightarrow> mlacp_sync_send_syncPeerLinkInfo c s
      | MLACP_SYNC_ARP_INFO \<Rightarrow> mlacp_sync_send_syncArpInfo c s
      | MLACP_SYNC_NDISC_INFO \<Rightarrow> mlacp_sync_send_syncNdiscInfo c s
      | MLACP_SYNC_DONE \<Rightarrow> mlacp_sync_send_syncDoneData c s)"

text \<open>
  The loop of \<open>mlacp_sync_send_all_info_handler\<close>: the sender of the current part, then \<open>sync_state++\<close>,
  until \<open>MLACP_SYNC_DONE\<close> was sent. The parts are listed in the order of the enumeration.
\<close>

fun next_part :: "MLACP_SYNC_STATE \<Rightarrow> MLACP_SYNC_STATE option" where
  "next_part MLACP_SYNC_SYSCONF = Some MLACP_SYNC_AGGCONF"
| "next_part MLACP_SYNC_AGGCONF = Some MLACP_SYNC_AGGSTATE"
| "next_part MLACP_SYNC_AGGSTATE = Some MLACP_SYNC_AGGINFO"
| "next_part MLACP_SYNC_AGGINFO = Some MLACP_SYNC_PEERLINKINFO"
| "next_part MLACP_SYNC_PEERLINKINFO = Some MLACP_SYNC_ARP_INFO"
| "next_part MLACP_SYNC_ARP_INFO = Some MLACP_SYNC_NDISC_INFO"
| "next_part MLACP_SYNC_NDISC_INFO = Some MLACP_SYNC_DONE"
| "next_part MLACP_SYNC_DONE = None"

fun parts_left :: "MLACP_SYNC_STATE \<Rightarrow> nat" where
  "parts_left MLACP_SYNC_SYSCONF = 7"
| "parts_left MLACP_SYNC_AGGCONF = 6"
| "parts_left MLACP_SYNC_AGGSTATE = 5"
| "parts_left MLACP_SYNC_AGGINFO = 4"
| "parts_left MLACP_SYNC_PEERLINKINFO = 3"
| "parts_left MLACP_SYNC_ARP_INFO = 2"
| "parts_left MLACP_SYNC_NDISC_INFO = 1"
| "parts_left MLACP_SYNC_DONE = 0"

lemma next_part_decreases: "next_part p = Some q \<Longrightarrow> parts_left q < parts_left p"
  by (cases p) auto

definition set_part :: "csm_ptr \<Rightarrow> MLACP_SYNC_STATE \<Rightarrow> System \<Rightarrow> System" where
  "set_part c p = upd_ml c (\<lambda>m. m\<lparr>ml_sync_state := p\<rparr>)"

function send_all_loop :: "csm_ptr \<Rightarrow> MLACP_SYNC_STATE \<Rightarrow> System \<Rightarrow> System" where
  "send_all_loop c p s =
     (let s1 = mlacp_sync_sender_handler c (set_part c p s)
      in case next_part p of
           Some q \<Rightarrow> send_all_loop c q s1
         | None \<Rightarrow> enter_next_state c (upd_ml c (\<lambda>m. m\<lparr>ml_wait_for_sync_data := 0\<rparr>) s1))"
  by pat_completeness auto
termination
  by (relation "measure (\<lambda>(c, p, s). parts_left p)") (auto simp: next_part_decreases)

declare send_all_loop.simps [simp del]

definition mlacp_sync_send_all_info_handler :: "csm_ptr \<Rightarrow> System \<Rightarrow> System" where
  "mlacp_sync_send_all_info_handler c s =
     send_all_loop c MLACP_SYNC_SYSCONF
       (snd (send_prepared c (mlacp_prepare_for_sync_data_tlv c CSM_BUFFER_SIZE False s)))"

definition mlacp_fsm_send_if_up_ack :: "csm_ptr \<Rightarrow> u8 \<Rightarrow> u16 \<Rightarrow> u8 \<Rightarrow> System \<Rightarrow> System" where
  "mlacp_fsm_send_if_up_ack c if_type if_id port_isolation_enable s =
     (if ml_current_state (MLACP (csm_of s c)) \<noteq> MLACP_STATE_EXCHANGE then s
      else let r = mlacp_prepare_for_if_up_ack c CSM_BUFFER_SIZE if_type if_id port_isolation_enable s
           in if 0 < fst r then snd (send_prepared c r) else snd (snd r))"

section \<open>Rejections\<close>

definition mlacp_sync_send_nak_handler :: "csm_ptr \<Rightarrow> bytes \<Rightarrow> System \<Rightarrow> System option" where
  "mlacp_sync_send_nak_handler c msg s = do {
     (hdr, _) \<leftarrow> de_LDPHdr msg;
     let s1 = upd_csm c (upd_app (\<lambda>a. a\<lparr>app_invalid_msg_id := ntohl (ldp_msg_id hdr)\<rparr>)) s;
     Some (snd (send_prepared c (prepared (app_csm_prepare_nak_msg c s1)))) }"

definition mlacp_sync_recv_nak_handler :: "csm_ptr \<Rightarrow> bytes \<Rightarrow> System \<Rightarrow> System option" where
  "mlacp_sync_recv_nak_handler c msg s = do {
     (nak, _) \<leftarrow> de_NAKTLV (drop 16 msg);
     let tlvType = (case log_lookup (ntohl (nak_rejected_msg_id nak)) (csm_of s c) of
                      None \<Rightarrow> -1 | Some e \<Rightarrow> mts_tlv e);
     Some (if tlvType = TLV_T_MLACP_SYSTEM_CONFIG
           then upd_ml c (\<lambda>m. m\<lparr>ml_node_id := ml_node_id m - 1, ml_system_config_changed := 1\<rparr>) s
           else upd_ml c (\<lambda>m. m\<lparr>ml_need_to_sync := 1\<rparr>) s) }"


section \<open>Receivers\<close>

text \<open>\<open>icc_param->type\<close>, and the counter of the received messages of that type.\<close>

definition tlv_type :: "bytes \<Rightarrow> u16 option" where
  "tlv_type msg = map_option (\<lambda>(p, _). ucast (par_type p)) (de_ICCParameter (drop 16 msg))"

definition count_rx :: "csm_ptr \<Rightarrow> bytes \<Rightarrow> nat \<Rightarrow> System \<Rightarrow> System option" where
  "count_rx c msg sts s =
     map_option (\<lambda>ty. upd_csm c (MLACP_SET_ICCP_RX_DBG_COUNTER ty sts) s) (tlv_type msg)"

definition mlacp_sync_recv_sysConf :: "csm_ptr \<Rightarrow> bytes \<Rightarrow> System \<Rightarrow> System option" where
  "mlacp_sync_recv_sysConf c msg s = do {
     s1 \<leftarrow> mlacp_fsm_update_system_conf c (drop 16 msg) s;
     count_rx c msg STS_OK s1 }"

definition mlacp_sync_recv_aggConf :: "csm_ptr \<Rightarrow> bytes \<Rightarrow> System \<Rightarrow> System option" where
  "mlacp_sync_recv_aggConf c msg s = do {
     (rc, s1) \<leftarrow> mlacp_fsm_update_Agg_conf c (drop 16 msg) s;
     if rc = MCLAG_ERROR then do {
       s2 \<leftarrow> mlacp_sync_send_nak_handler c msg s1;
       count_rx c msg STS_ERR s2 }
     else count_rx c msg STS_OK s1 }"

definition mlacp_sync_recv_aggState :: "csm_ptr \<Rightarrow> bytes \<Rightarrow> System \<Rightarrow> System option" where
  "mlacp_sync_recv_aggState c msg s = do {
     s1 \<leftarrow> mlacp_fsm_update_Aggport_state c (drop 16 msg) s;
     s2 \<leftarrow> count_rx c msg STS_OK s1;
     (t, _) \<leftarrow> de_mLACPAggPortStateTLV (drop 16 msg);
     Some (if as_agg_state t = PORT_STATE_UP
           then mlacp_fsm_send_if_up_ack c IF_UP_ACK_TYPE_PORT_CHANNEL (ntohs (as_agg_id t))
                  PORT_ISOLATION_STATE_ENABLE s2
           else s2) }"

definition mlacp_sync_recv_syncData :: "csm_ptr \<Rightarrow> bytes \<Rightarrow> System \<Rightarrow> System option" where
  "mlacp_sync_recv_syncData c msg s = do {
     (t, _) \<leftarrow> de_mLACPSyncDataTLV (drop 16 msg);
     count_rx c msg STS_OK
       (if ntohs (sd_flags t) = 1 then upd_ml c (\<lambda>m. m\<lparr>ml_wait_for_sync_data := 0\<rparr>) s else s) }"

definition mlacp_sync_recv_syncReq :: "csm_ptr \<Rightarrow> bytes \<Rightarrow> System \<Rightarrow> System option" where
  "mlacp_sync_recv_syncReq c msg s = do {
     (t, _) \<leftarrow> de_mLACPSyncReqTLV (drop 16 msg);
     let s1 = upd_ml c (\<lambda>m. m\<lparr>ml_sync_req_num := uint (ntohs (sr_req_num t))\<rparr>) s;
     count_rx c msg STS_OK (mlacp_sync_send_all_info_handler c s1) }"

definition mlacp_sync_recv_portChanInfo :: "csm_ptr \<Rightarrow> bytes \<Rightarrow> System \<Rightarrow> System option" where
  "mlacp_sync_recv_portChanInfo c msg s = do {
     s1 \<leftarrow> mlacp_fsm_update_port_channel_info c (drop 16 msg) s;
     count_rx c msg STS_OK s1 }"

definition mlacp_sync_recv_peerLlinkInfo :: "csm_ptr \<Rightarrow> bytes \<Rightarrow> System \<Rightarrow> System option" where
  "mlacp_sync_recv_peerLlinkInfo c msg s = do {
     s1 \<leftarrow> mlacp_fsm_update_peerlink_info c (drop 16 msg) s;
     count_rx c msg STS_OK s1 }"

definition mlacp_sync_recv_macInfo :: "csm_ptr \<Rightarrow> bytes \<Rightarrow> System \<Rightarrow> System option" where
  "mlacp_sync_recv_macInfo c msg s = do {
     s1 \<leftarrow> mlacp_fsm_update_mac_info_from_peer c (drop 16 msg) s;
     count_rx c msg STS_OK s1 }"

definition mlacp_sync_recv_arpInfo :: "csm_ptr \<Rightarrow> bytes \<Rightarrow> System \<Rightarrow> System option" where
  "mlacp_sync_recv_arpInfo c msg s = do {
     s1 \<leftarrow> mlacp_fsm_update_arp_info c (drop 16 msg) s;
     count_rx c msg STS_OK s1 }"

definition mlacp_sync_recv_ndiscInfo :: "csm_ptr \<Rightarrow> bytes \<Rightarrow> System \<Rightarrow> System option" where
  "mlacp_sync_recv_ndiscInfo c msg s = mlacp_fsm_update_ndisc_info c (drop 16 msg) s"

definition mlacp_sync_recv_heartbeat :: "csm_ptr \<Rightarrow> bytes \<Rightarrow> System \<Rightarrow> System option" where
  "mlacp_sync_recv_heartbeat c msg s = count_rx c msg STS_OK (mlacp_fsm_update_heartbeat c s)"

definition mlacp_sync_recv_warmboot :: "csm_ptr \<Rightarrow> bytes \<Rightarrow> System \<Rightarrow> System option" where
  "mlacp_sync_recv_warmboot c msg s = count_rx c msg STS_OK (mlacp_fsm_update_warmboot c s)"

definition mlacp_fsm_recv_if_up_ack :: "csm_ptr \<Rightarrow> bytes \<Rightarrow> System \<Rightarrow> System option" where
  "mlacp_fsm_recv_if_up_ack c msg s = do {
     (t, _) \<leftarrow> de_mLACPIfUpAckTLV (drop 16 msg);
     if ua_if_type t = IF_UP_ACK_TYPE_PORT_CHANNEL then
       count_rx c msg STS_OK (case local_if_find_by_po_id (uint (ntohs (ua_if_id t))) s of
           None \<Rightarrow> s
         | Some l \<Rightarrow> if lif_po_active (lif_of s l) \<noteq> 0
                     then mlacp_link_enable_traffic_distribution l s else s)
     else count_rx c msg STS_ERR s }"

text \<open>
  The types of port messages and of STP messages are not supported: their receivers do nothing, like
  the branch for unknown types.
\<close>

definition mlacp_sync_receiver_handler :: "csm_ptr \<Rightarrow> bytes option \<Rightarrow> System \<Rightarrow> System option" where
  "mlacp_sync_receiver_handler c msg s =
     (case msg of None \<Rightarrow> Some s
      | Some m \<Rightarrow> do {
          ty \<leftarrow> tlv_type m;
          if ty = TLV_T_MLACP_SYSTEM_CONFIG then mlacp_sync_recv_sysConf c m s
          else if ty = TLV_T_MLACP_AGGREGATOR_CONFIG then mlacp_sync_recv_aggConf c m s
          else if ty = TLV_T_MLACP_AGGREGATOR_STATE then mlacp_sync_recv_aggState c m s
          else if ty = TLV_T_MLACP_SYNC_DATA then mlacp_sync_recv_syncData c m s
          else if ty = TLV_T_MLACP_SYNC_REQUEST then mlacp_sync_recv_syncReq c m s
          else if ty = TLV_T_MLACP_PORT_CHANNEL_INFO then mlacp_sync_recv_portChanInfo c m s
          else if ty = TLV_T_MLACP_PEERLINK_INFO then mlacp_sync_recv_peerLlinkInfo c m s
          else if ty = TLV_T_MLACP_MAC_INFO then mlacp_sync_recv_macInfo c m s
          else if ty = TLV_T_MLACP_ARP_INFO then mlacp_sync_recv_arpInfo c m s
          else if ty = TLV_T_MLACP_NDISC_INFO then mlacp_sync_recv_ndiscInfo c m s
          else if ty = TLV_T_MLACP_HEARTBEAT then mlacp_sync_recv_heartbeat c m s
          else if ty = TLV_T_MLACP_WARMBOOT_FLAG then mlacp_sync_recv_warmboot c m s
          else if ty = TLV_T_MLACP_IF_UP_ACK then mlacp_fsm_recv_if_up_ack c m s
          else Some s })"

section \<open>Stages\<close>

definition msg_type :: "bytes \<Rightarrow> u16 option" where
  "msg_type msg = map_option (\<lambda>(h, _). ucast (ldp_msg_type h)) (de_LDPHdr msg)"

definition mlacp_stage_sync_send_handler :: "csm_ptr \<Rightarrow> bytes option \<Rightarrow> System \<Rightarrow> System option" where
  "mlacp_stage_sync_send_handler c msg s =
     (if ml_wait_for_sync_data (MLACP (csm_of s c)) \<noteq> 0 then Some s
      else case msg of None \<Rightarrow> Some s
      | Some m \<Rightarrow> do {
          mt \<leftarrow> msg_type m;
          if mt \<noteq> MSG_T_RG_APP_DATA then Some s
          else do {
            ty \<leftarrow> tlv_type m;
            if ty \<noteq> TLV_T_MLACP_SYNC_REQUEST then Some s
            else do {
              (t, _) \<leftarrow> de_mLACPSyncReqTLV (drop 16 m);
              Some (mlacp_sync_send_all_info_handler c
                (upd_ml c (\<lambda>l. l\<lparr>ml_wait_for_sync_data := 1, ml_sync_req_num := uint (ntohs (sr_req_num t))\<rparr>) s)) } } })"

definition mlacp_stage_sync_request_handler :: "csm_ptr \<Rightarrow> bytes option \<Rightarrow> System \<Rightarrow> System option" where
  "mlacp_stage_sync_request_handler c msg s =
     (if ml_wait_for_sync_data (MLACP (csm_of s c)) = 0
      then Some (upd_ml c (\<lambda>m. m\<lparr>ml_wait_for_sync_data := 1\<rparr>)
             (snd (send_prepared c (mlacp_prepare_for_sync_request_tlv c CSM_BUFFER_SIZE s))))
      else do {
        s1 \<leftarrow> mlacp_sync_receiver_handler c msg s;
        Some (if ml_wait_for_sync_data (MLACP (csm_of s1 c)) = 0 then enter_next_state c s1 else s1) })"

definition mlacp_stage_handler :: "csm_ptr \<Rightarrow> bytes option \<Rightarrow> System \<Rightarrow> System option" where
  "mlacp_stage_handler c msg s =
     (if ml_current_state (MLACP (csm_of s c)) = MLACP_STATE_STAGE1
      then if csm_role_type (csm_of s c) = STP_ROLE_ACTIVE then mlacp_stage_sync_send_handler c msg s
           else mlacp_stage_sync_request_handler c msg s
      else if csm_role_type (csm_of s c) = STP_ROLE_ACTIVE then mlacp_stage_sync_request_handler c msg s
      else mlacp_stage_sync_send_handler c msg s)"

section \<open>Exchange\<close>

definition exchange_config_changed :: "csm_ptr \<Rightarrow> System \<Rightarrow> System" where
  "exchange_config_changed c s =
     (if ml_system_config_changed (MLACP (csm_of s c)) = 0 then s
      else
        let s1 = snd (send_prepared c (mlacp_prepare_for_sys_config c CSM_BUFFER_SIZE s));
            s2 = (case csm_peer_link_if (csm_of s1 c) of None \<Rightarrow> s1
                  | Some l \<Rightarrow> snd (send_prepared c (mlacp_prepare_for_port_peerlink_info c CSM_BUFFER_SIZE l s1)))
        in upd_ml c (\<lambda>m. m\<lparr>ml_system_config_changed := 0\<rparr>) s2)"

definition exchange_purge :: "csm_ptr \<Rightarrow> System \<Rightarrow> System" where
  "exchange_purge c s = foldl (\<lambda>s l.
     let s1 = snd (send_prepared c (mlacp_prepare_for_Aggport_config c CSM_BUFFER_SIZE l True s));
         s2 = (if lif_type (lif_of s1 l) = IF_T_PORT_CHANNEL \<and> lif_is_traffic_disable (lif_of s1 l)
               then mlacp_link_enable_traffic_distribution l s1 else s1)
     in upd_csm c (upd_lif_purge_list (remove1 l)) s2) s (ml_lif_purge_list (MLACP (csm_of s c)))"

definition exchange_port :: "csm_ptr \<Rightarrow> lif_ptr \<Rightarrow> System \<Rightarrow> System" where
  "exchange_port c l s =
     (let s1 = (if lif_type (lif_of s l) = IF_T_PORT_CHANNEL \<and> lif_port_config_sync (lif_of s l) \<noteq> 0
                then let a = (if lif_po_active (lif_of s l) = 0
                              then mlacp_link_disable_traffic_distribution l s else s);
                         b = snd (send_prepared c (mlacp_prepare_for_Aggport_config c CSM_BUFFER_SIZE l False a));
                         d = snd (send_prepared c (mlacp_prepare_for_port_channel_info c CSM_BUFFER_SIZE l b))
                     in upd_lif l (\<lambda>i. i\<lparr>lif_port_config_sync := 0\<rparr>) d
                else s)
      in if lif_type (lif_of s1 l) = IF_T_PORT_CHANNEL \<and> lif_changed (lif_of s1 l) \<noteq> 0
         then let (rc, s2) = send_prepared c (mlacp_prepare_for_Aggport_state c CSM_BUFFER_SIZE l s1)
              in if 0 < rc then upd_lif l (\<lambda>i. i\<lparr>lif_changed := 0\<rparr>) s2 else s2
         else s1)"

definition mlacp_exchange_handler :: "csm_ptr \<Rightarrow> bytes option \<Rightarrow> System \<Rightarrow> System option" where
  "mlacp_exchange_handler c msg s = do {
     s1 \<leftarrow> (case msg of None \<Rightarrow> Some s
            | Some m \<Rightarrow> do {
                mt \<leftarrow> msg_type m;
                if mt = MSG_T_RG_APP_DATA then mlacp_sync_receiver_handler c msg s else Some s });
     let s2 = (if ml_need_to_sync (MLACP (csm_of s1 c)) = 0 then s1
               else snd (send_prepared c (mlacp_prepare_for_sync_request_tlv c CSM_BUFFER_SIZE
                      (upd_ml c (\<lambda>m. m\<lparr>ml_need_to_sync := 0\<rparr>) s1))));
     let s3 = exchange_purge c (exchange_config_changed c s2);
     let s4 = foldl (\<lambda>s l. exchange_port c l s) s3 (ml_lif_list (MLACP (csm_of s3 c)));
     let s5 = mlacp_sync_send_syncNdiscInfo c (mlacp_sync_send_syncArpInfo c (mlacp_sync_send_syncMacInfo c s4));
     Some (if csm_peer_warm_reboot_time (csm_of s5 c) \<noteq> 0
              \<and> WARM_REBOOT_TIMEOUT \<le> env_time s5 - csm_peer_warm_reboot_time (csm_of s5 c)
           then upd_csm c (\<lambda>m. m\<lparr>csm_peer_warm_reboot_time := 0\<rparr>) s5 else s5) }"

end
