(* ===== verification/Fsm_View.thy ===== *)
theory Fsm_View
  imports Mlacp_Fsm
begin

text \<open>
  The part of the state the state machine of the synchronisation layer steps on: its state, whether
  it waits for the data of the peer, the messages not handled yet, the role of the node, its socket,
  the states of the two layers below, and the peer link. The operations on MAC addresses, neighbours and ports leave it alone, whatever they do;
  this theory says so, one equation per operation.
\<close>

type_synonym link_part = "stp_role_type \<times> int \<times> ICCP_CONNECTION_STATE \<times> APP_CONNECTION_STATE \<times> lif_ptr option"
type_synonym fsm_part = "MLACP_APP_STATE \<times> u8 \<times> bytes list \<times> link_part"

definition fsm_of :: "CSM \<Rightarrow> fsm_part" where
  "fsm_of m = (ml_current_state (MLACP m), ml_wait_for_sync_data (MLACP m), ml_msg_list (MLACP m),
     csm_role_type m, csm_sock_fd m, csm_current_state m, app_current_state (csm_app_csm m),
     csm_peer_link_if m)"

definition fsm_view :: "System \<Rightarrow> csm_ptr \<Rightarrow> fsm_part" where
  "fsm_view s d = fsm_of (csm_of s d)"

section \<open>Primitives\<close>

lemma fsm_view_heap: "sys_csm_heap t = sys_csm_heap s \<Longrightarrow> fsm_view t = fsm_view s"
  by (simp add: fsm_view_def fun_eq_iff)

lemma fsm_view_upd_csm [simp]: "(\<And>m. fsm_of (f m) = fsm_of m) \<Longrightarrow> fsm_view (upd_csm c f s) = fsm_view s"
  by (simp add: fsm_view_def upd_csm_def fun_eq_iff)

lemma fsm_of_upd_mlacp [simp]:
  "(\<And>m. ml_current_state (f m) = ml_current_state m \<and> ml_wait_for_sync_data (f m) = ml_wait_for_sync_data m \<and>
     ml_msg_list (f m) = ml_msg_list m) \<Longrightarrow> fsm_of (upd_mlacp f m) = fsm_of m"
  by (simp add: fsm_of_def upd_mlacp_def upd_app_def)

lemma fsm_of_fields [simp]:
  "fsm_of (m\<lparr>csm_msg_log := lg\<rparr>) = fsm_of m" "fsm_of (m\<lparr>csm_heartbeat_send_time := i\<rparr>) = fsm_of m"
  "fsm_of (m\<lparr>csm_heartbeat_update_time := i\<rparr>) = fsm_of m" "fsm_of (m\<lparr>csm_peer_warm_reboot_time := i\<rparr>) = fsm_of m"
  "fsm_of (m\<lparr>csm_warm_reboot_disconn_time := i\<rparr>) = fsm_of m"
  "fsm_of (m\<lparr>csm_peer_link_learning_retry_time := i\<rparr>) = fsm_of m"
  "fsm_of (m\<lparr>csm_peer_link_learning_enable := i\<rparr>) = fsm_of m" "fsm_of (upd_pifs f m) = fsm_of m"
  "fsm_of (upd_lif_purge_list g m) = fsm_of m" "fsm_of (upd_app (\<lambda>a. a\<lparr>app_invalid_msg_id := w\<rparr>) m) = fsm_of m"
  by (simp_all add: fsm_of_def upd_pifs_def upd_lif_purge_list_def upd_mlacp_def upd_app_def)

lemma fsm_view_upd_ml [simp]:
  "(\<And>m. ml_current_state (f m) = ml_current_state m \<and> ml_wait_for_sync_data (f m) = ml_wait_for_sync_data m \<and>
     ml_msg_list (f m) = ml_msg_list m) \<Longrightarrow> fsm_view (upd_ml c f s) = fsm_view s"
  unfolding upd_ml_def by simp

lemma fsm_view_only_syncd: "only_syncd s t \<Longrightarrow> fsm_view t = fsm_view s"
  by (rule fsm_view_heap) (rule only_syncd_frame(1))

lemma fsm_view_addr_only: "addr_only s t \<Longrightarrow> fsm_view t = fsm_view s"
  by (rule fsm_view_heap) (simp add: addr_only_def)

lemma fsm_view_system [simp]:
  "fsm_view (upd_lif l g s) = fsm_view s" "fsm_view (snd (kernel r s)) = fsm_view s"
  "fsm_view (snd (malloc s)) = fsm_view s" "fsm_view (snd (next_msg_id s)) = fsm_view s"
  "fsm_view (s\<lparr>sys_once_connected := b\<rparr>) = fsm_view s"
  "fsm_view (SYSTEM_SET_SYNCD_TX_DBG_COUNTER ty sts s) = fsm_view s"
  by (auto intro!: fsm_view_heap simp: kernel_def next_msg_id_def SYSTEM_SET_SYNCD_TX_DBG_COUNTER_def Let_def)

lemma fsm_view_malloc: "malloc s = (ok, t) \<Longrightarrow> fsm_view t = fsm_view s"
  using fsm_view_system(3) [of s] by simp

lemma fsm_view_foldl [simp]:
  "(\<And>s x. fsm_view (f s x) = fsm_view s) \<Longrightarrow> fsm_view (foldl f s xs) = fsm_view s"
  by (induction xs arbitrary: s) auto

lemma fsm_view_fold_opt:
  assumes "\<And>x s t. f x s = Some t \<Longrightarrow> fsm_view t = fsm_view s"
  shows "fold_opt f xs s = Some t \<Longrightarrow> fsm_view t = fsm_view s"
proof (induction xs arbitrary: s)
  case (Cons x xs)
  then show ?case using assms by (auto split: option.splits)
qed simp

lemma fsm_view_counter [simp]:
  "fsm_of (MLACP_SET_ICCP_TX_DBG_COUNTER ty sts m) = fsm_of m" "fsm_of (MLACP_SET_ICCP_RX_DBG_COUNTER ty sts m) = fsm_of m"
  by (simp_all add: MLACP_SET_ICCP_TX_DBG_COUNTER_def MLACP_SET_ICCP_RX_DBG_COUNTER_def count_iccp_def Let_def)

lemma fsm_view_send [simp]: "fsm_view (snd (iccp_csm_send c buf len s)) = fsm_view s"
proof (cases rule: iccp_csm_send_cases [of c buf len s])
  case (2 e ty sts rc)
  have "fsm_view (t\<lparr>peer_tx := x\<rparr>) = fsm_view t" for t x by (rule fsm_view_heap) simp
  then show ?thesis unfolding 2 snd_conv by simp
qed simp

section \<open>mclagsyncd and the kernel\<close>

lemma fsm_view_syncd_request [simp]:
  "fsm_view (snd (syncd_request ty msg s)) = fsm_view s" "fsm_view (snd (syncd_request_counted ty msg s)) = fsm_view s"
  by (rule fsm_view_only_syncd, rule syncd_request_only_syncd syncd_request_counted_only_syncd)+

lemma fsm_view_syncd [simp]:
  "fsm_view (snd (mlacp_link_set_traffic_dist_mode n b s)) = fsm_view s"
  "fsm_view (snd (mlacp_link_set_iccp_state i b s)) = fsm_view s"
  "fsm_view (snd (mlacp_link_set_iccp_system_id i mac s)) = fsm_view s"
  "fsm_view (snd (mlacp_link_set_remote_if_state i n b s)) = fsm_view s"
  "fsm_view (snd (mlacp_link_del_remote_if_info i n s)) = fsm_view s"
  "fsm_view (snd (mlacp_link_set_peerlink_port_isolation i n b s)) = fsm_view s"
  by (simp_all add: mlacp_link_set_traffic_dist_mode_def mlacp_link_set_iccp_state_def mlacp_link_set_iccp_system_id_def
      mlacp_link_set_remote_if_state_def mlacp_link_del_remote_if_info_def mlacp_link_set_peerlink_port_isolation_def Let_def)

lemma fsm_view_write: "sync_fd_write buf s = (rc, t) \<Longrightarrow> fsm_view t = fsm_view s"
  by (rule fsm_view_only_syncd) (rule sync_fd_write_only_syncd)

lemma fsm_view_traffic [simp]:
  "fsm_view (mlacp_link_disable_traffic_distribution l s) = fsm_view s"
  "fsm_view (mlacp_link_enable_traffic_distribution l s) = fsm_view s"
proof -
  have "fsm_view t = fsm_view s" if "mlacp_link_set_traffic_dist_mode n b s = (rc, t)" for n b rc t
    using fsm_view_syncd(1) [of n b s] that by simp
  then show "fsm_view (mlacp_link_disable_traffic_distribution l s) = fsm_view s"
    "fsm_view (mlacp_link_enable_traffic_distribution l s) = fsm_view s"
    by (auto simp: mlacp_link_disable_traffic_distribution_def mlacp_link_enable_traffic_distribution_def Let_def
        split: option.split prod.split)
qed

lemma fsm_view_port_learn [simp]: "fsm_view (set_peerlink_mlag_port_learn l b s) = fsm_view s"
  by (auto simp: set_peerlink_mlag_port_learn_def Let_def split: option.split prod.split dest: fsm_view_write)

lemma fsm_view_neighbor_request [simp]: "fsm_view (snd (iccp_netlink_neighbor_request v a b m n p s)) = fsm_view s"
  by (simp add: iccp_netlink_neighbor_request_def split: option.split)

lemma fsm_view_learn_kernel [simp]: "fsm_view (set_peerlink_learn_kernel c b s) = fsm_view s"
proof -
  have "fsm_view t = fsm_view s" if "kernel r s = (ret, t)" for r ret t
    using fsm_view_system(2) [of r s] that by simp
  then show ?thesis
    by (auto simp: set_peerlink_learn_kernel_def Let_def split: option.split prod.split)
qed

lemma fsm_view_addresses [simp]:
  "fsm_view (update_if_ipmac_on_standby l s) = fsm_view s" "fsm_view (recover_if_ipmac_on_standby l s) = fsm_view s"
  "fsm_view (update_vlan_if_mac_on_iccp_up l b m s) = fsm_view s"
  by (rule fsm_view_addr_only, rule addr_only_update_if addr_only_recover_if addr_only_iccp_up)+

section \<open>Preparing messages\<close>

lemma fsm_view_app_data [simp]: "fsm_view (snd (snd (app_data_msg c n tlv s))) = fsm_view s"
  by (auto simp: app_data_msg_def mlacp_fill_icc_header_def Let_def split: prod.split
      dest: arg_cong [of _ _ "\<lambda>r. fsm_view (snd r)"])

lemma fsm_view_add_entry [simp]: "fsm_view (snd (snd (add_info_entry c n ty e k buf s))) = fsm_view s"
  by (auto simp: add_info_entry_def mlacp_fill_icc_header_def Let_def split: prod.split
      dest: arg_cong [of _ _ "\<lambda>r. fsm_view (snd r)"])

lemma fsm_view_sync_request [simp]: "fsm_view (snd (snd (mlacp_prepare_for_sync_request_tlv c n s))) = fsm_view s"
proof -
  have "fsm_view t = fsm_view s" if "app_data_msg c n tlv s = (len, buf, t)" for tlv len buf t
    using fsm_view_app_data [of c n tlv s] that by simp
  then show ?thesis
    by (auto simp: mlacp_prepare_for_sync_request_tlv_def Let_def split: prod.split)
qed

lemma fsm_view_prepare [simp]:
  "fsm_view (snd (snd (mlacp_prepare_for_sync_data_tlv c n fin s))) = fsm_view s"
  "fsm_view (snd (snd (mlacp_prepare_for_sys_config c n s))) = fsm_view s"
  "fsm_view (snd (snd (mlacp_prepare_for_Aggport_state c n l s))) = fsm_view s"
  "fsm_view (snd (snd (mlacp_prepare_for_Aggport_config c n l b s))) = fsm_view s"
  "fsm_view (snd (snd (mlacp_prepare_for_port_channel_info c n l s))) = fsm_view s"
  "fsm_view (snd (snd (mlacp_prepare_for_port_peerlink_info c n l s))) = fsm_view s"
  "fsm_view (snd (snd (mlacp_prepare_for_heartbeat c n s))) = fsm_view s"
  "fsm_view (snd (snd (mlacp_prepare_for_if_up_ack c n ty i w s))) = fsm_view s"
  "fsm_view (snd (snd (mlacp_prepare_for_mac_info_to_peer c n m k buf s))) = fsm_view s"
  "fsm_view (snd (snd (mlacp_prepare_for_arp_info c n a k buf s))) = fsm_view s"
  "fsm_view (snd (snd (mlacp_prepare_for_ndisc_info c n e k buf s))) = fsm_view s"
  by (simp_all add: mlacp_prepare_for_sync_data_tlv_def mlacp_prepare_for_sys_config_def mlacp_prepare_for_Aggport_state_def
      mlacp_prepare_for_Aggport_config_def mlacp_prepare_for_port_channel_info_def mlacp_prepare_for_port_peerlink_info_def
      mlacp_prepare_for_heartbeat_def mlacp_prepare_for_if_up_ack_def mlacp_prepare_for_mac_info_to_peer_def
      mlacp_prepare_for_arp_info_def mlacp_prepare_for_ndisc_info_def Let_def)

lemma fsm_view_send_prepared [simp]: "fsm_view (snd (send_prepared c r)) = fsm_view (snd (snd r))"
  by (simp add: send_prepared_def split: prod.split)


section \<open>MAC addresses\<close>

lemma fsm_view_mac [simp]:
  "fsm_view (upd_mac c p f s) = fsm_view s" "fsm_view (mac_enqueue c p s) = fsm_view s"
  "fsm_view (mac_rb_remove c p s) = fsm_view s" "fsm_view (mac_free_unlisted c p s) = fsm_view s"
  "fsm_view (mac_remove c p s) = fsm_view s" "fsm_view (mac_rb_insert c p s) = fsm_view s"
  "fsm_view (mac_set_ifname c p n s) = fsm_view s" "fsm_view (mac_sent c p s) = fsm_view s"
  by (simp_all add: upd_mac_def mac_enqueue_def mac_rb_remove_def mac_free_unlisted_def mac_remove_def mac_rb_insert_def
      mac_set_ifname_def mac_sent_def Let_def)

lemma fsm_view_chip [simp]:
  "fsm_view (add_mac_to_chip c p ty s) = fsm_view s" "fsm_view (del_mac_from_chip c p s) = fsm_view s"
  "fsm_view (add_stack_mac_to_chip m ty s) = fsm_view s" "fsm_view (del_stack_mac_from_chip m s) = fsm_view s"
proof -
  have fdb: "fsm_view (snd (iccp_send_fdb_entry_to_syncd m ty oper s)) = fsm_view s" for m ty oper
    by (rule fsm_view_only_syncd) (rule send_fdb_only_syncd)
  have "fsm_view (mac_to_chip c p ty oper s) = fsm_view s" for ty oper
    unfolding mac_to_chip_eq using fdb by simp
  then show "fsm_view (add_mac_to_chip c p ty s) = fsm_view s" "fsm_view (del_mac_from_chip c p s) = fsm_view s"
    "fsm_view (add_stack_mac_to_chip m ty s) = fsm_view s" "fsm_view (del_stack_mac_from_chip m s) = fsm_view s"
    using fdb by (simp_all add: add_mac_to_chip_def del_mac_from_chip_def add_stack_mac_to_chip_def del_stack_mac_from_chip_def)
qed

lemma fsm_view_local_age [simp]: "fsm_view (mac_set_local_age c p st s) = fsm_view s"
  by (simp add: mac_set_local_age_def set_mac_local_age_flag_def Let_def)

lemma fsm_view_foreach: "(\<And>p s. fsm_view (body p s) = fsm_view s) \<Longrightarrow> fsm_view (mac_foreach c body s) = fsm_view s"
  by (simp add: mac_foreach_def)

lemma fsm_view_mac_bodies [simp]:
  "fsm_view (mac_port_down c pif p s) = fsm_view s" "fsm_view (mac_clear_pending c p s) = fsm_view s"
  "fsm_view (mac_port_up c p s) = fsm_view s" "fsm_view (mac_peer_disconnected c p s) = fsm_view s"
  "fsm_view (mac_peerlink_down c p s) = fsm_view s"
  by (simp_all add: mac_port_down_def mac_clear_pending_def mac_port_up_def mac_peer_disconnected_def
      mac_peerlink_down_def Let_def)

lemma fsm_view_mac_events [simp]:
  "fsm_view (update_l2_mac_state c l b s) = fsm_view s"
  "fsm_view (mlacp_convert_remote_mac_to_local c n s) = fsm_view s"
  "fsm_view (mlacp_peer_disconn_fdb_handler c s) = fsm_view s" "fsm_view (mlacp_sync_mac c s) = fsm_view s"
  "fsm_view (mlacp_local_lif_clear_pending_mac c l s) = fsm_view s"
  by (simp_all add: update_l2_mac_state_def mlacp_convert_remote_mac_to_local_def mlacp_peer_disconn_fdb_handler_def
      mlacp_sync_mac_def mlacp_local_lif_clear_pending_mac_def Let_def fsm_view_foreach split: option.split)

lemma fsm_view_lif_state_mac [simp]: "fsm_view (mlacp_local_lif_state_mac_handler c s) = fsm_view s"
  by (simp add: mlacp_local_lif_state_mac_handler_def Let_def)

lemma fsm_view_send_mac_loop [simp]: "fsm_view (send_mac_loop c ps k buf len s) = fsm_view s"
proof (induction ps arbitrary: k buf len s)
  case (Cons p ps)
  have "fsm_view t = fsm_view s" if "mlacp_prepare_for_mac_info_to_peer c n m k buf
      (upd_ml c (\<lambda>l. l\<lparr>ml_mac_msg_list := ps\<rparr>) s) = (len, b, t)" for n m len b t
    using fsm_view_prepare(9) [of c n m k buf "upd_ml c (\<lambda>l. l\<lparr>ml_mac_msg_list := ps\<rparr>) s"] that by simp
  with Cons.IH show ?case by (auto simp: Let_def split: prod.split)
qed simp

lemma fsm_view_send_mac [simp]: "fsm_view (mlacp_sync_send_syncMacInfo c s) = fsm_view s"
  by (simp add: mlacp_sync_send_syncMacInfo_def)

lemma fsm_view_mac_create: "mac_create c m s = (r, t) \<Longrightarrow> fsm_view t = fsm_view s"
  by (cases rule: mac_create_cases [of c m s]) (auto simp: mac_created_def Let_def)

lemma fsm_view_mac_peer [simp]:
  "fsm_view (mac_to_peer_link c p s) = fsm_view s" "fsm_view (mac_peer_seen c p l s) = fsm_view s"
  "fsm_view (mac_peer_del c p s) = fsm_view s"
  by (simp_all add: mac_to_peer_link_def mac_peer_seen_def mac_peer_del_def Let_def)

lemma fsm_view_mac_peer_add [simp]: "fsm_view (mac_peer_add c p l n s) = fsm_view s"
  by (simp add: mac_peer_add_def mac_peer_moved_def Let_def)

lemma fsm_view_mac_peer_new [simp]: "fsm_view (mac_peer_new c d l n s) = fsm_view s"
  by (auto simp: mac_peer_new_def Let_def split: prod.split option.split dest: fsm_view_mac_create)

lemma fsm_view_mac_entries: "update_mac_entries c n bs s = Some t \<Longrightarrow> fsm_view t = fsm_view s"
proof (induction n arbitrary: bs s)
  case (Suc n)
  have "fsm_view u = fsm_view s" if "mlacp_fsm_update_mac_entry_from_peer c d s = Some u" for d u
    using that by (auto simp: mlacp_fsm_update_mac_entry_from_peer_def Let_def split: if_splits option.splits)
  with Suc show ?case by (auto split: option.splits)
qed simp

lemma fsm_view_mac_info: "mlacp_fsm_update_mac_info_from_peer c tlv s = Some t \<Longrightarrow> fsm_view t = fsm_view s"
  by (auto simp: mlacp_fsm_update_mac_info_from_peer_def dest: fsm_view_mac_entries split: option.splits)

section \<open>Neighbours\<close>

lemma fsm_view_copied: "msg_copied s = (ok, t) \<Longrightarrow> fsm_view t = fsm_view s"
  using msg_copied_sel [of s] by (intro fsm_view_heap) simp

lemma fsm_view_enqueue [simp]:
  "fsm_view (arp_enqueue c a s) = fsm_view s" "fsm_view (ndisc_enqueue c n s) = fsm_view s"
  by (auto simp: arp_enqueue_def ndisc_enqueue_def split: prod.split dest: fsm_view_copied)

lemma fsm_view_resend [simp]:
  "fsm_view (arp_resend c P s) = fsm_view s" "fsm_view (ndisc_resend c Q s) = fsm_view s"
  by (simp_all add: arp_resend_def ndisc_resend_def Let_def)

lemma fsm_view_resync [simp]:
  "fsm_view (syn_arp_info_to_peer c l s) = fsm_view s" "fsm_view (syn_ndisc_info_to_peer c l s) = fsm_view s"
  "fsm_view (mlacp_resync_arp c s) = fsm_view s" "fsm_view (mlacp_resync_ndisc c s) = fsm_view s"
  by (simp_all add: syn_arp_info_to_peer_def syn_ndisc_info_to_peer_def mlacp_resync_arp_def mlacp_resync_ndisc_def)

lemma fsm_view_set_handlers [simp]:
  "fsm_view (arp_set_handler c l b s) = fsm_view s" "fsm_view (ndisc_set_handler c l b s) = fsm_view s"
  "fsm_view (set_l3_itf_state c l r s) = fsm_view s"
  by (simp_all add: arp_set_handler_def ndisc_set_handler_def set_l3_itf_state_def split: ROUTE_MANIPULATE_TYPE.split)

lemma fsm_view_send_arp_loop [simp]: "fsm_view (send_arp_loop c as k buf len s) = fsm_view s"
proof (induction as arbitrary: k buf len s)
  case (Cons a as)
  have "fsm_view t = fsm_view s" if "mlacp_prepare_for_arp_info c n a k buf
      (upd_ml c (\<lambda>l. l\<lparr>ml_arp_msg_list := as\<rparr>) s) = (len, b, t)" for n len b t
    using fsm_view_prepare(10) [of c n a k buf "upd_ml c (\<lambda>l. l\<lparr>ml_arp_msg_list := as\<rparr>) s"] that by simp
  with Cons.IH show ?case by (auto simp: Let_def split: prod.split)
qed simp

lemma fsm_view_send_ndisc_loop [simp]: "fsm_view (send_ndisc_loop c ns k buf len s) = fsm_view s"
proof (induction ns arbitrary: k buf len s)
  case (Cons a ns)
  have "fsm_view t = fsm_view s" if "mlacp_prepare_for_ndisc_info c n a k buf
      (upd_ml c (\<lambda>l. l\<lparr>ml_ndisc_msg_list := ns\<rparr>) s) = (len, b, t)" for n len b t
    using fsm_view_prepare(11) [of c n a k buf "upd_ml c (\<lambda>l. l\<lparr>ml_ndisc_msg_list := ns\<rparr>) s"] that by simp
  with Cons.IH show ?case by (auto simp: Let_def split: prod.split)
qed simp

lemma fsm_view_send_neigh [simp]:
  "fsm_view (mlacp_sync_send_syncArpInfo c s) = fsm_view s" "fsm_view (mlacp_sync_send_syncNdiscInfo c s) = fsm_view s"
  by (simp_all add: mlacp_sync_send_syncArpInfo_def mlacp_sync_send_syncNdiscInfo_def)


lemma fsm_view_local_entry:
  assumes "fsm_view (snd (snd r)) = fsm_view s"
  shows "fsm_view (snd (case r of (len, buf, s1) \<Rightarrow> if 0 < len then iccp_csm_send c buf len s1 else (MCLAG_ERROR, s1))) = fsm_view s"
  using assms by (cases r) simp

lemma fsm_view_syn_local [simp]:
  "fsm_view (snd (syn_local_mac_info_to_peer c l b g s)) = fsm_view s"
  "fsm_view (snd (syn_local_arp_info_to_peer c l b k s)) = fsm_view s"
  "fsm_view (snd (syn_local_nd_info_to_peer c l b k ll s)) = fsm_view s"
  unfolding syn_local_mac_info_to_peer_def syn_local_arp_info_to_peer_def syn_local_nd_info_to_peer_def Let_def
  by (auto intro!: fsm_view_local_entry)

lemma fsm_view_syn_neigh_mac [simp]: "fsm_view (snd (syn_local_neigh_mac_info_to_peer l a v4 v6 m k ll s)) = fsm_view s"
  by (simp add: syn_local_neigh_mac_info_to_peer_def Let_def split: list.split)

lemma fsm_view_syn_ack [simp]: "fsm_view (syn_ack_local_neigh_mac_info_to_peer n ll s) = fsm_view s"
  by (simp add: syn_ack_local_neigh_mac_info_to_peer_def Let_def split: option.split)

lemma fsm_view_unique_ip [simp]: "fsm_view (sync_unique_ip s) = fsm_view s"
  by (simp add: sync_unique_ip_def)

lemma fsm_view_request: "iccp_netlink_neighbor_request v a b m n p s = (rc, t) \<Longrightarrow> fsm_view t = fsm_view s"
  using fsm_view_neighbor_request [of v a b m n p s] by simp

lemma fsm_view_install: "neigh_install v6 a op fl m n self ll s = (ok, t) \<Longrightarrow> fsm_view t = fsm_view s"
  by (auto simp: neigh_install_def Let_def split: if_splits prod.splits dest!: fsm_view_request)

lemma fsm_view_neigh_learn: "neigh_learn same refresh new op xs s = (ys, t) \<Longrightarrow> fsm_view t = fsm_view s"
  using neigh_learn_state [of same refresh new op xs s ys t] by (intro fsm_view_heap) simp

lemma fsm_view_neigh_record [simp]:
  "fsm_view (arp_learn c e n s) = fsm_view s" "fsm_view (ndisc_learn c d n s) = fsm_view s"
  by (auto simp: arp_learn_def ndisc_learn_def Let_def split: prod.split dest: fsm_view_neigh_learn)

lemma fsm_view_arp_entry: "mlacp_fsm_update_arp_entry c e s = Some (rc, t) \<Longrightarrow> fsm_view t = fsm_view s"
  by (auto simp: mlacp_fsm_update_arp_entry_def Let_def split: option.splits neigh_verdict.splits prod.splits if_splits
      dest: fsm_view_install)

lemma fsm_view_ndisc_entry: "mlacp_fsm_update_ndisc_entry c e s = Some (rc, t) \<Longrightarrow> fsm_view t = fsm_view s"
  by (auto simp: mlacp_fsm_update_ndisc_entry_def Let_def split: option.splits neigh_verdict.splits prod.splits if_splits
      dest: fsm_view_install)

lemma fsm_view_arp_entries: "update_arp_entries c n bs s = Some t \<Longrightarrow> fsm_view t = fsm_view s"
  by (induction n arbitrary: bs s) (auto split: option.splits dest!: fsm_view_arp_entry)

lemma fsm_view_ndisc_entries: "update_ndisc_entries c n bs s = Some t \<Longrightarrow> fsm_view t = fsm_view s"
  by (induction n arbitrary: bs s) (auto split: option.splits dest!: fsm_view_ndisc_entry)

lemma fsm_view_neigh_info:
  "mlacp_fsm_update_arp_info c tlv s = Some t \<Longrightarrow> fsm_view t = fsm_view s"
  "mlacp_fsm_update_ndisc_info c tlv s = Some t \<Longrightarrow> fsm_view t = fsm_view s"
  by (auto simp: mlacp_fsm_update_arp_info_def mlacp_fsm_update_ndisc_info_def split: option.splits
      dest: fsm_view_arp_entries fsm_view_ndisc_entries)

section \<open>Ports\<close>

lemma fsm_view_all_csm_lif: "update_peerlink_isolate_from_all_csm_lif c s = Some t \<Longrightarrow> fsm_view t = fsm_view s"
  by (rule fsm_view_only_syncd) (rule all_csm_lif_only_syncd)

lemma fsm_view_kernel_forward [simp]: "fsm_view (set_peerlink_mlag_port_kernel_forward c l b s) = fsm_view s"
  by (simp add: set_peerlink_mlag_port_kernel_forward_def Let_def split: option.split)

lemma fsm_view_port_isolate: "set_peerlink_mlag_port_isolate c l b u s = Some t \<Longrightarrow> fsm_view t = fsm_view s"
  by (auto simp: set_peerlink_mlag_port_isolate_def Let_def bind_eq_Some_conv split: if_splits dest!: fsm_view_all_csm_lif)

lemma fsm_view_isolate:
  "update_peerlink_isolate_from_pif c pif b n s = Some t \<Longrightarrow> fsm_view t = fsm_view s"
  "update_peerlink_isolate_from_lif c l b s = Some t \<Longrightarrow> fsm_view t = fsm_view s"
  "peerlink_port_isolate_cleanup c s = Some t \<Longrightarrow> fsm_view t = fsm_view s"
  by (auto simp: update_peerlink_isolate_from_pif_def update_peerlink_isolate_from_lif_def
      peerlink_port_isolate_cleanup_def Let_def split: if_splits option.splits
      dest: fsm_view_port_isolate elim!: fsm_view_fold_opt [rotated])

lemma fsm_view_if_info [simp]:
  "fsm_view (update_l3_if_info c l s) = fsm_view s" "fsm_view (update_vlan_if_info c l s) = fsm_view s"
  "fsm_view (update_po_if_info c l b s) = fsm_view s"
  by (simp_all add: update_l3_if_info_def update_vlan_if_info_def update_po_if_info_def)

lemma fsm_view_po_state [simp]:
  "fsm_view (update_l2_po_state c l b s) = fsm_view s" "fsm_view (update_l3_po_state c l b s) = fsm_view s"
  by (simp_all add: update_l2_po_state_def update_l3_po_state_def Let_def split: option.split)

lemma fsm_view_portchannel: "mlacp_portchannel_state_handler c l b s = Some t \<Longrightarrow> fsm_view t = fsm_view s"
  by (auto simp: mlacp_portchannel_state_handler_def Let_def bind_eq_Some_conv dest!: fsm_view_isolate(2))

lemma fsm_view_stp [simp]: "fsm_view (update_stp_peer_link c pif b n s) = fsm_view s"
  by (simp add: update_stp_peer_link_def stp_peer_link_itf_def Let_def split: option.split)

section \<open>Reports of the peer\<close>

lemma fsm_view_pif_assign [simp]: "fsm_view (pif_assign c p q s) = fsm_view s"
  by (simp add: pif_assign_def)

lemma fsm_view_system_conf: "mlacp_fsm_update_system_conf c tlv s = Some t \<Longrightarrow> fsm_view t = fsm_view s"
  by (auto simp: mlacp_fsm_update_system_conf_def Let_def split: option.splits)

lemma fsm_view_agg_conf_update: "agg_conf_update c d n pif new s = Some t \<Longrightarrow> fsm_view t = fsm_view s"
  by (auto simp: agg_conf_update_def Let_def bind_eq_Some_conv split: option.split dest!: fsm_view_isolate(1))

lemma fsm_view_agg_conf_purge [simp]: "fsm_view (agg_conf_purge c n s) = fsm_view s"
  by (simp add: agg_conf_purge_def mlacp_peer_mlag_intf_delete_handler_def peer_if_destroy_def Let_def split: option.split)

lemma fsm_view_peer_if_create: "peer_if_create c k ty s = (r, t) \<Longrightarrow> fsm_view t = fsm_view s"
  by (auto simp: peer_if_create_def Let_def split: if_splits prod.splits dest: fsm_view_malloc)

lemma fsm_view_agg_conf: "mlacp_fsm_update_Agg_conf c tlv s = Some (rc, t) \<Longrightarrow> fsm_view t = fsm_view s"
  by (auto simp: mlacp_fsm_update_Agg_conf_def split: option.splits if_splits prod.splits
      dest!: fsm_view_agg_conf_update fsm_view_peer_if_create)

lemma fsm_view_agg_state: "mlacp_fsm_update_Aggport_state c tlv s = Some t \<Longrightarrow> fsm_view t = fsm_view s"
  by (auto simp: mlacp_fsm_update_Aggport_state_def Let_def bind_eq_Some_conv split: option.splits
      dest!: fsm_view_isolate(1))

lemma fsm_view_add_vlans: "add_peer_vlans n bs pif s = Some (q, t) \<Longrightarrow> fsm_view t = fsm_view s"
proof (induction n arbitrary: bs pif s)
  case (Suc n)
  have "fsm_view u = fsm_view s" if "peer_if_add_vlan v pif s = (rc, p, u)" for v rc p u
    using that by (auto simp: peer_if_add_vlan_def Let_def split: option.splits if_splits prod.splits dest: fsm_view_malloc)
  with Suc show ?case by (auto simp: Let_def split: option.splits prod.splits)
qed simp

lemma fsm_view_port_channel: "mlacp_fsm_update_port_channel_info c tlv s = Some t \<Longrightarrow> fsm_view t = fsm_view s"
  by (auto simp: mlacp_fsm_update_port_channel_info_def Let_def bind_eq_Some_conv split: option.splits
      dest!: fsm_view_add_vlans)

lemma fsm_view_peerlink_info: "mlacp_fsm_update_peerlink_info c tlv s = Some t \<Longrightarrow> fsm_view t = fsm_view s"
  by (auto simp: mlacp_fsm_update_peerlink_info_def split: option.splits)

lemma fsm_view_heartbeat [simp]:
  "fsm_view (mlacp_fsm_update_heartbeat c s) = fsm_view s" "fsm_view (mlacp_fsm_update_warmboot c s) = fsm_view s"
  by (simp_all add: mlacp_fsm_update_heartbeat_def mlacp_fsm_update_warmboot_def)

section \<open>Events of the session\<close>

lemma fsm_view_conn: 
  assumes "mlacp_peer_conn_handler c s = Some t"
  shows "fsm_view t = fsm_view s"
proof -
  have ports: "fsm_view v = fsm_view u" if "fold_opt (\<lambda>l s. if lif_type (lif_of s l) = IF_T_PORT_CHANNEL
      then mlacp_portchannel_state_handler c l (lif_state (lif_of s l) = PORT_STATE_UP) s else Some s) ls u = Some v" for ls u v
    using that by (rule fsm_view_fold_opt [rotated]) (auto split: if_splits dest: fsm_view_portchannel)
  from assms show ?thesis
    unfolding mlacp_peer_conn_handler_def Let_def
    by (auto simp: mlacp_conn_handler_fdb_def mlacp_fix_bridge_mac_def Let_def bind_eq_Some_conv
        split: option.splits dest!: ports fsm_view_all_csm_lif)
qed

lemma fsm_view_disconn: "mlacp_peer_disconn_handler c s = Some t \<Longrightarrow> fsm_view t = fsm_view s"
  by (auto simp: mlacp_peer_disconn_handler_def session_lost_def Let_def bind_eq_Some_conv
      split: if_splits option.split dest!: fsm_view_isolate(3))

lemma fsm_view_learning [simp]: "fsm_view (mlacp_peer_link_learning_handler c s) = fsm_view s"
  by (simp add: mlacp_peer_link_learning_handler_def split: option.split)


section \<open>Senders and receivers\<close>

lemma fsm_view_senders [simp]:
  "fsm_view (mlacp_sync_send_sysConf c s) = fsm_view s" "fsm_view (mlacp_sync_send_aggConf c s) = fsm_view s"
  "fsm_view (mlacp_sync_send_aggState c s) = fsm_view s" "fsm_view (mlacp_sync_send_syncPortChannelInfo c s) = fsm_view s"
  "fsm_view (mlacp_sync_send_syncPeerLinkInfo c s) = fsm_view s" "fsm_view (mlacp_sync_send_heartbeat c s) = fsm_view s"
  "fsm_view (mlacp_fsm_send_if_up_ack c ty i w s) = fsm_view s" "fsm_view (set_part c p s) = fsm_view s"
  by (simp_all add: mlacp_sync_send_sysConf_def mlacp_sync_send_aggConf_def mlacp_sync_send_aggState_def
      mlacp_sync_send_syncPortChannelInfo_def mlacp_sync_send_syncPeerLinkInfo_def mlacp_sync_send_heartbeat_def
      mlacp_fsm_send_if_up_ack_def set_part_def Let_def split: option.split)

lemma fsm_view_nak: "mlacp_sync_send_nak_handler c m s = Some t \<Longrightarrow> fsm_view t = fsm_view s"
proof -
  have "fsm_view (snd (app_csm_prepare_nak_msg c u)) = fsm_view u" for u
    using fsm_view_system(4) [of u] by (cases "next_msg_id u") (simp add: app_csm_prepare_nak_msg_def Let_def)
  then show "mlacp_sync_send_nak_handler c m s = Some t \<Longrightarrow> fsm_view t = fsm_view s"
    by (auto simp: mlacp_sync_send_nak_handler_def prepared_def Let_def bind_eq_Some_conv)
qed

lemma fsm_view_recv_nak: "mlacp_sync_recv_nak_handler c m s = Some t \<Longrightarrow> fsm_view t = fsm_view s"
  by (auto simp: mlacp_sync_recv_nak_handler_def Let_def bind_eq_Some_conv)

lemma fsm_view_count_rx: "count_rx c m sts s = Some t \<Longrightarrow> fsm_view t = fsm_view s"
  by (auto simp: count_rx_def)

text \<open>The two assignments that move the state machine.\<close>

definition fsm_next :: "MLACP_APP_STATE \<times> u8 \<times> 'a \<Rightarrow> MLACP_APP_STATE \<times> u8 \<times> 'a" where
  "fsm_next v = (next_state (fst v), snd v)"

definition fsm_wait :: "u8 \<Rightarrow> MLACP_APP_STATE \<times> u8 \<times> 'a \<Rightarrow> MLACP_APP_STATE \<times> u8 \<times> 'a" where
  "fsm_wait w v = (fst v, w, snd (snd v))"

lemma fsm_view_moves:
  "fsm_view (enter_next_state c s) = (fsm_view s)(c := fsm_next (fsm_view s c))"
  "fsm_view (upd_ml c (\<lambda>m. m\<lparr>ml_wait_for_sync_data := w\<rparr>) s) = (fsm_view s)(c := fsm_wait w (fsm_view s c))"
  "fsm_view (upd_ml c (\<lambda>m. m\<lparr>ml_wait_for_sync_data := w, ml_sync_req_num := i\<rparr>) s) =
     (fsm_view s)(c := fsm_wait w (fsm_view s c))"
  by (simp_all add: fun_eq_iff fsm_view_def fsm_of_def enter_next_state_def upd_ml_def upd_csm_def upd_mlacp_def
      upd_app_def fsm_next_def fsm_wait_def)

lemma fsm_view_send_all_loop:
  "fsm_view (send_all_loop c p s) = (fsm_view s)(c := fsm_next (fsm_wait 0 (fsm_view s c)))"
proof (induction c p s rule: send_all_loop.induct)
  case (1 c p s)
  let ?s1 = "mlacp_sync_sender_handler c (set_part c p s)"
  have part: "ml_sync_state (MLACP (csm_of (set_part c p s) c)) = p" by (simp add: set_part_def)
  have "fsm_view ?s1 = fsm_view s" if "p \<noteq> MLACP_SYNC_DONE"
    using that part by (cases p) (simp_all add: mlacp_sync_sender_handler_def)
  moreover have "fsm_view ?s1 = (fsm_view s)(c := fsm_wait 0 (fsm_view s c))" if "p = MLACP_SYNC_DONE"
    using that part by (simp add: mlacp_sync_sender_handler_def mlacp_sync_send_syncDoneData_def fsm_view_moves)
  moreover have "next_part p = None \<longleftrightarrow> p = MLACP_SYNC_DONE" by (cases p) auto
  moreover have "send_all_loop c p s = (case next_part p of Some q \<Rightarrow> send_all_loop c q ?s1
      | None \<Rightarrow> enter_next_state c (upd_ml c (\<lambda>m. m\<lparr>ml_wait_for_sync_data := 0\<rparr>) ?s1))"
    by (simp add: send_all_loop.simps [of c p s] Let_def)
  ultimately show ?case
    using 1 [OF refl] by (cases "next_part p") (auto simp: fsm_view_moves fsm_wait_def)
qed

lemma fsm_view_all_info:
  "fsm_view (mlacp_sync_send_all_info_handler c s) = (fsm_view s)(c := fsm_next (fsm_wait 0 (fsm_view s c)))"
  by (simp add: mlacp_sync_send_all_info_handler_def fsm_view_send_all_loop)

text \<open>What the state machine distinguishes about a message.\<close>

datatype fsm_msg = SyncRequest | SyncDone | OtherMsg

definition msg_kind :: "bytes \<Rightarrow> fsm_msg" where
  "msg_kind m =
     (if tlv_type m = Some TLV_T_MLACP_SYNC_REQUEST then SyncRequest
      else if tlv_type m = Some TLV_T_MLACP_SYNC_DATA \<and>
        map_option (\<lambda>(t, _). ntohs (sd_flags t)) (de_mLACPSyncDataTLV (drop 16 m)) = Some 1 then SyncDone
      else OtherMsg)"

fun fsm_recv :: "fsm_msg \<Rightarrow> MLACP_APP_STATE \<times> u8 \<times> 'a \<Rightarrow> MLACP_APP_STATE \<times> u8 \<times> 'a" where
  "fsm_recv SyncRequest v = fsm_next (fsm_wait 0 v)"
| "fsm_recv SyncDone v = fsm_wait 0 v"
| "fsm_recv OtherMsg v = v"

lemma fsm_view_receivers:
  "mlacp_sync_recv_sysConf c m s = Some t \<Longrightarrow> fsm_view t = fsm_view s"
  "mlacp_sync_recv_aggConf c m s = Some t \<Longrightarrow> fsm_view t = fsm_view s"
  "mlacp_sync_recv_aggState c m s = Some t \<Longrightarrow> fsm_view t = fsm_view s"
  "mlacp_sync_recv_portChanInfo c m s = Some t \<Longrightarrow> fsm_view t = fsm_view s"
  "mlacp_sync_recv_peerLlinkInfo c m s = Some t \<Longrightarrow> fsm_view t = fsm_view s"
  "mlacp_sync_recv_macInfo c m s = Some t \<Longrightarrow> fsm_view t = fsm_view s"
  "mlacp_sync_recv_arpInfo c m s = Some t \<Longrightarrow> fsm_view t = fsm_view s"
  "mlacp_sync_recv_ndiscInfo c m s = Some t \<Longrightarrow> fsm_view t = fsm_view s"
  "mlacp_sync_recv_heartbeat c m s = Some t \<Longrightarrow> fsm_view t = fsm_view s"
  "mlacp_sync_recv_warmboot c m s = Some t \<Longrightarrow> fsm_view t = fsm_view s"
  "mlacp_fsm_recv_if_up_ack c m s = Some t \<Longrightarrow> fsm_view t = fsm_view s"
  by (auto simp: mlacp_sync_recv_sysConf_def mlacp_sync_recv_aggConf_def mlacp_sync_recv_aggState_def
      mlacp_sync_recv_portChanInfo_def mlacp_sync_recv_peerLlinkInfo_def mlacp_sync_recv_macInfo_def
      mlacp_sync_recv_arpInfo_def mlacp_sync_recv_ndiscInfo_def mlacp_sync_recv_heartbeat_def
      mlacp_sync_recv_warmboot_def mlacp_fsm_recv_if_up_ack_def bind_eq_Some_conv split: if_splits option.splits
      dest!: fsm_view_count_rx fsm_view_system_conf fsm_view_agg_conf fsm_view_agg_state fsm_view_port_channel
        fsm_view_peerlink_info fsm_view_mac_info fsm_view_neigh_info fsm_view_nak)

lemma fsm_view_syncReq:
  "mlacp_sync_recv_syncReq c m s = Some t \<Longrightarrow> fsm_view t = (fsm_view s)(c := fsm_next (fsm_wait 0 (fsm_view s c)))"
  by (auto simp: mlacp_sync_recv_syncReq_def Let_def bind_eq_Some_conv fsm_view_all_info dest!: fsm_view_count_rx)

lemma fsm_view_syncData:
  assumes "mlacp_sync_recv_syncData c m s = Some t" "tlv_type m = Some TLV_T_MLACP_SYNC_DATA"
  shows "fsm_view t = (fsm_view s)(c := fsm_recv (msg_kind m) (fsm_view s c))"
proof -
  have "TLV_T_MLACP_SYNC_DATA \<noteq> TLV_T_MLACP_SYNC_REQUEST" by (simp add: const_defs)
  with assms show ?thesis
    by (auto simp: mlacp_sync_recv_syncData_def bind_eq_Some_conv msg_kind_def fsm_view_moves
        split: if_splits dest!: fsm_view_count_rx)
qed

lemma fsm_view_receiver:
  assumes "mlacp_sync_receiver_handler c (Some m) s = Some t"
  shows "fsm_view t = (fsm_view s)(c := fsm_recv (msg_kind m) (fsm_view s c))"
proof -
  obtain ty where ty: "tlv_type m = Some ty"
    using assms by (auto simp: mlacp_sync_receiver_handler_def bind_eq_Some_conv)
  have diff: "TLV_T_MLACP_SYNC_REQUEST \<notin> {TLV_T_MLACP_SYSTEM_CONFIG, TLV_T_MLACP_AGGREGATOR_CONFIG,
      TLV_T_MLACP_AGGREGATOR_STATE, TLV_T_MLACP_SYNC_DATA}"
    "TLV_T_MLACP_SYNC_DATA \<notin> {TLV_T_MLACP_SYSTEM_CONFIG, TLV_T_MLACP_AGGREGATOR_CONFIG, TLV_T_MLACP_AGGREGATOR_STATE}"
    by (simp_all add: const_defs)
  consider "ty = TLV_T_MLACP_SYNC_REQUEST" | "ty = TLV_T_MLACP_SYNC_DATA"
    | "ty \<noteq> TLV_T_MLACP_SYNC_REQUEST" "ty \<noteq> TLV_T_MLACP_SYNC_DATA" by blast
  then show ?thesis
  proof cases
    case 1
    then have "mlacp_sync_recv_syncReq c m s = Some t" "msg_kind m = SyncRequest"
      using assms ty diff by (simp_all add: mlacp_sync_receiver_handler_def msg_kind_def)
    then show ?thesis by (simp add: fsm_view_syncReq)
  next
    case 2
    then have "mlacp_sync_recv_syncData c m s = Some t"
      using assms ty diff by (simp add: mlacp_sync_receiver_handler_def)
    then show ?thesis using fsm_view_syncData ty 2 by simp
  next
    case 3
    then have "msg_kind m = OtherMsg" using ty by (simp add: msg_kind_def)
    moreover have "fsm_view t = fsm_view s"
      using assms ty 3 by (auto simp: mlacp_sync_receiver_handler_def split: if_splits dest: fsm_view_receivers)
    ultimately show ?thesis by simp
  qed
qed

end
