(* ===== verification/Fsm_Transit.thy ===== *)
theory Fsm_Transit
  imports Fsm_View
begin

text \<open>
  One run of the synchronisation state machine (\<open>mlacp_fsm_transit\<close>), which the scheduler calls for
  every session, and the protocol it implements. The static variable \<open>prev_state\<close>, which all
  sessions share, is an argument and a result.
\<close>

section \<open>The run\<close>

definition scheduler_csm_socket_cleanup :: "csm_ptr \<Rightarrow> System \<Rightarrow> System" where
  "scheduler_csm_socket_cleanup c s =
     (if csm_sock_fd (csm_of s c) \<le> 0 then s else upd_csm c (\<lambda>m. m\<lparr>csm_sock_fd := -1\<rparr>) s)"

text \<open>The test for a rejection: the parameter is only read in a notification.\<close>

definition is_nak :: "bytes \<Rightarrow> bool option" where
  "is_nak msg = do {
     mt \<leftarrow> msg_type msg;
     if mt \<noteq> MSG_T_NOTIFICATION then Some False
     else map_option (\<lambda>ty. ty = TLV_T_NAK) (tlv_type msg) }"

text \<open>The rest of the loop body, on the message that was taken from the queue, if any.\<close>

definition fsm_body ::
  "csm_ptr \<Rightarrow> MLACP_APP_STATE \<Rightarrow> bytes option \<Rightarrow> System \<Rightarrow> (MLACP_APP_STATE \<times> System) option" where
  "fsm_body c prev_state msg s = do {
     s1 \<leftarrow> (if prev_state \<noteq> ml_current_state (MLACP (csm_of s c))
                \<and> ml_current_state (MLACP (csm_of s c)) = MLACP_STATE_EXCHANGE
            then mlacp_peer_conn_handler c s else Some s);
     let s2 = (if ml_current_state (MLACP (csm_of s1 c)) = MLACP_STATE_INIT
               then mlacp_resync_ndisc c (mlacp_resync_arp c (upd_ml c (\<lambda>m.
                      m\<lparr>ml_wait_for_sync_data := 0, ml_current_state := MLACP_STATE_STAGE1\<rparr>) s1))
               else s1);
     s3 \<leftarrow> (case ml_current_state (MLACP (csm_of s2 c)) of
              MLACP_STATE_INIT \<Rightarrow> Some s2
            | MLACP_STATE_ERROR \<Rightarrow> Some s2
            | MLACP_STATE_STAGE1 \<Rightarrow> mlacp_stage_handler c msg s2
            | MLACP_STATE_STAGE2 \<Rightarrow> mlacp_stage_handler c msg s2
            | MLACP_STATE_EXCHANGE \<Rightarrow> mlacp_exchange_handler c msg s2);
     Some (ml_current_state (MLACP (csm_of s1 c)), s3) }"

section \<open>The protocol\<close>

text \<open>
  What a message is to the protocol: whether it carries application data, and its kind. A node that
  has to send waits for a request; a node that has to ask sends its request first, without looking
  at the message, and then receives until the end of the data.
\<close>

definition msg_view :: "bytes \<Rightarrow> bool \<times> fsm_msg" where
  "msg_view m = (msg_type m = Some MSG_T_RG_APP_DATA, msg_kind m)"

type_synonym 'a fsm = "MLACP_APP_STATE \<times> u8 \<times> 'a"

fun fsm_sender :: "(bool \<times> fsm_msg) option \<Rightarrow> 'a fsm \<Rightarrow> 'a fsm" where
  "fsm_sender (Some (True, SyncRequest)) v = (if fst (snd v) = 0 then fsm_next v else v)"
| "fsm_sender _ v = v"

definition fsm_requester :: "(bool \<times> fsm_msg) option \<Rightarrow> 'a fsm \<Rightarrow> 'a fsm" where
  "fsm_requester m v =
     (if fst (snd v) = 0 then fsm_wait 1 v
      else let v1 = (case m of None \<Rightarrow> v | Some (_, k) \<Rightarrow> fsm_recv k v)
           in if fst (snd v1) = 0 then fsm_next v1 else v1)"

fun fsm_exchange :: "(bool \<times> fsm_msg) option \<Rightarrow> 'a fsm \<Rightarrow> 'a fsm" where
  "fsm_exchange (Some (True, k)) v = fsm_recv k v"
| "fsm_exchange _ v = v"

definition fsm_step :: "bool \<Rightarrow> (bool \<times> fsm_msg) option \<Rightarrow> 'a fsm \<Rightarrow> 'a fsm" where
  "fsm_step active m v =
     (let v1 = (if fst v = MLACP_STATE_INIT then (MLACP_STATE_STAGE1, 0, snd (snd v)) else v)
      in case fst v1 of
           MLACP_STATE_STAGE1 \<Rightarrow> if active then fsm_sender m v1 else fsm_requester m v1
         | MLACP_STATE_STAGE2 \<Rightarrow> if active then fsm_requester m v1 else fsm_sender m v1
         | MLACP_STATE_EXCHANGE \<Rightarrow> fsm_exchange m v1
         | _ \<Rightarrow> v1)"

text \<open>A whole run: a first step out of the initial state, one step per message, and one at the end.\<close>

definition fsm_run :: "bool \<Rightarrow> (bool \<times> fsm_msg) list \<Rightarrow> 'a fsm \<Rightarrow> 'a fsm" where
  "fsm_run active ms v =
     (let v1 = (if fst v = MLACP_STATE_INIT then fsm_step active None v else v)
      in fsm_step active None (foldl (\<lambda>v m. fsm_step active (Some m) v) v1 ms))"

section \<open>The handlers follow the protocol\<close>

abbreviation role_of :: "fsm_part \<Rightarrow> stp_role_type" where
  "role_of v \<equiv> fst (snd (snd (snd v)))"

lemma fsm_view_sel:
  "ml_current_state (MLACP (csm_of s c)) = fst (fsm_view s c)"
  "ml_wait_for_sync_data (MLACP (csm_of s c)) = fst (snd (fsm_view s c))"
  "ml_msg_list (MLACP (csm_of s c)) = fst (snd (snd (fsm_view s c)))"
  "csm_role_type (csm_of s c) = role_of (fsm_view s c)"
  "csm_sock_fd (csm_of s c) = fst (snd (snd (snd (snd (fsm_view s c)))))"
  "csm_current_state (csm_of s c) = fst (snd (snd (snd (snd (snd (fsm_view s c))))))"
  "app_current_state (csm_app_csm (csm_of s c)) = fst (snd (snd (snd (snd (snd (snd (fsm_view s c)))))))"
  "csm_peer_link_if (csm_of s c) = snd (snd (snd (snd (snd (snd (snd (fsm_view s c)))))))"
  by (simp_all add: fsm_view_def fsm_of_def)

lemma fsm_parts [simp]:
  "fst (fsm_next v) = next_state (fst v)" "snd (fsm_next v) = snd v" "fst (fsm_wait w v) = fst v"
  "fst (snd (fsm_wait w v)) = w" "snd (snd (fsm_wait w v)) = snd (snd v)"
  by (simp_all add: fsm_next_def fsm_wait_def)

lemma fsm_wait_same: "fst (snd v) = w \<Longrightarrow> fsm_wait w v = v"
  by (cases v) (simp add: fsm_wait_def)

lemma fsm_next_wait: "fsm_next (fsm_wait w v) = fsm_wait w (fsm_next v)"
  by (simp add: fsm_next_def fsm_wait_def)

lemma fsm_recv_keeps [simp]: "snd (snd (fsm_recv k v)) = snd (snd v)"
  by (cases k) simp_all

lemma fsm_sender_waits: "fst (snd v) \<noteq> 0 \<Longrightarrow> fsm_sender x v = v"
  by (cases "(x, v)" rule: fsm_sender.cases) auto

lemma fsm_sender_msg:
  "fsm_sender (Some (msg_view m)) v =
    (if msg_type m = Some MSG_T_RG_APP_DATA \<and> tlv_type m = Some TLV_T_MLACP_SYNC_REQUEST \<and> fst (snd v) = 0
     then fsm_next v else v)"
proof -
  have "msg_kind m = SyncRequest \<longleftrightarrow> tlv_type m = Some TLV_T_MLACP_SYNC_REQUEST" by (simp add: msg_kind_def)
  then show ?thesis
    by (cases "fst (snd v) = 0"; cases "msg_type m = Some MSG_T_RG_APP_DATA"; cases "msg_kind m")
      (auto simp: msg_view_def fsm_sender_waits)
qed

lemma fsm_next_sent: "fst (snd v) = 0 \<Longrightarrow> fsm_next (fsm_wait 0 (fsm_wait w v)) = fsm_next v"
  by (cases v) (simp add: fsm_next_def fsm_wait_def)

lemma fsm_view_stage_send:
  assumes "mlacp_stage_sync_send_handler c msg s = Some t"
  shows "fsm_view t = (fsm_view s)(c := fsm_sender (map_option msg_view msg) (fsm_view s c))"
proof (cases "fst (snd (fsm_view s c)) = 0")
  case True
  show ?thesis
  proof (cases msg)
    case (Some m)
    show ?thesis
    proof (cases "msg_type m = Some MSG_T_RG_APP_DATA \<and> tlv_type m = Some TLV_T_MLACP_SYNC_REQUEST")
      case hit: True
      then show ?thesis
        using assms True Some by (auto simp: mlacp_stage_sync_send_handler_def fsm_view_sel fsm_sender_msg
            bind_eq_Some_conv fsm_view_all_info fsm_view_moves fsm_next_sent)
    next
      case miss: False
      then have "t = s"
        using assms True Some by (auto simp: mlacp_stage_sync_send_handler_def fsm_view_sel bind_eq_Some_conv
            split: if_splits)
      with miss show ?thesis using Some by (auto simp: fsm_sender_msg)
    qed
  qed (use assms True in \<open>simp add: mlacp_stage_sync_send_handler_def fsm_view_sel\<close>)
next
  case False
  then show ?thesis using assms by (simp add: mlacp_stage_sync_send_handler_def fsm_view_sel fsm_sender_waits)
qed

lemma fsm_view_receiver_opt:
  assumes "mlacp_sync_receiver_handler c msg s = Some t"
  shows "fsm_view t = (fsm_view s)(c := case msg of None \<Rightarrow> fsm_view s c
    | Some m \<Rightarrow> fsm_recv (msg_kind m) (fsm_view s c))"
  using assms fsm_view_receiver by (cases msg) (auto simp: mlacp_sync_receiver_handler_def)

lemma fsm_view_stage_request:
  assumes "mlacp_stage_sync_request_handler c msg s = Some t"
  shows "fsm_view t = (fsm_view s)(c := fsm_requester (map_option msg_view msg) (fsm_view s c))"
proof (cases "fst (snd (fsm_view s c)) = 0")
  case True
  then show ?thesis
    using assms by (auto simp: mlacp_stage_sync_request_handler_def fsm_view_sel fsm_requester_def fsm_view_moves)
next
  case False
  then obtain s1 where s1: "mlacp_sync_receiver_handler c msg s = Some s1"
    and t: "t = (if fst (snd (fsm_view s1 c)) = 0 then enter_next_state c s1 else s1)"
    using assms by (auto simp: mlacp_stage_sync_request_handler_def fsm_view_sel bind_eq_Some_conv)
  show ?thesis
    using False fsm_view_receiver_opt [OF s1]
    by (cases msg) (auto simp: t fsm_requester_def fsm_view_moves msg_view_def Let_def)
qed

lemma fsm_view_stage:
  assumes "mlacp_stage_handler c msg s = Some t" "fst (fsm_view s c) \<in> {MLACP_STATE_STAGE1, MLACP_STATE_STAGE2}"
  shows "fsm_view t = (fsm_view s)(c :=
    fsm_step (role_of (fsm_view s c) = STP_ROLE_ACTIVE) (map_option msg_view msg) (fsm_view s c))"
  using assms by (auto simp: mlacp_stage_handler_def fsm_view_sel fsm_step_def Let_def
      dest: fsm_view_stage_send fsm_view_stage_request split: if_splits)

lemma fsm_view_exchange_parts [simp]:
  "fsm_view (exchange_config_changed c s) = fsm_view s" "fsm_view (exchange_port c l s) = fsm_view s"
  "fsm_view (exchange_purge c s) = fsm_view s"
proof -
  have sent: "fsm_view t = fsm_view (snd (snd r))" if "send_prepared c r = (rc, t)" for r rc t
    using fsm_view_send_prepared [of c r] that by simp
  show "fsm_view (exchange_config_changed c s) = fsm_view s" "fsm_view (exchange_purge c s) = fsm_view s"
    by (simp_all add: exchange_config_changed_def exchange_purge_def Let_def split: option.split)
  show "fsm_view (exchange_port c l s) = fsm_view s"
    by (auto simp: exchange_port_def Let_def split: prod.split dest!: sent)
qed

lemma fsm_exchange_msg:
  "fsm_exchange (Some (msg_view m)) v = (if msg_type m = Some MSG_T_RG_APP_DATA then fsm_recv (msg_kind m) v else v)"
  by (simp add: msg_view_def)

lemma fsm_view_exchange:
  assumes "mlacp_exchange_handler c msg s = Some t"
  shows "fsm_view t = (fsm_view s)(c := fsm_exchange (map_option msg_view msg) (fsm_view s c))"
proof -
  obtain s1 where s1: "(case msg of None \<Rightarrow> Some s
      | Some m \<Rightarrow> do { mt \<leftarrow> msg_type m; if mt = MSG_T_RG_APP_DATA then mlacp_sync_receiver_handler c msg s else Some s })
      = Some s1" and "fsm_view t = fsm_view s1"
    using assms by (auto simp: mlacp_exchange_handler_def bind_eq_Some_conv Let_def)
  moreover have "fsm_view s1 = (fsm_view s)(c := fsm_exchange (map_option msg_view msg) (fsm_view s c))"
    using s1 by (cases msg) (auto simp: bind_eq_Some_conv fsm_exchange_msg split: if_splits dest: fsm_view_receiver)
  ultimately show ?thesis by simp
qed

section \<open>The loop\<close>

lemma fsm_step_keeps [simp]: "snd (snd (fsm_step a m v)) = snd (snd v)"
proof -
  have send: "snd (snd (fsm_sender m v)) = snd (snd v)" for v :: "'a fsm"
    by (cases "(m, v)" rule: fsm_sender.cases) auto
  have ask: "snd (snd (fsm_requester m v)) = snd (snd v)" for v :: "'a fsm"
    by (auto simp: fsm_requester_def Let_def split: option.split)
  have ex: "snd (snd (fsm_exchange m v)) = snd (snd v)" for v :: "'a fsm"
    by (cases "(m, v)" rule: fsm_exchange.cases) auto
  show ?thesis
    by (simp add: fsm_step_def Let_def send ask ex split: MLACP_APP_STATE.split)
qed

lemma next_state_not_INIT [simp]: "next_state st \<noteq> MLACP_STATE_INIT"
  by (cases st) auto

lemma fsm_step_leaves_INIT [simp]: "fst (fsm_step a m v) \<noteq> MLACP_STATE_INIT"
proof -
  have recv: "fst (fsm_recv k v) \<noteq> MLACP_STATE_INIT" if "fst v \<noteq> MLACP_STATE_INIT" for k and v :: "'a fsm"
    using that by (cases k) simp_all
  have send: "fst (fsm_sender m v) \<noteq> MLACP_STATE_INIT" if "fst v \<noteq> MLACP_STATE_INIT" for v :: "'a fsm"
    using that by (cases "(m, v)" rule: fsm_sender.cases) auto
  have ask: "fst (fsm_requester m v) \<noteq> MLACP_STATE_INIT" if "fst v \<noteq> MLACP_STATE_INIT" for v :: "'a fsm"
    using that recv by (auto simp: fsm_requester_def Let_def split: option.split)
  have ex: "fst (fsm_exchange m v) \<noteq> MLACP_STATE_INIT" if "fst v \<noteq> MLACP_STATE_INIT" for v :: "'a fsm"
    using that recv by (cases "(m, v)" rule: fsm_exchange.cases) auto
  show ?thesis
    by (auto simp: fsm_step_def Let_def send ask ex split: MLACP_APP_STATE.split)
qed

lemma fsm_view_init:
  "fsm_view (upd_ml c (\<lambda>m. m\<lparr>ml_wait_for_sync_data := w, ml_current_state := st\<rparr>) s) =
    (fsm_view s)(c := (st, w, snd (snd (fsm_view s c))))"
  by (simp add: fun_eq_iff fsm_view_def fsm_of_def upd_ml_def upd_csm_def upd_mlacp_def upd_app_def)

lemma fsm_body_view:
  assumes "fsm_body c prev_state msg s = Some (p, t)"
  shows "fsm_view t = (fsm_view s)(c :=
      fsm_step (role_of (fsm_view s c) = STP_ROLE_ACTIVE) (map_option msg_view msg) (fsm_view s c))"
    and "p = fst (fsm_view s c)"
proof -
  obtain s1 where s1: "(if prev_state \<noteq> ml_current_state (MLACP (csm_of s c))
        \<and> ml_current_state (MLACP (csm_of s c)) = MLACP_STATE_EXCHANGE
      then mlacp_peer_conn_handler c s else Some s) = Some s1"
    and rest: "(let s2 = (if ml_current_state (MLACP (csm_of s1 c)) = MLACP_STATE_INIT
               then mlacp_resync_ndisc c (mlacp_resync_arp c (upd_ml c (\<lambda>m.
                      m\<lparr>ml_wait_for_sync_data := 0, ml_current_state := MLACP_STATE_STAGE1\<rparr>) s1))
               else s1) in (case ml_current_state (MLACP (csm_of s2 c)) of
              MLACP_STATE_INIT \<Rightarrow> Some s2 | MLACP_STATE_ERROR \<Rightarrow> Some s2
            | MLACP_STATE_STAGE1 \<Rightarrow> mlacp_stage_handler c msg s2 | MLACP_STATE_STAGE2 \<Rightarrow> mlacp_stage_handler c msg s2
            | MLACP_STATE_EXCHANGE \<Rightarrow> mlacp_exchange_handler c msg s2)) = Some t"
    and p: "p = ml_current_state (MLACP (csm_of s1 c))"
    using assms unfolding fsm_body_def bind_eq_Some_conv Let_def by auto
  have v1: "fsm_view s1 = fsm_view s" using s1 by (auto split: if_splits dest: fsm_view_conn)
  then show "p = fst (fsm_view s c)" by (simp add: p fsm_view_sel)
  define s2 where "s2 = (if ml_current_state (MLACP (csm_of s1 c)) = MLACP_STATE_INIT
               then mlacp_resync_ndisc c (mlacp_resync_arp c (upd_ml c (\<lambda>m.
                      m\<lparr>ml_wait_for_sync_data := 0, ml_current_state := MLACP_STATE_STAGE1\<rparr>) s1))
               else s1)"
  define v where "v = (if fst (fsm_view s c) = MLACP_STATE_INIT then (MLACP_STATE_STAGE1, 0, snd (snd (fsm_view s c)))
    else fsm_view s c)"
  have v2: "fsm_view s2 = (fsm_view s)(c := v)"
    using v1 by (simp add: s2_def v_def fsm_view_init fsm_view_sel)
  have step: "fsm_step a m v = fsm_step a m (fsm_view s c)" for a m
    by (simp add: fsm_step_def v_def)
  have role: "role_of v = role_of (fsm_view s c)" by (simp add: v_def)
  have fin: "(case fst v of MLACP_STATE_INIT \<Rightarrow> Some s2 | MLACP_STATE_ERROR \<Rightarrow> Some s2
      | MLACP_STATE_EXCHANGE \<Rightarrow> mlacp_exchange_handler c msg s2 | _ \<Rightarrow> mlacp_stage_handler c msg s2) = Some t"
    using rest v2 unfolding s2_def [symmetric] Let_def by (simp add: fsm_view_sel split: MLACP_APP_STATE.splits)
  have "fsm_view t = (fsm_view s2)(c := fsm_step (role_of v = STP_ROLE_ACTIVE) (map_option msg_view msg) v)"
    using fin v2 fsm_view_stage [of c msg s2 t] fsm_view_exchange [of c msg s2 t]
    by (cases "fst v") (auto simp: fsm_step_def v_def split: if_splits)
  then show "fsm_view t = (fsm_view s)(c :=
      fsm_step (role_of (fsm_view s c) = STP_ROLE_ACTIVE) (map_option msg_view msg) (fsm_view s c))"
    using v2 by (simp add: step role)
qed

text \<open>The message at the head of the queue, which \<open>mlacp_dequeue_msg\<close> takes out.\<close>

lemma mlacp_dequeue_cases:
  obtains (Empty) "mlacp_dequeue_msg (csm_of s c) = (None, csm_of s c)" "ml_msg_list (MLACP (csm_of s c)) = []"
  | (Msg) m ms where "mlacp_dequeue_msg (csm_of s c) = (Some m, upd_mlacp (\<lambda>l. l\<lparr>ml_msg_list := ms\<rparr>) (csm_of s c))"
      "ml_msg_list (MLACP (csm_of s c)) = m # ms"
  by (cases "ml_msg_list (MLACP (csm_of s c))") (auto simp: mlacp_dequeue_msg_def)

lemma fsm_view_dequeued:
  assumes "mlacp_dequeue_msg (csm_of s c) = (Some m, csm)"
  shows "\<exists>ms. fst (snd (snd (fsm_view s c))) = m # ms \<and> fsm_view (upd_csm c (\<lambda>_. csm) s) = (fsm_view s)(c :=
    (fst (fsm_view s c), fst (snd (fsm_view s c)), ms, snd (snd (snd (fsm_view s c)))))"
  using assms by (cases rule: mlacp_dequeue_cases [of s c])
    (auto simp: fun_eq_iff fsm_view_def fsm_of_def upd_csm_def upd_mlacp_def upd_app_def)

text \<open>
  The loop of \<open>mlacp_fsm_transit\<close>. In the initial state no message is taken from the queue, and
  \<open>have_msg\<close> keeps its value 1; otherwise the loop ends after the pass that found the queue empty.
\<close>

function (sequential) mlacp_fsm_loop ::
  "csm_ptr \<Rightarrow> MLACP_APP_STATE \<Rightarrow> System \<Rightarrow> (MLACP_APP_STATE \<times> System) option" where
  "mlacp_fsm_loop c prev_state s =
     (if ml_current_state (MLACP (csm_of s c)) = MLACP_STATE_INIT then
        (case fsm_body c prev_state None s of None \<Rightarrow> None | Some (p, t) \<Rightarrow> mlacp_fsm_loop c p t)
      else (case mlacp_dequeue_msg (csm_of s c) of
          (None, _) \<Rightarrow> fsm_body c prev_state None s
        | (Some m, csm) \<Rightarrow>
            (case is_nak m of None \<Rightarrow> None
             | Some True \<Rightarrow>
                 (case mlacp_sync_recv_nak_handler c m (upd_csm c (\<lambda>_. csm) s) of None \<Rightarrow> None
                  | Some t \<Rightarrow> mlacp_fsm_loop c prev_state t)
             | Some False \<Rightarrow>
                 (case fsm_body c prev_state (Some m) (upd_csm c (\<lambda>_. csm) s) of None \<Rightarrow> None
                  | Some (p, t) \<Rightarrow> mlacp_fsm_loop c p t))))"
  by pat_completeness auto

termination
proof (relation "measure (\<lambda>(c, p, s). 2 * length (ml_msg_list (MLACP (csm_of s c)))
    + (if ml_current_state (MLACP (csm_of s c)) = MLACP_STATE_INIT then 1 else 0))", goal_cases)
  case (2 c prev_state s pt p t)
  then show ?case by (auto simp: fsm_view_sel dest!: fsm_body_view(1))
next
  case (3 c prev_state s r csm m t)
  then show ?case by (auto simp: fsm_view_sel dest!: fsm_view_dequeued [OF sym] fsm_view_recv_nak)
next
  case (4 c prev_state s r csm m pt p t)
  then show ?case by (auto simp: fsm_view_sel dest!: fsm_view_dequeued [OF sym] fsm_body_view(1))
qed simp

declare mlacp_fsm_loop.simps [simp del]

definition mlacp_fsm_transit ::
  "csm_ptr \<Rightarrow> MLACP_APP_STATE \<Rightarrow> System \<Rightarrow> (MLACP_APP_STATE \<times> System) option" where
  "mlacp_fsm_transit c prev_state s =
     (if csm_sock_fd (csm_of s c) \<le> 0 \<or> app_current_state (csm_app_csm (csm_of s c)) \<noteq> APP_OPERATIONAL then
        if ml_current_state (MLACP (csm_of s c)) = MLACP_STATE_INIT then Some (prev_state, s)
        else do {
          s1 \<leftarrow> mlacp_mac_msg_queue_reinit c (upd_ml c (\<lambda>m.
                  m\<lparr>ml_msg_list := [], ml_arp_msg_list := [], ml_ndisc_msg_list := []\<rparr>) s);
          let s2 = upd_ml c (\<lambda>m. m\<lparr>ml_current_state := MLACP_STATE_INIT\<rparr>) s1;
          Some (prev_state, if 0 < csm_sock_fd (csm_of s2 c) then scheduler_csm_socket_cleanup c s2 else s2) }
      else do {
        s1 \<leftarrow> (if csm_warm_reboot_disconn_time (csm_of s c) \<noteq> 0
                   \<and> WARM_REBOOT_TIMEOUT \<le> env_time s - csm_warm_reboot_disconn_time (csm_of s c)
               then mlacp_peer_disconn_handler c (upd_csm c (\<lambda>m. m\<lparr>csm_warm_reboot_disconn_time := 0\<rparr>) s)
               else Some s);
        mlacp_fsm_loop c prev_state (mlacp_peer_link_learning_handler c
          (mlacp_local_lif_state_mac_handler c (mlacp_sync_send_heartbeat c s1))) })"

section \<open>The run follows the protocol\<close>

definition fsm_pair :: "'a fsm \<Rightarrow> unit fsm" where
  "fsm_pair v = (fst v, fst (snd v), ())"

lemma fsm_pair_sel [simp]: "fst (fsm_pair v) = fst v" "fst (snd (fsm_pair v)) = fst (snd v)"
  by (simp_all add: fsm_pair_def)

lemma fsm_pair_moves [simp]:
  "fsm_pair (fsm_next v) = fsm_next (fsm_pair v)" "fsm_pair (fsm_wait w v) = fsm_wait w (fsm_pair v)"
  by (simp_all add: fsm_pair_def fsm_next_def fsm_wait_def)

lemma fsm_pair_recv [simp]: "fsm_pair (fsm_recv k v) = fsm_recv k (fsm_pair v)"
  by (cases k) simp_all

lemma fsm_pair_step [simp]: "fsm_pair (fsm_step a m v) = fsm_step a m (fsm_pair v)"
proof -
  have send: "fsm_pair (fsm_sender m v) = fsm_sender m (fsm_pair v)" for v :: "'a fsm"
    by (cases "(m, v)" rule: fsm_sender.cases) auto
  have ask: "fsm_pair (fsm_requester m v) = fsm_requester m (fsm_pair v)" for v :: "'a fsm"
  proof -
    have "fst (snd (fsm_recv k (fsm_pair v))) = fst (snd (fsm_recv k v))" for k by (cases k) simp_all
    then show ?thesis by (auto simp: fsm_requester_def Let_def split: option.split)
  qed
  have ex: "fsm_pair (fsm_exchange m v) = fsm_exchange m (fsm_pair v)" for v :: "'a fsm"
    by (cases "(m, v)" rule: fsm_exchange.cases) auto
  have "fsm_pair (if fst v = MLACP_STATE_INIT then (MLACP_STATE_STAGE1, 0, snd (snd v)) else v) =
      (if fst v = MLACP_STATE_INIT then (MLACP_STATE_STAGE1, 0, snd (snd (fsm_pair v))) else fsm_pair v)"
    by (simp add: fsm_pair_def)
  then show ?thesis
    by (cases "fst v") (simp_all add: fsm_step_def Let_def send ask ex)
qed

lemma fsm_step_unpair:
  "fsm_step a m v = (fst (fsm_step a m (fsm_pair v)), fst (snd (fsm_step a m (fsm_pair v))), snd (snd v))"
  by (simp add: prod_eq_iff flip: fsm_pair_step)

lemma fsm_run_simps:
  "fst v = MLACP_STATE_INIT \<Longrightarrow> fsm_run a ms v = fsm_run a ms (fsm_step a None v)"
  "fst v \<noteq> MLACP_STATE_INIT \<Longrightarrow> fsm_run a [] v = fsm_step a None v"
  "fst v \<noteq> MLACP_STATE_INIT \<Longrightarrow> fsm_run a (m # ms) v = fsm_run a ms (fsm_step a (Some m) v)"
  by (simp_all add: fsm_run_def)

text \<open>The messages that are not rejections, as the protocol sees them.\<close>

definition pending :: "bytes list \<Rightarrow> (bool \<times> fsm_msg) list" where
  "pending q = map msg_view (filter (\<lambda>m. is_nak m \<noteq> Some True) q)"

lemma pending_simps [simp]:
  "pending [] = []" "pending (m # q) = (if is_nak m = Some True then pending q else msg_view m # pending q)"
  by (simp_all add: pending_def)

definition fsm_ran :: "csm_ptr \<Rightarrow> System \<Rightarrow> System \<Rightarrow> bool" where
  "fsm_ran c s t \<longleftrightarrow> fsm_view t = (fsm_view s)(c := let v = fsm_run (role_of (fsm_view s c) = STP_ROLE_ACTIVE)
     (pending (fst (snd (snd (fsm_view s c))))) (fsm_pair (fsm_view s c))
     in (fst v, fst (snd v), [], snd (snd (snd (fsm_view s c)))))"

lemma fsm_ran_step:
  assumes "fsm_ran c s1 t" "fsm_view s1 = (fsm_view s)(c := v1)" "snd (snd (snd v1)) = snd (snd (snd (fsm_view s c)))"
    "fsm_run (role_of (fsm_view s c) = STP_ROLE_ACTIVE) (pending (fst (snd (snd v1)))) (fsm_pair v1) =
     fsm_run (role_of (fsm_view s c) = STP_ROLE_ACTIVE) (pending (fst (snd (snd (fsm_view s c))))) (fsm_pair (fsm_view s c))"
  shows "fsm_ran c s t"
  using assms by (simp add: fsm_ran_def Let_def)

text \<open>
  An invariant of the loop, backwards from its result \<open>t\<close>: it holds at the last pass, and each pass
  keeps it. \<open>dequeued\<close> is the state after the head of the queue was taken out.
\<close>

definition dequeued :: "csm_ptr \<Rightarrow> bytes list \<Rightarrow> System \<Rightarrow> System" where
  "dequeued c ms s = upd_csm c (\<lambda>_. upd_mlacp (\<lambda>l. l\<lparr>ml_msg_list := ms\<rparr>) (csm_of s c)) s"

lemma fsm_view_dequeued_eq:
  "fsm_view (dequeued c ms s) = (fsm_view s)(c :=
    (fst (fsm_view s c), fst (snd (fsm_view s c)), ms, snd (snd (snd (fsm_view s c)))))"
  by (simp add: fun_eq_iff fsm_view_def fsm_of_def dequeued_def upd_csm_def upd_mlacp_def upd_app_def)

lemma mlacp_fsm_loop_back [consumes 1, case_names Init Empty Nak Msg]:
  assumes "mlacp_fsm_loop c prev_state s = Some (p, t)"
    and init: "\<And>pr s p1 s1. fst (fsm_view s c) = MLACP_STATE_INIT \<Longrightarrow> fsm_body c pr None s = Some (p1, s1) \<Longrightarrow>
      P s1 \<Longrightarrow> P s"
    and empty: "\<And>pr s. fst (fsm_view s c) \<noteq> MLACP_STATE_INIT \<Longrightarrow> fst (snd (snd (fsm_view s c))) = [] \<Longrightarrow>
      fsm_body c pr None s = Some (p, t) \<Longrightarrow> P s"
    and nak: "\<And>s m ms s1. fst (fsm_view s c) \<noteq> MLACP_STATE_INIT \<Longrightarrow> fst (snd (snd (fsm_view s c))) = m # ms \<Longrightarrow>
      is_nak m = Some True \<Longrightarrow> mlacp_sync_recv_nak_handler c m (dequeued c ms s) = Some s1 \<Longrightarrow> P s1 \<Longrightarrow> P s"
    and msg: "\<And>pr s m ms p1 s1. fst (fsm_view s c) \<noteq> MLACP_STATE_INIT \<Longrightarrow> fst (snd (snd (fsm_view s c))) = m # ms \<Longrightarrow>
      is_nak m = Some False \<Longrightarrow> fsm_body c pr (Some m) (dequeued c ms s) = Some (p1, s1) \<Longrightarrow> P s1 \<Longrightarrow> P s"
  shows "P s"
proof -
  have "d = c \<Longrightarrow> mlacp_fsm_loop d pr s = Some (p, t) \<Longrightarrow> P s" for d pr s
  proof (induction d pr s rule: mlacp_fsm_loop.induct)
    case (1 d pr s)
    note sel = fsm_view_sel and step = mlacp_fsm_loop.simps [of c pr s]
    show ?case
    proof (cases "fst (fsm_view s c) = MLACP_STATE_INIT")
      case True
      then obtain p1 s1 where "fsm_body c pr None s = Some (p1, s1)" "mlacp_fsm_loop c p1 s1 = Some (p, t)"
        using 1(4,5) by (auto simp: step sel split: option.splits)
      then show ?thesis using 1(1,4) True init by (auto simp: sel)
    next
      case False
      show ?thesis
      proof (cases rule: mlacp_dequeue_cases [of s c])
        case Empty
        then show ?thesis using False 1(4,5) empty by (simp add: step sel)
      next
        case (Msg m ms)
        note deq = Msg(1) [folded dequeued_def] and q = Msg(2) [unfolded sel]
        have s0: "upd_csm c (\<lambda>_. upd_mlacp (\<lambda>l. l\<lparr>ml_msg_list := ms\<rparr>) (csm_of s c)) s = dequeued c ms s"
          by (simp add: dequeued_def)
        from 1(4,5) False deq consider
          (n) s1 where "is_nak m = Some True" "mlacp_sync_recv_nak_handler c m (dequeued c ms s) = Some s1"
            "mlacp_fsm_loop c pr s1 = Some (p, t)"
        | (b) p1 s1 where "is_nak m = Some False" "fsm_body c pr (Some m) (dequeued c ms s) = Some (p1, s1)"
            "mlacp_fsm_loop c p1 s1 = Some (p, t)"
          by (auto simp: step sel s0 split: option.splits bool.splits)
        then show ?thesis
        proof cases
          case n
          then have "P s1" using 1(2,4) False deq by (auto simp: sel s0)
          then show ?thesis using nak False q n by auto
        next
          case b
          then have "P s1" using 1(3,4) False deq by (auto simp: sel s0)
          then show ?thesis using msg False q b by auto
        qed
      qed
    qed
  qed
  then show ?thesis using assms(1) by blast
qed

lemma mlacp_fsm_loop_ran: "mlacp_fsm_loop c prev_state s = Some (p, t) \<Longrightarrow> fsm_ran c s t"
proof (induction rule: mlacp_fsm_loop_back)
  case (Init pr s p1 s1)
  from fsm_ran_step [OF Init(3) fsm_body_view(1) [OF Init(2)]] show ?case
    using Init(1) by (simp add: fsm_run_simps)
next
  case (Empty pr s)
  then have "fsm_view t = (fsm_view s)(c := fsm_step (role_of (fsm_view s c) = STP_ROLE_ACTIVE) None (fsm_view s c))"
    using fsm_body_view(1) by fastforce
  moreover obtain lk where "snd (snd (fsm_view s c)) = ([], lk)"
    using Empty(2) by (cases "snd (snd (fsm_view s c))") simp
  ultimately show ?case
    using Empty(1) fsm_step_unpair [of _ None "fsm_view s c"] by (simp add: fsm_ran_def fsm_run_simps Let_def)
next
  case (Nak s m ms s1)
  let ?v = "fsm_view s c"
  have "fsm_view s1 = (fsm_view s)(c := (fst ?v, fst (snd ?v), ms, snd (snd (snd ?v))))"
    using fsm_view_recv_nak [OF Nak(4)] by (simp add: fsm_view_dequeued_eq)
  with Nak(5) show ?case by (rule fsm_ran_step) (use Nak in \<open>simp_all add: fsm_pair_def\<close>)
next
  case (Msg pr s m ms p1 s1)
  let ?v = "fsm_view s c"
  have "fsm_view s1 = (fsm_view s)(c := fsm_step (role_of ?v = STP_ROLE_ACTIVE) (Some (msg_view m))
      (fst ?v, fst (snd ?v), ms, snd (snd (snd ?v))))"
    using fsm_body_view(1) [OF Msg(4)] by (simp add: fsm_view_dequeued_eq)
  with Msg(5) show ?case
    by (rule fsm_ran_step) (use Msg in \<open>auto simp: fsm_run_simps fsm_pair_def [of "(_, _, _, _)"] fsm_pair_def [of ?v]\<close>)
qed

lemma mlacp_fsm_transit_operational:
  assumes "0 < csm_sock_fd (csm_of s c)" "app_current_state (csm_app_csm (csm_of s c)) = APP_OPERATIONAL"
    "mlacp_fsm_transit c prev_state s = Some (p, t)"
  shows "fsm_ran c s t"
proof -
  obtain s1 where s1: "fsm_view s1 = fsm_view s" "mlacp_fsm_loop c prev_state (mlacp_peer_link_learning_handler c
      (mlacp_local_lif_state_mac_handler c (mlacp_sync_send_heartbeat c s1))) = Some (p, t)"
    using assms by (auto simp: mlacp_fsm_transit_def bind_eq_Some_conv split: if_splits dest!: fsm_view_disconn)
  from mlacp_fsm_loop_ran [OF s1(2)] show ?thesis using s1(1) by (simp add: fsm_ran_def)
qed

text \<open>
  C3. One run of the state machine on an established connection follows the synchronisation
  protocol: the new state and what the node waits for are those of the protocol on the messages that
  were queued, in their order and without the rejections. The queue is empty afterwards, the role,
  the socket and the layers below are as before, and no other session is touched.
\<close>

theorem mlacp_fsm_transit_refines:
  assumes "0 < csm_sock_fd (csm_of s c)" "app_current_state (csm_app_csm (csm_of s c)) = APP_OPERATIONAL"
    "mlacp_fsm_transit c prev_state s = Some (p, t)"
  shows "(ml_current_state (MLACP (csm_of t c)), ml_wait_for_sync_data (MLACP (csm_of t c)), ()) =
      fsm_run (csm_role_type (csm_of s c) = STP_ROLE_ACTIVE) (pending (ml_msg_list (MLACP (csm_of s c))))
        (ml_current_state (MLACP (csm_of s c)), ml_wait_for_sync_data (MLACP (csm_of s c)), ()) \<and>
    ml_msg_list (MLACP (csm_of t c)) = [] \<and> csm_role_type (csm_of t c) = csm_role_type (csm_of s c) \<and>
    csm_sock_fd (csm_of t c) = csm_sock_fd (csm_of s c) \<and> csm_current_state (csm_of t c) = csm_current_state (csm_of s c) \<and>
    (\<forall>d. d \<noteq> c \<longrightarrow> fsm_view t d = fsm_view s d)"
  using mlacp_fsm_transit_operational [OF assms]
  by (simp add: fsm_ran_def fsm_view_sel fsm_pair_def Let_def prod_eq_iff)

lemma fsm_step_settled:
  "fst v = MLACP_STATE_ERROR \<Longrightarrow> fsm_step a m v = v"
  "fst v = MLACP_STATE_EXCHANGE \<Longrightarrow> fsm_step a m v = fsm_exchange m v"
  by (simp_all add: fsm_step_def)

lemma fsm_exchange_state:
  "fst v = MLACP_STATE_EXCHANGE \<Longrightarrow>
    fst (fsm_exchange m v) = (if m = Some (True, SyncRequest) then MLACP_STATE_ERROR else MLACP_STATE_EXCHANGE)"
proof (cases "(m, v)" rule: fsm_exchange.cases)
  case (1 k w)
  moreover assume "fst v = MLACP_STATE_EXCHANGE"
  ultimately show ?thesis by (cases k) simp_all
qed auto

lemma fsm_steps_ERROR: "fst v = MLACP_STATE_ERROR \<Longrightarrow> foldl (\<lambda>v m. fsm_step a (Some m) v) v ms = v"
  by (induction ms) (simp_all add: fsm_step_settled)

lemma fsm_steps_EXCHANGE:
  "fst v = MLACP_STATE_EXCHANGE \<Longrightarrow> fst (foldl (\<lambda>v m. fsm_step a (Some m) v) v ms) =
    (if (True, SyncRequest) \<in> set ms then MLACP_STATE_ERROR else MLACP_STATE_EXCHANGE)"
proof (induction ms arbitrary: v)
  case (Cons m ms)
  then show ?case
    using fsm_exchange_state [of v "Some m"]
    by (cases "m = (True, SyncRequest)") (auto simp: fsm_step_settled fsm_steps_ERROR)
qed simp

lemma fsm_run_EXCHANGE:
  assumes "fst v = MLACP_STATE_EXCHANGE"
  shows "fst (fsm_run a ms v) = (if (True, SyncRequest) \<in> set ms then MLACP_STATE_ERROR else MLACP_STATE_EXCHANGE)"
  using assms fsm_steps_EXCHANGE [OF assms, of a ms]
  by (auto simp: fsm_run_def fsm_step_settled fsm_exchange_state)

lemma fsm_run_ERROR: "fst v = MLACP_STATE_ERROR \<Longrightarrow> fsm_run a ms v = v"
  by (simp add: fsm_run_def fsm_steps_ERROR fsm_step_settled)

text \<open>
  In the error state the loop takes the messages out of the queue. A rejection still has its effect
  on the fields that make the node send its data again; no other message has any.
\<close>

definition error_left :: "u8 \<Rightarrow> u8 \<Rightarrow> u8 \<Rightarrow> mLACP \<Rightarrow> mLACP" where
  "error_left node changed sync = (\<lambda>m. m\<lparr>ml_msg_list := [], ml_node_id := node, ml_system_config_changed := changed,
     ml_need_to_sync := sync\<rparr>)"

lemma dequeued_upd_ml: "dequeued c ms s = upd_ml c (\<lambda>l. l\<lparr>ml_msg_list := ms\<rparr>) s"
  by (simp add: dequeued_def upd_ml_def upd_csm_def)

lemma recv_nak_left:
  assumes "mlacp_sync_recv_nak_handler c m s = Some s1"
  shows "\<exists>a b d. s1 = upd_ml c (\<lambda>l. l\<lparr>ml_node_id := a, ml_system_config_changed := b, ml_need_to_sync := d\<rparr>) s"
proof -
  let ?l = "MLACP (csm_of s c)"
  have "upd_ml c (\<lambda>m. m\<lparr>ml_need_to_sync := 1\<rparr>) s = upd_ml c (\<lambda>l. l\<lparr>ml_node_id := ml_node_id ?l,
        ml_system_config_changed := ml_system_config_changed ?l, ml_need_to_sync := 1\<rparr>) s"
    "upd_ml c (\<lambda>m. m\<lparr>ml_node_id := ml_node_id m - 1, ml_system_config_changed := 1\<rparr>) s =
      upd_ml c (\<lambda>l. l\<lparr>ml_node_id := ml_node_id ?l - 1, ml_system_config_changed := 1,
        ml_need_to_sync := ml_need_to_sync ?l\<rparr>) s"
    by (rule upd_ml_cong, simp)+
  with assms show ?thesis
    by (auto simp: mlacp_sync_recv_nak_handler_def Let_def bind_eq_Some_conv split: if_splits)
qed

lemma error_left_empty:
  "ml_msg_list (MLACP (csm_of s c)) = [] \<Longrightarrow> s = upd_ml c (\<lambda>l. l\<lparr>ml_msg_list := []\<rparr>) s"
  "upd_ml c (\<lambda>l. l\<lparr>ml_msg_list := []\<rparr>) s = upd_ml c (error_left (ml_node_id (MLACP (csm_of s c)))
     (ml_system_config_changed (MLACP (csm_of s c))) (ml_need_to_sync (MLACP (csm_of s c)))) s"
  by (simp add: upd_ml_def upd_csm_def upd_mlacp_def upd_app_def fun_upd_idem)
    (rule upd_ml_cong, simp add: error_left_def)

lemma loop_ERROR:
  assumes "mlacp_fsm_loop c prev_state s = Some (p, t)"
  shows "fst (fsm_view s c) = MLACP_STATE_ERROR \<longrightarrow> (\<exists>a b d. t = upd_ml c (error_left a b d) s) \<and>
    ((\<forall>m \<in> set (fst (snd (snd (fsm_view s c)))). is_nak m \<noteq> Some True) \<longrightarrow>
      t = upd_ml c (\<lambda>l. l\<lparr>ml_msg_list := []\<rparr>) s)"
  using assms
proof (induction rule: mlacp_fsm_loop_back)
  case (Empty pr s)
  show ?case
  proof
    assume "fst (fsm_view s c) = MLACP_STATE_ERROR"
    then have "t = s" using Empty(3) by (auto simp: fsm_body_def fsm_view_sel bind_eq_Some_conv Let_def)
    then have "t = upd_ml c (\<lambda>l. l\<lparr>ml_msg_list := []\<rparr>) s"
      using error_left_empty(1) [of s c] Empty(2) by (simp add: fsm_view_sel)
    then show "(\<exists>a b d. t = upd_ml c (error_left a b d) s) \<and>
        ((\<forall>m \<in> set (fst (snd (snd (fsm_view s c)))). is_nak m \<noteq> Some True) \<longrightarrow>
          t = upd_ml c (\<lambda>l. l\<lparr>ml_msg_list := []\<rparr>) s)"
      using error_left_empty(2) [of c s] by blast
  qed
next
  case (Nak s m ms s1)
  obtain a b d where s1: "s1 = upd_ml c (\<lambda>l. l\<lparr>ml_msg_list := ms, ml_node_id := a, ml_system_config_changed := b,
      ml_need_to_sync := d\<rparr>) s"
    using recv_nak_left [OF Nak(4)] by (auto simp: dequeued_upd_ml upd_ml_upd_ml)
  then have "fst (fsm_view s1 c) = fst (fsm_view s c)" by (simp add: fsm_view_def fsm_of_def)
  with Nak(2,3,5) s1 show ?case
    by (auto simp: upd_ml_upd_ml error_left_def)
next
  case (Msg pr s m ms p1 s1)
  show ?case
  proof
    assume err: "fst (fsm_view s c) = MLACP_STATE_ERROR"
    then have "s1 = dequeued c ms s"
      using Msg(4) fsm_view_dequeued_eq [of c ms s] by (auto simp: fsm_body_def fsm_view_sel bind_eq_Some_conv Let_def)
    then show "(\<exists>a b d. t = upd_ml c (error_left a b d) s) \<and>
        ((\<forall>m \<in> set (fst (snd (snd (fsm_view s c)))). is_nak m \<noteq> Some True) \<longrightarrow>
          t = upd_ml c (\<lambda>l. l\<lparr>ml_msg_list := []\<rparr>) s)"
      using Msg(2,3,5) err fsm_view_dequeued_eq [of c ms s]
      by (auto simp: dequeued_upd_ml upd_ml_upd_ml error_left_def)
  qed
qed simp

text \<open>
  C32. A request for data that arrives when the initial synchronisation is over puts the node into
  the error state, and no other message does. In the error state a run empties the queue and, unless
  there are rejections in it, changes nothing else in the whole system: the messages are thrown away,
  the heartbeats too. A rejection is acted on in this state as well, and changes the node id and the
  marks that ask for another transmission, and nothing else.
\<close>

theorem mlacp_fsm_loop_error_state:
  assumes "mlacp_fsm_loop c prev_state s = Some (p, t)"
  shows "(ml_current_state (MLACP (csm_of s c)) = MLACP_STATE_EXCHANGE \<longrightarrow>
      ml_current_state (MLACP (csm_of t c)) =
        (if \<exists>m \<in> set (ml_msg_list (MLACP (csm_of s c))). msg_type m = Some MSG_T_RG_APP_DATA \<and>
            tlv_type m = Some TLV_T_MLACP_SYNC_REQUEST then MLACP_STATE_ERROR else MLACP_STATE_EXCHANGE)) \<and>
    (ml_current_state (MLACP (csm_of s c)) = MLACP_STATE_ERROR \<longrightarrow>
      (\<exists>a b d. t = upd_ml c (\<lambda>m. m\<lparr>ml_msg_list := [], ml_node_id := a, ml_system_config_changed := b,
         ml_need_to_sync := d\<rparr>) s) \<and>
      ((\<forall>m \<in> set (ml_msg_list (MLACP (csm_of s c))). is_nak m \<noteq> Some True) \<longrightarrow>
        t = upd_ml c (\<lambda>m. m\<lparr>ml_msg_list := []\<rparr>) s))"
proof -
  have "MSG_T_RG_APP_DATA \<noteq> MSG_T_NOTIFICATION" by (simp add: const_defs)
  then have "(True, SyncRequest) \<in> set (pending q) \<longleftrightarrow> (\<exists>m \<in> set q. msg_type m = Some MSG_T_RG_APP_DATA \<and>
      tlv_type m = Some TLV_T_MLACP_SYNC_REQUEST)" for q
    by (auto simp: pending_def msg_view_def msg_kind_def is_nak_def image_iff split: if_splits)
  then have "ml_current_state (MLACP (csm_of s c)) = MLACP_STATE_EXCHANGE \<longrightarrow>
      ml_current_state (MLACP (csm_of t c)) =
        (if \<exists>m \<in> set (ml_msg_list (MLACP (csm_of s c))). msg_type m = Some MSG_T_RG_APP_DATA \<and>
            tlv_type m = Some TLV_T_MLACP_SYNC_REQUEST then MLACP_STATE_ERROR else MLACP_STATE_EXCHANGE)"
    using mlacp_fsm_loop_ran [OF assms] by (auto simp: fsm_ran_def fsm_view_sel fsm_run_EXCHANGE Let_def)
  moreover note loop_ERROR [OF assms, unfolded error_left_def]
  ultimately show ?thesis by (simp only: fsm_view_sel)
qed

section \<open>Runs that are defined\<close>

text \<open>
  Messages that are as long as their type and their own counts say, with terminated names: these are
  the messages a peer sends, of every type. A port channel is announced with the flag that asks to
  create it, or withdrawn, and its name length fits the array.
\<close>

definition named_entries_ok :: "'a decoder \<Rightarrow> ('a \<Rightarrow> bytes) \<Rightarrow> u16 \<Rightarrow> bytes \<Rightarrow> bool" where
  "named_entries_ok de name num bs \<longleftrightarrow> (case de_many de (unat (ntohs num)) bs of None \<Rightarrow> False
     | Some (es, _) \<Rightarrow> list_all (\<lambda>e. c_string (name e) \<noteq> None) es)"

definition agg_config_ok :: "mLACPAggConfigTLV \<Rightarrow> bool" where
  "agg_config_ok t \<longleftrightarrow> c_string (ac_agg_name t) \<noteq> None \<and>
     (ac_flags t AND 2 \<noteq> 0 \<or> ac_flags t AND 1 \<noteq> 0 \<and> unat (ac_agg_name_len t) \<le> MAX_L_PORT_NAME)"

definition table_data_ok :: "u16 \<Rightarrow> bytes \<Rightarrow> bool" where
  "table_data_ok ty tlv \<longleftrightarrow>
     (if ty = TLV_T_MLACP_AGGREGATOR_CONFIG
      then (case de_mLACPAggConfigTLV tlv of None \<Rightarrow> False | Some (t, _) \<Rightarrow> agg_config_ok t)
      else if ty = TLV_T_MLACP_PORT_CHANNEL_INFO
      then (case de_mLACPPortChannelInfoTLV tlv of None \<Rightarrow> False
            | Some (t, r) \<Rightarrow> de_many de_le16 (unat (ntohs (pc_num_of_vlan_id t))) r \<noteq> None)
      else if ty = TLV_T_MLACP_MAC_INFO
      then (case de_mLACPMACInfoTLV tlv of None \<Rightarrow> False
            | Some (t, r) \<Rightarrow> named_entries_ok de_mLACPMACData md_ifname (mi_num_of_entry t) r)
      else if ty = TLV_T_MLACP_ARP_INFO
      then (case de_mLACPARPInfoTLV tlv of None \<Rightarrow> False
            | Some (t, r) \<Rightarrow> named_entries_ok de_ARPMsg arp_ifname (ai_num_of_entry t) r)
      else if ty = TLV_T_MLACP_NDISC_INFO
      then (case de_mLACPNDISCInfoTLV tlv of None \<Rightarrow> False
            | Some (t, r) \<Rightarrow> named_entries_ok de_NDISCMsg nd_ifname (ni_num_of_entry t) r)
      else True)"

definition well_formed :: "bytes \<Rightarrow> bool" where
  "well_formed m \<longleftrightarrow> is_nak m = Some False \<and> (case tlv_type m of None \<Rightarrow> False
     | Some ty \<Rightarrow> if ty = TLV_T_MLACP_SYSTEM_CONFIG then de_mLACPSysConfigTLV (drop 16 m) \<noteq> None
         else if ty = TLV_T_MLACP_AGGREGATOR_STATE then de_mLACPAggPortStateTLV (drop 16 m) \<noteq> None
         else if ty = TLV_T_MLACP_SYNC_DATA then de_mLACPSyncDataTLV (drop 16 m) \<noteq> None
         else if ty = TLV_T_MLACP_SYNC_REQUEST then de_mLACPSyncReqTLV (drop 16 m) \<noteq> None
         else if ty = TLV_T_MLACP_PEERLINK_INFO then de_mLACPPeerLinkInfoTLV (drop 16 m) \<noteq> None
         else if ty = TLV_T_MLACP_IF_UP_ACK then de_mLACPIfUpAckTLV (drop 16 m) \<noteq> None
         else table_data_ok ty (drop 16 m))"

abbreviation no_peer_link :: "csm_ptr \<Rightarrow> System \<Rightarrow> bool" where
  "no_peer_link c s \<equiv> csm_peer_link_if (csm_of s c) = None"

lemma no_peer_link_view: "fsm_view t c = fsm_view s c \<Longrightarrow> no_peer_link c t \<longleftrightarrow> no_peer_link c s"
  by (simp add: fsm_view_sel)

lemma fold_opt_defined:
  assumes "\<And>x s. Q s \<Longrightarrow> \<exists>t. f x s = Some t \<and> Q t"
  shows "Q s \<Longrightarrow> \<exists>t. fold_opt f xs s = Some t \<and> Q t"
proof (induction xs arbitrary: s)
  case (Cons x xs)
  obtain u where "f x s = Some u" "Q u" using assms Cons.prems by blast
  then show ?case using Cons.IH by simp
qed simp

lemma if_defined: "\<exists>t. r = Some t \<Longrightarrow> \<exists>t. (if b then r else Some s) = Some t"
  by simp

lemma no_peer_link_isolate:
  assumes "no_peer_link c s"
  shows "update_peerlink_isolate_from_all_csm_lif c s = Some s" "update_peerlink_isolate_from_lif c l b s = Some s"
    "update_peerlink_isolate_from_pif c pif b n s = Some s"
    "\<exists>t. set_peerlink_mlag_port_isolate c l b n s = Some t \<and> no_peer_link c t"
  using assms by (simp_all add: update_peerlink_isolate_from_all_csm_lif_def update_peerlink_isolate_from_lif_def
      update_peerlink_isolate_from_pif_def set_peerlink_mlag_port_isolate_def Let_def upd_lif_def)

lemma portchannel_defined:
  assumes "no_peer_link c s"
  shows "\<exists>t. mlacp_portchannel_state_handler c l b s = Some t \<and> no_peer_link c t"
proof -
  obtain t where t: "mlacp_portchannel_state_handler c l b s = Some t"
    using no_peer_link_isolate(2) [OF assms] by (simp add: mlacp_portchannel_state_handler_def Let_def)
  then show ?thesis using assms fsm_view_portchannel [OF t] no_peer_link_view [of t c s] by simp
qed

lemma conn_defined: "no_peer_link c s \<Longrightarrow> \<exists>t. mlacp_peer_conn_handler c s = Some t"
proof -
  assume nl: "no_peer_link c s"
  let ?f = "\<lambda>l s. if lif_type (lif_of s l) = IF_T_PORT_CHANNEL
      then mlacp_portchannel_state_handler c l (lif_state (lif_of s l) = PORT_STATE_UP) s else Some s"
  have ports: "\<exists>t. fold_opt ?f ls u = Some t \<and> no_peer_link c t" if "no_peer_link c u" for ls u
    using that by (intro fold_opt_defined [where Q = "no_peer_link c"]) (auto simp: portchannel_defined)
  have frame: "no_peer_link c u" if "fsm_view u = fsm_view s" for u using nl that by (simp add: fsm_view_sel)
  define s4 where "s4 = (let s1 = (if csm_warm_reboot_disconn_time (csm_of s c) \<noteq> 0
        then upd_csm c (\<lambda>m. m\<lparr>csm_warm_reboot_disconn_time := 0\<rparr>) s else s);
      s3 = (if sys_once_connected s1 then s1 else mlacp_fix_bridge_mac c (s1\<lparr>sys_once_connected := True\<rparr>))
      in mlacp_conn_handler_fdb c s3)"
  have v4: "fsm_view s4 = fsm_view s"
    by (simp add: s4_def Let_def mlacp_fix_bridge_mac_def mlacp_conn_handler_fdb_def)
  then obtain s5 where s5: "fold_opt ?f (ml_lif_list (MLACP (csm_of s4 c))) s4 = Some s5" "no_peer_link c s5"
    using ports frame by blast
  define s7 where "s7 = (let s6 = snd (mlacp_link_set_iccp_state (csm_mlag_id (csm_of s5 c)) True s5)
      in foldl (\<lambda>s p. snd (mlacp_link_set_remote_if_state (csm_mlag_id (csm_of s c)) (pif_name p)
                     (pif_state p = PORT_STATE_UP) s)) s6 (ml_pif_list (MLACP (csm_of s6 c))))"
  have "fsm_view s7 = fsm_view s5" by (simp add: s7_def Let_def)
  then have s8: "update_peerlink_isolate_from_all_csm_lif c s7 = Some s7"
    using s5(2) no_peer_link_view [of s7 c s5] no_peer_link_isolate(1) by simp
  show ?thesis
    using nl s5(1) s8 unfolding mlacp_peer_conn_handler_def s4_def s7_def Let_def by (auto split: if_splits)
qed

text \<open>The receivers of table data.\<close>

lemma de_many_Suc:
  "de_many de (Suc n) bs = Some (es, r) \<longleftrightarrow>
    (\<exists>e r1 es1. de bs = Some (e, r1) \<and> de_many de n r1 = Some (es1, r) \<and> es = e # es1)"
  by (auto split: option.splits prod.splits)

lemma mac_entries_defined:
  "de_many de_mLACPMACData n bs = Some (es, r) \<Longrightarrow> list_all (\<lambda>e. c_string (md_ifname e) \<noteq> None) es \<Longrightarrow>
    \<exists>t. update_mac_entries c n bs s = Some t"
proof (induction n arbitrary: bs es s)
  case (Suc n)
  then obtain e r1 es1 where e: "de_mLACPMACData bs = Some (e, r1)" "de_many de_mLACPMACData n r1 = Some (es1, r)"
      "c_string (md_ifname e) \<noteq> None" "list_all (\<lambda>e. c_string (md_ifname e) \<noteq> None) es1"
    unfolding de_many_Suc by auto
  then have "\<exists>u. mlacp_fsm_update_mac_entry_from_peer c e s = Some u"
    by (auto simp: mlacp_fsm_update_mac_entry_from_peer_def Let_def)
  with Suc.IH [OF e(2,4)] e(1) show ?case by auto
qed simp

lemma arp_entries_defined:
  "de_many de_ARPMsg n bs = Some (es, r) \<Longrightarrow> list_all (\<lambda>e. c_string (arp_ifname e) \<noteq> None) es \<Longrightarrow>
    \<exists>t. update_arp_entries c n bs s = Some t"
proof (induction n arbitrary: bs es s)
  case (Suc n)
  then obtain e r1 es1 where e: "de_ARPMsg bs = Some (e, r1)" "de_many de_ARPMsg n r1 = Some (es1, r)"
      "c_string (arp_ifname e) \<noteq> None" "list_all (\<lambda>e. c_string (arp_ifname e) \<noteq> None) es1"
    unfolding de_many_Suc by auto
  then have "\<exists>rc u. mlacp_fsm_update_arp_entry c e s = Some (rc, u)"
    by (auto simp: mlacp_fsm_update_arp_entry_def Let_def)
  with Suc.IH [OF e(2,4)] e(1) show ?case by auto
qed simp

lemma ndisc_entries_defined:
  "de_many de_NDISCMsg n bs = Some (es, r) \<Longrightarrow> list_all (\<lambda>e. c_string (nd_ifname e) \<noteq> None) es \<Longrightarrow>
    \<exists>t. update_ndisc_entries c n bs s = Some t"
proof (induction n arbitrary: bs es s)
  case (Suc n)
  then obtain e r1 es1 where e: "de_NDISCMsg bs = Some (e, r1)" "de_many de_NDISCMsg n r1 = Some (es1, r)"
      "c_string (nd_ifname e) \<noteq> None" "list_all (\<lambda>e. c_string (nd_ifname e) \<noteq> None) es1"
    unfolding de_many_Suc by auto
  then have "\<exists>rc u. mlacp_fsm_update_ndisc_entry c e s = Some (rc, u)"
    by (auto simp: mlacp_fsm_update_ndisc_entry_def Let_def)
  with Suc.IH [OF e(2,4)] e(1) show ?case by auto
qed simp

lemma peer_vlans_defined:
  "de_many de_le16 n bs = Some (vs, r) \<Longrightarrow> \<exists>q t. add_peer_vlans n bs pif s = Some (q, t)"
proof (induction n arbitrary: bs vs pif s)
  case (Suc n)
  then show ?case unfolding de_many_Suc by (auto simp: split_beta)
qed simp

lemma c_string_name:
  assumes "c_string bs = Some n"
  shows "c_name (length bs) n"
proof -
  have n: "0 \<in> set bs" "n = map char_of_byte (takeWhile (\<lambda>b. b \<noteq> 0) bs)"
    using assms by (auto simp: c_string_def split: if_splits)
  have "length (takeWhile (\<lambda>b. b \<noteq> 0) bs) < length bs" using n(1) by (induction bs) auto
  moreover have "b = 0" if "CHR 0x00 = char_of_byte b" for b
    using arg_cong [OF that, of "of_char :: char \<Rightarrow> nat"] unsigned_less [of b, where 'a = nat]
    by (simp add: char_of_byte_def unsigned_eq_0_iff)
  ultimately show ?thesis using n(2) by (auto simp: c_name_def dest: set_takeWhileD)
qed

lemma agg_config_defined:
  assumes "no_peer_link c s" "de_mLACPAggConfigTLV tlv = Some (t, r)" "agg_config_ok t"
  shows "\<exists>rc u. mlacp_fsm_update_Agg_conf c tlv s = Some (rc, u)"
proof -
  obtain n where n: "c_string (ac_agg_name t) = Some n" using assms(3) by (auto simp: agg_config_ok_def)
  have arr: "0 \<in> set (ac_agg_name t)" "length (ac_agg_name t) = MAX_L_PORT_NAME"
    using assms(2) n by (auto simp: c_string_def de_mLACPAggConfigTLV_def de_bytes_def bind_eq_Some_conv
        split: if_splits prod.splits)
  have name: "c_name MAX_L_PORT_NAME n"
    using c_string_name [OF n] arr(2) by simp
  have upd: "\<exists>u. agg_conf_update c t n pif new v = Some u"
    if "no_peer_link c v" "pif_name pif = [] \<or> pif_name pif = n"
      and len: "unat (ac_agg_name_len t) \<le> MAX_L_PORT_NAME" for pif new v
  proof -
    have "c_name MAX_L_PORT_NAME (pif_name pif)" using that(2) name by (auto simp: c_name_def MAX_L_PORT_NAME_def)
    then obtain nm where "name_overwritten (pif_name pif) (ac_agg_name t) (unat (ac_agg_name_len t)) = Some nm"
      using name_overwritten_None [OF _ arr] len by fastforce
    moreover have "no_peer_link c (update_stp_peer_link c p b x (pif_assign c q p v))" for p b x q
      using that(1) no_peer_link_view [of "update_stp_peer_link c p b x (pif_assign c q p v)" c v] by simp
    ultimately show ?thesis
      by (simp add: agg_conf_update_def Let_def no_peer_link_isolate(3))
  qed
  show ?thesis
  proof (cases "ac_flags t AND 2 = 0")
    case True
    then have fl: "ac_flags t AND 1 \<noteq> 0" "unat (ac_agg_name_len t) \<le> MAX_L_PORT_NAME"
      using assms(3) by (auto simp: agg_config_ok_def)
    show ?thesis
    proof (cases "peer_if_find_by_name (csm_of s c) n")
      case None
      obtain q v where q: "peer_if_create c (uint (ntohs (ac_agg_id t))) IF_T_PORT_CHANNEL s = (q, v)" by fastforce
      have "no_peer_link c v" using assms(1) fsm_view_peer_if_create [OF q] by (simp add: fsm_view_sel)
      moreover have "pif_name pif = []" if "q = Some pif" for pif
        using q that by (auto simp: peer_if_create_def zero_PeerInterface_def Let_def split: if_splits prod.splits)
      ultimately show ?thesis
        using None True assms(2) n fl q upd by (cases q) (auto simp: mlacp_fsm_update_Agg_conf_def)
    next
      case (Some pif)
      then have "pif_name pif = n" using find_SomeD by (fastforce simp: peer_if_find_by_name_def)
      then show ?thesis
        using Some True assms(1,2) n fl upd by (auto simp: mlacp_fsm_update_Agg_conf_def)
    qed
  qed (use assms(2) n in \<open>simp add: mlacp_fsm_update_Agg_conf_def\<close>)
qed

lemma table_data_defined:
  assumes "no_peer_link c s" "is_nak m = Some False" "tlv_type m = Some ty" "table_data_ok ty (drop 16 m)"
    "ty \<notin> {TLV_T_MLACP_SYSTEM_CONFIG, TLV_T_MLACP_AGGREGATOR_STATE, TLV_T_MLACP_SYNC_DATA, TLV_T_MLACP_SYNC_REQUEST,
       TLV_T_MLACP_PEERLINK_INFO, TLV_T_MLACP_IF_UP_ACK}"
  shows "\<exists>t. mlacp_sync_receiver_handler c (Some m) s = Some t"
proof -
  have count: "count_rx c m sts u = Some (upd_csm c (MLACP_SET_ICCP_RX_DBG_COUNTER ty sts) u)" for sts u
    using assms(3) by (simp add: count_rx_def)
  obtain h r where "de_LDPHdr m = Some (h, r)"
    using assms(2) by (auto simp: is_nak_def msg_type_def bind_eq_Some_conv)
  then have nak: "\<exists>u. mlacp_sync_send_nak_handler c m v = Some u" for v
    by (simp add: mlacp_sync_send_nak_handler_def Let_def)
  consider "ty = TLV_T_MLACP_AGGREGATOR_CONFIG" | "ty = TLV_T_MLACP_PORT_CHANNEL_INFO" | "ty = TLV_T_MLACP_MAC_INFO"
    | "ty = TLV_T_MLACP_ARP_INFO" | "ty = TLV_T_MLACP_NDISC_INFO"
    | "ty \<notin> {TLV_T_MLACP_AGGREGATOR_CONFIG, TLV_T_MLACP_PORT_CHANNEL_INFO, TLV_T_MLACP_MAC_INFO,
         TLV_T_MLACP_ARP_INFO, TLV_T_MLACP_NDISC_INFO}" by blast
  then show ?thesis
  proof cases
    case 1
    then obtain t r where t: "de_mLACPAggConfigTLV (drop 16 m) = Some (t, r)" "agg_config_ok t"
      using assms(4) by (auto simp: table_data_ok_def split: option.splits)
    obtain rc u where "mlacp_fsm_update_Agg_conf c (drop 16 m) s = Some (rc, u)"
      using agg_config_defined [OF assms(1) t] by blast
    moreover obtain v where "mlacp_sync_send_nak_handler c m u = Some v" using nak by blast
    ultimately show ?thesis
      using 1 assms(3) by (simp add: mlacp_sync_receiver_handler_def mlacp_sync_recv_aggConf_def count const_defs)
  next
    case 2
    then obtain t r vs r' where "de_mLACPPortChannelInfoTLV (drop 16 m) = Some (t, r)"
        "de_many de_le16 (unat (ntohs (pc_num_of_vlan_id t))) r = Some (vs, r')"
      using assms(4) by (auto simp: table_data_ok_def const_defs split: option.splits)
    moreover have "\<exists>x. add_peer_vlans (unat (ntohs (pc_num_of_vlan_id t))) r pif s = Some x" for pif
      using peer_vlans_defined calculation(2) by blast
    ultimately have "\<exists>u. mlacp_fsm_update_port_channel_info c (drop 16 m) s = Some u"
      by (auto simp: mlacp_fsm_update_port_channel_info_def Let_def bind_eq_Some_conv split_beta split: option.split)
    then show ?thesis
      using 2 assms(3) by (auto simp: mlacp_sync_receiver_handler_def mlacp_sync_recv_portChanInfo_def count const_defs)
  next
    case 3
    then obtain t r es r' where "de_mLACPMACInfoTLV (drop 16 m) = Some (t, r)"
        "de_many de_mLACPMACData (unat (ntohs (mi_num_of_entry t))) r = Some (es, r')"
        "list_all (\<lambda>e. c_string (md_ifname e) \<noteq> None) es"
      using assms(4) by (auto simp: table_data_ok_def named_entries_ok_def const_defs split: option.splits)
    then have "\<exists>u. mlacp_fsm_update_mac_info_from_peer c (drop 16 m) s = Some u"
      using mac_entries_defined by (simp add: mlacp_fsm_update_mac_info_from_peer_def)
    then show ?thesis
      using 3 assms(3) by (auto simp: mlacp_sync_receiver_handler_def mlacp_sync_recv_macInfo_def count const_defs)
  next
    case 4
    then obtain t r es r' where "de_mLACPARPInfoTLV (drop 16 m) = Some (t, r)"
        "de_many de_ARPMsg (unat (ntohs (ai_num_of_entry t))) r = Some (es, r')"
        "list_all (\<lambda>e. c_string (arp_ifname e) \<noteq> None) es"
      using assms(4) by (auto simp: table_data_ok_def named_entries_ok_def const_defs split: option.splits)
    then have "\<exists>u. mlacp_fsm_update_arp_info c (drop 16 m) s = Some u"
      using arp_entries_defined by (simp add: mlacp_fsm_update_arp_info_def)
    then show ?thesis
      using 4 assms(3) by (auto simp: mlacp_sync_receiver_handler_def mlacp_sync_recv_arpInfo_def count const_defs)
  next
    case 5
    then obtain t r es r' where "de_mLACPNDISCInfoTLV (drop 16 m) = Some (t, r)"
        "de_many de_NDISCMsg (unat (ntohs (ni_num_of_entry t))) r = Some (es, r')"
        "list_all (\<lambda>e. c_string (nd_ifname e) \<noteq> None) es"
      using assms(4) by (auto simp: table_data_ok_def named_entries_ok_def const_defs split: option.splits)
    then have "\<exists>u. mlacp_fsm_update_ndisc_info c (drop 16 m) s = Some u"
      using ndisc_entries_defined by (simp add: mlacp_fsm_update_ndisc_info_def)
    then show ?thesis
      using 5 assms(3) by (auto simp: mlacp_sync_receiver_handler_def mlacp_sync_recv_ndiscInfo_def const_defs)
  next
    case 6
    then show ?thesis
      using assms(3,5) by (simp add: mlacp_sync_receiver_handler_def mlacp_sync_recv_heartbeat_def
          mlacp_sync_recv_warmboot_def count)
  qed
qed

lemma receiver_defined:
  assumes "no_peer_link c s" "well_formed m"
  shows "\<exists>t. mlacp_sync_receiver_handler c (Some m) s = Some t"
proof -
  obtain ty where ty: "tlv_type m = Some ty" using assms(2) by (auto simp: well_formed_def split: option.splits)
  then have count: "count_rx c m sts u = Some (upd_csm c (MLACP_SET_ICCP_RX_DBG_COUNTER ty sts) u)" for sts u
    by (simp add: count_rx_def)
  have state: "\<exists>t. mlacp_fsm_update_Aggport_state c (drop 16 m) s = Some t"
    if "de_mLACPAggPortStateTLV (drop 16 m) = Some (a, r)" for a r
  proof -
    have "no_peer_link c (update_stp_peer_link c pif b n (pif_assign c q pif s))" for pif b n q
      using assms(1) no_peer_link_view [of "update_stp_peer_link c pif b n (pif_assign c q pif s)" c s] by simp
    then show ?thesis
      using that no_peer_link_isolate(3) by (auto simp: mlacp_fsm_update_Aggport_state_def Let_def split: option.split)
  qed
  have defined: "de_mLACPSysConfigTLV (drop 16 m) \<noteq> None \<Longrightarrow> \<exists>t. mlacp_sync_recv_sysConf c m s = Some t"
    "de_mLACPAggPortStateTLV (drop 16 m) \<noteq> None \<Longrightarrow> \<exists>t. mlacp_sync_recv_aggState c m s = Some t"
    "de_mLACPSyncDataTLV (drop 16 m) \<noteq> None \<Longrightarrow> \<exists>t. mlacp_sync_recv_syncData c m s = Some t"
    "de_mLACPSyncReqTLV (drop 16 m) \<noteq> None \<Longrightarrow> \<exists>t. mlacp_sync_recv_syncReq c m s = Some t"
    "de_mLACPPeerLinkInfoTLV (drop 16 m) \<noteq> None \<Longrightarrow> \<exists>t. mlacp_sync_recv_peerLlinkInfo c m s = Some t"
    "de_mLACPIfUpAckTLV (drop 16 m) \<noteq> None \<Longrightarrow> \<exists>t. mlacp_fsm_recv_if_up_ack c m s = Some t"
    using state assms(1)
    by (auto simp: count mlacp_sync_recv_sysConf_def mlacp_fsm_update_system_conf_def mlacp_sync_recv_aggState_def
        mlacp_sync_recv_syncData_def mlacp_sync_recv_syncReq_def mlacp_sync_recv_peerLlinkInfo_def
        mlacp_fsm_update_peerlink_info_def mlacp_fsm_recv_if_up_ack_def Let_def)
  show ?thesis
  proof (cases "ty \<in> {TLV_T_MLACP_SYSTEM_CONFIG, TLV_T_MLACP_AGGREGATOR_STATE, TLV_T_MLACP_SYNC_DATA,
      TLV_T_MLACP_SYNC_REQUEST, TLV_T_MLACP_PEERLINK_INFO, TLV_T_MLACP_IF_UP_ACK}")
    case True
    then show ?thesis
      using assms(2) defined
      by (simp add: well_formed_def mlacp_sync_receiver_handler_def ty const_defs split: if_split_asm)
  next
    case False
    then show ?thesis
      using assms ty by (intro table_data_defined [OF assms(1) _ ty]) (auto simp: well_formed_def)
  qed
qed

lemma well_formed_request:
  assumes "well_formed m"
  obtains mt ty where "msg_type m = Some mt" "tlv_type m = Some ty"
    "ty = TLV_T_MLACP_SYNC_REQUEST \<longrightarrow> de_mLACPSyncReqTLV (drop 16 m) \<noteq> None"
proof -
  have "TLV_T_MLACP_SYNC_REQUEST \<notin> {TLV_T_MLACP_SYSTEM_CONFIG, TLV_T_MLACP_AGGREGATOR_STATE, TLV_T_MLACP_SYNC_DATA}"
    by (simp add: const_defs)
  moreover obtain ty where "tlv_type m = Some ty" using assms by (auto simp: well_formed_def split: option.splits)
  moreover obtain mt where "msg_type m = Some mt" using assms by (auto simp: well_formed_def is_nak_def bind_eq_Some_conv)
  ultimately show ?thesis using assms that [of mt ty] by (auto simp: well_formed_def)
qed

lemma stage_defined:
  assumes "no_peer_link c s" "pred_option well_formed msg"
  shows "\<exists>t. mlacp_stage_handler c msg s = Some t"
proof -
  have "\<exists>t. mlacp_sync_receiver_handler c msg s = Some t"
    using assms receiver_defined by (cases msg) (auto simp: mlacp_sync_receiver_handler_def)
  then have "\<exists>t. mlacp_stage_sync_request_handler c msg s = Some t"
    by (auto simp: mlacp_stage_sync_request_handler_def)
  moreover have "\<exists>t. mlacp_stage_sync_send_handler c msg s = Some t"
  proof (cases msg)
    case (Some m)
    then have "well_formed m" using assms(2) by simp
    then show ?thesis by (rule well_formed_request)
      (cases "de_mLACPSyncReqTLV (drop 16 m)", auto simp: Some mlacp_stage_sync_send_handler_def)
  qed (simp add: mlacp_stage_sync_send_handler_def)
  ultimately show ?thesis by (simp add: mlacp_stage_handler_def)
qed

lemma exchange_defined:
  assumes "no_peer_link c s" "pred_option well_formed msg"
  shows "\<exists>t. mlacp_exchange_handler c msg s = Some t"
proof (cases msg)
  case (Some m)
  then obtain mt where "msg_type m = Some mt" using assms(2) by (auto elim: well_formed_request)
  then show ?thesis
    using receiver_defined [OF assms(1), of m] assms(2) by (auto simp: Some mlacp_exchange_handler_def Let_def)
qed (simp add: mlacp_exchange_handler_def Let_def)

lemma body_defined:
  assumes "no_peer_link c s" "pred_option well_formed msg"
  shows "\<exists>p t. fsm_body c prev_state msg s = Some (p, t)"
proof -
  obtain s1 where s1: "(if prev_state \<noteq> ml_current_state (MLACP (csm_of s c))
        \<and> ml_current_state (MLACP (csm_of s c)) = MLACP_STATE_EXCHANGE
      then mlacp_peer_conn_handler c s else Some s) = Some s1"
    using if_defined [OF conn_defined [OF assms(1)]] by blast
  then have v1: "fsm_view s1 = fsm_view s" by (auto split: if_splits dest: fsm_view_conn)
  define s2 where "s2 = (if ml_current_state (MLACP (csm_of s1 c)) = MLACP_STATE_INIT
               then mlacp_resync_ndisc c (mlacp_resync_arp c (upd_ml c (\<lambda>m.
                      m\<lparr>ml_wait_for_sync_data := 0, ml_current_state := MLACP_STATE_STAGE1\<rparr>) s1))
               else s1)"
  have "no_peer_link c s2"
    using assms(1) v1 by (simp add: s2_def fsm_view_sel fsm_view_init)
  then obtain t1 t2 where "mlacp_stage_handler c msg s2 = Some t1" "mlacp_exchange_handler c msg s2 = Some t2"
    using stage_defined [OF _ assms(2)] exchange_defined [OF _ assms(2)] by blast
  then show ?thesis
    unfolding fsm_body_def Let_def s1 bind.bind_lunit s2_def [symmetric]
    by (cases "ml_current_state (MLACP (csm_of s2 c))") simp_all
qed

lemma loop_defined:
  "no_peer_link c s \<Longrightarrow> list_all well_formed (ml_msg_list (MLACP (csm_of s c))) \<Longrightarrow>
    \<exists>p t. mlacp_fsm_loop c prev_state s = Some (p, t)"
proof (induction c prev_state s rule: mlacp_fsm_loop.induct)
  case (1 c prev_state s)
  note step = mlacp_fsm_loop.simps [of c prev_state s] and sel = fsm_view_sel
  show ?case
  proof (cases "ml_current_state (MLACP (csm_of s c)) = MLACP_STATE_INIT")
    case True
    obtain p1 s1 where s1: "fsm_body c prev_state None s = Some (p1, s1)"
      using body_defined [OF 1(4)] by fastforce
    then have "no_peer_link c s1" "list_all well_formed (ml_msg_list (MLACP (csm_of s1 c)))"
      using 1(4,5) fsm_body_view(1) [OF s1] by (simp_all add: sel)
    then show ?thesis using 1(1) True s1 by (simp add: step)
  next
    case False
    show ?thesis
    proof (cases rule: mlacp_dequeue_cases [of s c])
      case Empty
      then show ?thesis using False body_defined [OF 1(4), where msg = None and prev_state = prev_state] by (simp add: step)
    next
      case (Msg m ms)
      let ?s0 = "upd_csm c (\<lambda>_. upd_mlacp (\<lambda>l. l\<lparr>ml_msg_list := ms\<rparr>) (csm_of s c)) s"
      have s0: "?s0 = dequeued c ms s" by (simp add: dequeued_def)
      have wf: "well_formed m" "list_all well_formed ms" using 1(5) Msg(2) by simp_all
      have "no_peer_link c ?s0" using 1(4) unfolding s0 sel by (simp add: fsm_view_dequeued_eq)
      then obtain p1 s1 where s1: "fsm_body c prev_state (Some m) ?s0 = Some (p1, s1)"
        using body_defined [where c = c and s = ?s0 and msg = "Some m" and prev_state = prev_state] wf(1) by auto
      then have "no_peer_link c s1" "list_all well_formed (ml_msg_list (MLACP (csm_of s1 c)))"
        using 1(4) wf(2) fsm_body_view(1) [OF s1] unfolding s0 sel by (simp_all add: fsm_view_dequeued_eq)
      moreover have "is_nak m = Some False" using wf(1) by (simp add: well_formed_def)
      ultimately show ?thesis using 1(3) False Msg(1) s1 by (simp add: step)
    qed
  qed
qed

lemma transit_defined:
  assumes "no_peer_link c s" "list_all well_formed (ml_msg_list (MLACP (csm_of s c)))"
    "0 < csm_sock_fd (csm_of s c)" "app_current_state (csm_app_csm (csm_of s c)) = APP_OPERATIONAL"
  shows "\<exists>p t. mlacp_fsm_transit c prev_state s = Some (p, t)"
proof -
  let ?u = "upd_csm c (\<lambda>m. m\<lparr>csm_warm_reboot_disconn_time := 0\<rparr>) s"
  have "\<exists>t. peerlink_port_isolate_cleanup c u = Some t" if "no_peer_link c u" for u
  proof -
    have "\<exists>t. fold_opt (\<lambda>l s. if lif_type (lif_of s l) = IF_T_PORT_CHANNEL
        then set_peerlink_mlag_port_isolate c l False False s else Some s) ls u = Some t \<and> no_peer_link c t" for ls
      using that by (intro fold_opt_defined [where Q = "no_peer_link c"]) (auto simp: no_peer_link_isolate(4))
    then show ?thesis by (auto simp: peerlink_port_isolate_cleanup_def)
  qed
  moreover have "no_peer_link c (snd (mlacp_link_set_iccp_state i b (mlacp_peer_disconn_fdb_handler c ?u)))" for i b
    using assms(1) by (simp add: fsm_view_sel)
  ultimately obtain t where "peerlink_port_isolate_cleanup c (snd (mlacp_link_set_iccp_state
      (csm_mlag_id (csm_of (mlacp_peer_disconn_fdb_handler c ?u) c)) False (mlacp_peer_disconn_fdb_handler c ?u))) = Some t"
    by blast
  then have "\<exists>t. session_lost c ?u = Some t" by (simp add: session_lost_def Let_def)
  then have "\<exists>t. mlacp_peer_disconn_handler c ?u = Some t" by (auto simp: mlacp_peer_disconn_handler_def)
  then obtain s1 where s1: "(if csm_warm_reboot_disconn_time (csm_of s c) \<noteq> 0
        \<and> WARM_REBOOT_TIMEOUT \<le> env_time s - csm_warm_reboot_disconn_time (csm_of s c)
      then mlacp_peer_disconn_handler c ?u else Some s) = Some s1" by (rule if_defined [THEN exE])
  then have "fsm_view s1 = fsm_view s" by (auto split: if_splits dest: fsm_view_disconn)
  then show ?thesis
    using assms s1 by (auto simp: mlacp_fsm_transit_def fsm_view_sel intro!: loop_defined)
qed

section \<open>Concrete runs\<close>

text \<open>A standby node with an established connection, in the given state, and messages of its peer.\<close>

definition a_standby :: "MLACP_APP_STATE \<Rightarrow> bytes list \<Rightarrow> System" where
  "a_standby st q = (a_host (\<lambda>_. Sent 600))\<lparr>sys_csm_list := [0], sys_csm_heap := (\<lambda>_.
     (upd_app (\<lambda>a. a\<lparr>app_current_state := APP_OPERATIONAL\<rparr>)
       (upd_mlacp (\<lambda>m. m\<lparr>ml_current_state := st, ml_msg_list := q\<rparr>) zero_CSM))
     \<lparr>csm_sock_fd := 5, csm_role_type := STP_ROLE_STANDBY, csm_current_state := ICCP_OPERATIONAL\<rparr>)\<rparr>"

definition a_sync_done :: bytes where
  "a_sync_done = received zero_CSM 24 1 TLV_T_MLACP_SYNC_DATA (le16 0 @ le16 0 @ le16 (htons 1))"

definition a_sync_request :: bytes where
  "a_sync_request = received zero_CSM 28 1 TLV_T_MLACP_SYNC_REQUEST (replicate 10 0)"

definition a_heartbeat :: bytes where
  "a_heartbeat = received zero_CSM 21 1 TLV_T_MLACP_HEARTBEAT [0, 0, 0]"

definition a_mac_message :: bytes where
  "a_mac_message = received zero_CSM 62 1 TLV_T_MLACP_MAC_INFO (le16 0 @ le16 (htons 1) @
     ser_mLACPMACData \<lparr>md_type = MAC_SYNC_ADD, md_mac_type = MAC_TYPE_DYNAMIC, md_mac_addr = [0, 1, 2, 3, 4, 5],
       md_vid = htons 10, md_ifname = c_array MAX_L_PORT_NAME ''Po1''\<rparr>)"

lemma a_standby_sel [simp]:
  "csm_sock_fd (csm_of (a_standby st q) 0) = 5"
  "app_current_state (csm_app_csm (csm_of (a_standby st q) 0)) = APP_OPERATIONAL"
  "csm_role_type (csm_of (a_standby st q) 0) = STP_ROLE_STANDBY"
  "ml_current_state (MLACP (csm_of (a_standby st q) 0)) = st" "ml_msg_list (MLACP (csm_of (a_standby st q) 0)) = q"
  "ml_wait_for_sync_data (MLACP (csm_of (a_standby st q) 0)) = 0" "csm_peer_link_if (csm_of (a_standby st q) 0) = None"
  by (simp_all add: a_standby_def a_host_def upd_defs zero_CSM_def zero_mLACP_def)

lemma a_msgs [simp]:
  "well_formed a_sync_done" "well_formed a_sync_request" "well_formed a_heartbeat"
  "msg_view a_sync_done = (True, SyncDone)" "msg_view a_sync_request = (True, SyncRequest)"
  "msg_view a_heartbeat = (True, OtherMsg)" "well_formed a_mac_message" "msg_view a_mac_message = (True, OtherMsg)"
  by code_simp+

lemma a_kinds [simp]:
  "msg_kind a_sync_done = SyncDone" "msg_kind a_sync_request = SyncRequest" "msg_kind a_heartbeat = OtherMsg"
  "msg_kind a_mac_message = OtherMsg"
  using a_msgs(4-6,8) by (simp_all add: msg_view_def)





theorem mlacp_fsm_transit_refines_witness:
  "\<exists>p t. mlacp_fsm_transit 0 MLACP_STATE_INIT (a_standby MLACP_STATE_INIT [a_heartbeat, a_sync_done]) = Some (p, t) \<and>
     ml_current_state (MLACP (csm_of t 0)) = MLACP_STATE_STAGE2 \<and> ml_wait_for_sync_data (MLACP (csm_of t 0)) = 0 \<and>
     ml_msg_list (MLACP (csm_of t 0)) = []"
proof -
  let ?s = "a_standby MLACP_STATE_INIT [a_heartbeat, a_sync_done]"
  obtain p t where t: "mlacp_fsm_transit 0 MLACP_STATE_INIT ?s = Some (p, t)"
    using transit_defined [where c = 0 and s = ?s and prev_state = MLACP_STATE_INIT] by auto
  have "pending [a_heartbeat, a_sync_done] = [(True, OtherMsg), (True, SyncDone)]"
    using a_msgs(1,3) by (simp add: well_formed_def)
  moreover have "fsm_run False [(True, OtherMsg), (True, SyncDone)] (MLACP_STATE_INIT, 0, ()) = (MLACP_STATE_STAGE2, 0, ())"
    by code_simp
  ultimately show ?thesis using mlacp_fsm_transit_refines [OF _ _ t] t by auto
qed

theorem mlacp_fsm_loop_error_state_witness:
  "\<exists>p t. mlacp_fsm_loop 0 MLACP_STATE_EXCHANGE (a_standby MLACP_STATE_EXCHANGE [a_heartbeat, a_sync_request]) = Some (p, t) \<and>
     ml_current_state (MLACP (csm_of t 0)) = MLACP_STATE_ERROR \<and>
     (\<exists>q u. mlacp_fsm_loop 0 MLACP_STATE_ERROR (a_standby MLACP_STATE_ERROR [a_mac_message]) = Some (q, u) \<and>
        u = upd_ml 0 (\<lambda>m. m\<lparr>ml_msg_list := []\<rparr>) (a_standby MLACP_STATE_ERROR [a_mac_message]))"
proof -
  let ?e = "a_standby MLACP_STATE_ERROR [a_mac_message]"
  obtain q u where u: "mlacp_fsm_loop 0 MLACP_STATE_ERROR ?e = Some (q, u)"
    using loop_defined [where c = 0 and s = ?e and prev_state = MLACP_STATE_ERROR] by auto
  have "is_nak a_mac_message \<noteq> Some True" using a_msgs(7) by (simp add: well_formed_def)
  with mlacp_fsm_loop_error_state [OF u] have e: "u = upd_ml 0 (\<lambda>m. m\<lparr>ml_msg_list := []\<rparr>) ?e" by simp
  let ?s = "a_standby MLACP_STATE_EXCHANGE [a_heartbeat, a_sync_request]"
  obtain p t where t: "mlacp_fsm_loop 0 MLACP_STATE_EXCHANGE ?s = Some (p, t)"
    using loop_defined [where c = 0 and s = ?s and prev_state = MLACP_STATE_EXCHANGE] by auto
  have "msg_type a_sync_request = Some MSG_T_RG_APP_DATA" "tlv_type a_sync_request = Some TLV_T_MLACP_SYNC_REQUEST"
    by code_simp+
  then have "ml_current_state (MLACP (csm_of t 0)) = MLACP_STATE_ERROR"
    using mlacp_fsm_loop_error_state [OF t] by auto
  with t u e show ?thesis by blast
qed


end
