(* ===== verification/Iccp_Session.thy ===== *)
theory Iccp_Session
  imports Fsm_Transit
begin

text \<open>
  Sessions (\<open>iccp_csm.c\<close>, \<open>app_csm.c\<close>, \<open>mlacp_fsm.c\<close>) and what the scheduler does with them
  (\<open>scheduler.c\<close>): a session is reset and configured, connects to its peer or is accepted, receives
  messages, times out, and is moved along by the state machines of its three layers.

  Registration of sockets with epoll and counters of socket errors are left out; a failed
  registration is one of the results of an attempt to connect. Time does not pass inside an
  operation, so a pause between two attempts to receive is not visible.
\<close>

section \<open>Addresses\<close>

text \<open>
  \<open>inet_addr\<close> of the C library: up to four numbers (decimal, octal or hexadecimal as for \<open>strtoul\<close>
  with base 0) with dots between them, the last of which fills the rest of the address. The address
  is in network order, and read as a number of this machine.
\<close>

definition digit_value :: "char \<Rightarrow> int" where
  "digit_value c =
     (let n = of_char c
      in if 48 \<le> n \<and> n \<le> 57 then n - 48
         else if 65 \<le> n \<and> n \<le> 70 then n - 55
         else if 97 \<le> n \<and> n \<le> 102 then n - 87 else 16)"

definition scan_digits :: "int \<Rightarrow> string \<Rightarrow> int \<times> string" where
  "scan_digits base str =
     (foldl (\<lambda>n c. base * n + digit_value c) 0 (takeWhile (\<lambda>c. digit_value c < base) str),
      dropWhile (\<lambda>c. digit_value c < base) str)"

definition strtoul0 :: "string \<Rightarrow> int \<times> string" where
  "strtoul0 str =
     (if take 2 str \<in> {''0x'', ''0X''} \<and> drop 2 str \<noteq> [] \<and> digit_value (hd (drop 2 str)) < 16
      then scan_digits 16 (drop 2 str)
      else if take 1 str = ''0'' then scan_digits 8 str else scan_digits 10 str)"

fun be_bytes :: "nat \<Rightarrow> int \<Rightarrow> bytes" where
  "be_bytes 0 v = []"
| "be_bytes (Suc k) v = be_bytes k (v div 256) @ [word_of_int v]"

fun inet_aton :: "nat \<Rightarrow> bytes \<Rightarrow> string \<Rightarrow> bytes option" where
  "inet_aton n acc str =
     (if str = [] \<or> \<not> is_digit (hd str) then None
      else
        let (v, r) = strtoul0 str
        in if 0xFFFFFFFF < v then None
           else if take 1 r = ''.'' then
             (case n of 0 \<Rightarrow> None
              | Suc m \<Rightarrow> if 255 < v then None else inet_aton m (acc @ [word_of_int v]) (drop 1 r))
           else if (r = [] \<or> is_space (hd r)) \<and> v < 256 ^ (n + 1) then Some (acc @ be_bytes (n + 1) v)
           else None)"

definition inet_addr :: "string \<Rightarrow> u32" where
  "inet_addr str = (case inet_aton 3 [] str of
     Some [a, b, c, d] \<Rightarrow> of_le32 a b c d | _ \<Rightarrow> 0xFFFFFFFF)"

section \<open>Reset\<close>

definition MLACP_SYSCONF_NODEID_MSB_MASK :: u8 where [const_defs]: "MLACP_SYSCONF_NODEID_MSB_MASK = 0x80"
definition MLACP_SYSCONF_NODEID_NODEID_MASK :: u32 where [const_defs]: "MLACP_SYSCONF_NODEID_NODEID_MASK = 0x70"
definition MLACP_SYSCONF_NODEID_FREE_MASK :: nat where [const_defs]: "MLACP_SYSCONF_NODEID_FREE_MASK = 0x0F"
definition CONNECT_INTERVAL_SEC :: int where [const_defs]: "CONNECT_INTERVAL_SEC = 1"
definition HEARTBEAT_TIMEOUT_SEC :: int where [const_defs]: "HEARTBEAT_TIMEOUT_SEC = 15"
definition RECV_RETRY_MAX :: nat where [const_defs]: "RECV_RETRY_MAX = 10"

text \<open>
  \<open>set_sys_arp_accept_flag\<close>: \<open>proc\<close> gives the first character of the setting of an interface, if the
  file can be opened. The result is only 0 when nothing was to be changed.
\<close>

definition set_sys_arp_accept_flag ::
  "(string \<Rightarrow> char option) \<Rightarrow> string \<Rightarrow> int \<Rightarrow> System \<Rightarrow> int \<times> System" where
  "set_sys_arp_accept_flag proc ifname flag s =
     (case proc ifname of None \<Rightarrow> (MCLAG_ERROR, s)
      | Some ch \<Rightarrow>
          if (if is_digit ch then digit_value ch else 0) = flag then (0, s)
          else (MCLAG_ERROR, snd (kernel (ShellCmd (''echo '' @ (if flag = 0 then ''0'' else ''1'')
                 @ '' > /proc/sys/net/ipv4/conf/'' @ ifname @ ''/arp_accept'')) s)))"

text \<open>The macro \<open>LIF_QUEUE_REINIT\<close>.\<close>

definition lif_queue_reinit :: "(string \<Rightarrow> char option) \<Rightarrow> csm_ptr \<Rightarrow> System \<Rightarrow> System" where
  "lif_queue_reinit proc c s =
     upd_csm c (upd_lif_list (\<lambda>_. [])) (foldl (\<lambda>s l.
       if lif_type (lif_of s l) = IF_T_PORT_CHANNEL \<and> lif_is_arp_accept (lif_of s l) \<noteq> 0
       then let (rc, s1) = set_sys_arp_accept_flag proc (lif_name (lif_of s l)) 0 s
            in if rc = 0 then upd_lif l (\<lambda>i. i\<lparr>lif_is_arp_accept := 0\<rparr>) s1 else s1
       else s) s (ml_lif_list (MLACP (csm_of s c))))"

text \<open>The result of \<open>rand\<close> is an argument; it is used when a session is created.\<close>

definition mlacp_init :: "(string \<Rightarrow> char option) \<Rightarrow> nat \<Rightarrow> csm_ptr \<Rightarrow> bool \<Rightarrow> System \<Rightarrow> System option" where
  "mlacp_init proc rnd c all s = do {
     s1 \<leftarrow> mlacp_mac_msg_queue_reinit c (upd_ml c (\<lambda>m. m\<lparr>ml_sync_req_num := -1, ml_need_to_sync := 0,
             ml_current_state := MLACP_STATE_INIT,
             ml_remote_system := (ml_remote_system m)\<lparr>rs_system_id := replicate 6 0\<rparr>,
             ml_msg_list := [], ml_arp_msg_list := [], ml_ndisc_msg_list := []\<rparr>) s);
     let s2 = upd_ml c (\<lambda>m. m\<lparr>ml_pif_list := [], ml_lif_purge_list := []\<rparr>) s1;
     Some (if \<not> all then s2
           else
             let s3 = lif_queue_reinit proc c
                        (upd_ml c (\<lambda>m. m\<lparr>ml_arp_list := [], ml_ndisc_list := [], ml_mac_rb := []\<rparr>) s2);
                 id = push_bit 4 (drop_bit 24 (inet_addr (csm_sender_ip (csm_of s3 c))))
                        AND MLACP_SYSCONF_NODEID_NODEID_MASK
             in upd_ml c (\<lambda>m. m\<lparr>ml_node_id := MLACP_SYSCONF_NODEID_MSB_MASK OR ucast id
                  OR word_of_nat (rnd mod MLACP_SYSCONF_NODEID_FREE_MASK)\<rparr>) s3) }"

definition mlacp_finalize :: "(string \<Rightarrow> char option) \<Rightarrow> csm_ptr \<Rightarrow> System \<Rightarrow> System option" where
  "mlacp_finalize proc c s = do {
     s1 \<leftarrow> mlacp_mac_msg_queue_reinit c (upd_ml c (\<lambda>m. m\<lparr>ml_msg_list := [], ml_arp_msg_list := [],
             ml_ndisc_msg_list := []\<rparr>) s);
     let s2 = upd_ml c (\<lambda>m. m\<lparr>ml_arp_list := [], ml_ndisc_list := [], ml_mac_rb := []\<rparr>) s1;
     Some (upd_ml c (\<lambda>m. m\<lparr>ml_lif_purge_list := [], ml_pif_list := []\<rparr>) (lif_queue_reinit proc c s2)) }"

text \<open>The structure after \<open>bzero\<close>, and the fields that are set in any case.\<close>

definition app_csm_init :: "(string \<Rightarrow> char option) \<Rightarrow> nat \<Rightarrow> csm_ptr \<Rightarrow> bool \<Rightarrow> System \<Rightarrow> System option" where
  "app_csm_init proc rnd c all s =
     mlacp_init proc rnd c all (upd_csm c (upd_app (\<lambda>a.
       (if all then csm_app_csm zero_CSM else a)\<lparr>app_msg_list := [], app_current_state := APP_NONEXISTENT,
         app_rx_connect_msg_id := 0, app_tx_connect_msg_id := 0, app_invalid_msg_id := 0,
         app_invalid_msg := 0, app_nak_msg := 0\<rparr>)) s)"

definition app_csm_finalize :: "(string \<Rightarrow> char option) \<Rightarrow> csm_ptr \<Rightarrow> System \<Rightarrow> System option" where
  "app_csm_finalize proc c s = mlacp_finalize proc c s"

definition iccp_csm_status_reset ::
  "(string \<Rightarrow> char option) \<Rightarrow> nat \<Rightarrow> csm_ptr \<Rightarrow> bool \<Rightarrow> System \<Rightarrow> System option" where
  "iccp_csm_status_reset proc rnd c all s = do {
     let s1 = upd_csm c (\<lambda>m. (if all then zero_CSM else m)\<lparr>csm_msg_list := [], csm_sock_fd := -1,
                csm_connTimePrev := 0, csm_heartbeat_send_time := 0, csm_heartbeat_update_time := 0,
                csm_peer_warm_reboot_time := 0, csm_warm_reboot_disconn_time := 0,
                csm_peer_link_learning_retry_time := 0, csm_peer_link_learning_enable := 0,
                csm_role_type := STP_ROLE_NONE, csm_peer_link_if := None, csm_u_msg_in_count := 0,
                csm_i_msg_in_count := 0, csm_icc_msg_in_count := 0, csm_icc_msg_out_count := 0,
                csm_current_state := ICCP_NONEXISTENT\<rparr>) s;
     let s2 = upd_csm c (upd_info (\<lambda>i. i\<lparr>inf_status_code := 0, inf_rejected_msg_id := 0,
                inf_peer_capability_flag := 0, inf_peer_rg_connect_flag := 0,
                inf_sender_capability_flag := 0, inf_sender_rg_connect_flag := 0\<rparr>)) s1;
     s3 \<leftarrow> app_csm_init proc rnd c all s2;
     Some (upd_csm c (\<lambda>m. m\<lparr>csm_msg_log := csm_msg_log zero_CSM\<rparr>) s3) }"

definition iccp_csm_init :: "(string \<Rightarrow> char option) \<Rightarrow> nat \<Rightarrow> csm_ptr \<Rightarrow> System \<Rightarrow> System option" where
  "iccp_csm_init proc rnd c s = do {
     s1 \<leftarrow> iccp_csm_status_reset proc rnd c True s;
     Some (upd_csm c (\<lambda>m. (upd_info (\<lambda>i. i\<lparr>inf_sender_name := [], inf_icc_rg_id := 0\<rparr>) m)
       \<lparr>csm_sender_ip := [], csm_peer_ip := [], csm_keepalive_time := CONNECT_INTERVAL_SEC,
        csm_session_timeout := HEARTBEAT_TIMEOUT_SEC\<rparr>) s1) }"

text \<open>A new session gets an address that no session of the list has.\<close>

definition system_create_csm ::
  "(string \<Rightarrow> char option) \<Rightarrow> nat \<Rightarrow> System \<Rightarrow> (csm_ptr option \<times> System) option" where
  "system_create_csm proc rnd s =
     (let (ok, s1) = malloc s; c = Suc (foldl max 0 (sys_csm_list s1))
      in if \<not> ok then Some (None, s1)
         else do {
           s2 \<leftarrow> iccp_csm_init proc rnd c (upd_csm c (\<lambda>_. zero_CSM) s1);
           Some (Some c, s2\<lparr>sys_csm_list := c # sys_csm_list s2\<rparr>) })"

section \<open>Connecting\<close>

definition iccp_csm_stp_role_count :: "csm_ptr \<Rightarrow> System \<Rightarrow> System" where
  "iccp_csm_stp_role_count c s =
     (let m = csm_of s c
      in if csm_role_type m \<noteq> STP_ROLE_NONE then s
         else if inet_addr (csm_sender_ip m) < inet_addr (csm_peer_ip m)
         then snd (mlacp_link_set_iccp_role (csm_mlag_id m) True (ml_system_id (MLACP m))
                (upd_csm c (\<lambda>m. m\<lparr>csm_role_type := STP_ROLE_ACTIVE\<rparr>) s))
         else mlacp_fix_bridge_mac c (snd (mlacp_link_set_iccp_role (csm_mlag_id m) False []
                (upd_csm c (\<lambda>m. m\<lparr>csm_role_type := STP_ROLE_STANDBY\<rparr>) s))))"

definition scheduler_check_csm_config :: "csm_ptr \<Rightarrow> System \<Rightarrow> int \<times> System" where
  "scheduler_check_csm_config c s =
     (let m = csm_of s c
      in if csm_mlag_id m \<le> 0 \<or> csm_peer_ip m = [] \<or> csm_sender_ip m = []
         then (MCLAG_ERROR, iccp_csm_stp_role_count c s)
         else if csm_peer_itf_name m \<noteq> [] then
           (case local_if_find_by_name (csm_peer_itf_name m) s of
              None \<Rightarrow> (MCLAG_ERROR, s)
            | Some l \<Rightarrow> (1, iccp_csm_stp_role_count c (set_peerlink_learn_kernel c False
                (upd_csm c (\<lambda>m. m\<lparr>csm_peer_link_if := Some l\<rparr>)
                  (upd_lif l (\<lambda>i. i\<lparr>lif_is_peer_link := 1\<rparr>) s)))))
         else (1, iccp_csm_stp_role_count c s))"

definition session_client_conn_handler :: "csm_ptr \<Rightarrow> System \<Rightarrow> System" where
  "session_client_conn_handler c s =
     (let s1 = s\<lparr>env_n_connect := Suc (env_n_connect s)\<rparr>
      in upd_csm c (\<lambda>m. m\<lparr>csm_sock_fd := (case env_connect s (env_n_connect s) of
             SocketFailed \<Rightarrow> csm_sock_fd m | ConnectFailed \<Rightarrow> -1 | Connected fd \<Rightarrow> fd),
           csm_connTimePrev := env_time s1\<rparr>) s1)"

definition scheduler_prepare_session :: "csm_ptr \<Rightarrow> System \<Rightarrow> System" where
  "scheduler_prepare_session c s =
     (let touch = (\<lambda>s. upd_csm c (\<lambda>m. m\<lparr>csm_connTimePrev := env_time s\<rparr>) s);
          s1 = (if csm_connTimePrev (csm_of s c) = 0 then touch s else s)
      in if env_time s1 - csm_connTimePrev (csm_of s1 c) < CONNECT_INTERVAL_SEC then s1
         else if 0 < csm_sock_fd (csm_of s1 c) then touch s1
         else
           let (ret, s2) = scheduler_check_csm_config c s1; m = csm_of s2 c
           in if ret < 0 \<or> inet_addr (csm_peer_ip m) \<le> inet_addr (csm_sender_ip m) then touch s2
              else touch (session_client_conn_handler c s2))"

text \<open>
  \<open>scheduler_server_accept\<close> on the result of \<open>accept\<close>: the new descriptor and the address it comes
  from. \<open>registered\<close> says whether epoll took the descriptor.
\<close>

definition scheduler_server_accept :: "(int \<times> string) option \<Rightarrow> bool \<Rightarrow> System \<Rightarrow> int \<times> System" where
  "scheduler_server_accept conn registered s =
     (case conn of None \<Rightarrow> (MCLAG_ERROR, s)
      | Some (new_fd, ip) \<Rightarrow>
         (case system_get_csm_by_peer_ip ip s of None \<Rightarrow> (MCLAG_ERROR, s)
          | Some c \<Rightarrow>
              if 0 < csm_sock_fd (csm_of s c) then (MCLAG_ERROR, s)
              else
                let (ret, s1) = scheduler_check_csm_config c s
                in if ret < 0 \<or> \<not> registered then (MCLAG_ERROR, s1)
                   else (0, upd_csm c (\<lambda>m. m\<lparr>csm_sock_fd := new_fd, csm_current_state := ICCP_NONEXISTENT\<rparr>) s1)))"

section \<open>Losing a session\<close>

definition scheduler_session_disconnect_handler ::
  "(string \<Rightarrow> char option) \<Rightarrow> csm_ptr \<Rightarrow> System \<Rightarrow> System option" where
  "scheduler_session_disconnect_handler proc c s = do {
     s1 \<leftarrow> mlacp_peer_disconn_handler c (scheduler_csm_socket_cleanup c s);
     s2 \<leftarrow> iccp_csm_status_reset proc 0 c False
             (upd_ml c (\<lambda>m. m\<lparr>ml_current_state := MLACP_STATE_INIT\<rparr>) s1);
     Some (upd_csm c (\<lambda>m. m\<lparr>csm_connTimePrev := env_time s2\<rparr>) s2) }"

definition heartbeat_check :: "(string \<Rightarrow> char option) \<Rightarrow> csm_ptr \<Rightarrow> System \<Rightarrow> System option" where
  "heartbeat_check proc c s =
     (if csm_heartbeat_update_time (csm_of s c) = 0
      then Some (upd_csm c (\<lambda>m. m\<lparr>csm_heartbeat_update_time := env_time s\<rparr>) s)
      else if csm_session_timeout (csm_of s c) < env_time s - csm_heartbeat_update_time (csm_of s c)
      then scheduler_session_disconnect_handler proc c s
      else Some s)"

definition heartbeat_update :: "(string \<Rightarrow> char option) \<Rightarrow> csm_ptr \<Rightarrow> System \<Rightarrow> System option" where
  "heartbeat_update proc c s =
     (if 0 < csm_sock_fd (csm_of s c) then heartbeat_check proc c s else Some s)"

text \<open>
  The physical ports of the port channel are unbound with it. A list is visited as it was when the
  loop started: \<open>LIST_REMOVE\<close> keeps the link of the removed element.
\<close>

definition iccp_cli_detach_mclag_domain_to_port_channel :: "string \<Rightarrow> System \<Rightarrow> (int \<times> System) option" where
  "iccp_cli_detach_mclag_domain_to_port_channel ifname s =
     (if take 11 ifname \<noteq> ''PortChannel'' then Some (MCLAG_ERROR, s)
      else case local_if_find_by_name ifname s of None \<Rightarrow> Some (MCLAG_ERROR, s)
        | Some l \<Rightarrow>
           (case lif_csm (lif_of s l) of None \<Rightarrow> Some (MCLAG_ERROR, s)
            | Some c \<Rightarrow>
                if lif_type (lif_of s l) \<noteq> IF_T_PORT_CHANNEL \<or> lif_po_id (lif_of s l) \<le> 0 then Some (MCLAG_ERROR, s)
                else do {
                  s1 \<leftarrow> mlacp_mlag_intf_detach_handler c l (recover_if_ipmac_on_standby l s);
                  let unbind_poid = lif_po_id (lif_of s1 l);
                  let s2 = mlacp_unbind_local_if l s1;
                  let s3 = foldl (\<lambda>s q. if lif_type (lif_of s q) = IF_T_PORT \<and> lif_po_id (lif_of s q) = unbind_poid
                                        then mlacp_unbind_local_if q s else s) s2 (ml_lif_list (MLACP (csm_of s2 c)));
                  Some (0, upd_csm c (\<lambda>m. m\<lparr>csm_if_bind_list := filter (\<lambda>n. n \<noteq> ifname) (csm_if_bind_list m)\<rparr>) s3) }))"

definition iccp_csm_finalize :: "(string \<Rightarrow> char option) \<Rightarrow> csm_ptr \<Rightarrow> System \<Rightarrow> System option" where
  "iccp_csm_finalize proc c s = do {
     let s1 = (if sys_warmboot_exit s = WARM_REBOOT then s
               else case csm_peer_link_if (csm_of s c) of None \<Rightarrow> s
                 | Some l \<Rightarrow> set_peerlink_learn_kernel c True (set_peerlink_mlag_port_learn (Some l) True s));
     s2 \<leftarrow> scheduler_session_disconnect_handler proc c s1;
     s3 \<leftarrow> fold_opt (\<lambda>l s. map_option snd (iccp_cli_detach_mclag_domain_to_port_channel (lif_name (lif_of s l)) s))
             (ml_lif_list (MLACP (csm_of s2 c))) s2;
     s4 \<leftarrow> app_csm_finalize proc c s3;
     let s5 = foldl (\<lambda>s l. upd_lif l (\<lambda>i. i\<lparr>lif_csm := None\<rparr>) s) s4 (ml_lif_list (MLACP (csm_of s4 c)));
     Some ((upd_csm c (\<lambda>m. m\<lparr>csm_if_bind_list := [], csm_msg_list := []\<rparr>) s5)
       \<lparr>sys_csm_list := remove1 c (sys_csm_list s5)\<rparr>) }"

section \<open>The state machine of the connection\<close>

text \<open>The message at the head of the queue acts on the session.\<close>

definition csm_handle :: "csm_ptr \<Rightarrow> bytes option \<Rightarrow> System \<Rightarrow> System option" where
  "csm_handle c msg s =
     (case msg of None \<Rightarrow> Some s
      | Some m \<Rightarrow> map_option (\<lambda>k. upd_csm c (\<lambda>_. k) s) (iccp_csm_correspond_from_msg m (csm_of s c)))"

definition csm_send :: "csm_ptr \<Rightarrow> System \<Rightarrow> System" where
  "csm_send c s = snd (send_prepared c (iccp_csm_prepare_iccp_msg c s))"

definition csm_enter :: "csm_ptr \<Rightarrow> ICCP_CONNECTION_STATE \<Rightarrow> System \<Rightarrow> System" where
  "csm_enter c st = upd_csm c (\<lambda>m. m\<lparr>csm_current_state := st\<rparr>)"

text \<open>The first \<open>switch\<close> of \<open>iccp_csm_transit\<close>.\<close>

definition csm_switch :: "csm_ptr \<Rightarrow> bytes option \<Rightarrow> System \<Rightarrow> System option" where
  "csm_switch c msg s =
     (let info = (\<lambda>s. csm_iccp_info (csm_of s c))
      in case csm_current_state (csm_of s c) of
        ICCP_NONEXISTENT \<Rightarrow>
          let s1 = scheduler_prepare_session c s
          in if 0 < csm_sock_fd (csm_of s1 c)
             then let (ret, s2) = scheduler_check_csm_config c s1
                  in Some (if 0 < ret then csm_enter c ICCP_INITIALIZED s2 else s2)
             else Some s1
      | ICCP_INITIALIZED \<Rightarrow> map_option (\<lambda>s1.
          let s2 = csm_send c s1
          in if inf_sender_capability_flag (info s2) = 1
             then csm_enter c (if inf_peer_capability_flag (info s2) = 0 then ICCP_CAPSENT else ICCP_CAPREC) s2
             else s2) (csm_handle c msg s)
      | ICCP_CAPSENT \<Rightarrow> map_option (\<lambda>s1.
          if inf_sender_capability_flag (info s1) = 1 \<and> inf_peer_capability_flag (info s1) = 1
          then csm_enter c ICCP_CAPREC s1 else s1) (csm_handle c msg s)
      | ICCP_CAPREC \<Rightarrow> map_option (\<lambda>s1.
          let s2 = csm_send c s1
          in if inf_status_code (info s2) = 0
             then csm_enter c (if inf_peer_rg_connect_flag (info s2) = 0 then ICCP_CONNECTING else ICCP_OPERATIONAL) s2
             else s2) (csm_handle c msg s)
      | ICCP_CONNECTING \<Rightarrow> map_option (\<lambda>s1.
          let s2 = csm_send c s1
          in if 0 < inf_status_code (info s2) then csm_enter c ICCP_CAPREC s2
             else if inf_peer_rg_connect_flag (info s2) = 1 then csm_enter c ICCP_OPERATIONAL s2
             else s2) (csm_handle c msg s)
      | ICCP_OPERATIONAL \<Rightarrow> map_option (\<lambda>s1.
          if inf_sender_rg_connect_flag (info s1) = 0 \<or> inf_peer_rg_connect_flag (info s1) = 0
          then csm_enter c ICCP_CAPREC (csm_send c s1) else s1) (csm_handle c msg s))"

text \<open>Whether the session was freed, and the new state.\<close>

definition iccp_csm_transit ::
  "(string \<Rightarrow> char option) \<Rightarrow> csm_ptr \<Rightarrow> System \<Rightarrow> (bool \<times> System) option" where
  "iccp_csm_transit proc c s =
     (let prev_state = csm_current_state (csm_of s c)
      in if prev_state \<noteq> ICCP_NONEXISTENT \<and> csm_sock_fd (csm_of s c) \<le> 0
         then map_option (Pair True) (iccp_csm_finalize proc c (csm_enter c ICCP_NONEXISTENT s))
         else
           let (msg, m1) = iccp_csm_dequeue_msg (csm_of s c)
           in do {
             s1 \<leftarrow> csm_switch c msg (upd_csm c (\<lambda>_. m1) s);
             let st = csm_current_state (csm_of s1 c);
             if prev_state \<noteq> st \<or> st \<noteq> ICCP_NONEXISTENT \<and> msg \<noteq> None
             then if st = ICCP_NONEXISTENT then map_option (Pair True) (iccp_csm_finalize proc c s1)
                  else Some (False, upd_csm c (iccp_csm_enter_state st) s1)
             else Some (False, s1) })"

text \<open>
  \<open>scheduler_transit_fsm\<close>: the machines of the three layers, for every session. Going on with a
  session that was freed has no defined result.
\<close>

fun transit_sessions ::
  "(string \<Rightarrow> char option) \<Rightarrow> csm_ptr list \<Rightarrow> MLACP_APP_STATE \<Rightarrow> System \<Rightarrow> (MLACP_APP_STATE \<times> System) option" where
  "transit_sessions proc [] prev_state s = Some (prev_state, s)"
| "transit_sessions proc (c # cs) prev_state s =
     (case heartbeat_update proc c s of None \<Rightarrow> None
      | Some s1 \<Rightarrow>
         (case iccp_csm_transit proc c s1 of None \<Rightarrow> None
          | Some (freed, s2) \<Rightarrow>
              if freed then None
              else (case mlacp_fsm_transit c prev_state (upd_csm c app_csm_transit s2) of None \<Rightarrow> None
                    | Some (p, s3) \<Rightarrow> transit_sessions proc cs p s3)))"

definition scheduler_transit_fsm ::
  "(string \<Rightarrow> char option) \<Rightarrow> MLACP_APP_STATE \<Rightarrow> System \<Rightarrow> (MLACP_APP_STATE \<times> System) option" where
  "scheduler_transit_fsm proc prev_state s =
     map_option (\<lambda>(p, t). (p, local_if_purge_clear t)) (transit_sessions proc (sys_csm_list s) prev_state s)"

section \<open>Reception\<close>

text \<open>
  \<open>recv\<close> of at most \<open>n\<close> bytes from the socket of the peer. The first loop of
  \<open>scheduler_csm_read_callback\<close> reads the header; any failure ends the session.
\<close>

definition sock_recv :: "nat \<Rightarrow> System \<Rightarrow> recv_result \<times> System" where
  "sock_recv n s =
     (let s1 = s\<lparr>env_n_recv := Suc (env_n_recv s)\<rparr>
      in case env_recv s (env_n_recv s) of
           Received bs \<Rightarrow> (if bs = [] then RecvClosed else Received (take n bs), s1)
         | r \<Rightarrow> (r, s1))"

lemma sock_recv_received: "sock_recv n s = (Received bs, t) \<Longrightarrow> length bs \<le> n \<and> (0 < n \<longrightarrow> 0 < length bs)"
  by (auto simp: sock_recv_def Let_def split: recv_result.splits if_splits)

function recv_header :: "bytes \<Rightarrow> System \<Rightarrow> bytes option \<times> System" where
  "recv_header got s =
     (if 8 \<le> length got then (Some got, s)
      else case sock_recv (8 - length got) s of
        (Received bs, t) \<Rightarrow> recv_header (got @ bs) t
      | (_, t) \<Rightarrow> (None, t))"
  by pat_completeness auto
termination
  by (relation "measure (\<lambda>(got, s). 8 - length got)")
    (auto dest!: sock_recv_received [OF sym] simp flip: length_greater_0_conv)

text \<open>
  The second loop reads the rest, without blocking: up to ten times it may find nothing and tries
  again. The bytes go behind the header in a buffer of \<open>CSM_BUFFER_SIZE\<close> bytes; writing past its end
  has no defined result. The inner option is \<open>None\<close> for a failure that ends the session.
\<close>

function recv_data :: "nat \<Rightarrow> nat \<Rightarrow> bytes \<Rightarrow> System \<Rightarrow> (bytes option \<times> System) option" where
  "recv_data data_len num_retry got s =
     (if data_len = 0 then Some (Some got, s)
      else case sock_recv data_len s of
        (Received bs, t) \<Rightarrow>
          if CSM_BUFFER_SIZE < 8 + length (got @ bs) then None
          else recv_data (data_len - length bs) num_retry (got @ bs) t
      | (RecvAgain, t) \<Rightarrow>
          if RECV_RETRY_MAX < Suc num_retry then Some (None, t)
          else recv_data data_len (Suc num_retry) got t
      | (_, t) \<Rightarrow> Some (None, t))"
  by pat_completeness auto
termination
  by (relation "measures [\<lambda>(n, k, got, s). n, \<lambda>(n, k, got, s). 11 - k]")
    (auto dest!: sock_recv_received [OF sym] simp: RECV_RETRY_MAX_def simp flip: length_greater_0_conv)

declare recv_header.simps [simp del] recv_data.simps [simp del]

text \<open>What is done with a complete message of \<open>len\<close> bytes, and the label \<open>recv_err\<close>.\<close>

definition recv_msg :: "csm_ptr \<Rightarrow> bytes \<Rightarrow> nat \<Rightarrow> System \<Rightarrow> (int \<times> System) option" where
  "recv_msg c peer_msg len s =
     (case iccp_csm_init_msg peer_msg len s of
        (None, t) \<Rightarrow> Some (1, upd_csm c (\<lambda>m. m\<lparr>csm_i_msg_in_count := csm_i_msg_in_count m + 1\<rparr>) t)
      | (Some msg, t) \<Rightarrow> do {
          m \<leftarrow> iccp_csm_enqueue_msg msg (csm_of t c);
          Some (1, upd_csm c (\<lambda>_. m\<lparr>csm_icc_msg_in_count := csm_icc_msg_in_count m + 1\<rparr>) t) })"

definition recv_err :: "(string \<Rightarrow> char option) \<Rightarrow> csm_ptr \<Rightarrow> System \<Rightarrow> (int \<times> System) option" where
  "recv_err proc c s = map_option (Pair MCLAG_ERROR) (scheduler_session_disconnect_handler proc c s)"

definition scheduler_csm_read_callback ::
  "(string \<Rightarrow> char option) \<Rightarrow> csm_ptr \<Rightarrow> System \<Rightarrow> (int \<times> System) option" where
  "scheduler_csm_read_callback proc c s =
     (if csm_sock_fd (csm_of s c) \<le> 0 then Some (MCLAG_ERROR, s)
      else case recv_header [] s of
        (None, t) \<Rightarrow> recv_err proc c t
      | (Some hdr, t) \<Rightarrow>
          (case de_LDPHdr hdr of None \<Rightarrow> None
           | Some (ldp, _) \<Rightarrow>
               let msg_len = unat (ntohs (ldp_msg_len ldp))
               in if msg_len < MSG_L_INCLUD_U_BIT_MSG_T_L_FIELDS then recv_err proc c t
                  else (case recv_data (msg_len - MSG_L_INCLUD_U_BIT_MSG_T_L_FIELDS) 0 [] t of
                      None \<Rightarrow> None
                    | Some (None, u) \<Rightarrow> recv_err proc c u
                    | Some (Some d, u) \<Rightarrow> recv_msg c (hdr @ d) (msg_len + MSG_L_INCLUD_U_BIT_MSG_T_L_FIELDS) u)))"

section \<open>Other events\<close>

definition mlacp_sync_send_warmboot_flag :: "System \<Rightarrow> System" where
  "mlacp_sync_send_warmboot_flag s = foldl (\<lambda>s c.
     if ml_current_state (MLACP (csm_of s c)) = MLACP_STATE_EXCHANGE
     then snd (send_prepared c (mlacp_prepare_for_warm_reboot c CSM_BUFFER_SIZE s)) else s) s (sys_csm_list s)"

text \<open>The byte that was read from the pipe of the signal handler.\<close>

definition iccp_receive_signal_handler :: "char \<Rightarrow> System \<Rightarrow> System" where
  "iccp_receive_signal_handler ctrl_byte s =
     (if ctrl_byte = CHR ''w'' then (mlacp_sync_send_warmboot_flag s)\<lparr>sys_warmboot_exit := WARM_REBOOT\<rparr> else s)"

text \<open>The system id follows the address of the first port channel that differs from it.\<close>

definition mlacp_sync_with_kernel_callback :: "System \<Rightarrow> System" where
  "mlacp_sync_with_kernel_callback s = foldl (\<lambda>s c.
     case find (\<lambda>l. lif_type (lif_of s l) = IF_T_PORT_CHANNEL
              \<and> memcmp (ml_system_id (MLACP (csm_of s c))) (lif_mac_addr (lif_of s l)) \<noteq> 0)
            (ml_lif_list (MLACP (csm_of s c))) of
       None \<Rightarrow> s
     | Some l \<Rightarrow> upd_ml c (\<lambda>m. m\<lparr>ml_system_id := lif_mac_addr (lif_of s l), ml_system_config_changed := 1\<rparr>) s)
     s (sys_csm_list s)"

end
