(* ===== verification/Session_Safety.thy ===== *)
theory Session_Safety
  imports Iccp_Session
begin

text \<open>
  What holds of every session while the scheduler runs. The states of the three layers agree with
  the socket: a session that has left its first state has a socket, the application layer is only
  operational with a socket, and the synchronisation layer only runs above an operational
  application layer. A session is therefore never freed in the middle of a round of the scheduler,
  which goes on to use it.
\<close>

section \<open>The invariant\<close>

definition session_ok :: "CSM \<Rightarrow> bool" where
  "session_ok m \<longleftrightarrow>
     (csm_current_state m \<noteq> ICCP_NONEXISTENT \<longrightarrow> 0 < csm_sock_fd m) \<and>
     (app_current_state (csm_app_csm m) = APP_OPERATIONAL \<longrightarrow> 0 < csm_sock_fd m) \<and>
     (ml_current_state (MLACP m) \<noteq> MLACP_STATE_INIT \<longrightarrow> app_current_state (csm_app_csm m) = APP_OPERATIONAL)"

definition sessions_ok :: "System \<Rightarrow> bool" where
  "sessions_ok s \<longleftrightarrow> (\<forall>d. session_ok (csm_of s d))"

text \<open>The part of a session the invariant is about, and operations that change it in one session only.\<close>

definition link_of :: "CSM \<Rightarrow> int \<times> ICCP_CONNECTION_STATE \<times> APP_CONNECTION_STATE \<times> MLACP_APP_STATE" where
  "link_of m = (csm_sock_fd m, csm_current_state m, app_current_state (csm_app_csm m), ml_current_state (MLACP m))"

definition link_view :: "System \<Rightarrow> csm_ptr \<Rightarrow> int \<times> ICCP_CONNECTION_STATE \<times> APP_CONNECTION_STATE \<times> MLACP_APP_STATE" where
  "link_view s d = link_of (csm_of s d)"

fun link_ok :: "int \<times> ICCP_CONNECTION_STATE \<times> APP_CONNECTION_STATE \<times> MLACP_APP_STATE \<Rightarrow> bool" where
  "link_ok (fd, st, app, ml) \<longleftrightarrow> (st \<noteq> ICCP_NONEXISTENT \<longrightarrow> 0 < fd) \<and> (app = APP_OPERATIONAL \<longrightarrow> 0 < fd) \<and>
     (ml \<noteq> MLACP_STATE_INIT \<longrightarrow> app = APP_OPERATIONAL)"

lemma link_ok_sel:
  "link_ok v \<longleftrightarrow> (fst (snd v) \<noteq> ICCP_NONEXISTENT \<longrightarrow> 0 < fst v) \<and> (fst (snd (snd v)) = APP_OPERATIONAL \<longrightarrow> 0 < fst v) \<and>
     (snd (snd (snd v)) \<noteq> MLACP_STATE_INIT \<longrightarrow> fst (snd (snd v)) = APP_OPERATIONAL)"
  by (cases v) simp

lemma sessions_ok_links: "sessions_ok s \<longleftrightarrow> (\<forall>d. link_ok (link_view s d))"
  by (simp add: sessions_ok_def session_ok_def link_view_def link_of_def)

lemma link_view_upd_csm: "link_view (upd_csm c f s) = (link_view s)(c := link_of (f (csm_of s c)))"
  by (simp add: link_view_def upd_csm_def fun_eq_iff)

lemma link_view_keep [simp]: "(\<And>m. link_of (f m) = link_of m) \<Longrightarrow> link_view (upd_csm c f s) = link_view s"
  by (simp add: link_view_def upd_csm_def fun_eq_iff)

lemma link_view_upd_ml [simp]:
  "(\<And>m. ml_current_state (f m) = ml_current_state m) \<Longrightarrow> link_view (upd_ml c f s) = link_view s"
  unfolding upd_ml_def by (rule link_view_keep) (simp add: link_of_def upd_mlacp_def upd_app_def)

lemma link_view_fsm: "fsm_view t = fsm_view s \<Longrightarrow> link_view t = link_view s"
  by (simp add: fsm_view_def link_view_def fun_eq_iff fsm_of_def link_of_def)

lemma link_view_of_fsm: "link_view s d = (case fsm_view s d of (ml, w, q, r, fd, st, app, pl) \<Rightarrow> (fd, st, app, ml))"
  by (simp add: link_view_def link_of_def fsm_view_def fsm_of_def)

lemma sessions_ok_change: "sessions_ok s \<Longrightarrow> link_view t = (link_view s)(c := v) \<Longrightarrow> link_ok v \<Longrightarrow> sessions_ok t"
  by (simp add: sessions_ok_links)


lemma sessions_ok_same: "sessions_ok s \<Longrightarrow> link_view t = link_view s \<Longrightarrow> sessions_ok t"
  by (simp add: sessions_ok_links)

section \<open>Operations that leave it alone\<close>

lemma link_view_kernel [simp]: "link_view (snd (kernel r s)) = link_view s"
  by (rule link_view_fsm) simp

lemma link_view_upd_lif [simp]: "link_view (upd_lif l f s) = link_view s"
  by (rule link_view_fsm) simp

lemma link_view_foldl [simp]:
  "(\<And>s x. link_view (f s x) = link_view s) \<Longrightarrow> link_view (foldl f s xs) = link_view s"
  by (induction xs arbitrary: s) auto

lemma link_view_arp_accept: "set_sys_arp_accept_flag proc n f s = (rc, t) \<Longrightarrow> link_view t = link_view s"
  by (auto simp: set_sys_arp_accept_flag_def split: option.splits if_splits)

lemma link_of_fields [simp]:
  "link_of (m\<lparr>csm_msg_log := lg\<rparr>) = link_of m" "link_of (m\<lparr>csm_connTimePrev := i\<rparr>) = link_of m"
  "link_of (m\<lparr>csm_heartbeat_update_time := i\<rparr>) = link_of m" "link_of (m\<lparr>csm_msg_list := ms\<rparr>) = link_of m"
  "link_of (m\<lparr>csm_role_type := r\<rparr>) = link_of m" "link_of (m\<lparr>csm_peer_link_if := l\<rparr>) = link_of m"
  "link_of (m\<lparr>csm_icc_msg_in_count := w\<rparr>) = link_of m" "link_of (m\<lparr>csm_i_msg_in_count := w\<rparr>) = link_of m"
  "link_of (m\<lparr>csm_u_msg_in_count := w\<rparr>) = link_of m"
  by (simp_all add: link_of_def)

lemma link_of_lists [simp]:
  "link_of (upd_lif_list f m) = link_of m" "link_of (upd_info g m) = link_of m"
  by (simp_all add: link_of_def upd_lif_list_def upd_mlacp_def upd_app_def upd_info_def)

lemma link_view_lif_reinit [simp]: "link_view (lif_queue_reinit proc c s) = link_view s"
  unfolding lif_queue_reinit_def
  by (simp, rule link_view_foldl) (auto simp: Let_def split: prod.split dest: link_view_arp_accept)

lemma link_view_mac_reinit: "mlacp_mac_msg_queue_reinit c s = Some t \<Longrightarrow> link_view t = link_view s"
  by (auto simp: mlacp_mac_msg_queue_reinit_def Let_def split: if_splits)

lemma link_view_mlacp_init:
  assumes "mlacp_init proc rnd c all s = Some t"
  shows "link_view t = (link_view s)(c := link_of (upd_mlacp (\<lambda>m. m\<lparr>ml_current_state := MLACP_STATE_INIT\<rparr>) (csm_of s c)))"
  using assms by (auto simp: mlacp_init_def bind_eq_Some_conv Let_def upd_ml_def [of c "\<lambda>m. m\<lparr>ml_sync_req_num := _, ml_need_to_sync := _,
      ml_current_state := _, ml_remote_system := _ m, ml_msg_list := _, ml_arp_msg_list := _, ml_ndisc_msg_list := _\<rparr>"]
      link_view_upd_csm link_of_def upd_mlacp_def upd_app_def dest!: link_view_mac_reinit split: if_splits)

definition link_down :: "int \<times> ICCP_CONNECTION_STATE \<times> APP_CONNECTION_STATE \<times> MLACP_APP_STATE" where
  "link_down = (-1, ICCP_NONEXISTENT, APP_NONEXISTENT, MLACP_STATE_INIT)"

lemma link_down_ok [simp]: "link_ok link_down"
  by (simp add: link_down_def)

lemma link_view_status_reset:
  assumes "iccp_csm_status_reset proc rnd c all s = Some t"
  shows "link_view t = (link_view s)(c := link_down)"
proof -
  obtain s3 where s3: "app_csm_init proc rnd c all (upd_csm c (upd_info (\<lambda>i. i\<lparr>inf_status_code := 0, inf_rejected_msg_id := 0,
      inf_peer_capability_flag := 0, inf_peer_rg_connect_flag := 0, inf_sender_capability_flag := 0,
      inf_sender_rg_connect_flag := 0\<rparr>)) (upd_csm c (\<lambda>m. (if all then zero_CSM else m)\<lparr>csm_msg_list := [], csm_sock_fd := -1,
      csm_connTimePrev := 0, csm_heartbeat_send_time := 0, csm_heartbeat_update_time := 0,
      csm_peer_warm_reboot_time := 0, csm_warm_reboot_disconn_time := 0, csm_peer_link_learning_retry_time := 0,
      csm_peer_link_learning_enable := 0, csm_role_type := STP_ROLE_NONE, csm_peer_link_if := None,
      csm_u_msg_in_count := 0, csm_i_msg_in_count := 0, csm_icc_msg_in_count := 0, csm_icc_msg_out_count := 0,
      csm_current_state := ICCP_NONEXISTENT\<rparr>) s)) = Some s3"
    and t: "t = upd_csm c (\<lambda>m. m\<lparr>csm_msg_log := csm_msg_log zero_CSM\<rparr>) s3"
    using assms by (auto simp: iccp_csm_status_reset_def bind_eq_Some_conv Let_def)
  show ?thesis
    using link_view_mlacp_init [OF s3 [unfolded app_csm_init_def]]
    by (simp add: t, simp add: link_of_def link_view_upd_csm [of c "upd_app _"] link_view_upd_csm [of c "upd_info _"]
        link_view_upd_csm [of c _ s] link_down_def upd_mlacp_def upd_app_def upd_info_def)
qed

lemma link_view_cleanup: "\<exists>v. link_view (scheduler_csm_socket_cleanup c s) = (link_view s)(c := v)"
proof (cases "csm_sock_fd (csm_of s c) \<le> 0")
  case True
  then have "link_view (scheduler_csm_socket_cleanup c s) = (link_view s)(c := link_view s c)"
    by (simp add: scheduler_csm_socket_cleanup_def)
  then show ?thesis ..
next
  case False
  then have "link_view (scheduler_csm_socket_cleanup c s) = (link_view s)(c := link_of (csm_of s c\<lparr>csm_sock_fd := -1\<rparr>))"
    by (simp add: scheduler_csm_socket_cleanup_def link_view_upd_csm)
  then show ?thesis ..
qed

lemma link_view_disconnect:
  assumes "scheduler_session_disconnect_handler proc c s = Some t"
  shows "link_view t = (link_view s)(c := link_down)"
proof -
  obtain s1 s2 where s1: "mlacp_peer_disconn_handler c (scheduler_csm_socket_cleanup c s) = Some s1"
    and s2: "iccp_csm_status_reset proc 0 c False
      (upd_ml c (\<lambda>m. m\<lparr>ml_current_state := MLACP_STATE_INIT\<rparr>) s1) = Some s2"
    and t: "t = upd_csm c (\<lambda>m. m\<lparr>csm_connTimePrev := env_time s2\<rparr>) s2"
    using assms by (auto simp: scheduler_session_disconnect_handler_def bind_eq_Some_conv)
  obtain v where "link_view s1 = (link_view s)(c := v)"
    using link_view_cleanup [of c s] link_view_fsm [OF fsm_view_disconn [OF s1]] by auto
  then show ?thesis
    using link_view_status_reset [OF s2] by (simp add: t upd_ml_def link_view_upd_csm link_of_def fun_eq_iff link_view_def)
qed

lemma sessions_ok_disconnect:
  "sessions_ok s \<Longrightarrow> scheduler_session_disconnect_handler proc c s = Some t \<Longrightarrow> sessions_ok t"
  using sessions_ok_change link_view_disconnect link_down_ok by blast

lemma sessions_ok_heartbeat: "sessions_ok s \<Longrightarrow> heartbeat_update proc c s = Some t \<Longrightarrow> sessions_ok t"
  by (auto simp: heartbeat_update_def heartbeat_check_def split: if_splits
      intro: sessions_ok_disconnect sessions_ok_same simp: link_of_def)

section \<open>Connecting\<close>

lemma link_view_quiet [simp]:
  "link_view (snd (mlacp_link_set_iccp_role i b m s)) = link_view s" "link_view (mlacp_fix_bridge_mac c s) = link_view s"
  "link_view (set_peerlink_learn_kernel c b s) = link_view s" "link_view (snd (malloc s)) = link_view s"
  "link_view (snd (next_msg_id s)) = link_view s" "link_view (snd (send_prepared c r)) = link_view (snd (snd r))"
  "link_view (s\<lparr>env_n_connect := n\<rparr>) = link_view s" "link_view (s\<lparr>env_n_recv := n\<rparr>) = link_view s"
proof -
  show "link_view (snd (mlacp_link_set_iccp_role i b m s)) = link_view s"
    by (rule link_view_fsm, rule fsm_view_only_syncd)
      (simp add: mlacp_link_set_iccp_role_def Let_def syncd_request_only_syncd syncd_request_counted_only_syncd)
  show "link_view (mlacp_fix_bridge_mac c s) = link_view s" by (simp add: mlacp_fix_bridge_mac_def Let_def)
qed (rule link_view_fsm, simp; fail | simp add: link_view_def fun_eq_iff)+

lemma link_view_stp_role [simp]: "link_view (iccp_csm_stp_role_count c s) = link_view s"
  by (simp add: iccp_csm_stp_role_count_def Let_def)

lemma link_view_check_config: "scheduler_check_csm_config c s = (ret, t) \<Longrightarrow> link_view t = link_view s"
  by (auto simp: scheduler_check_csm_config_def Let_def split: if_splits option.splits)

lemma link_view_sel:
  "csm_sock_fd (csm_of s c) = fst (link_view s c)" "csm_current_state (csm_of s c) = fst (snd (link_view s c))"
  "app_current_state (csm_app_csm (csm_of s c)) = fst (snd (snd (link_view s c)))"
  "ml_current_state (MLACP (csm_of s c)) = snd (snd (snd (link_view s c)))"
  by (simp_all add: link_view_def link_of_def)

text \<open>An attempt to connect gives a session without a socket some descriptor, and does nothing else to it.\<close>

lemma link_view_fd: "link_view (upd_csm c (\<lambda>m. m\<lparr>csm_sock_fd := f m\<rparr>) s) = (link_view s)(c := (f (csm_of s c), snd (link_view s c)))"
  by (simp add: link_view_upd_csm) (simp add: link_of_def link_view_def)

lemma link_view_conn: "\<exists>fd. link_view (session_client_conn_handler c s) = (link_view s)(c := (fd, snd (link_view s c)))"
  by (auto simp: session_client_conn_handler_def Let_def link_view_upd_csm link_of_def link_view_def)

lemma link_view_prepare_session:
  "\<exists>fd. link_view (scheduler_prepare_session c s) = (link_view s)(c := (fd, snd (link_view s c))) \<and>
     (0 < fst (link_view s c) \<longrightarrow> fd = fst (link_view s c))"
proof -
  define touch where "touch = (\<lambda>s. upd_csm c (\<lambda>m. m\<lparr>csm_connTimePrev := env_time s\<rparr>) s)"
  have touch [simp]: "link_view (touch t) = link_view t" for t by (simp add: touch_def)
  define s1 where "s1 = (if csm_connTimePrev (csm_of s c) = 0 then touch s else s)"
  have s1: "link_view s1 = link_view s" by (simp add: s1_def)
  obtain ret s2 where s2: "scheduler_check_csm_config c s1 = (ret, s2)" by fastforce
  have v2: "link_view s2 = link_view s" using link_view_check_config [OF s2] s1 by simp
  have eq: "scheduler_prepare_session c s =
    (if env_time s1 - csm_connTimePrev (csm_of s1 c) < CONNECT_INTERVAL_SEC then s1
     else if 0 < fst (link_view s c) then touch s1
     else if ret < 0 \<or> inet_addr (csm_peer_ip (csm_of s2 c)) \<le> inet_addr (csm_sender_ip (csm_of s2 c)) then touch s2
     else touch (session_client_conn_handler c s2))"
    by (simp add: scheduler_prepare_session_def Let_def touch_def [symmetric] s1_def [symmetric] s2 link_view_sel s1)
  have same: "\<exists>fd. link_view s = (link_view s)(c := (fd, snd (link_view s c))) \<and> (0 < fst (link_view s c) \<longrightarrow> fd = fst (link_view s c))"
    by (rule exI [of _ "fst (link_view s c)"]) simp
  show ?thesis
    using same link_view_conn [of c s2] by (auto simp: eq s1 v2)
qed

section \<open>Moving a session along\<close>

lemma link_of_check_id: "iccp_csm_check_id_from_msg msg m = Some k \<Longrightarrow> link_of k = link_of m"
  by (auto simp: iccp_csm_check_id_from_msg_def Let_def bind_eq_Some_conv split: if_splits)

lemma link_of_kinds:
  "iccp_csm_correspond_from_capability_msg msg m = Some k \<Longrightarrow> link_of k = link_of m"
  "iccp_csm_correspond_from_rg_connect_msg msg m = Some k \<Longrightarrow> link_of k = link_of m"
  "iccp_csm_correspond_from_rg_disconnect_msg msg m = Some k \<Longrightarrow> link_of k = link_of m"
  unfolding iccp_csm_correspond_from_capability_msg_def iccp_csm_correspond_from_rg_connect_msg_def
    iccp_csm_correspond_from_rg_disconnect_msg_def bind_eq_Some_conv Let_def
  by (auto simp: bind_eq_Some_conv split: if_split_asm)

lemma link_of_correspond: "iccp_csm_correspond_from_msg msg m = Some k \<Longrightarrow> link_of k = link_of m"
  unfolding iccp_csm_correspond_from_msg_def Let_def bind_eq_Some_conv
  by (auto simp: bind_eq_Some_conv split: if_split_asm dest!: link_of_check_id link_of_kinds)

lemma link_of_enter_state [simp]: "link_of (iccp_csm_enter_state st m) = link_of m"
  by (cases st) (simp_all add: iccp_csm_enter_state_def)

lemma link_of_dequeue: "iccp_csm_dequeue_msg m = (x, k) \<Longrightarrow> link_of k = link_of m"
  by (auto simp: iccp_csm_dequeue_msg_def split: list.splits)

lemma link_view_csm_handle: "csm_handle c msg s = Some t \<Longrightarrow> link_view t = link_view s"
  by (auto simp: csm_handle_def link_view_upd_csm link_of_correspond fun_eq_iff link_view_def split: option.splits)

lemma link_view_prepared: "link_view (snd (snd (iccp_csm_prepare_iccp_msg c s))) = link_view s"
proof -
  have "link_view t = link_view s" if "next_msg_id s = (i, t)" for i t
    using link_view_quiet(5) [of s] that by simp
  then show ?thesis
    by (auto simp: iccp_csm_prepare_iccp_msg_def prepared_def iccp_csm_prepare_capability_msg_def iccp_csm_prepare_nak_msg_def
        iccp_csm_prepare_rg_connect_msg_def iccp_csm_prepare_rg_disconnect_msg_def Let_def
        split: ICCP_CONNECTION_STATE.split prod.split)
qed

lemma link_view_csm_send [simp]: "link_view (csm_send c s) = link_view s"
  by (simp add: csm_send_def link_view_prepared)

lemma link_view_enter:
  "link_view (csm_enter c st s) = (link_view s)(c := (fst (link_view s c), st, snd (snd (link_view s c))))"
  by (simp add: csm_enter_def link_view_upd_csm link_of_def link_view_def)

lemma csm_switch_link:
  assumes "csm_switch c msg s = Some t" "link_ok (link_view s c)"
  shows "\<exists>fd st. link_view t = (link_view s)(c := (fd, st, snd (snd (link_view s c)))) \<and>
    (st \<noteq> ICCP_NONEXISTENT \<longrightarrow> 0 < fd) \<and> (0 < fst (link_view s c) \<longrightarrow> fd = fst (link_view s c)) \<and>
    (fst (snd (link_view s c)) \<noteq> ICCP_NONEXISTENT \<longrightarrow> st \<noteq> ICCP_NONEXISTENT)"
proof (cases "fst (snd (link_view s c)) = ICCP_NONEXISTENT")
  case True
  obtain fd where fd: "link_view (scheduler_prepare_session c s) = (link_view s)(c := (fd, snd (link_view s c)))"
    "0 < fst (link_view s c) \<longrightarrow> fd = fst (link_view s c)" using link_view_prepare_session by blast
  obtain ret s2 where s2: "scheduler_check_csm_config c (scheduler_prepare_session c s) = (ret, s2)" by fastforce
  have v2: "link_view s2 = (link_view s)(c := (fd, snd (link_view s c)))" using link_view_check_config [OF s2] fd by simp
  have "t = (if 0 < fd then if 0 < ret then csm_enter c ICCP_INITIALIZED s2 else s2 else scheduler_prepare_session c s)"
    using assms True fd s2 by (auto simp: csm_switch_def Let_def link_view_sel split: if_splits)
  moreover have "snd (link_view s c) = (ICCP_NONEXISTENT, snd (snd (link_view s c)))"
    using True by (simp add: prod_eq_iff)
  then have "link_view s2 = (link_view s)(c := (fd, ICCP_NONEXISTENT, snd (snd (link_view s c))))"
    "link_view (scheduler_prepare_session c s) = (link_view s)(c := (fd, ICCP_NONEXISTENT, snd (snd (link_view s c))))"
    using v2 fd(1) by simp_all
  ultimately obtain st where "link_view t = (link_view s)(c := (fd, st, snd (snd (link_view s c))))"
    "st \<noteq> ICCP_NONEXISTENT \<longrightarrow> 0 < fd" by (auto simp: link_view_enter split: if_splits)
  then show ?thesis using True fd(2) by blast
next
  case False
  define up where "up v \<longleftrightarrow> (\<exists>st. v = (link_view s)(c := (fst (link_view s c), st, snd (snd (link_view s c)))) \<and> st \<noteq> ICCP_NONEXISTENT)"
    for v
  have here: "up (link_view s)" unfolding up_def
    by (rule exI [of _ "fst (snd (link_view s c))"]) (use False in \<open>simp add: fun_eq_iff\<close>)
  have enter: "up (link_view (csm_enter c st u))" if "up (link_view u)" "st \<noteq> ICCP_NONEXISTENT" for st u
    using that by (auto simp: up_def link_view_enter)
  have "up (link_view t)"
    using assms(1) False here by (cases "csm_current_state (csm_of s c)")
      (auto simp: csm_switch_def Let_def link_view_sel intro!: enter dest!: link_view_csm_handle)
  then show ?thesis using assms(2) False by (cases "link_view s c") (auto simp: up_def)
qed

lemma sessions_ok_at: "sessions_ok s \<Longrightarrow> link_ok (link_view s c)"
  by (simp add: sessions_ok_links)

lemma sessions_ok_csm_transit:
  assumes ok: "sessions_ok s" and run: "iccp_csm_transit proc c s = Some (freed, t)"
  shows "\<not> freed" "sessions_ok t"
proof -
  note here = sessions_ok_at [OF ok, of c]
  have alive: "\<not> (csm_current_state (csm_of s c) \<noteq> ICCP_NONEXISTENT \<and> csm_sock_fd (csm_of s c) \<le> 0)"
    using here by (cases "link_view s c") (auto simp: link_view_sel)
  obtain msg m1 where deq: "iccp_csm_dequeue_msg (csm_of s c) = (msg, m1)" by fastforce
  have v0: "link_view (upd_csm c (\<lambda>_. m1) s) = link_view s"
    using link_of_dequeue [OF deq] by (simp add: link_view_upd_csm fun_eq_iff link_view_def)
  obtain s1 where s1: "csm_switch c msg (upd_csm c (\<lambda>_. m1) s) = Some s1"
    and t: "(if csm_current_state (csm_of s c) \<noteq> csm_current_state (csm_of s1 c)
          \<or> csm_current_state (csm_of s1 c) \<noteq> ICCP_NONEXISTENT \<and> msg \<noteq> None
        then if csm_current_state (csm_of s1 c) = ICCP_NONEXISTENT then map_option (Pair True) (iccp_csm_finalize proc c s1)
             else Some (False, upd_csm c (iccp_csm_enter_state (csm_current_state (csm_of s1 c))) s1)
        else Some (False, s1)) = Some (freed, t)"
    using run alive by (auto simp: iccp_csm_transit_def Let_def deq bind_eq_Some_conv)
  obtain fd st where v1: "link_view s1 = (link_view s)(c := (fd, st, snd (snd (link_view s c))))"
    and st: "st \<noteq> ICCP_NONEXISTENT \<longrightarrow> 0 < fd" "0 < fst (link_view s c) \<longrightarrow> fd = fst (link_view s c)"
      "fst (snd (link_view s c)) \<noteq> ICCP_NONEXISTENT \<longrightarrow> st \<noteq> ICCP_NONEXISTENT"
    using csm_switch_link [OF s1] here by (auto simp: v0)
  have "csm_current_state (csm_of s1 c) = ICCP_NONEXISTENT \<Longrightarrow>
    csm_current_state (csm_of s c) = csm_current_state (csm_of s1 c)"
    using v1 st(3) by (auto simp: link_view_sel)
  then have res: "\<not> freed \<and> link_view t = link_view s1"
    using t by (auto split: if_splits)
  then show "\<not> freed" ..
  have "link_ok (fd, st, snd (snd (link_view s c)))"
    using st(1,2) here by (auto simp: link_ok_sel)
  then show "sessions_ok t" using res v1 sessions_ok_change [OF ok] by simp
qed

lemma sessions_ok_app_transit:
  assumes "sessions_ok s"
  shows "sessions_ok (upd_csm c app_csm_transit s)"
proof (rule sessions_ok_change [OF assms link_view_upd_csm])
  show "link_ok (link_of (app_csm_transit (csm_of s c)))"
    using sessions_ok_at [OF assms, of c]
    by (auto simp: app_csm_transit_def link_view_def link_of_def upd_app_def)
qed

lemma sessions_ok_fsm_transit:
  assumes ok: "sessions_ok s" and run: "mlacp_fsm_transit c prev_state s = Some (p, t)"
  shows "sessions_ok t"
proof (cases "csm_sock_fd (csm_of s c) \<le> 0 \<or> app_current_state (csm_app_csm (csm_of s c)) \<noteq> APP_OPERATIONAL")
  case True
  then have "ml_current_state (MLACP (csm_of s c)) = MLACP_STATE_INIT"
    using sessions_ok_at [OF ok, of c] by (auto simp: link_view_def link_of_def)
  then show ?thesis using True run ok by (auto simp: mlacp_fsm_transit_def)
next
  case False
  then have up: "0 < csm_sock_fd (csm_of s c)" "app_current_state (csm_app_csm (csm_of s c)) = APP_OPERATIONAL" by simp_all
  obtain ml w where "fsm_view t = (fsm_view s)(c := (ml, w, [], snd (snd (snd (fsm_view s c)))))"
    using mlacp_fsm_transit_operational [OF up run] by (auto simp: fsm_ran_def Let_def)
  then have "link_view t = (link_view s)(c := (csm_sock_fd (csm_of s c), csm_current_state (csm_of s c), APP_OPERATIONAL, ml))"
    using up(2) by (simp add: link_view_of_fsm fun_eq_iff fsm_view_def [of s] fsm_of_def)
  then show ?thesis by (rule sessions_ok_change [OF ok]) (use up in simp)
qed

lemma sessions_ok_accept:
  assumes ok: "sessions_ok s" and run: "scheduler_server_accept conn registered s = (rc, t)"
  shows "sessions_ok t"
proof (cases "rc = 0")
  case True
  then obtain fd c ret s1 where c: "\<not> 0 < csm_sock_fd (csm_of s c)" and s1: "scheduler_check_csm_config c s = (ret, s1)"
    and t: "t = upd_csm c (\<lambda>m. m\<lparr>csm_sock_fd := fd, csm_current_state := ICCP_NONEXISTENT\<rparr>) s1"
    using run by (auto simp: scheduler_server_accept_def Let_def MCLAG_ERROR_def split: option.splits if_splits prod.splits)
  have "link_view t = (link_view s)(c := (fd, ICCP_NONEXISTENT, snd (snd (link_view s c))))"
    using link_view_check_config [OF s1] by (simp add: t link_view_upd_csm link_of_def link_view_sel)
  then show ?thesis
    by (rule sessions_ok_change [OF ok]) (use c sessions_ok_at [OF ok, of c] in \<open>auto simp: link_ok_sel link_view_sel\<close>)
next
  case False
  then have "link_view t = link_view s"
    using run by (auto simp: scheduler_server_accept_def Let_def split: option.splits if_splits prod.splits
        dest: link_view_check_config)
  then show ?thesis using ok sessions_ok_same by blast
qed

section \<open>Receiving\<close>

lemma sock_recv_view: "sock_recv n s = (r, t) \<Longrightarrow> link_view t = link_view s"
  by (auto simp: sock_recv_def Let_def split: recv_result.splits)

lemma recv_header_view: "recv_header got s = (r, t) \<Longrightarrow> link_view t = link_view s"
proof (induction got s rule: recv_header.induct)
  case (1 got s)
  obtain x u where recv: "sock_recv (8 - length got) s = (x, u)" by fastforce
  note step = recv_header.simps [of got s] and v = sock_recv_view [OF recv]
  show ?case
    using 1 recv v by (cases x) (auto simp: step split: if_splits)
qed

lemma recv_data_view: "recv_data n k got s = Some (r, t) \<Longrightarrow> link_view t = link_view s"
proof (induction n k got s rule: recv_data.induct)
  case (1 n k got s)
  obtain x u where recv: "sock_recv n s = (x, u)" by fastforce
  note step = recv_data.simps [of n k got s] and v = sock_recv_view [OF recv]
  show ?case
    using 1 recv v by (cases x) (auto simp: step split: if_splits)
qed

lemma link_of_enqueue: "iccp_csm_enqueue_msg msg m = Some k \<Longrightarrow> link_of k = link_of m"
proof -
  have queues: "link_of (mlacp_enqueue_msg x m) = link_of m" "link_of (app_queue x m) = link_of m"
    "link_of (csm_queue x m) = link_of m" for x
    by (simp_all add: mlacp_enqueue_msg_def app_queue_def csm_queue_def upd_mlacp_def upd_app_def link_of_def)
  have app: "app_csm_enqueue_msg x m = Some k \<Longrightarrow> link_of k = link_of m" for x
    unfolding app_csm_enqueue_msg_def bind_eq_Some_conv Let_def
    by (auto simp: queues bind_eq_Some_conv split: if_split_asm option.split_asm)
  show "iccp_csm_enqueue_msg msg m = Some k \<Longrightarrow> link_of k = link_of m"
    unfolding iccp_csm_enqueue_msg_def bind_eq_Some_conv Let_def
    by (auto simp: queues bind_eq_Some_conv split: if_split_asm option.split_asm dest: app)
qed

lemma link_view_init_msg:
  assumes "iccp_csm_init_msg b n s = (m, t)"
  shows "link_view t = link_view s"
proof -
  obtain ok1 s1 ok2 s2 where "malloc s = (ok1, s1)" "malloc s1 = (ok2, s2)" by fastforce
  with link_view_fsm [OF fsm_view_malloc [OF this(1)]] link_view_fsm [OF fsm_view_malloc [OF this(2)]] assms
  show ?thesis by (auto simp: iccp_csm_init_msg_def Let_def split: if_splits)
qed

lemma link_view_recv_msg: "recv_msg c b n s = Some (rc, t) \<Longrightarrow> link_view t = link_view s"
proof -
  assume run: "recv_msg c b n s = Some (rc, t)"
  obtain m w where w: "iccp_csm_init_msg b n s = (m, w)" by fastforce
  have "link_view (upd_csm c (\<lambda>_. k\<lparr>csm_icc_msg_in_count := i\<rparr>) w) = link_view w"
    if "iccp_csm_enqueue_msg x (csm_of w c) = Some k" for x k i
    using link_of_enqueue [OF that] by (simp add: link_view_upd_csm fun_eq_iff link_view_def)
  then show ?thesis
    using run w link_view_init_msg [OF w] by (cases m) (auto simp: recv_msg_def bind_eq_Some_conv)
qed

text \<open>The callback either loses the session or leaves the states of all layers as they are.\<close>

lemma read_callback_cases:
  assumes "scheduler_csm_read_callback proc c s = Some (rc, t)"
  obtains (Lost) u where "link_view u = link_view s" "scheduler_session_disconnect_handler proc c u = Some t"
  | (Kept) "link_view t = link_view s"
proof -
  have lost: thesis if "recv_err proc c u = Some (rc, t)" "link_view u = link_view s" for u
    using that Lost by (auto simp: recv_err_def)
  obtain h u where h: "recv_header [] s = (h, u)" by fastforce
  show thesis
    using assms unfolding scheduler_csm_read_callback_def h Let_def
    by (auto split: if_split_asm option.split_asm prod.split_asm intro: Kept lost recv_header_view [OF h]
        dest!: recv_data_view link_view_recv_msg simp: recv_header_view [OF h])
qed

lemma sessions_ok_read:
  assumes ok: "sessions_ok s" and run: "scheduler_csm_read_callback proc c s = Some (rc, t)"
  shows "sessions_ok t"
  using run
proof (cases rule: read_callback_cases)
  case (Lost u)
  then show ?thesis using ok sessions_ok_same sessions_ok_disconnect by blast
next
  case Kept
  then show ?thesis using ok sessions_ok_same by blast
qed

section \<open>Sessions come and go\<close>

lemma link_view_csm_init:
  assumes "iccp_csm_init proc rnd c s = Some t"
  shows "link_view t = (link_view s)(c := link_down)"
proof -
  obtain u where u: "iccp_csm_status_reset proc rnd c True s = Some u"
    and t: "t = upd_csm c (\<lambda>m. (upd_info (\<lambda>i. i\<lparr>inf_sender_name := [], inf_icc_rg_id := 0\<rparr>) m)
       \<lparr>csm_sender_ip := [], csm_peer_ip := [], csm_keepalive_time := CONNECT_INTERVAL_SEC,
        csm_session_timeout := HEARTBEAT_TIMEOUT_SEC\<rparr>) u"
    using assms by (auto simp: iccp_csm_init_def bind_eq_Some_conv)
  have "link_view t = link_view u" unfolding t by (rule link_view_keep) (simp add: link_of_def upd_info_def)
  then show ?thesis using link_view_status_reset [OF u] by simp
qed

lemma link_view_list [simp]:
  "link_view (s\<lparr>sys_csm_list := cs\<rparr>) = link_view s" "link_view (s\<lparr>sys_lif_purge_list := ls\<rparr>) = link_view s"
  by (simp_all add: link_view_def fun_eq_iff)

lemma sessions_ok_create:
  assumes ok: "sessions_ok s" and run: "system_create_csm proc rnd s = Some (r, t)"
  shows "sessions_ok t"
proof -
  obtain b s1 where s1: "malloc s = (b, s1)" by fastforce
  note v1 = link_view_fsm [OF fsm_view_malloc [OF s1]]
  define c where "c = Suc (foldl max 0 (sys_csm_list s1))"
  have "link_view t = link_view s \<or> link_view t = (link_view s)(c := link_down)"
    using run v1 unfolding system_create_csm_def s1 Let_def prod.case c_def [symmetric]
    by (auto simp: bind_eq_Some_conv link_view_upd_csm dest!: link_view_csm_init split: if_splits)
  then show ?thesis using ok sessions_ok_same sessions_ok_change link_down_ok by metis
qed

lemma fsm_view_unbind [simp]: "fsm_view (mlacp_unbind_local_if l s) = fsm_view s"
  by (simp add: mlacp_unbind_local_if_def upd_lif_list_def Let_def split: option.split)

lemma fsm_view_to_peerlink [simp]: "fsm_view (update_remote_macs_to_peerlink c l s) = fsm_view s"
  unfolding update_remote_macs_to_peerlink_def by (rule fsm_view_foreach) (simp add: Let_def)

lemma fsm_view_detach: "mlacp_mlag_intf_detach_handler c l s = Some t \<Longrightarrow> fsm_view t = fsm_view s"
  by (auto simp: mlacp_mlag_intf_detach_handler_def mlacp_mlag_link_del_handler_def Let_def bind_eq_Some_conv
      dest: fsm_view_port_isolate split: if_splits)

lemma fsm_view_cli_detach:
  assumes "iccp_cli_detach_mclag_domain_to_port_channel n s = Some (rc, t)"
  shows "fsm_view t = fsm_view s"
proof -
  have names: "fsm_of (m\<lparr>csm_if_bind_list := ns\<rparr>) = fsm_of m" for m ns by (simp add: fsm_of_def)
  show ?thesis
    using assms by (auto simp: iccp_cli_detach_mclag_domain_to_port_channel_def Let_def bind_eq_Some_conv names
        split: if_splits option.splits dest!: fsm_view_detach)
qed

lemma link_view_finalize:
  assumes "iccp_csm_finalize proc c s = Some t"
  shows "link_view t = (link_view s)(c := link_down)"
proof -
  define s1 where "s1 = (if sys_warmboot_exit s = WARM_REBOOT then s
               else case csm_peer_link_if (csm_of s c) of None \<Rightarrow> s
                 | Some l \<Rightarrow> set_peerlink_learn_kernel c True (set_peerlink_mlag_port_learn (Some l) True s))"
  have v1: "link_view s1 = link_view s" by (rule link_view_fsm) (simp add: s1_def split: option.split)
  obtain s2 s3 s4 where s2: "scheduler_session_disconnect_handler proc c s1 = Some s2"
    and s3: "fold_opt (\<lambda>l s. map_option snd (iccp_cli_detach_mclag_domain_to_port_channel (lif_name (lif_of s l)) s))
             (ml_lif_list (MLACP (csm_of s2 c))) s2 = Some s3"
    and s4: "app_csm_finalize proc c s3 = Some s4"
    and t: "link_view t = link_view s4"
    using assms by (auto simp: iccp_csm_finalize_def s1_def [symmetric] Let_def bind_eq_Some_conv link_of_def)
  have "link_view s3 = link_view s2"
    by (rule link_view_fsm, rule fsm_view_fold_opt [OF _ s3]) (auto dest: fsm_view_cli_detach)
  moreover have "link_view s4 = link_view s3"
    using s4 by (auto simp: app_csm_finalize_def mlacp_finalize_def Let_def bind_eq_Some_conv dest!: link_view_mac_reinit)
  ultimately show ?thesis using t link_view_disconnect [OF s2] v1 by simp
qed

section \<open>Reachable states\<close>

text \<open>
  The states the daemon can come to, in whatever order the events happen: sessions are created and
  removed, heartbeats are checked, each of the three machines of a session takes a step, a message is
  read, a connection is accepted, a session is dropped, and handlers run that do not touch the states
  of the layers. The rounds of the scheduler are sequences of these steps.
\<close>

inductive reachable :: "(string \<Rightarrow> char option) \<Rightarrow> MLACP_APP_STATE \<Rightarrow> System \<Rightarrow> bool" for proc where
  Start: "(\<And>d. csm_of s d = zero_CSM) \<Longrightarrow> reachable proc MLACP_STATE_INIT s"
| Create: "reachable proc p s \<Longrightarrow> system_create_csm proc rnd s = Some (r, t) \<Longrightarrow> reachable proc p t"
| Remove: "reachable proc p s \<Longrightarrow> iccp_csm_finalize proc c s = Some t \<Longrightarrow> reachable proc p t"
| Heartbeat: "reachable proc p s \<Longrightarrow> heartbeat_update proc c s = Some t \<Longrightarrow> reachable proc p t"
| Connection: "reachable proc p s \<Longrightarrow> iccp_csm_transit proc c s = Some (freed, t) \<Longrightarrow> reachable proc p t"
| Application: "reachable proc p s \<Longrightarrow> reachable proc p (upd_csm c app_csm_transit s)"
| Synchronisation: "reachable proc p s \<Longrightarrow> mlacp_fsm_transit c p s = Some (q, t) \<Longrightarrow> reachable proc q t"
| Receive: "reachable proc p s \<Longrightarrow> scheduler_csm_read_callback proc c s = Some (rc, t) \<Longrightarrow> reachable proc p t"
| Accept: "reachable proc p s \<Longrightarrow> scheduler_server_accept conn reg s = (rc, t) \<Longrightarrow> reachable proc p t"
| Drop: "reachable proc p s \<Longrightarrow> scheduler_session_disconnect_handler proc c s = Some t \<Longrightarrow> reachable proc p t"
| Other: "reachable proc p s \<Longrightarrow> link_view t = link_view s \<Longrightarrow> reachable proc p t"

lemma reachable_ok: "reachable proc p s \<Longrightarrow> sessions_ok s"
proof (induction rule: reachable.induct)
  case (Start s)
  then show ?case by (simp add: sessions_ok_def session_ok_def zero_CSM_def zero_mLACP_def)
next
  case (Remove p s c t)
  then show ?case using sessions_ok_change link_view_finalize link_down_ok by blast
qed (blast intro: sessions_ok_create sessions_ok_heartbeat sessions_ok_csm_transit(2) sessions_ok_app_transit
    sessions_ok_fsm_transit sessions_ok_read sessions_ok_accept sessions_ok_disconnect sessions_ok_same)+

lemma reachable_round:
  assumes "transit_sessions proc cs p s = Some (q, t)" "reachable proc p s"
  shows "reachable proc q t"
  using assms
proof (induction cs arbitrary: p s)
  case (Cons c cs)
  then obtain s1 s2 p1 s3 where "heartbeat_update proc c s = Some s1" "iccp_csm_transit proc c s1 = Some (False, s2)"
    "mlacp_fsm_transit c p (upd_csm c app_csm_transit s2) = Some (p1, s3)" "transit_sessions proc cs p1 s3 = Some (q, t)"
    by (auto split: option.splits prod.splits if_splits)
  then show ?case
    using Cons.IH Cons.prems(2) reachable.Heartbeat reachable.Connection reachable.Application reachable.Synchronisation
    by metis
qed simp

lemma link_view_purge [simp]: "link_view (local_if_purge_clear s) = link_view s"
  unfolding local_if_purge_clear_def
  by (rule link_view_foldl)
    (simp add: local_if_mlacp_purge_del_def link_of_def upd_mlacp_def upd_app_def split: option.split)

lemma round_reachable:
  "reachable proc p s \<Longrightarrow> scheduler_transit_fsm proc p s = Some (q, t) \<Longrightarrow> reachable proc q t"
  by (auto simp: scheduler_transit_fsm_def intro: reachable.Other reachable_round)

text \<open>
  C2. In every state the daemon can come to, and for every session: outside its first state a session
  has a socket; the application layer is operational only with a socket; the synchronisation layer
  has left its initial state only above an operational application layer. A round of the scheduler
  leads to such a state again, and moving a session along never frees it, so that the calls for the
  same session that follow in the round work on memory that is still allocated.
\<close>

theorem sessions_consistent:
  assumes "reachable proc p s"
  shows "(csm_current_state (csm_of s c) \<noteq> ICCP_NONEXISTENT \<longrightarrow> 0 < csm_sock_fd (csm_of s c)) \<and>
    (app_current_state (csm_app_csm (csm_of s c)) = APP_OPERATIONAL \<longrightarrow> 0 < csm_sock_fd (csm_of s c)) \<and>
    (ml_current_state (MLACP (csm_of s c)) \<noteq> MLACP_STATE_INIT \<longrightarrow>
      app_current_state (csm_app_csm (csm_of s c)) = APP_OPERATIONAL) \<and>
    (\<forall>freed t. iccp_csm_transit proc c s = Some (freed, t) \<longrightarrow> \<not> freed) \<and>
    (\<forall>q t. scheduler_transit_fsm proc p s = Some (q, t) \<longrightarrow> reachable proc q t)"
proof -
  have ok: "sessions_ok s" using assms by (rule reachable_ok)
  then have "session_ok (csm_of s c)" by (simp add: sessions_ok_def)
  then show ?thesis
    using sessions_ok_csm_transit(1) [OF ok] round_reachable [OF assms] unfolding session_ok_def by blast
qed

section \<open>A concrete run\<close>

text \<open>One configured session; its peer connects.\<close>

definition a_server :: System where
  "a_server = (a_host (\<lambda>_. Sent 600))\<lparr>sys_csm_list := [0], sys_csm_heap := (\<lambda>_. zero_CSM)
     (0 := zero_CSM\<lparr>csm_mlag_id := 1, csm_peer_ip := ''10.0.0.2'', csm_sender_ip := ''10.0.0.1''\<rparr>)\<rparr>"

definition a_connected :: System where
  "a_connected = snd (scheduler_server_accept (Some (7, ''10.0.0.2'')) True a_server)"

lemma reachable_a_connected: "reachable (\<lambda>_. None) MLACP_STATE_INIT a_connected"
proof -
  have "reachable (\<lambda>_. None) MLACP_STATE_INIT (a_server\<lparr>sys_csm_heap := \<lambda>_. zero_CSM\<rparr>)"
    by (rule reachable.Start) simp
  then have "reachable (\<lambda>_. None) MLACP_STATE_INIT a_server"
    by (rule reachable.Other) (simp add: link_view_def a_server_def fun_eq_iff link_of_def)
  then show ?thesis unfolding a_connected_def by (rule reachable.Accept) (rule prod.collapse [symmetric])
qed

theorem sessions_consistent_witness:
  "csm_sock_fd (csm_of a_connected 0) = 7 \<and>
   (\<forall>t. iccp_csm_transit (\<lambda>_. None) 0 a_connected \<noteq> Some (True, t))"
proof -
  have "csm_sock_fd (csm_of a_connected 0) = 7" by code_simp
  then show ?thesis using sessions_consistent [OF reachable_a_connected, of 0] by blast
qed

end
