(* ===== verification/Lif_Events.thy ===== *)
theory Lif_Events
  imports Iccp_Session
begin

text \<open>
  Local interfaces come, change and go (\<open>port.c\<close>, \<open>iccp_netlink.c\<close>, \<open>iccp_ifm.c\<close>, \<open>app_csm.c\<close>): the
  events of the kernel about links, the members of port channels, and the binding of port channels to
  sessions. The objects of libnl are arguments: a link is the record \<open>rtnl_link\<close> of the attributes the
  code reads, and \<open>team\<close> is what the kernel answers for the port channel with the given index, the
  index of each member and whether it is being removed, if there is an answer.
\<close>

section \<open>Members of a port channel\<close>

type_synonym team = "int \<Rightarrow> (int \<times> bool) list option"

definition member_of_mclag :: "csm_ptr \<Rightarrow> lif_ptr \<Rightarrow> int \<times> bool \<Rightarrow> System \<Rightarrow> System" where
  "member_of_mclag c l m s =
     (case local_if_find_by_ifindex (fst m) s of None \<Rightarrow> s
      | Some q \<Rightarrow>
          if snd m \<and> lif_po_id (lif_of s q) \<noteq> -1
          then mlacp_unbind_local_if q (upd_lif q (\<lambda>i. i\<lparr>lif_po_id := -1\<rparr>) s)
          else if lif_po_id (lif_of s q) = -1
          then snd (mlacp_bind_local_if c q (upd_lif q (\<lambda>i. i\<lparr>lif_po_id := lif_po_id (lif_of s l)\<rparr>) s))
          else s)"

definition member_of_peer_link :: "csm_ptr \<Rightarrow> lif_ptr \<Rightarrow> int \<times> bool \<Rightarrow> System \<Rightarrow> System" where
  "member_of_peer_link c l m s =
     (let exchange = (ml_current_state (MLACP (csm_of s c)) = MLACP_STATE_EXCHANGE)
      in case local_if_find_by_ifindex (fst m) s of None \<Rightarrow> s
         | Some q \<Rightarrow>
             if snd m \<and> lif_po_id (lif_of s q) \<noteq> -1
             then let s1 = upd_lif q (\<lambda>i. i\<lparr>lif_po_id := -1\<rparr>) s
                  in if exchange then set_peerlink_mlag_port_learn (Some q) True s1 else s1
             else if lif_po_id (lif_of s q) = -1
             then let s1 = upd_lif q (\<lambda>i. i\<lparr>lif_po_id := lif_po_id (lif_of s l)\<rparr>) s
                  in if exchange then set_peerlink_mlag_port_learn (Some l) False s1 else s1
             else s)"

text \<open>The names of the members, printed into a buffer of 512 bytes.\<close>

definition member_add :: "string \<Rightarrow> string \<times> nat \<Rightarrow> (string \<times> nat) option" where
  "member_add name st = do {
     st1 \<leftarrow> (if fst st \<noteq> [] then po_buf_print '','' st else Some st);
     po_buf_print name st1 }"

definition member_names :: "lif_ptr \<Rightarrow> lif_ptr list \<Rightarrow> System \<Rightarrow> string option" where
  "member_names l qs s = map_option fst (fold_opt member_add
     (map (\<lambda>q. lif_name (lif_of s q)) (filter (\<lambda>q. lif_type (lif_of s q) = IF_T_PORT
        \<and> lif_po_id (lif_of s q) = lif_po_id (lif_of s l)) qs)) ([], 0))"

definition iccp_get_portchannel_member_list_handler ::
  "int \<Rightarrow> (int \<times> bool) list option \<Rightarrow> System \<Rightarrow> System option" where
  "iccp_get_portchannel_member_list_handler ifindex ports s =
     (case local_if_find_by_ifindex ifindex s of None \<Rightarrow> Some s
      | Some l \<Rightarrow>
          if lif_type (lif_of s l) \<noteq> IF_T_PORT_CHANNEL then Some s
          else case lif_csm (lif_of s l) of
            Some c \<Rightarrow>
              (case ports of None \<Rightarrow> Some s
               | Some ms \<Rightarrow> do {
                   let s1 = foldl (\<lambda>s m. member_of_mclag c l m s) s ms;
                   names \<leftarrow> member_names l (ml_lif_list (MLACP (csm_of s1 c))) s1;
                   if names = lif_portchannel_member_buf (lif_of s1 l) then Some s1
                   else
                     let s2 = upd_lif l (\<lambda>i. i\<lparr>lif_portchannel_member_buf := names\<rparr>) s1
                     in if ml_current_state (MLACP (csm_of s2 c)) = MLACP_STATE_EXCHANGE
                        then update_peerlink_isolate_from_all_csm_lif c s2 else Some s2 })
          | None \<Rightarrow>
              if lif_is_peer_link (lif_of s l) = 0 then Some s
              else case find (\<lambda>c. csm_peer_link_if (csm_of s c) = Some l) (sys_csm_list s) of None \<Rightarrow> Some s
                | Some c \<Rightarrow> do {
                    ms \<leftarrow> ports;
                    let s1 = foldl (\<lambda>s m. member_of_peer_link c l m s) s ms;
                    names \<leftarrow> member_names l (sys_lif_list s1) s1;
                    Some (upd_lif l (\<lambda>i. i\<lparr>lif_portchannel_member_buf := names\<rparr>) s1) })"

text \<open>
  The request for the members of a port channel; without an answer nothing happens. In the part for
  the peer link the code does not test whether the answer has a list of ports.
\<close>

definition iccp_get_port_member_list :: "team \<Rightarrow> lif_ptr \<Rightarrow> System \<Rightarrow> System option" where
  "iccp_get_port_member_list team l s =
     (case team (lif_ifindex (lif_of s l)) of None \<Rightarrow> Some s
      | Some ms \<Rightarrow> iccp_get_portchannel_member_list_handler (lif_ifindex (lif_of s l)) (Some ms) s)"

section \<open>Creation\<close>

definition mlacp_bind_port_channel_to_csm :: "team \<Rightarrow> csm_ptr \<Rightarrow> string \<Rightarrow> System \<Rightarrow> System option" where
  "mlacp_bind_port_channel_to_csm team c ifname s =
     (case local_if_find_by_name ifname s of None \<Rightarrow> Some s
      | Some l \<Rightarrow> do {
          s1 \<leftarrow> iccp_get_port_member_list team l (snd (mlacp_bind_local_if c l s));
          mlacp_mlag_link_add_handler c l s1 })"

text \<open>The sessions that wait for the new interface, as their peer link or as one of their port channels.\<close>

fun announce_lif :: "team \<Rightarrow> string \<Rightarrow> lif_ptr \<Rightarrow> csm_ptr list \<Rightarrow> System \<Rightarrow> System option" where
  "announce_lif team ifname l [] s = Some s"
| "announce_lif team ifname l (c # cs) s =
     (if lif_name (lif_of s l) = csm_peer_itf_name (csm_of s c)
      then Some (set_peerlink_learn_kernel c False (upd_csm c (\<lambda>m. m\<lparr>csm_peer_link_if := Some l\<rparr>)
             (upd_lif l (\<lambda>i. i\<lparr>lif_is_peer_link := 1\<rparr>) s)))
      else (case fold_opt (\<lambda>n s. if n = ifname then mlacp_bind_port_channel_to_csm team c ifname s else Some s)
                   (csm_if_bind_list (csm_of s c)) s of
              None \<Rightarrow> None | Some t \<Rightarrow> announce_lif team ifname l cs t))"

text \<open>
  The new interface with its type and state. A port channel has its number in its name, and is not
  created without one; an interface of another type is freed again.
\<close>

definition new_lif :: "int \<Rightarrow> string \<Rightarrow> int \<Rightarrow> u8 \<Rightarrow> System \<Rightarrow> LocalInterface option" where
  "new_lif ifindex ifname ty state s =
     (let lif = local_if_init\<lparr>lif_ifindex := ifindex, lif_type := ty, lif_state := state,
                  lif_po_down_time := 0, lif_name := port_name ifname\<rparr>;
          suffix = dropWhile (\<lambda>c. \<not> is_digit c) ifname
      in if ty = IF_T_PORT_CHANNEL
         then if suffix = [] then None
              else Some (lif\<lparr>lif_po_id := (case scan_int suffix of None \<Rightarrow> 0 | Some i \<Rightarrow> i),
                             lif_po_active := (if state = PORT_STATE_UP then 1 else 0)\<rparr>)
         else if ty = IF_T_VLAN
         then Some (lif\<lparr>lif_is_l3_proto_enabled := is_unique_ip_configured (lif_name lif) s\<rparr>)
         else if ty = IF_T_PORT \<or> ty = IF_T_VXLAN then Some lif
         else None)"

definition local_if_create ::
  "team \<Rightarrow> int \<Rightarrow> string \<Rightarrow> int \<Rightarrow> u8 \<Rightarrow> System \<Rightarrow> (lif_ptr option \<times> System) option" where
  "local_if_create team ifindex ifname ty state s =
     (case (if 0 < ifindex then local_if_find_by_ifindex ifindex s else None) of
        Some l \<Rightarrow> Some (Some l, s)
      | None \<Rightarrow>
          let (ok, s1) = malloc s
          in if \<not> ok then Some (None, s1)
             else (case new_lif ifindex ifname ty state s1 of None \<Rightarrow> Some (None, s1)
               | Some lif \<Rightarrow>
                   let l = sys_lif_next s1;
                       s2 = (upd_lif l (\<lambda>_. lif) s1)\<lparr>sys_lif_next := Suc l, sys_lif_list := l # sys_lif_list s1\<rparr>;
                       s3 = move_pending_vlan_mbr_to_lif l s2
                   in map_option (Pair (Some l)) (announce_lif team ifname l (sys_csm_list s3) s3)))"

section \<open>Destruction\<close>

definition local_if_destroy :: "(string \<Rightarrow> char option) \<Rightarrow> string \<Rightarrow> System \<Rightarrow> System option" where
  "local_if_destroy proc ifname s =
     (case local_if_find_by_name ifname s of None \<Rightarrow> Some s
      | Some l \<Rightarrow> do {
          let s1 = (if lif_type (lif_of s l) = IF_T_VLAN then local_if_vlan_remove l s
                    else if lif_type (lif_of s l) = IF_T_PORT_CHANNEL then local_if_po_remove l s
                    else local_if_remove l s);
          s2 \<leftarrow> (case system_get_csm_by_peer_ifname ifname s1 of None \<Rightarrow> Some s1
                 | Some c \<Rightarrow> scheduler_session_disconnect_handler proc c s1);
          let s3 = s2\<lparr>sys_lif_list := remove1 l (sys_lif_list s2), sys_lif_purge_list := l # sys_lif_purge_list s2\<rparr>;
          Some (case lif_csm (lif_of s2 l) of None \<Rightarrow> s3
                | Some c \<Rightarrow>
                    let s4 = upd_csm c (upd_lif_list (remove1 l)) s3
                    in if ml_current_state (MLACP (csm_of s2 c)) = MLACP_STATE_EXCHANGE
                       then upd_csm c (upd_lif_purge_list (\<lambda>ls. l # ls)) s4 else s4) })"

section \<open>Events of the kernel\<close>

text \<open>
  A change of the state of an interface, session by session: the peer link of a session ends the
  loop; \<open>is_mclag_intf\<close> stays set once a session has the interface.
\<close>

fun port_state_sessions :: "string \<Rightarrow> bool \<Rightarrow> bool \<Rightarrow> csm_ptr list \<Rightarrow> System \<Rightarrow> System option" where
  "port_state_sessions ifname up is_mclag_intf [] s = Some s"
| "port_state_sessions ifname up is_mclag_intf (c # cs) s =
     (if ifname = csm_peer_itf_name (csm_of s c)
      then Some (if up then mlacp_peerlink_up_handler c s else mlacp_peerlink_down_handler c s)
      else
        let ours = (\<lambda>l s. lif_type (lif_of s l) = IF_T_PORT_CHANNEL
                      \<and> take MAX_L_PORT_NAME (lif_name (lif_of s l)) = take MAX_L_PORT_NAME ifname);
            ls = ml_lif_list (MLACP (csm_of s c));
            is_mclag = (is_mclag_intf \<or> list_ex (\<lambda>l. ours l s) ls)
        in (case fold_opt (\<lambda>l s. if ours l s then mlacp_portchannel_state_handler c l up s else Some s) ls s of
              None \<Rightarrow> None
            | Some t \<Rightarrow>
                port_state_sessions ifname up is_mclag cs
                  (if is_mclag then t
                   else case local_if_find_by_name ifname t of None \<Rightarrow> t
                     | Some l \<Rightarrow> update_orphan_port_mac c l up t)))"

definition iccp_from_netlink_port_state_handler :: "string \<Rightarrow> u8 \<Rightarrow> System \<Rightarrow> System option" where
  "iccp_from_netlink_port_state_handler ifname state s =
     port_state_sessions ifname (state = PORT_STATE_UP) False (sys_csm_list s) s"

record rtnl_link =
  link_ifindex :: int
  link_name :: string
  link_oper_up :: bool
  link_lower_up :: bool
  link_addr :: "bytes option"
  link_master :: u32

definition oper_state :: "rtnl_link \<Rightarrow> u8" where
  "oper_state k = (if link_oper_up k then PORT_STATE_UP else PORT_STATE_DOWN)"

text \<open>The prefixes of the names the daemon cares about.\<close>

definition if_whitelist :: "(string \<times> int) list" where
  "if_whitelist = [(''PortChannel'', IF_T_PORT_CHANNEL), (''Vlan'', IF_T_VLAN), (''Ethernet'', IF_T_PORT), (''VTTNL'', IF_T_VXLAN)]"

definition starts_with :: "string \<Rightarrow> string \<Rightarrow> bool" where
  "starts_with pre n \<longleftrightarrow> take (length pre) n = pre"

text \<open>
  The parts of \<open>iccp_event_handler_obj_input_newlink\<close>: a new interface, or one that has another index
  than before; and the update of a known one. A null pointer from \<open>local_if_create\<close> is written to if
  the link has an address.
\<close>

definition newlink_create ::
  "(string \<Rightarrow> char option) \<Rightarrow> team \<Rightarrow> rtnl_link \<Rightarrow> lif_ptr option \<Rightarrow> System \<Rightarrow> System option" where
  "newlink_create proc team k lif s =
     (case find (\<lambda>w. starts_with (fst w) (link_name k)) if_whitelist of None \<Rightarrow> Some s
      | Some (_, ty) \<Rightarrow> do {
          s1 \<leftarrow> (case lif of None \<Rightarrow> Some s | Some l \<Rightarrow> local_if_destroy proc (lif_name (lif_of s l)) s);
          (r, s2) \<leftarrow> local_if_create team (link_ifindex k) (link_name k) ty (oper_state k) s1;
          case link_addr k of None \<Rightarrow> Some s2
          | Some a \<Rightarrow> (case r of None \<Rightarrow> None | Some l \<Rightarrow> Some (upd_lif l (\<lambda>i. i\<lparr>lif_mac_addr := a\<rparr>) s2)) })"

definition newlink_state :: "rtnl_link \<Rightarrow> lif_ptr \<Rightarrow> System \<Rightarrow> System option" where
  "newlink_state k l s =
     (let change = (\<lambda>st act. iccp_from_netlink_port_state_handler (lif_name (lif_of s l)) st
            (upd_lif l (\<lambda>i. i\<lparr>lif_state := st, lif_po_active :=
               (if lif_type i = IF_T_PORT_CHANNEL \<and> lif_csm i = None then act else lif_po_active i)\<rparr>) s))
      in if lif_state (lif_of s l) = PORT_STATE_DOWN \<and> link_lower_up k then change PORT_STATE_UP 1
         else if lif_state (lif_of s l) = PORT_STATE_UP \<and> \<not> link_lower_up k then change PORT_STATE_DOWN 0
         else Some s)"

definition newlink_master :: "rtnl_link \<Rightarrow> lif_ptr \<Rightarrow> System \<Rightarrow> System" where
  "newlink_master k l s =
     (if lif_type (lif_of s l) \<noteq> IF_T_VLAN \<or> lif_master_ifindex (lif_of s l) = link_master k then s
      else if link_master k \<noteq> 0
      then update_vlan_if_mac_on_standby l (upd_lif l (\<lambda>i. i\<lparr>lif_master_ifindex := link_master k, lif_l3_mode := 1\<rparr>) s)
      else
        let s1 = (if lif_ipv4_addr (lif_of s l) = 0 \<and> memcmp (lif_ipv6_addr (lif_of s l)) (replicate 16 0) = 0
                  then upd_lif l (\<lambda>i. i\<lparr>lif_l3_mode := 0, lif_l3_mac_addr := replicate 6 0\<rparr>)
                         (if lif_is_l3_proto_enabled (lif_of s l) then s else recover_vlan_if_mac_on_standby l 5 None s)
                  else s)
        in upd_lif l (\<lambda>i. i\<lparr>lif_master_ifindex := 0\<rparr>) s1)"

definition newlink_update :: "rtnl_link \<Rightarrow> lif_ptr \<Rightarrow> System \<Rightarrow> System option" where
  "newlink_update k l s = do {
     s1 \<leftarrow> newlink_state k l s;
     let s2 = (case link_addr k of None \<Rightarrow> s1
               | Some a \<Rightarrow> if memcmp a (lif_mac_addr (lif_of s1 l)) \<noteq> 0
                           then upd_lif l (\<lambda>i. i\<lparr>lif_mac_addr := a, lif_port_config_sync := 1\<rparr>) s1 else s1);
     Some (newlink_master k l s2) }"

definition iccp_event_handler_obj_input_newlink ::
  "(string \<Rightarrow> char option) \<Rightarrow> team \<Rightarrow> rtnl_link \<Rightarrow> System \<Rightarrow> System option" where
  "iccp_event_handler_obj_input_newlink proc team k s =
     (if starts_with ''VTTNL'' (link_name k)
      then let ifname = takeWhile (\<lambda>c. c \<noteq> CHR ''-'') (link_name k)
           in case local_if_find_by_name ifname s of Some _ \<Rightarrow> Some s
              | None \<Rightarrow> do {
                  (r, s1) \<leftarrow> local_if_create team (link_ifindex k) ifname IF_T_VXLAN (oper_state k) s;
                  l \<leftarrow> r;
                  Some (upd_lif l (\<lambda>i. i\<lparr>lif_state := PORT_STATE_UP\<rparr>) s1) }
      else case local_if_find_by_name (link_name k) s of
        None \<Rightarrow> newlink_create proc team k None s
      | Some l \<Rightarrow>
          if lif_ifindex (lif_of s l) = -1 \<and> lif_type (lif_of s l) = IF_T_VLAN
          then Some (upd_lif l (\<lambda>i. i\<lparr>lif_ifindex := link_ifindex k, lif_state := oper_state k,
                 lif_mac_addr := (case link_addr k of None \<Rightarrow> lif_mac_addr i | Some a \<Rightarrow> a)\<rparr>) s)
          else if lif_ifindex (lif_of s l) \<noteq> link_ifindex k then newlink_create proc team k (Some l) s
          else newlink_update k l s)"

definition iccp_event_handler_obj_input_dellink :: "(string \<Rightarrow> char option) \<Rightarrow> int \<Rightarrow> System \<Rightarrow> System option" where
  "iccp_event_handler_obj_input_dellink proc ifindex s =
     (case local_if_find_by_ifindex ifindex s of None \<Rightarrow> Some s
      | Some l \<Rightarrow> local_if_destroy proc (lif_name (lif_of s l)) s)"

text \<open>
  A VLAN membership from the configuration. \<open>IF_OPER_DOWN\<close> of the kernel, which is 2, is the state of
  the interface of a VLAN that is not known yet.
\<close>

definition vlan_mbrship_change_handler :: "team \<Rightarrow> u32 \<Rightarrow> string \<Rightarrow> bool \<Rightarrow> System \<Rightarrow> System option" where
  "vlan_mbrship_change_handler team vlan_id mbr_if_name add s =
     (case local_if_find_by_name mbr_if_name s of
        None \<Rightarrow> Some (update_pending_vlan_mbr mbr_if_name vlan_id add s)
      | Some l \<Rightarrow>
          if add then do {
            let name = ''Vlan'' @ (if sint vlan_id < 0 then ''-'' else []) @ dec (nat \<bar>sint vlan_id\<bar>);
            s1 \<leftarrow> (case local_if_find_by_name name s of Some _ \<Rightarrow> Some s
                   | None \<Rightarrow> map_option snd (local_if_create team (-1) name IF_T_VLAN 2 s));
            Some (snd (local_if_add_vlan l (ucast vlan_id) s1)) }
          else Some (upd_lif l (local_if_del_vlan (ucast vlan_id)) s))"

end
