(* ===== verification/Iccp_Config.thy ===== *)
theory Iccp_Config
  imports Lif_Events
begin

text \<open>
  Configuration (\<open>iccp_cli.c\<close>, \<open>iccp_cmd.c\<close>): the commands that create and remove a session, set its
  addresses, its peer link and its timers and attach port channels to it, and the reader of the
  configuration file. The operations that end a session may fail to be defined because its end may;
  a copy of a string that does not fit its array has no defined result.
\<close>

section \<open>Sessions\<close>

definition INET_ADDRSTRLEN :: nat where [const_defs]: "INET_ADDRSTRLEN = 16"
definition IFNAMSIZ :: nat where [const_defs]: "IFNAMSIZ = 16"

definition set_mc_lag_id :: "csm_ptr \<Rightarrow> u16 \<Rightarrow> System \<Rightarrow> System" where
  "set_mc_lag_id c mid s = upd_csm c (\<lambda>m. upd_mlacp (\<lambda>l. l\<lparr>ml_id := uint mid\<rparr>)
     (upd_info (\<lambda>i. i\<lparr>inf_icc_rg_id := ucast mid\<rparr>) (m\<lparr>csm_mlag_id := uint mid\<rparr>))) s"

definition unset_mc_lag_id :: "(string \<Rightarrow> char option) \<Rightarrow> csm_ptr \<Rightarrow> System \<Rightarrow> System option" where
  "unset_mc_lag_id proc c s = iccp_csm_finalize proc c (snd (mlacp_link_del_iccp_info (csm_mlag_id (csm_of s c)) s))"

definition set_mc_lag_by_id :: "(string \<Rightarrow> char option) \<Rightarrow> (System \<Rightarrow> nat) \<Rightarrow> u16 \<Rightarrow> System \<Rightarrow> (int \<times> System) option" where
  "set_mc_lag_by_id proc rnd mid s =
     (case system_get_csm_by_mlacp_id (uint mid) s of Some _ \<Rightarrow> Some (0, s)
      | None \<Rightarrow>
          (case system_create_csm proc (rnd s) s of None \<Rightarrow> None
           | Some (None, t) \<Rightarrow> Some (MCLAG_ERROR, t)
           | Some (Some c, t) \<Rightarrow> Some (0, set_mc_lag_id c mid t)))"

definition unset_mc_lag_by_id :: "(string \<Rightarrow> char option) \<Rightarrow> u16 \<Rightarrow> System \<Rightarrow> (int \<times> System) option" where
  "unset_mc_lag_by_id proc mid s =
     (case system_get_csm_by_mlacp_id (uint mid) s of None \<Rightarrow> Some (MCLAG_ERROR, s)
      | Some c \<Rightarrow> map_option (Pair 0) (unset_mc_lag_id proc c s))"

text \<open>Most commands name a session by its id, and fail if there is none.\<close>

definition on_session :: "int \<Rightarrow> (csm_ptr \<Rightarrow> System option) \<Rightarrow> System \<Rightarrow> (int \<times> System) option" where
  "on_session mid f s =
     (case system_get_csm_by_mlacp_id mid s of None \<Rightarrow> Some (MCLAG_ERROR, s)
      | Some c \<Rightarrow> map_option (Pair 0) (f c))"

section \<open>The peer link\<close>

text \<open>
  The name of the peer link has 16 bytes, and 20 are cleared: the last four are the lower half of
  \<open>peer_link_learning_retry_time\<close>, the next field.
\<close>

definition set_peer_itf_name :: "string \<Rightarrow> CSM \<Rightarrow> CSM" where
  "set_peer_itf_name name m = m\<lparr>csm_peer_itf_name := name,
     csm_peer_link_learning_retry_time :=
       csm_peer_link_learning_retry_time m - csm_peer_link_learning_retry_time m mod 2 ^ 32\<rparr>"

text \<open>The old interface loses its mark, if the session still points to it.\<close>

definition peer_link_unmark :: "csm_ptr \<Rightarrow> System \<Rightarrow> System" where
  "peer_link_unmark c s =
     (case csm_peer_link_if (csm_of s c) of None \<Rightarrow> s
      | Some l \<Rightarrow> upd_csm c (\<lambda>m. m\<lparr>csm_peer_link_if := None\<rparr>) (upd_lif l (\<lambda>i. i\<lparr>lif_is_peer_link := 0\<rparr>) s))"

definition set_peer_link ::
  "(string \<Rightarrow> char option) \<Rightarrow> team \<Rightarrow> int \<Rightarrow> string \<Rightarrow> System \<Rightarrow> (int \<times> System) option" where
  "set_peer_link proc team mid ifname s =
     (if \<not> starts_with ''Ethernet'' ifname \<and> \<not> starts_with ''PortChannel'' ifname \<and> \<not> starts_with ''VTTNL'' ifname
      then Some (MCLAG_ERROR, s)
      else case system_get_csm_by_mlacp_id mid s of None \<Rightarrow> Some (MCLAG_ERROR, s)
        | Some c \<Rightarrow>
            if MAX_L_PORT_NAME < length ifname then Some (MCLAG_ERROR, s)
            else if csm_peer_itf_name (csm_of s c) = ifname \<and> ifname \<noteq> [] then Some (0, s)
            else do {
              s1 \<leftarrow> (if csm_peer_itf_name (csm_of s c) = [] then Some s
                     else map_option (peer_link_unmark c) (scheduler_session_disconnect_handler proc c s));
              s2 \<leftarrow> (if IFNAMSIZ \<le> length ifname then None else Some (upd_csm c (set_peer_itf_name ifname) s1));
              s3 \<leftarrow> (case local_if_find_by_name ifname s2 of None \<Rightarrow> Some s2
                     | Some l \<Rightarrow> do {
                         let t = upd_ml c (\<lambda>m. m\<lparr>ml_system_config_changed := 1\<rparr>)
                                   (upd_lif l (\<lambda>i. i\<lparr>lif_is_peer_link := 1\<rparr>)
                                     (upd_csm c (\<lambda>m. m\<lparr>csm_peer_link_if := Some l\<rparr>) s2));
                         u \<leftarrow> (if lif_type (lif_of t l) = IF_T_PORT_CHANNEL then iccp_get_port_member_list team l t else Some t);
                         Some (set_peerlink_learn_kernel c False u) });
              map_option (Pair 0) (scheduler_session_disconnect_handler proc c s3) })"

definition unset_peer_link :: "(string \<Rightarrow> char option) \<Rightarrow> int \<Rightarrow> System \<Rightarrow> (int \<times> System) option" where
  "unset_peer_link proc mid s = on_session mid (\<lambda>c. do {
     let s1 = (case csm_peer_link_if (csm_of s c) of
                 Some l \<Rightarrow> if ml_current_state (MLACP (csm_of s c)) = MLACP_STATE_EXCHANGE
                           then set_peerlink_learn_kernel c True (set_peerlink_mlag_port_learn (Some l) True s) else s
               | None \<Rightarrow> s);
     s2 \<leftarrow> scheduler_session_disconnect_handler proc c s1;
     let s3 = upd_csm c (set_peer_itf_name []) s2;
     Some (if csm_peer_link_if (csm_of s3 c) = None then s3
           else upd_ml c (\<lambda>m. m\<lparr>ml_system_config_changed := 1\<rparr>) (peer_link_unmark c s3)) }) s"

section \<open>Addresses and timers\<close>

text \<open>The end of the session when an address changes, and the copy into an array of 16 bytes.\<close>

definition address_changed ::
  "(string \<Rightarrow> char option) \<Rightarrow> csm_ptr \<Rightarrow> string \<Rightarrow> string \<Rightarrow> (CSM \<Rightarrow> CSM) \<Rightarrow> System \<Rightarrow> System option" where
  "address_changed proc c old addr set_addr s =
     (if old = addr \<and> old \<noteq> [] then Some s
      else do {
        s1 \<leftarrow> (if old = [] then Some s else scheduler_session_disconnect_handler proc c s);
        if INET_ADDRSTRLEN \<le> length addr then None else Some (upd_csm c set_addr s1) })"

definition set_local_address ::
  "(string \<Rightarrow> char option) \<Rightarrow> int \<Rightarrow> string \<Rightarrow> System \<Rightarrow> (int \<times> System) option" where
  "set_local_address proc mid addr s = on_session mid (\<lambda>c.
     address_changed proc c (csm_sender_ip (csm_of s c)) addr
       (\<lambda>m. upd_info (\<lambda>i. i\<lparr>inf_sender_name := addr\<rparr>) (m\<lparr>csm_sender_ip := addr\<rparr>)) s) s"

definition unset_local_address :: "(string \<Rightarrow> char option) \<Rightarrow> int \<Rightarrow> System \<Rightarrow> (int \<times> System) option" where
  "unset_local_address proc mid s = on_session mid (\<lambda>c.
     scheduler_session_disconnect_handler proc c
       (upd_csm c (\<lambda>m. upd_info (\<lambda>i. i\<lparr>inf_sender_name := []\<rparr>) (m\<lparr>csm_sender_ip := []\<rparr>)) s)) s"

definition set_peer_address ::
  "(string \<Rightarrow> char option) \<Rightarrow> int \<Rightarrow> string \<Rightarrow> System \<Rightarrow> (int \<times> System) option" where
  "set_peer_address proc mid addr s = on_session mid (\<lambda>c.
     address_changed proc c (csm_peer_ip (csm_of s c)) addr (\<lambda>m. m\<lparr>csm_peer_ip := addr\<rparr>) s) s"

definition unset_peer_address :: "(string \<Rightarrow> char option) \<Rightarrow> int \<Rightarrow> System \<Rightarrow> (int \<times> System) option" where
  "unset_peer_address proc mid s = on_session mid (\<lambda>c.
     scheduler_session_disconnect_handler proc c (upd_csm c (\<lambda>m. m\<lparr>csm_peer_ip := []\<rparr>) s)) s"

definition set_keepalive_time :: "int \<Rightarrow> int \<Rightarrow> System \<Rightarrow> (int \<times> System) option" where
  "set_keepalive_time mid keepalive_time s = on_session mid (\<lambda>c. Some (upd_csm c (\<lambda>m.
     if csm_keepalive_time m = keepalive_time then m
     else m\<lparr>csm_keepalive_time := keepalive_time, csm_heartbeat_send_time := 0\<rparr>) s)) s"

definition set_session_timeout :: "int \<Rightarrow> int \<Rightarrow> System \<Rightarrow> (int \<times> System) option" where
  "set_session_timeout mid session_timeout_val s = on_session mid (\<lambda>c.
     Some (upd_csm c (\<lambda>m. m\<lparr>csm_session_timeout := session_timeout_val\<rparr>) s)) s"

section \<open>The system id\<close>

text \<open>
  The loop of \<open>parseMacString\<close> over the bytes of the address: each has two hexadecimal digits, three
  characters apart. What was written before an error stays.
\<close>

fun parse_mac_bytes :: "nat list \<Rightarrow> string \<Rightarrow> bytes \<Rightarrow> int \<times> bytes" where
  "parse_mac_bytes [] str bin = (0, bin)"
| "parse_mac_bytes (i # is) str bin =
     (let l = digit_value (str ! (3 * i)); r = digit_value (str ! (3 * i + 1))
      in if 16 \<le> l then (MCLAG_ERROR, bin)
         else let b = push_bit 4 (word_of_int l)
              in if 16 \<le> r then (MCLAG_ERROR, bin[i := b])
                 else parse_mac_bytes is str (bin[i := b OR word_of_int r]))"

definition parseMacString :: "string \<Rightarrow> bytes \<Rightarrow> int \<times> bytes" where
  "parseMacString str bin =
     (if length str \<noteq> 6 * 2 + 5 then (MCLAG_ERROR, bin)
      else if \<not> (str ! 2 = str ! 5 \<and> str ! 5 = str ! 8 \<and> str ! 8 = str ! 11 \<and> str ! 11 = str ! 14) then (MCLAG_ERROR, bin)
      else if str ! 2 \<noteq> CHR '':'' \<and> str ! 2 \<noteq> CHR ''-'' then (MCLAG_ERROR, bin)
      else parse_mac_bytes [0..<6] str bin)"

definition set_local_system_id :: "string \<Rightarrow> System \<Rightarrow> System" where
  "set_local_system_id mac s = foldl (\<lambda>s c.
     upd_ml c (\<lambda>m. m\<lparr>ml_system_id := snd (parseMacString mac (ml_system_id m))\<rparr>) s) s (sys_csm_list s)"

definition unset_local_system_id :: "System \<Rightarrow> System" where
  "unset_local_system_id s = foldl (\<lambda>s c. upd_ml c (\<lambda>m. m\<lparr>ml_system_id := replicate 6 0\<rparr>) s) s (sys_csm_list s)"

section \<open>Port channels\<close>

definition iccp_cli_attach_mclag_domain_to_port_channel ::
  "team \<Rightarrow> int \<Rightarrow> string \<Rightarrow> System \<Rightarrow> (int \<times> System) option" where
  "iccp_cli_attach_mclag_domain_to_port_channel team domain ifname s =
     (if \<not> starts_with ''PortChannel'' ifname then Some (MCLAG_ERROR, s)
      else case system_get_csm_by_mlacp_id domain s of None \<Rightarrow> Some (MCLAG_ERROR, s)
        | Some c \<Rightarrow> do {
            s1 \<leftarrow> (case local_if_find_by_name ifname s of None \<Rightarrow> Some s
                   | Some _ \<Rightarrow> mlacp_bind_port_channel_to_csm team c ifname s);
            Some (if ifname \<in> set (csm_if_bind_list (csm_of s1 c)) then (0, s1)
                  else let (ok, s2) = malloc s1
                       in if \<not> ok then (MCLAG_ERROR, s2)
                          else (0, upd_csm c (\<lambda>m. m\<lparr>csm_if_bind_list := port_name ifname # csm_if_bind_list m\<rparr>) s2)) })"

section \<open>The configuration file\<close>

text \<open>
  One line: its first word is cut off behind by a null character. The argument of a keyword starts one
  character behind it, wherever that is: after a separator in the same word, or after the null
  character, in the rest of the line. A keyword at the end of the line has no argument to read.
\<close>

definition config_arg :: "string \<Rightarrow> string \<Rightarrow> string \<Rightarrow> string option" where
  "config_arg keyword word rest =
     (if length keyword < length word then Some (drop (length keyword + 1) word)
      else if rest = [] then None
      else Some (tl rest))"

text \<open>Names of port channels between commas, each copied into a buffer of 64 bytes.\<close>

definition is_sep :: "char \<Rightarrow> bool" where
  "is_sep c \<longleftrightarrow> c \<in> {CHR '','', CHR 0x0D, CHR 0x0A}"

lemma attach_rest_shorter:
  assumes "dropWhile (\<lambda>c. is_space c \<or> is_sep c) (drop (length (takeWhile (\<lambda>c. \<not> is_sep c) str)) str) \<noteq> []"
  shows "length (dropWhile (\<lambda>c. is_space c \<or> is_sep c) (drop (length (takeWhile (\<lambda>c. \<not> is_sep c) str)) str)) < length str"
proof (cases str)
  case (Cons c cs)
  have le: "length (dropWhile P xs) \<le> length xs" for P and xs :: string by (rule length_dropWhile_le)
  show ?thesis
  proof (cases "is_sep c")
    case True
    then show ?thesis using Cons le [of _ cs] by (simp add: le_imp_less_Suc)
  next
    case False
    have "length (dropWhile (\<lambda>c. is_space c \<or> is_sep c) (drop (length (takeWhile (\<lambda>c. \<not> is_sep c) cs)) cs)) \<le> length cs"
      using le [of _ "drop (length (takeWhile (\<lambda>c. \<not> is_sep c) cs)) cs"] by (rule order_trans) simp
    then show ?thesis using Cons False by simp
  qed
qed (use assms in simp)

function attach_tokens :: "team \<Rightarrow> int \<Rightarrow> string \<Rightarrow> System \<Rightarrow> System option" where
  "attach_tokens team mid str s =
     (let token = takeWhile (\<lambda>c. \<not> is_sep c) str;
          rest = dropWhile (\<lambda>c. is_space c \<or> is_sep c) (drop (length token) str)
      in if 64 \<le> length token then None
         else case iccp_cli_attach_mclag_domain_to_port_channel team mid token s of None \<Rightarrow> None
           | Some (_, t) \<Rightarrow> if rest = [] then Some t else attach_tokens team mid rest t)"
  by pat_completeness auto
termination
  by (relation "measure (\<lambda>(team, mid, str, s). length str)") (auto simp: attach_rest_shorter)

declare attach_tokens.simps [simp del]

text \<open>The number of the session is a static variable, set by the line with the id.\<close>

definition iccp_config_from_command ::
  "(string \<Rightarrow> char option) \<Rightarrow> team \<Rightarrow> (System \<Rightarrow> nat) \<Rightarrow> string \<Rightarrow> int \<Rightarrow> System \<Rightarrow> (int \<times> System) option" where
  "iccp_config_from_command proc team rnd line mid s =
     (let t = dropWhile is_space line; word = takeWhile (\<lambda>c. \<not> is_space c) t; rest = drop (length word) t;
          arg = (\<lambda>keyword f. case config_arg keyword word rest of None \<Rightarrow> None | Some a \<Rightarrow> f a);
          keep = map_option (\<lambda>r. (mid, snd r))
      in if t = [] then Some (mid, s)
         else if starts_with ''mclag_id'' word then arg ''mclag_id'' (\<lambda>a.
           let i = (case scan_int a of None \<Rightarrow> 0 | Some i \<Rightarrow> i)
           in map_option (\<lambda>r. (i, snd r)) (set_mc_lag_by_id proc rnd (word_of_int i) s))
         else if starts_with ''local_ip'' word then arg ''local_ip'' (\<lambda>a. keep (set_local_address proc mid a s))
         else if starts_with ''peer_ip'' word then arg ''peer_ip'' (\<lambda>a. keep (set_peer_address proc mid a s))
         else if starts_with ''peer_link'' word then arg ''peer_link'' (\<lambda>a. keep (set_peer_link proc team mid a s))
         else if starts_with ''mclag_interface'' word then
           arg ''mclag_interface'' (\<lambda>a. map_option (Pair mid) (attach_tokens team mid a s))
         else if starts_with ''system_mac'' word then
           arg ''system_mac'' (\<lambda>a. Some (mid, set_local_system_id a s))
         else Some (mid, s))"

definition iccp_config_from_file ::
  "(string \<Rightarrow> char option) \<Rightarrow> team \<Rightarrow> (System \<Rightarrow> nat) \<Rightarrow> string list \<Rightarrow> int \<Rightarrow> System \<Rightarrow> (int \<times> System) option" where
  "iccp_config_from_file proc team rnd lines mid s =
     fold_opt (\<lambda>line (m, s). iccp_config_from_command proc team rnd line m s) lines (mid, s)"

section \<open>Properties\<close>

lemma digit_value_hex: "n < 16 \<Longrightarrow> digit_value (hex_digit n) = int n"
proof -
  have char: "(of_char (char_of m) :: int) = int (m mod 256)" for m :: nat
    using of_nat_of_char [of "char_of m", where ?'a = int] by (simp only: of_char_of)
  assume "n < 16"
  then show ?thesis by (auto simp: hex_digit_def digit_value_def char Let_def)
qed

lemma hex_byte: "push_bit 4 (word_of_nat (unat b div 16)) OR word_of_nat (unat b mod 16) = (b :: byte)"
proof -
  have "word_of_nat (unat b div 16) = (word_of_nat (unat (b div 16)) :: byte)" by (simp add: unat_div_distrib)
  then have q: "word_of_nat (unat b div 16) = drop_bit 4 b" by (simp add: drop_bit_eq_div)
  have "word_of_nat (unat b mod 16) = (word_of_nat (unat (b mod 16)) :: byte)" by (simp add: unat_mod_distrib)
  then have r: "word_of_nat (unat b mod 16) = take_bit 4 b" by (simp add: take_bit_eq_mod)
  show ?thesis unfolding q r by (rule bit_eqI) (auto simp: bit_simps)
qed

lemma parse_hex2:
  assumes "str ! (3 * i) = hex_digit (unat b div 16)" "str ! (3 * i + 1) = hex_digit (unat b mod 16)"
  shows "parse_mac_bytes (i # is) str bin = parse_mac_bytes is str (bin[i := b])"
proof -
  have "unat b div 16 < 16" "\<not> 16 \<le> unat b mod 16" using unsigned_less [where ?'a = nat and w = b] by simp_all
  then show ?thesis
    using assms by (simp add: digit_value_hex hex_byte Let_def)
qed

lemma six_bytes:
  assumes "length (bs :: bytes) = 6"
  obtains a b c d e f where "bs = [a, b, c, d, e, f]"
  using assms by (auto simp: numeral_eq_Suc length_Suc_conv)

text \<open>
  Parsing and printing of hardware addresses: the text of an address, as the daemon prints it,
  is accepted and gives back the address, whatever the six bytes held before.
\<close>

lemma parseMacString_mac_str:
  assumes "length mac = 6" "length bin = 6"
  shows "parseMacString (mac_str mac) bin = (0, mac)"
proof -
  obtain a b c d e f where mac: "mac = [a, b, c, d, e, f]" using assms(1) by (rule six_bytes)
  obtain a' b' c' d' e' f' where bin: "bin = [a', b', c', d', e', f']" using assms(2) by (rule six_bytes)
  have idx: "[0..<6] = [0, 1, 2, 3, 4, 5]" by (simp add: upt_rec)
  have "parse_mac_bytes [0..<6] (mac_str mac) bin = (0, mac)"
    unfolding idx mac bin
    by (subst parse_hex2 [of _ _ a], simp add: hex2_def, simp add: hex2_def, subst parse_hex2 [of _ _ b], simp add: hex2_def, simp add: hex2_def,
        subst parse_hex2 [of _ _ c], simp add: hex2_def, simp add: hex2_def, subst parse_hex2 [of _ _ d], simp add: hex2_def, simp add: hex2_def,
        subst parse_hex2 [of _ _ e], simp add: hex2_def, simp add: hex2_def, subst parse_hex2 [of _ _ f], simp add: hex2_def, simp add: hex2_def, simp)
  then show ?thesis by (simp add: parseMacString_def mac hex2_def)
qed

text \<open>A session that has ended does not point to a peer link.\<close>

lemma disconnect_peer_link:
  assumes "scheduler_session_disconnect_handler proc c s = Some t"
  shows "csm_peer_link_if (csm_of t c) = None"
  using assms
  by (auto simp: scheduler_session_disconnect_handler_def iccp_csm_status_reset_def app_csm_init_def mlacp_init_def
      mlacp_mac_msg_queue_reinit_def bind_eq_Some_conv Let_def upd_ml_def upd_defs split: if_splits)

text \<open>
  Removing the peer link from a session forgets its name, but the interface that was the peer
  link keeps its mark and no change of the configuration is noted: the end of the session, which comes
  first, has already cleared the pointer the command looks at.
\<close>

lemma unset_peer_link_keeps_mark:
  assumes "system_get_csm_by_mlacp_id mid s = Some c" "unset_peer_link proc mid s = Some (rc, t)"
  shows "rc = 0 \<and> csm_peer_itf_name (csm_of t c) = [] \<and> csm_peer_link_if (csm_of t c) = None \<and>
    (\<exists>s1 s2. scheduler_session_disconnect_handler proc c s1 = Some s2 \<and> sys_lif_heap t = sys_lif_heap s2 \<and>
       ml_system_config_changed (MLACP (csm_of t c)) = ml_system_config_changed (MLACP (csm_of s2 c)))"
proof -
  from assms obtain s1 s2 where s2: "scheduler_session_disconnect_handler proc c s1 = Some s2"
    and t: "rc = 0" "t = (let s3 = upd_csm c (set_peer_itf_name []) s2
      in if csm_peer_link_if (csm_of s3 c) = None then s3
         else upd_ml c (\<lambda>m. m\<lparr>ml_system_config_changed := 1\<rparr>) (peer_link_unmark c s3))"
    by (auto simp: unset_peer_link_def on_session_def bind_eq_Some_conv Let_def)
  have "t = upd_csm c (set_peer_itf_name []) s2"
    using disconnect_peer_link [OF s2] by (simp add: t(2) set_peer_itf_name_def upd_csm_def)
  then show ?thesis
    using t(1) s2 disconnect_peer_link [OF s2] by (auto simp: set_peer_itf_name_def upd_csm_def)
qed

text \<open>A session with a peer link whose peer announced a warm reboot.\<close>

definition a_linked :: System where
  "a_linked = (a_host (\<lambda>_. Sent 600))\<lparr>sys_csm_list := [0], sys_warmboot_exit := 0, sys_lif_list := [0],
     sys_lif_heap := (\<lambda>_. zero_LocalInterface\<lparr>lif_name := ''Ethernet0'', lif_is_peer_link := 1\<rparr>),
     sys_csm_heap := (\<lambda>_. upd_mlacp (\<lambda>m. m\<lparr>ml_id := 1\<rparr>) (zero_CSM\<lparr>csm_peer_link_if := Some 0,
       csm_peer_itf_name := ''Ethernet0'', csm_peer_warm_reboot_time := 3\<rparr>))\<rparr>"

lemma a_linked_unset:
  "\<exists>t. unset_peer_link (\<lambda>_. None) 1 a_linked = Some (0, t) \<and> lif_is_peer_link (lif_of t 0) = 1"
  by (simp add: unset_peer_link_def on_session_def system_get_csm_by_mlacp_id_def a_linked_def peer_link_unmark_def
      scheduler_session_disconnect_handler_def scheduler_csm_socket_cleanup_def mlacp_peer_disconn_handler_def
      iccp_csm_status_reset_def app_csm_init_def mlacp_init_def mlacp_mac_msg_queue_reinit_def set_peer_itf_name_def Let_def
      upd_ml_def upd_defs zero_CSM_def zero_mLACP_def const_defs)

end
