(* ===== verification/Session_Recv.thy ===== *)
theory Session_Recv
  imports Iccp_Session
begin

text \<open>
  Reception of messages from a stream of bytes, and the end of a session: a message is put together
  from whatever pieces \<open>recv\<close> delivers, the lengths a message may have without leaving the buffer,
  and what becomes of the recovery after a warm reboot of the peer.
\<close>

section \<open>Pieces of a stream\<close>

text \<open>What the next calls of \<open>recv\<close> return, the bytes among it, and how often there is nothing yet.\<close>

definition feeds :: "System \<Rightarrow> recv_result list \<Rightarrow> bool" where
  "feeds s rs \<longleftrightarrow> (\<forall>i < length rs. env_recv s (env_n_recv s + i) = rs ! i)"

fun payload :: "recv_result list \<Rightarrow> bytes" where
  "payload [] = []"
| "payload (Received bs # rs) = bs @ payload rs"
| "payload (_ # rs) = payload rs"

definition after_recv :: "nat \<Rightarrow> System \<Rightarrow> System" where
  "after_recv n s = s\<lparr>env_n_recv := env_n_recv s + n\<rparr>"

lemma feeds_Cons:
  "feeds s (r # rs) \<longleftrightarrow> env_recv s (env_n_recv s) = r \<and> feeds (after_recv 1 s) rs"
  unfolding feeds_def after_recv_def
  by (auto simp: nth_Cons split: nat.splits)

lemma feeds_Nil [simp]: "feeds s []"
  by (simp add: feeds_def)

lemma after_recv_add [simp]:
  "after_recv m (after_recv n s) = after_recv (n + m) s" "after_recv 0 s = s"
  by (simp_all add: after_recv_def add.assoc)

lemma feeds_append:
  "feeds s (rs @ rs') \<longleftrightarrow> feeds s rs \<and> feeds (after_recv (length rs) s) rs'"
  by (induction rs arbitrary: s) (auto simp: feeds_Cons)

lemma sock_recv_piece:
  "feeds s (Received bs # rs) \<Longrightarrow> bs \<noteq> [] \<Longrightarrow> length bs \<le> n \<Longrightarrow> sock_recv n s = (Received bs, after_recv 1 s)"
  by (simp add: feeds_Cons sock_recv_def after_recv_def Let_def)

lemma sock_recv_again: "feeds s (RecvAgain # rs) \<Longrightarrow> sock_recv n s = (RecvAgain, after_recv 1 s)"
  by (simp add: feeds_Cons sock_recv_def after_recv_def Let_def)

lemma recv_header_pieces:
  assumes "feeds s (map Received hs)" "[] \<notin> set hs" "length got + length (concat hs) = 8"
  shows "recv_header got s = (Some (got @ concat hs), after_recv (length hs) s)"
  using assms
proof (induction hs arbitrary: got s)
  case Nil
  then show ?case by (simp add: recv_header.simps [of got s])
next
  case (Cons h hs)
  have "sock_recv (8 - length got) s = (Received h, after_recv 1 s)"
    by (rule sock_recv_piece) (use Cons.prems in auto)
  moreover have "\<not> 8 \<le> length got" using Cons.prems by (cases h) auto
  moreover have "recv_header (got @ h) (after_recv 1 s) = (Some (got @ h @ concat hs), after_recv (Suc (length hs)) s)"
    using Cons.IH [of "after_recv 1 s" "got @ h"] Cons.prems by (simp add: feeds_Cons)
  ultimately show ?case by (simp add: recv_header.simps [of got s])
qed

text \<open>A sequence of results that ends with the last byte, and in which nothing fails.\<close>

fun delivers :: "recv_result list \<Rightarrow> bool" where
  "delivers [] \<longleftrightarrow> True"
| "delivers (Received bs # rs) \<longleftrightarrow> bs \<noteq> [] \<and> delivers rs"
| "delivers (RecvAgain # rs) \<longleftrightarrow> rs \<noteq> [] \<and> delivers rs"
| "delivers (_ # rs) \<longleftrightarrow> False"

lemma delivers_payload: "delivers rs \<Longrightarrow> payload rs = [] \<longleftrightarrow> rs = []"
  by (induction rs rule: delivers.induct) auto

text \<open>
  The loops that read a given number of bytes, here and on the link to mclagsyncd, share a contract: a
  piece is put behind what is there already as long as it fits, an empty socket costs one of a number
  of attempts, and the loop ends when nothing is missing any more.
\<close>

locale recv_loop =
  fixes loop :: "nat \<Rightarrow> nat \<Rightarrow> 'b \<Rightarrow> System \<Rightarrow> ('r option \<times> System) option"
    and retry_max :: nat
    and put :: "bytes \<Rightarrow> 'b \<Rightarrow> 'b"
    and fits :: "nat \<Rightarrow> 'b \<Rightarrow> bool"
    and finish :: "nat \<Rightarrow> 'b \<Rightarrow> 'r"
  assumes loop_end: "loop 0 k b s = Some (Some (finish k b), s)"
    and loop_piece: "0 < n \<Longrightarrow> sock_recv n s = (Received bs, t) \<Longrightarrow> fits (length bs) b \<Longrightarrow>
      loop n k b s = loop (n - length bs) k (put bs b) t"
    and loop_again: "0 < n \<Longrightarrow> sock_recv n s = (RecvAgain, t) \<Longrightarrow>
      loop n k b s = (if retry_max < Suc k then Some (None, t) else loop n (Suc k) b t)"
    and put_empty: "fits 0 b \<Longrightarrow> put [] b = b"
    and put_put: "fits 0 b \<Longrightarrow> put bs' (put bs b) = put (bs @ bs') b"
    and fits_put: "fits (length bs + n) b \<Longrightarrow> fits n (put bs b)"
    and fits_less: "fits n b \<Longrightarrow> m \<le> n \<Longrightarrow> fits m b"
begin

lemma pieces:
  assumes "feeds s rs" "delivers rs" "n = length (payload rs)" "k + count_list rs RecvAgain \<le> retry_max" "fits n b"
  shows "loop n k b s = Some (Some (finish (k + count_list rs RecvAgain) (put (payload rs) b)), after_recv (length rs) s)"
  using assms
proof (induction rs arbitrary: n k b s rule: delivers.induct)
  case 1
  then show ?case by (simp add: loop_end put_empty)
next
  case (2 bs rs)
  then have recv: "sock_recv n s = (Received bs, after_recv 1 s)" by (intro sock_recv_piece) auto
  have fits: "fits 0 b" "fits (length bs) b" using "2.prems" by (auto intro: fits_less)
  have "loop n k b s = loop (n - length bs) k (put bs b) (after_recv 1 s)"
    using "2.prems" recv fits by (intro loop_piece) auto
  also have "\<dots> = Some (Some (finish (k + count_list rs RecvAgain) (put (payload rs) (put bs b))), after_recv (length rs) (after_recv 1 s))"
    using "2.prems" fits_put [of bs "length (payload rs)" b] by (intro "2.IH") (auto simp: feeds_Cons)
  finally show ?case using fits by (simp add: put_put)
next
  case (3 rs)
  then have "0 < n" using delivers_payload [of rs] by auto
  then have "loop n k b s = loop n (Suc k) b (after_recv 1 s)"
    using "3.prems" sock_recv_again [of s rs n] by (simp add: loop_again)
  also have "\<dots> = Some (Some (finish (Suc k + count_list rs RecvAgain) (put (payload rs) b)), after_recv (length rs) (after_recv 1 s))"
    using "3.prems" by (intro "3.IH") (auto simp: feeds_Cons)
  finally show ?case by simp
qed simp_all

lemma no_more:
  assumes "feeds s (replicate (Suc m) RecvAgain)" "k + m = retry_max" "0 < n"
  shows "loop n k b s = Some (None, after_recv (Suc m) s)"
  using assms
proof (induction m arbitrary: k s)
  case 0
  then show ?case using sock_recv_again [of s "[]" n] by (simp add: loop_again)
next
  case (Suc m)
  then have "loop n k b s = loop n (Suc k) b (after_recv 1 s)"
    using sock_recv_again [of s "replicate (Suc m) RecvAgain" n] by (simp add: loop_again)
  also have "\<dots> = Some (None, after_recv (Suc m) (after_recv 1 s))"
    using Suc.prems by (intro Suc.IH) (auto simp: feeds_Cons)
  finally show ?case by simp
qed

text \<open>A reader that waits for more than what is sent gives up, whatever it has got.\<close>

lemma starved:
  assumes "feeds s (map Received ps @ replicate (Suc retry_max) RecvAgain)" "[] \<notin> set ps" "length (concat ps) < n" "fits n b"
  shows "loop n 0 b s = Some (None, after_recv (length ps + Suc retry_max) s)"
  using assms
proof (induction ps arbitrary: n b s)
  case Nil
  then show ?case using no_more [of s retry_max 0 n b] by simp
next
  case (Cons p ps)
  have recv: "sock_recv n s = (Received p, after_recv 1 s)"
    by (rule sock_recv_piece) (use Cons.prems in auto)
  have "loop n 0 b s = loop (n - length p) 0 (put p b) (after_recv 1 s)"
    using Cons.prems recv by (intro loop_piece) (auto intro: fits_less)
  also have "\<dots> = Some (None, after_recv (length ps + Suc retry_max) (after_recv 1 s))"
    using Cons.prems fits_put [of p "n - length p" b] by (intro Cons.IH) (auto simp: feeds_Cons)
  finally show ?case by simp
qed

end

interpretation csm_loop: recv_loop recv_data RECV_RETRY_MAX "\<lambda>bs got. got @ bs"
  "\<lambda>n got. 8 + length got + n \<le> CSM_BUFFER_SIZE" "\<lambda>k got. got"
  by unfold_locales (simp_all add: recv_data.simps)

text \<open>The buffer is left exactly when more than its size arrives.\<close>

lemma recv_data_in_buffer:
  "8 + length got + n \<le> CSM_BUFFER_SIZE \<Longrightarrow> recv_data n k got s \<noteq> None"
proof (induction n k got s rule: recv_data.induct)
  case (1 n k got s)
  obtain x u where recv: "sock_recv n s = (x, u)" by fastforce
  show ?case
  proof (cases x)
    case (Received bs)
    then have "length bs \<le> n" using recv sock_recv_received by blast
    then show ?thesis using 1 recv Received by (simp add: recv_data.simps [of n k got s])
  qed (use 1 recv in \<open>simp_all add: recv_data.simps [of n k got s]\<close>)
qed

lemma recv_msg_complete:
  assumes "\<And>i. env_malloc s i" "msg \<noteq> []" "iccp_csm_enqueue_msg msg (csm_of s c) = Some m"
  shows "\<exists>t. recv_msg c msg (length msg) s = Some (1, t) \<and> csm_of t c = m\<lparr>csm_icc_msg_in_count := csm_icc_msg_in_count m + 1\<rparr> \<and>
    (\<forall>d. d \<noteq> c \<longrightarrow> csm_of t d = csm_of s d)"
  using assms by (simp add: recv_msg_def iccp_csm_init_msg_def malloc_def upd_csm_def Let_def)

lemma read_callback_pieces:
  assumes open_fd: "0 < csm_sock_fd (csm_of s c)" and hdr: "de_LDPHdr (concat hs) = Some (ldp, [])" "length (concat hs) = 8"
    and len: "unat (ntohs (ldp_msg_len ldp)) = length (payload ds) + 4" "length (payload ds) + 8 \<le> CSM_BUFFER_SIZE"
    and pieces: "feeds s (map Received hs @ ds)" "[] \<notin> set hs" "delivers ds" "count_list ds RecvAgain \<le> RECV_RETRY_MAX"
  shows "scheduler_csm_read_callback proc c s =
    recv_msg c (concat hs @ payload ds) (length (concat hs @ payload ds)) (after_recv (length hs + length ds) s)"
proof -
  have "recv_header [] s = (Some (concat hs), after_recv (length hs) s)"
    using recv_header_pieces [of s hs "[]"] pieces hdr(2) by (simp add: feeds_append)
  moreover have "recv_data (length (payload ds)) 0 [] (after_recv (length hs) s) =
      Some (Some (payload ds), after_recv (length hs + length ds) s)"
    using csm_loop.pieces [of "after_recv (length hs) s" ds _ 0 "[]"] pieces len(2) by (simp add: feeds_append)
  ultimately show ?thesis
    using open_fd hdr len(1) by (simp add: scheduler_csm_read_callback_def Let_def MSG_L_INCLUD_U_BIT_MSG_T_L_FIELDS_def add.commute)
qed

text \<open>
  C10. However the stream is cut into pieces, a message is received whole: if the next results of
  \<open>recv\<close> are non-empty pieces of a message with the header its sender made, up to ten times
  interrupted by nothing being there yet after the header, then the callback queues exactly the
  message, as if it had come in one piece, and no other session changes.
\<close>

theorem message_framing:
  assumes "0 < csm_sock_fd (csm_of s c)"
    and "concat hs = ser_LDPHdr (ldp_header ty (8 + length data) msg_id)" "[] \<notin> set hs"
    and "payload ds = data" "delivers ds" "count_list ds RecvAgain \<le> RECV_RETRY_MAX"
    and "8 + length data \<le> CSM_BUFFER_SIZE"
    and "feeds s (map Received hs @ ds)"
    and "\<And>i. env_malloc s i"
    and "iccp_csm_enqueue_msg (ser_LDPHdr (ldp_header ty (8 + length data) msg_id) @ data) (csm_of s c) = Some m"
  shows "\<exists>t. scheduler_csm_read_callback proc c s = Some (1, t) \<and>
    csm_of t c = m\<lparr>csm_icc_msg_in_count := csm_icc_msg_in_count m + 1\<rparr> \<and> (\<forall>d. d \<noteq> c \<longrightarrow> csm_of t d = csm_of s d)"
proof -
  have hdr: "de_LDPHdr (concat hs) = Some (ldp_header ty (8 + length data) msg_id, [])" "length (concat hs) = 8"
    unfolding assms(2) using LDPHdr_codec.de_ser [of _ "[]"] by (simp_all add: wire_simps)
  have len: "unat (ntohs (ldp_msg_len (ldp_header ty (8 + length data) msg_id))) = length (payload ds) + 4"
  proof -
    define n where "n = 8 + length data - MSG_L_INCLUD_U_BIT_MSG_T_L_FIELDS"
    have "n = length data + 4" "n < 65536" using assms(7) by (simp_all add: n_def const_defs)
    moreover have "unat (word_of_nat n :: u16) = n" using \<open>n < 65536\<close> by (simp add: unat_of_nat take_bit_nat_eq_self)
    ultimately show ?thesis using assms(4) by (simp add: ldp_header_def flip: n_def)
  qed
  have "scheduler_csm_read_callback proc c s =
      recv_msg c (concat hs @ payload ds) (length (concat hs @ payload ds)) (after_recv (length hs + length ds) s)"
    by (rule read_callback_pieces [OF assms(1) hdr len]) (use assms in \<open>simp_all add: add.commute\<close>)
  moreover have "concat hs @ payload ds \<noteq> []" using hdr(2) by (metis append_is_Nil_conv list.size(3) zero_neq_numeral)
  ultimately show ?thesis
    using recv_msg_complete [of "after_recv (length hs + length ds) s" "concat hs @ payload ds" c m] assms(9,10)
    unfolding assms(2,4) by (simp add: after_recv_def)
qed

text \<open>
  C19. The data of a message stays inside the buffer of the daemon, whatever the peer sends and
  however it arrives, exactly when the length in the header is at most 65532. A header may announce up
  to 65535, and the three lengths above let the peer write past the end of the buffer.
\<close>

theorem receive_buffer_bound:
  fixes msg_len :: u16
  assumes "MSG_L_INCLUD_U_BIT_MSG_T_L_FIELDS \<le> unat msg_len"
  shows "(\<forall>s. recv_data (unat msg_len - MSG_L_INCLUD_U_BIT_MSG_T_L_FIELDS) 0 [] s \<noteq> None) \<longleftrightarrow> msg_len \<le> 65532"
proof -
  define n where "n = unat msg_len - MSG_L_INCLUD_U_BIT_MSG_T_L_FIELDS"
  have bound: "msg_len \<le> 65532 \<longleftrightarrow> 8 + n \<le> CSM_BUFFER_SIZE"
    using assms by (simp add: n_def word_le_nat_alt const_defs)
  have "recv_data n 0 [] (undefined\<lparr>env_recv := \<lambda>_. Received (replicate n 0)\<rparr>) = None" if "CSM_BUFFER_SIZE < 8 + n"
    using that by (simp add: recv_data.simps [of n 0] sock_recv_def Let_def CSM_BUFFER_SIZE_def)
  then show ?thesis
    using recv_data_in_buffer [of "[]" n 0] unfolding bound n_def [symmetric] by fastforce
qed

section \<open>Recovery after a warm reboot\<close>

text \<open>
  C38. When a peer that announced a warm reboot disconnects, the handler notes the time, so that the
  peer counts as lost if it has not come back after \<open>WARM_REBOOT_TIMEOUT\<close>. The reset of the session
  that follows clears the note, and the announcement too: the recovery never starts.
\<close>

theorem warm_reboot_recovery_lost:
  assumes "scheduler_session_disconnect_handler proc c s = Some t"
    and "csm_peer_warm_reboot_time (csm_of s c) \<noteq> 0" "sys_warmboot_exit s \<noteq> WARM_REBOOT"
  shows "\<exists>u. mlacp_peer_disconn_handler c (scheduler_csm_socket_cleanup c s) = Some u \<and>
    csm_warm_reboot_disconn_time (csm_of u c) = env_time s \<and>
    csm_warm_reboot_disconn_time (csm_of t c) = 0 \<and> csm_peer_warm_reboot_time (csm_of t c) = 0"
  using assms
  by (auto simp: scheduler_session_disconnect_handler_def scheduler_csm_socket_cleanup_def mlacp_peer_disconn_handler_def
      iccp_csm_status_reset_def app_csm_init_def mlacp_init_def mlacp_mac_msg_queue_reinit_def bind_eq_Some_conv Let_def
      upd_ml_def upd_defs split: if_splits)

section \<open>Concrete runs\<close>

text \<open>A capability message of eight bytes of data that arrives in four pieces, the third after a pause.\<close>

definition a_header :: bytes where
  "a_header = ser_LDPHdr (ldp_header MSG_T_CAPABILITY 16 7)"

definition a_stream :: "recv_result list" where
  "a_stream = [Received (take 3 a_header), Received (drop 3 a_header), Received [1, 2], RecvAgain, Received [3, 4, 5, 6, 7, 8]]"

definition a_receiver :: System where
  "a_receiver = (a_host (\<lambda>_. Sent 600))\<lparr>sys_csm_list := [0], env_recv := (\<lambda>i. if i < 5 then a_stream ! i else RecvClosed),
     sys_csm_heap := (\<lambda>_. zero_CSM\<lparr>csm_sock_fd := 5, csm_current_state := ICCP_INITIALIZED\<rparr>)\<rparr>"

lemma a_receiver_feeds: "feeds a_receiver a_stream"
  by (simp add: feeds_def a_receiver_def a_host_def a_stream_def)

lemma a_message_queued:
  "iccp_csm_enqueue_msg (a_header @ [1, 2, 3, 4, 5, 6, 7, 8]) (csm_of a_receiver 0) =
    Some (csm_queue (host_header MSG_T_CAPABILITY 16 7 @ [1, 2, 3, 4, 5, 6, 7, 8]) (csm_of a_receiver 0))"
  unfolding a_header_def iccp_csm_enqueue_msg_def by (subst swap_header, simp, simp add: const_defs)

theorem message_framing_witness:
  "\<exists>t. scheduler_csm_read_callback (\<lambda>_. None) 0 a_receiver = Some (1, t) \<and>
     csm_msg_list (csm_of t 0) = [host_header MSG_T_CAPABILITY 16 7 @ [1, 2, 3, 4, 5, 6, 7, 8]]"
proof -
  let ?data = "[1, 2, 3, 4, 5, 6, 7, 8] :: bytes"
  have "\<exists>t. scheduler_csm_read_callback (\<lambda>_. None) 0 a_receiver = Some (1, t) \<and>
     csm_of t 0 = (csm_queue (host_header MSG_T_CAPABILITY 16 7 @ ?data) (csm_of a_receiver 0))
       \<lparr>csm_icc_msg_in_count := csm_icc_msg_in_count (csm_queue (host_header MSG_T_CAPABILITY 16 7 @ ?data) (csm_of a_receiver 0)) + 1\<rparr> \<and>
     (\<forall>d. d \<noteq> 0 \<longrightarrow> csm_of t d = csm_of a_receiver d)"
  proof (rule message_framing [where hs = "[take 3 a_header, drop 3 a_header]" and data = ?data and ty = MSG_T_CAPABILITY
        and msg_id = 7 and ds = "[Received [1, 2], RecvAgain, Received [3, 4, 5, 6, 7, 8]]"])
    show "0 < csm_sock_fd (csm_of a_receiver 0)" by (simp add: a_receiver_def)
    show "concat [take 3 a_header, drop 3 a_header] = ser_LDPHdr (ldp_header MSG_T_CAPABILITY (8 + length ?data) 7)"
      by (simp add: a_header_def)
    show "[] \<notin> set [take 3 a_header, drop 3 a_header]" by (simp add: a_header_def wire_simps flip: length_0_conv)
    show "env_malloc a_receiver i" for i by (simp add: a_receiver_def a_host_def)
    show "feeds a_receiver (map Received [take 3 a_header, drop 3 a_header] @ [Received [1, 2], RecvAgain, Received [3, 4, 5, 6, 7, 8]])"
      using a_receiver_feeds by (simp add: a_stream_def)
    show "iccp_csm_enqueue_msg (ser_LDPHdr (ldp_header MSG_T_CAPABILITY (8 + length ?data) 7) @ ?data) (csm_of a_receiver 0) =
      Some (csm_queue (host_header MSG_T_CAPABILITY 16 7 @ ?data) (csm_of a_receiver 0))"
      using a_message_queued by (simp add: a_header_def)
  qed (simp_all add: const_defs RECV_RETRY_MAX_def)
  then show ?thesis by (auto simp: csm_queue_def a_receiver_def zero_CSM_def)
qed

theorem receive_buffer_bound_witness:
  "(\<forall>s. recv_data (unat (65535 :: u16) - MSG_L_INCLUD_U_BIT_MSG_T_L_FIELDS) 0 [] s \<noteq> None) \<longleftrightarrow> (65535 :: u16) \<le> 65532"
  by (rule receive_buffer_bound) (simp add: const_defs)

text \<open>A session whose peer announced a warm reboot.\<close>

definition a_warm_session :: System where
  "a_warm_session = (a_host (\<lambda>_. Sent 600))\<lparr>sys_csm_list := [0], env_time := 9, sys_warmboot_exit := 0,
     sys_csm_heap := (\<lambda>_. zero_CSM\<lparr>csm_sock_fd := 5, csm_peer_warm_reboot_time := 3\<rparr>)\<rparr>"

theorem warm_reboot_recovery_lost_witness:
  "csm_warm_reboot_disconn_time (csm_of (the (mlacp_peer_disconn_handler 0
     (scheduler_csm_socket_cleanup 0 a_warm_session))) 0) = 9 \<and>
   csm_warm_reboot_disconn_time (csm_of (the (scheduler_session_disconnect_handler (\<lambda>_. None) 0 a_warm_session)) 0) = 0"
proof -
  have "scheduler_session_disconnect_handler (\<lambda>_. None) 0 a_warm_session \<noteq> None"
    by (simp add: scheduler_session_disconnect_handler_def scheduler_csm_socket_cleanup_def mlacp_peer_disconn_handler_def
      iccp_csm_status_reset_def app_csm_init_def mlacp_init_def mlacp_mac_msg_queue_reinit_def Let_def
      upd_ml_def upd_defs a_warm_session_def zero_CSM_def zero_mLACP_def const_defs)
  then obtain t where t: "scheduler_session_disconnect_handler (\<lambda>_. None) 0 a_warm_session = Some t" by blast
  have "csm_peer_warm_reboot_time (csm_of a_warm_session 0) \<noteq> 0" "sys_warmboot_exit a_warm_session \<noteq> WARM_REBOOT"
    "env_time a_warm_session = 9" by (simp_all add: a_warm_session_def const_defs)
  with warm_reboot_recovery_lost [OF t] t show ?thesis by auto
qed

end
