(* ===== verification/Syncd_Recv.thy ===== *)
theory Syncd_Recv
  imports Iccp_Config Session_Recv
begin

text \<open>
  Messages from mclagsyncd (\<open>mlacp_link_handler.c\<close>): configuration, FDB entries and VLAN memberships.
  \<open>iccp_mclagsyncd_msg_handler\<close> reads what is there into a buffer of one mebibyte, completes the last
  message, and hands each message to the handler of its type, which walks over the entries of the
  message. A list is the part of the buffer that was written; behind it the buffer is zero. An access
  outside the buffer has no defined result. Counters of received messages are left out.
\<close>

section \<open>Reading the buffer\<close>

definition MCLAG_MAX_MSG_LEN :: nat where [const_defs]: "MCLAG_MAX_MSG_LEN = 4096"
definition ICCP_MLAGSYNCD_RECV_MSG_BUFFER_SIZE :: nat where
  [const_defs]: "ICCP_MLAGSYNCD_RECV_MSG_BUFFER_SIZE = MCLAG_MAX_MSG_LEN * 256"
definition SYNCD_RECV_RETRY_MAX :: nat where [const_defs]: "SYNCD_RECV_RETRY_MAX = 5"
definition MCLAG_SYNCD_MSG_TYPE_FDB_OPERATION :: u8 where [const_defs]: "MCLAG_SYNCD_MSG_TYPE_FDB_OPERATION = 1"
definition MCLAG_SYNCD_MSG_TYPE_CFG_MCLAG_DOMAIN :: u8 where [const_defs]: "MCLAG_SYNCD_MSG_TYPE_CFG_MCLAG_DOMAIN = 2"
definition MCLAG_SYNCD_MSG_TYPE_CFG_MCLAG_IFACE :: u8 where [const_defs]: "MCLAG_SYNCD_MSG_TYPE_CFG_MCLAG_IFACE = 3"
definition MCLAG_SYNCD_MSG_TYPE_VLAN_MBR_UPDATES :: u8 where [const_defs]: "MCLAG_SYNCD_MSG_TYPE_VLAN_MBR_UPDATES = 4"
definition MCLAG_SYNCD_MSG_TYPE_CFG_MCLAG_UNIQUE_IP :: u8 where [const_defs]: "MCLAG_SYNCD_MSG_TYPE_CFG_MCLAG_UNIQUE_IP = 5"
definition MCLAG_CFG_OPER_ADD :: u32 where [const_defs]: "MCLAG_CFG_OPER_ADD = 1"
definition MCLAG_CFG_OPER_DEL :: u32 where [const_defs]: "MCLAG_CFG_OPER_DEL = 2"
definition MCLAG_CFG_OPER_UPDATE :: u32 where [const_defs]: "MCLAG_CFG_OPER_UPDATE = 3"
definition MCLAG_CFG_OPER_ATTR_DEL :: u32 where [const_defs]: "MCLAG_CFG_OPER_ATTR_DEL = 4"
definition MCLAG_CFG_ATTR_SRC_ADDR :: u32 where [const_defs]: "MCLAG_CFG_ATTR_SRC_ADDR = 0x1"
definition MCLAG_CFG_ATTR_PEER_ADDR :: u32 where [const_defs]: "MCLAG_CFG_ATTR_PEER_ADDR = 0x2"
definition MCLAG_CFG_ATTR_PEER_LINK :: u32 where [const_defs]: "MCLAG_CFG_ATTR_PEER_LINK = 0x4"
definition MCLAG_CFG_ATTR_KEEPALIVE_INTERVAL :: u32 where [const_defs]: "MCLAG_CFG_ATTR_KEEPALIVE_INTERVAL = 0x8"
definition MCLAG_CFG_ATTR_SESSION_TIMEOUT :: u32 where [const_defs]: "MCLAG_CFG_ATTR_SESSION_TIMEOUT = 0x10"

definition bytes_at :: "nat \<Rightarrow> nat \<Rightarrow> bytes \<Rightarrow> bytes option" where
  "bytes_at off n buf =
     (if ICCP_MLAGSYNCD_RECV_MSG_BUFFER_SIZE < off + n then None
      else Some (take n (drop off buf @ replicate n 0)))"

definition int_at :: "nat \<Rightarrow> bytes \<Rightarrow> u32 option" where
  "int_at off buf = do { bs \<leftarrow> bytes_at off 4 buf; map_option fst (de_le32 bs) }"

definition short_at :: "nat \<Rightarrow> bytes \<Rightarrow> u16 option" where
  "short_at off buf = do { bs \<leftarrow> bytes_at off 2 buf; map_option fst (de_le16 bs) }"

text \<open>A string ends at the next zero, in its field or behind it.\<close>

definition str_at :: "nat \<Rightarrow> bytes \<Rightarrow> string option" where
  "str_at off buf =
     (if length buf < ICCP_MLAGSYNCD_RECV_MSG_BUFFER_SIZE \<or> 0 \<in> set (drop off buf)
      then Some (map char_of_byte (takeWhile (\<lambda>b. b \<noteq> 0) (drop off buf))) else None)"

text \<open>
  The number of entries of a message: \<open>(len - sizeof(struct IccpSyncdHDr)) / size\<close>, computed with 64
  bits without sign and stored in an \<open>int\<close>; a length below 4 wraps.
\<close>

definition syncd_count :: "u16 \<Rightarrow> nat \<Rightarrow> int" where
  "syncd_count len entry_size = sint (ucast ((ucast len - 4 :: u64) div word_of_nat entry_size) :: u32)"

definition entries_at :: "nat \<Rightarrow> u16 \<Rightarrow> nat \<Rightarrow> nat list" where
  "entries_at pos len entry_size = map (\<lambda>i. pos + 4 + i * entry_size) [0..<nat (syncd_count len entry_size)]"

section \<open>The handlers\<close>

definition iccp_receive_fdb_handler_from_syncd :: "bytes \<Rightarrow> nat \<Rightarrow> u16 \<Rightarrow> System \<Rightarrow> System option" where
  "iccp_receive_fdb_handler_from_syncd buf pos len s = fold_opt (\<lambda>off s. do {
     mac \<leftarrow> bytes_at off 6 buf;
     vid \<leftarrow> int_at (off + 8) buf;
     name \<leftarrow> str_at (off + 12) buf;
     ty \<leftarrow> short_at (off + 32) buf;
     op_type \<leftarrow> short_at (off + 34) buf;
     Some (do_mac_update_from_syncd mac (ucast vid) name (ucast ty) (ucast op_type) s) }) (entries_at pos len 36) s"

text \<open>The settings of a domain, each only if its bit is set; -1 stands for the default of a timer.\<close>

definition domain_settings ::
  "(string \<Rightarrow> char option) \<Rightarrow> team \<Rightarrow> bytes \<Rightarrow> nat \<Rightarrow> int \<Rightarrow> u32 \<Rightarrow> System \<Rightarrow> System option" where
  "domain_settings proc team buf off domain_id bmap s = do {
     local_ip \<leftarrow> str_at (off + 16) buf;
     peer_ip \<leftarrow> str_at (off + 32) buf;
     peer_ifname \<leftarrow> str_at (off + 48) buf;
     keepalive_time \<leftarrow> int_at (off + 8) buf;
     session_timeout \<leftarrow> int_at (off + 12) buf;
     let on = (\<lambda>flag f s. if bmap AND flag \<noteq> 0 then map_option snd (f s) else Some s);
     s1 \<leftarrow> on MCLAG_CFG_ATTR_SRC_ADDR (set_local_address proc domain_id local_ip) s;
     s2 \<leftarrow> on MCLAG_CFG_ATTR_PEER_ADDR (set_peer_address proc domain_id peer_ip) s1;
     s3 \<leftarrow> on MCLAG_CFG_ATTR_PEER_LINK (set_peer_link proc team domain_id peer_ifname) s2;
     s4 \<leftarrow> on MCLAG_CFG_ATTR_KEEPALIVE_INTERVAL (set_keepalive_time domain_id
            (if sint keepalive_time \<noteq> -1 then sint keepalive_time else CONNECT_INTERVAL_SEC)) s3;
     on MCLAG_CFG_ATTR_SESSION_TIMEOUT (set_session_timeout domain_id
       (if sint session_timeout \<noteq> -1 then sint session_timeout else HEARTBEAT_TIMEOUT_SEC)) s4 }"

definition domain_attr_del :: "(string \<Rightarrow> char option) \<Rightarrow> int \<Rightarrow> u32 \<Rightarrow> System \<Rightarrow> System option" where
  "domain_attr_del proc domain_id bmap s = map_option snd
     (if bmap AND MCLAG_CFG_ATTR_PEER_LINK \<noteq> 0 then unset_peer_link proc domain_id s
      else if bmap AND MCLAG_CFG_ATTR_KEEPALIVE_INTERVAL \<noteq> 0 then set_keepalive_time domain_id CONNECT_INTERVAL_SEC s
      else if bmap AND MCLAG_CFG_ATTR_SESSION_TIMEOUT \<noteq> 0 then set_session_timeout domain_id HEARTBEAT_TIMEOUT_SEC s
      else if bmap AND MCLAG_CFG_ATTR_SRC_ADDR \<noteq> 0 then unset_local_address proc domain_id s
      else if bmap AND MCLAG_CFG_ATTR_PEER_ADDR \<noteq> 0 then unset_peer_address proc domain_id s
      else Some (0, s))"

definition iccp_mclagsyncd_mclag_domain_cfg_handler ::
  "(string \<Rightarrow> char option) \<Rightarrow> team \<Rightarrow> (System \<Rightarrow> nat) \<Rightarrow> bytes \<Rightarrow> nat \<Rightarrow> u16 \<Rightarrow> System \<Rightarrow> System option" where
  "iccp_mclagsyncd_mclag_domain_cfg_handler proc team rnd buf pos len s = fold_opt (\<lambda>off s. do {
     op_type \<leftarrow> int_at off buf;
     domain_id \<leftarrow> int_at (off + 4) buf;
     mac \<leftarrow> bytes_at (off + 68) 6 buf;
     bmap \<leftarrow> int_at (off + 76) buf;
     if op_type = MCLAG_CFG_OPER_ADD \<or> op_type = MCLAG_CFG_OPER_UPDATE then do {
       s1 \<leftarrow> (if op_type = MCLAG_CFG_OPER_ADD
              then map_option (\<lambda>r. set_local_system_id (mac_str mac) (snd r)) (set_mc_lag_by_id proc rnd (ucast domain_id) s)
              else Some s);
       domain_settings proc team buf off (sint domain_id) bmap s1 }
     else if op_type = MCLAG_CFG_OPER_DEL then map_option snd (unset_mc_lag_by_id proc (ucast domain_id) s)
     else if op_type = MCLAG_CFG_OPER_ATTR_DEL then domain_attr_del proc (sint domain_id) bmap s
     else Some s }) (entries_at pos len 80) s"

definition iccp_mclagsyncd_mclag_iface_cfg_handler :: "team \<Rightarrow> bytes \<Rightarrow> nat \<Rightarrow> u16 \<Rightarrow> System \<Rightarrow> System option" where
  "iccp_mclagsyncd_mclag_iface_cfg_handler team buf pos len s = fold_opt (\<lambda>off s. do {
     op_type \<leftarrow> int_at off buf;
     domain_id \<leftarrow> int_at (off + 4) buf;
     name \<leftarrow> str_at (off + 8) buf;
     if op_type = MCLAG_CFG_OPER_ADD
     then map_option snd (iccp_cli_attach_mclag_domain_to_port_channel team (sint domain_id) name s)
     else if op_type = MCLAG_CFG_OPER_DEL then map_option snd (iccp_cli_detach_mclag_domain_to_port_channel name s)
     else Some s }) (entries_at pos len 28) s"

definition iccp_mclagsyncd_vlan_mbr_update_handler :: "team \<Rightarrow> bytes \<Rightarrow> nat \<Rightarrow> u16 \<Rightarrow> System \<Rightarrow> System option" where
  "iccp_mclagsyncd_vlan_mbr_update_handler team buf pos len s = fold_opt (\<lambda>off s. do {
     op_type \<leftarrow> int_at off buf;
     vid \<leftarrow> int_at (off + 4) buf;
     name \<leftarrow> str_at (off + 8) buf;
     if op_type = MCLAG_CFG_OPER_ADD \<or> op_type = MCLAG_CFG_OPER_DEL
     then vlan_mbrship_change_handler team vid name (op_type = MCLAG_CFG_OPER_ADD) s
     else Some s }) (entries_at pos len 28) s"

text \<open>
  Interfaces with an address of their own on each node. The variables that say what to synchronise
  are not reset between two entries, so they are passed on; the first failed allocation ends the loop.
\<close>

definition unique_ip_lif :: "u32 \<Rightarrow> string \<Rightarrow> bool \<times> bool \<times> bool \<Rightarrow> System \<Rightarrow> (bool \<times> bool \<times> bool) \<times> System" where
  "unique_ip_lif op_type name flags s =
     (case local_if_find_by_name name s of None \<Rightarrow> (flags, s)
      | Some l \<Rightarrow>
          let known = (op_type = MCLAG_CFG_OPER_ADD \<or> op_type = MCLAG_CFG_OPER_DEL);
              s1 = (if known then upd_lif l (\<lambda>i. i\<lparr>lif_is_l3_proto_enabled := (op_type = MCLAG_CFG_OPER_ADD)\<rparr>) s else s);
              sync_add = (if known then op_type = MCLAG_CFG_OPER_ADD else fst flags);
              is_v4 = (fst (snd flags) \<or> known \<and> lif_ipv4_addr (lif_of s l) \<noteq> 0);
              is_v6 = (snd (snd flags) \<or> known \<and> lif_prefixlen_v6 (lif_of s l) \<noteq> 0);
              sync = (\<lambda>s. snd (syn_local_neigh_mac_info_to_peer l sync_add is_v4 is_v6 True True False s))
          in ((sync_add, is_v4, is_v6),
              if local_if_is_l3_mode (lif_of s1 l)
              then sync (if sync_add then update_vlan_if_mac_on_standby l s1 else s1)
              else if \<not> sync_add then sync (recover_vlan_if_mac_on_standby l 6 None s1) else s1))"

definition unique_ip_list :: "u32 \<Rightarrow> string \<Rightarrow> System \<Rightarrow> bool \<times> System" where
  "unique_ip_list op_type name s =
     (if op_type = MCLAG_CFG_OPER_ADD \<and> name \<notin> set (sys_unq_ip_if_list s)
      then let (ok, s1) = malloc s
           in (ok, if ok then s1\<lparr>sys_unq_ip_if_list := port_name name # sys_unq_ip_if_list s1\<rparr> else s1)
      else (True, if op_type = MCLAG_CFG_OPER_DEL
                  then s\<lparr>sys_unq_ip_if_list := remove1 name (sys_unq_ip_if_list s)\<rparr> else s))"

fun unique_ip_entries :: "bytes \<Rightarrow> nat list \<Rightarrow> bool \<times> bool \<times> bool \<Rightarrow> System \<Rightarrow> System option" where
  "unique_ip_entries buf [] flags s = Some s"
| "unique_ip_entries buf (off # offs) flags s = do {
     op_type \<leftarrow> int_at off buf;
     name \<leftarrow> str_at (off + 4) buf;
     let (ok, s1) = unique_ip_list op_type name s;
     if \<not> ok then Some s1
     else let (flags', s2) = unique_ip_lif op_type name flags s1 in unique_ip_entries buf offs flags' s2 }"

definition iccp_mclagsyncd_mclag_unique_ip_cfg_handler :: "bytes \<Rightarrow> nat \<Rightarrow> u16 \<Rightarrow> System \<Rightarrow> System option" where
  "iccp_mclagsyncd_mclag_unique_ip_cfg_handler buf pos len s =
     unique_ip_entries buf (entries_at pos len 24) (False, False, False) s"

text \<open>The message at a position of the buffer, by its type.\<close>

definition syncd_dispatch ::
  "(string \<Rightarrow> char option) \<Rightarrow> team \<Rightarrow> (System \<Rightarrow> nat) \<Rightarrow> u8 \<Rightarrow> bytes \<Rightarrow> nat \<Rightarrow> u16 \<Rightarrow> System \<Rightarrow> System option" where
  "syncd_dispatch proc team rnd ty buf pos len s =
     (if ty = MCLAG_SYNCD_MSG_TYPE_FDB_OPERATION then iccp_receive_fdb_handler_from_syncd buf pos len s
      else if ty = MCLAG_SYNCD_MSG_TYPE_CFG_MCLAG_DOMAIN
      then iccp_mclagsyncd_mclag_domain_cfg_handler proc team rnd buf pos len s
      else if ty = MCLAG_SYNCD_MSG_TYPE_CFG_MCLAG_IFACE then iccp_mclagsyncd_mclag_iface_cfg_handler team buf pos len s
      else if ty = MCLAG_SYNCD_MSG_TYPE_CFG_MCLAG_UNIQUE_IP then iccp_mclagsyncd_mclag_unique_ip_cfg_handler buf pos len s
      else if ty = MCLAG_SYNCD_MSG_TYPE_VLAN_MBR_UPDATES then iccp_mclagsyncd_vlan_mbr_update_handler team buf pos len s
      else Some s)"

section \<open>The loop over the messages\<close>

text \<open>
  The first read. When it fails the count starts at -1, and the length of what a later attempt brings
  is added to it.
\<close>

function syncd_retry :: "nat \<Rightarrow> System \<Rightarrow> (nat \<times> bytes) option \<times> System" where
  "syncd_retry num_retry s =
     (case sock_recv (ICCP_MLAGSYNCD_RECV_MSG_BUFFER_SIZE - MCLAG_MAX_MSG_LEN) s of
        (Received bs, t) \<Rightarrow> (Some (length bs - 1, bs), t)
      | (RecvAgain, t) \<Rightarrow> if SYNCD_RECV_RETRY_MAX < Suc num_retry then (None, t) else syncd_retry (Suc num_retry) t
      | (_, t) \<Rightarrow> (None, t))"
  by pat_completeness auto
termination
  by (relation "measure (\<lambda>(k, s). 6 - k)") (auto simp: SYNCD_RECV_RETRY_MAX_def)

definition syncd_first :: "System \<Rightarrow> (nat \<times> bytes) option \<times> System" where
  "syncd_first s =
     (case sock_recv (ICCP_MLAGSYNCD_RECV_MSG_BUFFER_SIZE - MCLAG_MAX_MSG_LEN) s of
        (Received bs, t) \<Rightarrow> (Some (length bs, bs), t)
      | (RecvClosed, t) \<Rightarrow> (None, t)
      | (_, t) \<Rightarrow> syncd_retry 0 t)"

text \<open>
  The missing bytes of a header or of a message, which go to the given offset. The attempts are
  counted over all messages of one call.
\<close>

definition buf_write :: "nat \<Rightarrow> bytes \<Rightarrow> bytes \<Rightarrow> bytes" where
  "buf_write off bs buf = take off buf @ bs @ drop (off + length bs) buf"

function syncd_fill :: "nat \<Rightarrow> nat \<Rightarrow> nat \<Rightarrow> bytes \<Rightarrow> System \<Rightarrow> ((nat \<times> bytes) option \<times> System) option" where
  "syncd_fill missing off num_retry buf s =
     (if missing = 0 then Some (Some (num_retry, buf), s)
      else case sock_recv missing s of
        (Received bs, t) \<Rightarrow>
          if ICCP_MLAGSYNCD_RECV_MSG_BUFFER_SIZE < off + length bs then None
          else syncd_fill (missing - length bs) (off + length bs) num_retry (buf_write off bs buf) t
      | (RecvAgain, t) \<Rightarrow>
          if SYNCD_RECV_RETRY_MAX < Suc num_retry then Some (None, t)
          else syncd_fill missing off (Suc num_retry) buf t
      | (_, t) \<Rightarrow> Some (None, t))"
  by pat_completeness auto
termination
  by (relation "measures [\<lambda>(n, off, k, buf, s). n, \<lambda>(n, off, k, buf, s). 6 - k]")
    (auto dest!: sock_recv_received [OF sym] simp: SYNCD_RECV_RETRY_MAX_def simp flip: length_greater_0_conv)

declare syncd_retry.simps [simp del] syncd_fill.simps [simp del]

text \<open>
  \<open>num\<close> is \<open>num_bytes_rxed\<close>. It does not change when the rest of a header or of a message is read, and
  the rest of a message is read to the offset \<open>num\<close>, also when the rest of its header is there already:
  the length may then become zero, and the loop stays at its position.
\<close>

partial_function (option) syncd_msgs ::
  "(string \<Rightarrow> char option) \<Rightarrow> team \<Rightarrow> (System \<Rightarrow> nat) \<Rightarrow> nat \<Rightarrow> nat \<Rightarrow> nat \<Rightarrow> bytes \<Rightarrow> System \<Rightarrow> (int \<times> System) option" where
  [code]: "syncd_msgs proc team rnd pos num num_retry buf s =
     (if num \<le> pos then Some (0, s)
      else case syncd_fill (4 - (num - pos)) num num_retry buf s of None \<Rightarrow> None
        | Some (None, s1) \<Rightarrow> Some (MCLAG_ERROR, s1)
        | Some (Some (k1, buf1), s1) \<Rightarrow>
            (case (bytes_at pos 2 buf1, short_at (pos + 2) buf1) of
               (Some [ver, ty], Some len) \<Rightarrow>
                 if len = 0 then Some (MCLAG_ERROR, s1)
                 else if ver \<noteq> 1 then syncd_msgs proc team rnd (pos + unat len) num k1 buf1 s1
                 else (case syncd_fill (pos + unat len - num) num k1 buf1 s1 of None \<Rightarrow> None
                   | Some (None, s2) \<Rightarrow> Some (MCLAG_ERROR, s2)
                   | Some (Some (k2, buf2), s2) \<Rightarrow>
                       (case (bytes_at pos 2 buf2, short_at (pos + 2) buf2) of
                          (Some [ver', ty'], Some len') \<Rightarrow>
                            (case syncd_dispatch proc team rnd ty' buf2 pos len' s2 of None \<Rightarrow> None
                             | Some s3 \<Rightarrow> syncd_msgs proc team rnd (pos + unat len') num k2 buf2 s3)
                        | _ \<Rightarrow> None))
             | _ \<Rightarrow> None))"

definition iccp_mclagsyncd_msg_handler ::
  "(string \<Rightarrow> char option) \<Rightarrow> team \<Rightarrow> (System \<Rightarrow> nat) \<Rightarrow> System \<Rightarrow> (int \<times> System) option" where
  "iccp_mclagsyncd_msg_handler proc team rnd s =
     (case syncd_first s of (None, t) \<Rightarrow> Some (MCLAG_ERROR, t)
      | (Some (num, buf), t) \<Rightarrow> syncd_msgs proc team rnd 0 num 0 buf t)"

section \<open>Framing\<close>

interpretation syncd_loop: recv_loop "\<lambda>n k (off, buf). syncd_fill n off k buf" SYNCD_RECV_RETRY_MAX
  "\<lambda>bs (off, buf). (off + length bs, buf_write off bs buf)"
  "\<lambda>n (off, buf). off \<le> length buf \<and> off + n \<le> ICCP_MLAGSYNCD_RECV_MSG_BUFFER_SIZE" "\<lambda>k (off, buf). (k, buf)"
  by unfold_locales (auto simp: syncd_fill.simps buf_write_def ac_simps)

lemmas syncd_fill_pieces = syncd_loop.pieces [where b = "(off, buf)" for off buf, unfolded prod.case]
lemmas syncd_fill_starved = syncd_loop.starved [where b = "(off, buf)" for off buf, unfolded prod.case]

lemma syncd_fill_nothing [simp]: "syncd_fill 0 off k buf s = Some (Some (k, buf), s)"
  by (simp add: syncd_fill.simps)

text \<open>The messages of a stream, a type and a body each, and what handling them one after the other does.\<close>

type_synonym syncd_message = "u8 \<times> bytes"

definition frame :: "syncd_message \<Rightarrow> bytes" where "frame m = syncd_hdr (fst m) (snd m)"

definition frame_len :: "syncd_message \<Rightarrow> u16" where "frame_len m = word_of_nat (4 + length (snd m))"

fun handle_all ::
  "(string \<Rightarrow> char option) \<Rightarrow> team \<Rightarrow> (System \<Rightarrow> nat) \<Rightarrow> bytes \<Rightarrow> nat \<Rightarrow> syncd_message list \<Rightarrow> System \<Rightarrow> System option" where
  "handle_all proc team rnd buf pos [] s = Some s"
| "handle_all proc team rnd buf pos (m # ms) s = do {
     t \<leftarrow> syncd_dispatch proc team rnd (fst m) buf pos (frame_len m) s;
     handle_all proc team rnd buf (pos + length (frame m)) ms t }"

lemma length_frame [simp]: "length (frame m) = 4 + length (snd m)"
  by (simp add: frame_def syncd_hdr_def)

lemma unat_frame_len: "length (frame m) < 65536 \<Longrightarrow> unat (frame_len m) = length (frame m)"
  by (simp add: frame_len_def unat_of_nat take_bit_nat_eq_self del: of_nat_add)

lemma header_read:
  assumes "take 4 (drop pos buf) = take 4 (frame m)" "pos + 4 \<le> ICCP_MLAGSYNCD_RECV_MSG_BUFFER_SIZE"
  shows "bytes_at pos 2 buf = Some [1, fst m]" "short_at (pos + 2) buf = Some (frame_len m)"
proof -
  obtain r where buf: "drop pos buf = take 4 (frame m) @ r" using assms(1) by (metis append_take_drop_id)
  have "drop (pos + 2) buf = drop 2 (drop pos buf)" by (simp add: add.commute)
  then have tail: "drop (pos + 2) buf = drop 2 (take 4 (frame m)) @ r" by (simp add: buf)
  from buf tail assms(2) show "bytes_at pos 2 buf = Some [1, fst m]" "short_at (pos + 2) buf = Some (frame_len m)"
    by (simp_all add: bytes_at_def short_at_def frame_def syncd_hdr_def frame_len_def le16_def
        ICCPD_TO_MCLAGSYNCD_HDR_VERSION_def numeral_2_eq_2)
qed

text \<open>One round of the loop, for a message whose header is there.\<close>

lemma syncd_msgs_message:
  assumes "take 4 (drop pos buf) = take 4 (frame m)" "pos + 4 \<le> num" "length (frame m) < 65536"
    "num \<le> ICCP_MLAGSYNCD_RECV_MSG_BUFFER_SIZE"
    and fill: "syncd_fill (pos + length (frame m) - num) num k buf s = Some (Some (k', buf'), t)"
    and kept: "take num buf' = take num buf"
  shows "syncd_msgs proc team rnd pos num k buf s =
    (case syncd_dispatch proc team rnd (fst m) buf' pos (frame_len m) t of None \<Rightarrow> None
     | Some u \<Rightarrow> syncd_msgs proc team rnd (pos + length (frame m)) num k' buf' u)"
proof -
  have keeps: "take 4 (drop pos xs) = take 4 (drop pos (take num xs))" for xs :: bytes
    using assms(2) by (simp add: drop_take min_def le_diff_conv2)
  have "take 4 (drop pos buf') = take 4 (drop pos buf)" unfolding keeps [of buf'] kept keeps [of buf] ..
  also have "\<dots> = take 4 (frame m)" by (rule assms(1))
  finally have "take 4 (drop pos buf') = take 4 (frame m)" .
  note new = header_read [OF this] and old = header_read [OF assms(1)]
  have len: "unat (frame_len m) = length (frame m)" "frame_len m \<noteq> 0"
    using unat_frame_len [OF assms(3)] by (auto simp flip: unat_eq_zero)
  have "4 - (num - pos) = 0" using assms(2) by simp
  then show ?thesis using new old fill len assms(2,4) by (simp add: syncd_msgs.simps [of proc team rnd pos] split: option.split)
qed

lemma syncd_msgs_whole:
  assumes "drop pos buf = concat (map frame ms) @ post" "pos + length (concat (map frame ms)) \<le> num"
    "\<forall>m \<in> set ms. length (frame m) < 65536" "num \<le> ICCP_MLAGSYNCD_RECV_MSG_BUFFER_SIZE"
  shows "syncd_msgs proc team rnd pos num k buf s =
    (case handle_all proc team rnd buf pos ms s of None \<Rightarrow> None
     | Some t \<Rightarrow> syncd_msgs proc team rnd (pos + length (concat (map frame ms))) num k buf t)"
  using assms
proof (induction ms arbitrary: pos s)
  case Nil
  then show ?case by simp
next
  case (Cons m ms)
  have next_pos: "drop (pos + length (frame m)) buf = concat (map frame ms) @ post"
    using arg_cong [OF Cons.prems(1), of "drop (length (frame m))"] by (simp add: add.commute [of _ pos] del: length_frame)
  have "syncd_msgs proc team rnd pos num k buf s =
      (case syncd_dispatch proc team rnd (fst m) buf pos (frame_len m) s of None \<Rightarrow> None
       | Some u \<Rightarrow> syncd_msgs proc team rnd (pos + length (frame m)) num k buf u)"
    by (rule syncd_msgs_message) (use Cons.prems in auto)
  also have "\<dots> = (case syncd_dispatch proc team rnd (fst m) buf pos (frame_len m) s of None \<Rightarrow> None
       | Some u \<Rightarrow> case handle_all proc team rnd buf (pos + length (frame m)) ms u of None \<Rightarrow> None
         | Some t \<Rightarrow> syncd_msgs proc team rnd (pos + length (concat (map frame (m # ms)))) num k buf t)"
    using Cons.IH [OF next_pos] Cons.prems by (simp add: add.assoc split: option.split)
  finally show ?case by (simp split: option.split)
qed

lemma syncd_msgs_end: "num \<le> pos \<Longrightarrow> syncd_msgs proc team rnd pos num k buf s = Some (0, s)"
  by (simp add: syncd_msgs.simps [of proc team rnd pos])

text \<open>
  C17. Messages of mclagsyncd are handled whole and in their order: if one read brings any number of
  messages and the first bytes of one more, its header included, and the rest of that message comes
  in non-empty pieces with up to five pauses, then each message is handed to the handler of its type
  once, in the order they were sent, the last one when all of it is there, and the call succeeds.
\<close>

theorem syncd_stream_framing:
  assumes "feeds s [Received (concat (map frame ms) @ part)]" "frame m = part @ rest" "4 \<le> length part"
    and "length (concat (map frame ms) @ part) \<le> ICCP_MLAGSYNCD_RECV_MSG_BUFFER_SIZE - MCLAG_MAX_MSG_LEN"
    and "length rest \<le> MCLAG_MAX_MSG_LEN" "\<forall>x \<in> set (m # ms). length (frame x) < 65536"
    and "handle_all proc team rnd (concat (map frame ms) @ part) 0 ms (after_recv 1 s) = Some t"
    and "feeds t ds" "delivers ds" "payload ds = rest" "count_list ds RecvAgain \<le> SYNCD_RECV_RETRY_MAX"
  shows "iccp_mclagsyncd_msg_handler proc team rnd s =
    (case syncd_dispatch proc team rnd (fst m) (concat (map frame ms) @ frame m) (length (concat (map frame ms)))
       (frame_len m) (after_recv (length ds) t) of None \<Rightarrow> None | Some u \<Rightarrow> Some (0, u))"
proof -
  define pre where "pre = concat (map frame ms)"
  define num where "num = length (pre @ part)"
  note bounds = assms(3-6) [folded pre_def]
  have room: "num + length rest \<le> ICCP_MLAGSYNCD_RECV_MSG_BUFFER_SIZE"
    using bounds by (simp add: num_def const_defs)
  have "sock_recv (ICCP_MLAGSYNCD_RECV_MSG_BUFFER_SIZE - MCLAG_MAX_MSG_LEN) s = (Received (pre @ part), after_recv 1 s)"
    using bounds by (intro sock_recv_piece [OF assms(1) [folded pre_def]]) auto
  then have "iccp_mclagsyncd_msg_handler proc team rnd s = syncd_msgs proc team rnd 0 num 0 (pre @ part) (after_recv 1 s)"
    by (simp add: iccp_mclagsyncd_msg_handler_def syncd_first_def num_def)
  also have "\<dots> = syncd_msgs proc team rnd (length pre) num 0 (pre @ part) t"
    using syncd_msgs_whole [of 0 "pre @ part" ms part num proc team rnd 0 "after_recv 1 s"] assms(6,7) room
    by (simp add: pre_def num_def)
  also have "\<dots> = (case syncd_dispatch proc team rnd (fst m) (pre @ frame m) (length pre) (frame_len m) (after_recv (length ds) t) of
      None \<Rightarrow> None | Some u \<Rightarrow> syncd_msgs proc team rnd (length pre + length (frame m)) num (count_list ds RecvAgain) (pre @ frame m) u)"
  proof (rule syncd_msgs_message)
    have "length pre + length (frame m) - num = length rest" by (simp add: num_def assms(2) del: length_frame)
    then show "syncd_fill (length pre + length (frame m) - num) num 0 (pre @ part) t =
        Some (Some (count_list ds RecvAgain, pre @ frame m), after_recv (length ds) t)"
      using syncd_fill_pieces [of t ds "length rest" 0 num "pre @ part"] assms(8-11) room
      by (simp add: num_def buf_write_def assms(2))
    show "length (frame m) < 65536" using bounds by simp
  qed (use assms(2) bounds room in \<open>auto simp: num_def\<close>)
  also have "\<dots> = (case syncd_dispatch proc team rnd (fst m) (pre @ frame m) (length pre) (frame_len m) (after_recv (length ds) t) of
      None \<Rightarrow> None | Some u \<Rightarrow> Some (0, u))"
    using arg_cong [OF assms(2), of length] by (simp add: syncd_msgs_end num_def del: length_frame split: option.split)
  finally show ?thesis by (simp add: pre_def)
qed

text \<open>
  C39. A message at the start of a read, whose header is cut by that read, is lost when no other
  message follows it: after the rest of the header has come the loop still counts only the bytes of
  the first read, so it waits for more than the message has. However the body arrives, if nothing
  further comes for six attempts then the call fails, no handler has run, and the bytes are gone from
  the socket.
\<close>

theorem split_header_lost:
  assumes "frame m = hd1 @ hd2 @ concat ps" "hd1 \<noteq> []" "hd2 \<noteq> []" "length hd1 + length hd2 = 4" "[] \<notin> set ps"
    and "length (frame m) \<le> MCLAG_MAX_MSG_LEN"
    and "feeds s (Received hd1 # Received hd2 # map Received ps @ replicate (Suc SYNCD_RECV_RETRY_MAX) RecvAgain)"
  shows "iccp_mclagsyncd_msg_handler proc team rnd s =
    Some (MCLAG_ERROR, after_recv (2 + length ps + Suc SYNCD_RECV_RETRY_MAX) s)"
proof -
  define n where "n = length hd1"
  let ?max = ICCP_MLAGSYNCD_RECV_MSG_BUFFER_SIZE
  have sizes: "0 < n" "n < 4" "4 - n = length hd2" "?max = 1048576" "MCLAG_MAX_MSG_LEN = 4096"
    using assms(2-4) by (auto simp: n_def const_defs simp flip: length_greater_0_conv)
  have frame_n: "length (frame m) = 4 + length (concat ps)" "length (frame m) < 65536"
    using assms(1,4,6) sizes by (simp_all del: length_frame)
  note feeds = assms(7) [unfolded feeds_Cons]
  have recv1: "sock_recv (?max - MCLAG_MAX_MSG_LEN) s = (Received hd1, after_recv 1 s)"
    using sizes assms(2) by (intro sock_recv_piece [OF assms(7)]) (auto simp: n_def)
  have fill1: "syncd_fill (4 - n) n 0 hd1 (after_recv 1 s) = Some (Some (0, hd1 @ hd2), after_recv (Suc (Suc 0)) s)"
    using syncd_fill_pieces [of "after_recv 1 s" "[Received hd2]" "4 - n" 0 n hd1] feeds sizes assms(3)
    by (simp add: feeds_Cons buf_write_def n_def)
  have "take 4 (drop 0 (hd1 @ hd2)) = take 4 (frame m)" using assms(1,4) by simp
  note header = header_read [OF this]
  have fill2: "syncd_fill (length (frame m) - n) n 0 (hd1 @ hd2) (after_recv (Suc (Suc 0)) s) =
      Some (None, after_recv (length ps + Suc SYNCD_RECV_RETRY_MAX) (after_recv (Suc (Suc 0)) s))"
    by (rule syncd_fill_starved) (use feeds sizes frame_n assms(5,6) in \<open>auto simp: feeds_Cons n_def\<close>)
  have len: "unat (frame_len m) = length (frame m)" "frame_len m \<noteq> 0"
    using unat_frame_len [OF frame_n(2)] by (auto simp flip: unat_eq_zero)
  have "syncd_msgs proc team rnd 0 n 0 hd1 (after_recv 1 s) =
      Some (MCLAG_ERROR, after_recv (length ps + Suc SYNCD_RECV_RETRY_MAX) (after_recv (Suc (Suc 0)) s))"
    using sizes fill1 header fill2 len by (simp add: syncd_msgs.simps [of proc team rnd 0] del: after_recv_add length_frame)
  with recv1 show ?thesis by (simp add: iccp_mclagsyncd_msg_handler_def syncd_first_def n_def)
qed

text \<open>
  When the first attempt to read finds nothing and a later one succeeds, the count of bytes is one
  too low. A whole message that comes then is taken as incomplete: the loop waits for a byte that was
  never sent, and the call fails without handling the message.
\<close>

lemma late_message_lost:
  assumes "feeds s (RecvAgain # Received (frame m) # replicate (Suc SYNCD_RECV_RETRY_MAX) RecvAgain)"
    and "length (frame m) \<le> MCLAG_MAX_MSG_LEN" "snd m \<noteq> []"
  shows "iccp_mclagsyncd_msg_handler proc team rnd s =
    Some (MCLAG_ERROR, after_recv (2 + Suc SYNCD_RECV_RETRY_MAX) s)"
proof -
  let ?max = ICCP_MLAGSYNCD_RECV_MSG_BUFFER_SIZE
  define n where "n = length (frame m) - 1"
  have sizes: "?max = 1048576" "MCLAG_MAX_MSG_LEN = 4096" by (simp_all add: const_defs)
  have n: "4 \<le> n" "length (frame m) = Suc n" "Suc n \<le> 4096"
    using assms(2,3) sizes by (cases "snd m"; simp add: n_def)+
  note feeds = assms(1) [unfolded feeds_Cons]
  have recv1: "sock_recv (?max - MCLAG_MAX_MSG_LEN) s = (RecvAgain, after_recv 1 s)"
    by (rule sock_recv_again [OF assms(1)])
  have recv2: "sock_recv (?max - MCLAG_MAX_MSG_LEN) (after_recv 1 s) = (Received (frame m), after_recv (Suc (Suc 0)) s)"
  proof -
    have "feeds (after_recv 1 s) (Received (frame m) # replicate (Suc SYNCD_RECV_RETRY_MAX) RecvAgain)"
      using feeds by (simp add: feeds_Cons)
    then have "sock_recv (?max - MCLAG_MAX_MSG_LEN) (after_recv 1 s) = (Received (frame m), after_recv 1 (after_recv 1 s))"
      by (rule sock_recv_piece) (use n sizes in \<open>auto simp flip: length_0_conv\<close>)
    then show ?thesis by simp
  qed
  have header: "bytes_at 0 2 (frame m) = Some [1, fst m]" "short_at (0 + 2) (frame m) = Some (frame_len m)"
    using header_read [of 0 "frame m" m] sizes by simp_all
  have fill: "syncd_fill 1 n 0 (frame m) (after_recv (Suc (Suc 0)) s) = Some (None, after_recv (Suc SYNCD_RECV_RETRY_MAX) (after_recv (Suc (Suc 0)) s))"
    using syncd_fill_starved [of "after_recv (Suc (Suc 0)) s" "[]" 1 n "frame m"] feeds n sizes
    by (simp add: feeds_Cons del: length_frame)
  have len: "unat (frame_len m) = Suc n" "frame_len m \<noteq> 0"
    using unat_frame_len [of m] n by (auto simp: simp del: length_frame simp flip: unat_eq_zero)
  have "syncd_msgs proc team rnd 0 n 0 (frame m) (after_recv (Suc (Suc 0)) s) =
      Some (MCLAG_ERROR, after_recv (Suc SYNCD_RECV_RETRY_MAX) (after_recv (Suc (Suc 0)) s))"
    using n fill header len by (simp add: syncd_msgs.simps [of proc team rnd 0] del: after_recv_add length_frame)
  with recv1 recv2 show ?thesis
    by (simp add: iccp_mclagsyncd_msg_handler_def syncd_first_def syncd_retry.simps n_def del: length_frame)
qed

section \<open>Concrete runs\<close>

text \<open>Two messages of a type the daemon does not know, the second in pieces, and one with its header cut.\<close>

definition a_syncd :: "recv_result list \<Rightarrow> System" where
  "a_syncd rs = (a_host (\<lambda>_. Sent 600))\<lparr>env_recv := (\<lambda>i. if i < length rs then rs ! i else RecvAgain)\<rparr>"

lemma a_syncd_feeds: "feeds (a_syncd rs) (rs @ replicate n RecvAgain)"
  by (simp add: feeds_def a_syncd_def a_host_def nth_append)

lemma a_syncd_feeds_part: "feeds (a_syncd (rs @ ds)) rs" "feeds (after_recv (length rs) (a_syncd (rs @ ds))) ds"
  using a_syncd_feeds [of "rs @ ds" 0] by (simp_all add: feeds_append)

theorem syncd_stream_framing_witness:
  "iccp_mclagsyncd_msg_handler (\<lambda>_. None) (\<lambda>_. None) (\<lambda>_. 0)
     (a_syncd [Received (frame (9, [1]) @ take 5 (frame (9, [2, 3, 4]))), Received [3], RecvAgain, Received [4]]) =
   Some (0, after_recv 4 (a_syncd [Received (frame (9, [1]) @ take 5 (frame (9, [2, 3, 4]))), Received [3], RecvAgain, Received [4]]))"
proof -
  let ?ds = "[Received [3], RecvAgain, Received [4]]"
  let ?first = "[Received (frame (9, [1]) @ take 5 (frame (9, [2, 3, 4])))]"
  have dispatch: "syncd_dispatch proc team rnd 9 buf pos len s = Some s" for proc team rnd buf pos len s
    by (simp add: syncd_dispatch_def const_defs)
  show ?thesis
    using syncd_stream_framing [of "a_syncd (?first @ ?ds)" "[(9, [1])]" "take 5 (frame (9, [2, 3, 4]))" "(9, [2, 3, 4])" "[3, 4]"
        "\<lambda>_. None" "\<lambda>_. None" "\<lambda>_. 0" "after_recv 1 (a_syncd (?first @ ?ds))" ?ds]
      a_syncd_feeds_part [of ?first ?ds]
    by (simp add: dispatch const_defs) (simp add: frame_def syncd_hdr_def le16_def numeral_eq_Suc)
qed

theorem split_header_lost_witness:
  "iccp_mclagsyncd_msg_handler (\<lambda>_. None) (\<lambda>_. None) (\<lambda>_. 0)
     (a_syncd [Received (take 3 (frame (2, [7, 8]))), Received (drop 3 (take 4 (frame (2, [7, 8])))), Received [7, 8]]) =
   Some (MCLAG_ERROR, after_recv 9
     (a_syncd [Received (take 3 (frame (2, [7, 8]))), Received (drop 3 (take 4 (frame (2, [7, 8])))), Received [7, 8]]))"
proof -
  let ?f = "frame (2, [7, 8])"
  let ?rs = "[Received (take 3 ?f), Received (drop 3 (take 4 ?f)), Received [7, 8]]"
  have "?f = take 3 ?f @ drop 3 (take 4 ?f) @ [7, 8]" by (simp add: frame_def syncd_hdr_def le16_def)
  then show ?thesis
    using split_header_lost [of "(2, [7, 8])" "take 3 ?f" "drop 3 (take 4 ?f)" "[[7, 8]]" "a_syncd ?rs" "\<lambda>_. None" "\<lambda>_. None" "\<lambda>_. 0"]
      a_syncd_feeds [of ?rs "Suc SYNCD_RECV_RETRY_MAX"]
    by (simp add: const_defs flip: length_0_conv)
qed

end
