(* ===== verification/Neigh_Learn.thy ===== *)
theory Neigh_Learn
  imports Lif_Events
begin

text \<open>
  Neighbours and addresses a node learns itself (\<open>iccp_ifm.c\<close>, \<open>iccp_netlink.c\<close>): neighbour events of
  the kernel, replies seen in ARP and ND packets, and addresses that are added to and removed from an
  interface. Netlink messages and packets are bytes; a read behind their end has no defined result.
  The address objects libnl makes of messages are records. The functions for ARP and ND have the same
  text on different types, and those for events and packets share the search for the session an
  entry belongs to.
\<close>

section \<open>Netlink attributes\<close>

definition RTM_NEWADDR :: u16 where "RTM_NEWADDR = 20"
definition RTM_NEWNEIGH :: u16 where "RTM_NEWNEIGH = 28"
definition RTM_DELNEIGH :: u16 where "RTM_DELNEIGH = 29"
definition NDA_DST :: nat where "NDA_DST = 1"
definition NDA_LLADDR :: nat where "NDA_LLADDR = 2"
definition NDA_MAX :: nat where "NDA_MAX = 14"
definition AF_INET :: u8 where "AF_INET = 2"
definition AF_INET6 :: u8 where "AF_INET6 = 10"
definition MAX_BUFSIZE :: nat where [const_defs]: "MAX_BUFSIZE = 4096"

lemmas netlink_consts = RTM_NEWADDR_def RTM_NEWNEIGH_def RTM_DELNEIGH_def NDA_DST_def NDA_LLADDR_def NDA_MAX_def
  AF_INET_def AF_INET6_def

text \<open>\<open>NLMSG_ALIGN\<close>, \<open>RTA_ALIGN\<close>: lengths are rounded up to a multiple of four.\<close>

definition align4 :: "nat \<Rightarrow> nat" where
  "align4 n = (n + 3) div 4 * 4"

lemma align4_ge: "n \<le> align4 n"
  by (simp add: align4_def)

text \<open>
  The attribute at the start of the bytes: its type, its payload and what follows. \<open>None\<close> is the end,
  when \<open>RTA_OK\<close> fails.
\<close>

definition rta_first :: "bytes \<Rightarrow> (nat \<times> bytes \<times> bytes) option" where
  "rta_first bs = do {
     (len, r) \<leftarrow> de_le16 bs;
     (ty, _) \<leftarrow> de_le16 r;
     let n = unat len;
     if n < 4 \<or> length bs < n then None
     else Some (unat ty, take (n - 4) (drop 4 bs), drop (align4 n) bs) }"

lemma rta_first_shorter: "rta_first bs = Some (ty, v, r) \<Longrightarrow> length r < length bs"
  by (auto simp: rta_first_def bind_eq_Some_conv Let_def align4_def elim!: de_le16.elims split: if_splits)

function ifm_parse_rtattr :: "nat \<Rightarrow> bytes \<Rightarrow> (nat \<Rightarrow> bytes option) \<Rightarrow> (nat \<Rightarrow> bytes option)" where
  "ifm_parse_rtattr mx bs tb =
     (case rta_first bs of None \<Rightarrow> tb
      | Some (ty, v, r) \<Rightarrow> ifm_parse_rtattr mx r (if ty \<le> mx then tb(ty \<mapsto> v) else tb))"
  by pat_completeness auto
termination
  by (relation "measure (\<lambda>(mx, bs, tb). length bs)") (auto dest: rta_first_shorter)

declare ifm_parse_rtattr.simps [simp del]

section \<open>The session of a neighbour\<close>

text \<open>
  The interface with the given index belongs to a session as a routed MCLAG port channel (no VLAN), or
  as the VLAN interface of a switched port channel or of the peer link.
\<close>

definition vlan_member :: "u16 \<Rightarrow> int \<Rightarrow> lif_ptr \<Rightarrow> System \<Rightarrow> VLAN_ID option" where
  "vlan_member vlan_id ifindex l s =
     (case vlan_find vlan_id (lif_vlan_tree (lif_of s l)) of None \<Rightarrow> None
      | Some v \<Rightarrow> (case vl_itf v of None \<Rightarrow> None
          | Some q \<Rightarrow> if lif_ifindex (lif_of s q) = ifindex then Some v else None))"

fun learn_on_mclag :: "u16 \<Rightarrow> int \<Rightarrow> lif_ptr list \<Rightarrow> System \<Rightarrow> VLAN_ID option option" where
  "learn_on_mclag vlan_id ifindex [] s = None"
| "learn_on_mclag vlan_id ifindex (l # ls) s =
     (let lif = lif_of s l
      in if lif_type lif \<noteq> IF_T_PORT_CHANNEL then learn_on_mclag vlan_id ifindex ls s
         else if \<not> local_if_is_l3_mode lif
         then (case vlan_member vlan_id ifindex l s of
                 None \<Rightarrow> learn_on_mclag vlan_id ifindex ls s | Some v \<Rightarrow> Some (Some v))
         else if ifindex \<noteq> lif_ifindex lif then learn_on_mclag vlan_id ifindex ls s
         else Some None)"

definition learn_on_peer_link :: "u16 \<Rightarrow> int \<Rightarrow> csm_ptr \<Rightarrow> System \<Rightarrow> VLAN_ID option" where
  "learn_on_peer_link vlan_id ifindex c s =
     (case csm_peer_link_if (csm_of s c) of None \<Rightarrow> None
      | Some l \<Rightarrow> if local_if_is_l3_mode (lif_of s l) then None else vlan_member vlan_id ifindex l s)"

fun learn_session :: "u16 \<Rightarrow> int \<Rightarrow> csm_ptr list \<Rightarrow> System \<Rightarrow> (csm_ptr \<times> VLAN_ID option) option" where
  "learn_session vlan_id ifindex [] s = None"
| "learn_session vlan_id ifindex (c # cs) s =
     (case learn_on_mclag vlan_id ifindex (ml_lif_list (MLACP (csm_of s c))) s of
        Some v \<Rightarrow> Some (c, v)
      | None \<Rightarrow> (case learn_on_peer_link vlan_id ifindex c s of
          Some v \<Rightarrow> Some (c, Some v)
        | None \<Rightarrow> learn_session vlan_id ifindex cs s))"

definition neigh_session :: "lif_ptr \<Rightarrow> int \<Rightarrow> System \<Rightarrow> (csm_ptr \<times> VLAN_ID option) option" where
  "neigh_session l ifindex s =
     learn_session (word_of_int (sscanf_Vlan (lif_name (lif_of s l)))) ifindex (sys_csm_list s) s"

text \<open>Whether the address is one of the VLAN interface the entry was seen on.\<close>

definition on_own_vlan :: "(LocalInterface \<Rightarrow> bool) \<Rightarrow> VLAN_ID option \<Rightarrow> System \<Rightarrow> bool" where
  "on_own_vlan mine vlan s =
     (case vlan of None \<Rightarrow> False
      | Some v \<Rightarrow> vl_vid v \<noteq> 0 \<and> (case vl_itf v of None \<Rightarrow> False | Some q \<Rightarrow> mine (lif_of s q)))"

text \<open>
  The list of known entries after an event: whether the peer is to be told, the list and the state.
  An entry that is the same as before changes nothing, and the deletion of an unknown one neither.
\<close>

definition remove_first :: "('a \<Rightarrow> bool) \<Rightarrow> 'a list \<Rightarrow> 'a list" where
  "remove_first P xs = (case find P xs of None \<Rightarrow> xs | Some x \<Rightarrow> remove1 x xs)"

definition neigh_local ::
  "('a \<Rightarrow> bool) \<Rightarrow> ('a \<Rightarrow> bool) \<Rightarrow> ('a \<Rightarrow> 'a) \<Rightarrow> 'a \<Rightarrow> bool \<Rightarrow> 'a list \<Rightarrow> System \<Rightarrow> bool \<times> 'a list \<times> System" where
  "neigh_local same differs refresh entry del xs s =
     (case find same xs of
        Some x \<Rightarrow> if del then (True, remove_first same xs, s)
                   else if differs x then (True, update_first same refresh xs, s) else (False, xs, s)
      | None \<Rightarrow> if del then (False, xs, s)
                else let (ok, s1) = msg_copied s in (True, if ok then xs @ [entry] else xs, s1))"

section \<open>Events of the kernel\<close>

text \<open>
  The address and the hardware address are copied into a zeroed buffer with the lengths of their
  attributes, one behind the other: \<open>n\<close> bytes from the address on are a part of the structure.
\<close>

definition copy_attrs :: "nat \<Rightarrow> nat \<Rightarrow> bytes \<Rightarrow> bytes \<Rightarrow> bytes option" where
  "copy_attrs n mac_off dst lladdr =
     (if MAX_BUFSIZE < 24 + length dst \<or> MAX_BUFSIZE < 24 + mac_off + length lladdr then None
      else let t = take n (dst @ drop (length dst) (replicate n 0))
           in Some (take n (take mac_off t @ lladdr @ drop (mac_off + length lladdr) t)))"

definition bcast_mac :: bytes where "bcast_mac = [0xFF, 0xFF, 0xFF, 0xFF, 0xFF, 0xFF]"

definition arp_event :: "string \<Rightarrow> bytes \<Rightarrow> bytes \<Rightarrow> ARPMsg option" where
  "arp_event name dst lladdr = do {
     t \<leftarrow> copy_attrs 12 4 dst lladdr;
     (addr, r) \<leftarrow> de_le32 t;
     Some \<lparr>arp_op_type = NEIGH_SYNC_LIF, arp_flag = 0, arp_learn_flag = 0,
       arp_ifname = c_array MAX_L_PORT_NAME name, arp_ipv4_addr = addr, arp_mac_addr = take 6 r\<rparr> }"

definition nd_event :: "string \<Rightarrow> bytes \<Rightarrow> bytes \<Rightarrow> NDISCMsg option" where
  "nd_event name dst lladdr = do {
     t \<leftarrow> copy_attrs 24 16 dst lladdr;
     Some \<lparr>nd_op_type = NEIGH_SYNC_LIF, nd_flag = 0, nd_learn_flag = 0,
       nd_ifname = c_array MAX_L_PORT_NAME name, nd_ipv6_addr = take 16 t, nd_mac_addr = take 6 (drop 16 t)\<rparr> }"

text \<open>Told to the peer only during the exchange; \<open>learn\<close> is the flag the entry was given, if it was new.\<close>

definition arp_tell :: "csm_ptr \<Rightarrow> bool \<Rightarrow> ARPMsg \<Rightarrow> System \<Rightarrow> System" where
  "arp_tell c del a s =
     (if ml_current_state (MLACP (csm_of s c)) = MLACP_STATE_EXCHANGE
      then arp_enqueue c (a\<lparr>arp_op_type := (if del then NEIGH_SYNC_DEL else NEIGH_SYNC_ADD), arp_flag := 0\<rparr>) s
      else s)"

definition ndisc_tell :: "csm_ptr \<Rightarrow> bool \<Rightarrow> NDISCMsg \<Rightarrow> System \<Rightarrow> System" where
  "ndisc_tell c del n s =
     (if ml_current_state (MLACP (csm_of s c)) = MLACP_STATE_EXCHANGE
      then ndisc_enqueue c (n\<lparr>nd_op_type := (if del then NEIGH_SYNC_DEL else NEIGH_SYNC_ADD), nd_flag := 0\<rparr>) s
      else s)"

text \<open>The comparison of a known entry with the one of the event.\<close>

definition arp_differs :: "ARPMsg \<Rightarrow> ARPMsg \<Rightarrow> bool" where
  "arp_differs a x \<longleftrightarrow> arp_op_type x \<noteq> arp_op_type a \<or> c_string (arp_ifname x) \<noteq> c_string (arp_ifname a)
     \<or> arp_mac_addr x \<noteq> arp_mac_addr a"

definition nd_differs :: "NDISCMsg \<Rightarrow> NDISCMsg \<Rightarrow> bool" where
  "nd_differs n x \<longleftrightarrow> nd_op_type x \<noteq> nd_op_type n \<or> c_string (nd_ifname x) \<noteq> c_string (nd_ifname n)
     \<or> nd_mac_addr x \<noteq> nd_mac_addr n"

definition arp_same :: "ARPMsg \<Rightarrow> ARPMsg \<Rightarrow> bool" where
  "arp_same a x \<longleftrightarrow> arp_ipv4_addr x = arp_ipv4_addr a"

definition nd_same :: "NDISCMsg \<Rightarrow> NDISCMsg \<Rightarrow> bool" where
  "nd_same n x \<longleftrightarrow> memcmp (nd_ipv6_addr x) (nd_ipv6_addr n) = 0"

definition arp_refresh :: "ARPMsg \<Rightarrow> ARPMsg \<Rightarrow> ARPMsg" where
  "arp_refresh a x = x\<lparr>arp_op_type := arp_op_type a, arp_ifname := arp_ifname a, arp_mac_addr := arp_mac_addr a\<rparr>"

definition nd_refresh :: "NDISCMsg \<Rightarrow> NDISCMsg \<Rightarrow> NDISCMsg" where
  "nd_refresh n x = x\<lparr>nd_op_type := nd_op_type n, nd_ifname := nd_ifname n, nd_mac_addr := nd_mac_addr n\<rparr>"

definition arp_known :: "csm_ptr \<Rightarrow> ARPMsg \<Rightarrow> bool \<Rightarrow> System \<Rightarrow> bool \<times> System" where
  "arp_known c a del s =
     (let (tell, as, s1) = neigh_local (arp_same a) (arp_differs a) (arp_refresh a)
            (a\<lparr>arp_op_type := NEIGH_SYNC_LIF, arp_learn_flag := NEIGH_LOCAL\<rparr>) del (ml_arp_list (MLACP (csm_of s c))) s
      in (tell, upd_ml c (\<lambda>m. m\<lparr>ml_arp_list := as\<rparr>) s1))"

text \<open>A new entry of the message was given the flag before the message is queued; another has none.\<close>

definition arp_flagged :: "csm_ptr \<Rightarrow> ARPMsg \<Rightarrow> bool \<Rightarrow> System \<Rightarrow> ARPMsg" where
  "arp_flagged c a del s =
     (if del \<or> list_ex (arp_same a) (ml_arp_list (MLACP (csm_of s c))) then a else a\<lparr>arp_learn_flag := NEIGH_LOCAL\<rparr>)"

definition do_arp_learn_from_kernel :: "int \<Rightarrow> bytes \<Rightarrow> bytes option \<Rightarrow> bool \<Rightarrow> bool \<Rightarrow> System \<Rightarrow> System option" where
  "do_arp_learn_from_kernel ifindex dst lladdr delneigh is_del s =
     (case local_if_find_by_ifindex ifindex s of None \<Rightarrow> Some s
      | Some l \<Rightarrow>
          (case arp_event (lif_name (lif_of s l)) dst (case lladdr of Some b \<Rightarrow> if is_del then [] else b | None \<Rightarrow> []) of None \<Rightarrow> None
           | Some a \<Rightarrow> Some (
               let del = (delneigh \<or> arp_mac_addr a = bcast_mac)
               in if \<not> delneigh \<and> lif_ipv4_addr (lif_of s l) = 0 then s
                  else case neigh_session l ifindex s of None \<Rightarrow> s
                    | Some (c, vlan) \<Rightarrow>
                        if on_own_vlan (\<lambda>lif. arp_ipv4_addr a = lif_ipv4_addr lif) vlan s then s
                        else let (tell, s1) = arp_known c a del s
                             in if tell then arp_tell c del (arp_flagged c a del s) s1 else s1)))"

text \<open>The addresses of the VLAN interface; the link-local one only counts for link-local entries.\<close>

definition nd_mine :: "NDISCMsg \<Rightarrow> LocalInterface \<Rightarrow> bool" where
  "nd_mine n lif \<longleftrightarrow> nd_ipv6_addr n = lif_ipv6_addr lif
     \<or> is_link_local (nd_ipv6_addr n) \<and> nd_ipv6_addr n = lif_ipv6_ll_addr lif"

definition ndisc_known :: "csm_ptr \<Rightarrow> (NDISCMsg \<Rightarrow> bool) \<Rightarrow> NDISCMsg \<Rightarrow> bool \<Rightarrow> System \<Rightarrow> bool \<times> System" where
  "ndisc_known c differs n del s =
     (let (tell, ns, s1) = neigh_local (nd_same n) differs (nd_refresh n)
            (n\<lparr>nd_op_type := NEIGH_SYNC_LIF, nd_learn_flag := NEIGH_LOCAL\<rparr>) del (ml_ndisc_list (MLACP (csm_of s c))) s
      in (tell, upd_ml c (\<lambda>m. m\<lparr>ml_ndisc_list := ns\<rparr>) s1))"

definition ndisc_flagged :: "csm_ptr \<Rightarrow> NDISCMsg \<Rightarrow> bool \<Rightarrow> System \<Rightarrow> NDISCMsg" where
  "ndisc_flagged c n del s =
     (if del \<or> list_ex (nd_same n) (ml_ndisc_list (MLACP (csm_of s c))) then n else n\<lparr>nd_learn_flag := NEIGH_LOCAL\<rparr>)"

text \<open>The known entry is compared with itself.\<close>

definition do_ndisc_learn_from_kernel :: "int \<Rightarrow> bytes \<Rightarrow> bytes option \<Rightarrow> bool \<Rightarrow> bool \<Rightarrow> System \<Rightarrow> System option" where
  "do_ndisc_learn_from_kernel ifindex dst lladdr delneigh is_del s =
     (case local_if_find_by_ifindex ifindex s of None \<Rightarrow> Some s
      | Some l \<Rightarrow>
          (case nd_event (lif_name (lif_of s l)) dst (case lladdr of Some b \<Rightarrow> if is_del then [] else b | None \<Rightarrow> []) of
             None \<Rightarrow> None
           | Some n \<Rightarrow> Some (
               if \<not> delneigh \<and> memcmp (lif_ipv6_addr (lif_of s l)) (replicate 16 0) = 0 then s
               else if nd_mac_addr n = bcast_mac then s
               else case neigh_session l ifindex s of None \<Rightarrow> s
                 | Some (c, vlan) \<Rightarrow>
                     if on_own_vlan (nd_mine n) vlan s then s
                     else let (tell, s1) = ndisc_known c (\<lambda>x. nd_differs x x) n delneigh s
                          in if tell then ndisc_tell c delneigh (ndisc_flagged c n delneigh s) s1 else s1)))"

text \<open>
  A neighbour message of the kernel: a header of 16 bytes, \<open>struct ndmsg\<close> of 12 bytes, attributes. A
  failed or unresolved entry counts as deleted; other entries without a hardware address are ignored.
\<close>

definition NUD_INCOMPLETE :: u16 where "NUD_INCOMPLETE = 0x01"
definition NUD_FAILED :: u16 where "NUD_FAILED = 0x20"
definition NUD_NOARP :: u16 where "NUD_NOARP = 0x40"
definition NUD_PERMANENT :: u16 where "NUD_PERMANENT = 0x80"
definition NUD_NONE :: u16 where "NUD_NONE = 0x00"
definition RTN_UNICAST :: u8 where "RTN_UNICAST = 1"

lemmas nud_consts = NUD_INCOMPLETE_def NUD_FAILED_def NUD_NOARP_def NUD_PERMANENT_def NUD_NONE_def RTN_UNICAST_def

record ndmsg =
  ndm_family :: u8
  ndm_ifindex :: u32
  ndm_state :: u16
  ndm_type :: u8

definition de_ndmsg :: "ndmsg decoder" where
  "de_ndmsg bs = do {
     (family, r) \<leftarrow> de_u8 bs;
     (_, r) \<leftarrow> de_bytes 3 r;
     (ifindex, r) \<leftarrow> de_le32 r;
     (state, r) \<leftarrow> de_le16 r;
     (_, r) \<leftarrow> de_u8 r;
     (ty, r) \<leftarrow> de_u8 r;
     Some (\<lparr>ndm_family = family, ndm_ifindex = ifindex, ndm_state = state, ndm_type = ty\<rparr>, r) }"

definition neigh_msg :: "bool \<Rightarrow> ndmsg \<Rightarrow> (nat \<Rightarrow> bytes option) \<Rightarrow> System \<Rightarrow> System option" where
  "neigh_msg delneigh ndm tb s =
     (let is_del = (ndm_state ndm = NUD_FAILED \<or> ndm_state ndm = NUD_INCOMPLETE);
          ignored = (ndm_state ndm = NUD_NOARP \<or> ndm_state ndm = NUD_PERMANENT \<or> ndm_state ndm = NUD_NONE)
      in case tb NDA_DST of None \<Rightarrow> Some s
         | Some dst \<Rightarrow>
             if ignored \<or> ndm_type ndm \<noteq> RTN_UNICAST then Some s
             else if ndm_family ndm = AF_INET
             then do_arp_learn_from_kernel (sint (ndm_ifindex ndm)) dst (tb NDA_LLADDR) (delneigh \<or> is_del) is_del s
             else if ndm_family ndm = AF_INET6
             then do_ndisc_learn_from_kernel (sint (ndm_ifindex ndm)) dst (tb NDA_LLADDR) (delneigh \<or> is_del) is_del s
             else Some s)"

definition do_one_neigh_request :: "bytes \<Rightarrow> System \<Rightarrow> (int \<times> System) option" where
  "do_one_neigh_request msg s = do {
     (nlmsg_len, r) \<leftarrow> de_le32 msg;
     (nlmsg_type, _) \<leftarrow> de_le16 r;
     if nlmsg_type \<noteq> RTM_NEWNEIGH \<and> nlmsg_type \<noteq> RTM_DELNEIGH then Some (0, s)
     else if sys_csm_list s = [] then Some (0, s)
     else if sint nlmsg_len < 28 then Some (MCLAG_ERROR, s)
     else if length msg < unat nlmsg_len then None
     else do {
       (ndm, _) \<leftarrow> de_ndmsg (drop 16 msg);
       t \<leftarrow> neigh_msg (nlmsg_type = RTM_DELNEIGH) ndm
              (ifm_parse_rtattr NDA_MAX (drop 28 (take (unat nlmsg_len) msg)) (\<lambda>_. None)) s;
       Some (0, t) } }"

section \<open>Packets\<close>

text \<open>
  The addresses of an interface, from the messages the kernel sends in answer to a request
  (\<open>dump\<close>, one list of bytes per \<open>recvmsg\<close>, until it fails). The address looked for is compared with
  the bytes of an address in the other order.
\<close>

definition IFA_ADDRESS :: nat where "IFA_ADDRESS = 1"
definition IFA_LOCAL :: nat where "IFA_LOCAL = 2"

function addr_attrs :: "bool \<Rightarrow> bytes \<Rightarrow> bytes \<Rightarrow> bool option" where
  "addr_attrs v6 addr bs =
     (case rta_first bs of None \<Rightarrow> Some False
      | Some (ty, v, r) \<Rightarrow>
          if ty = IFA_ADDRESS \<or> ty = IFA_LOCAL
          then (if length v < (if v6 then 16 else 4) then None
                else if take (if v6 then 16 else 4) v = (if v6 then addr else rev addr) then Some True
                else addr_attrs v6 addr r)
          else addr_attrs v6 addr r)"
  by pat_completeness auto
termination
  by (relation "measure (\<lambda>(v6, addr, bs). length bs)") (auto dest: rta_first_shorter)

text \<open>One datagram: \<open>Some True\<close> if the address is found, \<open>Some False\<close> at the end of the answer.\<close>

function addr_msgs :: "bool \<Rightarrow> bytes \<Rightarrow> int \<Rightarrow> bytes \<Rightarrow> bool option option" where
  "addr_msgs v6 addr ifindex bs =
     (case de_le32 bs of None \<Rightarrow> Some None
      | Some (nlmsg_len, r) \<Rightarrow>
          let len = unat nlmsg_len
          in if length bs < 16 \<or> len < 16 \<or> length bs < len then Some None
             else (case de_le16 r of None \<Rightarrow> Some None
               | Some (ty, _) \<Rightarrow>
                   if ty \<noteq> RTM_NEWADDR then Some (Some False)
                   else (case (de_u8 (drop 16 bs), de_le32 (drop 20 bs)) of
                       (Some (family, _), Some (index, _)) \<Rightarrow>
                         (case (if sint index = ifindex \<and> family = (if v6 then AF_INET6 else AF_INET)
                                then addr_attrs v6 addr (drop 24 (take len bs)) else Some False) of
                            None \<Rightarrow> None
                          | Some True \<Rightarrow> Some (Some True)
                          | Some False \<Rightarrow> addr_msgs v6 addr ifindex (drop (align4 len) bs))
                     | _ \<Rightarrow> None)))"
  by pat_completeness auto
termination
  by (relation "measure (\<lambda>(v6, addr, i, bs). length bs)") (auto simp: align4_def)

declare addr_attrs.simps [simp del] addr_msgs.simps [simp del]

fun iccp_check_if_addr_from_netlink :: "bytes list \<Rightarrow> bool \<Rightarrow> bytes \<Rightarrow> int \<Rightarrow> bool option" where
  "iccp_check_if_addr_from_netlink [] v6 addr ifindex = Some False"
| "iccp_check_if_addr_from_netlink (d # ds) v6 addr ifindex =
     (if d = [] then Some False else case addr_msgs v6 addr ifindex d of None \<Rightarrow> None
      | Some (Some b) \<Rightarrow> Some b
      | Some None \<Rightarrow> iccp_check_if_addr_from_netlink ds v6 addr ifindex)"

text \<open>An address and a hardware address seen in a reply; a known entry is sent to the peer again.\<close>

definition arp_reply :: "string \<Rightarrow> bytes \<Rightarrow> bytes \<Rightarrow> ARPMsg option" where
  "arp_reply name addr hw = do {
     (ip, _) \<leftarrow> de_le32 addr;
     Some \<lparr>arp_op_type = NEIGH_SYNC_LIF, arp_flag = 0, arp_learn_flag = 0,
       arp_ifname = c_array MAX_L_PORT_NAME name, arp_ipv4_addr = ip, arp_mac_addr = hw\<rparr> }"

definition arp_seen :: "bytes list \<Rightarrow> int \<Rightarrow> bytes \<Rightarrow> ARPMsg \<Rightarrow> csm_ptr \<Rightarrow> VLAN_ID option \<Rightarrow> System \<Rightarrow> System option" where
  "arp_seen dump ifindex addr a c vlan s = do {
     own \<leftarrow> (if (case vlan of None \<Rightarrow> True | Some v \<Rightarrow> vl_vid v = 0)
            then iccp_check_if_addr_from_netlink dump False addr ifindex
            else Some (on_own_vlan (\<lambda>lif. arp_ipv4_addr a = lif_ipv4_addr lif) vlan s));
     Some (if own then s else arp_tell c False (arp_flagged c a False s) (snd (arp_known c a False s))) }"

definition do_arp_update_from_reply_packet :: "bytes list \<Rightarrow> int \<Rightarrow> bytes \<Rightarrow> bytes \<Rightarrow> System \<Rightarrow> System option" where
  "do_arp_update_from_reply_packet dump ifindex addr hw s =
     (case local_if_find_by_ifindex ifindex s of None \<Rightarrow> Some s
      | Some l \<Rightarrow> do {
          a \<leftarrow> arp_reply (lif_name (lif_of s l)) addr hw;
          if lif_ipv4_addr (lif_of s l) = 0 \<or> hw = bcast_mac then Some s
          else (case neigh_session l ifindex s of None \<Rightarrow> Some s
            | Some (c, vlan) \<Rightarrow> arp_seen dump (lif_ifindex (lif_of s l)) addr a c vlan s) })"

text \<open>
  An advertisement need not have a hardware address (it is zero then), and the entry keeps the one it
  has. The entry is also given to the kernel, and only told to the peer if the kernel takes it.
\<close>

definition do_ndisc_update_from_reply_packet :: "int \<Rightarrow> bytes \<Rightarrow> bytes \<Rightarrow> System \<Rightarrow> System" where
  "do_ndisc_update_from_reply_packet ifindex ipv6_addr hw s =
     (case local_if_find_by_ifindex ifindex s of None \<Rightarrow> s
      | Some l \<Rightarrow>
          let name = lif_name (lif_of s l);
              n = \<lparr>nd_op_type = NEIGH_SYNC_LIF, nd_flag = 0, nd_learn_flag = 0,
                   nd_ifname = c_array MAX_L_PORT_NAME name, nd_ipv6_addr = ipv6_addr, nd_mac_addr = hw\<rparr>
          in if memcmp (lif_ipv6_addr (lif_of s l)) (replicate 16 0) = 0 \<or> hw = bcast_mac then s
             else case neigh_session l ifindex s of None \<Rightarrow> s
               | Some (c, vlan) \<Rightarrow>
                   if on_own_vlan (nd_mine n) vlan s then s
                   else
                     let known = find (nd_same n) (ml_ndisc_list (MLACP (csm_of s c)))
                     in if known = None \<and> hw = null_mac then s
                        else
                          let n1 = (case known of
                                 Some x \<Rightarrow> if hw = null_mac then n\<lparr>nd_mac_addr := nd_mac_addr x\<rparr> else n
                               | None \<Rightarrow> n);
                              s1 = snd (ndisc_known c (nd_differs n1) n1 False s);
                              (err, s2) = iccp_netlink_neighbor_request True ipv6_addr True (nd_mac_addr n1) name False s1
                          in if err < 0 \<and> err \<noteq> ICCP_NLE_SEQ_MISMATCH then s2
                             else ndisc_tell c False (ndisc_flagged c n1 False s) s2)"

text \<open>The ARP header has 8 bytes; only replies for IPv4 with the length of the link's addresses count.\<close>

definition iccp_receive_arp_packet_handler :: "bytes list \<Rightarrow> bytes \<Rightarrow> u8 \<Rightarrow> int \<Rightarrow> System \<Rightarrow> (int \<times> System) option" where
  "iccp_receive_arp_packet_handler dump buf halen ifindex s =
     (if length buf < 8 then Some (0, s)
      else do {
        (_, r) \<leftarrow> de_le16 buf;
        (pro, r) \<leftarrow> de_le16 r;
        (hln, r) \<leftarrow> de_u8 r;
        (pln, r) \<leftarrow> de_u8 r;
        (opc, r) \<leftarrow> de_le16 r;
        if opc \<noteq> htons 2 \<or> pln \<noteq> 4 \<or> pro \<noteq> htons 0x0800 \<or> hln \<noteq> halen \<or> length buf < 16 + 2 * unat hln
           \<or> sys_csm_list s = [] then Some (0, s)
        else map_option (Pair 0)
               (do_arp_update_from_reply_packet dump ifindex (take 4 (drop (unat hln) r)) (take 6 r) s) })"

text \<open>
  The options behind the header of an advertisement. The inner \<open>None\<close> ends the handler. The rest of the
  length becomes negative when an option is longer than the packet, and the loop then reads on.
\<close>

function nd_options :: "bytes \<Rightarrow> bytes option option" where
  "nd_options opt =
     (case opt of [] \<Rightarrow> Some (Some null_mac)
      | [_] \<Rightarrow> Some None
      | ty # l # r \<Rightarrow>
          if l = 0 then Some None
          else if ty = 2 then (if length r < 6 then None else Some (Some (take 6 r)))
          else if length opt < 8 * unat l then None
          else nd_options (drop (8 * unat l) opt))"
  by pat_completeness auto
termination
  by (relation "measure length") (auto simp: unat_gt_0)

declare nd_options.simps [simp del]

definition NDISC_NEIGHBOUR_ADVERTISEMENT :: u8 where "NDISC_NEIGHBOUR_ADVERTISEMENT = 136"

definition iccp_receive_ndisc_packet_handler :: "bytes \<Rightarrow> int \<Rightarrow> System \<Rightarrow> (int \<times> System) option" where
  "iccp_receive_ndisc_packet_handler buf ifindex s =
     (if sys_csm_list s = [] then Some (0, s)
      else case buf of [] \<Rightarrow> None
      | ty # _ \<Rightarrow>
          if ty \<noteq> NDISC_NEIGHBOUR_ADVERTISEMENT then Some (0, s)
          else if length buf < 24 then None
          else (case nd_options (drop 24 buf) of None \<Rightarrow> None
            | Some None \<Rightarrow> Some (0, s)
            | Some (Some mac) \<Rightarrow> Some (0, do_ndisc_update_from_reply_packet ifindex (take 16 (drop 8 buf)) mac s)))"

section \<open>Addresses of interfaces\<close>

definition iccp_del_self_ip_from_neigh_table :: "lif_ptr \<Rightarrow> bool \<Rightarrow> System \<Rightarrow> System" where
  "iccp_del_self_ip_from_neigh_table l v6 s =
     (let lif = lif_of s l;
          arp = (\<lambda>a. arp_ipv4_addr a = lif_ipv4_addr lif); nd = (\<lambda>n. memcmp (nd_ipv6_addr n) (lif_ipv6_addr lif) = 0)
      in if v6
         then (case find (\<lambda>c. list_ex nd (ml_ndisc_list (MLACP (csm_of s c)))) (sys_csm_list s) of None \<Rightarrow> s
           | Some c \<Rightarrow> upd_ml c (\<lambda>m. m\<lparr>ml_ndisc_list := remove_first nd (ml_ndisc_list m)\<rparr>) s)
         else (case find (\<lambda>c. list_ex arp (ml_arp_list (MLACP (csm_of s c)))) (sys_csm_list s) of None \<Rightarrow> s
           | Some c \<Rightarrow> upd_ml c (\<lambda>m. m\<lparr>ml_arp_list := remove_first arp (ml_arp_list m)\<rparr>) s))"

text \<open>An address object of libnl: the family (neither of the two for others), address and prefix.\<close>

datatype addr_family = Inet | Inet6 | OtherFamily

record rtnl_addr =
  ra_ifindex :: int
  ra_family :: addr_family
  ra_local :: bytes
  ra_prefixlen :: u8

definition no_ipv6 :: "LocalInterface \<Rightarrow> bool" where
  "no_ipv6 lif \<longleftrightarrow> memcmp (lif_ipv6_addr lif) (replicate 16 0) = 0"

text \<open>The first address makes an interface routed; the address of the standby node follows.\<close>

definition newaddr_set :: "lif_ptr \<Rightarrow> bool \<Rightarrow> bool \<Rightarrow> System \<Rightarrow> System" where
  "newaddr_set l v6 first s =
     (let s1 = upd_lif l (\<lambda>i. i\<lparr>lif_l3_mode := 1, lif_port_config_sync := 1\<rparr>) s;
          s2 = (if first then update_vlan_if_mac_on_standby l (update_if_ipmac_on_standby l s1) else s1);
          s3 = iccp_del_self_ip_from_neigh_table l v6 s2
      in if lif_is_l3_proto_enabled (lif_of s3 l)
         then snd (syn_local_neigh_mac_info_to_peer l True (\<not> v6) v6 first True False s3) else s3)"

definition iccp_event_handler_obj_input_newaddr :: "rtnl_addr \<Rightarrow> System \<Rightarrow> System option" where
  "iccp_event_handler_obj_input_newaddr addr s =
     (case local_if_find_by_ifindex (ra_ifindex addr) s of None \<Rightarrow> Some s
      | Some l \<Rightarrow>
          let lif = lif_of s l
          in case ra_family addr of
               Inet \<Rightarrow>
                 (case de_le32 (ra_local addr) of None \<Rightarrow> None
                  | Some (ip, _) \<Rightarrow>
                      Some (if lif_ipv4_addr lif \<noteq> 0 then s
                        else newaddr_set l False (no_ipv6 lif)
                               (upd_lif l (\<lambda>i. i\<lparr>lif_ipv4_addr := ip, lif_prefixlen := ra_prefixlen addr\<rparr>) s)))
             | Inet6 \<Rightarrow>
                 if length (ra_local addr) < 16 then None
                 else let ip = take 16 (ra_local addr)
                      in Some (if is_link_local ip
                         then upd_lif l (\<lambda>i. i\<lparr>lif_ipv6_ll_addr := ip, lif_ll_prefixlen_v6 := ra_prefixlen addr\<rparr>) s
                         else if \<not> no_ipv6 lif then s
                         else newaddr_set l True (lif_ipv4_addr lif = 0)
                                (upd_lif l (\<lambda>i. i\<lparr>lif_ipv6_addr := ip, lif_prefixlen_v6 := ra_prefixlen addr\<rparr>) s))
             | OtherFamily \<Rightarrow> Some s)"

definition deladdr_last :: "lif_ptr \<Rightarrow> int \<Rightarrow> bool \<Rightarrow> bool \<Rightarrow> System \<Rightarrow> System" where
  "deladdr_last l dir v6 only s =
     (let s1 = (if only \<and> lif_master_ifindex (lif_of s l) = 0 then recover_vlan_if_mac_on_standby l dir None s else s)
      in if lif_is_l3_proto_enabled (lif_of s1 l)
         then snd (syn_local_neigh_mac_info_to_peer l False (\<not> v6) v6 only False False s1) else s1)"

definition deladdr_mode :: "lif_ptr \<Rightarrow> System \<Rightarrow> System" where
  "deladdr_mode l s =
     (let lif = lif_of s l
      in if lif_ipv4_addr lif = 0 \<and> lif_master_ifindex lif = 0 \<and> no_ipv6 lif
         then upd_lif l (\<lambda>i. i\<lparr>lif_l3_mode := 0, lif_l3_mac_addr := null_mac\<rparr>) s else s)"

definition iccp_event_handler_obj_input_deladdr :: "rtnl_addr \<Rightarrow> System \<Rightarrow> System option" where
  "iccp_event_handler_obj_input_deladdr addr s =
     (case local_if_find_by_ifindex (ra_ifindex addr) s of None \<Rightarrow> Some s
      | Some l \<Rightarrow>
          let lif = lif_of s l
          in case ra_family addr of
               Inet \<Rightarrow>
                 (case de_le32 (ra_local addr) of None \<Rightarrow> None
                  | Some (ip, _) \<Rightarrow>
                      Some (if lif_ipv4_addr lif \<noteq> ip then s
                        else deladdr_mode l (upd_lif l (\<lambda>i. i\<lparr>lif_ipv4_addr := 0, lif_prefixlen := 0\<rparr>)
                               (deladdr_last l 2 False (no_ipv6 lif) s))))
             | Inet6 \<Rightarrow>
                 if length (ra_local addr) < 16 then None
                 else let ip = take 16 (ra_local addr)
                      in Some (if is_link_local ip
                         then upd_lif l (\<lambda>i. i\<lparr>lif_ipv6_ll_addr := replicate 16 0, lif_ll_prefixlen_v6 := 0\<rparr>) s
                         else if memcmp (lif_ipv6_addr lif) ip \<noteq> 0 then s
                         else deladdr_mode l (upd_lif l (\<lambda>i. i\<lparr>lif_ipv6_addr := replicate 16 0, lif_prefixlen_v6 := 0\<rparr>)
                                (deladdr_last l 3 True (lif_ipv4_addr lif = 0) s)))
             | OtherFamily \<Rightarrow> Some (deladdr_mode l s))"

text \<open>
  The events of the routing socket: links and addresses as libnl objects, neighbours as messages. The
  counters of messages are left out.
\<close>

datatype route_event =
  NewLink rtnl_link | DelLink int | NeighMsg bytes | NewAddr rtnl_addr | DelAddr rtnl_addr | OtherEvent

definition iccp_route_event_handler ::
  "(string \<Rightarrow> char option) \<Rightarrow> team \<Rightarrow> route_event \<Rightarrow> System \<Rightarrow> System option" where
  "iccp_route_event_handler proc team ev s =
     (case ev of
        NewLink k \<Rightarrow> iccp_event_handler_obj_input_newlink proc team k s
      | DelLink i \<Rightarrow> iccp_event_handler_obj_input_dellink proc i s
      | NeighMsg msg \<Rightarrow> map_option snd (do_one_neigh_request msg s)
      | NewAddr a \<Rightarrow> iccp_event_handler_obj_input_newaddr a s
      | DelAddr a \<Rightarrow> iccp_event_handler_obj_input_deladdr a s
      | OtherEvent \<Rightarrow> Some s)"

section \<open>The lists of known entries\<close>

context neighbour_list
begin

lemma removed_first:
  assumes "entries_ok addr ok xs" "ok e"
  shows "entries_ok addr ok (remove_first (same e) xs)"
    "entry_at addr k (remove_first (same e) xs) = (if k = addr e then None else entry_at addr k xs)"
proof -
  have "entries_ok addr ok (remove_first (same e) xs) \<and>
    (\<forall>k. entry_at addr k (remove_first (same e) xs) = (if k = addr e then None else entry_at addr k xs))"
    using lookup_remove1 [OF assms(1), of "addr e"] assms(1)
    by (auto simp: remove_first_def find_same [OF assms] split: option.split)
  then show "entries_ok addr ok (remove_first (same e) xs)"
    "entry_at addr k (remove_first (same e) xs) = (if k = addr e then None else entry_at addr k xs)" by auto
qed

text \<open>What an event does to the list, and when the peer is told.\<close>

lemma local_event:
  assumes "entries_ok addr ok xs" "ok e" "neigh_local (same e) differs (refresh e) (new e) del xs s = (tell, ys, t)"
  shows "entries_ok addr ok ys" "k \<noteq> addr e \<Longrightarrow> entry_at addr k ys = entry_at addr k xs"
    "del \<Longrightarrow> entry_at addr (addr e) ys = None"
    "\<not> del \<Longrightarrow> fst (msg_copied s) \<Longrightarrow> entry_at addr (addr e) ys =
      Some (case entry_at addr (addr e) xs of None \<Rightarrow> new e | Some x \<Rightarrow> if differs x then refresh e x else x)"
    "tell \<longleftrightarrow> (case entry_at addr (addr e) xs of None \<Rightarrow> \<not> del | Some x \<Rightarrow> del \<or> differs x)"
proof -
  note found = find_same [OF assms(1,2)]
  have "entries_ok addr ok ys \<and> (k \<noteq> addr e \<longrightarrow> entry_at addr k ys = entry_at addr k xs) \<and>
    (del \<longrightarrow> entry_at addr (addr e) ys = None) \<and>
    (\<not> del \<longrightarrow> fst (msg_copied s) \<longrightarrow> entry_at addr (addr e) ys =
      Some (case entry_at addr (addr e) xs of None \<Rightarrow> new e | Some x \<Rightarrow> if differs x then refresh e x else x)) \<and>
    (tell \<longleftrightarrow> (case entry_at addr (addr e) xs of None \<Rightarrow> \<not> del | Some x \<Rightarrow> del \<or> differs x))"
  proof (cases "entry_at addr (addr e) xs")
    case None
    then have "addr e \<notin> addr ` set xs" by (simp add: lookup_None)
    then have "entries_ok addr ok (xs @ [new e])"
      using assms(1,2) by (auto simp: entries_ok_def addr_new ok_new)
    then show ?thesis
      using assms None
      by (auto simp: neigh_local_def found lookup_append lookup_single addr_new split: if_splits prod.splits option.splits)
  next
    case (Some x)
    then show ?thesis
      using assms removed_first [OF assms(1,2)] refreshed [OF assms(1,2)]
      by (auto simp: neigh_local_def found split: if_splits)
  qed
  then show "entries_ok addr ok ys" "k \<noteq> addr e \<Longrightarrow> entry_at addr k ys = entry_at addr k xs"
    "del \<Longrightarrow> entry_at addr (addr e) ys = None"
    "\<not> del \<Longrightarrow> fst (msg_copied s) \<Longrightarrow> entry_at addr (addr e) ys =
      Some (case entry_at addr (addr e) xs of None \<Rightarrow> new e | Some x \<Rightarrow> if differs x then refresh e x else x)"
    "tell \<longleftrightarrow> (case entry_at addr (addr e) xs of None \<Rightarrow> \<not> del | Some x \<Rightarrow> del \<or> differs x)" by auto
qed

end

interpretation own_arp: neighbour_list arp_ipv4_addr "\<lambda>_. True" arp_same arp_refresh
  "\<lambda>e. e\<lparr>arp_op_type := NEIGH_SYNC_LIF, arp_learn_flag := NEIGH_LOCAL\<rparr>"
  by unfold_locales (simp_all add: arp_same_def arp_refresh_def)

interpretation own_nd: neighbour_list nd_ipv6_addr "\<lambda>n. length (nd_ipv6_addr n) = 16" nd_same nd_refresh
  "\<lambda>e. e\<lparr>nd_op_type := NEIGH_SYNC_LIF, nd_learn_flag := NEIGH_LOCAL\<rparr>"
  by unfold_locales (simp_all add: nd_same_def nd_refresh_def memcmp_eq_0)

lemma neigh_local_state:
  assumes "neigh_local same differs refresh entry del xs s = (tell, ys, t)"
  shows "sys_csm_heap t = sys_csm_heap s" "env_malloc t = env_malloc s"
proof -
  have "t = s \<or> t = snd (msg_copied s)"
    using assms by (auto simp: neigh_local_def split: option.splits if_splits prod.splits)
  moreover have "env_malloc (snd (msg_copied s)) = env_malloc s"
    by (simp add: msg_copied_def malloc_def Let_def)
  ultimately show "sys_csm_heap t = sys_csm_heap s" "env_malloc t = env_malloc s" by auto
qed

section \<open>One entry for each address\<close>

lemma known_ok_arp_known: "known_ok d s \<Longrightarrow> known_ok d (snd (arp_known c a del s))"
proof -
  assume ok: "known_ok d s"
  obtain tell as t where r: "neigh_local (arp_same a) (arp_differs a) (arp_refresh a)
      (a\<lparr>arp_op_type := NEIGH_SYNC_LIF, arp_learn_flag := NEIGH_LOCAL\<rparr>) del (ml_arp_list (MLACP (csm_of s c))) s = (tell, as, t)"
    by (metis prod_cases3)
  have "entries_ok arp_ipv4_addr (\<lambda>_. True) as" if "d = c"
    using own_arp.local_event(1) [OF _ _ r] ok that by (simp add: known_ok_def)
  then show ?thesis using ok neigh_local_state [OF r] by (auto simp: arp_known_def r known_ok_def)
qed

lemma known_ok_ndisc_known:
  assumes "known_ok d s" "length (nd_ipv6_addr n) = 16"
  shows "known_ok d (snd (ndisc_known c differs n del s))"
proof -
  obtain tell ns t where r: "neigh_local (nd_same n) differs (nd_refresh n)
      (n\<lparr>nd_op_type := NEIGH_SYNC_LIF, nd_learn_flag := NEIGH_LOCAL\<rparr>) del (ml_ndisc_list (MLACP (csm_of s c))) s = (tell, ns, t)"
    by (metis prod_cases3)
  have "entries_ok nd_ipv6_addr (\<lambda>n. length (nd_ipv6_addr n) = 16) ns" if "d = c"
    using own_nd.local_event(1) [OF _ _ r] assms that by (simp add: known_ok_def)
  then show ?thesis using assms(1) neigh_local_state [OF r] by (auto simp: ndisc_known_def r known_ok_def)
qed

lemma known_ok_heap: "sys_csm_heap t = sys_csm_heap s \<Longrightarrow> known_ok d t = known_ok d s"
  by (simp add: known_ok_def)

lemma known_ok_enqueue [simp]:
  "known_ok d (arp_enqueue c a s) = known_ok d s" "known_ok d (ndisc_enqueue c n s) = known_ok d s"
proof -
  obtain ok t where r: "msg_copied s = (ok, t)" by fastforce
  then have "sys_csm_heap t = sys_csm_heap s" using msg_copied_sel [of s] by simp
  then show "known_ok d (arp_enqueue c a s) = known_ok d s" "known_ok d (ndisc_enqueue c n s) = known_ok d s"
    by (simp_all add: arp_enqueue_def ndisc_enqueue_def r known_ok_def)
qed

lemma known_ok_tell [simp]:
  "known_ok d (arp_tell c del a s) = known_ok d s" "known_ok d (ndisc_tell c del n s) = known_ok d s"
  by (simp_all add: arp_tell_def ndisc_tell_def)

lemma nd_event_length: "nd_event name dst ll = Some n \<Longrightarrow> length (nd_ipv6_addr n) = 16"
  by (auto simp: nd_event_def copy_attrs_def bind_eq_Some_conv Let_def split: if_splits)

lemma known_ok_arp_kernel:
  "known_ok d s \<Longrightarrow> do_arp_learn_from_kernel i dst ll dn is_del s = Some t \<Longrightarrow> known_ok d t"
  using known_ok_arp_known [of d s]
  by (auto simp: do_arp_learn_from_kernel_def Let_def case_prod_beta split: option.splits if_splits)

lemma known_ok_ndisc_kernel:
  "known_ok d s \<Longrightarrow> do_ndisc_learn_from_kernel i dst ll dn is_del s = Some t \<Longrightarrow> known_ok d t"
  using known_ok_ndisc_known [of d s]
  by (auto simp: do_ndisc_learn_from_kernel_def Let_def case_prod_beta nd_event_length split: option.splits if_splits)

lemma known_ok_neigh_request: "known_ok d s \<Longrightarrow> do_one_neigh_request msg s = Some (rc, t) \<Longrightarrow> known_ok d t"
  by (auto simp: do_one_neigh_request_def neigh_msg_def bind_eq_Some_conv Let_def
      dest: known_ok_arp_kernel known_ok_ndisc_kernel split: if_splits option.splits)

lemma arp_reply_cases:
  assumes "do_arp_update_from_reply_packet dump i addr hw s = Some t"
  shows "t = s \<or> (\<exists>c a. t = arp_tell c False (arp_flagged c a False s) (snd (arp_known c a False s)))"
proof -
  have "t = s \<or> (\<exists>a c vlan j. arp_seen dump j addr a c vlan s = Some t)"
    using assms by (auto simp: do_arp_update_from_reply_packet_def bind_eq_Some_conv split: option.splits if_splits) blast+
  then show ?thesis by (auto simp: arp_seen_def bind_eq_Some_conv split: if_splits)
qed

lemma known_ok_arp_packet:
  assumes "known_ok d s" "iccp_receive_arp_packet_handler dump buf halen i s = Some (rc, t)"
  shows "known_ok d t"
proof -
  have "t = s \<or> (\<exists>addr hw. do_arp_update_from_reply_packet dump i addr hw s = Some t)"
    using assms(2) by (auto simp: iccp_receive_arp_packet_handler_def bind_eq_Some_conv split: if_splits)
  with assms(1) show ?thesis
    by (auto dest!: arp_reply_cases simp: known_ok_arp_known)
qed

lemma known_ok_ndisc_reply:
  assumes "known_ok d s" "length addr = 16"
  shows "known_ok d (do_ndisc_update_from_reply_packet i addr hw s)"
proof -
  have "known_ok d (snd (iccp_netlink_neighbor_request v6 a True m nm p (snd (ndisc_known c diff n False s))))"
    if "length (nd_ipv6_addr n) = 16" for v6 a m nm p c diff n
    using known_ok_ndisc_known [OF assms(1) that, of c diff False] known_ok_sync [OF same_sync_request] by blast
  then show ?thesis
    using assms
    by (auto simp: do_ndisc_update_from_reply_packet_def Let_def case_prod_beta split: option.split)
qed

lemma known_ok_ndisc_packet:
  "known_ok d s \<Longrightarrow> iccp_receive_ndisc_packet_handler buf i s = Some (rc, t) \<Longrightarrow> known_ok d t"
  by (auto simp: iccp_receive_ndisc_packet_handler_def known_ok_ndisc_reply split: if_splits list.splits option.splits)

lemma known_ok_upd_lif [simp]: "known_ok d (upd_lif l f s) = known_ok d s"
  by (simp add: known_ok_def)

lemma known_ok_standby [simp]:
  "known_ok d (update_vlan_if_mac_on_standby l s) = known_ok d s"
  "known_ok d (recover_vlan_if_mac_on_standby l dir m s) = known_ok d s"
  "known_ok d (update_if_ipmac_on_standby l s) = known_ok d s"
  using addr_only_update_vlan [of s l] addr_only_recover_vlan [of s l dir m] addr_only_update_if [of s l]
  by (auto intro!: known_ok_heap simp: addr_only_def)

lemma known_ok_told [simp]: "known_ok d (snd (syn_local_neigh_mac_info_to_peer l a v4 v6 m k ll s)) = known_ok d s"
  by (rule known_ok_sync) simp

lemma known_ok_remove_first:
  assumes "known_ok d s"
  shows "known_ok d (upd_ml c (\<lambda>m. m\<lparr>ml_arp_list := remove_first (\<lambda>a. arp_ipv4_addr a = ip) (ml_arp_list m)\<rparr>) s)"
    and "length ip6 = 16 \<Longrightarrow>
      known_ok d (upd_ml c (\<lambda>m. m\<lparr>ml_ndisc_list := remove_first (\<lambda>n. memcmp (nd_ipv6_addr n) ip6 = 0) (ml_ndisc_list m)\<rparr>) s)"
proof -
  obtain a :: ARPMsg where a: "arp_ipv4_addr a = ip" by (metis ARPMsg.select_convs(5))
  show "known_ok d (upd_ml c (\<lambda>m. m\<lparr>ml_arp_list := remove_first (\<lambda>a. arp_ipv4_addr a = ip) (ml_arp_list m)\<rparr>) s)"
    using assms own_arp.removed_first(1) [of _ a] by (auto simp: known_ok_def arp_same_def [abs_def] a)
  obtain n :: NDISCMsg where n: "nd_ipv6_addr n = ip6" by (metis NDISCMsg.select_convs(5))
  show "known_ok d (upd_ml c (\<lambda>m. m\<lparr>ml_ndisc_list := remove_first (\<lambda>n. memcmp (nd_ipv6_addr n) ip6 = 0) (ml_ndisc_list m)\<rparr>) s)"
    if "length ip6 = 16"
    using assms own_nd.removed_first(1) [of _ n] that by (auto simp: known_ok_def nd_same_def [abs_def] n)
qed

lemma known_ok_del_self:
  assumes "known_ok d s" "v6 \<Longrightarrow> length (lif_ipv6_addr (lif_of s l)) = 16"
  shows "known_ok d (iccp_del_self_ip_from_neigh_table l v6 s)"
  using assms by (auto simp: iccp_del_self_ip_from_neigh_table_def Let_def known_ok_remove_first split: option.split)

lemma known_ok_newaddr_set:
  assumes "known_ok d s" "v6 \<Longrightarrow> length (lif_ipv6_addr (lif_of s l)) = 16"
  shows "known_ok d (newaddr_set l v6 first s)"
proof -
  let ?s1 = "upd_lif l (\<lambda>i. i\<lparr>lif_l3_mode := 1, lif_port_config_sync := 1\<rparr>) s"
  let ?s2 = "if first then update_vlan_if_mac_on_standby l (update_if_ipmac_on_standby l ?s1) else ?s1"
  have "addr_only ?s1 ?s2"
    by (auto intro: addr_only_trans [OF addr_only_update_if addr_only_update_vlan])
  then have "wipe_addr (lif_of ?s2 l) = wipe_addr (lif_of ?s1 l)" by (simp add: addr_only_def)
  from arg_cong [OF this, of lif_ipv6_addr] have "lif_ipv6_addr (lif_of ?s2 l) = lif_ipv6_addr (lif_of ?s1 l)"
    by (simp add: wipe_addr_def)
  then have "known_ok d (iccp_del_self_ip_from_neigh_table l v6 ?s2)"
    using assms by (intro known_ok_del_self) (auto split: if_splits)
  then show ?thesis by (simp add: newaddr_set_def Let_def)
qed

lemma known_ok_newaddr:
  "known_ok d s \<Longrightarrow> iccp_event_handler_obj_input_newaddr a s = Some t \<Longrightarrow> known_ok d t"
  by (auto simp: iccp_event_handler_obj_input_newaddr_def Let_def known_ok_newaddr_set
      split: option.splits addr_family.splits if_splits)

lemma known_ok_deladdr_steps [simp]:
  "known_ok d (deladdr_mode l s) = known_ok d s" "known_ok d (deladdr_last l dir v6 only s) = known_ok d s"
  by (simp_all add: deladdr_mode_def deladdr_last_def Let_def)

lemma known_ok_deladdr:
  "known_ok d s \<Longrightarrow> iccp_event_handler_obj_input_deladdr a s = Some t \<Longrightarrow> known_ok d t"
  by (auto simp: iccp_event_handler_obj_input_deladdr_def Let_def simp del: known_ok_upd_lif
      split: option.splits addr_family.splits if_splits) simp_all

text \<open>Everything that changes the lists of known neighbours while a session is up.\<close>

inductive neigh_event :: "System \<Rightarrow> System \<Rightarrow> bool" where
  peer_arp: "mlacp_fsm_update_arp_info c tlv s = Some t \<Longrightarrow> neigh_event s t"
| peer_nd: "mlacp_fsm_update_ndisc_info c tlv s = Some t \<Longrightarrow> neigh_event s t"
| kernel_neigh: "do_one_neigh_request msg s = Some (rc, t) \<Longrightarrow> neigh_event s t"
| arp_packet: "iccp_receive_arp_packet_handler dump buf halen i s = Some (rc, t) \<Longrightarrow> neigh_event s t"
| nd_packet: "iccp_receive_ndisc_packet_handler buf i s = Some (rc, t) \<Longrightarrow> neigh_event s t"
| new_address: "iccp_event_handler_obj_input_newaddr a s = Some t \<Longrightarrow> neigh_event s t"
| del_address: "iccp_event_handler_obj_input_deladdr a s = Some t \<Longrightarrow> neigh_event s t"

lemma known_ok_event: "neigh_event s t \<Longrightarrow> known_ok d s \<Longrightarrow> known_ok d t"
  by (induction rule: neigh_event.induct)
    (blast intro: known_ok_arp_info known_ok_ndisc_info known_ok_neigh_request known_ok_arp_packet known_ok_ndisc_packet
      known_ok_newaddr known_ok_deladdr)+

lemma known_ok_run: "neigh_event\<^sup>*\<^sup>* s t \<Longrightarrow> known_ok d s \<Longrightarrow> known_ok d t"
  by (induction rule: rtranclp_induct) (auto intro: known_ok_event)

text \<open>
  C20. No list of known neighbours ever has an address twice: from the empty lists on, whatever the
  peer reports, the kernel notices, ARP and ND packets show and happens to the addresses of this node,
  in any order.
\<close>

theorem neighbours_distinct:
  assumes "neigh_event\<^sup>*\<^sup>* s t" "\<forall>c. ml_arp_list (MLACP (csm_of s c)) = [] \<and> ml_ndisc_list (MLACP (csm_of s c)) = []"
  shows "distinct (map arp_ipv4_addr (ml_arp_list (MLACP (csm_of t c)))) \<and>
    distinct (map nd_ipv6_addr (ml_ndisc_list (MLACP (csm_of t c))))"
proof -
  have "known_ok c s" using assms(2) by (simp add: known_ok_def entries_ok_def)
  with assms(1) have "known_ok c t" by (rule known_ok_run)
  then show ?thesis by (simp add: known_ok_def entries_ok_def)
qed

section \<open>Messages of the kernel\<close>

text \<open>
  How the kernel writes attributes and the message: \<open>struct rtattr\<close>, \<open>struct nlmsghdr\<close>, \<open>struct ndmsg\<close>. The
  argument \<open>other\<close> stands for flags, sequence number and port of the header, \<open>fl\<close> for \<open>ndm_flags\<close>, which
  the code does not look at.
\<close>

definition ser_rtattr :: "u16 \<times> bytes \<Rightarrow> bytes" where
  "ser_rtattr a = le16 (word_of_nat (4 + length (snd a))) @ le16 (fst a) @ snd a
     @ replicate (align4 (length (snd a)) - length (snd a)) 0"

definition ser_neigh :: "bytes \<Rightarrow> u8 \<Rightarrow> u16 \<Rightarrow> ndmsg \<Rightarrow> (u16 \<times> bytes) list \<Rightarrow> bytes" where
  "ser_neigh other fl ty ndm attrs =
     (let body = concat (map ser_rtattr attrs)
      in le32 (word_of_nat (28 + length body)) @ le16 ty @ other
         @ [ndm_family ndm, 0, 0, 0] @ le32 (ndm_ifindex ndm) @ le16 (ndm_state ndm) @ [fl, ndm_type ndm] @ body)"

lemma align4_add: "align4 (4 + n) = 4 + align4 n"
  unfolding align4_def by presburger

lemma length_ser_rtattr: "length (ser_rtattr a) = 4 + align4 (length (snd a))"
  using align4_ge [of "length (snd a)"] by (simp add: ser_rtattr_def)

lemma rta_first_ser:
  assumes "length v < 65532"
  shows "rta_first (ser_rtattr (ty, v) @ r) = Some (unat ty, v, r)"
proof -
  have n: "unat (word_of_nat (4 + length v) :: u16) = 4 + length v"
    using assms by (simp add: unat_of_nat take_bit_nat_eq_self del: of_nat_add)
  have len: "4 + length v \<le> length (ser_rtattr (ty, v) @ r)"
    using align4_ge [of "length v"] by (simp add: length_ser_rtattr)
  have rest: "drop (align4 (4 + length v)) (ser_rtattr (ty, v) @ r) = r"
    by (simp add: align4_add length_ser_rtattr flip: length_ser_rtattr [of "(ty, v)", simplified])
  have val: "take (length v) (drop 4 (ser_rtattr (ty, v) @ r)) = v"
    by (simp add: ser_rtattr_def)
  have "rta_first (ser_rtattr (ty, v) @ r) =
      (let n = 4 + length v in if n < 4 \<or> length (ser_rtattr (ty, v) @ r) < n then None
       else Some (unat ty, take (n - 4) (drop 4 (ser_rtattr (ty, v) @ r)), drop (align4 n) (ser_rtattr (ty, v) @ r)))"
    unfolding rta_first_def by (simp add: n ser_rtattr_def del: of_nat_add)
  then show ?thesis using len rest val by (simp add: Let_def)
qed

lemma rta_first_Nil [simp]: "rta_first [] = None"
  by (simp add: rta_first_def)

definition attr_map :: "nat \<Rightarrow> (u16 \<times> bytes) list \<Rightarrow> nat \<Rightarrow> bytes option" where
  "attr_map mx attrs = map_of (rev [(unat ty, v). (ty, v) \<leftarrow> attrs, unat ty \<le> mx])"

lemma parse_attrs:
  assumes "\<forall>(ty, v) \<in> set attrs. length v < 65532"
  shows "ifm_parse_rtattr mx (concat (map ser_rtattr attrs)) tb = tb ++ attr_map mx attrs"
  using assms
proof (induction attrs arbitrary: tb)
  case Nil
  then show ?case by (simp add: ifm_parse_rtattr.simps attr_map_def)
next
  case (Cons a attrs)
  obtain ty v where a: "a = (ty, v)" by fastforce
  then show ?case
    using Cons by (simp add: ifm_parse_rtattr.simps [of mx "ser_rtattr (ty, v) @ _"] rta_first_ser attr_map_def map_add_assoc)
qed

text \<open>
  C23. A neighbour message of the kernel means what its fields say: whatever attributes it has, in
  whatever order, the handler works on the header fields and on the last attribute of each kind, as
  the kernel wrote them, whatever flags, sequence number and port the message has.
\<close>

theorem neigh_message_parsed:
  assumes "ty = RTM_NEWNEIGH \<or> ty = RTM_DELNEIGH" "\<forall>(a, v) \<in> set attrs. length v < 65532"
    and "length (ser_neigh other fl ty ndm attrs) < 2 ^ 31" "length other = 10" "sys_csm_list s \<noteq> []"
  shows "do_one_neigh_request (ser_neigh other fl ty ndm attrs) s =
    map_option (Pair 0) (neigh_msg (ty = RTM_DELNEIGH) ndm (attr_map NDA_MAX attrs) s)"
proof -
  define body where "body = concat (map ser_rtattr attrs)"
  define hdr where "hdr = le32 (word_of_nat (28 + length body)) @ le16 ty @ other"
  define nd where "nd = [ndm_family ndm, 0, 0, 0] @ le32 (ndm_ifindex ndm) @ le16 (ndm_state ndm) @ [fl, ndm_type ndm]"
  have msg: "ser_neigh other fl ty ndm attrs = hdr @ nd @ body" by (simp add: ser_neigh_def body_def hdr_def nd_def Let_def)
  have lens: "length hdr = 16" "length nd = 12" by (simp_all add: hdr_def nd_def assms(4))
  have small: "28 + length body < 2 ^ 31" using assms(3) by (simp add: msg lens)
  then have n: "unat (word_of_nat (28 + length body) :: u32) = 28 + length body"
    by (simp add: unat_of_nat take_bit_nat_eq_self del: of_nat_add)
  then have "sint (word_of_nat (28 + length body) :: u32) = int (28 + length body)"
    using small by (simp add: signed_of_nat signed_take_bit_int_eq_self del: of_nat_add)
  moreover have "de_ndmsg (nd @ body) = Some (ndm, body)"
    by (simp add: de_ndmsg_def nd_def de_bytes_def)
  moreover have "de_le32 (hdr @ nd @ body) = Some (word_of_nat (28 + length body), le16 ty @ other @ nd @ body)"
    by (simp add: hdr_def del: of_nat_add)
  ultimately show ?thesis
    using assms(1,4,5) n lens parse_attrs [OF assms(2), of NDA_MAX "\<lambda>_. None"]
    by (auto simp: do_one_neigh_request_def msg body_def [symmetric] map_conv_bind_option comp_def simp del: of_nat_add)
qed

section \<open>What is learned from the kernel\<close>


lemma nd_event_copied:
  assumes "length ip = 16" "length hw = 6"
  shows "nd_event name ip hw = Some \<lparr>nd_op_type = NEIGH_SYNC_LIF, nd_flag = 0, nd_learn_flag = 0,
       nd_ifname = c_array MAX_L_PORT_NAME name, nd_ipv6_addr = ip, nd_mac_addr = hw\<rparr>"
  using assms by (simp add: nd_event_def copy_attrs_def MAX_BUFSIZE_def)




text \<open>
  A changed hardware address of an ND neighbour goes unnoticed: when the kernel reports an entry
  for an IPv6 address that is known already, nothing changes and nothing is sent, whatever hardware
  address and interface are reported.
\<close>

lemma ndisc_change_unnoticed:
  assumes "local_if_find_by_ifindex i s = Some l" "neigh_session l i s = Some (c, vlan)"
    and "length ip = 16" "length hw = 6"
    and "entries_ok nd_ipv6_addr (\<lambda>n. length (nd_ipv6_addr n) = 16) (ml_ndisc_list (MLACP (csm_of s c)))"
    and "entry_at nd_ipv6_addr ip (ml_ndisc_list (MLACP (csm_of s c))) = Some x"
  shows "do_ndisc_learn_from_kernel i ip (Some hw) False False s = Some s"
proof -
  define n where "n = \<lparr>nd_op_type = NEIGH_SYNC_LIF, nd_flag = 0, nd_learn_flag = 0,
       nd_ifname = c_array MAX_L_PORT_NAME (lif_name (lif_of s l)), nd_ipv6_addr = ip, nd_mac_addr = hw\<rparr>"
  have n: "nd_event (lif_name (lif_of s l)) ip hw = Some n"
    unfolding n_def by (rule nd_event_copied [OF assms(3,4)])
  have sel: "nd_ipv6_addr n = ip" "length (nd_ipv6_addr n) = 16" using assms(3) by (simp_all add: n_def)
  have "find (nd_same n) (ml_ndisc_list (MLACP (csm_of s c))) = Some x"
    using own_nd.find_same [OF assms(5) sel(2)] assms(6) sel(1) by simp
  then have "ndisc_known c (\<lambda>x. nd_differs x x) n False s = (False, s)"
    by (simp add: ndisc_known_def neigh_local_def nd_differs_def upd_ml_def upd_csm_def upd_mlacp_def upd_app_def)
  then show ?thesis
    using assms(1,2) n by (simp add: do_ndisc_learn_from_kernel_def Let_def)
qed

section \<open>Packets\<close>

text \<open>An option of an advertisement as its sender writes it: a type, the length in units of eight bytes, data.\<close>

definition nd_opt_ok :: "u8 \<times> bytes \<Rightarrow> bool" where
  "nd_opt_ok opt \<longleftrightarrow> (2 + length (snd opt)) mod 8 = 0 \<and> 2 + length (snd opt) < 2048"

definition ser_nd_opt :: "u8 \<times> bytes \<Rightarrow> bytes" where
  "ser_nd_opt opt = [fst opt, word_of_nat ((2 + length (snd opt)) div 8)] @ snd opt"

lemma nd_options_step:
  assumes "nd_opt_ok opt"
  shows "nd_options (ser_nd_opt opt @ r) = (if fst opt = 2 then Some (Some (take 6 (snd opt))) else nd_options r)"
proof -
  define k where "k = (2 + length (snd opt)) div 8"
  have len: "length (snd opt) + 2 = 8 * k" "k < 256" "k \<noteq> 0"
    using assms by (auto simp: k_def nd_opt_ok_def)
  then have k: "unat (word_of_nat k :: u8) = k" by (simp add: unat_of_nat take_bit_nat_eq_self)
  then have "(word_of_nat k :: u8) \<noteq> 0" using len(3) by (metis unat_0)
  moreover have "drop (8 * k) (ser_nd_opt opt @ r) = r"
    using len(1) by (simp add: ser_nd_opt_def drop_Cons' flip: k_def)
  ultimately show ?thesis
    using len k by (subst nd_options.simps) (auto simp: ser_nd_opt_def simp flip: k_def, presburger+)
qed

lemma nd_options_skip:
  assumes "\<forall>opt \<in> set opts. nd_opt_ok opt \<and> fst opt \<noteq> 2"
  shows "nd_options (concat (map ser_nd_opt opts) @ r) = nd_options r"
  using assms by (induction opts) (simp_all add: nd_options_step)

text \<open>
  The hardware address of an advertisement: options of other kinds are passed over, the first
  target address option counts, and an advertisement without one has none. An option that claims to
  be longer than the rest of the packet makes the handler read behind the packet.
\<close>

lemma nd_options_found:
  assumes "\<forall>opt \<in> set opts. nd_opt_ok opt \<and> fst opt \<noteq> 2" "nd_opt_ok (2, v)" "ty \<noteq> 2" "0 < n"
    and "length frag + 2 < 8 * unat (n :: u8)"
  shows "nd_options (concat (map ser_nd_opt opts) @ ser_nd_opt (2, v) @ r) = Some (Some (take 6 v)) \<and>
    nd_options (concat (map ser_nd_opt opts)) = Some (Some null_mac) \<and>
    nd_options (concat (map ser_nd_opt opts) @ ty # n # frag) = None"
proof -
  have "nd_options (ty # n # frag) = None"
    using assms(3-5) by (simp add: nd_options.simps)
  moreover have "nd_options (concat (map ser_nd_opt opts)) = Some (Some null_mac)"
    using nd_options_skip [OF assms(1), of "[]"] by (simp add: nd_options.simps)
  ultimately show ?thesis
    using nd_options_skip [OF assms(1)] nd_options_step [OF assms(2)] by simp
qed

text \<open>The answer of the kernel about one address of an interface, followed by the end of the answer.\<close>

definition ser_ifaddr :: "int \<Rightarrow> bytes \<Rightarrow> bytes" where
  "ser_ifaddr i v = le32 32 @ le16 RTM_NEWADDR @ replicate 10 0 @ [AF_INET, 24, 0, 0] @ le32 (word_of_int i)
     @ ser_rtattr (2, v)"

definition ser_done :: bytes where
  "ser_done = le32 16 @ le16 3 @ replicate 10 0"

text \<open>
  The check that an ARP reply on a routed port channel is not about the node's own address
  compares the address with the bytes of the interface's in the other order. The own address is
  recognised only if it reads the same both ways, and a different one is taken for it.
\<close>

lemma own_address_reversed:
  assumes "length v = 4" "-(2 ^ 31) \<le> i" "i < 2 ^ 31"
  shows "iccp_check_if_addr_from_netlink [ser_ifaddr i v @ ser_done] False addr i = Some (addr = rev v)"
proof -
  have attr: "addr_attrs False addr (ser_rtattr (2, v)) = Some (addr = rev v)"
    using rta_first_ser [of v 2 "[]"] assms(1)
    by (auto simp: addr_attrs.simps [of False addr "ser_rtattr (2, v)"] addr_attrs.simps [of False addr "[]"] IFA_LOCAL_def)
  have len: "length (ser_rtattr (2, v)) = 8" using assms(1) by (simp add: length_ser_rtattr align4_def)
  have i: "sint (word_of_int i :: u32) = i" using assms(2,3) by (simp add: signed_of_int signed_take_bit_int_eq_self)
  have finish: "addr_msgs False addr i ser_done = Some (Some False)"
    by (simp add: addr_msgs.simps ser_done_def RTM_NEWADDR_def)
  have "addr_msgs False addr i (ser_ifaddr i v @ ser_done) = Some (Some (addr = rev v))"
    using attr len i finish
    by (subst addr_msgs.simps) (simp add: ser_ifaddr_def align4_def split: bool.split)
  then show ?thesis by (simp add: ser_ifaddr_def)
qed

section \<open>Concrete runs\<close>

text \<open>The kernel reports on \<open>Po1\<close> the neighbour the peer has reported, with another hardware address.\<close>

definition a_neigh :: ndmsg where
  "a_neigh = \<lparr>ndm_family = AF_INET, ndm_ifindex = 7, ndm_state = 2, ndm_type = RTN_UNICAST\<rparr>"

definition some_attrs :: "(u16 \<times> bytes) list" where
  "some_attrs = [(2, [9, 1, 2, 3, 4, 5]), (1, le32 0x0200000A)]"

definition a_neigh_msg :: bytes where
  "a_neigh_msg = ser_neigh (replicate 10 0) 0 RTM_NEWNEIGH a_neigh some_attrs"

lemma a_router_session:
  "neigh_session 0 7 a_router = Some (0, None)" "local_if_find_by_ifindex 7 a_router = Some 0"
  "lif_ipv4_addr (lif_of a_router 0) = 0x0100000A" "lif_name (lif_of a_router 0) = ''Po1''"
  "ml_arp_list (MLACP (csm_of a_router c)) = []" "ml_arp_msg_list (MLACP (csm_of a_router c)) = []"
  "ml_ndisc_list (MLACP (csm_of a_router c)) = []"
  "ml_current_state (MLACP (csm_of a_router c)) = MLACP_STATE_EXCHANGE" "env_malloc a_router j" "sys_csm_list a_router = [0]"
  by (simp_all add: a_router_def a_host_def neigh_session_def local_if_find_by_ifindex_def local_if_is_l3_mode_def
      zero_LocalInterface_def zero_CSM_def zero_mLACP_def upd_mlacp_def upd_app_def)


theorem neigh_message_parsed_witness:
  "do_one_neigh_request a_neigh_msg a_router =
     map_option (Pair 0) (neigh_msg False a_neigh (attr_map NDA_MAX some_attrs) a_router)"
proof -
  have "length (ser_neigh (replicate 10 0) 0 RTM_NEWNEIGH a_neigh some_attrs) < 2 ^ 31"
    by (simp add: ser_neigh_def some_attrs_def length_ser_rtattr align4_def)
  then show ?thesis
    using neigh_message_parsed [of RTM_NEWNEIGH some_attrs "replicate 10 0" 0 a_neigh a_router]
    by (simp add: a_neigh_msg_def a_router_session some_attrs_def netlink_consts)
qed

theorem neighbours_distinct_witness:
  "\<exists>t. neigh_event\<^sup>*\<^sup>* a_router t \<and> map arp_ipv4_addr (ml_arp_list (MLACP (csm_of t 0))) = [0x0200000A] \<and>
     distinct (map arp_ipv4_addr (ml_arp_list (MLACP (csm_of t 0))))"
proof -
  have "map_option (\<lambda>r. map arp_ipv4_addr (ml_arp_list (MLACP (csm_of (snd r) 0))))
      (Option.bind (mlacp_fsm_update_arp_info 0 an_arp_info a_router) (do_one_neigh_request a_neigh_msg)) = Some [0x0200000A]"
    by code_simp
  then obtain u rc t where "mlacp_fsm_update_arp_info 0 an_arp_info a_router = Some u" "do_one_neigh_request a_neigh_msg u = Some (rc, t)"
      "map arp_ipv4_addr (ml_arp_list (MLACP (csm_of t 0))) = [0x0200000A]"
    by (auto simp: bind_eq_Some_conv)
  moreover from this have "neigh_event\<^sup>*\<^sup>* a_router t"
    by (meson neigh_event.peer_arp neigh_event.kernel_neigh converse_rtranclp_into_rtranclp rtranclp.rtrancl_refl)
  ultimately show ?thesis
    using neighbours_distinct [of a_router t 0] by (auto simp: a_router_session)
qed

end
