(* ===== verification/Consistency.thy ===== *)
theory Consistency
  imports Peer_Update
begin

text \<open>
  The comparison of a port channel with the port channel of the same name at the peer
  (\<open>iccp_consistency_check.c\<close>), which the handler of a port channel message calls and whose result is
  written to the log: the checks in their order, with the code each one fails with, and the reason
  that is reported.
\<close>

section \<open>The checks\<close>

datatype Reason_ID = REASON_NONE | REASON_INTERRFACE_MODE_IS_ASYNC | REASON_PEER_IF_IP_IS_ASYNC
  | REASON_PEER_IF_VLAN_IS_ASYNC

text \<open>The beginning of every check: the interface, its session and the interface of the peer.\<close>

definition check_ends :: "string \<Rightarrow> System \<Rightarrow> int + LocalInterface \<times> PeerInterface" where
  "check_ends ifname s =
     (case local_if_find_by_name ifname s of
        None \<Rightarrow> Inl (- 2)
      | Some l \<Rightarrow>
         (case lif_csm (lif_of s l) of
            None \<Rightarrow> Inl (- 3)
          | Some c \<Rightarrow>
             (case peer_if_find_by_name (csm_of s c) ifname of
                None \<Rightarrow> Inl (- 4)
              | Some pif \<Rightarrow> Inr (lif_of s l, pif))))"

definition iccp_check_interface_mode :: "string \<Rightarrow> System \<Rightarrow> int" where
  "iccp_check_interface_mode ifname s =
     (case check_ends ifname s of
        Inl ret \<Rightarrow> ret
      | Inr (lif, pif) \<Rightarrow> if pif_l3_mode pif \<noteq> lif_l3_mode lif then - 5 else 1)"

definition iccp_check_interface_layer3_addr :: "string \<Rightarrow> System \<Rightarrow> int" where
  "iccp_check_interface_layer3_addr ifname s =
     (case check_ends ifname s of
        Inl ret \<Rightarrow> ret
      | Inr (lif, pif) \<Rightarrow> if pif_ipv4_addr pif \<noteq> lif_ipv4_addr lif then - 5 else 1)"

text \<open>A loop over the VLANs of one tree that ends at the first one the other tree does not have.\<close>

fun vlans_found :: "VLAN_ID list \<Rightarrow> VLAN_ID list \<Rightarrow> bool" where
  "vlans_found [] other = True"
| "vlans_found (v # vs) other =
     (case rb_find vlan_node_compare v other of None \<Rightarrow> False | Some _ \<Rightarrow> vlans_found vs other)"

definition iccp_check_interface_vlan :: "string \<Rightarrow> System \<Rightarrow> int" where
  "iccp_check_interface_vlan ifname s =
     (case check_ends ifname s of
        Inl ret \<Rightarrow> ret
      | Inr (lif, pif) \<Rightarrow>
          if \<not> vlans_found (lif_vlan_tree lif) (pif_vlan_tree pif) then - 5
          else if \<not> vlans_found (pif_vlan_tree pif) (lif_vlan_tree lif) then - 6
          else 1)"

definition check_func :: "(Reason_ID \<times> (string \<Rightarrow> System \<Rightarrow> int)) list" where
  "check_func = [(REASON_INTERRFACE_MODE_IS_ASYNC, iccp_check_interface_mode),
     (REASON_PEER_IF_IP_IS_ASYNC, iccp_check_interface_layer3_addr),
     (REASON_PEER_IF_VLAN_IS_ASYNC, iccp_check_interface_vlan)]"

fun run_checks :: "(Reason_ID \<times> (string \<Rightarrow> System \<Rightarrow> int)) list \<Rightarrow> string \<Rightarrow> System \<Rightarrow> Reason_ID" where
  "run_checks [] ifname s = REASON_NONE"
| "run_checks ((i, f) # fs) ifname s = (if f ifname s \<noteq> 1 then i else run_checks fs ifname s)"

definition iccp_consistency_check :: "string \<Rightarrow> System \<Rightarrow> Reason_ID" where
  "iccp_consistency_check ifname s = run_checks check_func ifname s"

section \<open>What is compared\<close>

lemma vlans_found_subset: "vlans_found vs other \<longleftrightarrow> vl_vid ` set vs \<subseteq> vl_vid ` set other"
proof (induction vs)
  case (Cons v vs)
  have "rb_find vlan_node_compare v other \<noteq> None \<longleftrightarrow> vl_vid v \<in> vl_vid ` set other"
    by (auto simp: rb_find_None vlan_node_compare_def image_iff split: if_splits)
  with Cons.IH show ?case by (cases "rb_find vlan_node_compare v other") auto
qed simp

lemma checks_failed:
  assumes "check_ends ifname s = Inl ret"
  shows "iccp_check_interface_mode ifname s \<noteq> 1"
  using assms by (auto simp: iccp_check_interface_mode_def check_ends_def split: option.splits)

lemma checks_passed:
  assumes "check_ends ifname s = Inr (lif, pif)"
  shows "iccp_check_interface_mode ifname s = 1 \<longleftrightarrow> lif_l3_mode lif = pif_l3_mode pif"
    "iccp_check_interface_layer3_addr ifname s = 1 \<longleftrightarrow> lif_ipv4_addr lif = pif_ipv4_addr pif"
    "iccp_check_interface_vlan ifname s = 1 \<longleftrightarrow>
       vl_vid ` set (lif_vlan_tree lif) = vl_vid ` set (pif_vlan_tree pif)"
proof -
  show "iccp_check_interface_mode ifname s = 1 \<longleftrightarrow> lif_l3_mode lif = pif_l3_mode pif"
    using assms by (simp add: iccp_check_interface_mode_def)
  show "iccp_check_interface_layer3_addr ifname s = 1 \<longleftrightarrow> lif_ipv4_addr lif = pif_ipv4_addr pif"
    using assms by (simp add: iccp_check_interface_layer3_addr_def)
  show "iccp_check_interface_vlan ifname s = 1 \<longleftrightarrow>
      vl_vid ` set (lif_vlan_tree lif) = vl_vid ` set (pif_vlan_tree pif)"
    unfolding set_eq_subset using assms by (simp add: iccp_check_interface_vlan_def vlans_found_subset)
qed

text \<open>
  C30. The consistency check decides in what the two ends of a port channel differ. Without an
  interface of that name on both nodes it reports the mode; otherwise the first difference in the
  routing mode, the IPv4 address or the set of VLANs, whatever the shape of the two VLAN trees, and
  nothing exactly when all three agree.
\<close>

theorem consistency_check_decides:
  "iccp_consistency_check ifname s =
     (case check_ends ifname s of
        Inl _ \<Rightarrow> REASON_INTERRFACE_MODE_IS_ASYNC
      | Inr (lif, pif) \<Rightarrow>
          if lif_l3_mode lif \<noteq> pif_l3_mode pif then REASON_INTERRFACE_MODE_IS_ASYNC
          else if lif_ipv4_addr lif \<noteq> pif_ipv4_addr pif then REASON_PEER_IF_IP_IS_ASYNC
          else if vl_vid ` set (lif_vlan_tree lif) \<noteq> vl_vid ` set (pif_vlan_tree pif)
          then REASON_PEER_IF_VLAN_IS_ASYNC
          else REASON_NONE)"
  by (cases "check_ends ifname s")
    (auto simp: iccp_consistency_check_def check_func_def checks_failed checks_passed)

end
