(* ===== verification/Ctl_Wire.thy ===== *)
theory Ctl_Wire
  imports Iccp_Port
begin

text \<open>
  The structures that the daemon and the tool \<open>mclagdctl\<close> exchange over their socket
  (\<open>mclagdctl/mclagdctl.h\<close>), laid out as the compiler does it, with the padding bytes, and the
  instances of the interface \<open>codec\<close> for them. An \<open>int\<close> is a 32-bit word.
\<close>

section \<open>Structures\<close>

record mclagdctl_req_hdr =
  rq_info_type :: u32
  rq_mclag_id :: u32
  rq_para1 :: bytes
  rq_para2 :: bytes
  rq_para3 :: bytes

definition ser_mclagdctl_req_hdr :: "mclagdctl_req_hdr \<Rightarrow> bytes" where
  "ser_mclagdctl_req_hdr t = le32 (rq_info_type t) @ le32 (rq_mclag_id t) @ rq_para1 t @ rq_para2 t @ rq_para3 t"

definition de_mclagdctl_req_hdr :: "mclagdctl_req_hdr decoder" where
  "de_mclagdctl_req_hdr bs = do {
     (x0, r) \<leftarrow> de_le32 bs;
     (x1, r) \<leftarrow> de_le32 r;
     (x2, r) \<leftarrow> de_bytes 32 r;
     (x3, r) \<leftarrow> de_bytes 32 r;
     (x4, r) \<leftarrow> de_bytes 32 r;
     Some (\<lparr>rq_info_type = x0, rq_mclag_id = x1, rq_para1 = x2, rq_para2 = x3, rq_para3 = x4\<rparr>, r) }"

definition valid_mclagdctl_req_hdr :: "mclagdctl_req_hdr \<Rightarrow> bool" where
  "valid_mclagdctl_req_hdr t \<longleftrightarrow> length (rq_para1 t) = 32 \<and> length (rq_para2 t) = 32 \<and> length (rq_para3 t) = 32"

interpretation mclagdctl_req_hdr_codec: codec ser_mclagdctl_req_hdr de_mclagdctl_req_hdr 104 valid_mclagdctl_req_hdr
  by unfold_locales (simp_all add: ser_mclagdctl_req_hdr_def de_mclagdctl_req_hdr_def valid_mclagdctl_req_hdr_def wire_simps)

record mclagd_reply_hdr =
  rp_info_type :: u32
  rp_data_len :: u32
  rp_exec_result :: u32

definition ser_mclagd_reply_hdr :: "mclagd_reply_hdr \<Rightarrow> bytes" where
  "ser_mclagd_reply_hdr t = le32 (rp_info_type t) @ le32 (rp_data_len t) @ le32 (rp_exec_result t)"

definition de_mclagd_reply_hdr :: "mclagd_reply_hdr decoder" where
  "de_mclagd_reply_hdr bs = do {
     (x0, r) \<leftarrow> de_le32 bs;
     (x1, r) \<leftarrow> de_le32 r;
     (x2, r) \<leftarrow> de_le32 r;
     Some (\<lparr>rp_info_type = x0, rp_data_len = x1, rp_exec_result = x2\<rparr>, r) }"

definition valid_mclagd_reply_hdr :: "mclagd_reply_hdr \<Rightarrow> bool" where
  "valid_mclagd_reply_hdr t \<longleftrightarrow> True"

interpretation mclagd_reply_hdr_codec: codec ser_mclagd_reply_hdr de_mclagd_reply_hdr 12 valid_mclagd_reply_hdr
  by unfold_locales (simp_all add: ser_mclagd_reply_hdr_def de_mclagd_reply_hdr_def valid_mclagd_reply_hdr_def wire_simps)

record mclagd_state =
  cs_mclag_id :: u32
  cs_keepalive :: u32
  cs_info_sync_done :: u32
  cs_local_ip :: bytes
  cs_peer_ip :: bytes
  cs_peer_link_if :: bytes
  cs_peer_link_mac :: bytes
  cs_role :: u32
  cs_enabled_po :: bytes
  cs_session_timeout :: u32
  cs_keepalive_time :: u32
  cs_loglevel :: bytes

definition ser_mclagd_state :: "mclagd_state \<Rightarrow> bytes" where
  "ser_mclagd_state t = le32 (cs_mclag_id t) @ le32 (cs_keepalive t) @ le32 (cs_info_sync_done t) @
     cs_local_ip t @ cs_peer_ip t @ cs_peer_link_if t @ cs_peer_link_mac t @ replicate 2 0 @
     le32 (cs_role t) @ cs_enabled_po t @ le32 (cs_session_timeout t) @
     le32 (cs_keepalive_time t) @ cs_loglevel t"

definition de_mclagd_state :: "mclagd_state decoder" where
  "de_mclagd_state bs = do {
     (x0, r) \<leftarrow> de_le32 bs;
     (x1, r) \<leftarrow> de_le32 r;
     (x2, r) \<leftarrow> de_le32 r;
     (x3, r) \<leftarrow> de_bytes 32 r;
     (x4, r) \<leftarrow> de_bytes 32 r;
     (x5, r) \<leftarrow> de_bytes 32 r;
     (x6, r) \<leftarrow> de_bytes 6 r;
     (_, r) \<leftarrow> de_bytes 2 r;
     (x8, r) \<leftarrow> de_le32 r;
     (x9, r) \<leftarrow> de_bytes 512 r;
     (x10, r) \<leftarrow> de_le32 r;
     (x11, r) \<leftarrow> de_le32 r;
     (x12, r) \<leftarrow> de_bytes 16 r;
     Some (\<lparr>cs_mclag_id = x0, cs_keepalive = x1, cs_info_sync_done = x2, cs_local_ip = x3,
       cs_peer_ip = x4, cs_peer_link_if = x5, cs_peer_link_mac = x6, cs_role = x8,
       cs_enabled_po = x9, cs_session_timeout = x10, cs_keepalive_time = x11, cs_loglevel = x12\<rparr>, r) }"

definition valid_mclagd_state :: "mclagd_state \<Rightarrow> bool" where
  "valid_mclagd_state t \<longleftrightarrow> length (cs_local_ip t) = 32 \<and> length (cs_peer_ip t) = 32 \<and>
     length (cs_peer_link_if t) = 32 \<and> length (cs_peer_link_mac t) = 6 \<and>
     length (cs_enabled_po t) = 512 \<and> length (cs_loglevel t) = 16"

interpretation mclagd_state_codec: codec ser_mclagd_state de_mclagd_state 656 valid_mclagd_state
  by unfold_locales (simp_all add: ser_mclagd_state_def de_mclagd_state_def valid_mclagd_state_def wire_simps)

record mclagd_arp_msg =
  ca_op_type :: u8
  ca_ifname :: bytes
  ca_ipv4_addr :: bytes
  ca_mac_addr :: bytes
  ca_learn_flag :: u8

definition ser_mclagd_arp_msg :: "mclagd_arp_msg \<Rightarrow> bytes" where
  "ser_mclagd_arp_msg t = [ca_op_type t] @ ca_ifname t @ ca_ipv4_addr t @ ca_mac_addr t @ [ca_learn_flag t]"

definition de_mclagd_arp_msg :: "mclagd_arp_msg decoder" where
  "de_mclagd_arp_msg bs = do {
     (x0, r) \<leftarrow> de_u8 bs;
     (x1, r) \<leftarrow> de_bytes 32 r;
     (x2, r) \<leftarrow> de_bytes 32 r;
     (x3, r) \<leftarrow> de_bytes 6 r;
     (x4, r) \<leftarrow> de_u8 r;
     Some (\<lparr>ca_op_type = x0, ca_ifname = x1, ca_ipv4_addr = x2, ca_mac_addr = x3, ca_learn_flag = x4\<rparr>, r) }"

definition valid_mclagd_arp_msg :: "mclagd_arp_msg \<Rightarrow> bool" where
  "valid_mclagd_arp_msg t \<longleftrightarrow> length (ca_ifname t) = 32 \<and> length (ca_ipv4_addr t) = 32 \<and>
     length (ca_mac_addr t) = 6"

interpretation mclagd_arp_msg_codec: codec ser_mclagd_arp_msg de_mclagd_arp_msg 72 valid_mclagd_arp_msg
  by unfold_locales (simp_all add: ser_mclagd_arp_msg_def de_mclagd_arp_msg_def valid_mclagd_arp_msg_def wire_simps)

record mclagd_ndisc_msg =
  cn_op_type :: u8
  cn_ifname :: bytes
  cn_ipv6_addr :: bytes
  cn_mac_addr :: bytes
  cn_learn_flag :: u8

definition ser_mclagd_ndisc_msg :: "mclagd_ndisc_msg \<Rightarrow> bytes" where
  "ser_mclagd_ndisc_msg t = [cn_op_type t] @ cn_ifname t @ cn_ipv6_addr t @ cn_mac_addr t @ [cn_learn_flag t]"

definition de_mclagd_ndisc_msg :: "mclagd_ndisc_msg decoder" where
  "de_mclagd_ndisc_msg bs = do {
     (x0, r) \<leftarrow> de_u8 bs;
     (x1, r) \<leftarrow> de_bytes 32 r;
     (x2, r) \<leftarrow> de_bytes 64 r;
     (x3, r) \<leftarrow> de_bytes 6 r;
     (x4, r) \<leftarrow> de_u8 r;
     Some (\<lparr>cn_op_type = x0, cn_ifname = x1, cn_ipv6_addr = x2, cn_mac_addr = x3, cn_learn_flag = x4\<rparr>, r) }"

definition valid_mclagd_ndisc_msg :: "mclagd_ndisc_msg \<Rightarrow> bool" where
  "valid_mclagd_ndisc_msg t \<longleftrightarrow> length (cn_ifname t) = 32 \<and> length (cn_ipv6_addr t) = 64 \<and>
     length (cn_mac_addr t) = 6"

interpretation mclagd_ndisc_msg_codec: codec ser_mclagd_ndisc_msg de_mclagd_ndisc_msg 104 valid_mclagd_ndisc_msg
  by unfold_locales (simp_all add: ser_mclagd_ndisc_msg_def de_mclagd_ndisc_msg_def valid_mclagd_ndisc_msg_def wire_simps)

record mclagd_mac_msg =
  cm_op_type :: u8
  cm_fdb_type :: u8
  cm_mac_addr :: bytes
  cm_vid :: u16
  cm_ifname :: bytes
  cm_origin_ifname :: bytes
  cm_age_flag :: u8

definition ser_mclagd_mac_msg :: "mclagd_mac_msg \<Rightarrow> bytes" where
  "ser_mclagd_mac_msg t = [cm_op_type t] @ [cm_fdb_type t] @ cm_mac_addr t @ le16 (cm_vid t) @ cm_ifname t @
     cm_origin_ifname t @ [cm_age_flag t] @ replicate 1 0"

definition de_mclagd_mac_msg :: "mclagd_mac_msg decoder" where
  "de_mclagd_mac_msg bs = do {
     (x0, r) \<leftarrow> de_u8 bs;
     (x1, r) \<leftarrow> de_u8 r;
     (x2, r) \<leftarrow> de_bytes 6 r;
     (x3, r) \<leftarrow> de_le16 r;
     (x4, r) \<leftarrow> de_bytes 32 r;
     (x5, r) \<leftarrow> de_bytes 32 r;
     (x6, r) \<leftarrow> de_u8 r;
     (_, r) \<leftarrow> de_bytes 1 r;
     Some (\<lparr>cm_op_type = x0, cm_fdb_type = x1, cm_mac_addr = x2, cm_vid = x3, cm_ifname = x4,
       cm_origin_ifname = x5, cm_age_flag = x6\<rparr>, r) }"

definition valid_mclagd_mac_msg :: "mclagd_mac_msg \<Rightarrow> bool" where
  "valid_mclagd_mac_msg t \<longleftrightarrow> length (cm_mac_addr t) = 6 \<and> length (cm_ifname t) = 32 \<and>
     length (cm_origin_ifname t) = 32"

interpretation mclagd_mac_msg_codec: codec ser_mclagd_mac_msg de_mclagd_mac_msg 76 valid_mclagd_mac_msg
  by unfold_locales (simp_all add: ser_mclagd_mac_msg_def de_mclagd_mac_msg_def valid_mclagd_mac_msg_def wire_simps)

record mclagd_local_if =
  cl_ifindex :: u32
  cl_type :: bytes
  cl_name :: bytes
  cl_mac_addr :: bytes
  cl_state :: bytes
  cl_ipv4_addr :: bytes
  cl_prefixlen :: u8
  cl_l3_mode :: u8
  cl_is_peer_link :: u8
  cl_portchannel_member_buf :: bytes
  cl_po_id :: u32
  cl_po_active :: u8
  cl_mlacp_state :: bytes
  cl_isolate_to_peer_link :: u8
  cl_is_traffic_disable :: u8
  cl_vlanlist :: bytes

definition ser_mclagd_local_if :: "mclagd_local_if \<Rightarrow> bytes" where
  "ser_mclagd_local_if t = le32 (cl_ifindex t) @ cl_type t @ cl_name t @ cl_mac_addr t @ cl_state t @
     cl_ipv4_addr t @ [cl_prefixlen t] @ [cl_l3_mode t] @ [cl_is_peer_link t] @
     cl_portchannel_member_buf t @ replicate 3 0 @ le32 (cl_po_id t) @ [cl_po_active t] @
     cl_mlacp_state t @ [cl_isolate_to_peer_link t] @ [cl_is_traffic_disable t] @
     cl_vlanlist t @ replicate 1 0"

definition de_mclagd_local_if :: "mclagd_local_if decoder" where
  "de_mclagd_local_if bs = do {
     (x0, r) \<leftarrow> de_le32 bs;
     (x1, r) \<leftarrow> de_bytes 16 r;
     (x2, r) \<leftarrow> de_bytes 32 r;
     (x3, r) \<leftarrow> de_bytes 6 r;
     (x4, r) \<leftarrow> de_bytes 16 r;
     (x5, r) \<leftarrow> de_bytes 32 r;
     (x6, r) \<leftarrow> de_u8 r;
     (x7, r) \<leftarrow> de_u8 r;
     (x8, r) \<leftarrow> de_u8 r;
     (x9, r) \<leftarrow> de_bytes 512 r;
     (_, r) \<leftarrow> de_bytes 3 r;
     (x11, r) \<leftarrow> de_le32 r;
     (x12, r) \<leftarrow> de_u8 r;
     (x13, r) \<leftarrow> de_bytes 16 r;
     (x14, r) \<leftarrow> de_u8 r;
     (x15, r) \<leftarrow> de_u8 r;
     (x16, r) \<leftarrow> de_bytes 64 r;
     (_, r) \<leftarrow> de_bytes 1 r;
     Some (\<lparr>cl_ifindex = x0, cl_type = x1, cl_name = x2, cl_mac_addr = x3, cl_state = x4,
       cl_ipv4_addr = x5, cl_prefixlen = x6, cl_l3_mode = x7, cl_is_peer_link = x8,
       cl_portchannel_member_buf = x9, cl_po_id = x11, cl_po_active = x12,
       cl_mlacp_state = x13, cl_isolate_to_peer_link = x14, cl_is_traffic_disable = x15,
       cl_vlanlist = x16\<rparr>, r) }"

definition valid_mclagd_local_if :: "mclagd_local_if \<Rightarrow> bool" where
  "valid_mclagd_local_if t \<longleftrightarrow> length (cl_type t) = 16 \<and> length (cl_name t) = 32 \<and>
     length (cl_mac_addr t) = 6 \<and> length (cl_state t) = 16 \<and>
     length (cl_ipv4_addr t) = 32 \<and> length (cl_portchannel_member_buf t) = 512 \<and>
     length (cl_mlacp_state t) = 16 \<and> length (cl_vlanlist t) = 64"

interpretation mclagd_local_if_codec: codec ser_mclagd_local_if de_mclagd_local_if 712 valid_mclagd_local_if
  by unfold_locales (simp_all add: ser_mclagd_local_if_def de_mclagd_local_if_def valid_mclagd_local_if_def wire_simps)

record mclagd_peer_if =
  cp_ifindex :: u32
  cp_type :: bytes
  cp_name :: bytes
  cp_mac_addr :: bytes
  cp_state :: bytes
  cp_po_id :: u32
  cp_po_active :: u8

definition ser_mclagd_peer_if :: "mclagd_peer_if \<Rightarrow> bytes" where
  "ser_mclagd_peer_if t = le32 (cp_ifindex t) @ cp_type t @ cp_name t @ cp_mac_addr t @ cp_state t @
     replicate 2 0 @ le32 (cp_po_id t) @ [cp_po_active t] @ replicate 3 0"

definition de_mclagd_peer_if :: "mclagd_peer_if decoder" where
  "de_mclagd_peer_if bs = do {
     (x0, r) \<leftarrow> de_le32 bs;
     (x1, r) \<leftarrow> de_bytes 16 r;
     (x2, r) \<leftarrow> de_bytes 32 r;
     (x3, r) \<leftarrow> de_bytes 6 r;
     (x4, r) \<leftarrow> de_bytes 16 r;
     (_, r) \<leftarrow> de_bytes 2 r;
     (x6, r) \<leftarrow> de_le32 r;
     (x7, r) \<leftarrow> de_u8 r;
     (_, r) \<leftarrow> de_bytes 3 r;
     Some (\<lparr>cp_ifindex = x0, cp_type = x1, cp_name = x2, cp_mac_addr = x3, cp_state = x4,
       cp_po_id = x6, cp_po_active = x7\<rparr>, r) }"

definition valid_mclagd_peer_if :: "mclagd_peer_if \<Rightarrow> bool" where
  "valid_mclagd_peer_if t \<longleftrightarrow> length (cp_type t) = 16 \<and> length (cp_name t) = 32 \<and>
     length (cp_mac_addr t) = 6 \<and> length (cp_state t) = 16"

interpretation mclagd_peer_if_codec: codec ser_mclagd_peer_if de_mclagd_peer_if 84 valid_mclagd_peer_if
  by unfold_locales (simp_all add: ser_mclagd_peer_if_def de_mclagd_peer_if_def valid_mclagd_peer_if_def wire_simps)

record mclagd_unique_ip_if =
  cu_active :: u32
  cu_name :: bytes

definition ser_mclagd_unique_ip_if :: "mclagd_unique_ip_if \<Rightarrow> bytes" where
  "ser_mclagd_unique_ip_if t = le32 (cu_active t) @ cu_name t"

definition de_mclagd_unique_ip_if :: "mclagd_unique_ip_if decoder" where
  "de_mclagd_unique_ip_if bs = do {
     (x0, r) \<leftarrow> de_le32 bs;
     (x1, r) \<leftarrow> de_bytes 32 r;
     Some (\<lparr>cu_active = x0, cu_name = x1\<rparr>, r) }"

definition valid_mclagd_unique_ip_if :: "mclagd_unique_ip_if \<Rightarrow> bool" where
  "valid_mclagd_unique_ip_if t \<longleftrightarrow> length (cu_name t) = 32"

interpretation mclagd_unique_ip_if_codec: codec ser_mclagd_unique_ip_if de_mclagd_unique_ip_if 36 valid_mclagd_unique_ip_if
  by unfold_locales (simp_all add: ser_mclagd_unique_ip_if_def de_mclagd_unique_ip_if_def valid_mclagd_unique_ip_if_def wire_simps)

end
