(* ===== verification/Ctl_Dump.thy ===== *)
theory Ctl_Dump
  imports Ctl_Wire Syncd_Link "HOL-Library.Monad_Syntax"
begin

text \<open>
  The answers of the daemon to \<open>mclagdctl\<close>: the dumps of its state that \<open>iccp_cmd_show.c\<close> fills, the
  level of the log (\<open>logger.c\<close>) and the server of \<open>mlacp_link_handler.c\<close> that reads a request from
  the socket and writes the reply. A write behind the allocated buffer of a dump is \<open>None\<close>, and so is
  the reading of a name that has no end.
\<close>

section \<open>The log\<close>

record LoggerConfig =
  lg_console_log_enabled :: u8
  lg_log_level :: u8

definition logger_init :: LoggerConfig where
  "logger_init = \<lparr>lg_console_log_enabled = 0, lg_log_level = 3\<rparr>"

definition log_level_to_string :: "int \<Rightarrow> string" where
  "log_level_to_string level =
     (if level = 0 then ''CRITICAL'' else if level = 1 then ''ERROR'' else if level = 2 then ''WARN''
      else if level = 3 then ''NOTICE'' else if level = 4 then ''INFO''
      else if level = 5 then ''DEBUG'' else ''INFO'')"

definition logger_set_configuration :: "int \<Rightarrow> LoggerConfig \<Rightarrow> LoggerConfig" where
  "logger_set_configuration level lg = lg\<lparr>lg_log_level := word_of_int level\<rparr>"

definition log_init :: "u8 \<Rightarrow> LoggerConfig \<Rightarrow> LoggerConfig" where
  "log_init console lg = lg\<lparr>lg_console_log_enabled := console\<rparr>"

definition LOGBUF_SIZE :: nat where [const_defs]: "LOGBUF_SIZE = 1024"

text \<open>
  \<open>write_log\<close> prints the prefix and then the message, which is \<open>msg\<close> in full, and ends the text with
  a zero. The result is the line for \<open>syslog\<close>, if the level is not above that of the log; \<open>None\<close>
  is a write behind the buffer. The length of the prefix is below the size of the buffer for every
  tag of the daemon.
\<close>

definition write_log :: "int \<Rightarrow> string \<Rightarrow> string \<Rightarrow> LoggerConfig \<Rightarrow> string option option" where
  "write_log level tag msg lg =
     (if level > uint (lg_log_level lg) then Some None
      else
        let prefix = ''['' @ tag @ ''.'' @ log_level_to_string level @ ''] '';
            avbl_buf_len = LOGBUF_SIZE - length prefix;
            print_len = (if length msg > avbl_buf_len then avbl_buf_len else length msg)
        in if LOGBUF_SIZE < length prefix then None
           else if LOGBUF_SIZE \<le> length prefix + print_len then None
           else Some (Some (prefix @ take (avbl_buf_len - 1) msg)))"

section \<open>Text\<close>

definition show_ip_str :: "u32 \<Rightarrow> string" where
  "show_ip_str a = (let b = map (\<lambda>x. dec (unat x)) (le32 a)
     in b ! 0 @ ''.'' @ b ! 1 @ ''.'' @ b ! 2 @ ''.'' @ b ! 3)"

text \<open>
  \<open>inet_ntop\<close> for an IPv6 address: eight groups in hexadecimal, the first longest run of at least two
  zero groups replaced by two colons, and the last two groups as an IPv4 address when the run
  covers the first six groups, or five of them and the sixth is \<open>ffff\<close>.
\<close>

fun hex :: "nat \<Rightarrow> string" where
  "hex n = (if n < 16 then [hex_digit n] else hex (n div 16) @ [hex_digit (n mod 16)])"

declare hex.simps [simp del]

fun ip6_groups :: "bytes \<Rightarrow> nat list" where
  "ip6_groups (a # b # bs) = (256 * unat a + unat b) # ip6_groups bs"
| "ip6_groups _ = []"

definition zero_run :: "nat list \<Rightarrow> nat \<Rightarrow> nat" where
  "zero_run gs i = length (takeWhile (\<lambda>g. g = 0) (drop i gs))"

definition best_run :: "nat list \<Rightarrow> nat \<times> nat" where
  "best_run gs = foldl (\<lambda>(i, n) j. if n < zero_run gs j then (j, zero_run gs j) else (i, n)) (0, 0) [0..<8]"

fun colons :: "string list \<Rightarrow> string" where
  "colons [] = []"
| "colons [x] = x"
| "colons (x # xs) = x @ '':'' @ colons xs"

definition show_ipv6_str :: "bytes \<Rightarrow> string" where
  "show_ipv6_str a =
     (let gs = ip6_groups a; (i, n) = best_run gs;
          v4 = (i = 0 \<and> (n = 6 \<or> n = 5 \<and> gs ! 5 = 0xffff));
          txts = (if v4 then map hex (take 6 gs) @ [show_ip_str (of_le32 (a ! 12) (a ! 13) (a ! 14) (a ! 15))]
                  else map hex gs)
      in if n < 2 then colons txts
         else colons (take i txts) @ ''::'' @ colons (drop (i + n) txts))"

text \<open>\<open>snprintf(buf + len, n, "%s", txt)\<close> with a positive \<open>n\<close>.\<close>

definition print_at :: "nat \<Rightarrow> nat \<Rightarrow> string \<Rightarrow> bytes \<Rightarrow> bytes" where
  "print_at len n txt buf = write_at len (c_chars (take (n - 1) txt) @ [0]) buf"

definition c_strlen :: "bytes \<Rightarrow> nat" where
  "c_strlen bs = length (takeWhile (\<lambda>b. b \<noteq> 0) bs)"

text \<open>
  The port channels of a session in the array \<open>enabled_po\<close>. \<open>len\<close> is where the next name is
  written; it is the length of the text afterwards, and the next session starts with this value.
\<close>

definition MCLAGDCTL_PORT_MEMBER_BUF_LEN :: nat where [const_defs]: "MCLAGDCTL_PORT_MEMBER_BUF_LEN = 512"
definition ICCP_MAX_PORT_NAME :: nat where [const_defs]: "ICCP_MAX_PORT_NAME = 20"

fun enabled_po_loop :: "LocalInterface list \<Rightarrow> bytes \<Rightarrow> nat \<Rightarrow> bytes" where
  "enabled_po_loop [] buf len = buf"
| "enabled_po_loop (lif # ls) buf len =
     (if MCLAGDCTL_PORT_MEMBER_BUF_LEN < len + ICCP_MAX_PORT_NAME then buf
      else if lif_type lif = IF_T_PORT_CHANNEL
      then let txt = lif_name lif @ '',''
           in enabled_po_loop ls (print_at len (MCLAGDCTL_PORT_MEMBER_BUF_LEN - len) txt buf)
                (len + length txt)
      else enabled_po_loop ls buf len)"

definition enabled_po_print :: "LocalInterface list \<Rightarrow> nat \<Rightarrow> bytes \<times> nat" where
  "enabled_po_print lifs len =
     (let buf = buf_take MCLAGDCTL_PORT_MEMBER_BUF_LEN (enabled_po_loop lifs [] len);
          len' = c_strlen buf
      in (if 0 < len' then buf[len' - 1 := 0] else buf, len'))"

text \<open>
  The VLANs of an interface, with \<open>- n\<close> for the end of a range, in an array of 64 bytes:
  what was printed, its length, the last VLAN, and whether it continues a range (\<open>range\<close> and
  \<open>to_be_printed\<close>, which are always set together). The loop ends early when there is not enough
  space.
\<close>

definition VLAN_STR_SIZE :: nat where [const_defs]: "VLAN_STR_SIZE = 63"

record vlan_text =
  vt_buf :: bytes
  vt_len :: nat
  vt_prev :: nat
  vt_range :: bool

definition vlan_put :: "string \<Rightarrow> vlan_text \<Rightarrow> vlan_text" where
  "vlan_put txt v = v\<lparr>vt_buf := print_at (vt_len v) (VLAN_STR_SIZE - vt_len v) txt (vt_buf v),
     vt_len := vt_len v + length txt\<rparr>"

fun vlan_list_loop :: "nat list \<Rightarrow> vlan_text \<Rightarrow> vlan_text" where
  "vlan_list_loop [] v = v"
| "vlan_list_loop (vid # vids) v =
     (if VLAN_STR_SIZE < vt_len v + 4 then v
      else if vt_prev v = 0 \<or> vid \<noteq> vt_prev v + 1
      then
        if vt_range v \<and> VLAN_STR_SIZE < vt_len v + 12 then v
        else
          let v = (if vt_range v then vlan_put (''- '' @ dec (vt_prev v) @ '' '') v else v);
              v = vlan_put (dec vid @ '' '') v
          in vlan_list_loop vids (v\<lparr>vt_range := False, vt_prev := vid\<rparr>)
      else vlan_list_loop vids (v\<lparr>vt_range := True, vt_prev := vid\<rparr>))"

definition vlan_list_print :: "nat list \<Rightarrow> bytes" where
  "vlan_list_print vids =
     (let v = vlan_list_loop vids \<lparr>vt_buf = [], vt_len = 0, vt_prev = 0, vt_range = False\<rparr>
      in buf_take 64 (vt_buf
           (if vt_range v \<and> vt_len v + 12 < VLAN_STR_SIZE \<and> vt_prev v \<noteq> 0
            then vlan_put (''- '' @ dec (vt_prev v) @ '' '') v else v)))"

section \<open>The buffer of a dump\<close>

definition EXEC_TYPE_SUCCESS :: int where [const_defs]: "EXEC_TYPE_SUCCESS = -1"
definition EXEC_TYPE_NO_EXIST_MCLAGID :: int where [const_defs]: "EXEC_TYPE_NO_EXIST_MCLAGID = -3"
definition EXEC_TYPE_FAILED :: int where [const_defs]: "EXEC_TYPE_FAILED = -4"
definition MCLAGDCTL_CMD_SIZE :: nat where [const_defs]: "MCLAGDCTL_CMD_SIZE = 4096"
definition MCLAGD_REPLY_INFO_HDR :: nat where [const_defs]: "MCLAGD_REPLY_INFO_HDR = 16"

text \<open>What lies behind the header in the buffer, the number of structures in it, and its size.\<close>

record dump_buf =
  db_data :: bytes
  db_num :: nat
  db_size :: nat

text \<open>
  A structure of \<open>sz\<close> bytes is added, and the buffer is made longer if the next one would not fit.
\<close>

definition dump_put ::
  "nat \<Rightarrow> bytes \<Rightarrow> dump_buf \<Rightarrow> System \<Rightarrow> (dump_buf option \<times> System) option" where
  "dump_put sz bs b s =
     (if db_size b < MCLAGD_REPLY_INFO_HDR + (db_num b + 1) * sz then None
      else
        let b = b\<lparr>db_data := write_at (db_num b * sz) bs (db_data b), db_num := db_num b + 1\<rparr>
        in if db_size b - MCLAGD_REPLY_INFO_HDR < (db_num b + 1) * sz
           then let (ok, s) = malloc s
                in Some (if ok then Some (b\<lparr>db_size := db_size b + MCLAGDCTL_CMD_SIZE\<rparr>) else None, s)
           else Some (Some b, s))"

text \<open>A structure that could not be filled without reading behind an array is \<open>None\<close>.\<close>

fun dump_all :: "nat \<Rightarrow> bytes option list \<Rightarrow> dump_buf \<Rightarrow> System \<Rightarrow> (dump_buf option \<times> System) option" where
  "dump_all sz [] b s = Some (Some b, s)"
| "dump_all sz (x # xs) b s = do {
     x \<leftarrow> x;
     (b, s) \<leftarrow> dump_put sz x b s;
     case b of None \<Rightarrow> Some (None, s) | Some b \<Rightarrow> dump_all sz xs b s
   }"

text \<open>
  The loop over the sessions, or over the one with the number \<open>mclag_id\<close> when it is positive.
  \<open>view\<close> are the structures of a session; \<open>acc\<close> is what a dump carries from one session to the next.
\<close>

fun dump_sessions :: "nat \<Rightarrow> (System \<Rightarrow> csm_ptr \<Rightarrow> 'a \<Rightarrow> bytes option list \<times> 'a) \<Rightarrow> int \<Rightarrow> csm_ptr list \<Rightarrow> 'a \<Rightarrow>
    bool \<Rightarrow> dump_buf \<Rightarrow> System \<Rightarrow> (bool \<times> dump_buf option \<times> System) option" where
  "dump_sessions sz view mclag_id [] acc id_exist b s = Some (id_exist, Some b, s)"
| "dump_sessions sz view mclag_id (c # cs) acc id_exist b s =
     (if 0 < mclag_id \<and> csm_mlag_id (csm_of s c) \<noteq> mclag_id
      then dump_sessions sz view mclag_id cs acc id_exist b s
      else
        let (xs, acc) = view s c acc
        in do {
          (b, s) \<leftarrow> dump_all sz xs b s;
          case b of
            None \<Rightarrow> Some (True, None, s)
          | Some b \<Rightarrow> dump_sessions sz view mclag_id cs acc True b s
        })"

definition dump :: "nat \<Rightarrow> (System \<Rightarrow> csm_ptr \<Rightarrow> 'a \<Rightarrow> bytes option list \<times> 'a) \<Rightarrow> 'a \<Rightarrow> int \<Rightarrow> System \<Rightarrow>
    (int \<times> dump_buf option \<times> System) option" where
  "dump sz view acc mclag_id s =
     (let (ok, s) = malloc s
      in if \<not> ok then Some (EXEC_TYPE_FAILED, None, s)
         else do {
           (id_exist, b, s) \<leftarrow> dump_sessions sz view mclag_id (sys_csm_list s) acc False
             \<lparr>db_data = [], db_num = 0, db_size = MCLAGDCTL_CMD_SIZE\<rparr> s;
           Some (case b of
               None \<Rightarrow> EXEC_TYPE_FAILED
             | Some _ \<Rightarrow> if 0 < mclag_id \<and> \<not> id_exist then EXEC_TYPE_NO_EXIST_MCLAGID
                        else EXEC_TYPE_SUCCESS, b, s)
         })"

section \<open>The dumps\<close>

definition state_view :: "LoggerConfig \<Rightarrow> System \<Rightarrow> csm_ptr \<Rightarrow> nat \<Rightarrow> mclagd_state \<times> nat" where
  "state_view lg s c len =
     (let csm = csm_of s c;
          link = local_if_find_by_name (csm_peer_itf_name csm) s;
          (po, len) = enabled_po_print (map (lif_of s) (ml_lif_list (MLACP csm))) len
      in (\<lparr>cs_mclag_id = (if csm_mlag_id csm \<le> 0 then -1 else word_of_int (csm_mlag_id csm)),
           cs_keepalive = (if csm_current_state csm = ICCP_OPERATIONAL then 1 else 0),
           cs_info_sync_done = (if ml_current_state (MLACP csm) = MLACP_STATE_EXCHANGE then 1 else 0),
           cs_local_ip = c_array 32 (take 16 (csm_sender_ip csm)),
           cs_peer_ip = c_array 32 (take 16 (csm_peer_ip csm)),
           cs_peer_link_if = c_array 32 (case link of
               Some l \<Rightarrow> take ICCP_MAX_PORT_NAME (lif_name (lif_of s l)) | None \<Rightarrow> ''Unknown''),
           cs_peer_link_mac = buf_take 6 (case link of Some l \<Rightarrow> lif_mac_addr (lif_of s l) | None \<Rightarrow> []),
           cs_role = (case csm_role_type csm of STP_ROLE_NONE \<Rightarrow> 0 | STP_ROLE_ACTIVE \<Rightarrow> 1
               | STP_ROLE_STANDBY \<Rightarrow> 2),
           cs_enabled_po = po,
           cs_session_timeout = word_of_int (csm_session_timeout csm),
           cs_keepalive_time = word_of_int (csm_keepalive_time csm),
           cs_loglevel = c_array 16 (log_level_to_string (uint (lg_log_level lg)))\<rparr>, len))"

definition iccp_mclag_config_dump ::
  "LoggerConfig \<Rightarrow> int \<Rightarrow> System \<Rightarrow> (int \<times> dump_buf option \<times> System) option" where
  "iccp_mclag_config_dump lg =
     dump 656 (\<lambda>s c len. let (r, len) = state_view lg s c len in ([Some (ser_mclagd_state r)], len)) 0"

text \<open>The dumps that carry nothing from one session to the next.\<close>

definition dump_each ::
  "nat \<Rightarrow> ('r \<Rightarrow> bytes) \<Rightarrow> (System \<Rightarrow> csm_ptr \<Rightarrow> 'r option list) \<Rightarrow> int \<Rightarrow> System \<Rightarrow>
   (int \<times> dump_buf option \<times> System) option" where
  "dump_each sz ser entries = dump sz (\<lambda>s c _. (map (map_option ser) (entries s c), ())) ()"

text \<open>
  The name of an ARP or ND entry is copied with \<open>strlen\<close>, which runs behind the array of the entry if
  there is no terminator in it.
\<close>

definition arp_view :: "ARPMsg \<Rightarrow> mclagd_arp_msg option" where
  "arp_view a =
     (if 0 \<notin> set (arp_ifname a) then None
      else Some \<lparr>ca_op_type = arp_op_type a,
        ca_ifname = buf_take 32 (takeWhile (\<lambda>b. b \<noteq> 0) (arp_ifname a)),
        ca_ipv4_addr = c_array 32 (show_ip_str (arp_ipv4_addr a)),
        ca_mac_addr = buf_take 6 (arp_mac_addr a), ca_learn_flag = arp_learn_flag a\<rparr>)"

definition arp_entries :: "System \<Rightarrow> csm_ptr \<Rightarrow> mclagd_arp_msg option list" where
  "arp_entries s c = map arp_view (ml_arp_list (MLACP (csm_of s c)))"

definition iccp_arp_dump :: "int \<Rightarrow> System \<Rightarrow> (int \<times> dump_buf option \<times> System) option" where
  "iccp_arp_dump = dump_each 72 ser_mclagd_arp_msg arp_entries"

definition ndisc_view :: "NDISCMsg \<Rightarrow> mclagd_ndisc_msg option" where
  "ndisc_view a =
     (if 0 \<notin> set (nd_ifname a) then None
      else Some \<lparr>cn_op_type = nd_op_type a,
        cn_ifname = buf_take 32 (takeWhile (\<lambda>b. b \<noteq> 0) (nd_ifname a)),
        cn_ipv6_addr = c_array 64 (take 46 (show_ipv6_str (nd_ipv6_addr a))),
        cn_mac_addr = buf_take 6 (nd_mac_addr a), cn_learn_flag = nd_learn_flag a\<rparr>)"

definition ndisc_entries :: "System \<Rightarrow> csm_ptr \<Rightarrow> mclagd_ndisc_msg option list" where
  "ndisc_entries s c = map ndisc_view (ml_ndisc_list (MLACP (csm_of s c)))"

definition iccp_ndisc_dump :: "int \<Rightarrow> System \<Rightarrow> (int \<times> dump_buf option \<times> System) option" where
  "iccp_ndisc_dump = dump_each 104 ser_mclagd_ndisc_msg ndisc_entries"

definition mac_view :: "MACMsg \<Rightarrow> mclagd_mac_msg" where
  "mac_view m = \<lparr>cm_op_type = mac_op_type m, cm_fdb_type = mac_fdb_type m,
     cm_mac_addr = buf_take 6 (mac_addr m), cm_vid = mac_vid m, cm_ifname = c_array 32 (mac_ifname m),
     cm_origin_ifname = c_array 32 (mac_origin_ifname m), cm_age_flag = mac_age_flag m\<rparr>"

definition mac_entries :: "System \<Rightarrow> csm_ptr \<Rightarrow> mclagd_mac_msg list" where
  "mac_entries s c = map (\<lambda>p. mac_view (ml_mac_heap (MLACP (csm_of s c)) p)) (ml_mac_rb (MLACP (csm_of s c)))"

definition iccp_mac_dump :: "int \<Rightarrow> System \<Rightarrow> (int \<times> dump_buf option \<times> System) option" where
  "iccp_mac_dump = dump_each 76 ser_mclagd_mac_msg (\<lambda>s c. map Some (mac_entries s c))"

definition port_state_name :: "u8 \<Rightarrow> string" where
  "port_state_name st = (if st = PORT_STATE_UP then ''Up'' else if st = PORT_STATE_DOWN then ''Down''
     else if st = 2 then ''Admin-down'' else if st = 3 then ''Test'' else [])"

text \<open>The first argument is the text for an unknown type, which is one letter short at two places.\<close>

definition if_type_name :: "string \<Rightarrow> int \<Rightarrow> string" where
  "if_type_name unknown ty = (if ty = IF_T_UNKNOW then unknown
     else if ty = IF_T_PORT then ''Ethernet'' else if ty = IF_T_PORT_CHANNEL then ''PortChannel'' else [])"

definition mlacp_state_name :: "MLACP_APP_STATE \<Rightarrow> string" where
  "mlacp_state_name st = (case st of MLACP_STATE_INIT \<Rightarrow> ''INIT'' | MLACP_STATE_STAGE1 \<Rightarrow> ''STAGE1''
     | MLACP_STATE_STAGE2 \<Rightarrow> ''STAGE2'' | MLACP_STATE_EXCHANGE \<Rightarrow> ''EXCHANGE'' | MLACP_STATE_ERROR \<Rightarrow> ''ERROR'')"

definition lif_view :: "string \<Rightarrow> LocalInterface \<Rightarrow> mclagd_local_if" where
  "lif_view unknown l = \<lparr>cl_ifindex = word_of_int (lif_ifindex l),
     cl_type = c_array 16 (if_type_name unknown (lif_type l)),
     cl_name = c_array 32 (take MAX_L_PORT_NAME (lif_name l)), cl_mac_addr = buf_take 6 (lif_mac_addr l),
     cl_state = c_array 16 (port_state_name (lif_state l)),
     cl_ipv4_addr = c_array 32 (show_ip_str (lif_ipv4_addr l)), cl_prefixlen = lif_prefixlen l,
     cl_l3_mode = (if local_if_is_l3_mode l then 1 else 0), cl_is_peer_link = lif_is_peer_link l,
     cl_portchannel_member_buf = c_array 512 (lif_portchannel_member_buf l),
     cl_po_id = word_of_int (lif_po_id l), cl_po_active = lif_po_active l,
     cl_mlacp_state = c_array 16 (mlacp_state_name (lif_mlacp_state l)),
     cl_isolate_to_peer_link = lif_isolate_to_peer_link l,
     cl_is_traffic_disable = (if lif_is_traffic_disable l then 1 else 0),
     cl_vlanlist = vlan_list_print (map (\<lambda>v. unat (vl_vid v)) (lif_vlan_tree l))\<rparr>"

definition lif_entries :: "System \<Rightarrow> csm_ptr \<Rightarrow> mclagd_local_if list" where
  "lif_entries s c = map (\<lambda>l. lif_view ''Unknow'' (lif_of s l)) (ml_lif_list (MLACP (csm_of s c))) @
     (case csm_peer_link_if (csm_of s c) of None \<Rightarrow> [] | Some l \<Rightarrow> [lif_view ''Unknown'' (lif_of s l)])"

definition iccp_local_if_dump :: "int \<Rightarrow> System \<Rightarrow> (int \<times> dump_buf option \<times> System) option" where
  "iccp_local_if_dump = dump_each 712 ser_mclagd_local_if (\<lambda>s c. map Some (lif_entries s c))"

definition pif_view :: "PeerInterface \<Rightarrow> mclagd_peer_if" where
  "pif_view p = \<lparr>cp_ifindex = word_of_int (pif_ifindex p),
     cp_type = c_array 16 (if_type_name ''Unknow'' (pif_type p)),
     cp_name = c_array 32 (take MAX_L_PORT_NAME (pif_name p)), cp_mac_addr = buf_take 6 (pif_mac_addr p),
     cp_state = c_array 16 (port_state_name (pif_state p)), cp_po_id = word_of_int (pif_po_id p),
     cp_po_active = pif_po_active p\<rparr>"

definition pif_entries :: "System \<Rightarrow> csm_ptr \<Rightarrow> mclagd_peer_if list" where
  "pif_entries s c = map pif_view (ml_pif_list (MLACP (csm_of s c)))"

definition iccp_peer_if_dump :: "int \<Rightarrow> System \<Rightarrow> (int \<times> dump_buf option \<times> System) option" where
  "iccp_peer_if_dump = dump_each 84 ser_mclagd_peer_if (\<lambda>s c. map Some (pif_entries s c))"

text \<open>The interfaces with their own addresses belong to no session.\<close>

definition unique_ip_view :: "System \<Rightarrow> string \<Rightarrow> mclagd_unique_ip_if" where
  "unique_ip_view s name = \<lparr>cu_active = (if local_if_l3_proto_enabled name s then 1 else 0),
     cu_name = c_array 32 (take MAX_L_PORT_NAME name)\<rparr>"

definition iccp_unique_ip_if_dump :: "int \<Rightarrow> System \<Rightarrow> (int \<times> dump_buf option \<times> System) option" where
  "iccp_unique_ip_if_dump mclag_id s =
     (let (ok, s) = malloc s
      in if \<not> ok then Some (EXEC_TYPE_FAILED, None, s)
         else do {
           (b, s) \<leftarrow> dump_all 36 (map (\<lambda>n. Some (ser_mclagd_unique_ip_if (unique_ip_view s n))) (sys_unq_ip_if_list s))
             \<lparr>db_data = [], db_num = 0, db_size = MCLAGDCTL_CMD_SIZE\<rparr> s;
           Some (if b = None then EXEC_TYPE_FAILED else EXEC_TYPE_SUCCESS, b, s)
         })"

section \<open>The counters\<close>

definition ICCP_DBG_CNTR_MSG_MAX :: nat where [const_defs]: "ICCP_DBG_CNTR_MSG_MAX = 29"

definition le64 :: "u64 \<Rightarrow> bytes" where
  "le64 w = map (\<lambda>i. ucast (drop_bit (8 * i) w)) [0..<8]"

definition ser_counters :: "iccp_counters \<Rightarrow> bytes" where
  "ser_counters f = concat (map (\<lambda>m. concat (map (\<lambda>d. concat (map (\<lambda>st. le64 (f m d st)) [0, 1])) [0, 1]))
     [0..<ICCP_DBG_CNTR_MSG_MAX])"

text \<open>
  \<open>dbg\<close> are the bytes of \<open>sys->dbg_counters\<close>, a multiple of eight. The blocks of the sessions begin
  one byte behind them, and the structure is padded to the next multiple of eight. A block that does
  not fit into the buffer is written behind it.
\<close>

definition iccp_cmd_dbg_counter_dump :: "bytes \<Rightarrow> int \<Rightarrow> System \<Rightarrow> (int \<times> bytes \<times> System) option" where
  "iccp_cmd_dbg_counter_dump dbg mclag_id s =
     (let num_csm = (if 0 < mclag_id then 1 else length (sys_csm_list s));
          buf_len = length dbg + 8 + 8 * (4 * ICCP_DBG_CNTR_MSG_MAX) * num_csm;
          (ok, s) = malloc s
      in if \<not> ok then Some (EXEC_TYPE_FAILED, [], s)
         else
           let cs = filter (\<lambda>c. \<not> (0 < mclag_id \<and> csm_mlag_id (csm_of s c) \<noteq> mclag_id)) (sys_csm_list s);
               data = dbg @ [word_of_nat num_csm] @
                 concat (map (\<lambda>c. ser_counters (ml_dbg_counters (MLACP (csm_of s c)))) cs)
           in if buf_len < length data then None
              else if 0 < mclag_id \<and> cs = [] then Some (EXEC_TYPE_NO_EXIST_MCLAGID, [], s)
              else Some (EXEC_TYPE_SUCCESS, buf_take buf_len data, s))"

section \<open>The socket\<close>

text \<open>
  What \<open>select\<close> and \<open>read\<close> see of the other side: nothing until the timeout (or an error), or some
  bytes, none when the connection was closed. A read takes as many of them as it asked for.
\<close>

datatype arrival = Quiet | Data bytes

function mclagd_ctl_sock_read :: "nat \<Rightarrow> bytes \<Rightarrow> arrival list \<Rightarrow> (bytes \<times> arrival list) option" where
  "mclagd_ctl_sock_read total_len r_buf evs =
     (if total_len \<le> length r_buf then Some (r_buf, evs)
      else case evs of
          Data bs # evs \<Rightarrow>
            if bs = [] then None
            else
              let n = total_len - length r_buf
              in mclagd_ctl_sock_read total_len (r_buf @ take n bs)
                   (if drop n bs = [] then evs else Data (drop n bs) # evs)
        | _ \<Rightarrow> None)"
  by pat_completeness auto
termination
  by (relation "measure (\<lambda>(total_len, r_buf, _). total_len - length r_buf)") (auto simp: min_def neq_Nil_conv)

declare mclagd_ctl_sock_read.simps [simp del]

text \<open>
  \<open>ws\<close> are the results of the calls of \<open>write\<close>, which accept at most what is left. The bytes that
  were accepted, and whether all were.
\<close>

fun mclagd_ctl_sock_write :: "bytes \<Rightarrow> int list \<Rightarrow> bytes \<times> bool" where
  "mclagd_ctl_sock_write [] ws = ([], True)"
| "mclagd_ctl_sock_write buf [] = ([], False)"
| "mclagd_ctl_sock_write buf (w # ws) =
     (if w \<le> 0 then ([], False)
      else let (sent, all) = mclagd_ctl_sock_write (drop (nat w) buf) ws in (take (nat w) buf @ sent, all))"

section \<open>The server\<close>

definition INFO_TYPE_DUMP_STATE :: int where [const_defs]: "INFO_TYPE_DUMP_STATE = 1"
definition INFO_TYPE_DUMP_ARP :: int where [const_defs]: "INFO_TYPE_DUMP_ARP = 2"
definition INFO_TYPE_DUMP_NDISC :: int where [const_defs]: "INFO_TYPE_DUMP_NDISC = 3"
definition INFO_TYPE_DUMP_MAC :: int where [const_defs]: "INFO_TYPE_DUMP_MAC = 4"
definition INFO_TYPE_DUMP_UNIQUE_IP :: int where [const_defs]: "INFO_TYPE_DUMP_UNIQUE_IP = 5"
definition INFO_TYPE_DUMP_LOCAL_PORTLIST :: int where [const_defs]: "INFO_TYPE_DUMP_LOCAL_PORTLIST = 6"
definition INFO_TYPE_DUMP_PEER_PORTLIST :: int where [const_defs]: "INFO_TYPE_DUMP_PEER_PORTLIST = 7"
definition INFO_TYPE_DUMP_DBG_COUNTERS :: int where [const_defs]: "INFO_TYPE_DUMP_DBG_COUNTERS = 8"
definition INFO_TYPE_CONFIG_LOGLEVEL :: int where [const_defs]: "INFO_TYPE_CONFIG_LOGLEVEL = 9"

text \<open>
  A reply is the length of the rest, the header and the data. The length of the data is an \<open>int\<close>,
  and so is the number of bytes that are written.
\<close>

definition ctl_header :: "int \<Rightarrow> u32 \<Rightarrow> int \<Rightarrow> bytes" where
  "ctl_header info_type data_len result = le32 (data_len + 12) @
     ser_mclagd_reply_hdr \<lparr>rp_info_type = word_of_int info_type, rp_data_len = data_len,
       rp_exec_result = word_of_int result\<rparr>"

definition ctl_reply :: "int \<Rightarrow> bytes \<Rightarrow> bytes" where
  "ctl_reply info_type data =
     (let data_len = word_of_nat (length data) :: u32
      in take (nat (sint (data_len + 16))) (ctl_header info_type data_len EXEC_TYPE_SUCCESS @ data))"

text \<open>
  A dump answered with its structures, or with the error it returned; \<open>info_type'\<close> is the type in
  the header of an error.
\<close>

definition ctl_answer ::
  "int \<Rightarrow> int \<Rightarrow> (int \<times> bytes \<times> System) option \<Rightarrow> (bytes \<times> System) option" where
  "ctl_answer info_type info_type' res = do {
     (ret, data, s) \<leftarrow> res;
     Some (if ret \<noteq> EXEC_TYPE_SUCCESS then ctl_header info_type' 0 ret
           else ctl_reply info_type data, s)
   }"

definition dumped :: "(int \<times> dump_buf option \<times> System) option \<Rightarrow> (int \<times> bytes \<times> System) option" where
  "dumped = map_option (\<lambda>(ret, b, s). (ret, case b of None \<Rightarrow> [] | Some b \<Rightarrow> db_data b, s))"

definition mclagd_ctl_handle_dump_state :: "LoggerConfig \<Rightarrow> int \<Rightarrow> System \<Rightarrow> (bytes \<times> System) option" where
  "mclagd_ctl_handle_dump_state lg mclag_id s =
     ctl_answer INFO_TYPE_DUMP_STATE INFO_TYPE_DUMP_STATE (dumped (iccp_mclag_config_dump lg mclag_id s))"

definition mclagd_ctl_handle_dump_arp :: "int \<Rightarrow> System \<Rightarrow> (bytes \<times> System) option" where
  "mclagd_ctl_handle_dump_arp mclag_id s =
     ctl_answer INFO_TYPE_DUMP_ARP INFO_TYPE_DUMP_ARP (dumped (iccp_arp_dump mclag_id s))"

definition mclagd_ctl_handle_dump_ndisc :: "int \<Rightarrow> System \<Rightarrow> (bytes \<times> System) option" where
  "mclagd_ctl_handle_dump_ndisc mclag_id s =
     ctl_answer INFO_TYPE_DUMP_NDISC INFO_TYPE_DUMP_NDISC (dumped (iccp_ndisc_dump mclag_id s))"

definition mclagd_ctl_handle_dump_mac :: "int \<Rightarrow> System \<Rightarrow> (bytes \<times> System) option" where
  "mclagd_ctl_handle_dump_mac mclag_id s =
     ctl_answer INFO_TYPE_DUMP_MAC INFO_TYPE_DUMP_MAC (dumped (iccp_mac_dump mclag_id s))"

definition mclagd_ctl_handle_dump_local_portlist :: "int \<Rightarrow> System \<Rightarrow> (bytes \<times> System) option" where
  "mclagd_ctl_handle_dump_local_portlist mclag_id s =
     ctl_answer INFO_TYPE_DUMP_LOCAL_PORTLIST INFO_TYPE_DUMP_LOCAL_PORTLIST
       (dumped (iccp_local_if_dump mclag_id s))"

definition mclagd_ctl_handle_dump_peer_portlist :: "int \<Rightarrow> System \<Rightarrow> (bytes \<times> System) option" where
  "mclagd_ctl_handle_dump_peer_portlist mclag_id s =
     ctl_answer INFO_TYPE_DUMP_PEER_PORTLIST INFO_TYPE_DUMP_PEER_PORTLIST
       (dumped (iccp_peer_if_dump mclag_id s))"

definition mclagd_ctl_handle_dump_dbg_counters :: "bytes \<Rightarrow> int \<Rightarrow> System \<Rightarrow> (bytes \<times> System) option" where
  "mclagd_ctl_handle_dump_dbg_counters dbg mclag_id s =
     ctl_answer INFO_TYPE_DUMP_DBG_COUNTERS INFO_TYPE_DUMP_DBG_COUNTERS
       (iccp_cmd_dbg_counter_dump dbg mclag_id s)"

definition mclagd_ctl_handle_dump_unique_ip :: "int \<Rightarrow> System \<Rightarrow> (bytes \<times> System) option" where
  "mclagd_ctl_handle_dump_unique_ip mclag_id s =
     ctl_answer INFO_TYPE_DUMP_UNIQUE_IP INFO_TYPE_DUMP_LOCAL_PORTLIST
       (dumped (iccp_unique_ip_if_dump mclag_id s))"

definition mclagd_ctl_handle_config_loglevel :: "int \<Rightarrow> LoggerConfig \<Rightarrow> bytes \<times> LoggerConfig" where
  "mclagd_ctl_handle_config_loglevel log_level lg =
     (ctl_header INFO_TYPE_CONFIG_LOGLEVEL 0 EXEC_TYPE_SUCCESS, logger_set_configuration log_level lg)"

text \<open>
  One request: what the daemon writes as an answer before the socket accepts it, with the state and
  the configuration of the log afterwards. \<open>MCLAG_ERROR\<close>, with nothing written, is \<open>Inl ()\<close>.
\<close>

definition ctl_dispatch :: "bytes \<Rightarrow> int \<Rightarrow> int \<Rightarrow> LoggerConfig \<Rightarrow> System \<Rightarrow>
    (unit + bytes \<times> LoggerConfig \<times> System) option" where
  "ctl_dispatch dbg info_type mclag_id lg s =
     (let keep = map_option (\<lambda>(bs, s). Inr (bs, lg, s))
      in if info_type = INFO_TYPE_DUMP_STATE then keep (mclagd_ctl_handle_dump_state lg mclag_id s)
         else if info_type = INFO_TYPE_DUMP_ARP then keep (mclagd_ctl_handle_dump_arp mclag_id s)
         else if info_type = INFO_TYPE_DUMP_NDISC then keep (mclagd_ctl_handle_dump_ndisc mclag_id s)
         else if info_type = INFO_TYPE_DUMP_MAC then keep (mclagd_ctl_handle_dump_mac mclag_id s)
         else if info_type = INFO_TYPE_DUMP_LOCAL_PORTLIST
         then keep (mclagd_ctl_handle_dump_local_portlist mclag_id s)
         else if info_type = INFO_TYPE_DUMP_PEER_PORTLIST
         then keep (mclagd_ctl_handle_dump_peer_portlist mclag_id s)
         else if info_type = INFO_TYPE_DUMP_DBG_COUNTERS
         then keep (mclagd_ctl_handle_dump_dbg_counters dbg mclag_id s)
         else if info_type = INFO_TYPE_DUMP_UNIQUE_IP then keep (mclagd_ctl_handle_dump_unique_ip mclag_id s)
         else if info_type = INFO_TYPE_CONFIG_LOGLEVEL
         then let (bs, lg) = mclagd_ctl_handle_config_loglevel mclag_id lg in Some (Inr (bs, lg, s))
         else Some (Inl ()))"

definition mclagd_ctl_interactive_process :: "bytes \<Rightarrow> arrival list \<Rightarrow> int list \<Rightarrow> LoggerConfig \<Rightarrow> System \<Rightarrow>
    (int \<times> bytes \<times> LoggerConfig \<times> System) option" where
  "mclagd_ctl_interactive_process dbg evs ws lg s =
     (case mclagd_ctl_sock_read 104 [] evs of
        None \<Rightarrow> Some (MCLAG_ERROR, [], lg, s)
      | Some (buf, _) \<Rightarrow> do {
          (req, _) \<leftarrow> de_mclagdctl_req_hdr buf;
          r \<leftarrow> ctl_dispatch dbg (sint (rq_info_type req)) (sint (rq_mclag_id req)) lg s;
          Some (case r of
              Inl _ \<Rightarrow> (MCLAG_ERROR, [], lg, s)
            | Inr (bs, lg, s) \<Rightarrow> (0, fst (mclagd_ctl_sock_write bs ws), lg, s))
        })"

end
