(* ===== verification/Ctl_Client.thy ===== *)
theory Ctl_Client
  imports Ctl_Dump Iccp_Session
begin

text \<open>
  The tool \<open>mclagdctl\<close> (\<open>mclagdctl/mclagdctl.c\<close>): its commands and how they are looked up, the
  requests it sends to the daemon, and what it prints of the replies. Reading behind the reply, or
  behind a character array without a zero, is \<open>None\<close>.
\<close>

section \<open>Formatting\<close>

definition nl :: string where "nl = [CHR 0x0A]"

definition dec_int :: "int \<Rightarrow> string" where
  "dec_int i = (if i < 0 then ''-'' @ dec (nat (- i)) else dec (nat i))"

text \<open>The conversion \<open>%-ns\<close>, and a line with a name and a value.\<close>

definition pad :: "nat \<Rightarrow> string \<Rightarrow> string" where
  "pad n t = t @ replicate (n - length t) (CHR '' '')"

definition kv :: "string \<Rightarrow> string \<Rightarrow> string" where
  "kv k v = k @ '': '' @ v @ nl"

definition yes_no :: "u8 \<Rightarrow> string" where
  "yes_no b = (if b \<noteq> 0 then ''Yes'' else ''No'')"

definition dashes :: string where "dashes = replicate 60 (CHR ''-'') @ nl"

definition mac_addr_to_str :: "bytes \<Rightarrow> string" where
  "mac_addr_to_str mac = mac_str mac"

text \<open>
  The loop of a parser over the structures of a reply. \<open>len\<close> is the size of a structure, which is
  positive.
\<close>

function parse_rows :: "'r decoder \<Rightarrow> nat \<Rightarrow> (nat \<Rightarrow> 'r \<Rightarrow> string option) \<Rightarrow> nat \<Rightarrow> int \<Rightarrow> bytes \<Rightarrow> string option" where
  "parse_rows de len row count data_len msg =
     (if len = 0 \<or> data_len < int len then Some []
      else do {
        (r, _) \<leftarrow> de (drop (len * count) msg);
        t \<leftarrow> row count r;
        ts \<leftarrow> parse_rows de len row (count + 1) (data_len - int len) msg;
        Some (t @ ts)
      })"
  by pat_completeness auto
termination
  by (relation "measure (\<lambda>(_, _, _, _, data_len, _). nat data_len)") auto

declare parse_rows.simps [simp del]

section \<open>Requests\<close>

definition enca_req :: "int \<Rightarrow> int \<Rightarrow> bytes" where
  "enca_req info_type mclag_id = ser_mclagdctl_req_hdr \<lparr>rq_info_type = word_of_int info_type,
     rq_mclag_id = word_of_int mclag_id, rq_para1 = replicate 32 0, rq_para2 = replicate 32 0,
     rq_para3 = replicate 32 0\<rparr>"

definition enca_req_id :: "int \<Rightarrow> int \<Rightarrow> bytes option" where
  "enca_req_id info_type mclag_id = (if mclag_id \<le> 0 then None else Some (enca_req info_type mclag_id))"

definition mclagdctl_enca_dump_state :: "int \<Rightarrow> bytes option" where
  "mclagdctl_enca_dump_state mclag_id = Some (enca_req INFO_TYPE_DUMP_STATE mclag_id)"

definition mclagdctl_enca_dump_arp :: "int \<Rightarrow> bytes option" where
  "mclagdctl_enca_dump_arp = enca_req_id INFO_TYPE_DUMP_ARP"

definition mclagdctl_enca_dump_ndisc :: "int \<Rightarrow> bytes option" where
  "mclagdctl_enca_dump_ndisc = enca_req_id INFO_TYPE_DUMP_NDISC"

definition mclagdctl_enca_dump_mac :: "int \<Rightarrow> bytes option" where
  "mclagdctl_enca_dump_mac = enca_req_id INFO_TYPE_DUMP_MAC"

definition mclagdctl_enca_dump_local_portlist :: "int \<Rightarrow> bytes option" where
  "mclagdctl_enca_dump_local_portlist = enca_req_id INFO_TYPE_DUMP_LOCAL_PORTLIST"

definition mclagdctl_enca_dump_peer_portlist :: "int \<Rightarrow> bytes option" where
  "mclagdctl_enca_dump_peer_portlist = enca_req_id INFO_TYPE_DUMP_PEER_PORTLIST"

definition mclagdctl_enca_dump_unique_ip :: "int \<Rightarrow> bytes option" where
  "mclagdctl_enca_dump_unique_ip = enca_req_id INFO_TYPE_DUMP_UNIQUE_IP"

definition mclagdctl_enca_dump_dbg_counters :: "int \<Rightarrow> bytes option" where
  "mclagdctl_enca_dump_dbg_counters mclag_id = Some (enca_req INFO_TYPE_DUMP_DBG_COUNTERS mclag_id)"

definition mclagdctl_enca_config_loglevel :: "int \<Rightarrow> bytes option" where
  "mclagdctl_enca_config_loglevel log_level = Some (enca_req INFO_TYPE_CONFIG_LOGLEVEL log_level)"

section \<open>Replies\<close>

definition state_row :: "nat \<Rightarrow> mclagd_state \<Rightarrow> string option" where
  "state_row n r = do {
     local_ip \<leftarrow> c_string (cs_local_ip r);
     peer_ip \<leftarrow> c_string (cs_peer_ip r);
     peer_link_if \<leftarrow> c_string (cs_peer_link_if r);
     enabled_po \<leftarrow> c_string (cs_enabled_po r);
     loglevel \<leftarrow> c_string (cs_loglevel r);
     Some (kv ''The MCLAG's keepalive is'' (if cs_keepalive r \<noteq> 0 then ''OK'' else ''ERROR'') @
       kv ''MCLAG info sync is'' (if cs_info_sync_done r \<noteq> 0 then ''completed'' else ''incomplete'') @
       kv ''Domain id'' (if sint (cs_mclag_id r) \<le> 0 then ''Unknown'' else dec_int (sint (cs_mclag_id r))) @
       kv ''Local Ip'' local_ip @ kv ''Peer Ip'' peer_ip @ kv ''Peer Link Interface'' peer_link_if @
       kv ''Keepalive time'' (dec_int (sint (cs_keepalive_time r))) @
       kv ''sesssion Timeout '' (dec_int (sint (cs_session_timeout r))) @
       kv ''Peer Link Mac'' (mac_str (cs_peer_link_mac r) @ '' '') @
       kv ''Role'' (if inet_addr local_ip < inet_addr peer_ip then ''Active'' else ''Standby'') @
       kv ''MCLAG Interface'' enabled_po @ kv ''Loglevel'' loglevel)
   }"

definition mclagdctl_parse_dump_state :: "bytes \<Rightarrow> int \<Rightarrow> string option" where
  "mclagdctl_parse_dump_state msg data_len = parse_rows de_mclagd_state 656 state_row 0 data_len msg"

definition flag_text :: "u8 \<Rightarrow> string" where
  "flag_text f = (if f = 2 then ''R'' else if f = 1 then ''L'' else ''-'')"

definition arp_row :: "nat \<Rightarrow> mclagd_arp_msg \<Rightarrow> string option" where
  "arp_row n r = do {
     ip \<leftarrow> c_string (ca_ipv4_addr r);
     dev \<leftarrow> c_string (ca_ifname r);
     Some (pad 6 (dec (n + 1)) @ pad 20 ip @ mac_str (ca_mac_addr r) @ ''   '' @ pad 20 dev @
       flag_text (ca_learn_flag r) @ nl)
   }"

definition mclagdctl_parse_dump_arp :: "bytes \<Rightarrow> int \<Rightarrow> string option" where
  "mclagdctl_parse_dump_arp msg data_len =
     map_option (\<lambda>t. pad 6 ''No.'' @ pad 20 ''IP'' @ pad 20 ''MAC'' @ pad 20 ''DEV'' @ ''Flag'' @ nl @ t)
       (parse_rows de_mclagd_arp_msg 72 arp_row 0 data_len msg)"

definition ndisc_row :: "nat \<Rightarrow> mclagd_ndisc_msg \<Rightarrow> string option" where
  "ndisc_row n r = do {
     ip \<leftarrow> c_string (cn_ipv6_addr r);
     dev \<leftarrow> c_string (cn_ifname r);
     Some (pad 6 (dec (n + 1)) @ pad 52 ip @ mac_str (cn_mac_addr r) @ ''   '' @ pad 20 dev @
       flag_text (cn_learn_flag r) @ nl)
   }"

definition mclagdctl_parse_dump_ndisc :: "bytes \<Rightarrow> int \<Rightarrow> string option" where
  "mclagdctl_parse_dump_ndisc msg data_len =
     map_option (\<lambda>t. pad 6 ''No.'' @ pad 52 ''IPv6'' @ pad 20 ''MAC'' @ pad 20 ''DEV'' @ ''Flag'' @ nl @ t)
       (parse_rows de_mclagd_ndisc_msg 104 ndisc_row 0 data_len msg)"

definition age_text :: "u8 \<Rightarrow> string" where
  "age_text f = (if f AND 1 \<noteq> 0 \<and> f AND 2 \<noteq> 0 then ''LP'' else if f AND 1 \<noteq> 0 then ''L''
     else if f AND 2 \<noteq> 0 then ''P'' else '' '')"

definition mac_row :: "nat \<Rightarrow> mclagd_mac_msg \<Rightarrow> string option" where
  "mac_row n r = do {
     dev \<leftarrow> c_string (cm_ifname r);
     origin \<leftarrow> c_string (cm_origin_ifname r);
     Some (pad 6 (dec (n + 1)) @ pad 5 (if cm_fdb_type r = 1 then ''S'' else ''D'') @
       pad 20 (mac_addr_to_str (cm_mac_addr r)) @ pad 5 (dec (unat (cm_vid r))) @ pad 20 dev @
       pad 20 origin @ pad 5 (age_text (cm_age_flag r)) @ nl)
   }"

definition mac_head :: string where
  "mac_head = pad 60 ''TYPE: S-STATIC, D-DYNAMIC; AGE: L-Local age, P-Peer age'' @ nl @ pad 6 ''No.'' @
     pad 5 ''TYPE'' @ pad 20 ''MAC'' @ pad 5 ''VID'' @ pad 20 ''DEV'' @ pad 20 ''ORIGIN-DEV'' @
     pad 5 ''AGE'' @ nl"

definition mclagdctl_parse_dump_mac :: "bytes \<Rightarrow> int \<Rightarrow> string option" where
  "mclagdctl_parse_dump_mac msg data_len =
     map_option (\<lambda>t. mac_head @ t) (parse_rows de_mclagd_mac_msg 76 mac_row 0 data_len msg)"

definition lif_row :: "nat \<Rightarrow> mclagd_local_if \<Rightarrow> string option" where
  "lif_row n r = do {
     ty \<leftarrow> c_string (cl_type r);
     name \<leftarrow> c_string (cl_name r);
     state \<leftarrow> c_string (cl_state r);
     vlans \<leftarrow> c_string (cl_vlanlist r);
     if take 11 (cl_type r) = c_chars ''PortChannel'' then do {
       ip \<leftarrow> c_string (cl_ipv4_addr r);
       members \<leftarrow> c_string (cl_portchannel_member_buf r);
       Some (dashes @ kv ''Ifindex'' (dec_int (sint (cl_ifindex r))) @ kv ''Type'' ty @ kv ''PortName'' name @
         kv ''MAC'' (mac_str (cl_mac_addr r) @ '' '') @ kv ''IPv4Address'' ip @
         kv ''Prefixlen'' (dec (unat (cl_prefixlen r))) @ kv ''State'' state @
         kv ''IsL3Interface'' (yes_no (cl_l3_mode r)) @ kv ''MemberPorts'' members @
         kv ''PortchannelIsUp'' (dec (unat (cl_po_active r))) @
         kv ''IsIsolateWithPeerlink'' (yes_no (cl_isolate_to_peer_link r)) @
         kv ''IsTrafficDisable'' (yes_no (cl_is_traffic_disable r)) @ kv ''VlanList'' vlans @ dashes @ nl)
     }
     else Some (dashes @ kv ''Ifindex'' (dec_int (sint (cl_ifindex r))) @ kv ''Type'' ty @ kv ''PortName'' name @
         kv ''State'' state @ kv ''VlanList'' vlans @ dashes @ nl)
   }"

definition mclagdctl_parse_dump_local_portlist :: "bytes \<Rightarrow> int \<Rightarrow> string option" where
  "mclagdctl_parse_dump_local_portlist msg data_len =
     parse_rows de_mclagd_local_if 712 lif_row 0 data_len msg"

definition pif_row :: "nat \<Rightarrow> mclagd_peer_if \<Rightarrow> string option" where
  "pif_row n r = do {
     ty \<leftarrow> c_string (cp_type r);
     name \<leftarrow> c_string (cp_name r);
     state \<leftarrow> c_string (cp_state r);
     Some (dashes @ kv ''Ifindex'' (dec_int (sint (cp_ifindex r))) @ kv ''Type'' ty @ kv ''PortName'' name @
       kv ''MAC'' (mac_str (cp_mac_addr r) @ '' '') @ kv ''State'' state @ dashes @ nl)
   }"

definition mclagdctl_parse_dump_peer_portlist :: "bytes \<Rightarrow> int \<Rightarrow> string option" where
  "mclagdctl_parse_dump_peer_portlist msg data_len =
     parse_rows de_mclagd_peer_if 84 pif_row 0 data_len msg"

definition unique_ip_row :: "nat \<Rightarrow> mclagd_unique_ip_if \<Rightarrow> string option" where
  "unique_ip_row n r = do {
     name \<leftarrow> c_string (cu_name r);
     Some (pad 20 name @ ''  '' @ pad 5 (if cu_active r \<noteq> 0 then ''Yes'' else ''No'') @ nl)
   }"

definition mclagdctl_parse_dump_unique_ip :: "bytes \<Rightarrow> int \<Rightarrow> string option" where
  "mclagdctl_parse_dump_unique_ip msg data_len =
     map_option (\<lambda>t. dashes @ pad 20 ''Ifname'' @ pad 5 ''Active'' @ nl @ dashes @ t @
         (if data_len < 36 then ''Unique IP configuration not enabled on any interface'' @ nl else []) @
         dashes @ nl)
       (parse_rows de_mclagd_unique_ip_if 36 unique_ip_row 0 data_len msg)"

definition mclagdctl_parse_config_loglevel :: "bytes \<Rightarrow> int \<Rightarrow> string option" where
  "mclagdctl_parse_config_loglevel msg data_len = do {
     (ret, _) \<leftarrow> de_le32 msg;
     Some ((if ret = 0 then ''Config loglevel success!'' else ''Config loglevel failed!'') @ nl)
   }"

section \<open>The counters\<close>

definition mclagdctl_dbg_counter_iccpid2str :: "nat \<Rightarrow> string" where
  "mclagdctl_dbg_counter_iccpid2str i =
     (case map_of [(0, ''SysConfig''), (1, ''AggrConfig''), (2, ''AggrState''), (3, ''MacInfo''), (4, ''ArpInfo''),
         (6, ''PoInfo''), (7, ''PeerLinkInfo''), (8, ''Heartbeat''), (9, ''Nak''), (10, ''SyncData''),
         (11, ''SyncReq''), (12, ''Warmboot''), (13, ''IfUpAck'')] i of
        Some t \<Rightarrow> t | None \<Rightarrow> ''Unknown'')"

definition mclagdctl_dbg_counter_syncdtx2str :: "nat \<Rightarrow> string" where
  "mclagdctl_dbg_counter_syncdtx2str i =
     (case map_of [(0, ''PortIsolation''), (1, ''MacLearnMode''), (2, ''FlushFdb''), (3, ''SetIfMac''),
         (4, ''SetFdb''), (5, ''TrafficDistEnable''), (6, ''TrafficDistDisable''), (7, ''SetIccpState''),
         (8, ''SetIccpRole''), (9, ''SetSystemId''), (10, ''DelIccpInfo''), (11, ''SetRemoteIntfSts''),
         (12, ''DelRemoteIntf''), (13, ''PeerLinkIsolation''), (14, ''SetPeerSystemId'')] i of
        Some t \<Rightarrow> t | None \<Rightarrow> ''Unknown'')"

definition mclagdctl_dbg_counter_syncdrx2str :: "nat \<Rightarrow> string" where
  "mclagdctl_dbg_counter_syncdrx2str i =
     (case map_of [(0, ''FdbChange''), (1, ''CfgMclag''), (2, ''CfgMclagIface''), (3, ''CfgMclagUniqueIp''),
         (4, ''vlanMbrshipChange'')] i of
        Some t \<Rightarrow> t | None \<Rightarrow> ''Unknown'')"

definition SYNCD_TX_DBG_CNTR_MSG_MAX :: nat where [const_defs]: "SYNCD_TX_DBG_CNTR_MSG_MAX = 15"
definition SYNCD_RX_DBG_CNTR_MSG_MAX :: nat where [const_defs]: "SYNCD_RX_DBG_CNTR_MSG_MAX = 5"

definition de_le64 :: "u64 decoder" where
  "de_le64 bs = do {
     (a, r) \<leftarrow> de_le32 bs;
     (b, r) \<leftarrow> de_le32 r;
     Some (ucast a OR push_bit 32 (ucast b), r)
   }"

text \<open>
  The structure \<open>system_dbg_counter_info_t\<close>: thirty counters of 32 bits in the order of their
  declaration, and the two tables of counters of 64 bits; behind it the number of the blocks and the blocks of
  the sessions.
\<close>

record dbg_counter_info =
  dc_global :: "u32 list"
  dc_syncd_tx :: "u64 list"
  dc_syncd_rx :: "u64 list"
  dc_num_iccp_counter_blocks :: nat
  dc_blocks :: "u64 list"

definition de_dbg_counter_info :: "dbg_counter_info decoder" where
  "de_dbg_counter_info bs = do {
     (g, r) \<leftarrow> de_many de_le32 30 bs;
     (tx, r) \<leftarrow> de_many de_le64 (2 * SYNCD_TX_DBG_CNTR_MSG_MAX) r;
     (rx, r) \<leftarrow> de_many de_le64 (2 * SYNCD_RX_DBG_CNTR_MSG_MAX) r;
     (n, r) \<leftarrow> de_u8 r;
     (blocks, r) \<leftarrow> de_many de_le64 (unat n * (4 * ICCP_DBG_CNTR_MSG_MAX)) r;
     Some (\<lparr>dc_global = g, dc_syncd_tx = tx, dc_syncd_rx = rx, dc_num_iccp_counter_blocks = unat n,
       dc_blocks = blocks\<rparr>, r)
   }"

definition counter_line :: "string \<Rightarrow> u32 \<Rightarrow> string" where
  "counter_line k v = pad 20 k @ dec (unat v) @ nl"

definition counter_row :: "string list \<Rightarrow> string" where
  "counter_row cells = concat (map (pad 20) cells) @ nl"

definition long_text :: "u64 list \<Rightarrow> nat \<Rightarrow> string" where
  "long_text xs i = dec (unat (xs ! i))"

definition mclagdctl_parse_dump_dbg_counters :: "bytes \<Rightarrow> int \<Rightarrow> string option" where
  "mclagdctl_parse_dump_dbg_counters msg data_len = do {
     (d, _) \<leftarrow> de_dbg_counter_info msg;
     let g = (\<lambda>i. dc_global d ! i);
     let num = (\<lambda>i. dec (unat (g i)));
     let pair = (\<lambda>xs i. [long_text xs (2 * i), long_text xs (2 * i + 1)]);
     let cell = (\<lambda>b j k. long_text (dc_blocks d) (b * (4 * ICCP_DBG_CNTR_MSG_MAX) + 4 * j + k));
     Some (counter_line ''ICCP session down:'' (g 11) @ counter_line ''Peer link down:'' (g 12) @
       counter_line ''Rx invalid msg:'' (g 14) @ counter_line ''Rx sock error(hdr):'' (g 15) @
       counter_line ''Rx zero len(hdr):'' (g 16) @ counter_line ''Rx sock error(tlv):'' (g 17) @
       counter_line ''Rx zero len(tlv):'' (g 18) @ counter_line ''Rx retry max:'' (g 21) @
       counter_line ''Rx retry total:'' (g 22) @ counter_line ''Rx retry fail:'' (g 23) @
       counter_line ''Socket close err:'' (g 19) @ counter_line ''Socket cleanup:'' (g 20) @ nl @
       counter_line ''Warmboot:'' (g 13) @ nl @
       counter_row [''ICCP to MclagSyncd'', ''TX_OK'', ''TX_ERROR''] @
       counter_row [''------------------'', ''-----'', ''--------''] @
       concat (map (\<lambda>i. counter_row (mclagdctl_dbg_counter_syncdtx2str i # pair (dc_syncd_tx d) i))
         [0..<SYNCD_TX_DBG_CNTR_MSG_MAX]) @ nl @
       counter_row [''MclagSyncd to ICCP'', ''RX_OK'', ''RX_ERROR''] @
       counter_row [''------------------'', ''-----'', ''--------''] @
       concat (map (\<lambda>i. counter_row (mclagdctl_dbg_counter_syncdrx2str i # pair (dc_syncd_rx d) i))
         [0..<SYNCD_RX_DBG_CNTR_MSG_MAX]) @ nl @
       counter_row [''ICCP to Peer'', ''TX_OK'', ''RX_OK'', ''TX_ERROR'', ''RX_ERROR''] @
       counter_row [''------------'', ''-----'', ''-----'', ''--------'', ''--------''] @
       concat (map (\<lambda>b. concat (map (\<lambda>j. counter_row [mclagdctl_dbg_counter_iccpid2str j,
           cell b j 0, cell b j 2, cell b j 1, cell b j 3]) [0..<ICCP_DBG_CNTR_MSG_MAX]) @ nl)
         [0..<dc_num_iccp_counter_blocks d]) @ nl @
       ''Netlink Counters'' @ nl @ ''-----------------'' @ nl @
       ''Link add/del: '' @ num 0 @ ''/'' @ num 1 @ nl @ ''  Unknown if_name: '' @ num 8 @ nl @
       ''Neighbor(ARP) add/del: '' @ num 2 @ ''/'' @ num 3 @ nl @
       ''  MAC entry add/del: '' @ num 9 @ ''/'' @ num 10 @ nl @
       ''Address add/del: '' @ num 4 @ ''/'' @ num 5 @ nl @
       ''Unexpected message type: '' @ num 6 @ nl @ ''Receive error: '' @ num 7 @ nl @ nl)
   }"

section \<open>Commands\<close>

datatype id_command_type = ID_CMDTYPE_NONE | ID_CMDTYPE_D | ID_CMDTYPE_D_S | ID_CMDTYPE_D_A | ID_CMDTYPE_D_P
  | ID_CMDTYPE_D_P_L | ID_CMDTYPE_D_P_P | ID_CMDTYPE_D_D | ID_CMDTYPE_D_D_C | ID_CMDTYPE_C | ID_CMDTYPE_C_L
  | ID_CMDTYPE_C_D

record command_type =
  ct_id :: id_command_type
  ct_parent_id :: id_command_type
  ct_info_type :: int
  ct_name :: string
  ct_params :: "string list"
  ct_enca_msg :: "(int \<Rightarrow> bytes option) option"
  ct_parse_msg :: "(bytes \<Rightarrow> int \<Rightarrow> string option) option"

definition group :: "id_command_type \<Rightarrow> id_command_type \<Rightarrow> string \<Rightarrow> command_type" where
  "group cid parent name = \<lparr>ct_id = cid, ct_parent_id = parent, ct_info_type = 0, ct_name = name,
     ct_params = [], ct_enca_msg = None, ct_parse_msg = None\<rparr>"

definition command :: "id_command_type \<Rightarrow> id_command_type \<Rightarrow> int \<Rightarrow> string \<Rightarrow> (int \<Rightarrow> bytes option) \<Rightarrow>
    (bytes \<Rightarrow> int \<Rightarrow> string option) \<Rightarrow> command_type" where
  "command cid parent info_type name enca parse = \<lparr>ct_id = cid, ct_parent_id = parent,
     ct_info_type = info_type, ct_name = name, ct_params = [], ct_enca_msg = Some enca,
     ct_parse_msg = Some parse\<rparr>"

definition command_types :: "command_type list" where
  "command_types =
    [group ID_CMDTYPE_D ID_CMDTYPE_NONE ''dump'',
     command ID_CMDTYPE_D_S ID_CMDTYPE_D INFO_TYPE_DUMP_STATE ''state''
       mclagdctl_enca_dump_state mclagdctl_parse_dump_state,
     command ID_CMDTYPE_D_A ID_CMDTYPE_D INFO_TYPE_DUMP_ARP ''arp''
       mclagdctl_enca_dump_arp mclagdctl_parse_dump_arp,
     command ID_CMDTYPE_D_A ID_CMDTYPE_D INFO_TYPE_DUMP_NDISC ''nd''
       mclagdctl_enca_dump_ndisc mclagdctl_parse_dump_ndisc,
     command ID_CMDTYPE_D_A ID_CMDTYPE_D INFO_TYPE_DUMP_MAC ''mac''
       mclagdctl_enca_dump_mac mclagdctl_parse_dump_mac,
     command ID_CMDTYPE_D_A ID_CMDTYPE_D INFO_TYPE_DUMP_UNIQUE_IP ''unique_ip''
       mclagdctl_enca_dump_unique_ip mclagdctl_parse_dump_unique_ip,
     group ID_CMDTYPE_D_P ID_CMDTYPE_D ''portlist'',
     command ID_CMDTYPE_D_P_L ID_CMDTYPE_D_P INFO_TYPE_DUMP_LOCAL_PORTLIST ''local''
       mclagdctl_enca_dump_local_portlist mclagdctl_parse_dump_local_portlist,
     command ID_CMDTYPE_D_P_P ID_CMDTYPE_D_P INFO_TYPE_DUMP_PEER_PORTLIST ''peer''
       mclagdctl_enca_dump_peer_portlist mclagdctl_parse_dump_peer_portlist,
     group ID_CMDTYPE_D_D ID_CMDTYPE_D ''debug'',
     command ID_CMDTYPE_D_D_C ID_CMDTYPE_D_D INFO_TYPE_DUMP_DBG_COUNTERS ''counters''
       mclagdctl_enca_dump_dbg_counters mclagdctl_parse_dump_dbg_counters,
     group ID_CMDTYPE_C ID_CMDTYPE_NONE ''config'',
     command ID_CMDTYPE_C_L ID_CMDTYPE_C INFO_TYPE_CONFIG_LOGLEVEL ''loglevel''
       mclagdctl_enca_config_loglevel mclagdctl_parse_config_loglevel]"

definition mclagdctl_cmd_executable :: "command_type \<Rightarrow> bool" where
  "mclagdctl_cmd_executable cmd \<longleftrightarrow> \<not> (Option.is_none (ct_enca_msg cmd) \<or> Option.is_none (ct_parse_msg cmd))"

definition mclagdctl_cmd_param_cnt :: "command_type \<Rightarrow> nat" where
  "mclagdctl_cmd_param_cnt cmd = length (ct_params cmd)"

definition mclagdctl_get_cmd_by_parent :: "string \<Rightarrow> id_command_type \<Rightarrow> command_type option" where
  "mclagdctl_get_cmd_by_parent cmd_name parent =
     find (\<lambda>t. take (length cmd_name) (ct_name t) = cmd_name \<and> ct_parent_id t = parent) command_types"

definition mclagdctl_get_cmd_by_id :: "id_command_type \<Rightarrow> command_type option" where
  "mclagdctl_get_cmd_by_id cid = find (\<lambda>t. ct_id t = cid) command_types"

text \<open>The error of the lookup is the line it writes to \<open>stderr\<close>.\<close>

fun find_cmd :: "id_command_type \<Rightarrow> string list \<Rightarrow> string + command_type \<times> string list" where
  "find_cmd parent [] = Inl (''None or incomplete command'' @ nl)"
| "find_cmd parent (cmd_name # args) =
     (case mclagdctl_get_cmd_by_parent cmd_name parent of
        None \<Rightarrow> Inl (''Unknown command '' @ [CHR 0x22] @ cmd_name @ [CHR 0x22] @ ''.'' @ nl)
      | Some cmd \<Rightarrow>
          if mclagdctl_cmd_executable cmd \<and> length args \<le> mclagdctl_cmd_param_cnt cmd then Inr (cmd, args)
          else find_cmd (ct_id cmd) args)"

definition mclagdctl_find_cmd :: "string list \<Rightarrow> string + command_type \<times> string list" where
  "mclagdctl_find_cmd = find_cmd ID_CMDTYPE_NONE"

definition mclagdctl_check_cmd_params :: "command_type \<Rightarrow> string list \<Rightarrow> string option" where
  "mclagdctl_check_cmd_params cmd args =
     (if length args < mclagdctl_cmd_param_cnt cmd
      then Some (''Command line parameter '' @ [CHR 0x22] @ ct_params cmd ! length args @ [CHR 0x22] @
        '' expected.'' @ nl)
      else None)"

partial_function (option) mclagdctl_print_cmd :: "command_type \<Rightarrow> string option" where
  "mclagdctl_print_cmd cmd =
     (if ct_parent_id cmd \<noteq> ID_CMDTYPE_NONE
      then do {
        parent \<leftarrow> mclagdctl_get_cmd_by_id (ct_parent_id cmd);
        t \<leftarrow> mclagdctl_print_cmd parent;
        Some (t @ '' '' @ ct_name cmd)
      }
      else Some (ct_name cmd))"

fun print_cmds :: "command_type list \<Rightarrow> string option" where
  "print_cmds [] = Some []"
| "print_cmds (cmd # cmds) =
     (if \<not> mclagdctl_cmd_executable cmd then print_cmds cmds
      else do {
        t \<leftarrow> mclagdctl_print_cmd cmd;
        ts \<leftarrow> print_cmds cmds;
        Some (''    '' @ t @ concat (map (\<lambda>q. '' '' @ q) (ct_params cmd)) @ nl @ ts)
      })"

definition mclagdctl_print_help :: "string \<Rightarrow> string option" where
  "mclagdctl_print_help argv0 = do {
     t \<leftarrow> print_cmds command_types;
     Some (argv0 @ '' [options] command [command args]'' @ nl @
       ''    -h --help                Show this help'' @ nl @
       ''    -i --mclag-id            Specify one mclag id'' @ nl @
       ''    -l --level               Specify log level     critical,err,warn,notice,info,debug'' @ nl @
       ''Commands:'' @ nl @ t)
   }"

section \<open>The program\<close>

text \<open>
  The options as \<open>getopt_long\<close> returns them. An argument of \<open>-i\<close> outside of the range of \<open>int\<close>
  is reduced modulo \<open>2 ^ 32\<close>.
\<close>

datatype ctl_option = Opt_h | Opt_i string | Opt_l string | Opt_unknown

definition atoi :: "string \<Rightarrow> int" where
  "atoi t = (case scan_int t of None \<Rightarrow> 0 | Some i \<Rightarrow> i)"

definition level_of :: "string \<Rightarrow> int option" where
  "level_of t = (case t of [] \<Rightarrow> None
     | c # _ \<Rightarrow> map_of [(CHR ''c'', 0), (CHR ''C'', 0), (CHR ''e'', 1), (CHR ''E'', 1), (CHR ''w'', 2), (CHR ''W'', 2),
         (CHR ''n'', 3), (CHR ''N'', 3), (CHR ''i'', 4), (CHR ''I'', 4), (CHR ''d'', 5), (CHR ''D'', 5)] c)"

text \<open>The exit status, the bytes sent to the daemon and the output on \<open>stdout\<close> and \<open>stderr\<close>.\<close>

record outcome =
  oc_ret :: int
  oc_sent :: bytes
  oc_out :: string
  oc_err :: string

definition EXIT_SUCCESS :: int where [const_defs]: "EXIT_SUCCESS = 0"
definition EXIT_FAILURE :: int where [const_defs]: "EXIT_FAILURE = 1"

definition quit :: "int \<Rightarrow> bytes \<Rightarrow> string \<Rightarrow> string \<Rightarrow> outcome" where
  "quit ret sent out err = \<lparr>oc_ret = ret, oc_sent = sent, oc_out = out, oc_err = err\<rparr>"

text \<open>The value of the options, or an exit with the help.\<close>

fun ctl_options :: "string \<Rightarrow> ctl_option list \<Rightarrow> u32 \<Rightarrow> (outcome + u32) option" where
  "ctl_options argv0 [] para_int = Some (Inr para_int)"
| "ctl_options argv0 (Opt_h # opts) para_int =
     map_option (\<lambda>h. Inl (quit EXIT_SUCCESS [] h [])) (mclagdctl_print_help argv0)"
| "ctl_options argv0 (Opt_i t # opts) para_int = ctl_options argv0 opts (word_of_int (atoi t))"
| "ctl_options argv0 (Opt_l t # opts) para_int =
     (case level_of t of
        Some level \<Rightarrow> ctl_options argv0 opts (word_of_int level)
      | None \<Rightarrow> map_option (\<lambda>h. Inl (quit EXIT_FAILURE [] h (''unknown option '' @ [CHR 0x22] @ ''l'' @
          [CHR 0x22] @ ''.'' @ nl))) (mclagdctl_print_help argv0))"
| "ctl_options argv0 (Opt_unknown # opts) para_int =
     map_option (\<lambda>h. Inl (quit EXIT_FAILURE [] h (''unknown option.'' @ nl))) (mclagdctl_print_help argv0)"

text \<open>The loops of the client on the socket are those of the daemon, with the same results.\<close>

definition mclagdctl_sock_write :: "bytes \<Rightarrow> int list \<Rightarrow> bytes \<times> bool" where
  "mclagdctl_sock_write = mclagd_ctl_sock_write"

definition mclagdctl_sock_read :: "nat \<Rightarrow> arrival list \<Rightarrow> (bytes \<times> arrival list) option" where
  "mclagdctl_sock_read total_len = mclagd_ctl_sock_read total_len []"

definition EXEC_TYPE_NO_EXIST_SYS :: int where [const_defs]: "EXEC_TYPE_NO_EXIST_SYS = -2"

text \<open>
  The reply, behind the request \<open>sent\<close>: its length, which the daemon sends first, its header and the
  structures. The lines about a failed \<open>select\<close> are left out. When there is no memory the exit status is
  the result of the last call, the number of bytes read.
\<close>

definition ctl_receive ::
  "command_type \<Rightarrow> u32 \<Rightarrow> bool \<Rightarrow> bytes \<Rightarrow> arrival list \<Rightarrow> outcome option" where
  "ctl_receive cmd para_int malloc_ok sent evs =
     (case mclagdctl_sock_read 4 evs of
        None \<Rightarrow> Some (quit EXIT_FAILURE sent [] (''Failed to read data length from mclagd'' @ nl))
      | Some (buf, evs) \<Rightarrow> do {
          (w, _) \<leftarrow> de_le32 buf;
          let len = sint w;
          if len \<le> 0 then Some (quit EXIT_FAILURE sent [] (''pkt len = '' @ dec_int len @ '', error'' @ nl))
          else if \<not> malloc_ok then Some (quit 4 sent [] (''Failed to malloc rcv_buf for mclagdctl'' @ nl))
          else
            case mclagdctl_sock_read (nat len) evs of
              None \<Rightarrow> Some (quit EXIT_FAILURE sent [] (''Failed to read data from mclagd'' @ nl))
            | Some (rcv_buf, _) \<Rightarrow> do {
                (reply, data) \<leftarrow> de_mclagd_reply_hdr rcv_buf;
                let res = sint (rp_exec_result reply);
                if sint (rp_info_type reply) \<noteq> ct_info_type cmd
                then Some (quit EXIT_FAILURE sent [] (''Reply info type from mclagd error'' @ nl))
                else if res = EXEC_TYPE_NO_EXIST_SYS
                then Some (quit EXIT_FAILURE sent [] (''No exist sys in iccpd!'' @ nl))
                else if res = EXEC_TYPE_NO_EXIST_MCLAGID
                then Some (quit EXIT_FAILURE sent [] (''Mclag-id '' @ dec_int (sint para_int) @
                  '' hasn't been configured in iccpd!'' @ nl))
                else if res = EXEC_TYPE_FAILED
                then Some (quit EXIT_FAILURE sent [] (''exec error in iccpd!'' @ nl))
                else do {
                  parse \<leftarrow> ct_parse_msg cmd;
                  out \<leftarrow> parse data (len - 12);
                  Some (quit EXIT_SUCCESS sent out [])
                }
              }
        })"

text \<open>
  \<open>connected\<close> is the success of \<open>mclagdctl_sock_connect\<close>, \<open>ws\<close> are the results of \<open>write\<close> and
  \<open>evs\<close> is what arrives from the daemon. A call through a null pointer is \<open>None\<close>.
\<close>

definition mclagdctl_main :: "string \<Rightarrow> ctl_option list \<Rightarrow> string list \<Rightarrow> bool \<Rightarrow> bool \<Rightarrow> int list \<Rightarrow>
    arrival list \<Rightarrow> outcome option" where
  "mclagdctl_main argv0 opts args connected malloc_ok ws evs = do {
     r \<leftarrow> ctl_options argv0 opts 0;
     case r of
       Inl o' \<Rightarrow> Some o'
     | Inr para_int \<Rightarrow>
        (case mclagdctl_find_cmd args of
           Inl err \<Rightarrow> map_option (\<lambda>h. quit EXIT_FAILURE [] h err) (mclagdctl_print_help argv0)
         | Inr (cmd, args) \<Rightarrow>
            (case mclagdctl_check_cmd_params cmd args of
               Some err \<Rightarrow> map_option (\<lambda>h. quit EXIT_FAILURE [] h err) (mclagdctl_print_help argv0)
             | None \<Rightarrow>
                 if \<not> connected then Some (quit EXIT_FAILURE [] [] [])
                 else do {
                   enca \<leftarrow> ct_enca_msg cmd;
                   case enca (sint para_int) of
                     None \<Rightarrow> Some (quit EXIT_FAILURE [] []
                       (''Need to specify mclag-id through the parameter i !'' @ nl))
                   | Some req \<Rightarrow>
                       let (sent, ok) = mclagdctl_sock_write req ws
                       in if \<not> ok then Some (quit EXIT_FAILURE sent [] (''Failed to send command to mclagd'' @ nl))
                          else ctl_receive cmd para_int malloc_ok sent evs
                 }))
   }"

end
