(* ===== verification/Ctl_Vlans.thy ===== *)
theory Ctl_Vlans
  imports Ctl_Dump
begin

text \<open>
  The text of the VLANs of an interface in a dump: the loop of \<open>iccp_cmd_show.c\<close> prints the
  maximal ranges of the list, as long as there is enough space, and never leaves its array.
\<close>

section \<open>Ranges\<close>

text \<open>The maximal ranges of a list of numbers, their text, and the numbers they stand for.\<close>

fun runs_from :: "nat \<Rightarrow> nat \<Rightarrow> nat list \<Rightarrow> (nat \<times> nat) list" where
  "runs_from a b [] = [(a, b)]"
| "runs_from a b (v # vs) = (if v = b + 1 then runs_from a v vs else (a, b) # runs_from v v vs)"

fun vlan_runs :: "nat list \<Rightarrow> (nat \<times> nat) list" where
  "vlan_runs [] = []"
| "vlan_runs (v # vs) = runs_from v v vs"

definition range_text :: "nat \<times> nat \<Rightarrow> string" where
  "range_text = (\<lambda>(a, b). dec a @ '' '' @ (if a = b then [] else ''- '' @ dec b @ '' ''))"

definition vlan_list_text :: "nat list \<Rightarrow> string" where
  "vlan_list_text vids = concat (map range_text (vlan_runs vids))"

definition expand :: "(nat \<times> nat) list \<Rightarrow> nat list" where
  "expand rs = concat (map (\<lambda>(a, b). [a..<b + 1]) rs)"

lemma expand_runs_from: "a \<le> b \<Longrightarrow> expand (runs_from a b vs) = [a..<b + 1] @ vs"
  by (induction a b vs rule: runs_from.induct) (auto simp: expand_def)

lemma expand_vlan_runs: "expand (vlan_runs vids) = vids"
  by (cases vids) (simp_all add: expand_runs_from expand_def [of "[]"])

lemma print_at_end:
  "length buf = len + 1 \<Longrightarrow> length t < n \<Longrightarrow> print_at len n t buf = take len buf @ c_chars t @ [0]"
  "length t < n \<Longrightarrow> print_at 0 n t [] = c_chars t @ [0]"
  by (simp_all add: print_at_def write_at_def)

text \<open>The text printed so far, with its final zero once there is one.\<close>

definition vt_text :: "string \<Rightarrow> vlan_text \<Rightarrow> bool" where
  "vt_text t v \<longleftrightarrow> vt_len v = length t \<and>
     vt_buf v = (if t = [] then [] else c_chars t @ [0])"

lemma vlan_put_text:
  assumes "vt_text t v" "length t + length u \<le> 50" "u \<noteq> []"
  shows "vt_text (t @ u) (vlan_put u v)"
  using assms
  by (cases "t = []") (auto simp: vt_text_def vlan_put_def print_at_end c_chars_def VLAN_STR_SIZE_def)

lemma vlan_put_more [simp]:
  "vt_prev (vlan_put u v) = vt_prev v" "vt_range (vlan_put u v) = vt_range v"
  by (simp_all add: vlan_put_def)

lemma vt_text_upd [simp]:
  "vt_text t (v\<lparr>vt_range := r\<rparr>) = vt_text t v" "vt_text t (v\<lparr>vt_prev := p\<rparr>) = vt_text t v"
  by (simp_all add: vt_text_def)

lemma dec_not_Nil [simp]: "dec n \<noteq> []"
  by (subst dec.simps) simp

definition vlan_list_close :: "vlan_text \<Rightarrow> vlan_text" where
  "vlan_list_close v = (if vt_range v \<and> vt_len v + 12 < VLAN_STR_SIZE \<and> vt_prev v \<noteq> 0
     then vlan_put (''- '' @ dec (vt_prev v) @ '' '') v else v)"

lemma runs_from_text: "\<exists>u. concat (map range_text (runs_from a b vs)) = dec a @ '' '' @ u"
  by (induction a b vs rule: runs_from.induct) (auto simp: range_text_def)

text \<open>The rest of the runs, behind \<open>t\<close> and the printed beginning of the run from \<open>a\<close> to \<open>b\<close>.\<close>

lemma vlan_list_loop_text:
  assumes "vt_text (t @ dec a @ '' '') v" "vt_prev v = b" "vt_range v = (a \<noteq> b)" "0 < a" "a \<le> b"
    "length (t @ concat (map range_text (runs_from a b vids))) \<le> 50" "\<forall>x \<in> set vids. 0 < x"
  shows "vt_text (t @ concat (map range_text (runs_from a b vids))) (vlan_list_close (vlan_list_loop vids v))"
  using assms
proof (induction vids arbitrary: t a b v)
  case Nil
  then show ?case
    using vlan_put_text [of "t @ dec a @ '' ''" v "''- '' @ dec b @ '' ''"]
    by (auto simp: vlan_list_close_def range_text_def vt_text_def VLAN_STR_SIZE_def)
next
  case (Cons x xs)
  obtain u where u: "concat (map range_text (runs_from a b (x # xs))) = dec a @ '' '' @ u"
    using runs_from_text by blast
  have len: "vt_len v = length (t @ dec a @ '' '')" "vt_len v \<le> 50"
    using Cons.prems(1,6) unfolding u by (auto simp: vt_text_def)
  show ?case
  proof (cases "x = b + 1")
    case True
    then show ?thesis
      using Cons.IH [of t a "v\<lparr>vt_range := True, vt_prev := x\<rparr>" x] Cons.prems len by (simp add: VLAN_STR_SIZE_def)
  next
    case False
    let ?w = "if vt_range v then vlan_put (''- '' @ dec b @ '' '') v else v"
    obtain z where z: "concat (map range_text (runs_from x x xs)) = dec x @ '' '' @ z"
      using runs_from_text by blast
    have bound: "length (t @ range_text (a, b) @ dec x @ '' '' @ z) \<le> 50"
      using Cons.prems(6) False by (simp add: z)
    then have "vt_text (t @ range_text (a, b)) ?w"
      using vlan_put_text [OF Cons.prems(1), of "''- '' @ dec b @ '' ''"] Cons.prems(1,3)
      by (auto simp: range_text_def)
    then have "vt_text ((t @ range_text (a, b)) @ dec x @ '' '') (vlan_put (dec x @ '' '') ?w)"
      using bound by (intro vlan_put_text) auto
    moreover have "vlan_list_loop (x # xs) v =
        vlan_list_loop xs ((vlan_put (dec x @ '' '') ?w)\<lparr>vt_range := False, vt_prev := x\<rparr>)"
      using False Cons.prems(2-5) len bound by (auto simp: VLAN_STR_SIZE_def Let_def)
    ultimately show ?thesis
      using Cons.IH [of "t @ range_text (a, b)" x "(vlan_put (dec x @ '' '') ?w)\<lparr>vt_range := False, vt_prev := x\<rparr>" x]
        Cons.prems(6,7) False by simp
  qed
qed

lemma vlan_list_print_close:
  "vlan_list_print vids = buf_take 64 (vt_buf (vlan_list_close
     (vlan_list_loop vids \<lparr>vt_buf = [], vt_len = 0, vt_prev = 0, vt_range = False\<rparr>)))"
  by (simp add: vlan_list_print_def vlan_list_close_def Let_def)

lemma vlan_list_print_text:
  assumes "\<forall>v \<in> set vids. 0 < v" "length (vlan_list_text vids) \<le> 50"
  shows "vlan_list_print vids = c_array 64 (vlan_list_text vids)"
proof -
  let ?v = "\<lparr>vt_buf = [], vt_len = 0, vt_prev = 0, vt_range = False\<rparr>"
  have "vt_text (vlan_list_text vids) (vlan_list_close (vlan_list_loop vids ?v))"
  proof (cases vids)
    case Nil
    then show ?thesis by (simp add: vlan_list_text_def vt_text_def vlan_list_close_def)
  next
    case (Cons x xs)
    obtain z where z: "concat (map range_text (runs_from x x xs)) = dec x @ '' '' @ z"
      using runs_from_text by blast
    have "vt_text ([] @ dec x @ '' '') (vlan_put (dec x @ '' '') ?v)"
      using assms(2) by (intro vlan_put_text) (auto simp: vt_text_def vlan_list_text_def Cons z)
    then show ?thesis
      using vlan_list_loop_text [of "[]" x "(vlan_put (dec x @ '' '') ?v)\<lparr>vt_range := False, vt_prev := x\<rparr>" x xs]
        assms by (simp add: Cons vlan_list_text_def VLAN_STR_SIZE_def)
  qed
  then show ?thesis
    using assms(2) by (auto simp: vlan_list_print_close vt_text_def c_array_def buf_take_def c_chars_def
        replicate_Suc [symmetric] Suc_diff_le simp del: replicate_Suc)
qed

text \<open>Whatever the VLANs, nothing is written behind the first 63 bytes.\<close>

lemma vlan_put_bound:
  "length (vt_buf v) \<le> 63 \<Longrightarrow> vt_len v < 63 \<Longrightarrow> length (vt_buf (vlan_put u v)) \<le> 63"
  by (auto simp: vlan_put_def print_at_def write_at_def c_chars_def VLAN_STR_SIZE_def)

lemma length_dec: "n < 10 ^ k \<Longrightarrow> 0 < k \<Longrightarrow> length (dec n) \<le> k"
proof (induction n arbitrary: k rule: dec.induct)
  case (1 n)
  show ?case
  proof (cases "n < 10")
    case True
    then show ?thesis using 1(3) by (subst dec.simps) simp
  next
    case False
    then obtain j where j: "k = Suc j" "0 < j"
      using 1(2,3) by (cases k; cases "k - 1") auto
    then have "length (dec (n div 10)) \<le> j"
      using 1(1) [OF False, of j] 1(2) by (simp add: less_mult_imp_div_less)
    then show ?thesis using False j by (subst dec.simps) simp
  qed
qed

lemma vlan_list_loop_bound:
  "length (vt_buf v) \<le> 63 \<Longrightarrow> vt_prev v < 10 ^ 5 \<Longrightarrow> \<forall>x \<in> set vids. x < 10 ^ 5 \<Longrightarrow>
   length (vt_buf (vlan_list_loop vids v)) \<le> 63"
proof (induction vids arbitrary: v)
  case (Cons x xs)
  let ?w = "if vt_range v then vlan_put (''- '' @ dec (vt_prev v) @ '' '') v else v"
  have "length (vt_buf ?w) \<le> 63" if "vt_len v \<le> 59"
    using that Cons.prems(1) by (auto intro!: vlan_put_bound)
  moreover have "vt_len ?w < 63" if "vt_len v \<le> 59" "\<not> (vt_range v \<and> 51 < vt_len v)"
    using that length_dec [OF Cons.prems(2)] by (auto simp: vlan_put_def)
  ultimately have "length (vt_buf (vlan_put (dec x @ '' '') ?w)) \<le> 63"
    if "vt_len v \<le> 59" "\<not> (vt_range v \<and> 51 < vt_len v)"
    using that by (intro vlan_put_bound) auto
  then show ?case
    using Cons.prems Cons.IH by (auto simp: VLAN_STR_SIZE_def Let_def)
qed simp

lemma vlan_list_print_bound:
  assumes "\<forall>x \<in> set vids. x < 10 ^ 5"
  shows "\<exists>bs. length bs \<le> 63 \<and> vlan_list_print vids = buf_take 64 bs"
proof -
  let ?v = "\<lparr>vt_buf = [], vt_len = 0, vt_prev = 0, vt_range = False\<rparr>"
  have "length (vt_buf (vlan_list_loop vids ?v)) \<le> 63"
    using assms by (intro vlan_list_loop_bound) auto
  then have "length (vt_buf (vlan_list_close (vlan_list_loop vids ?v))) \<le> 63"
    by (auto simp: vlan_list_close_def VLAN_STR_SIZE_def intro!: vlan_put_bound)
  then show ?thesis unfolding vlan_list_print_close by blast
qed

lemma c_string_buf_take: "length bs < n \<Longrightarrow> c_string (buf_take n bs) \<noteq> None"
  by (auto simp: c_string_def buf_take_def)

section \<open>What is shown\<close>

lemma dec_no_zero: "CHR 0x00 \<notin> set (dec n)"
proof (induction n rule: dec.induct)
  case (1 n)
  have z: "CHR 0x00 \<noteq> digit k" if "k < 10" for k
  proof
    assume "CHR 0x00 = digit k"
    from this [symmetric] have "(of_char (digit k) :: nat) = 0" by simp
    then show False using that by (simp add: digit_def)
  qed
  have "CHR 0x00 \<noteq> digit n \<or> \<not> n < 10" using z by blast
  moreover have "CHR 0x00 \<noteq> digit (n mod 10)" by (rule z) simp
  ultimately show ?case
    using 1 by (subst dec.simps) (cases "n < 10"; simp)
qed

lemma vlan_list_name: "length (vlan_list_text vids) \<le> 50 \<Longrightarrow> c_name 64 (vlan_list_text vids)"
  by (auto simp: c_name_def vlan_list_text_def range_text_def dec_no_zero split: if_splits)

text \<open>
  C29. The list of the VLANs of an interface that \<open>mclagdctl dump portlist local\<close> shows: for any
  list of VLANs the text is terminated inside the array of 64 bytes, and if the text of the ranges is at
  most 50 characters long, it is this text, whose ranges are the VLANs, each one once and in order.
\<close>

theorem vlan_list_shown:
  assumes "\<forall>v \<in> set vids. 0 < v \<and> v < 65536"
  shows "c_string (vlan_list_print vids) \<noteq> None \<and>
    (length (vlan_list_text vids) \<le> 50 \<longrightarrow>
       c_string (vlan_list_print vids) = Some (vlan_list_text vids) \<and> expand (vlan_runs vids) = vids)"
proof -
  have "\<forall>x \<in> set vids. x < 10 ^ 5" using assms by fastforce
  then obtain bs where "length bs \<le> 63" "vlan_list_print vids = buf_take 64 bs"
    using vlan_list_print_bound by blast
  then have "c_string (vlan_list_print vids) \<noteq> None"
    by (simp add: c_string_buf_take)
  then show ?thesis
    using vlan_list_print_text [of vids] vlan_list_name [of vids] assms
    by (auto simp: expand_vlan_runs)
qed

theorem vlan_list_shown_witness:
  "c_string (vlan_list_print [10, 11, 12, 15, 20, 21]) = Some ''10 - 12 15 20 - 21 '' \<and>
   expand (vlan_runs [10, 11, 12, 15, 20, 21]) = [10, 11, 12, 15, 20, 21]"
proof -
  have "vlan_list_text [10, 11, 12, 15, 20, 21] = ''10 - 12 15 20 - 21 ''"
    by code_simp
  then show ?thesis using vlan_list_shown [of "[10, 11, 12, 15, 20, 21]"] by auto
qed

end
