(* ===== verification/Ctl_Serve.thy ===== *)
theory Ctl_Serve
  imports Ctl_Client Ctl_Vlans
begin

text \<open>
  The daemon and \<open>mclagdctl\<close> together: the pieces in which requests and replies arrive, the interface
  \<open>dump_view\<close> of a dump with its instances for every dump of \<open>iccp_cmd_show.c\<close>, and what the tool
  prints for the replies of the daemon.
\<close>

section \<open>The socket\<close>

text \<open>A stream of bytes that arrives in pieces of any size.\<close>

definition arrives :: "bytes \<Rightarrow> arrival list \<Rightarrow> bool" where
  "arrives bs evs \<longleftrightarrow> (\<exists>cs. evs = map Data cs \<and> [] \<notin> set cs \<and> concat cs = bs)"

lemma sock_read_pieces:
  assumes "[] \<notin> set cs" "length acc \<le> n" "n - length acc \<le> length (concat cs)"
  shows "\<exists>ds. mclagd_ctl_sock_read n acc (map Data cs) = Some (acc @ take (n - length acc) (concat cs), map Data ds)
    \<and> [] \<notin> set ds \<and> concat ds = drop (n - length acc) (concat cs)"
  using assms
proof (induction cs arbitrary: acc)
  case Nil
  then show ?case by (subst mclagd_ctl_sock_read.simps) auto
next
  case (Cons c cs)
  let ?k = "n - length acc"
  consider "?k = 0" | "0 < ?k" "length c \<le> ?k" | "0 < ?k" "?k < length c" by linarith
  then show ?case
  proof cases
    case 1
    then show ?thesis using Cons.prems by (subst mclagd_ctl_sock_read.simps) (auto intro!: exI [of _ "c # cs"])
  next
    case 2
    then have "mclagd_ctl_sock_read n acc (map Data (c # cs)) = mclagd_ctl_sock_read n (acc @ c) (map Data cs)"
      using Cons.prems(1) by (subst mclagd_ctl_sock_read.simps) auto
    then show ?thesis using Cons.IH [of "acc @ c"] Cons.prems 2 by auto
  next
    case 3
    then have "mclagd_ctl_sock_read n acc (map Data (c # cs)) =
        mclagd_ctl_sock_read n (acc @ take ?k c) (map Data (drop ?k c # cs))"
      using Cons.prems(1) by (subst mclagd_ctl_sock_read.simps) (auto simp: Let_def)
    also have "\<dots> = Some (acc @ take ?k c, map Data (drop ?k c # cs))"
      using 3 by (subst mclagd_ctl_sock_read.simps) auto
    finally show ?thesis using Cons.prems 3 by (auto intro!: exI [of _ "drop ?k c # cs"])
  qed
qed

lemma sock_read_arrives:
  assumes "arrives (bs @ rest) evs" "length bs = n"
  shows "\<exists>evs'. mclagd_ctl_sock_read n [] evs = Some (bs, evs') \<and> arrives rest evs'"
proof -
  obtain cs where cs: "evs = map Data cs" "[] \<notin> set cs" "concat cs = bs @ rest"
    using assms(1) by (auto simp: arrives_def)
  then show ?thesis
    using sock_read_pieces [of cs "[]" n] assms(2) by (auto simp: arrives_def)
qed

lemma sock_write_all: "mclagd_ctl_sock_write buf ws = (sent, True) \<Longrightarrow> sent = buf"
  by (induction buf ws arbitrary: sent rule: mclagd_ctl_sock_write.induct)
    (auto split: if_splits prod.splits)

lemma sock_write_prefix: "mclagd_ctl_sock_write buf ws = (sent, ok) \<Longrightarrow> \<exists>rest. buf = sent @ rest"
proof (induction buf ws arbitrary: sent ok rule: mclagd_ctl_sock_write.induct)
  case (3 b bs w ws)
  show ?case
  proof (cases "w \<le> 0")
    case False
    obtain t k where t: "mclagd_ctl_sock_write (drop (nat w) (b # bs)) ws = (t, k)" by fastforce
    with 3(1) [OF False] obtain rest where "drop (nat w) (b # bs) = t @ rest" by blast
    moreover have "sent = take (nat w) (b # bs) @ t" using 3(2) False t by simp
    ultimately show ?thesis by (metis append.assoc append_take_drop_id)
  qed (use 3 in simp)
qed simp_all

section \<open>The dumps\<close>

text \<open>The state after some allocations.\<close>

definition allocs :: "System \<Rightarrow> System \<Rightarrow> bool" where
  "allocs s t \<longleftrightarrow> (\<exists>k. t = s\<lparr>env_n_malloc := k\<rparr>)"

lemma allocs_refl [simp]: "allocs s s"
  by (auto simp: allocs_def intro: exI [of _ "env_n_malloc s"])

lemma allocs_malloc: "allocs s t \<Longrightarrow> allocs s (snd (malloc t))"
  by (auto simp: allocs_def malloc_def)

lemma allocs_env: "allocs s t \<Longrightarrow> env_malloc t = env_malloc s \<and> sys_csm_heap t = sys_csm_heap s
    \<and> sys_csm_list t = sys_csm_list s"
  by (auto simp: allocs_def)

lemma malloc_failed: "malloc s = (False, t) \<Longrightarrow> \<exists>i. \<not> env_malloc s i"
  by (auto simp: malloc_def)

text \<open>The sessions a request asks for, and the structures a dump makes of a list of sessions.\<close>

definition asked :: "int \<Rightarrow> System \<Rightarrow> csm_ptr list \<Rightarrow> csm_ptr list" where
  "asked mclag_id s cs = filter (\<lambda>c. \<not> (0 < mclag_id \<and> csm_mlag_id (csm_of s c) \<noteq> mclag_id)) cs"

fun collect :: "('c \<Rightarrow> 'a \<Rightarrow> bytes option list \<times> 'a) \<Rightarrow> 'c list \<Rightarrow> 'a \<Rightarrow> bytes option list" where
  "collect view [] acc = []"
| "collect view (c # cs) acc = fst (view c acc) @ collect view cs (snd (view c acc))"

lemma some_the: "None \<notin> set xs \<Longrightarrow> map Some (map the xs) = xs"
  by (induction xs) auto

lemma map_the_option: "None \<notin> set xs \<Longrightarrow> map the (map (map_option f) xs) = map f (map the xs)"
  by (induction xs) (auto simp: option.map_sel)

text \<open>
  The interface of a dump: structures of one size that fit into the first allocation, and that an
  allocation does not change.
\<close>

locale dump_view =
  fixes sz :: nat and view :: "System \<Rightarrow> csm_ptr \<Rightarrow> 'a \<Rightarrow> bytes option list \<times> 'a"
  assumes sz: "0 < sz" "sz \<le> 4080"
    and length_view: "Some bs \<in> set (fst (view s c acc)) \<Longrightarrow> length bs = sz"
    and view_alloc: "view (s\<lparr>env_n_malloc := k\<rparr>) = view s"
begin

definition room :: "bytes list \<Rightarrow> dump_buf \<Rightarrow> bool" where
  "room xs b \<longleftrightarrow> db_data b = concat xs \<and> length (concat xs) = db_num b * sz \<and> db_num b = length xs \<and>
     16 + (db_num b + 1) * sz \<le> db_size b"

lemma dump_put_room:
  assumes "room xs b" "length bs = sz"
  shows "\<exists>r t. dump_put sz bs b s = Some (r, t) \<and> allocs s t \<and>
    (case r of None \<Rightarrow> \<not> (\<forall>i. env_malloc s i) | Some b' \<Rightarrow> room (xs @ [bs]) b')"
proof -
  have data: "write_at (length xs * sz) bs (concat xs) = concat xs @ bs"
    using assms by (simp add: room_def write_at_append)
  show ?thesis
    using assms sz allocs_malloc [of s s]
    by (auto dest: malloc_failed simp: room_def dump_put_def data MCLAGD_REPLY_INFO_HDR_def MCLAGDCTL_CMD_SIZE_def Let_def
        split: prod.splits)
qed

lemma dump_all_room:
  assumes "room xs b" "\<forall>y \<in> set ys. length y = sz"
  shows "\<exists>r t. dump_all sz (map Some ys) b s = Some (r, t) \<and> allocs s t \<and>
    (case r of None \<Rightarrow> \<not> (\<forall>i. env_malloc s i) | Some b' \<Rightarrow> room (xs @ ys) b')"
  using assms
proof (induction ys arbitrary: xs b s)
  case Nil
  then show ?case by simp
next
  case (Cons y ys)
  obtain r t where t: "dump_put sz y b s = Some (r, t)" "allocs s t"
      "case r of None \<Rightarrow> \<not> (\<forall>i. env_malloc s i) | Some b' \<Rightarrow> room (xs @ [y]) b'"
    using dump_put_room [OF Cons.prems(1), of y s] Cons.prems(2) by auto
  show ?case
  proof (cases r)
    case None
    then show ?thesis using t by simp
  next
    case (Some b')
    then obtain r' u where "dump_all sz (map Some ys) b' t = Some (r', u)" "allocs t u"
        "case r' of None \<Rightarrow> \<not> (\<forall>i. env_malloc t i) | Some b' \<Rightarrow> room ((xs @ [y]) @ ys) b'"
      using Cons.IH [of "xs @ [y]" b' t] Cons.prems(2) t(3) by auto
    moreover from this t(2) have "allocs s u" by (auto simp: allocs_def)
    ultimately show ?thesis using t(1,2) Some allocs_env [OF t(2)] by (auto split: option.splits)
  qed
qed

lemma dump_sessions_room:
  assumes "room xs b" "None \<notin> set (collect (view s) (asked mclag_id s cs) acc)"
  shows "\<exists>e r t. dump_sessions sz view mclag_id cs acc ex b s = Some (e, r, t) \<and> allocs s t \<and>
    (case r of None \<Rightarrow> \<not> (\<forall>i. env_malloc s i)
     | Some b' \<Rightarrow> e = (ex \<or> asked mclag_id s cs \<noteq> []) \<and> room (xs @ map the (collect (view s) (asked mclag_id s cs) acc)) b')"
  using assms
proof (induction cs arbitrary: xs b s acc ex)
  case Nil
  then show ?case by (simp add: asked_def)
next
  case (Cons c cs)
  show ?case
  proof (cases "0 < mclag_id \<and> csm_mlag_id (csm_of s c) \<noteq> mclag_id")
    case True
    then have skip: "asked mclag_id s (c # cs) = asked mclag_id s cs" by (simp add: asked_def)
    show ?thesis unfolding skip using True Cons.IH [of xs b s acc ex] Cons.prems skip by simp
  next
    case False
    have more: "asked mclag_id s (c # cs) = c # asked mclag_id s cs" using False by (simp add: asked_def)
    obtain os acc' where v: "view s c acc = (os, acc')" by fastforce
    have left: "None \<notin> set os" "None \<notin> set (collect (view s) (asked mclag_id s cs) acc')"
      using Cons.prems(2) v by (simp_all add: more)
    define ys where "ys = map the os"
    have os: "os = map Some ys" using some_the [OF left(1)] by (simp add: ys_def)
    obtain r t where t: "dump_all sz os b s = Some (r, t)" "allocs s t"
        "case r of None \<Rightarrow> \<not> (\<forall>i. env_malloc s i) | Some b' \<Rightarrow> room (xs @ ys) b'"
      using dump_all_room [OF Cons.prems(1), of ys s] length_view [of _ s c acc] v os by auto
    show ?thesis
    proof (cases r)
      case None
      then show ?thesis using t False v by auto
    next
      case (Some b')
      have same: "view t = view s" "asked mclag_id t cs = asked mclag_id s cs" "env_malloc t = env_malloc s"
        using t(2) by (auto simp: allocs_def view_alloc asked_def)
      obtain e r' u where "dump_sessions sz view mclag_id cs acc' True b' t = Some (e, r', u)" "allocs t u"
          "case r' of None \<Rightarrow> \<not> (\<forall>i. env_malloc t i) | Some b' \<Rightarrow> e = (True \<or> asked mclag_id t cs \<noteq> []) \<and>
             room ((xs @ ys) @ map the (collect (view t) (asked mclag_id t cs) acc')) b'"
        using Cons.IH [of "xs @ ys" b' t acc' True] t(3) Some left(2) by (auto simp: same)
      moreover from this t(2) have "allocs s u" by (auto simp: allocs_def)
      ultimately show ?thesis
        using t(1) Some False v by (auto simp: same more ys_def split: option.splits)
    qed
  qed
qed

text \<open>A dump: the memory ran out, or the buffer holds the structures of the sessions asked for.\<close>

lemma dump_ok:
  assumes "None \<notin> set (collect (view s) (asked mclag_id s (sys_csm_list s)) acc)"
  shows "\<exists>t. allocs s t \<and>
    (dump sz view acc mclag_id s = Some (EXEC_TYPE_FAILED, None, t) \<and> \<not> (\<forall>i. env_malloc s i) \<or>
     (\<exists>b. dump sz view acc mclag_id s =
        Some (if 0 < mclag_id \<and> asked mclag_id s (sys_csm_list s) = [] then EXEC_TYPE_NO_EXIST_MCLAGID
              else EXEC_TYPE_SUCCESS, Some b, t) \<and>
        db_data b = concat (map the (collect (view s) (asked mclag_id s (sys_csm_list s)) acc))))"
proof (cases "fst (malloc s)")
  case False
  then obtain t where "malloc s = (False, t)" by (metis prod.collapse)
  then show ?thesis
    using allocs_malloc [of s s] malloc_failed by (auto simp: dump_def intro!: exI [of _ t])
next
  case True
  obtain t where m: "malloc s = (True, t)" using True by (metis prod.collapse)
  then have t: "allocs s t" using allocs_malloc [of s s] by simp
  have same: "view t = view s" "asked mclag_id t = asked mclag_id s" "env_malloc t = env_malloc s"
      "sys_csm_list t = sys_csm_list s"
    using t by (auto simp: allocs_def view_alloc asked_def fun_eq_iff)
  have "room [] \<lparr>db_data = [], db_num = 0, db_size = MCLAGDCTL_CMD_SIZE\<rparr>"
    using sz by (simp add: room_def MCLAGDCTL_CMD_SIZE_def)
  from dump_sessions_room [OF this, of t mclag_id "sys_csm_list t" acc False] assms
  obtain e r u where u: "dump_sessions sz view mclag_id (sys_csm_list s) acc False
        \<lparr>db_data = [], db_num = 0, db_size = MCLAGDCTL_CMD_SIZE\<rparr> t = Some (e, r, u)" "allocs t u"
      "case r of None \<Rightarrow> \<not> (\<forall>i. env_malloc s i) | Some b' \<Rightarrow> e = (asked mclag_id s (sys_csm_list s) \<noteq> []) \<and>
        room (map the (collect (view s) (asked mclag_id s (sys_csm_list s)) acc)) b'"
    unfolding same append_Nil simp_thms by blast
  have "allocs s u" using t u(2) by (auto simp: allocs_def)
  then show ?thesis
    using u(1,3) by (cases r) (auto simp: dump_def m same room_def intro!: exI [of _ u])
qed

end

text \<open>A dump of a packed structure, without anything carried from one session to the next.\<close>

locale ctl_dump = codec ser de size_of valid
  for ser :: "'r \<Rightarrow> bytes" and de :: "'r decoder" and size_of :: nat and valid :: "'r \<Rightarrow> bool" +
  fixes entries :: "System \<Rightarrow> csm_ptr \<Rightarrow> 'r option list"
  assumes fits: "0 < size_of" "size_of \<le> 4080"
    and entries_valid: "Some r \<in> set (entries s c) \<Longrightarrow> valid r"
    and entries_alloc: "entries (s\<lparr>env_n_malloc := k\<rparr>) = entries s"
begin

definition all_entries :: "int \<Rightarrow> System \<Rightarrow> 'r list" where
  "all_entries mclag_id s = map the (concat (map (entries s) (asked mclag_id s (sys_csm_list s))))"

definition readable :: "int \<Rightarrow> System \<Rightarrow> bool" where
  "readable mclag_id s \<longleftrightarrow> (\<forall>c \<in> set (asked mclag_id s (sys_csm_list s)). None \<notin> set (entries s c))"

end

sublocale ctl_dump \<subseteq> dv: dump_view size_of "\<lambda>s c (_ :: unit). (map (map_option ser) (entries s c), ())"
  by unfold_locales (use fits in \<open>auto simp: length_ser entries_valid entries_alloc map_option_case split: option.splits\<close>)

context ctl_dump
begin

lemma collect_entries:
  "collect (\<lambda>c. Pair (map (map_option ser) (entries s c))) cs () = map (map_option ser) (concat (map (entries s) cs))"
  by (induction cs) auto

lemma readable_collect:
  "readable mclag_id s \<longleftrightarrow> None \<notin> set (collect (\<lambda>c. Pair (map (map_option ser) (entries s c)))
     (asked mclag_id s (sys_csm_list s)) ())"
  unfolding collect_entries by (auto simp: readable_def image_iff)

lemma all_entries_ser:
  assumes "readable mclag_id s"
  shows "map the (collect (\<lambda>c. Pair (map (map_option ser) (entries s c))) (asked mclag_id s (sys_csm_list s)) ()) =
    map ser (all_entries mclag_id s)"
proof -
  have "None \<notin> set (concat (map (entries s) (asked mclag_id s (sys_csm_list s))))"
    using assms by (simp add: readable_def)
  then show ?thesis unfolding collect_entries all_entries_def by (rule map_the_option)
qed

lemma dump_each_ok:
  assumes "\<forall>i. env_malloc s i" "asked mclag_id s (sys_csm_list s) \<noteq> []" "readable mclag_id s"
  shows "\<exists>t. allocs s t \<and>
    dumped (dump_each size_of ser entries mclag_id s) =
      Some (EXEC_TYPE_SUCCESS, concat (map ser (all_entries mclag_id s)), t)"
  using dv.dump_ok [of s mclag_id "()"] assms
  by (auto simp: dump_each_def dumped_def all_entries_ser readable_collect [symmetric])

lemma dump_each_safe: "readable mclag_id s \<Longrightarrow> dump_each size_of ser entries mclag_id s \<noteq> None"
  using dv.dump_ok [of s mclag_id "()"] by (auto simp: dump_each_def readable_collect [symmetric])

end

interpretation arp_dump: ctl_dump ser_mclagd_arp_msg de_mclagd_arp_msg 72 valid_mclagd_arp_msg arp_entries
  by unfold_locales (auto simp: arp_entries_def arp_view_def valid_mclagd_arp_msg_def)

interpretation ndisc_dump: ctl_dump ser_mclagd_ndisc_msg de_mclagd_ndisc_msg 104 valid_mclagd_ndisc_msg ndisc_entries
  by unfold_locales (auto simp: ndisc_entries_def ndisc_view_def valid_mclagd_ndisc_msg_def)

interpretation mac_dump: ctl_dump ser_mclagd_mac_msg de_mclagd_mac_msg 76 valid_mclagd_mac_msg
  "\<lambda>s c. map Some (mac_entries s c)"
  by unfold_locales (auto simp: mac_entries_def mac_view_def valid_mclagd_mac_msg_def)

lemma length_vlan_list_print [simp]: "length (vlan_list_print vids) = 64"
  by (simp add: vlan_list_print_close)

interpretation lif_dump: ctl_dump ser_mclagd_local_if de_mclagd_local_if 712 valid_mclagd_local_if
  "\<lambda>s c. map Some (lif_entries s c)"
  by unfold_locales (auto simp: lif_entries_def lif_view_def valid_mclagd_local_if_def split: option.splits)

interpretation pif_dump: ctl_dump ser_mclagd_peer_if de_mclagd_peer_if 84 valid_mclagd_peer_if
  "\<lambda>s c. map Some (pif_entries s c)"
  by unfold_locales (auto simp: pif_entries_def pif_view_def valid_mclagd_peer_if_def)

lemma length_enabled_po [simp]: "length (fst (enabled_po_print lifs len)) = 512"
  by (simp add: enabled_po_print_def Let_def MCLAGDCTL_PORT_MEMBER_BUF_LEN_def)

lemma valid_state_view: "valid_mclagd_state (fst (state_view lg s c len))"
  using length_enabled_po
  by (simp add: state_view_def valid_mclagd_state_def Let_def split_def)

lemma state_view_alloc: "state_view lg (s\<lparr>env_n_malloc := k\<rparr>) = state_view lg s"
  by (simp add: fun_eq_iff state_view_def local_if_find_by_name_def Let_def split_def cong: option.case_cong)

interpretation state_dump: dump_view 656
  "\<lambda>s c len. let (r, len) = state_view lg s c len in ([Some (ser_mclagd_state r)], len)" for lg
proof
  show "length bs = 656" if "Some bs \<in> set (fst (let (r, len) = state_view lg s c acc in ([Some (ser_mclagd_state r)], len)))"
    for bs s c acc
    using that mclagd_state_codec.length_ser [OF valid_state_view] by (auto simp: split_def Let_def)
qed (simp_all add: state_view_alloc)

lemma state_readable:
  "None \<notin> set (collect (\<lambda>c len. let (r, len) = state_view lg s c len in ([Some (ser_mclagd_state r)], len)) cs acc)"
  by (induction cs arbitrary: acc) (auto simp: split_def Let_def)

lemma total_dumps_readable [simp]:
  "mac_dump.readable mclag_id s" "lif_dump.readable mclag_id s" "pif_dump.readable mclag_id s"
  by (auto simp: mac_dump.readable_def lif_dump.readable_def pif_dump.readable_def)

section \<open>The client\<close>

fun print_rows :: "(nat \<Rightarrow> 'r \<Rightarrow> string option) \<Rightarrow> nat \<Rightarrow> 'r list \<Rightarrow> string option" where
  "print_rows row n [] = Some []"
| "print_rows row n (x # xs) = do {
     t \<leftarrow> row n x;
     ts \<leftarrow> print_rows row (n + 1) xs;
     Some (t @ ts)
   }"

lemma print_rows_map:
  "(\<And>i m. m \<in> set ms \<Longrightarrow> row i (f m) = Some (g i m)) \<Longrightarrow>
   print_rows row n (map f ms) = Some (concat (map (\<lambda>(i, m). g i m) (enumerate n ms)))"
  by (induction ms arbitrary: n) auto

context codec
begin

lemma parse_rows_ser:
  assumes "0 < size_of" "\<forall>x \<in> set xs. valid x" "length pre = size_of * k"
  shows "parse_rows de size_of row k (int (size_of * length xs)) (pre @ concat (map ser xs)) = print_rows row k xs"
  using assms(2,3)
proof (induction xs arbitrary: pre k)
  case Nil
  then show ?case using assms(1) by (subst parse_rows.simps) simp
next
  case (Cons x xs)
  have "parse_rows de size_of row (k + 1) (int (size_of * length xs)) ((pre @ ser x) @ concat (map ser xs)) =
      print_rows row (k + 1) xs"
    using Cons.prems length_ser [of x] by (intro Cons.IH) auto
  moreover have "de (drop (size_of * k) (pre @ concat (map ser (x # xs)))) = Some (x, concat (map ser xs))"
    using Cons.prems de_at [of x pre "size_of * k" "concat (map ser xs)"] by simp
  moreover have "\<not> int size_of * int (length xs) < 0" by (simp add: not_less)
  ultimately show ?case
    using assms(1) by (subst parse_rows.simps) (simp add: algebra_simps)
qed

end

lemma sint_word_of_nat: "n < 2 ^ 31 \<Longrightarrow> sint (word_of_nat n :: u32) = int n"
  by (simp add: sint_uint uint_nat unat_of_nat signed_take_bit_int_eq_self take_bit_nat_eq_self)

lemma sint_word_of_int: "- (2 ^ 31) \<le> i \<Longrightarrow> i < 2 ^ 31 \<Longrightarrow> sint (word_of_int i :: u32) = i"
  by (simp add: sint_sbintrunc' signed_take_bit_int_eq_self)

lemma ctl_header_length [simp]: "length (ctl_header ty n res) = 16"
  by (simp add: ctl_header_def ser_mclagd_reply_hdr_def)

lemma ctl_reply_eq:
  assumes "length data + 16 < 2 ^ 31"
  shows "ctl_reply ty data = ctl_header ty (word_of_nat (length data)) EXEC_TYPE_SUCCESS @ data"
proof -
  have "sint (word_of_nat (length data) + 16 :: u32) = int (length data + 16)"
    using sint_word_of_nat [of "length data + 16"] assms by simp
  then show ?thesis by (simp add: ctl_reply_def Let_def nat_add_distrib)
qed

text \<open>A reply as the client sees it, whatever the pieces in which it arrives.\<close>

lemma ctl_receive_header:
  assumes "arrives (ctl_header ty (word_of_nat (length data)) res @ data) evs" "length data + 16 < 2 ^ 31"
    "0 \<le> ty" "ty < 2 ^ 31" "- (2 ^ 31) \<le> res" "res < 0"
  shows "ctl_receive cmd para_int True sent evs =
    (if ty \<noteq> ct_info_type cmd then Some (quit EXIT_FAILURE sent [] (''Reply info type from mclagd error'' @ nl))
     else if res = EXEC_TYPE_NO_EXIST_SYS then Some (quit EXIT_FAILURE sent [] (''No exist sys in iccpd!'' @ nl))
     else if res = EXEC_TYPE_NO_EXIST_MCLAGID
     then Some (quit EXIT_FAILURE sent [] (''Mclag-id '' @ dec_int (sint para_int) @
       '' hasn't been configured in iccpd!'' @ nl))
     else if res = EXEC_TYPE_FAILED then Some (quit EXIT_FAILURE sent [] (''exec error in iccpd!'' @ nl))
     else do {
       parse \<leftarrow> ct_parse_msg cmd;
       out \<leftarrow> parse data (int (length data));
       Some (quit EXIT_SUCCESS sent out [])
     })"
proof -
  let ?h = "\<lparr>rp_info_type = word_of_int ty, rp_data_len = word_of_nat (length data), rp_exec_result = word_of_int res\<rparr>"
  let ?n = "word_of_nat (length data) + 12 :: u32"
  have "arrives (le32 ?n @ ser_mclagd_reply_hdr ?h @ data) evs"
    using assms(1) by (simp add: ctl_header_def)
  then obtain evs1 where r1: "mclagd_ctl_sock_read 4 [] evs = Some (le32 ?n, evs1)"
      "arrives ((ser_mclagd_reply_hdr ?h @ data) @ []) evs1"
    using sock_read_arrives [of "le32 ?n" _ evs 4] by auto
  have n: "sint ?n = int (length data + 12)"
    using sint_word_of_nat [of "length data + 12"] assms(2) by simp
  have "length (ser_mclagd_reply_hdr ?h) = 12"
    by (rule mclagd_reply_hdr_codec.length_ser) (simp add: valid_mclagd_reply_hdr_def)
  moreover have "nat (sint ?n) = 12 + length data" unfolding n by simp
  ultimately obtain evs2 where
    r2: "mclagd_ctl_sock_read (nat (sint ?n)) [] evs1 = Some (ser_mclagd_reply_hdr ?h @ data, evs2)"
    using sock_read_arrives [OF r1(2), of "12 + length data"] by auto
  have "de_mclagd_reply_hdr (ser_mclagd_reply_hdr ?h @ data) = Some (?h, data)"
    by (rule mclagd_reply_hdr_codec.de_ser) (simp add: valid_mclagd_reply_hdr_def)
  moreover have "de_le32 (le32 ?n) = Some (?n, [])" using de_le32_ser [of ?n "[]"] by simp
  ultimately show ?thesis
    using r1(1) r2 n sint_word_of_int [of ty] sint_word_of_int [of res] assms(3-)
    by (simp add: ctl_receive_def mclagdctl_sock_read_def)
qed

lemma valid_req: "valid_mclagdctl_req_hdr \<lparr>rq_info_type = a, rq_mclag_id = b, rq_para1 = replicate 32 0,
    rq_para2 = replicate 32 0, rq_para3 = replicate 32 0\<rparr>"
  by (simp add: valid_mclagdctl_req_hdr_def)

lemma ctl_served:
  assumes "arrives (enca_req ty mclag_id) evs" "0 \<le> ty" "ty < 2 ^ 31" "- (2 ^ 31) \<le> mclag_id" "mclag_id < 2 ^ 31"
    "ctl_dispatch dbg ty mclag_id lg s = Some (Inr (bs, lg', t))"
  shows "mclagd_ctl_interactive_process dbg evs ws lg s = Some (0, fst (mclagd_ctl_sock_write bs ws), lg', t)"
proof -
  have len: "length (enca_req ty mclag_id) = 104"
    unfolding enca_req_def by (rule mclagdctl_req_hdr_codec.length_ser [OF valid_req])
  obtain evs' where r: "mclagd_ctl_sock_read 104 [] evs = Some (enca_req ty mclag_id, evs')"
    using sock_read_arrives [of "enca_req ty mclag_id" "[]" evs 104] assms(1) len by auto
  show ?thesis
    using mclagdctl_req_hdr_codec.de_ser_exact [OF valid_req] assms(2-)
    by (simp add: mclagd_ctl_interactive_process_def r) (simp add: enca_req_def sint_word_of_int)
qed

text \<open>A socket that takes all of \<open>n\<close> bytes in the end.\<close>

definition accepts :: "nat \<Rightarrow> int list \<Rightarrow> bool" where
  "accepts n ws \<longleftrightarrow> (\<forall>w \<in> set ws. 0 < w) \<and> int n \<le> sum_list ws"

lemma accepts_write: "accepts (length buf) ws \<Longrightarrow> mclagd_ctl_sock_write buf ws = (buf, True)"
proof (induction buf ws rule: mclagd_ctl_sock_write.induct)
  case (3 b bs w ws)
  have "0 \<le> sum_list ws"
    using "3.prems" by (intro sum_list_nonneg) (auto simp: accepts_def intro: less_imp_le)
  then have "mclagd_ctl_sock_write (drop (nat w) (b # bs)) ws = (drop (nat w) (b # bs), True)"
    using "3.prems" by (intro "3.IH") (auto simp: accepts_def of_nat_diff)
  then show ?case using "3.prems" by (simp add: accepts_def)
qed (auto simp: accepts_def)

section \<open>Showing the MAC table\<close>

text \<open>The line of an entry of the MAC table.\<close>

definition mac_line :: "nat \<Rightarrow> MACMsg \<Rightarrow> string" where
  "mac_line n m = pad 6 (dec (n + 1)) @ pad 5 (if mac_fdb_type m = MAC_TYPE_STATIC then ''S'' else ''D'') @
     pad 20 (mac_str (mac_addr m)) @ pad 5 (dec (unat (mac_vid m))) @ pad 20 (mac_ifname m) @
     pad 20 (mac_origin_ifname m) @ pad 5 (age_text (mac_age_flag m)) @ nl"

definition shown_macs :: "int \<Rightarrow> System \<Rightarrow> MACMsg list" where
  "shown_macs mclag_id s = concat (map (\<lambda>c. map (mac_of s c) (mac_rb s c)) (asked mclag_id s (sys_csm_list s)))"

definition mac_printable :: "MACMsg \<Rightarrow> bool" where
  "mac_printable m \<longleftrightarrow> length (mac_addr m) = 6 \<and> c_name 32 (mac_ifname m) \<and> c_name 32 (mac_origin_ifname m)"

lemma mac_row_view: "mac_printable m \<Longrightarrow> mac_row n (mac_view m) = Some (mac_line n m)"
  by (simp add: mac_row_def mac_view_def mac_line_def mac_printable_def mac_addr_to_str_def MAC_TYPE_STATIC_def)

lemma all_mac_entries: "mac_dump.all_entries mclag_id s = map mac_view (shown_macs mclag_id s)"
  unfolding mac_dump.all_entries_def shown_macs_def map_concat by (simp add: mac_entries_def comp_def)

lemma find_cmd_dump_mac:
  "mclagdctl_find_cmd [''dump'', ''mac''] = Inr (command ID_CMDTYPE_D_A ID_CMDTYPE_D INFO_TYPE_DUMP_MAC ''mac''
     mclagdctl_enca_dump_mac mclagdctl_parse_dump_mac, [])"
  by (simp add: mclagdctl_find_cmd_def mclagdctl_get_cmd_by_parent_def command_types_def group_def command_def
      mclagdctl_cmd_executable_def mclagdctl_cmd_param_cnt_def)

lemma print_macs:
  assumes "\<forall>m \<in> set ms. mac_printable m"
  shows "mclagdctl_parse_dump_mac (concat (map ser_mclagd_mac_msg (map mac_view ms)))
      (int (length (concat (map ser_mclagd_mac_msg (map mac_view ms))))) =
    Some (mac_head @ concat (map (\<lambda>(i, m). mac_line i m) (enumerate 0 ms)))"
proof -
  have valid: "\<forall>r \<in> set (map mac_view ms). valid_mclagd_mac_msg r"
    by (auto simp: mac_view_def valid_mclagd_mac_msg_def)
  have "print_rows mac_row 0 (map mac_view ms) = Some (concat (map (\<lambda>(i, m). mac_line i m) (enumerate 0 ms)))"
    using assms mac_row_view by (intro print_rows_map) auto
  moreover have "length (concat (map ser_mclagd_mac_msg (map mac_view ms))) = 76 * length (map mac_view ms)"
    using valid by (intro mclagd_mac_msg_codec.length_concat_ser) blast
  ultimately show ?thesis
    using mclagd_mac_msg_codec.parse_rows_ser [OF _ valid, of "[]" 0 mac_row]
    unfolding mclagdctl_parse_dump_mac_def by simp
qed

lemma dump_mac_served:
  assumes "\<forall>i. env_malloc s i" "asked mclag_id s (sys_csm_list s) \<noteq> []"
  shows "\<exists>t. allocs s t \<and> ctl_dispatch dbg INFO_TYPE_DUMP_MAC mclag_id lg s =
    Some (Inr (ctl_reply INFO_TYPE_DUMP_MAC (concat (map ser_mclagd_mac_msg (map mac_view (shown_macs mclag_id s)))), lg, t))"
  using mac_dump.dump_each_ok [OF assms total_dumps_readable(1)]
  by (auto simp: ctl_dispatch_def mclagd_ctl_handle_dump_mac_def iccp_mac_dump_def ctl_answer_def all_mac_entries
      const_defs)

text \<open>
  C8. \<open>mclagdctl -i <id> dump mac\<close> shows the MAC table of the session: for every way in which the
  request and the reply are cut into pieces on the socket, the daemon answers the request without
  changing anything but the count of its allocations, and the tool prints one line for every entry,
  in the order of the table, and exits with success.
\<close>

theorem mclagdctl_dump_mac_shows:
  assumes "0 < atoi t" "atoi t < 2 ^ 31" "asked (atoi t) s (sys_csm_list s) \<noteq> []" "\<forall>i. env_malloc s i"
    "\<forall>m \<in> set (shown_macs (atoi t) s). mac_printable m" "76 * length (shown_macs (atoi t) s) + 16 < 2 ^ 31"
    "accepts 104 ws" "accepts (76 * length (shown_macs (atoi t) s) + 16) ws'"
    "arrives (enca_req INFO_TYPE_DUMP_MAC (atoi t)) evs"
  shows "\<exists>reply s'. mclagd_ctl_interactive_process dbg evs ws' lg s = Some (0, reply, lg, s') \<and> allocs s s' \<and>
    (\<forall>evs'. arrives reply evs' \<longrightarrow>
       mclagdctl_main argv0 [Opt_i t] [''dump'', ''mac''] True True ws evs' =
         Some (quit EXIT_SUCCESS (enca_req INFO_TYPE_DUMP_MAC (atoi t))
           (mac_head @ concat (map (\<lambda>(n, m). mac_line n m) (enumerate 0 (shown_macs (atoi t) s)))) []))"
proof -
  let ?ms = "shown_macs (atoi t) s" and ?req = "enca_req INFO_TYPE_DUMP_MAC (atoi t)"
  let ?data = "concat (map ser_mclagd_mac_msg (map mac_view (shown_macs (atoi t) s)))"
  obtain u where u: "allocs s u" "ctl_dispatch dbg INFO_TYPE_DUMP_MAC (atoi t) lg s =
      Some (Inr (ctl_reply INFO_TYPE_DUMP_MAC ?data, lg, u))"
    using dump_mac_served [OF assms(4,3)] by blast
  have "length ?data = 76 * length (map mac_view ?ms)"
    by (intro mclagd_mac_msg_codec.length_concat_ser) (auto simp: mac_view_def valid_mclagd_mac_msg_def)
  then have len: "length ?data = 76 * length ?ms" by simp
  then have reply: "ctl_reply INFO_TYPE_DUMP_MAC ?data =
      ctl_header INFO_TYPE_DUMP_MAC (word_of_nat (length ?data)) EXEC_TYPE_SUCCESS @ ?data"
    using assms(6) by (intro ctl_reply_eq) simp
  have "mclagd_ctl_sock_write (ctl_reply INFO_TYPE_DUMP_MAC ?data) ws' = (ctl_reply INFO_TYPE_DUMP_MAC ?data, True)"
    using assms(8) len unfolding reply by (intro accepts_write) (simp add: add.commute)
  then have served: "mclagd_ctl_interactive_process dbg evs ws' lg s = Some (0, ctl_reply INFO_TYPE_DUMP_MAC ?data, lg, u)"
    using ctl_served [OF assms(9) _ _ _ _ u(2), of ws'] assms(1,2) by (simp add: INFO_TYPE_DUMP_MAC_def)
  have sent: "mclagdctl_sock_write ?req ws = (?req, True)"
    unfolding mclagdctl_sock_write_def
    using assms(7) mclagdctl_req_hdr_codec.length_ser [OF valid_req] by (intro accepts_write) (simp add: enca_req_def)
  have "mclagdctl_main argv0 [Opt_i t] [''dump'', ''mac''] True True ws evs' =
      Some (quit EXIT_SUCCESS ?req (mac_head @ concat (map (\<lambda>(n, m). mac_line n m) (enumerate 0 ?ms))) [])"
    if "arrives (ctl_reply INFO_TYPE_DUMP_MAC ?data) evs'" for evs'
    using ctl_receive_header [OF that [unfolded reply], of
        "command ID_CMDTYPE_D_A ID_CMDTYPE_D INFO_TYPE_DUMP_MAC ''mac'' mclagdctl_enca_dump_mac mclagdctl_parse_dump_mac"
        "word_of_int (atoi t)" ?req]
      sent print_macs [OF assms(5)] assms(1,2,6) len
    by (simp add: mclagdctl_main_def find_cmd_dump_mac mclagdctl_check_cmd_params_def mclagdctl_cmd_param_cnt_def
        command_def mclagdctl_enca_dump_mac_def enca_req_id_def sint_word_of_int const_defs)
  with served u(1) show ?thesis by blast
qed

section \<open>The buffers\<close>

lemma unique_ip_view_alloc: "unique_ip_view (s\<lparr>env_n_malloc := k\<rparr>) = unique_ip_view s"
  by (simp add: fun_eq_iff unique_ip_view_def local_if_l3_proto_enabled_def local_if_find_by_name_def)

lemma valid_unique_ip_view: "valid_mclagd_unique_ip_if (unique_ip_view s n)"
  by (simp add: unique_ip_view_def valid_mclagd_unique_ip_if_def)

interpretation unique_ip_dump: dump_view 36
  "\<lambda>s c (_ :: unit). (map (\<lambda>n. Some (ser_mclagd_unique_ip_if (unique_ip_view s n))) (sys_unq_ip_if_list s), ())"
  by unfold_locales
    (auto simp: unique_ip_view_alloc mclagd_unique_ip_if_codec.length_ser [OF valid_unique_ip_view])

lemma unique_ip_safe: "iccp_unique_ip_if_dump mclag_id s \<noteq> None"
proof -
  obtain ok t where t: "malloc s = (ok, t)" by fastforce
  have "unique_ip_dump.room [] \<lparr>db_data = [], db_num = 0, db_size = MCLAGDCTL_CMD_SIZE\<rparr>"
    by (simp add: unique_ip_dump.room_def MCLAGDCTL_CMD_SIZE_def)
  from unique_ip_dump.dump_all_room [OF this, of
      "map (\<lambda>n. ser_mclagd_unique_ip_if (unique_ip_view t n)) (sys_unq_ip_if_list t)" t]
  show ?thesis
    by (auto simp: iccp_unique_ip_if_dump_def t mclagd_unique_ip_if_codec.length_ser [OF valid_unique_ip_view] comp_def)
qed

text \<open>The block of counters of every session fits as long as a number belongs to one session only.\<close>

lemma length_ser_counters: "length (ser_counters f) = 928"
  by (simp add: ser_counters_def ICCP_DBG_CNTR_MSG_MAX_def le64_def length_concat comp_def sum_list_triv)

lemma asked_unique:
  assumes "distinct (map (\<lambda>c. csm_mlag_id (csm_of s c)) cs)" "0 < mclag_id"
  shows "length (asked mclag_id s cs) \<le> 1"
proof -
  have "map (\<lambda>c. csm_mlag_id (csm_of s c)) (asked mclag_id s cs) =
      filter (\<lambda>i. i = mclag_id) (map (\<lambda>c. csm_mlag_id (csm_of s c)) cs)"
    using assms(2) by (simp add: asked_def filter_map comp_def)
  then have "distinct (map (\<lambda>c. csm_mlag_id (csm_of s c)) (asked mclag_id s cs))"
      "set (map (\<lambda>c. csm_mlag_id (csm_of s c)) (asked mclag_id s cs)) \<subseteq> {mclag_id}"
    using assms(1) by auto
  then show ?thesis by (metis card_mono distinct_card finite.emptyI finite_insert is_singletonI is_singleton_altdef length_map)
qed

lemma counter_dump_safe:
  assumes "distinct (map (\<lambda>c. csm_mlag_id (csm_of s c)) (sys_csm_list s))"
  shows "iccp_cmd_dbg_counter_dump dbg mclag_id s \<noteq> None"
proof -
  let ?cs = "asked mclag_id s (sys_csm_list s)"
  obtain ok t where t: "malloc s = (ok, t)" by fastforce
  then have "allocs s t" using allocs_malloc [of s s] by simp
  then have same: "asked mclag_id t = asked mclag_id s" "csm_of t = csm_of s" "sys_csm_list t = sys_csm_list s"
    by (auto simp: allocs_def asked_def fun_eq_iff)
  have "length ?cs \<le> (if 0 < mclag_id then 1 else length (sys_csm_list s))"
    using asked_unique [OF assms] length_filter_le by (auto simp: asked_def)
  moreover have "length (concat (map (\<lambda>c. ser_counters (ml_dbg_counters (MLACP (csm_of s c)))) ?cs)) = 928 * length ?cs"
    by (simp add: length_concat comp_def length_ser_counters sum_list_triv)
  ultimately show ?thesis
    unfolding iccp_cmd_dbg_counter_dump_def Let_def t prod.case asked_def [symmetric] same
    by (auto simp: ICCP_DBG_CNTR_MSG_MAX_def)
qed

lemma neigh_readable:
  "arp_dump.readable mclag_id s \<longleftrightarrow> (\<forall>c \<in> set (asked mclag_id s (sys_csm_list s)).
     \<forall>a \<in> set (ml_arp_list (MLACP (csm_of s c))). c_string (arp_ifname a) \<noteq> None)"
  "ndisc_dump.readable mclag_id s \<longleftrightarrow> (\<forall>c \<in> set (asked mclag_id s (sys_csm_list s)).
     \<forall>n \<in> set (ml_ndisc_list (MLACP (csm_of s c))). c_string (nd_ifname n) \<noteq> None)"
  by (auto simp: arp_dump.readable_def ndisc_dump.readable_def arp_entries_def ndisc_entries_def arp_view_def
      ndisc_view_def c_string_def image_iff)

text \<open>
  C28. No dump writes behind the buffer it has allocated or reads behind a name, whatever the number of
  sessions, entries and interfaces and whichever allocations fail, as long as the numbers of the
  sessions are distinct, which the dump of the counters needs for its buffer, and the interface names of
  the ARP and ND entries of the sessions that are dumped are terminated, which the dumps of these
  entries need.
\<close>

theorem dumps_in_bounds:
  assumes "distinct (map (\<lambda>c. csm_mlag_id (csm_of s c)) (sys_csm_list s))"
    "\<forall>c \<in> set (asked mclag_id s (sys_csm_list s)).
       (\<forall>a \<in> set (ml_arp_list (MLACP (csm_of s c))). c_string (arp_ifname a) \<noteq> None) \<and>
       (\<forall>n \<in> set (ml_ndisc_list (MLACP (csm_of s c))). c_string (nd_ifname n) \<noteq> None)"
  shows "iccp_mclag_config_dump lg mclag_id s \<noteq> None \<and> iccp_arp_dump mclag_id s \<noteq> None \<and>
   iccp_ndisc_dump mclag_id s \<noteq> None \<and> iccp_mac_dump mclag_id s \<noteq> None \<and>
   iccp_local_if_dump mclag_id s \<noteq> None \<and> iccp_peer_if_dump mclag_id s \<noteq> None \<and>
   iccp_unique_ip_if_dump mclag_id s \<noteq> None \<and> iccp_cmd_dbg_counter_dump dbg mclag_id s \<noteq> None"
proof -
  have "arp_dump.readable mclag_id s" "ndisc_dump.readable mclag_id s" using assms(2) by (simp_all add: neigh_readable)
  moreover have "iccp_mclag_config_dump lg mclag_id s \<noteq> None"
    using state_dump.dump_ok [of lg s mclag_id 0] state_readable by (auto simp: iccp_mclag_config_dump_def)
  ultimately show ?thesis
    unfolding iccp_arp_dump_def iccp_ndisc_dump_def iccp_mac_dump_def iccp_local_if_dump_def iccp_peer_if_dump_def
    using arp_dump.dump_each_safe ndisc_dump.dump_each_safe mac_dump.dump_each_safe lif_dump.dump_each_safe
      pif_dump.dump_each_safe unique_ip_safe counter_dump_safe [OF assms(1)] by simp
qed

section \<open>Errors\<close>

text \<open>The commands whose dump looks for the session, and the answer when there is none.\<close>

definition session_dumps :: "int list" where
  "session_dumps = [INFO_TYPE_DUMP_STATE, INFO_TYPE_DUMP_ARP, INFO_TYPE_DUMP_NDISC, INFO_TYPE_DUMP_MAC,
     INFO_TYPE_DUMP_LOCAL_PORTLIST, INFO_TYPE_DUMP_PEER_PORTLIST]"

context dump_view
begin

lemma dump_no_session:
  assumes "\<forall>i. env_malloc s i" "0 < mclag_id" "asked mclag_id s (sys_csm_list s) = []"
  shows "\<exists>b t. allocs s t \<and> dump sz view acc mclag_id s = Some (EXEC_TYPE_NO_EXIST_MCLAGID, Some b, t)"
  using dump_ok [of s mclag_id acc] assms by auto

end

lemma answer_no_session:
  assumes "\<exists>b t. allocs s t \<and> d = Some (EXEC_TYPE_NO_EXIST_MCLAGID, Some b, t)"
  shows "\<exists>t. allocs s t \<and> ctl_answer ty ty' (dumped d) = Some (ctl_header ty' 0 EXEC_TYPE_NO_EXIST_MCLAGID, t)"
  using assms by (auto simp: ctl_answer_def dumped_def const_defs)

lemma dispatch_no_session:
  assumes "\<forall>i. env_malloc s i" "0 < mclag_id" "asked mclag_id s (sys_csm_list s) = []" "ty \<in> set session_dumps"
  shows "\<exists>t. allocs s t \<and> ctl_dispatch dbg ty mclag_id lg s =
    Some (Inr (ctl_header ty 0 EXEC_TYPE_NO_EXIST_MCLAGID, lg, t))"
proof -
  note answers = answer_no_session [OF state_dump.dump_no_session [OF assms(1-3)]]
    answer_no_session [OF arp_dump.dv.dump_no_session [OF assms(1-3)]]
    answer_no_session [OF ndisc_dump.dv.dump_no_session [OF assms(1-3)]]
    answer_no_session [OF mac_dump.dv.dump_no_session [OF assms(1-3)]]
    answer_no_session [OF lif_dump.dv.dump_no_session [OF assms(1-3)]]
    answer_no_session [OF pif_dump.dv.dump_no_session [OF assms(1-3)]]
  consider "ty = INFO_TYPE_DUMP_STATE" | "ty = INFO_TYPE_DUMP_ARP" | "ty = INFO_TYPE_DUMP_NDISC" | "ty = INFO_TYPE_DUMP_MAC"
    | "ty = INFO_TYPE_DUMP_LOCAL_PORTLIST" | "ty = INFO_TYPE_DUMP_PEER_PORTLIST"
    using assms(4) by (auto simp: session_dumps_def)
  then show ?thesis
  proof cases
    case 1
    then show ?thesis using answers(1) [where ty = ty and ty' = ty]
      by (auto simp: ctl_dispatch_def mclagd_ctl_handle_dump_state_def iccp_mclag_config_dump_def)
  next
    case 2
    then show ?thesis using answers(2) [where ty = ty and ty' = ty]
      by (auto simp: ctl_dispatch_def mclagd_ctl_handle_dump_arp_def iccp_arp_dump_def dump_each_def const_defs)
  next
    case 3
    then show ?thesis using answers(3) [where ty = ty and ty' = ty]
      by (auto simp: ctl_dispatch_def mclagd_ctl_handle_dump_ndisc_def iccp_ndisc_dump_def dump_each_def const_defs)
  next
    case 4
    then show ?thesis using answers(4) [where ty = ty and ty' = ty]
      by (auto simp: ctl_dispatch_def mclagd_ctl_handle_dump_mac_def iccp_mac_dump_def dump_each_def const_defs)
  next
    case 5
    then show ?thesis using answers(5) [where ty = ty and ty' = ty]
      by (auto simp: ctl_dispatch_def mclagd_ctl_handle_dump_local_portlist_def iccp_local_if_dump_def dump_each_def const_defs)
  next
    case 6
    then show ?thesis using answers(6) [where ty = ty and ty' = ty]
      by (auto simp: ctl_dispatch_def mclagd_ctl_handle_dump_peer_portlist_def iccp_peer_if_dump_def dump_each_def const_defs)
  qed
qed


text \<open>
  C31. A request for a session that does not exist: every dump of a session answers with the code for
  it and no data, and the tool, for the command it belongs to, says that the number is not configured and exits
  with an error, in whatever pieces the answer arrives.
\<close>

theorem unknown_mclag_id_reported:
  assumes "\<forall>i. env_malloc s i" "0 < mclag_id" "mclag_id < 2 ^ 31" "asked mclag_id s (sys_csm_list s) = []"
    "ct_info_type cmd \<in> set session_dumps" "arrives (enca_req (ct_info_type cmd) mclag_id) evs" "accepts 16 ws"
  shows "\<exists>reply s'. mclagd_ctl_interactive_process dbg evs ws lg s = Some (0, reply, lg, s') \<and> allocs s s' \<and>
    (\<forall>evs'. arrives reply evs' \<longrightarrow> ctl_receive cmd (word_of_int mclag_id) True sent evs' =
       Some (quit EXIT_FAILURE sent []
         (''Mclag-id '' @ dec_int mclag_id @ '' hasn't been configured in iccpd!'' @ nl)))"
proof -
  let ?reply = "ctl_header (ct_info_type cmd) 0 EXEC_TYPE_NO_EXIST_MCLAGID"
  have ty: "0 \<le> ct_info_type cmd" "ct_info_type cmd < 2 ^ 31"
    using assms(5) by (auto simp: session_dumps_def const_defs)
  obtain u where u: "allocs s u" "ctl_dispatch dbg (ct_info_type cmd) mclag_id lg s = Some (Inr (?reply, lg, u))"
    using dispatch_no_session [OF assms(1,2,4,5)] by blast
  have "mclagd_ctl_sock_write ?reply ws = (?reply, True)"
    using assms(7) by (intro accepts_write) simp
  then have "mclagd_ctl_interactive_process dbg evs ws lg s = Some (0, ?reply, lg, u)"
    using ctl_served [OF assms(6) ty _ _ u(2), of ws] assms(2,3) by simp
  moreover have "ctl_receive cmd (word_of_int mclag_id) True sent evs' = Some (quit EXIT_FAILURE sent []
      (''Mclag-id '' @ dec_int mclag_id @ '' hasn't been configured in iccpd!'' @ nl))" if "arrives ?reply evs'" for evs'
    using ctl_receive_header [of "ct_info_type cmd" "[]" EXEC_TYPE_NO_EXIST_MCLAGID evs' cmd] that ty assms(2,3)
    by (simp add: const_defs sint_word_of_int)
  ultimately show ?thesis using u(1) by blast
qed

text \<open>
  C40. \<open>mclagdctl -l <level> config loglevel\<close> sets the level of the log of the daemon, but the answer has no
  data, and the tool reads the result from the four bytes behind it.
\<close>

theorem loglevel_reply_overread:
  assumes "level_of t = Some level" "arrives (enca_req INFO_TYPE_CONFIG_LOGLEVEL level) evs" "accepts 104 ws" "accepts 16 ws'"
  shows "\<exists>reply. mclagd_ctl_interactive_process dbg evs ws' lg s =
      Some (0, reply, lg\<lparr>lg_log_level := word_of_int level\<rparr>, s) \<and>
    (\<forall>evs'. arrives reply evs' \<longrightarrow>
       mclagdctl_main argv0 [Opt_l t] [''config'', ''loglevel''] True True ws evs' = None)"
proof -
  let ?req = "enca_req INFO_TYPE_CONFIG_LOGLEVEL level"
  let ?reply = "ctl_header INFO_TYPE_CONFIG_LOGLEVEL 0 EXEC_TYPE_SUCCESS"
  let ?cmd = "command ID_CMDTYPE_C_L ID_CMDTYPE_C INFO_TYPE_CONFIG_LOGLEVEL ''loglevel''
    mclagdctl_enca_config_loglevel mclagdctl_parse_config_loglevel"
  have level: "0 \<le> level" "level < 6"
    using assms(1) by (auto simp: level_of_def split: list.splits if_splits)
  have cmd: "mclagdctl_find_cmd [''config'', ''loglevel''] = Inr (?cmd, [])"
    by (simp add: mclagdctl_find_cmd_def mclagdctl_get_cmd_by_parent_def command_types_def group_def command_def
        mclagdctl_cmd_executable_def mclagdctl_cmd_param_cnt_def)
  have "mclagd_ctl_sock_write ?reply ws' = (?reply, True)"
    using assms(4) by (intro accepts_write) simp
  moreover have "ctl_dispatch dbg INFO_TYPE_CONFIG_LOGLEVEL level lg s =
      Some (Inr (?reply, lg\<lparr>lg_log_level := word_of_int level\<rparr>, s))"
    by (simp add: ctl_dispatch_def mclagd_ctl_handle_config_loglevel_def logger_set_configuration_def const_defs)
  ultimately have "mclagd_ctl_interactive_process dbg evs ws' lg s =
      Some (0, ?reply, lg\<lparr>lg_log_level := word_of_int level\<rparr>, s)"
    using ctl_served [OF assms(2), of dbg lg s ?reply _ s ws'] level by (simp add: const_defs)
  moreover have sent: "mclagdctl_sock_write ?req ws = (?req, True)"
    unfolding mclagdctl_sock_write_def
    using assms(3) mclagdctl_req_hdr_codec.length_ser [OF valid_req] by (intro accepts_write) (simp add: enca_req_def)
  have "mclagdctl_main argv0 [Opt_l t] [''config'', ''loglevel''] True True ws evs' = None"
    if "arrives ?reply evs'" for evs'
  proof -
    have "ctl_receive ?cmd (word_of_int level) True ?req evs' = None"
      using ctl_receive_header [of INFO_TYPE_CONFIG_LOGLEVEL "[]" EXEC_TYPE_SUCCESS evs' ?cmd] that
      by (simp add: command_def const_defs mclagdctl_parse_config_loglevel_def)
    then show ?thesis
      using sent level assms(1)
      by (simp add: mclagdctl_main_def cmd mclagdctl_check_cmd_params_def mclagdctl_cmd_param_cnt_def command_def
          mclagdctl_enca_config_loglevel_def sint_word_of_int)
  qed
  ultimately show ?thesis by blast
qed

text \<open>
  The text of the port channels of a session begins where that of the session before it ended, in
  an array that is zero up to there: behind a session with a port channel the tool shows none.
\<close>

lemma enabled_po_loop_later:
  "0 < len \<Longrightarrow> buf = [] \<or> hd buf = 0 \<Longrightarrow> enabled_po_loop lifs buf len = [] \<or> hd (enabled_po_loop lifs buf len) = 0"
proof (induction lifs arbitrary: buf len)
  case (Cons l ls)
  have "print_at len n x buf = [] \<or> hd (print_at len n x buf) = 0" for n x
    using Cons.prems by (cases buf; cases len) (auto simp: print_at_def write_at_def)
  then show ?case using Cons by (simp add: Let_def)
qed simp

lemma second_session_ports_hidden:
  assumes "0 < len"
  shows "c_string (fst (enabled_po_print lifs len)) = Some [] \<and> snd (enabled_po_print lifs len) = 0"
proof -
  let ?b = "enabled_po_loop lifs [] len"
  have "hd (buf_take 512 ?b) = 0" using enabled_po_loop_later [OF assms, of "[]" lifs]
    by (cases ?b) (auto simp: buf_take_def)
  then obtain r where r: "buf_take 512 ?b = 0 # r" by (metis length_buf_take list.exhaust_sel list.size(3) zero_neq_numeral)
  then show ?thesis
    by (simp add: enabled_po_print_def c_strlen_def c_string_def Let_def MCLAGDCTL_PORT_MEMBER_BUF_LEN_def)
qed

text \<open>A message that fills the buffer is ended one byte behind it.\<close>

lemma write_log_overrun:
  "write_log level tag msg lg = None \<longleftrightarrow> level \<le> uint (lg_log_level lg) \<and>
     1024 \<le> length (''['' @ tag @ ''.'' @ log_level_to_string level @ ''] '') + length msg"
  by (auto simp: write_log_def Let_def LOGBUF_SIZE_def)

text \<open>An error of the dump of the interfaces with their own addresses is answered with the type of another dump.\<close>

lemma unique_ip_error_mistyped:
  assumes "malloc s = (False, t)" "arrives reply evs" "mclagd_ctl_handle_dump_unique_ip mclag_id s = Some (reply, u)"
    "ct_info_type cmd = INFO_TYPE_DUMP_UNIQUE_IP"
  shows "ctl_receive cmd para_int True sent evs =
    Some (quit EXIT_FAILURE sent [] (''Reply info type from mclagd error'' @ nl))"
proof -
  have "reply = ctl_header INFO_TYPE_DUMP_LOCAL_PORTLIST 0 EXEC_TYPE_FAILED"
    using assms(1,3) by (simp add: mclagd_ctl_handle_dump_unique_ip_def iccp_unique_ip_if_dump_def dumped_def
        ctl_answer_def const_defs)
  then show ?thesis
    using ctl_receive_header [of INFO_TYPE_DUMP_LOCAL_PORTLIST "[]" EXEC_TYPE_FAILED evs cmd] assms(2,4)
    by (simp add: const_defs)
qed

section \<open>Examples\<close>

definition a_shown_mac :: MACMsg where
  "a_shown_mac = zero_MACMsg\<lparr>mac_vid := 10, mac_addr := [0, 1, 2, 3, 4, 5], mac_ifname := ''Po1'',
     mac_origin_ifname := ''Po1'', mac_fdb_type := 1, mac_age_flag := 2\<rparr>"

definition a_shown :: System where
  "a_shown = (a_host (\<lambda>_. SendErr))\<lparr>sys_csm_list := [0], sys_csm_heap := (\<lambda>_. (upd_mlacp (\<lambda>m. m\<lparr>ml_mac_rb := [0],
     ml_mac_heap := (\<lambda>_. a_shown_mac)\<rparr>) zero_CSM)\<lparr>csm_mlag_id := 5\<rparr>)\<rparr>"

lemma a_shown_facts: "atoi ''5'' = 5" "asked 5 a_shown [0] = [0]" "sys_csm_list a_shown = [0]" "asked 6 a_shown [0] = []"
  "env_malloc a_shown i" "shown_macs 5 a_shown = [a_shown_mac]" "mac_printable a_shown_mac"
  by (simp_all add: atoi_def asked_def shown_macs_def mac_printable_def c_name_def a_shown_def a_shown_mac_def
      a_host_def upd_mlacp_def upd_app_def) code_simp

lemma arrives_bytes: "arrives bs (map (\<lambda>b. Data [b]) bs)"
  unfolding arrives_def by (rule exI [of _ "map (\<lambda>b. [b]) bs"]) (induction bs, auto)


theorem dumps_in_bounds_witness:
  "iccp_mac_dump 5 a_shown \<noteq> None \<and> iccp_arp_dump 5 a_shown \<noteq> None \<and> iccp_cmd_dbg_counter_dump [] 5 a_shown \<noteq> None"
proof -
  have "ml_arp_list (MLACP (csm_of a_shown c)) = []" "ml_ndisc_list (MLACP (csm_of a_shown c)) = []" for c
    by (simp_all add: a_shown_def a_host_def upd_mlacp_def upd_app_def zero_CSM_def zero_mLACP_def)
  then show ?thesis
    using dumps_in_bounds [of a_shown 5 logger_init "[]"] by (simp add: a_shown_facts)
qed

theorem mclagdctl_dump_mac_shows_witness:
  "\<exists>reply s'. mclagd_ctl_interactive_process [] (map (\<lambda>b. Data [b]) (enca_req INFO_TYPE_DUMP_MAC 5)) [10, 90] logger_init
      a_shown = Some (0, reply, logger_init, s') \<and>
    mclagdctl_main ''mclagdctl'' [Opt_i ''5''] [''dump'', ''mac''] True True [104] (map (\<lambda>b. Data [b]) reply) =
      Some (quit EXIT_SUCCESS (enca_req INFO_TYPE_DUMP_MAC 5) (mac_head @ mac_line 0 a_shown_mac) [])"
  using mclagdctl_dump_mac_shows [of "''5''" a_shown "[104]" "[10, 90]"
      "map (\<lambda>b. Data [b]) (enca_req INFO_TYPE_DUMP_MAC 5)" "[]" logger_init "''mclagdctl''"] arrives_bytes
  by (auto simp: a_shown_facts accepts_def)

theorem unknown_mclag_id_reported_witness:
  "\<exists>reply s'. mclagd_ctl_interactive_process [] (map (\<lambda>b. Data [b]) (enca_req INFO_TYPE_DUMP_STATE 6)) [16] logger_init
      a_shown = Some (0, reply, logger_init, s') \<and>
    ctl_receive (command ID_CMDTYPE_D_S ID_CMDTYPE_D INFO_TYPE_DUMP_STATE ''state''
       mclagdctl_enca_dump_state mclagdctl_parse_dump_state) 6 True [] (map (\<lambda>b. Data [b]) reply) =
      Some (quit EXIT_FAILURE [] [] (''Mclag-id '' @ dec_int 6 @ '' hasn't been configured in iccpd!'' @ nl))"
  using unknown_mclag_id_reported [of a_shown 6 "command ID_CMDTYPE_D_S ID_CMDTYPE_D INFO_TYPE_DUMP_STATE ''state''
       mclagdctl_enca_dump_state mclagdctl_parse_dump_state"
      "map (\<lambda>b. Data [b]) (enca_req INFO_TYPE_DUMP_STATE 6)" "[16]" "[]" logger_init "[]"] arrives_bytes
  by (auto simp: a_shown_facts accepts_def command_def session_dumps_def)

theorem loglevel_reply_overread_witness:
  "\<exists>reply. mclagd_ctl_interactive_process [] (map (\<lambda>b. Data [b]) (enca_req INFO_TYPE_CONFIG_LOGLEVEL 5)) [16]
      logger_init a_shown = Some (0, reply, logger_init\<lparr>lg_log_level := 5\<rparr>, a_shown) \<and>
    mclagdctl_main ''mclagdctl'' [Opt_l ''debug''] [''config'', ''loglevel''] True True [104]
      (map (\<lambda>b. Data [b]) reply) = None"
proof -
  have "level_of ''debug'' = Some 5" by (simp add: level_of_def)
  with loglevel_reply_overread [of "''debug''" 5 "map (\<lambda>b. Data [b]) (enca_req INFO_TYPE_CONFIG_LOGLEVEL 5)" "[104]"
      "[16]" "[]" logger_init a_shown "''mclagdctl''"] arrives_bytes
  show ?thesis by (auto simp: accepts_def)
qed

end
