(* ===== verification/Spec2Isabelle.thy ===== *)
theory Spec2Isabelle
  imports Mac_Sync Mac_Spec Mac_Tree Session_Safety Syncd_Recv Neigh_Learn Consistency Ctl_Serve
begin

text \<open>
  A verification library for iccpd, the MCLAG daemon of this repository (\<open>src/iccpd\<close>).

  \<^bold>\<open>The program.\<close> Two switches form a multi-chassis link aggregation group. On each of them iccpd keeps
  a TCP session with its peer and exchanges over it the configuration and state of the port channels
  they share, the MAC addresses and the ARP and ND entries each of them learned. It tells the hardware
  through mclagsyncd what to forward, and the kernel which neighbours and addresses there are. The
  daemon is one process with one loop (\<open>scheduler.c\<close>): it waits for events and then moves the state
  machines of every session along.

  \<^item> A session (\<open>struct CSM\<close>) has three layers, each a state machine: the connection (\<open>iccp_csm.c\<close>),
    the application (\<open>app_csm.c\<close>) and the synchronisation (\<open>mlacp_fsm.c\<close>).
  \<^item> Messages are prepared by \<open>mlacp_sync_prepare.c\<close> and taken apart by \<open>mlacp_sync_update.c\<close>.
  \<^item> The effect of events on MAC table, neighbours, ports and mclagsyncd is \<open>mlacp_link_handler.c\<close>;
    the interfaces are \<open>port.c\<close>, \<open>iccp_ifm.c\<close> and \<open>iccp_netlink.c\<close>.
  \<^item> The tool \<open>mclagdctl\<close> asks the daemon over a local socket for dumps of its state
    (\<open>iccp_cmd_show.c\<close>) and prints them.

  \<^bold>\<open>The model.\<close> The state of the daemon is the record \<open>System\<close> of \<open>Iccp_State\<close>: sessions and local
  interfaces live in stores indexed by pointers, so that sharing and freed memory can be talked
  about; lists of pointers are the linked lists of the code; the red-black trees are ordered lists
  with the contract of \<open>Rb_Tree\<close>, which the pointer code of \<open>openbsd_tree.c\<close> is shown to implement. The environment is part of the record: what each call of \<open>recv\<close>,
  \<open>send\<close>, \<open>write\<close>, \<open>connect\<close>, \<open>malloc\<close> and of the kernel returns, the time, and what was written. It is
  arbitrary in every theorem. An operation of the code is a function on \<open>System\<close> with its name; a
  result of type \<open>option\<close> is \<open>None\<close> where the code has no defined behaviour (a read or write outside a
  buffer, a use of freed memory, a null pointer), and negative results are the error codes of the code.
  Integers that wrap are words of their width. There is no fuel: a loop is a total function, by
  structural recursion or with a measure. The exceptions are the loop over the messages of
  mclagsyncd, which a malformed stream can keep at one place, the loops of the red-black tree along
  its pointers, and the help text of \<open>mclagdctl\<close>, which follows the table of commands: they are partial
  functions, whose value is \<open>None\<close> if they do not return, and for the trees it is shown that they do.

  \<^bold>\<open>The theories\<close>, each with the code it models:

  \<^item> \<open>Iccp_Prelude\<close>: bytes, byte order, C strings, lemma collections, and the locale \<open>codec\<close> of a wire format.
  \<^item> \<open>Iccp_Wire\<close> (\<open>msg_format.h\<close>, \<open>mlacp_tlv.h\<close>): the messages as records, with encoder and decoder;
    one interpretation of \<open>codec\<close> per structure shows that they are inverse to each other.
  \<^item> \<open>Rb_Tree\<close>: what the code relies on of \<open>openbsd_tree.h\<close>, as a locale with its interpretations.
  \<^item> \<open>Rb_Heap\<close>, \<open>Rb_Balance\<close>, \<open>Rb_Refine\<close>, \<open>Mac_Tree\<close> (\<open>openbsd_tree.c\<close>): the red-black trees in memory, with their
    parent pointers and colours. Insertion and removal return, keep the tree balanced and do to the
    ordered list what \<open>Rb_Tree\<close> says; \<open>Mac_Tree\<close> states this for the MAC table and the VLANs, and bounds the
    way down every tree that these operations build.
  \<^item> \<open>Iccp_State\<close> (\<open>system.h\<close>, \<open>iccp_csm.h\<close>, \<open>app_csm.h\<close>, \<open>mlacp_fsm.h\<close>, \<open>port.h\<close>): the state.
  \<^item> \<open>Syncd_Link\<close>: requests to mclagsyncd; the send loop returns after finitely many calls, with the
    whole message or an error, and what is sent parses back.
  \<^item> \<open>Iccp_Port\<close> (\<open>port.c\<close>, parts of \<open>iccp_netlink.c\<close> and \<open>iccp_ifm.c\<close>): interfaces, VLANs, binding to a
    session, and the hardware address a standby node takes over.
  \<^item> \<open>Iccp_Csm\<close> (\<open>iccp_csm.c\<close>, \<open>app_csm.c\<close>): messages of the connection, from the sender's buffer to the
    flags of the receiver, and the routing of rejections.
  \<^item> \<open>Sync_Prepare\<close> (\<open>mlacp_sync_prepare.c\<close>).
  \<^item> \<open>Mac_Table\<close>, \<open>Mac_Ageing\<close>, \<open>Mac_Sync\<close>, \<open>Mac_Spec\<close>: the MAC table. The relation \<open>mac_step\<close>
    has all operations on it, the events of the ports and of the peer link included, and lets the rest
    of the daemon change in between. Under every sequence of steps the storage is safe (clearing the
    send list is a step where its result is defined, and it is shown exactly when it is not) and no
    entry is aged on both nodes. The batches sent to the peer have the effect of their entries, and
    reports of the hardware and of the peer do exactly what a functional specification says that only
    knows which node an address was learned on.
  \<^item> \<open>Neighbour\<close>: ARP and ND entries.
  \<^item> \<open>Port_State\<close>, \<open>Peer_Update\<close>, \<open>Link_Events\<close>: port channels, their isolation from the peer link and
    their neighbours in the kernel, the reports of the peer, and the events of the session.
  \<^item> \<open>Mlacp_Fsm\<close>, \<open>Fsm_View\<close>, \<open>Fsm_Transit\<close> (\<open>mlacp_fsm.c\<close>): the synchronisation. \<open>Fsm_View\<close> shows which
    part of the state it steps on and that nothing else touches it; \<open>Fsm_Transit\<close> that a run follows
    an abstract protocol, and that a standby node without a peer link gets to the exchange state on
    well-formed messages, table data included.
  \<^item> \<open>Iccp_Session\<close>, \<open>Session_Safety\<close>, \<open>Session_Recv\<close> (\<open>scheduler.c\<close>, \<open>iccp_csm.c\<close>, \<open>app_csm.c\<close>): the life of a
    session. In every reachable state the layers agree with the socket and no session is freed while
    it is in use; a message is received whole however the stream is cut. The locale \<open>recv_loop\<close> is the
    contract of a loop that reads a number of bytes from a socket.
  \<^item> \<open>Lif_Events\<close> (\<open>port.c\<close>, \<open>iccp_netlink.c\<close>, \<open>iccp_ifm.c\<close>): interfaces that appear, change and go away,
    members of port channels, VLAN memberships.
  \<^item> \<open>Neigh_Learn\<close> (\<open>iccp_ifm.c\<close>, \<open>iccp_netlink.c\<close>): neighbours and addresses a node learns from the kernel and
    from packets. No list of neighbours has an address twice, whatever happens in whatever order, and
    messages of the kernel are taken apart into what they were made of.
  \<^item> \<open>Iccp_Config\<close> (\<open>iccp_cli.c\<close>, \<open>iccp_cmd.c\<close>): the commands and the configuration file.
  \<^item> \<open>Syncd_Recv\<close> (\<open>mlacp_link_handler.c\<close>): the messages of mclagsyncd, from the stream of bytes to the
    handler of each type: they are handled whole and in order, unless a read ends inside a header.
  \<^item> \<open>Consistency\<close> (\<open>iccp_consistency_check.c\<close>): the comparison of the two ends of a port channel.
  \<^item> \<open>Ctl_Wire\<close>, \<open>Ctl_Dump\<close>, \<open>Ctl_Client\<close>, \<open>Ctl_Vlans\<close>, \<open>Ctl_Serve\<close> (\<open>mclagdctl.h\<close>, \<open>iccp_cmd_show.c\<close>, \<open>logger.c\<close>,
    \<open>mlacp_link_handler.c\<close>, \<open>mclagdctl.c\<close>): the structures of the control interface, the dumps and the
    requests of the daemon, the log, and the tool. The locale \<open>dump_view\<close> is the contract of a dump; no
    dump leaves its buffer when the numbers of the sessions are distinct and the names it reads are
    terminated, and what the tool prints is the state of the daemon, however the
    messages are cut on the socket.

  \<^bold>\<open>Bounds.\<close> Buffers have their size in the code: 64 KiB for messages between the nodes, 512 bytes for
  lists of ports, 20 bytes for a name, 4096 bytes and multiples of it for a dump. Retries are bounded as in the code: ten for the peer, five for
  mclagsyncd.

  \<^bold>\<open>Not modelled.\<close> The messages written to the log, counters nothing reads, registration with epoll and
  socket options have no effect on the rest. The objects of libnl are data of the model; the sockets
  they come from and the requests that fill the tables at the start are left out, and so is the start
  of the process (\<open>iccp_main.c\<close>, \<open>cmd_option.c\<close>). Outside of \<open>src/iccpd\<close> the repository is build files, platform
  drivers and glue.
\<close>

end
